(* ===== verification/Prelude.thy ===== *)
theory Prelude
  imports Complex_Main "HOL-Library.Monad_Syntax" "HOL-Library.Char_ord"
    "HOL-Library.List_Lexorder" "HOL-Library.Multiset"
begin

text \<open>
  Shared vocabulary of the development: the parts of the JavaScript standard library that
  the front end uses on strings, numbers, arrays and maps, with the lemmas the component
  theories share.

  A JavaScript string is a \<^typ>\<open>string\<close>, one \<^typ>\<open>char\<close> per code unit; code units above 255
  are outside the model. A thrown exception of a synchronous function is \<open>None\<close>.
\<close>

named_theorems js_string "evaluation and algebra of the JavaScript string functions"
named_theorems js_digits "decimal digits, their printing and reading"

section \<open>Strings\<close>

definition startsWith :: "string \<Rightarrow> string \<Rightarrow> bool" where
  "startsWith s p = (take (length p) s = p)"

definition padEnd :: "string \<Rightarrow> nat \<Rightarrow> char \<Rightarrow> string" where
  "padEnd s n c = s @ replicate (n - length s) c"

definition padStart :: "string \<Rightarrow> nat \<Rightarrow> char \<Rightarrow> string" where
  "padStart s n c = replicate (n - length s) c @ s"

text \<open>\<open>s.slice(0, -n)\<close> and \<open>s.slice(-n)\<close>.\<close>

definition slice_but_last :: "nat \<Rightarrow> string \<Rightarrow> string" where
  "slice_but_last n s = take (length s - n) s"

definition slice_last :: "nat \<Rightarrow> string \<Rightarrow> string" where
  "slice_last n s = drop (length s - n) s"

text \<open>\<open>s.split(c)\<close> for a separator of one character: always at least one part.\<close>

fun split_on :: "char \<Rightarrow> string \<Rightarrow> string list" where
  "split_on c [] = [[]]"
| "split_on c (x # xs) =
     (if x = c then [] # split_on c xs
      else (case split_on c xs of [] \<Rightarrow> [[x]] | p # ps \<Rightarrow> (x # p) # ps))"

text \<open>White space and line terminators below 256, as \<open>trim\<close> and the number readers use them.\<close>

definition is_space :: "char \<Rightarrow> bool" where
  "is_space c = (let n = (of_char c :: nat) in 9 \<le> n \<and> n \<le> 13 \<or> n = 32 \<or> n = 160)"

definition trim_end :: "string \<Rightarrow> string" where
  "trim_end s = rev (dropWhile is_space (rev s))"

definition trim :: "string \<Rightarrow> string" where
  "trim s = trim_end (dropWhile is_space s)"

text \<open>\<open>toUpperCase\<close> and \<open>toLowerCase\<close> on the ASCII letters; other code units are kept.\<close>

definition upper_char :: "char \<Rightarrow> char" where
  "upper_char c = (let n = (of_char c :: nat) in
     if 97 \<le> n \<and> n \<le> 122 then char_of (n - 32) else c)"

definition lower_char :: "char \<Rightarrow> char" where
  "lower_char c = (let n = (of_char c :: nat) in
     if 65 \<le> n \<and> n \<le> 90 then char_of (n + 32) else c)"

definition toUpperCase :: "string \<Rightarrow> string" where
  "toUpperCase s = map upper_char s"

definition toLowerCase :: "string \<Rightarrow> string" where
  "toLowerCase s = map lower_char s"

lemma split_on_not_Nil [simp]: "split_on c s \<noteq> []"
  by (induction s) (auto split: list.splits)

lemma split_on_none [js_string]: "c \<notin> set s \<Longrightarrow> split_on c s = [s]"
  by (induction s) auto

lemma split_on_append [js_string]: "c \<notin> set w \<Longrightarrow> split_on c (w @ c # s) = w # split_on c s"
  by (induction w) auto

lemma split_on_two [js_string]:
  "c \<notin> set w \<Longrightarrow> c \<notin> set f \<Longrightarrow> split_on c (w @ c # f) = [w, f]"
  by (simp add: split_on_append split_on_none)

lemma startsWith_Cons [simp]: "startsWith (x # s) [c] = (x = c)"
  by (simp add: startsWith_def)

lemma startsWith_Nil [simp]: "\<not> startsWith [] [c]"
  by (simp add: startsWith_def)

lemma startsWith_append: "startsWith s p \<longleftrightarrow> (\<exists>t. s = p @ t)"
  by (metis append_eq_conv_conj append_take_drop_id startsWith_def)

lemma take_padEnd: "take n (padEnd s n c) = take n s @ replicate (n - length s) c"
  by (simp add: padEnd_def)

lemma padEnd_long: "\<not> length s \<le> n \<Longrightarrow> padEnd s n c = s"
  by (simp add: padEnd_def)

lemma length_padStart: "length (padStart s n c) = max n (length s)"
  by (simp add: padStart_def)

lemma slices_append: "slice_but_last n s @ slice_last n s = s"
  by (simp add: slice_but_last_def slice_last_def)

lemma dropWhile_is_rev_id: "s \<noteq> [] \<Longrightarrow> \<not> P (last s) \<Longrightarrow> rev (dropWhile P (rev s)) = s"
  by (cases s rule: rev_cases) auto

lemma trim_end_split: "\<exists>t. s = trim_end s @ t \<and> (\<forall>c \<in> set t. is_space c)"
proof -
  let ?t = "rev (takeWhile is_space (rev s))"
  have "rev (trim_end s @ ?t) = rev s" by (simp add: trim_end_def)
  then have "trim_end s @ ?t = s" by (rule rev_is_rev_conv [THEN iffD1])
  moreover have "\<forall>c \<in> set ?t. is_space c" by (auto dest: set_takeWhileD)
  ultimately show ?thesis by (intro exI [of _ ?t] conjI) (rule sym)
qed

lemma trim_end_last: "trim_end s \<noteq> [] \<Longrightarrow> \<not> is_space (last (trim_end s))"
  unfolding trim_end_def
  by (metis hd_dropWhile last_rev rev_is_Nil_conv)

lemma hd_trim: "trim s \<noteq> [] \<Longrightarrow> \<not> is_space (hd (trim s))"
proof -
  assume ne: "trim s \<noteq> []"
  let ?d = "dropWhile is_space s"
  obtain t where t: "?d = trim s @ t"
    using trim_end_split [of ?d] unfolding trim_def by blast
  with ne have "?d \<noteq> []" and "hd ?d = hd (trim s)" by auto
  then show ?thesis using hd_dropWhile [of is_space s] by simp
qed

lemma trim_fixed:
  assumes "s = [] \<or> \<not> is_space (hd s) \<and> \<not> is_space (last s)"
  shows "trim s = s"
proof (cases "s = []")
  case True
  then show ?thesis by (simp add: trim_def trim_end_def)
next
  case False
  with assms have "dropWhile is_space s = s" by (cases s) auto
  with False assms show ?thesis
    by (simp add: trim_def trim_end_def dropWhile_is_rev_id)
qed

lemma trim_trim [simp]: "trim (trim s) = trim s"
proof (rule trim_fixed)
  show "trim s = [] \<or> \<not> is_space (hd (trim s)) \<and> \<not> is_space (last (trim s))"
    using hd_trim [of s] trim_end_last [of "dropWhile is_space s"]
    unfolding trim_def by blast
qed

lemma trim_Nil [simp]: "trim [] = []"
  by (simp add: trim_def trim_end_def)

lemma trim_no_space: "\<forall>c \<in> set s. \<not> is_space c \<Longrightarrow> trim s = s"
  by (rule trim_fixed) (cases s, auto)

lemma trim_eq_Nil: "trim s = [] \<longleftrightarrow> (\<forall>c \<in> set s. is_space c)"
proof -
  have "trim s = [] \<longleftrightarrow> (\<forall>c \<in> set (dropWhile is_space s). is_space c)"
    by (simp add: trim_def trim_end_def)
  also have "\<dots> \<longleftrightarrow> dropWhile is_space s = []"
    by (metis dropWhile_eq_Nil_conv hd_dropWhile hd_in_set ball_empty empty_set)
  also have "\<dots> \<longleftrightarrow> (\<forall>c \<in> set s. is_space c)"
    by (simp add: dropWhile_eq_Nil_conv)
  finally show ?thesis .
qed

section \<open>Digits\<close>

definition is_digit :: "char \<Rightarrow> bool" where
  "is_digit c = (let n = (of_char c :: nat) in 48 \<le> n \<and> n \<le> 57)"

definition digit_val :: "char \<Rightarrow> nat" where
  "digit_val c = of_char c - 48"

definition digit_char :: "nat \<Rightarrow> char" where
  "digit_char d = char_of (48 + d)"

definition all_digits :: "string \<Rightarrow> bool" where
  "all_digits s = list_all is_digit s"

text \<open>The value of a string of digits, most significant first; \<open>0\<close> for the empty string.\<close>

definition digits_val :: "string \<Rightarrow> nat" where
  "digits_val s = foldl (\<lambda>a c. 10 * a + digit_val c) 0 s"

fun show_nat :: "nat \<Rightarrow> string" where
  "show_nat n =
     (if n < 10 then [digit_char n] else show_nat (n div 10) @ [digit_char (n mod 10)])"

declare show_nat.simps [simp del]

definition show_int :: "int \<Rightarrow> string" where
  "show_int i = (if i < 0 then ''-'' @ show_nat (nat (- i)) else show_nat (nat i))"

lemma is_digit_digit_char [js_digits]: "d < 10 \<Longrightarrow> is_digit (digit_char d)"
  by (simp add: is_digit_def digit_char_def)

lemma digit_val_digit_char [js_digits]: "d < 10 \<Longrightarrow> digit_val (digit_char d) = d"
  by (simp add: digit_val_def digit_char_def)

lemma digit_val_less [js_digits]: "is_digit c \<Longrightarrow> digit_val c < 10"
  by (auto simp: is_digit_def digit_val_def Let_def)

lemma digit_char_digit_val [js_digits]: "is_digit c \<Longrightarrow> digit_char (digit_val c) = c"
  by (auto simp: is_digit_def digit_val_def digit_char_def Let_def)

lemma digit_char_0: "digit_char 0 = CHR ''0''"
  unfolding digit_char_def using char_of_char [of "CHR ''0''"] by simp

lemma is_digit_consts [simp]:
  "\<not> is_digit CHR ''.''" "\<not> is_digit CHR ''-''" "\<not> is_digit CHR '',''" "\<not> is_digit CHR ''+''"
  "is_digit CHR ''0''" "is_digit CHR ''1''"
  by (simp_all add: is_digit_def)

lemma digit_val_consts [simp]: "digit_val CHR ''0'' = 0" "digit_val CHR ''1'' = 1"
  by (simp_all add: digit_val_def)

lemma digit_not_space: "is_digit c \<Longrightarrow> \<not> is_space c"
  by (auto simp: is_digit_def is_space_def Let_def)

lemma all_digits_simps [simp]:
  "all_digits []" "all_digits (c # s) \<longleftrightarrow> is_digit c \<and> all_digits s"
  "all_digits (s @ t) \<longleftrightarrow> all_digits s \<and> all_digits t"
  by (simp_all add: all_digits_def)

lemma all_digits_set: "all_digits s \<Longrightarrow> c \<in> set s \<Longrightarrow> is_digit c"
  by (simp add: all_digits_def list_all_iff)

lemma all_digits_notin [simp]:
  "all_digits s \<Longrightarrow> CHR ''.'' \<notin> set s" "all_digits s \<Longrightarrow> CHR ''-'' \<notin> set s"
  "all_digits s \<Longrightarrow> CHR '','' \<notin> set s"
  using all_digits_set is_digit_consts by blast+

lemma all_digits_replicate [simp]: "all_digits (replicate n CHR ''0'')"
  by (simp add: all_digits_def list_all_iff)

lemma all_digits_takeWhile [simp]: "all_digits (takeWhile is_digit s)"
  by (auto simp: all_digits_def list_all_iff dest: set_takeWhileD)

lemma all_digits_take [simp]: "all_digits s \<Longrightarrow> all_digits (take n s)"
  by (metis all_digits_simps(3) append_take_drop_id)

lemma all_digits_drop [simp]: "all_digits s \<Longrightarrow> all_digits (drop n s)"
  by (metis all_digits_simps(3) append_take_drop_id)

lemma digits_val_Nil [simp]: "digits_val [] = 0"
  by (simp add: digits_val_def)

lemma digits_val_snoc [simp]: "digits_val (s @ [c]) = 10 * digits_val s + digit_val c"
  by (simp add: digits_val_def)

lemma digits_val_append [js_digits]:
  "digits_val (s @ t) = digits_val s * 10 ^ length t + digits_val t"
proof (induction t rule: rev_induct)
  case Nil
  then show ?case by simp
next
  case (snoc c t)
  have "digits_val (s @ t @ [c]) = 10 * digits_val (s @ t) + digit_val c"
    by (metis append_assoc digits_val_snoc)
  with snoc show ?case by (simp add: algebra_simps)
qed

lemma digits_val_Cons: "digits_val (c # s) = digit_val c * 10 ^ length s + digits_val s"
  using digits_val_append [of "[c]" s] by (simp add: digits_val_def)

lemma digits_val_zeros [simp]: "digits_val (replicate n CHR ''0'') = 0"
  by (induction n) (simp_all add: digits_val_Cons)

lemma digits_val_less: "all_digits s \<Longrightarrow> digits_val s < 10 ^ length s"
proof (induction s)
  case Nil
  then show ?case by simp
next
  case (Cons c s)
  then have "digit_val c < 10" and IH: "digits_val s < 10 ^ length s"
    by (auto simp: digit_val_less)
  then have "digit_val c * 10 ^ length s \<le> 9 * 10 ^ length s"
    by (intro mult_le_mono1) simp
  with IH have "digit_val c * 10 ^ length s + digits_val s < 10 * 10 ^ length s"
    by linarith
  then show ?case by (simp add: digits_val_Cons)
qed

lemma show_nat_not_Nil [simp]: "show_nat n \<noteq> []"
  by (subst show_nat.simps) simp

text \<open>The same digits computed on integers, which the evaluation of concrete dates and amounts
  uses.\<close>

function show_pos :: "int \<Rightarrow> string" where
  "show_pos i = (if i < 10 then [digit_char (nat i)]
     else show_pos (i div 10) @ [digit_char (nat (i mod 10))])"
  by pat_completeness auto
termination by (relation "measure nat") auto

declare show_pos.simps [simp del]

lemma show_nat_nat [code_unfold]: "show_nat (nat i) = show_pos i"
proof (induction i rule: show_pos.induct)
  case (1 i)
  then show ?case
    by (subst show_nat.simps, subst show_pos.simps)
      (auto simp: nat_div_distrib nat_mod_distrib not_less)
qed

lemma all_digits_show_nat [simp]: "all_digits (show_nat n)"
proof (induction n rule: show_nat.induct)
  case (1 n)
  then show ?case
    by (subst show_nat.simps) (simp add: is_digit_digit_char)
qed

lemma digits_val_show_nat [simp]: "digits_val (show_nat n) = n"
proof (induction n rule: show_nat.induct)
  case (1 n)
  show ?case
  proof (cases "n < 10")
    case True
    then show ?thesis
      by (subst show_nat.simps) (simp add: digits_val_Cons digit_val_digit_char)
  next
    case False
    with 1 show ?thesis
      by (subst show_nat.simps) (simp add: digit_val_digit_char)
  qed
qed

lemma show_nat_hd_zero: "hd (show_nat n) = CHR ''0'' \<longleftrightarrow> n = 0"
proof (induction n rule: show_nat.induct)
  case (1 n)
  show ?case
  proof (cases "n < 10")
    case True
    then have "show_nat n = [digit_char n]" by (subst show_nat.simps) simp
    moreover have "digit_char n = CHR ''0'' \<longleftrightarrow> n = 0"
      using digit_val_digit_char [OF True] by (auto simp: digit_char_0)
    ultimately show ?thesis by simp
  next
    case False
    then have "show_nat n = show_nat (n div 10) @ [digit_char (n mod 10)]"
      by (subst show_nat.simps) simp
    with 1 False show ?thesis by simp
  qed
qed

text \<open>Two digit strings of the same length with the same value are the same string.\<close>

lemma digits_val_inj:
  "all_digits s \<Longrightarrow> all_digits t \<Longrightarrow> length s = length t \<Longrightarrow> digits_val s = digits_val t
   \<Longrightarrow> s = t"
proof (induction s arbitrary: t rule: rev_induct)
  case Nil
  then show ?case by simp
next
  case (snoc c s)
  from snoc.prems(3) obtain d t' where t: "t = t' @ [d]"
    by (cases t rule: rev_cases) auto
  from snoc.prems t have "digit_val c < 10" "digit_val d < 10"
    "10 * digits_val s + digit_val c = 10 * digits_val t' + digit_val d"
    by (auto simp: digit_val_less)
  then have "digits_val s = digits_val t'" "digit_val c = digit_val d" by presburger+
  moreover from this have "c = d"
    using snoc.prems t digit_char_digit_val by (metis all_digits_simps(2,3))
  ultimately show ?case using snoc t by auto
qed

lemma show_nat_digits_val:
  assumes "all_digits s" "s \<noteq> []" "hd s \<noteq> CHR ''0''"
  shows "show_nat (digits_val s) = s"
  using assms
proof (induction s rule: rev_induct)
  case Nil
  then show ?case by simp
next
  case (snoc c s)
  show ?case
  proof (cases "s = []")
    case True
    with snoc.prems show ?thesis
      by (subst show_nat.simps) (simp add: digits_val_Cons digit_val_less digit_char_digit_val)
  next
    case False
    with snoc.prems have IH: "show_nat (digits_val s) = s" by (intro snoc.IH) auto
    have "digits_val s \<noteq> 0"
    proof
      assume "digits_val s = 0"
      with IH show_nat_hd_zero [of 0] snoc.prems False show False by auto
    qed
    moreover have "digit_val c < 10" using snoc.prems by (simp add: digit_val_less)
    ultimately show ?thesis
      using IH snoc.prems
      by (subst show_nat.simps) (simp add: digit_char_digit_val)
  qed
qed

lemma length_show_nat: "0 < n \<Longrightarrow> i < 10 ^ n \<Longrightarrow> length (show_nat i) \<le> n"
proof (induction i arbitrary: n rule: show_nat.induct)
  case (1 i)
  show ?case
  proof (cases "i < 10")
    case True
    with 1 show ?thesis by (subst show_nat.simps) simp
  next
    case False
    from 1(2) obtain n' where n: "n = Suc n'" by (cases n) auto
    with 1(3) False have "0 < n'" "i div 10 < 10 ^ n'"
      by (cases n'; simp add: less_mult_imp_div_less mult.commute)+
    with 1(1) False have "length (show_nat (i div 10)) \<le> n'" by simp
    with False n show ?thesis by (subst show_nat.simps) simp
  qed
qed

section \<open>Order of strings\<close>

text \<open>JavaScript compares strings by code units, lexicographically; so does \<^typ>\<open>string\<close> here.\<close>

lemma string_less_append:
  fixes s t u v :: string
  assumes "length s = length t"
  shows "s @ u < t @ v \<longleftrightarrow> s < t \<or> s = t \<and> u < v"
  using assms by (induction s t rule: list_induct2) auto

lemma digit_less: "is_digit c \<Longrightarrow> is_digit d \<Longrightarrow> c < d \<longleftrightarrow> digit_val c < digit_val d"
  by (auto simp: less_char_def is_digit_def digit_val_def Let_def)

lemma digits_less:
  assumes "length s = length t" "all_digits s" "all_digits t"
  shows "s < t \<longleftrightarrow> digits_val s < digits_val t"
  using assms
proof (induction s t rule: list_induct2)
  case Nil
  then show ?case by simp
next
  case (Cons c s d t)
  have b: "digits_val s < 10 ^ length t" "digits_val t < 10 ^ length t"
    using Cons digits_val_less [of s] digits_val_less [of t] by auto
  have lt: "x * 10 ^ length t + a < y * 10 ^ length t + b'"
    if "x < y" "a < 10 ^ length t" for x y a b' :: nat
  proof -
    have "(x + 1) * 10 ^ length t \<le> y * 10 ^ length t" using that(1) by (intro mult_le_mono1) simp
    with that(2) show ?thesis by simp
  qed
  consider "digit_val c < digit_val d" | "digit_val d < digit_val c" | "digit_val c = digit_val d"
    by linarith
  then show ?case
  proof cases
    case 1
    then show ?thesis using Cons b lt [of "digit_val c" "digit_val d"] digit_less [of c d]
      by (simp add: digits_val_Cons)
  next
    case 2
    then have "c \<noteq> d" "\<not> c < d" using Cons digit_less [of c d] by auto
    moreover have "digits_val (d # t) < digits_val (c # s)"
      using 2 Cons b lt [of "digit_val d" "digit_val c" "digits_val t" "digits_val s"]
      by (simp add: digits_val_Cons)
    ultimately show ?thesis by simp
  next
    case 3
    then have "c = d" using Cons.prems digit_char_digit_val by (metis all_digits_simps(2))
    then show ?thesis using Cons by (simp add: digits_val_Cons)
  qed
qed

end
