(* ===== verification/Numbers.thy ===== *)
theory Numbers
  imports Prelude
begin

text \<open>
  The number type of JavaScript and the two conversions between numbers and strings the
  front end uses, \<open>Number(s)\<close> and \<open>String(n)\<close>, and \<open>BigInt(s)\<close> for unbounded integers.

  A finite number is an exact decimal: \<open>Whole i\<close>, or \<open>Frac m k\<close> for the non-integral
  \<open>m / 10^k\<close> in lowest terms. This is what binary64 prints and reads back for literals of at
  most 15 significant digits, which covers the ids, counts and day numbers of the program;
  rounding of longer literals is outside the model.
\<close>

datatype number = NaN | Infinity | NegInfinity | Whole int | Frac int nat

fun norm_dec :: "int \<Rightarrow> nat \<Rightarrow> number" where
  "norm_dec m 0 = Whole m"
| "norm_dec m (Suc k) = (if m mod 10 = 0 then norm_dec (m div 10) k else Frac m (Suc k))"

definition scale10 :: "int \<Rightarrow> int \<Rightarrow> number" where
  "scale10 m e = (if 0 \<le> e then Whole (m * 10 ^ nat e) else norm_dec m (nat (- e)))"

fun negate_number :: "number \<Rightarrow> number" where
  "negate_number NaN = NaN"
| "negate_number Infinity = NegInfinity"
| "negate_number NegInfinity = Infinity"
| "negate_number (Whole i) = Whole (- i)"
| "negate_number (Frac m k) = Frac (- m) k"

fun isInteger :: "number \<Rightarrow> bool" where
  "isInteger (Whole _) = True"
| "isInteger _ = False"

text \<open>The comparisons \<open>n <= 0\<close> and \<open>n < 0\<close>; every comparison with NaN is false.\<close>

fun number_le_0 :: "number \<Rightarrow> bool" where
  "number_le_0 NaN = False"
| "number_le_0 Infinity = False"
| "number_le_0 NegInfinity = True"
| "number_le_0 (Whole i) = (i \<le> 0)"
| "number_le_0 (Frac m _) = (m \<le> 0)"

fun number_less_0 :: "number \<Rightarrow> bool" where
  "number_less_0 NaN = False"
| "number_less_0 Infinity = False"
| "number_less_0 NegInfinity = True"
| "number_less_0 (Whole i) = (i < 0)"
| "number_less_0 (Frac m _) = (m < 0)"

section \<open>Reading literals\<close>

text \<open>An integer literal with a radix prefix (\<open>0x\<close>, \<open>0o\<close>, \<open>0b\<close>), as both readers accept it.\<close>

definition radix_digit :: "char \<Rightarrow> nat" where
  "radix_digit c = (let n = (of_char c :: nat) in
     if is_digit c then n - 48
     else if 97 \<le> n \<and> n \<le> 102 then n - 87
     else if 65 \<le> n \<and> n \<le> 70 then n - 55 else 99)"

definition radix_val :: "nat \<Rightarrow> string \<Rightarrow> nat option" where
  "radix_val b s =
     (if s \<noteq> [] \<and> list_all (\<lambda>c. radix_digit c < b) s
      then Some (foldl (\<lambda>a c. b * a + radix_digit c) 0 s) else None)"

definition prefixed_literal :: "string \<Rightarrow> nat option" where
  "prefixed_literal s =
     (if startsWith s ''0x'' \<or> startsWith s ''0X'' then radix_val 16 (drop 2 s)
      else if startsWith s ''0o'' \<or> startsWith s ''0O'' then radix_val 8 (drop 2 s)
      else if startsWith s ''0b'' \<or> startsWith s ''0B'' then radix_val 2 (drop 2 s)
      else None)"

definition split_sign :: "string \<Rightarrow> bool \<times> string" where
  "split_sign s = (case s of
      [] \<Rightarrow> (False, [])
    | c # r \<Rightarrow> if c = CHR ''-'' then (True, r) else if c = CHR ''+'' then (False, r)
              else (False, s))"

definition digits_int :: "string \<Rightarrow> int option" where
  "digits_int s = (let (neg, d) = split_sign s in
     if d \<noteq> [] \<and> all_digits d
     then Some (if neg then - int (digits_val d) else int (digits_val d)) else None)"

text \<open>\<open>BigInt(s)\<close>: \<open>None\<close> is the SyntaxError.\<close>

definition BigInt :: "string \<Rightarrow> int option" where
  "BigInt s = (let t = trim s in
     if t = [] then Some 0
     else case prefixed_literal t of Some n \<Rightarrow> Some (int n) | None \<Rightarrow> digits_int t)"

definition exponent_part :: "string \<Rightarrow> int option" where
  "exponent_part s = (case s of
      [] \<Rightarrow> Some 0
    | c # r \<Rightarrow> if c = CHR ''e'' \<or> c = CHR ''E'' then digits_int r else None)"

definition unsigned_decimal :: "string \<Rightarrow> number option" where
  "unsigned_decimal s = (let w = takeWhile is_digit s; r = dropWhile is_digit s;
      f = (if startsWith r ''.'' then takeWhile is_digit (tl r) else []);
      r' = (if startsWith r ''.'' then dropWhile is_digit (tl r) else r) in
     if s = ''Infinity'' then Some Infinity
     else if w = [] \<and> f = [] then None
     else map_option (\<lambda>e. scale10 (int (digits_val (w @ f))) (e - int (length f)))
            (exponent_part r'))"

text \<open>\<open>Number(s)\<close>.\<close>

definition Number :: "string \<Rightarrow> number" where
  "Number s = (let t = trim s; (neg, u) = split_sign t in
     if t = [] then Whole 0
     else case prefixed_literal t of Some n \<Rightarrow> Whole (int n) | None \<Rightarrow>
       (case unsigned_decimal u of None \<Rightarrow> NaN
        | Some x \<Rightarrow> if neg then negate_number x else x))"

section \<open>Printing\<close>

text \<open>
  \<open>String(n)\<close>: a finite number prints as digits with a point when the point falls within
  the digits or at most six places before them, in exponent form otherwise.
\<close>

definition show_frac :: "int \<Rightarrow> nat \<Rightarrow> string" where
  "show_frac m k = (let d = show_nat (nat \<bar>m\<bar>); p = int (length d) - int k;
      sign = (if m < 0 then ''-'' else '''') in
     if 0 < p then sign @ take (nat p) d @ ''.'' @ drop (nat p) d
     else if - 6 < p then sign @ ''0.'' @ replicate (nat (- p)) CHR ''0'' @ d
     else sign @ take 1 d @ (if length d = 1 then '''' else ''.'' @ drop 1 d)
          @ ''e-'' @ show_nat (nat (1 - p)))"

fun String_of :: "number \<Rightarrow> string" where
  "String_of NaN = ''NaN''"
| "String_of Infinity = ''Infinity''"
| "String_of NegInfinity = ''-Infinity''"
| "String_of (Whole i) = show_int i"
| "String_of (Frac m k) = show_frac m k"

lemma prefixed_literal_digits:
  assumes "all_digits d" shows "prefixed_literal d = None"
proof -
  have "\<not> startsWith d (CHR ''0'' # c # [])" if "\<not> is_digit c" for c
    using assms that by (auto simp: startsWith_append)
  then have "\<not> startsWith d ''0x'' \<and> \<not> startsWith d ''0X'' \<and> \<not> startsWith d ''0o''
      \<and> \<not> startsWith d ''0O'' \<and> \<not> startsWith d ''0b'' \<and> \<not> startsWith d ''0B''"
    by (simp add: is_digit_def)
  then show ?thesis by (simp add: prefixed_literal_def)
qed

lemma prefixed_literal_minus: "prefixed_literal (CHR ''-'' # d) = None"
  by (simp add: prefixed_literal_def startsWith_def)

lemma split_sign_digits: "all_digits d \<Longrightarrow> split_sign d = (False, d)"
  by (cases d) (auto simp: split_sign_def)

lemma split_sign_minus [simp]: "split_sign (CHR ''-'' # d) = (True, d)"
  by (simp add: split_sign_def)

lemma all_digits_trim: "all_digits d \<Longrightarrow> trim d = d"
  by (rule trim_no_space) (auto simp: digit_not_space dest: all_digits_set)

lemma minus_not_space [simp]: "\<not> is_space CHR ''-''"
  by (simp add: is_space_def)

lemma minus_digits_trim: "all_digits d \<Longrightarrow> trim (CHR ''-'' # d) = CHR ''-'' # d"
  by (rule trim_no_space) (auto simp: digit_not_space dest: all_digits_set)

lemma BigInt_digits: "all_digits d \<Longrightarrow> BigInt d = Some (int (digits_val d))"
  by (auto simp: BigInt_def all_digits_trim prefixed_literal_digits digits_int_def
      split_sign_digits Let_def)

lemma takeWhile_digits: "all_digits d \<Longrightarrow> takeWhile is_digit d = d"
  by (simp add: all_digits_def list_all_iff takeWhile_eq_all_conv)

lemma dropWhile_digits: "all_digits d \<Longrightarrow> dropWhile is_digit d = []"
  by (simp add: all_digits_def list_all_iff dropWhile_eq_Nil_conv)

lemma unsigned_decimal_digits:
  assumes "all_digits d" "d \<noteq> []"
  shows "unsigned_decimal d = Some (Whole (int (digits_val d)))"
proof -
  have "d \<noteq> ''Infinity''" using assms(1) by (auto simp: is_digit_def)
  with assms show ?thesis
    by (simp add: unsigned_decimal_def takeWhile_digits dropWhile_digits exponent_part_def
        scale10_def)
qed

text \<open>An integral number printed and read back is itself.\<close>

lemma Number_show_int [simp]: "Number (show_int i) = Whole i"
proof (cases "i < 0")
  case True
  then show ?thesis
    by (simp add: Number_def show_int_def minus_digits_trim prefixed_literal_minus
        unsigned_decimal_digits)
next
  case False
  then show ?thesis
    by (simp add: Number_def show_int_def all_digits_trim prefixed_literal_digits
        split_sign_digits unsigned_decimal_digits)
qed

lemma show_int_inject [simp]: "show_int i = show_int j \<longleftrightarrow> i = j"
  by (metis Number_show_int number.inject(1))

lemma show_int_not_Nil [simp]: "show_int i \<noteq> []"
  by (simp add: show_int_def)

lemma Number_empty [simp]: "Number [] = Whole 0"
  by (simp add: Number_def split_sign_def)

end
