(* ===== verification/Amount.thy ===== *)
theory Amount
  imports Numbers "HOL-Library.Signed_Division"
begin

text \<open>
  The exact-decimal helpers of \<open>web/src/lib/amount.ts\<close>: amounts are strings with up to four
  decimals, computed with as integers scaled by \<open>10^4\<close>.
  A result of \<open>None\<close> where the source has no \<open>null\<close> is the SyntaxError of \<open>BigInt\<close>.
\<close>

section \<open>Units\<close>

definition SCALE :: nat where
  "SCALE = 4"

definition toUnits :: "string \<Rightarrow> int option" where
  "toUnits value =
     (let neg = startsWith value ''-'';
          ps = split_on CHR ''.'' (if neg then drop 1 value else value);
          whole = hd ps;
          frac = (if length ps < 2 then [] else ps ! 1);
          units = BigInt (whole @ take SCALE (padEnd frac SCALE CHR ''0''))
      in map_option (\<lambda>u. if neg then - u else u) units)"

definition fromUnits :: "int \<Rightarrow> string" where
  "fromUnits units =
     (let neg = units < 0;
          digits = padStart (show_nat (nat (if neg then - units else units)))
                     (SCALE + 1) CHR ''0''
      in (if neg then ''-'' else []) @ slice_but_last SCALE digits @ ''.''
         @ slice_last SCALE digits)"

definition sumAmounts :: "string list \<Rightarrow> string option" where
  "sumAmounts values =
     map_option fromUnits
       (foldl (\<lambda>total v. do { t \<leftarrow> total; u \<leftarrow> toUnits v; Some (t + u) }) (Some 0) values)"

definition isZeroAmount :: "string \<Rightarrow> bool option" where
  "isZeroAmount value = map_option (\<lambda>u. u = 0) (toUnits value)"

definition negateAmount :: "string \<Rightarrow> string option" where
  "negateAmount value = map_option (\<lambda>u. fromUnits (- u)) (toUnits value)"

text \<open>BigInt division truncates and the remainder has the sign of the dividend.\<close>

definition roundDiv :: "int \<Rightarrow> int \<Rightarrow> int" where
  "roundDiv n d =
     (let q = n sdiv d; r = (n smod d) * 2
      in if d \<le> r then q + 1 else if d \<le> - r then q - 1 else q)"

text \<open>\<open>/^-?(\d+(\.\d*)?|\.\d+)$/\<close>.\<close>

definition AMOUNT_RE :: "string \<Rightarrow> bool" where
  "AMOUNT_RE s =
     (let b = (if startsWith s ''-'' then drop 1 s else s);
          w = takeWhile is_digit b; r = dropWhile is_digit b
      in if w \<noteq> [] then r = [] \<or> hd r = CHR ''.'' \<and> all_digits (tl r)
         else r \<noteq> [] \<and> hd r = CHR ''.'' \<and> tl r \<noteq> [] \<and> all_digits (tl r))"

record line_money =
  lm_subtotal :: string
  lm_tax :: string
  lm_total :: string

text \<open>The outer \<open>None\<close> is an exception, \<open>Some None\<close> is the result \<open>null\<close>.\<close>

definition lineAmounts :: "string \<Rightarrow> string \<Rightarrow> string \<Rightarrow> line_money option option" where
  "lineAmounts quantity unitPrice taxRate =
     (if \<not> list_all AMOUNT_RE [quantity, unitPrice, taxRate] then Some None
      else do {
        q \<leftarrow> toUnits quantity;
        p \<leftarrow> toUnits unitPrice;
        t \<leftarrow> toUnits taxRate;
        let qp = q * p;
        let subtotal = roundDiv qp 10000;
        let tax = roundDiv (qp * t) 10000000000;
        Some (Some \<lparr>lm_subtotal = fromUnits subtotal, lm_tax = fromUnits tax,
                    lm_total = fromUnits (subtotal + tax)\<rparr>)
      })"

text \<open>
  \<open>value.replace(/\.?0+$/, "")\<close>: the leftmost match is the run of zeros at the end, with a
  point just before it; without a zero at the end nothing is replaced.
\<close>

definition strip_zeros :: "string \<Rightarrow> string" where
  "strip_zeros s =
     (let r = dropWhile (\<lambda>c. c = CHR ''0'') (rev s)
      in if length r = length s then s
         else rev (if startsWith r ''.'' then drop 1 r else r))"

definition trimAmount :: "string \<Rightarrow> string" where
  "trimAmount value = (if CHR ''.'' \<notin> set value then value else strip_zeros value)"

text \<open>
  \<open>whole.replace(/\B(?=(\d{3})+$)/g, ",")\<close>: a comma at every position that is not a word
  boundary and is followed by digits only, a positive multiple of three of them. \<open>prev\<close> is
  whether the code unit before the position is a word character.
\<close>

definition is_word :: "char \<Rightarrow> bool" where
  "is_word c = (let n = (of_char c :: nat) in
     is_digit c \<or> 65 \<le> n \<and> n \<le> 90 \<or> 97 \<le> n \<and> n \<le> 122 \<or> n = 95)"

fun group_from :: "bool \<Rightarrow> string \<Rightarrow> string" where
  "group_from prev [] = []"
| "group_from prev (c # s) =
     (if prev = is_word c \<and> all_digits (c # s) \<and> length (c # s) mod 3 = 0 then '','' else [])
     @ c # group_from (is_word c) s"

definition formatAmount :: "string \<Rightarrow> string" where
  "formatAmount value =
     (let neg = startsWith value ''-'';
          ps = split_on CHR ''.'' (if neg then drop 1 value else value);
          whole = hd ps;
          frac = (if length ps < 2 then [] else ps ! 1);
          grouped = group_from False whole;
          decimals = padEnd (rev (dropWhile (\<lambda>c. c = CHR ''0'') (rev frac))) 2 CHR ''0''
      in (if neg then ''-'' else []) @ grouped @ ''.'' @ decimals)"

section \<open>The value an amount string stands for\<close>

text \<open>
  An amount string splits into a sign, whole digits and fraction digits; its value is the
  exact decimal. This is the specification side: nothing here is code of the front end.
\<close>

definition amount_body :: "string \<Rightarrow> string" where
  "amount_body s = (if startsWith s ''-'' then drop 1 s else s)"

definition whole_digits :: "string \<Rightarrow> string" where
  "whole_digits s = takeWhile is_digit (amount_body s)"

definition frac_digits :: "string \<Rightarrow> string" where
  "frac_digits s = drop 1 (dropWhile is_digit (amount_body s))"

definition amount_value :: "string \<Rightarrow> rat" where
  "amount_value s = (if startsWith s ''-'' then - 1 else 1)
     * of_nat (digits_val (whole_digits s @ frac_digits s)) / 10 ^ length (frac_digits s)"

text \<open>The amounts that fit the fixed scale, as the database prints them.\<close>

definition scale4 :: "string \<Rightarrow> bool" where
  "scale4 s \<longleftrightarrow> AMOUNT_RE s \<and> length (frac_digits s) \<le> SCALE"

text \<open>The integer part of a rational number, dropping the fraction on both sides of zero.\<close>

definition trunc_rat :: "rat \<Rightarrow> int" where
  "trunc_rat x = (if x < 0 then - \<lfloor>- x\<rfloor> else \<lfloor>x\<rfloor>)"

lemma AMOUNT_RE_body: "AMOUNT_RE s \<longleftrightarrow>
    (let w = takeWhile is_digit (amount_body s); r = dropWhile is_digit (amount_body s)
     in if w \<noteq> [] then r = [] \<or> hd r = CHR ''.'' \<and> all_digits (tl r)
        else r \<noteq> [] \<and> hd r = CHR ''.'' \<and> tl r \<noteq> [] \<and> all_digits (tl r))"
  by (simp only: AMOUNT_RE_def amount_body_def Let_def)

text \<open>The two shapes of the body of a string the regular expression accepts.\<close>

lemma AMOUNT_RE_cases:
  assumes "AMOUNT_RE s"
  shows "all_digits (whole_digits s)" "all_digits (frac_digits s)"
    "whole_digits s @ frac_digits s \<noteq> []"
    "amount_body s = whole_digits s \<and> frac_digits s = []
     \<or> amount_body s = whole_digits s @ ''.'' @ frac_digits s"
proof -
  let ?b = "amount_body s"
  have split: "?b = takeWhile is_digit ?b @ dropWhile is_digit ?b" by simp
  have "all_digits (whole_digits s) \<and> all_digits (frac_digits s)
    \<and> whole_digits s @ frac_digits s \<noteq> []
    \<and> (?b = whole_digits s \<and> frac_digits s = [] \<or> ?b = whole_digits s @ ''.'' @ frac_digits s)"
  proof (cases "dropWhile is_digit ?b")
    case Nil
    have "frac_digits s = []" by (simp only: frac_digits_def Nil drop_Nil)
    moreover from Nil split have "?b = whole_digits s"
      unfolding whole_digits_def by (metis append_Nil2)
    moreover have "all_digits (whole_digits s)" by (simp add: whole_digits_def)
    moreover from assms Nil have "whole_digits s \<noteq> []"
      unfolding AMOUNT_RE_body whole_digits_def Let_def by presburger
    ultimately show ?thesis by simp
  next
    case (Cons c r)
    with assms have "c = CHR ''.''" "all_digits r" "whole_digits s @ r \<noteq> []"
      by (auto simp: AMOUNT_RE_body Let_def whole_digits_def split: if_splits)
    with Cons split show ?thesis by (simp add: whole_digits_def frac_digits_def)
  qed
  then show "all_digits (whole_digits s)" "all_digits (frac_digits s)"
    "whole_digits s @ frac_digits s \<noteq> []"
    "?b = whole_digits s \<and> frac_digits s = [] \<or> ?b = whole_digits s @ ''.'' @ frac_digits s"
    by blast+
qed

lemma digits_val_scaled:
  assumes "all_digits f"
  shows "digits_val (w @ take n (padEnd f n CHR ''0''))
         = digits_val (w @ f) * 10 ^ n div 10 ^ length f"
proof (cases "length f \<le> n")
  case True
  have pow: "(10::nat) ^ n = 10 ^ (n - length f) * 10 ^ length f"
    using True by (simp flip: power_add)
  then have "digits_val (w @ take n (padEnd f n CHR ''0''))
      = digits_val (w @ f) * 10 ^ (n - length f)"
    using True by (simp add: take_padEnd digits_val_append algebra_simps)
  moreover note pow
  ultimately show ?thesis by simp
next
  case False
  let ?k = "length f - n"
  have "digits_val (w @ f) = digits_val (w @ take n f) * 10 ^ ?k + digits_val (drop n f)"
    using digits_val_append [of "w @ take n f" "drop n f"] False by simp
  moreover have "digits_val (drop n f) < 10 ^ ?k"
    using digits_val_less [of "drop n f"] assms by simp
  ultimately have "digits_val (w @ f) div 10 ^ ?k = digits_val (w @ take n f)" by simp
  moreover have "(10::nat) ^ length f = 10 ^ ?k * 10 ^ n"
    using False by (simp flip: power_add)
  ultimately show ?thesis using False by (simp add: take_padEnd)
qed

lemma toUnits_AMOUNT_RE:
  assumes "AMOUNT_RE s"
  shows "toUnits s = Some ((if startsWith s ''-'' then - 1 else 1)
     * int (digits_val (whole_digits s @ frac_digits s) * 10 ^ SCALE
            div 10 ^ length (frac_digits s)))"
proof -
  let ?w = "whole_digits s" and ?f = "frac_digits s"
  note c = AMOUNT_RE_cases [OF assms]
  let ?ps = "split_on CHR ''.'' (amount_body s)"
  have ps: "hd ?ps = ?w" "(if length ?ps < 2 then [] else ?ps ! 1) = ?f"
    using c by (auto simp: split_on_none split_on_two)
  have "all_digits (?w @ take SCALE (padEnd ?f SCALE CHR ''0''))"
    using c by (simp add: take_padEnd)
  then have "BigInt (?w @ take SCALE (padEnd ?f SCALE CHR ''0''))
      = Some (int (digits_val (?w @ ?f) * 10 ^ SCALE div 10 ^ length ?f))"
    using c(2) by (simp add: BigInt_digits digits_val_scaled)
  then show ?thesis
    unfolding toUnits_def Let_def amount_body_def [symmetric] ps by simp
qed

lemma floor_of_nat_quotient: "\<lfloor>(of_nat a / of_nat b :: rat)\<rfloor> = int (a div b)"
  by (metis floor_divide_of_nat_eq)

lemma AMOUNT_RE_minus: "AMOUNT_RE s \<Longrightarrow> startsWith s ''-'' \<Longrightarrow> s = CHR ''-'' # amount_body s"
  by (cases s) (auto simp: amount_body_def)

lemma trunc_rat_sign:
  "0 \<le> y \<Longrightarrow> trunc_rat ((if b then - 1 else 1) * y) = (if b then - 1 else 1) * \<lfloor>y\<rfloor>"
  by (cases "y = 0") (auto simp: trunc_rat_def)

lemma toUnits_truncates:
  assumes "AMOUNT_RE s"
  shows "toUnits s = Some (trunc_rat (amount_value s * 10 ^ SCALE))"
proof -
  let ?n = "digits_val (whole_digits s @ frac_digits s) * 10 ^ SCALE"
  let ?d = "10 ^ length (frac_digits s) :: nat"
  have "amount_value s * 10 ^ SCALE
      = (if startsWith s ''-'' then - 1 else 1) * (of_nat ?n / of_nat ?d)"
    by (simp add: amount_value_def)
  moreover have "trunc_rat ((if startsWith s ''-'' then - 1 else 1) * (of_nat ?n / of_nat ?d))
      = (if startsWith s ''-'' then - 1 else 1) * \<lfloor>(of_nat ?n / of_nat ?d :: rat)\<rfloor>"
    by (rule trunc_rat_sign) (intro divide_nonneg_nonneg of_nat_0_le_iff)
  ultimately have "trunc_rat (amount_value s * 10 ^ SCALE)
      = (if startsWith s ''-'' then - 1 else 1) * \<lfloor>(of_nat ?n / of_nat ?d :: rat)\<rfloor>"
    by (simp only:)
  then show ?thesis
    unfolding toUnits_AMOUNT_RE [OF assms] floor_of_nat_quotient by simp
qed

lemma trunc_rat_of_int [simp]: "trunc_rat (of_int i) = i"
  by (simp add: trunc_rat_def floor_minus)

text \<open>Within four decimals nothing is dropped.\<close>

lemma scale4_units:
  assumes "scale4 s"
  shows "\<exists>u. toUnits s = Some u \<and> of_int u = amount_value s * 10 ^ SCALE"
proof -
  let ?f = "frac_digits s" and ?m = "digits_val (whole_digits s @ frac_digits s)"
  have re: "AMOUNT_RE s" and le: "length ?f \<le> SCALE" using assms by (auto simp: scale4_def)
  have pow: "(10::rat) ^ SCALE = 10 ^ length ?f * 10 ^ (SCALE - length ?f)"
    using le by (simp flip: power_add)
  let ?u = "(if startsWith s ''-'' then - 1 else 1) * int (?m * 10 ^ (SCALE - length ?f))"
  have u: "of_int ?u = amount_value s * 10 ^ SCALE"
    unfolding amount_value_def pow by simp
  then have "toUnits s = Some ?u"
    using toUnits_truncates [OF re] by (metis trunc_rat_of_int)
  with u show ?thesis by blast
qed

section \<open>Printing units\<close>

lemma slice_padded:
  fixes n :: nat
  defines "d \<equiv> padStart (show_nat n) (SCALE + 1) CHR ''0''"
  shows "all_digits d" "slice_but_last SCALE d \<noteq> []" "length (slice_last SCALE d) = SCALE"
    "digits_val (slice_but_last SCALE d @ slice_last SCALE d) = n"
proof -
  show "all_digits d" by (simp add: d_def padStart_def)
  have len: "SCALE + 1 \<le> length d" by (simp add: d_def length_padStart)
  then show "slice_but_last SCALE d \<noteq> []" "length (slice_last SCALE d) = SCALE"
    by (auto simp: slice_but_last_def slice_last_def)
  show "digits_val (slice_but_last SCALE d @ slice_last SCALE d) = n"
    by (simp only: slices_append d_def padStart_def digits_val_append digits_val_zeros)
      simp
qed

text \<open>The printed form: an optional minus, at least one digit, a point, four digits.\<close>

lemma fromUnits_shape:
  obtains w f where "fromUnits u = (if u < 0 then ''-'' else []) @ w @ ''.'' @ f"
    "all_digits w" "w \<noteq> []" "all_digits f" "length f = SCALE"
    "digits_val (w @ f) = nat \<bar>u\<bar>"
proof -
  let ?n = "nat (if u < 0 then - u else u)"
  let ?d = "padStart (show_nat ?n) (SCALE + 1) CHR ''0''"
  note p = slice_padded [of ?n]
  have n: "?n = nat \<bar>u\<bar>" by simp
  show thesis
  proof (rule that [of "slice_but_last SCALE ?d" "slice_last SCALE ?d"])
    show "fromUnits u = (if u < 0 then ''-'' else []) @ slice_but_last SCALE ?d @ ''.''
        @ slice_last SCALE ?d" by (simp only: fromUnits_def Let_def)
    show "all_digits (slice_but_last SCALE ?d)" "all_digits (slice_last SCALE ?d)"
      using p(1) by (simp_all add: slice_but_last_def slice_last_def)
  qed (use p n in simp_all)
qed

lemma digit_Cons: "all_digits w \<Longrightarrow> w \<noteq> [] \<Longrightarrow> \<not> startsWith (w @ s) ''-''"
  by (cases w) auto

lemma takeWhile_digits_point:
  "all_digits w \<Longrightarrow> takeWhile is_digit (w @ CHR ''.'' # f) = w"
  "all_digits w \<Longrightarrow> dropWhile is_digit (w @ CHR ''.'' # f) = CHR ''.'' # f"
  by (simp_all add: all_digits_def list_all_iff)

text \<open>Parsing a sign, digits, a point and digits.\<close>

lemma point_amount:
  assumes s: "s = (if neg then ''-'' else []) @ w @ ''.'' @ f"
    and w: "all_digits w" "w \<noteq> []" and f: "all_digits f"
  shows "AMOUNT_RE s" "whole_digits s = w" "frac_digits s = f" "startsWith s ''-'' = neg"
proof -
  show neg: "startsWith s ''-'' = neg"
    unfolding s using digit_Cons [OF w, of "''.'' @ f"] by simp
  have b: "amount_body s = w @ CHR ''.'' # f"
    unfolding amount_body_def neg by (simp add: s)
  show "whole_digits s = w" "frac_digits s = f"
    unfolding whole_digits_def frac_digits_def b by (simp_all add: takeWhile_digits_point w)
  show "AMOUNT_RE s"
    unfolding AMOUNT_RE_body b by (simp add: takeWhile_digits_point w f)
qed

lemma fromUnits_scale4 [simp]: "scale4 (fromUnits u)"
proof -
  obtain w f where "fromUnits u = (if u < 0 then ''-'' else []) @ w @ ''.'' @ f"
    "all_digits w" "w \<noteq> []" "all_digits f" "length f = SCALE"
    by (rule fromUnits_shape)
  from point_amount [OF this(1-4)] this(5) show ?thesis by (simp add: scale4_def)
qed

lemma amount_value_fromUnits [simp]: "amount_value (fromUnits u) = of_int u / 10 ^ SCALE"
proof -
  obtain w f where s: "fromUnits u = (if u < 0 then ''-'' else []) @ w @ ''.'' @ f"
    "all_digits w" "w \<noteq> []" "all_digits f" "length f = SCALE"
    and v: "digits_val (w @ f) = nat \<bar>u\<bar>"
    by (rule fromUnits_shape)
  show ?thesis
    unfolding amount_value_def point_amount [OF s(1-4)] s(5) v by auto
qed

lemma toUnits_fromUnits [simp]: "toUnits (fromUnits u) = Some u"
proof -
  have "AMOUNT_RE (fromUnits u)" using fromUnits_scale4 [of u] by (simp add: scale4_def)
  from toUnits_truncates [OF this] show ?thesis by simp
qed

section \<open>The contract of the helpers\<close>

text \<open>
  What the screens rely on: on well-formed amounts, sums, negation and the zero test are
  those of the exact decimal values, and results are well-formed again. The reports and the
  dashboard are proved against this interface, never against the string representation.
\<close>

locale amount_ops =
  fixes ok :: "string \<Rightarrow> bool"
    and val :: "string \<Rightarrow> rat"
    and sum_op :: "string list \<Rightarrow> string option"
    and negate_op :: "string \<Rightarrow> string option"
    and zero_op :: "string \<Rightarrow> bool option"
  assumes sum_law: "list_all ok vs \<Longrightarrow>
      \<exists>r. sum_op vs = Some r \<and> ok r \<and> val r = sum_list (map val vs)"
    and negate_law: "ok v \<Longrightarrow> \<exists>r. negate_op v = Some r \<and> ok r \<and> val r = - val v"
    and zero_law: "ok v \<Longrightarrow> zero_op v = Some (val v = 0)"
begin

lemma sum_value: "list_all ok vs \<Longrightarrow> sum_op vs = Some r \<Longrightarrow> val r = sum_list (map val vs)"
  using sum_law by force

lemma sum_ok: "list_all ok vs \<Longrightarrow> sum_op vs = Some r \<Longrightarrow> ok r"
  using sum_law by force

lemma sum_defined: "list_all ok vs \<Longrightarrow> sum_op vs \<noteq> None"
  using sum_law by force

lemma negate_value: "ok v \<Longrightarrow> negate_op v = Some r \<Longrightarrow> ok r \<and> val r = - val v"
  using negate_law by force

text \<open>Splitting the addends by a predicate splits the sum.\<close>

lemma sum_list_filter_split:
  "sum_list (map val (filter P vs)) + sum_list (map val (filter (\<lambda>v. \<not> P v) vs))
   = sum_list (map val vs)"
  by (induction vs) (simp_all add: algebra_simps)

lemma sum_mset_eq:
  assumes "list_all ok vs" "mset vs = mset ws" "sum_op vs = Some r" "sum_op ws = Some r'"
  shows "val r = val r'"
proof -
  have "list_all ok ws" using assms(1,2) by (metis list_all_iff set_mset_mset)
  then have "val r' = sum_list (map val ws)" using assms(4) sum_value by blast
  moreover have "sum_list (map val vs) = sum_list (map val ws)"
    using assms(2) by (metis mset_map sum_mset_sum_list)
  ultimately show ?thesis using assms(1,3) sum_value by simp
qed

text \<open>The difference the screens form as a sum with a negated amount.\<close>

lemma sum_minus:
  assumes "ok a" "ok b"
  shows "\<exists>n r. negate_op b = Some n \<and> sum_op [a, n] = Some r \<and> ok r \<and> val r = val a - val b"
proof -
  obtain n where n: "negate_op b = Some n" "ok n" "val n = - val b"
    using negate_law [OF assms(2)] by blast
  then obtain r where "sum_op [a, n] = Some r" "ok r" "val r = val a + val n"
    using sum_law [of "[a, n]"] assms(1) by auto
  with n show ?thesis by auto
qed

end

lemma sum_fold_units:
  assumes "list_all2 (\<lambda>v u. toUnits v = Some u) vs us"
  shows "foldl (\<lambda>total v. do { t \<leftarrow> total; u \<leftarrow> toUnits v; Some (t + u) }) (Some a) vs
         = Some (a + sum_list us)"
  using assms by (induction vs us arbitrary: a rule: list_all2_induct) (simp_all add: algebra_simps)

lemma sumAmounts_units:
  "list_all2 (\<lambda>v u. toUnits v = Some u) vs us \<Longrightarrow> sumAmounts vs = Some (fromUnits (sum_list us))"
  unfolding sumAmounts_def using sum_fold_units [of vs us 0] by simp

lemma scale4_units_list:
  "list_all scale4 vs \<Longrightarrow> \<exists>us. list_all2 (\<lambda>v u. toUnits v = Some u) vs us
     \<and> of_int (sum_list us) = sum_list (map amount_value vs) * 10 ^ SCALE"
proof (induction vs)
  case Nil
  show ?case by (intro exI [of _ "[]"]) simp
next
  case (Cons v vs)
  then obtain us u where "list_all2 (\<lambda>v u. toUnits v = Some u) vs us"
    "of_int (sum_list us) = sum_list (map amount_value vs) * 10 ^ SCALE"
    "toUnits v = Some u" "of_int u = amount_value v * 10 ^ SCALE"
    using scale4_units by fastforce
  then show ?case by (intro exI [of _ "u # us"]) (simp add: algebra_simps)
qed

interpretation am: amount_ops scale4 amount_value sumAmounts negateAmount isZeroAmount
proof
  fix vs assume "list_all scale4 vs"
  then obtain us where us: "list_all2 (\<lambda>v u. toUnits v = Some u) vs us"
    "of_int (sum_list us) = sum_list (map amount_value vs) * 10 ^ SCALE"
    using scale4_units_list by blast
  show "\<exists>r. sumAmounts vs = Some r \<and> scale4 r
      \<and> amount_value r = sum_list (map amount_value vs)"
    using us(2) by (simp add: sumAmounts_units [OF us(1)])
next
  fix v assume "scale4 v"
  then obtain u where u: "toUnits v = Some u" "of_int u = amount_value v * 10 ^ SCALE"
    using scale4_units by blast
  then show "\<exists>r. negateAmount v = Some r \<and> scale4 r \<and> amount_value r = - amount_value v"
    by (simp add: negateAmount_def)
  from u(2) have "u = 0 \<longleftrightarrow> amount_value v = 0" by (metis mult_eq_0_iff of_int_0 of_int_0_eq_iff
      power_not_zero zero_neq_numeral)
  with u(1) show "isZeroAmount v = Some (amount_value v = 0)" by (simp add: isZeroAmount_def)
qed

section \<open>Rounding\<close>

text \<open>Rounding half away from zero, the rule of the database's \<open>round(numeric)\<close>.\<close>

definition round_half_away :: "rat \<Rightarrow> int" where
  "round_half_away x = (if x < 0 then - \<lfloor>1 / 2 - x\<rfloor> else \<lfloor>x + 1 / 2\<rfloor>)"

lemma roundDiv_minus: "0 < d \<Longrightarrow> roundDiv (- n) d = - roundDiv n d"
proof -
  assume "0 < d"
  have q: "- n sdiv d = - (n sdiv d)" by (simp add: signed_divide_int_def)
  have "- n smod d = - n - d * (- n sdiv d)"
    by (metis add_diff_cancel_left' sdiv_mult_smod_eq mult.commute)
  moreover have "n smod d = n - d * (n sdiv d)"
    by (metis add_diff_cancel_left' sdiv_mult_smod_eq mult.commute)
  ultimately have "- n smod d = - (n smod d)" by (simp add: q)
  with q \<open>0 < d\<close> show ?thesis by (simp add: roundDiv_def Let_def)
qed

lemma roundDiv_nonneg:
  assumes "0 < d" "0 \<le> n"
  shows "roundDiv n d = (2 * n + d) div (2 * d)"
proof -
  have q: "n sdiv d = n div d" using assms by (simp add: signed_divide_int_def sgn_if)
  have r: "n smod d = n mod d" using assms by (simp add: signed_modulo_int_def sgn_if)
  let ?q = "n div d" and ?r = "n mod d"
  have n: "n = d * ?q + ?r" and b: "0 \<le> ?r" "?r < d" using assms by auto
  have "\<And>q r. n = d * q + r \<Longrightarrow> 2 * n + d = (2 * r + d) + q * (2 * d)"
    by (simp add: algebra_simps)
  from this [OF n] have eq: "2 * n + d = (2 * ?r + d) + ?q * (2 * d)" .
  have "(2 * n + d) div (2 * d) = ?q + (2 * ?r + d) div (2 * d)"
    unfolding eq using assms(1) by (subst div_mult_self1) auto
  moreover have "(2 * ?r + d) div (2 * d) = (if d \<le> 2 * ?r then 1 else 0)"
  proof (cases "d \<le> 2 * ?r")
    case True
    then show ?thesis using b by (simp add: int_div_pos_eq [where r = "2 * ?r - d"])
  next
    case False
    then show ?thesis using b by (simp add: div_pos_pos_trivial)
  qed
  moreover have "\<not> d \<le> - (?r * 2)" using b assms by linarith
  ultimately show ?thesis by (simp add: roundDiv_def q r Let_def mult.commute)
qed

lemma floor_int_quotient: "\<lfloor>(of_int a / of_int b :: rat)\<rfloor> = a div b"
  by (simp add: floor_divide_of_int_eq)

lemma roundDiv_round_half_away:
  assumes "0 < d"
  shows "roundDiv n d = round_half_away (of_int n / of_int d)"
proof -
  have pos: "roundDiv m d = \<lfloor>of_int m / of_int d + 1 / (2::rat)\<rfloor>" if "0 \<le> m" for m
  proof -
    have "of_int m / of_int d + 1 / 2 = (of_int (2 * m + d) / of_int (2 * d) :: rat)"
      using assms by (simp add: field_simps)
    then show ?thesis
      using roundDiv_nonneg [OF assms that] by (simp only: floor_int_quotient)
  qed
  show ?thesis
  proof (cases "n < 0")
    case True
    then have "roundDiv n d = - \<lfloor>of_int (- n) / of_int d + 1 / (2::rat)\<rfloor>"
      using roundDiv_minus [OF assms, of n] pos [of "- n"] by simp
    moreover have "of_int n / of_int d < (0::rat)"
      using True assms by (simp add: divide_neg_pos)
    ultimately show ?thesis by (simp add: round_half_away_def add.commute)
  next
    case False
    then have "\<not> of_int n / of_int d < (0::rat)"
      using assms by (simp add: not_less)
    with False pos [of n] show ?thesis by (simp add: round_half_away_def)
  qed
qed

lemma lineAmounts_units:
  assumes "AMOUNT_RE q" "AMOUNT_RE p" "AMOUNT_RE t"
  obtains uq up ut where
    "toUnits q = Some uq" "toUnits p = Some up" "toUnits t = Some ut"
    "lineAmounts q p t = Some (Some
       \<lparr>lm_subtotal = fromUnits (roundDiv (uq * up) 10000),
        lm_tax = fromUnits (roundDiv (uq * up * ut) 10000000000),
        lm_total = fromUnits (roundDiv (uq * up) 10000
                              + roundDiv (uq * up * ut) 10000000000)\<rparr>)"
proof -
  obtain uq up ut where u: "toUnits q = Some uq" "toUnits p = Some up" "toUnits t = Some ut"
    using assms toUnits_truncates by blast
  show thesis
    by (rule that [OF u]) (simp add: lineAmounts_def assms u Let_def)
qed

section \<open>Trimming\<close>

lemma dropWhile_zeros_split:
  "\<exists>n. s = rev (dropWhile (\<lambda>c. c = CHR ''0'') (rev s)) @ replicate n CHR ''0''"
proof -
  let ?P = "\<lambda>c. c = CHR ''0''"
  have "rev (rev (dropWhile ?P (rev s)) @ rev (takeWhile ?P (rev s))) = rev s" by simp
  then have "rev (dropWhile ?P (rev s)) @ rev (takeWhile ?P (rev s)) = s"
    by (rule rev_is_rev_conv [THEN iffD1])
  moreover have "takeWhile ?P (rev s) = replicate (length (takeWhile ?P (rev s))) CHR ''0''"
    by (rule replicate_eqI [symmetric, THEN sym]) (auto dest: set_takeWhileD)
  ultimately show ?thesis by (metis rev_replicate)
qed

lemma last_no_zero:
  "rev (dropWhile (\<lambda>c. c = CHR ''0'') (rev s)) \<noteq> []
   \<Longrightarrow> last (rev (dropWhile (\<lambda>c. c = CHR ''0'') (rev s))) \<noteq> CHR ''0''"
  using hd_dropWhile [of "\<lambda>c. c = CHR ''0''" "rev s"] by (simp add: last_rev)

lemma dropWhile_append_point:
  "dropWhile (\<lambda>c. c = CHR ''0'') (rev (w @ CHR ''.'' # f))
   = dropWhile (\<lambda>c. c = CHR ''0'') (rev f) @ CHR ''.'' # rev w"
  by (induction f rule: rev_induct) auto

text \<open>What is left of an amount with a point: the zeros go, and the point with them when
  no fraction digit is left.\<close>

lemma strip_zeros_point:
  fixes f defines "f' \<equiv> rev (dropWhile (\<lambda>c. c = CHR ''0'') (rev f))"
  assumes f: "all_digits f"
  shows "strip_zeros (w @ CHR ''.'' # f) =
    (if f' = [] \<and> f \<noteq> [] then w else w @ CHR ''.'' # f')"
proof -
  let ?r = "dropWhile (\<lambda>c. c = CHR ''0'') (rev (w @ CHR ''.'' # f))"
  have r: "?r = rev f' @ CHR ''.'' # rev w"
    unfolding dropWhile_append_point f'_def by simp
  obtain n where n: "f = f' @ replicate n CHR ''0''"
    unfolding f'_def using dropWhile_zeros_split by blast
  with f have "all_digits f'" by simp
  then have nodot: "\<not> startsWith (rev f' @ CHR ''.'' # rev w) ''.''" if "f' \<noteq> []"
    using that by (cases f' rule: rev_cases) auto
  show ?thesis
  proof (cases "n = 0")
    case True
    with n have "f = f'" by simp
    then show ?thesis unfolding strip_zeros_def r by (simp add: Let_def)
  next
    case False
    have "length ?r = length f' + Suc (length w)" by (simp only: r) simp
    moreover have "length f = length f' + n" by (subst n) simp
    ultimately have "length ?r \<noteq> length (w @ CHR ''.'' # f)" "f \<noteq> []" using False by auto
    then show ?thesis
      unfolding strip_zeros_def Let_def r using nodot by (cases "f' = []") auto
  qed
qed

text \<open>An amount without whole digits (\<open>".50"\<close>) is well-formed too, but the database and the
  wire never produce one; trimming \<open>".0"\<close> leaves the empty string.\<close>

lemma AMOUNT_RE_rebuild:
  assumes "AMOUNT_RE s"
  shows "s = (if startsWith s ''-'' then ''-'' else []) @ amount_body s"
  using assms by (cases s) (auto simp: amount_body_def)

lemma whole_amount:
  assumes s: "s = (if neg then ''-'' else []) @ w" and w: "all_digits w" "w \<noteq> []"
  shows "AMOUNT_RE s" "whole_digits s = w" "frac_digits s = []" "startsWith s ''-'' = neg"
proof -
  show neg: "startsWith s ''-'' = neg" unfolding s using digit_Cons [OF w, of "[]"] by simp
  have b: "amount_body s = w" unfolding amount_body_def neg by (simp add: s)
  show "whole_digits s = w" "frac_digits s = []"
    unfolding whole_digits_def frac_digits_def b by (simp_all add: takeWhile_digits dropWhile_digits w)
  show "AMOUNT_RE s"
    unfolding AMOUNT_RE_body b by (simp add: takeWhile_digits dropWhile_digits w)
qed

lemma trimAmount_digits:
  assumes re: "AMOUNT_RE s" and w: "whole_digits s \<noteq> []"
  shows "AMOUNT_RE (trimAmount s)" "whole_digits (trimAmount s) = whole_digits s"
    "frac_digits (trimAmount s) = rev (dropWhile (\<lambda>c. c = CHR ''0'') (rev (frac_digits s)))"
    "startsWith (trimAmount s) ''-'' = startsWith s ''-''"
proof -
  let ?w = "whole_digits s" and ?f = "frac_digits s"
  let ?sg = "if startsWith s ''-'' then ''-'' else []"
  let ?f' = "rev (dropWhile (\<lambda>c. c = CHR ''0'') (rev ?f))"
  note c = AMOUNT_RE_cases [OF re]
  obtain n where "?f = ?f' @ replicate n CHR ''0''" using dropWhile_zeros_split by blast
  with c(2) have f': "all_digits ?f'" by (metis all_digits_simps(3))
  have cases: "(trimAmount s = ?sg @ ?w \<and> ?f' = []) \<or> trimAmount s = ?sg @ ?w @ ''.'' @ ?f'"
    using c(4)
  proof (elim disjE conjE)
    assume b: "amount_body s = ?w" and f: "?f = []"
    have "CHR ''.'' \<notin> set s" using c(1) by (subst AMOUNT_RE_rebuild [OF re]) (simp add: b)
    then have "trimAmount s = s" by (simp add: trimAmount_def)
    with f show ?thesis using AMOUNT_RE_rebuild [OF re] by (simp add: b)
  next
    assume b: "amount_body s = ?w @ ''.'' @ ?f"
    have s: "s = (?sg @ ?w) @ CHR ''.'' # ?f" using AMOUNT_RE_rebuild [OF re] by (simp add: b)
    then have "CHR ''.'' \<in> set s" by (metis in_set_conv_decomp)
    then have "trimAmount s = strip_zeros ((?sg @ ?w) @ CHR ''.'' # ?f)"
      using s by (simp add: trimAmount_def)
    then show ?thesis using strip_zeros_point [OF c(2), of "?sg @ ?w"] by (auto split: if_splits)
  qed
  have "AMOUNT_RE (trimAmount s) \<and> whole_digits (trimAmount s) = ?w
      \<and> frac_digits (trimAmount s) = ?f' \<and> startsWith (trimAmount s) ''-'' = startsWith s ''-''"
    using cases
  proof (elim disjE conjE)
    assume "trimAmount s = ?sg @ ?w" "?f' = []"
    then show ?thesis by (metis whole_amount [OF _ c(1) w])
  next
    assume "trimAmount s = ?sg @ ?w @ ''.'' @ ?f'"
    then show ?thesis by (metis point_amount [OF _ c(1) w f'])
  qed
  then show "AMOUNT_RE (trimAmount s)" "whole_digits (trimAmount s) = ?w"
    "frac_digits (trimAmount s) = ?f'" "startsWith (trimAmount s) ''-'' = startsWith s ''-''"
    by blast+
qed

lemma amount_value_zeros:
  assumes "whole_digits s = whole_digits t" "startsWith s ''-'' = startsWith t ''-''"
    "frac_digits s = frac_digits t @ replicate n CHR ''0''"
  shows "amount_value s = amount_value t"
  unfolding amount_value_def assms
  by (simp add: digits_val_append power_add append_assoc [symmetric] del: append_assoc)

text \<open>Amounts as the database prints them: at least one whole digit.\<close>

definition printed :: "string \<Rightarrow> bool" where
  "printed s \<longleftrightarrow> AMOUNT_RE s \<and> whole_digits s \<noteq> []"

lemma trimAmount_printed:
  assumes "printed s"
  shows "printed (trimAmount s)" "amount_value (trimAmount s) = amount_value s"
    "scale4 s \<Longrightarrow> scale4 (trimAmount s)"
proof -
  have s: "AMOUNT_RE s" "whole_digits s \<noteq> []" using assms by (auto simp: printed_def)
  note t = trimAmount_digits [OF s]
  let ?f' = "rev (dropWhile (\<lambda>c. c = CHR ''0'') (rev (frac_digits s)))"
  obtain n where n: "frac_digits s = ?f' @ replicate n CHR ''0''" using dropWhile_zeros_split by blast
  then have "amount_value s = amount_value (trimAmount s)"
    by (intro amount_value_zeros) (simp_all add: t)
  then show "amount_value (trimAmount s) = amount_value s" by simp
  show "printed (trimAmount s)" using t s by (simp add: printed_def)
  have "length (frac_digits (trimAmount s)) \<le> length (frac_digits s)"
    unfolding t(3) using length_dropWhile_le [of "\<lambda>c. c = CHR ''0''" "rev (frac_digits s)"] by simp
  then show "scale4 s \<Longrightarrow> scale4 (trimAmount s)" using t(1) by (simp add: scale4_def)
qed

lemma amount_trim: "AMOUNT_RE s \<Longrightarrow> trim s = s"
proof -
  assume re: "AMOUNT_RE s"
  note c = AMOUNT_RE_cases [OF re]
  have "\<not> is_space CHR ''.''" by code_simp
  moreover have "\<not> is_space x" if "x \<in> set (whole_digits s @ frac_digits s)" for x
    using that all_digits_set [OF c(1)] all_digits_set [OF c(2)] digit_not_space by auto
  ultimately have "\<not> is_space x" if "x \<in> set (amount_body s)" for x using that c(4) by auto
  then show ?thesis
    by (intro trim_no_space, subst AMOUNT_RE_rebuild [OF re]) (auto split: if_splits)
qed

section \<open>Grouping\<close>

text \<open>The reference: groups of three digits from the right.\<close>

function commas :: "string \<Rightarrow> string" where
  "commas w = (if length w \<le> 3 then w
     else commas (take (length w - 3) w) @ '','' @ drop (length w - 3) w)"
  by pat_completeness auto
termination
  by (relation "measure length") auto

declare commas.simps [simp del]

lemma is_word_digit [simp]: "is_digit c \<Longrightarrow> is_word c"
  by (simp add: is_word_def Let_def)

lemma group_from_append:
  assumes "all_digits u" "all_digits v" "length v = 3"
  shows "group_from b (u @ v) = group_from b u @ group_from (if u = [] then b else True) v"
  using assms(1)
proof (induction u arbitrary: b)
  case Nil
  then show ?case by simp
next
  case (Cons c u)
  have "length (c # u @ v) = length (c # u) + 3" using assms(3) by simp
  then have "length (c # u @ v) mod 3 = length (c # u) mod 3" by presburger
  moreover have "all_digits (c # u @ v)" using Cons.prems assms(2) by simp
  moreover have "group_from (is_word c) (u @ v) = group_from (is_word c) u @ group_from True v"
    using Cons.IH [of True] Cons.prems by simp
  ultimately show ?case using Cons.prems by simp
qed

lemma length_3_cases: "length v = 3 \<Longrightarrow> \<exists>x y z. v = [x, y, z]"
  by (auto simp: numeral_3_eq_3 length_Suc_conv)

lemma group_from_three: "all_digits v \<Longrightarrow> length v = 3 \<Longrightarrow> group_from True v = '','' @ v"
  using length_3_cases [of v] by auto

lemma group_from_short: "all_digits w \<Longrightarrow> length w \<le> 3 \<Longrightarrow> group_from False w = w"
proof -
  assume w: "all_digits w" "length w \<le> 3"
  consider "w = []" | a where "w = [a]" | a b where "w = [a, b]" | a b c where "w = [a, b, c]"
    using w(2) by (cases w rule: remdups_adj.cases; cases "tl (tl w)") (auto simp: le_Suc_eq
        numeral_3_eq_3 length_Suc_conv)
  then show ?thesis using w(1) by cases auto
qed

lemma group_from_commas: "all_digits w \<Longrightarrow> group_from False w = commas w"
proof (induction w rule: commas.induct)
  case (1 w)
  show ?case
  proof (cases "length w \<le> 3")
    case True
    then show ?thesis using 1 by (simp add: commas.simps [of w] group_from_short)
  next
    case False
    let ?u = "take (length w - 3) w" and ?v = "drop (length w - 3) w"
    have uv: "all_digits ?u" "all_digits ?v" "length ?v = 3" "?u \<noteq> []"
      using False 1 by auto
    have "group_from False (?u @ ?v) = group_from False ?u @ group_from True ?v"
      using group_from_append [OF uv(1-3)] uv(4) by simp
    also have "\<dots> = commas ?u @ '','' @ ?v"
      using 1 False uv by (simp add: group_from_three)
    finally show ?thesis using False by (simp add: commas.simps [of w])
  qed
qed

lemma filter_commas: "all_digits w \<Longrightarrow> filter (\<lambda>c. c \<noteq> CHR '','') (commas w) = w"
proof (induction w rule: commas.induct)
  case (1 w)
  have keep: "filter (\<lambda>c. c \<noteq> CHR '','') v = v" if "all_digits v" for v
    using that all_digits_notin(3) by (auto intro!: filter_True)
  show ?case
  proof (cases "length w \<le> 3")
    case True
    then show ?thesis using 1 by (simp add: commas.simps [of w] keep)
  next
    case False
    then show ?thesis using 1 keep by (subst commas.simps) simp
  qed
qed

lemma digits_no_comma: "all_digits w \<Longrightarrow> filter (\<lambda>c. c \<noteq> CHR '','') w = w"
  using all_digits_notin(3) by (auto intro!: filter_True)

lemma formatAmount_digits:
  assumes "AMOUNT_RE s"
  defines "f' \<equiv> rev (dropWhile (\<lambda>c. c = CHR ''0'') (rev (frac_digits s)))"
  shows "formatAmount s = (if startsWith s ''-'' then ''-'' else []) @ commas (whole_digits s)
      @ ''.'' @ padEnd f' 2 CHR ''0''"
proof -
  note c = AMOUNT_RE_cases [OF assms(1)]
  let ?ps = "split_on CHR ''.'' (amount_body s)"
  have ps: "hd ?ps = whole_digits s" "(if length ?ps < 2 then [] else ?ps ! 1) = frac_digits s"
    using c by (auto simp: split_on_none split_on_two)
  show ?thesis
    unfolding formatAmount_def Let_def amount_body_def [symmetric] ps f'_def
      group_from_commas [OF c(1)] by simp
qed

section \<open>Properties\<close>

text \<open>Every amount the helpers print reads back as the same number of units: the printed
  form has at most four decimals, parsing never throws on it, and two results are the same
  string exactly when they are the same number.\<close>

theorem units_roundtrip:
  "toUnits (fromUnits u) = Some u \<and> scale4 (fromUnits u)
   \<and> (fromUnits u = fromUnits u' \<longleftrightarrow> u = u')"
  by (metis fromUnits_scale4 option.inject toUnits_fromUnits)

text \<open>C1. Summing amounts is exact: for any list of amounts with at most four decimals the sum
  is defined, is again such an amount, has the exact decimal sum as its value, and does not
  depend on the order of the list.\<close>

theorem sumAmounts_exact:
  assumes "list_all scale4 vs" and "mset ws = mset vs"
  shows "\<exists>r. sumAmounts vs = Some r \<and> scale4 r
    \<and> amount_value r = sum_list (map amount_value vs) \<and> sumAmounts ws = Some r"
proof -
  obtain us where us: "list_all2 (\<lambda>v u. toUnits v = Some u) vs us"
    "of_int (sum_list us) = sum_list (map amount_value vs) * 10 ^ SCALE"
    using scale4_units_list [OF assms(1)] by blast
  have "list_all scale4 ws" using assms by (metis list_all_iff set_mset_mset)
  then obtain us' where us': "list_all2 (\<lambda>v u. toUnits v = Some u) ws us'"
    "of_int (sum_list us') = sum_list (map amount_value ws) * 10 ^ SCALE"
    using scale4_units_list by blast
  have "sum_list (map amount_value ws) = sum_list (map amount_value vs)"
    using assms(2) by (metis mset_map sum_mset_sum_list)
  with us us' have "sum_list us' = sum_list us" by (metis of_int_eq_iff)
  with us show ?thesis by (simp add: sumAmounts_units [OF us(1)] sumAmounts_units [OF us'(1)])
qed

theorem sumAmounts_exact_witness:
  "sumAmounts [''10.5'', ''-0.2500'', ''3''] = sumAmounts [''3'', ''10.5'', ''-0.2500'']"
proof -
  have "list_all scale4 [''10.5'', ''-0.2500'', ''3'']" by code_simp
  moreover have "mset [''3'', ''10.5'', ''-0.2500''] = mset [''10.5'', ''-0.2500'', ''3'']"
    by simp
  ultimately show ?thesis using sumAmounts_exact by metis
qed

text \<open>C2. The rounding division of the code is rounding half away from zero of the exact
  quotient, the rule of the database's round.\<close>

theorem roundDiv_is_half_away:
  "0 < d \<Longrightarrow> roundDiv n d = round_half_away (of_int n / of_int d)"
  by (rule roundDiv_round_half_away)

theorem roundDiv_is_half_away_witness:
  "roundDiv (- 25) 10 = round_half_away (of_int (- 25) / of_int 10) \<and> roundDiv (- 25) 10 = - 3"
proof
  show "roundDiv (- 25) 10 = round_half_away (of_int (- 25) / of_int 10)"
    by (rule roundDiv_is_half_away) simp
  show "roundDiv (- 25) 10 = - 3" by code_simp
qed

text \<open>The line preview never throws, whatever the three inputs are: the regular expression
  lets only strings through that the integer reader accepts, and the result is null exactly
  when one of them is not a plain decimal.\<close>

theorem lineAmounts_total:
  "lineAmounts q p t \<noteq> None
   \<and> (lineAmounts q p t = Some None \<longleftrightarrow> \<not> (AMOUNT_RE q \<and> AMOUNT_RE p \<and> AMOUNT_RE t))"
proof (cases "AMOUNT_RE q \<and> AMOUNT_RE p \<and> AMOUNT_RE t")
  case True
  then show ?thesis by (auto elim: lineAmounts_units [of q p t])
next
  case False
  then show ?thesis by (auto simp: lineAmounts_def)
qed

text \<open>Rounding to the scale of the database, and the line preview as the database's money.\<close>

definition db_round :: "rat \<Rightarrow> rat" where
  "db_round x = of_int (round_half_away (x * 10 ^ SCALE)) / 10 ^ SCALE"

lemma lineAmounts_database:
  assumes "scale4 q" "scale4 p" "scale4 t"
  defines "amt \<equiv> amount_value"
  shows "\<exists>m. lineAmounts q p t = Some (Some m)
    \<and> amt (lm_subtotal m) = db_round (amt q * amt p)
    \<and> amt (lm_tax m) = db_round (amt q * amt p * amt t / 100)
    \<and> amt (lm_total m) = amt (lm_subtotal m) + amt (lm_tax m)"
proof -
  obtain uq up ut where u: "toUnits q = Some uq" "toUnits p = Some up" "toUnits t = Some ut"
    "lineAmounts q p t = Some (Some
       \<lparr>lm_subtotal = fromUnits (roundDiv (uq * up) 10000),
        lm_tax = fromUnits (roundDiv (uq * up * ut) 10000000000),
        lm_total = fromUnits (roundDiv (uq * up) 10000 + roundDiv (uq * up * ut) 10000000000)\<rparr>)"
    using lineAmounts_units assms(1-3) unfolding scale4_def by metis
  have v: "of_int uq = amt q * 10 ^ SCALE" "of_int up = amt p * 10 ^ SCALE"
    "of_int ut = amt t * 10 ^ SCALE"
    using scale4_units [OF assms(1)] scale4_units [OF assms(2)] scale4_units [OF assms(3)] u(1-3)
    by (auto simp: amt_def)
  have "of_int (uq * up) / of_int 10000 = amt q * amt p * 10 ^ SCALE"
    "of_int (uq * up * ut) / of_int 10000000000 = amt q * amt p * amt t / 100 * 10 ^ SCALE"
    by (simp_all add: v SCALE_def)
  moreover have "roundDiv (uq * up) 10000 = round_half_away (of_int (uq * up) / of_int 10000)"
    "roundDiv (uq * up * ut) 10000000000
      = round_half_away (of_int (uq * up * ut) / of_int 10000000000)"
    by (rule roundDiv_round_half_away, simp)+
  ultimately have "roundDiv (uq * up) 10000 = round_half_away (amt q * amt p * 10 ^ SCALE)"
    "roundDiv (uq * up * ut) 10000000000
      = round_half_away (amt q * amt p * amt t / 100 * 10 ^ SCALE)"
    by (simp_all only:)
  with u(4) show ?thesis by (simp add: amt_def db_round_def add_divide_distrib)
qed

text \<open>C3. On inputs with at most four decimals the preview is the database's money: the
  subtotal is quantity times price rounded half away from zero to four decimals, the tax is
  quantity times price times rate over 100 rounded the same way from the unrounded product,
  and the total is their sum.\<close>

theorem lineAmounts_rounds:
  assumes "scale4 q" "scale4 p" "scale4 t"
  defines "rnd \<equiv> \<lambda>x::rat. of_int (round_half_away (x * 10 ^ SCALE)) / 10 ^ SCALE"
    and "amt \<equiv> amount_value"
  shows "\<exists>m. lineAmounts q p t = Some (Some m)
    \<and> amt (lm_subtotal m) = rnd (amt q * amt p)
    \<and> amt (lm_tax m) = rnd (amt q * amt p * amt t / 100)
    \<and> amt (lm_total m) = amt (lm_subtotal m) + amt (lm_tax m)"
  using lineAmounts_database [OF assms(1-3)] by (simp add: rnd_def amt_def db_round_def)

theorem lineAmounts_rounds_witness:
  "\<exists>m. lineAmounts ''3'' ''9.99'' ''8.25'' = Some (Some m)
     \<and> amount_value (lm_total m) = amount_value (lm_subtotal m) + amount_value (lm_tax m)"
proof -
  have "scale4 ''3''" "scale4 ''9.99''" "scale4 ''8.25''" by code_simp+
  from lineAmounts_rounds [OF this] show ?thesis by blast
qed

text \<open>Trimming an amount for an input field keeps its value and its sign, leaves no zero at
  the end of the fraction, and trimming again changes nothing.\<close>

theorem trimAmount_keeps_value:
  assumes "AMOUNT_RE s" "whole_digits s \<noteq> []"
  shows "AMOUNT_RE (trimAmount s) \<and> amount_value (trimAmount s) = amount_value s
    \<and> (frac_digits (trimAmount s) = [] \<or> last (frac_digits (trimAmount s)) \<noteq> CHR ''0'')
    \<and> frac_digits (trimAmount (trimAmount s)) = frac_digits (trimAmount s)"
proof -
  note t = trimAmount_digits [OF assms]
  let ?f' = "rev (dropWhile (\<lambda>c. c = CHR ''0'') (rev (frac_digits s)))"
  obtain n where "frac_digits s = ?f' @ replicate n CHR ''0''" using dropWhile_zeros_split by blast
  then have "amount_value s = amount_value (trimAmount s)"
    by (intro amount_value_zeros) (simp_all add: t)
  moreover have "?f' = [] \<or> last ?f' \<noteq> CHR ''0''" using last_no_zero by blast
  moreover have "rev (dropWhile (\<lambda>c. c = CHR ''0'') (rev ?f')) = ?f'"
    by simp
  ultimately show ?thesis
    using t trimAmount_digits [of "trimAmount s"] assms(2) by simp
qed

theorem trimAmount_keeps_value_witness:
  "amount_value (trimAmount ''8.5000'') = amount_value ''8.5000'' \<and> trimAmount ''8.5000'' = ''8.5''"
proof -
  have "AMOUNT_RE ''8.5000''" "whole_digits ''8.5000'' \<noteq> []" by code_simp+
  from trimAmount_keeps_value [OF this] show ?thesis by (simp add: trimAmount_def strip_zeros_def)
qed

lemma startsWith_fromUnits: "startsWith (fromUnits u) ''-'' \<longleftrightarrow> u < 0"
proof -
  obtain w f where "fromUnits u = (if u < 0 then ''-'' else []) @ w @ ''.'' @ f"
    "all_digits w" "w \<noteq> []" "all_digits f"
    by (rule fromUnits_shape)
  from point_amount(4) [OF this] show ?thesis .
qed

lemma trunc_rat_eq_0: "trunc_rat x = 0 \<longleftrightarrow> \<bar>x\<bar> < 1"
  unfolding trunc_rat_def by (auto simp: floor_eq_iff abs_if)

text \<open>C4. The display form is the amount with group separators: the whole part is grouped in
  threes from the right (the regular expression computes the reference grouping), at least two
  decimals are shown and no further zero after them, and deleting the commas gives an amount
  of the same value.\<close>

theorem formatAmount_display:
  assumes "AMOUNT_RE s" "whole_digits s \<noteq> []"
  shows "\<exists>f. formatAmount s = (if startsWith s ''-'' then ''-'' else [])
      @ commas (whole_digits s) @ ''.'' @ f
    \<and> 2 \<le> length f \<and> (length f = 2 \<or> last f \<noteq> CHR ''0'')
    \<and> AMOUNT_RE (filter (\<lambda>c. c \<noteq> CHR '','') (formatAmount s))
    \<and> amount_value (filter (\<lambda>c. c \<noteq> CHR '','') (formatAmount s)) = amount_value s"
proof -
  let ?sg = "if startsWith s ''-'' then ''-'' else []" and ?w = "whole_digits s"
  let ?f' = "rev (dropWhile (\<lambda>c. c = CHR ''0'') (rev (frac_digits s)))"
  let ?f = "padEnd ?f' 2 CHR ''0''" and ?plain = "filter (\<lambda>c. c \<noteq> CHR '','') (formatAmount s)"
  note c = AMOUNT_RE_cases [OF assms(1)] and fmt = formatAmount_digits [OF assms(1)]
  obtain n where n: "frac_digits s = ?f' @ replicate n CHR ''0''" using dropWhile_zeros_split by blast
  with c(2) have f': "all_digits ?f'" by (metis all_digits_simps(3))
  then have f: "all_digits ?f" by (simp add: padEnd_def)
  have plain: "?plain = ?sg @ ?w @ ''.'' @ ?f"
    unfolding fmt using filter_commas [OF c(1)] digits_no_comma [OF f] by simp
  note p = point_amount [OF plain c(1) assms(2) f]
  have "frac_digits ?plain = ?f' @ replicate (2 - length ?f') CHR ''0''"
    unfolding p(3) by (simp add: padEnd_def)
  then have "amount_value ?plain = amount_value (trimAmount s)"
    using p trimAmount_digits [OF assms] by (intro amount_value_zeros) simp_all
  moreover have "amount_value s = amount_value (trimAmount s)"
    using n trimAmount_digits [OF assms] by (intro amount_value_zeros) simp_all
  moreover have "2 \<le> length ?f" by (simp add: padEnd_def)
  moreover have "length ?f = 2 \<or> last ?f \<noteq> CHR ''0''"
  proof (cases "length ?f' \<le> 2")
    case False
    then have "?f' \<noteq> []" by (metis list.size(3) zero_le)
    then have "last ?f' \<noteq> CHR ''0''" by (rule last_no_zero)
    then show ?thesis by (simp only: padEnd_long [OF False] simp_thms)
  qed (simp add: padEnd_def)
  ultimately show ?thesis using p(1) fmt by (intro exI [of _ ?f] conjI) simp_all
qed

theorem formatAmount_display_witness:
  "amount_value (filter (\<lambda>c. c \<noteq> CHR '','') (formatAmount ''-1234567.5000''))
     = amount_value ''-1234567.5000''
   \<and> formatAmount ''-1234567.5000'' = ''-1,234,567.50''"
proof
  have "AMOUNT_RE ''-1234567.5000''" "whole_digits ''-1234567.5000'' \<noteq> []" by code_simp+
  from formatAmount_display [OF this]
  show "amount_value (filter (\<lambda>c. c \<noteq> CHR '','') (formatAmount ''-1234567.5000''))
     = amount_value ''-1234567.5000''" by blast
  show "formatAmount ''-1234567.5000'' = ''-1,234,567.50''" by code_simp
qed

text \<open>Negation is exact, prints a minus sign exactly for a negative result (so zero never
  becomes minus zero), and negating twice gives the normalised amount back.\<close>

theorem negateAmount_exact:
  assumes "scale4 s"
  shows "\<exists>r. negateAmount s = Some r \<and> scale4 r \<and> amount_value r = - amount_value s
    \<and> (startsWith r ''-'' \<longleftrightarrow> 0 < amount_value s)
    \<and> Option.bind (negateAmount r) negateAmount = Some r"
proof -
  obtain u where u: "toUnits s = Some u" "of_int u = amount_value s * 10 ^ SCALE"
    using scale4_units [OF assms] by blast
  then have r: "negateAmount s = Some (fromUnits (- u))" by (simp add: negateAmount_def)
  have v: "amount_value s = of_int u / 10 ^ SCALE" by (simp add: u(2))
  have "Option.bind (negateAmount (fromUnits (- u))) negateAmount = Some (fromUnits (- u))"
    by (simp add: negateAmount_def)
  with r show ?thesis by (simp add: v startsWith_fromUnits zero_less_divide_iff)
qed

theorem negateAmount_exact_witness:
  "negateAmount ''0.0000'' = Some ''0.0000'' \<and> (\<exists>r. negateAmount ''0.0000'' = Some r \<and> scale4 r)"
proof
  show "negateAmount ''0.0000'' = Some ''0.0000''" by code_simp
  have "scale4 ''0.0000''" by code_simp
  from negateAmount_exact [OF this] show "\<exists>r. negateAmount ''0.0000'' = Some r \<and> scale4 r" by blast
qed

text \<open>C5. The zero test looks at four decimals only: for every plain decimal it holds exactly
  when the value is below one unit of the last place in size, so an amount with more decimals
  can test as zero without being zero.\<close>

theorem isZeroAmount_four_decimals:
  "(AMOUNT_RE s \<longrightarrow> isZeroAmount s = Some (\<bar>amount_value s * 10 ^ SCALE\<bar> < 1))
   \<and> isZeroAmount ''0.00001'' = Some True \<and> amount_value ''0.00001'' \<noteq> 0"
proof (intro conjI impI)
  assume "AMOUNT_RE s"
  then show "isZeroAmount s = Some (\<bar>amount_value s * 10 ^ SCALE\<bar> < 1)"
    by (simp add: isZeroAmount_def toUnits_truncates trunc_rat_eq_0)
next
  show "isZeroAmount ''0.00001'' = Some True" by code_simp
next
  have "startsWith ''0.00001'' ''-'' = False" "digits_val (whole_digits ''0.00001'' @ frac_digits ''0.00001'') = 1"
    by code_simp+
  then show "amount_value ''0.00001'' \<noteq> 0" by (simp add: amount_value_def)
qed

theorem isZeroAmount_four_decimals_witness:
  "isZeroAmount ''-0.0000'' = Some (\<bar>amount_value ''-0.0000'' * 10 ^ SCALE\<bar> < 1)"
proof -
  have "AMOUNT_RE ''-0.0000''" by code_simp
  then show ?thesis using isZeroAmount_four_decimals by blast
qed

end
