(* ===== verification/Dates.thy ===== *)
theory Dates
  imports Numbers
begin

text \<open>
  Date-only arithmetic on YYYY-MM-DD strings (\<open>web/src/lib/dates.ts\<close>), over the UTC calendar of
  the JavaScript \<open>Date\<close> object: a date value is a day number (the source only builds midnights
  and only prints the date part), \<open>None\<close> the invalid date, whose \<open>toISOString\<close> throws.
\<close>

section \<open>The calendar of the Date object\<close>

definition leap :: "int \<Rightarrow> bool" where
  "leap y \<longleftrightarrow> y mod 4 = 0 \<and> (y mod 100 \<noteq> 0 \<or> y mod 400 = 0)"

definition year_start :: "int \<Rightarrow> int" where
  "year_start y = 365 * (y - 1970) + (y - 1969) div 4 - (y - 1901) div 100 + (y - 1601) div 400"

text \<open>The day of the year a month (counted from 0) starts on.\<close>

definition month_start :: "bool \<Rightarrow> int \<Rightarrow> int" where
  "month_start lp m =
     [0, 31, 59, 90, 120, 151, 181, 212, 243, 273, 304, 334, 365] ! nat m
     + (if lp \<and> 2 \<le> m then 1 else 0)"

definition month_length :: "bool \<Rightarrow> int \<Rightarrow> int" where
  "month_length lp m = month_start lp (m + 1) - month_start lp m"

definition make_day :: "int \<Rightarrow> int \<Rightarrow> int \<Rightarrow> int" where
  "make_day y m d =
     (let ym = y + m div 12 in year_start ym + month_start (leap ym) (m mod 12) + d - 1)"

definition year_of_day :: "int \<Rightarrow> int" where
  "year_of_day t = (let y = 1970 + t * 400 div 146097 in
     if t < year_start y then y - 1 else if year_start (y + 1) \<le> t then y + 1 else y)"

fun month_search :: "bool \<Rightarrow> int \<Rightarrow> nat \<Rightarrow> nat" where
  "month_search lp d 0 = 0"
| "month_search lp d (Suc m) =
     (if month_start lp (int (Suc m)) \<le> d then Suc m else month_search lp d m)"

definition civil_of_day :: "int \<Rightarrow> int \<times> int \<times> int" where
  "civil_of_day t =
     (let y = year_of_day t; d = t - year_start y; m = int (month_search (leap y) d 11)
      in (y, m, d - month_start (leap y) m + 1))"

definition pad :: "nat \<Rightarrow> int \<Rightarrow> string" where
  "pad n i = padStart (show_nat (nat i)) n CHR ''0''"

definition iso_year :: "int \<Rightarrow> string" where
  "iso_year y = (if 0 \<le> y \<and> y \<le> 9999 then pad 4 y
     else (if y < 0 then ''-'' else ''+'') @ pad 6 \<bar>y\<bar>)"

definition iso_date :: "int \<Rightarrow> int \<Rightarrow> int \<Rightarrow> string" where
  "iso_date y m d = iso_year y @ ''-'' @ pad 2 (m + 1) @ ''-'' @ pad 2 d"

text \<open>\<open>Date.UTC\<close>: years 0 to 99 mean 1900 to 1999; the value is clipped to 10^8 days.\<close>

definition date_utc :: "int \<Rightarrow> int \<Rightarrow> int \<Rightarrow> int option" where
  "date_utc y m d = (let y' = (if 0 \<le> y \<and> y \<le> 99 then 1900 + y else y);
      t = make_day y' m d in if \<bar>t\<bar> \<le> 100000000 then Some t else None)"

definition toISOString :: "int \<Rightarrow> string" where
  "toISOString t = (let (y, m, d) = civil_of_day t in iso_date y m d @ ''T00:00:00.000Z'')"

text \<open>Number arguments of \<open>Date.UTC\<close> lose their fraction; NaN and infinities make it invalid.\<close>

fun to_integer :: "number \<Rightarrow> int option" where
  "to_integer (Whole i) = Some i"
| "to_integer (Frac m k) = Some (sgn m * (\<bar>m\<bar> div 10 ^ k))"
| "to_integer _ = None"

fun add_number :: "number \<Rightarrow> int \<Rightarrow> number" where
  "add_number (Whole i) n = Whole (i + n)"
| "add_number (Frac m k) n = Frac (m + n * 10 ^ k) k"
| "add_number x n = x"

definition Date_UTC :: "number \<Rightarrow> number \<Rightarrow> number \<Rightarrow> int option" where
  "Date_UTC y m d = do {
     y' \<leftarrow> to_integer y; m' \<leftarrow> to_integer m; d' \<leftarrow> to_integer d; date_utc y' m' d' }"

section \<open>The functions of the file\<close>

text \<open>Destructuring a missing element gives undefined, which arithmetic turns into NaN.\<close>

definition parts :: "string \<Rightarrow> number \<times> number \<times> number" where
  "parts date =
     (let ns = map Number (split_on CHR ''-'' date);
          nth = (\<lambda>i. if i < length ns then ns ! i else NaN)
      in (nth 0, nth 1, nth 2))"

definition format_date :: "int option \<Rightarrow> string option" where
  "format_date t = map_option (\<lambda>t. take 10 (toISOString t)) t"

definition daysAfter :: "string \<Rightarrow> int \<Rightarrow> string option" where
  "daysAfter date n = (let (y, m, d) = parts date in
     format_date (Date_UTC y (add_number m (- 1)) (add_number d n)))"

definition dayAfter :: "string \<Rightarrow> string option" where
  "dayAfter date = daysAfter date 1"

text \<open>The calendar day of the user's clock is an argument: full year, month from 0, day.\<close>

definition today :: "int \<times> int \<times> int \<Rightarrow> string" where
  "today clock = (let (y, m, d) = clock;
      mm = padStart (show_int (m + 1)) 2 CHR ''0'';
      dd = padStart (show_int d) 2 CHR ''0''
    in show_int y @ ''-'' @ mm @ ''-'' @ dd)"

definition endOfMonth :: "string \<Rightarrow> string option" where
  "endOfMonth date = (let (y, m, _) = parts date in format_date (Date_UTC y m (Whole 0)))"

definition endOfYearFrom :: "string \<Rightarrow> string option" where
  "endOfYearFrom start = (let (y, m, d) = parts start in
     format_date (Date_UTC (add_number y 1) (add_number m (- 1)) (add_number d (- 1))))"

definition yearMonth :: "string \<Rightarrow> string" where
  "yearMonth date = take 7 date"

section \<open>The calendar is a bijection\<close>

lemma div_bounds:
  fixes x n :: int assumes "0 < n"
  shows "n * (x div n) \<le> x" and "x < n * (x div n) + n"
  using mult_div_mod_eq [of n x] pos_mod_sign [OF assms, of x] pos_mod_bound [OF assms, of x]
  by (smt (verit))+

lemma div_succ:
  fixes x n :: int assumes "0 < n"
  shows "(x + 1) div n = x div n + (if (x + 1) mod n = 0 then 1 else 0)"
proof -
  let ?q = "x div n" and ?r = "x mod n"
  have x: "x + 1 = n * ?q + (?r + 1)" using div_mult_mod_eq [of x n] by (simp add: mult.commute)
  have r: "0 \<le> ?r" "?r < n" using assms by auto
  show ?thesis
  proof (cases "?r + 1 = n")
    case True
    have "x + 1 = n * (?q + 1)" unfolding x True by (simp add: algebra_simps)
    with assms show ?thesis by simp
  next
    case False
    with r have "(x + 1) div n = ?q" "(x + 1) mod n = ?r + 1"
      using int_div_pos_eq [OF x] int_mod_pos_eq [OF x] by auto
    with r show ?thesis by simp
  qed
qed

lemma year_start_bounds_aux:
  fixes y a b c :: int
  assumes "4 * a \<le> y - 1969" "y - 1969 < 4 * a + 4"
    "100 * b \<le> y - 1901" "y - 1901 < 100 * b + 100"
    "400 * c \<le> y - 1601" "y - 1601 < 400 * c + 400"
  shows "146097 * (y - 1970) - 600 \<le> 400 * (365 * (y - 1970) + a - b + c)"
    and "400 * (365 * (y - 1970) + a - b + c) \<le> 146097 * (y - 1970) + 600"
proof -
  show "146097 * (y - 1970) - 600 \<le> 400 * (365 * (y - 1970) + a - b + c)"
    using assms by (smt (verit))
  show "400 * (365 * (y - 1970) + a - b + c) \<le> 146097 * (y - 1970) + 600"
    using assms by (smt (verit))
qed

lemma year_start_bounds:
  "146097 * (y - 1970) - 600 \<le> 400 * year_start y"
  "400 * year_start y \<le> 146097 * (y - 1970) + 600"
  unfolding year_start_def
  by (rule year_start_bounds_aux; rule div_bounds; simp)+

lemma zmod_shift: "k = n * q \<Longrightarrow> (y - k) mod n = y mod (n::int)"
  by (metis minus_mult_right mod_mult_self2 uminus_add_conv_diff diff_conv_add_uminus)

lemma year_start_Suc_aux:
  fixes x a b c i j k :: int
  shows "365 * (x + 1) + (a + i) - (b + j) + (c + k) = 365 * x + a - b + c + 365 + i - j + k"
  by simp

lemma leap_count:
  "(Q \<Longrightarrow> P) \<Longrightarrow> (R \<Longrightarrow> Q) \<Longrightarrow>
   (if P then 1 else 0) - (if Q then 1 else 0) + (if R then 1 else (0::int))
   = (if P \<and> (\<not> Q \<or> R) then 1 else 0)"
  by (cases P; cases Q; cases R; simp)

lemma leap_total:
  fixes a b i j k :: int
  shows "a = b + 365 + i - j + k \<Longrightarrow> i - j + k = (if l then 1 else 0)
    \<Longrightarrow> a = b + (if l then 366 else 365)"
  by auto

lemma year_start_Suc: "year_start (y + 1) = year_start y + (if leap y then 366 else 365)"
proof -
  have s: "y - 1969 + 1 = y - 1968" "y - 1901 + 1 = y - 1900" "y - 1601 + 1 = y - 1600" by simp_all
  have m: "(y - 1969 + 1) mod 4 = 0 \<longleftrightarrow> y mod 4 = 0"
    "(y - 1901 + 1) mod 100 = 0 \<longleftrightarrow> y mod 100 = 0"
    "(y - 1601 + 1) mod 400 = 0 \<longleftrightarrow> y mod 400 = 0"
    unfolding s by (subst zmod_shift [of 1968 4 492] zmod_shift [of 1900 100 19]
      zmod_shift [of 1600 400 4]; simp)+
  have i: "400 dvd y \<Longrightarrow> 100 dvd y" "100 dvd y \<Longrightarrow> 4 dvd y"
    by (rule dvd_trans [rotated], assumption, simp)+
  have e: "y + 1 - 1969 = y - 1969 + 1" "y + 1 - 1901 = y - 1901 + 1"
    "y + 1 - 1601 = y - 1601 + 1" "y + 1 - 1970 = y - 1970 + 1" by simp_all
  have "year_start (y + 1) = year_start y + 365 + (if y mod 4 = 0 then 1 else 0)
      - (if y mod 100 = 0 then 1 else 0) + (if y mod 400 = 0 then 1 else 0)"
    unfolding year_start_def e div_succ [OF zero_less_numeral] m by (rule year_start_Suc_aux)
  moreover have "(if y mod 4 = 0 then 1 else 0) - (if y mod 100 = 0 then 1 else 0)
      + (if y mod 400 = 0 then 1 else (0::int)) = (if leap y then 1 else 0)"
    unfolding leap_def mod_eq_0_iff_dvd by (rule leap_count) (use i in blast)+
  ultimately show ?thesis by (rule leap_total)
qed

lemma year_start_less: "y < y' \<Longrightarrow> year_start y < year_start y'"
proof (induction y' rule: int_gr_induct [of y])
  case base
  then show ?case by (simp add: year_start_Suc)
next
  case (step i)
  then show ?case by (simp add: year_start_Suc)
qed

lemma year_start_le: "y \<le> y' \<Longrightarrow> year_start y \<le> year_start y'"
  using year_start_less [of y y'] by (cases "y = y'") auto

lemma year_of_day_aux:
  fixes a b t z :: int
  assumes "146097 * z \<le> t * 400" "t * 400 < 146097 * z + 146097"
  shows "400 * a \<le> 146097 * (1970 + z - 1 - 1970) + 600 \<Longrightarrow> a \<le> t"
    and "146097 * (1970 + z + 1 + 1 - 1970) - 600 \<le> 400 * b \<Longrightarrow> t < b"
proof -
  show "a \<le> t" if "400 * a \<le> 146097 * (1970 + z - 1 - 1970) + 600"
    using assms that by (smt (verit))
  show "t < b" if "146097 * (1970 + z + 1 + 1 - 1970) - 600 \<le> 400 * b"
    using assms that by (smt (verit))
qed

lemma year_of_day_bounds: "year_start (year_of_day t) \<le> t \<and> t < year_start (year_of_day t + 1)"
proof -
  let ?z = "t * 400 div 146097"
  have z: "146097 * ?z \<le> t * 400" "t * 400 < 146097 * ?z + 146097"
    by (rule div_bounds, simp)+
  have "year_start (1970 + ?z - 1) \<le> t"
    by (rule year_of_day_aux(1) [OF z]) (rule year_start_bounds)
  moreover have "t < year_start (1970 + ?z + 1 + 1)"
    by (rule year_of_day_aux(2) [OF z]) (rule year_start_bounds)
  ultimately show ?thesis
    unfolding year_of_day_def Let_def by (auto simp: not_less not_le simp del: add_diff_eq)
qed

lemma year_of_day_unique:
  assumes "year_start y \<le> t" "t < year_start (y + 1)"
  shows "year_of_day t = y"
proof (rule ccontr)
  assume "year_of_day t \<noteq> y"
  then consider "year_of_day t + 1 \<le> y" | "y + 1 \<le> year_of_day t" by linarith
  then show False
    using year_start_le [of "year_of_day t + 1" y] year_start_le [of "y + 1" "year_of_day t"]
      year_of_day_bounds [of t] assms by cases linarith+
qed

lemma month_table:
  "\<forall>m<12. \<forall>lp. 1 \<le> month_length lp (int m) \<and> month_length lp (int m) \<le> 31
     \<and> (m = 1 \<or> month_length lp (int m) = month_length False (int m))"
  by code_simp

lemma month_length_bounds:
  assumes "0 \<le> m" "m < 12"
  shows "1 \<le> month_length lp m" "month_length lp m \<le> 31"
    "m \<noteq> 1 \<Longrightarrow> month_length lp m = month_length lp' m"
proof -
  have "nat m < 12" "m = int (nat m)" using assms by auto
  with month_table
  have "1 \<le> month_length lq m \<and> month_length lq m \<le> 31
     \<and> (m = 1 \<or> month_length lq m = month_length False m)" for lq
    by (metis of_nat_1 of_nat_eq_iff)
  then show "1 \<le> month_length lp m" "month_length lp m \<le> 31"
    "m \<noteq> 1 \<Longrightarrow> month_length lp m = month_length lp' m" by metis+
qed

lemma february [simp]: "month_length lp 1 = (if lp then 29 else 28)"
  by (cases lp) (simp_all add: month_length_def month_start_def)

lemma month_start_step: "m < 12 \<Longrightarrow> month_start lp (int m) < month_start lp (int (Suc m))"
  using month_length_bounds(1) [of "int m" lp] by (simp add: month_length_def add.commute)

lemma month_start_mono: "i \<le> j \<Longrightarrow> j \<le> 12 \<Longrightarrow> month_start lp (int i) \<le> month_start lp (int j)"
proof (induction j rule: dec_induct)
  case base
  then show ?case by simp
next
  case (step n)
  then show ?case using month_start_step [of n lp] by simp
qed

lemma month_start_ends [simp]:
  "month_start lp 0 = 0" "month_start lp 12 = (if lp then 366 else 365)"
  by (simp_all add: month_start_def)

lemma month_search_bounds:
  "0 \<le> d \<Longrightarrow> d < month_start lp (int (Suc n)) \<Longrightarrow>
   month_search lp d n \<le> n \<and> month_start lp (int (month_search lp d n)) \<le> d
   \<and> d < month_start lp (int (Suc (month_search lp d n)))"
  by (induction n) (auto simp del: of_nat_Suc)

lemma month_search_unique:
  assumes "month_start lp (int m) \<le> d" "d < month_start lp (int (Suc m))" "m \<le> n" "n \<le> 11"
  shows "month_search lp d n = m"
  using assms(3,4)
proof (induction n)
  case 0
  then show ?case by simp
next
  case (Suc n)
  show ?case
  proof (cases "m = Suc n")
    case True
    with assms(1) show ?thesis by (simp del: of_nat_Suc)
  next
    case False
    with Suc have "month_start lp (int (Suc m)) \<le> month_start lp (int (Suc n))"
      by (intro month_start_mono) auto
    with False assms(2) Suc show ?thesis by (simp del: of_nat_Suc)
  qed
qed

definition valid_date :: "int \<Rightarrow> int \<Rightarrow> int \<Rightarrow> bool" where
  "valid_date y m d \<longleftrightarrow> 0 \<le> m \<and> m < 12 \<and> 1 \<le> d \<and> d \<le> month_length (leap y) m"

lemma make_day_in_year:
  assumes "valid_date y m d"
  shows "make_day y m d = year_start y + month_start (leap y) m + d - 1"
    and "year_start y \<le> make_day y m d" "make_day y m d < year_start (y + 1)"
    and "month_start (leap y) m \<le> make_day y m d - year_start y"
    and "make_day y m d - year_start y < month_start (leap y) (m + 1)"
proof -
  let ?s = "month_start (leap y)"
  have m: "0 \<le> m" "m < 12" and d: "1 \<le> d" "d \<le> ?s (m + 1) - ?s m"
    using assms by (auto simp: valid_date_def month_length_def)
  show eq: "make_day y m d = year_start y + ?s m + d - 1"
    using m by (simp add: make_day_def)
  then show "?s m \<le> make_day y m d - year_start y"
    "make_day y m d - year_start y < ?s (m + 1)" using d by auto
  have "m = int (nat m)" "nat m < 12" using m by simp_all
  then obtain k where k: "m = int k" "k < 12" by blast
  have "?s (int 0) \<le> ?s (int k)" "?s (int (Suc k)) \<le> ?s (int 12)"
    using k by (intro month_start_mono; simp)+
  then have "0 \<le> ?s m" "?s (m + 1) \<le> (if leap y then 366 else 365)"
    by (simp_all add: k add.commute)
  then show "year_start y \<le> make_day y m d" "make_day y m d < year_start (y + 1)"
    using d eq by (auto simp: year_start_Suc)
qed

lemma civil_of_make_day:
  assumes "valid_date y m d"
  shows "civil_of_day (make_day y m d) = (y, m, d)"
proof -
  note b = make_day_in_year [OF assms]
  have y: "year_of_day (make_day y m d) = y" using b(2,3) by (rule year_of_day_unique)
  have "0 \<le> m" "m < 12" using assms by (auto simp: valid_date_def)
  then have k: "m = int (nat m)" "nat m \<le> 11" by simp_all
  then obtain k where k: "m = int k" "k \<le> 11" by blast
  have "month_search (leap y) (make_day y m d - year_start y) 11 = k"
    using b(4,5) k by (intro month_search_unique) (simp_all add: add.commute)
  with y b(1) k show ?thesis by (simp add: civil_of_day_def Let_def)
qed

lemma civil_of_day_valid:
  assumes "civil_of_day t = (y, m, d)"
  shows "valid_date y m d" "make_day y m d = t"
proof -
  let ?s = "month_start (leap y)" and ?x = "t - year_start y"
  have y: "y = year_of_day t" and m: "m = int (month_search (leap y) ?x 11)"
    and d: "d = ?x - ?s m + 1"
    using assms by (auto simp: civil_of_day_def Let_def)
  have "0 \<le> ?x" "?x < ?s (int (Suc 11))"
    using year_of_day_bounds [of t] by (auto simp: y year_start_Suc)
  from month_search_bounds [OF this]
  have b: "0 \<le> m" "m < 12" "?s m \<le> ?x" "?x < ?s (m + 1)"
    by (auto simp: m add.commute)
  then show v: "valid_date y m d" by (simp add: valid_date_def month_length_def d)
  from make_day_in_year(1) [OF v] show "make_day y m d = t" by (simp add: d)
qed

section \<open>Date strings\<close>

definition iso_day :: "int \<Rightarrow> string" where
  "iso_day t = (let (y, m, d) = civil_of_day t in iso_date y m d)"

text \<open>The days whose strings the helpers read as written: years 0100 to 9999 (two-digit years
  mean the twentieth century, longer ones print with a sign).\<close>

definition in_calendar :: "int \<Rightarrow> bool" where
  "in_calendar t \<longleftrightarrow> year_start 100 \<le> t \<and> t < year_start 10000"

lemma pad_props:
  assumes "0 \<le> i" "i < 10 ^ n" "0 < n"
  shows "all_digits (pad n i)" "length (pad n i) = n" "digits_val (pad n i) = nat i"
proof -
  have "length (show_nat (nat i)) \<le> n"
    using assms by (intro length_show_nat) (auto simp: nat_less_iff)
  then show "length (pad n i) = n" by (simp add: pad_def length_padStart)
  show "all_digits (pad n i)" "digits_val (pad n i) = nat i"
    by (simp_all add: pad_def padStart_def digits_val_append)
qed

lemma in_calendar_civil:
  assumes "in_calendar t"
  obtains y m d where "civil_of_day t = (y, m, d)" "100 \<le> y" "y \<le> 9999" "0 \<le> m" "m < 12"
    "1 \<le> d" "d \<le> 31" "valid_date y m d" "make_day y m d = t"
proof -
  obtain y m d where c: "civil_of_day t = (y, m, d)" by (cases "civil_of_day t") auto
  note v = civil_of_day_valid [OF c]
  then have b: "year_start y \<le> t" "t < year_start (y + 1)"
    using make_day_in_year(2,3) [OF v(1)] by auto
  have "100 \<le> y"
    using year_start_le [of "y + 1" 100] b assms by (force simp: in_calendar_def not_le)
  moreover have "y \<le> 9999"
    using year_start_le [of 10000 y] b assms by (force simp: in_calendar_def not_le)
  moreover have "0 \<le> m" "m < 12" "1 \<le> d" "d \<le> 31"
    using v(1) month_length_bounds(2) [of m "leap y"] by (auto simp: valid_date_def)
  ultimately show thesis using that c v by blast
qed

lemma iso_date_digits:
  assumes "0 \<le> y" "y \<le> 9999" "0 \<le> m" "m < 12" "1 \<le> d" "d \<le> 31"
  shows "iso_date y m d = pad 4 y @ ''-'' @ pad 2 (m + 1) @ ''-'' @ pad 2 d"
    "all_digits (pad 4 y)" "length (pad 4 y) = 4" "digits_val (pad 4 y) = nat y"
    "all_digits (pad 2 (m + 1))" "length (pad 2 (m + 1)) = 2"
    "digits_val (pad 2 (m + 1)) = nat (m + 1)"
    "all_digits (pad 2 d)" "length (pad 2 d) = 2" "digits_val (pad 2 d) = nat d"
  using pad_props [of y 4] pad_props [of "m + 1" 2] pad_props [of d 2] assms
  by (simp_all add: iso_date_def iso_year_def)

lemma Number_digits: "all_digits s \<Longrightarrow> s \<noteq> [] \<Longrightarrow> Number s = Whole (int (digits_val s))"
  by (simp add: Number_def all_digits_trim prefixed_literal_digits split_sign_digits
      unsigned_decimal_digits)

lemma parts_iso_date:
  assumes "0 \<le> y" "y \<le> 9999" "0 \<le> m" "m < 12" "1 \<le> d" "d \<le> 31"
  shows "parts (iso_date y m d) = (Whole y, Whole (m + 1), Whole d)"
proof -
  note g = iso_date_digits [OF assms]
  have ne: "pad 4 y \<noteq> []" "pad 2 (m + 1) \<noteq> []" "pad 2 d \<noteq> []" using g by auto
  have "split_on CHR ''-'' (iso_date y m d) = [pad 4 y, pad 2 (m + 1), pad 2 d]"
    unfolding g(1) using g by (simp add: split_on_append split_on_none)
  then show ?thesis
    using g ne assms by (simp add: parts_def Let_def Number_digits)
qed

lemma take_10_ISO:
  assumes "in_calendar t"
  shows "take 10 (toISOString t) = iso_day t"
proof -
  obtain y m d where c: "civil_of_day t = (y, m, d)" "100 \<le> y" "y \<le> 9999" "0 \<le> m" "m < 12"
    "1 \<le> d" "d \<le> 31" using assms by (rule in_calendar_civil)
  then have "length (iso_date y m d) = 10"
    using iso_date_digits [of y m d] by simp
  then show ?thesis by (simp add: toISOString_def iso_day_def c(1))
qed

lemma parts_iso_day:
  assumes "in_calendar t" "civil_of_day t = (y, m, d)"
  shows "parts (iso_day t) = (Whole y, Whole (m + 1), Whole d)" "100 \<le> y" "y \<le> 9999"
    "make_day y m d = t" "valid_date y m d"
proof -
  have "parts (iso_day t) = (Whole y, Whole (m + 1), Whole d) \<and> 100 \<le> y \<and> y \<le> 9999
      \<and> make_day y m d = t \<and> valid_date y m d"
  proof (rule in_calendar_civil [OF assms(1)])
    fix y' m' d'
    assume c: "civil_of_day t = (y', m', d')" "100 \<le> y'" "y' \<le> 9999" "0 \<le> m'" "m' < 12"
      "1 \<le> d'" "d' \<le> 31" "valid_date y' m' d'" "make_day y' m' d' = t"
    then have "parts (iso_date y' m' d') = (Whole y', Whole (m' + 1), Whole d')"
      by (intro parts_iso_date) auto
    with c assms(2) show ?thesis by (simp add: iso_day_def)
  qed
  then show "parts (iso_day t) = (Whole y, Whole (m + 1), Whole d)" "100 \<le> y" "y \<le> 9999"
    "make_day y m d = t" "valid_date y m d" by blast+
qed

text \<open>Adding to the day of the month adds to the day number.\<close>

lemma make_day_shift: "make_day y m (d + n) = make_day y m d + n"
  by (simp add: make_day_def Let_def)

lemma in_calendar_clip: "in_calendar t \<Longrightarrow> \<bar>t\<bar> \<le> 100000000"
  by (auto simp: in_calendar_def year_start_def)

lemma daysAfter_day:
  assumes "in_calendar t" "in_calendar (t + n)"
  shows "daysAfter (iso_day t) n = Some (iso_day (t + n))"
proof -
  obtain y m d where c: "civil_of_day t = (y, m, d)" by (cases "civil_of_day t") auto
  note p = parts_iso_day [OF assms(1) c]
  have "make_day y m (d + n) = t + n" using p(4) by (simp add: make_day_shift)
  then show ?thesis
    using p in_calendar_clip [OF assms(2)] take_10_ISO [OF assms(2)]
    by (simp add: daysAfter_def Date_UTC_def date_utc_def format_date_def)
qed

lemma year_of_day_mono: "s \<le> t \<Longrightarrow> year_of_day s \<le> year_of_day t"
  using year_of_day_bounds [of s] year_of_day_bounds [of t]
    year_start_le [of "year_of_day t + 1" "year_of_day s"] by (force simp: not_le)

lemma civil_less:
  assumes "s < t" "civil_of_day s = (y, m, d)" "civil_of_day t = (y', m', d')"
  shows "y < y' \<or> y = y' \<and> (m < m' \<or> m = m' \<and> d < d')"
proof (cases "y = y'")
  case False
  with year_of_day_mono [of s t] assms show ?thesis
    by (auto simp: civil_of_day_def Let_def)
next
  case True
  note v = civil_of_day_valid [OF assms(2)] civil_of_day_valid [OF assms(3)]
  have b: "month_start (leap y) m \<le> s - year_start y" "t - year_start y < month_start (leap y) (m' + 1)"
    using make_day_in_year(4) [OF v(1)] make_day_in_year(5) [OF v(3)] v True by auto
  show ?thesis
  proof (cases "m' < m")
    case True
    have m: "0 \<le> m'" "m < 12" using v by (auto simp: valid_date_def)
    have "month_start (leap y) (int (nat (m' + 1))) \<le> month_start (leap y) (int (nat m))"
      using True m by (intro month_start_mono) auto
    with b assms(1) m True show ?thesis by simp
  next
    case False
    then show ?thesis
      using make_day_in_year(1) [OF v(1)] make_day_in_year(1) [OF v(3)] v \<open>y = y'\<close> assms(1)
      by auto
  qed
qed

lemma iso_day_less:
  assumes "in_calendar s" "in_calendar t" "s < t"
  shows "iso_day s < iso_day t"
proof -
  obtain y m d where c: "civil_of_day s = (y, m, d)" "100 \<le> y" "y \<le> 9999" "0 \<le> m" "m < 12"
    "1 \<le> d" "d \<le> 31" using assms(1) by (rule in_calendar_civil)
  obtain y' m' d' where c': "civil_of_day t = (y', m', d')" "100 \<le> y'" "y' \<le> 9999" "0 \<le> m'"
    "m' < 12" "1 \<le> d'" "d' \<le> 31" using assms(2) by (rule in_calendar_civil)
  have g: "iso_date y m d = pad 4 y @ ''-'' @ pad 2 (m + 1) @ ''-'' @ pad 2 d"
    "iso_date y' m' d' = pad 4 y' @ ''-'' @ pad 2 (m' + 1) @ ''-'' @ pad 2 d'"
    using iso_date_digits(1) c c' by auto
  have lt: "pad n i < pad n j \<longleftrightarrow> i < j" "pad n i = pad n j \<longleftrightarrow> i = j"
    if "0 \<le> i" "i < 10 ^ n" "0 \<le> j" "j < 10 ^ n" "0 < n" for n i j
    using pad_props [of i n] pad_props [of j n] that
    by (auto simp: digits_less)
  show ?thesis
    using civil_less [OF assms(3) c(1) c'(1)] c c' pad_props(2) [of y 4] pad_props(2) [of y' 4]
      pad_props(2) [of "m + 1" 2] pad_props(2) [of "m' + 1" 2]
    by (auto simp: iso_day_def g string_less_append lt)
qed


lemma iso_day_less_iff:
  assumes "in_calendar s" "in_calendar t"
  shows "iso_day s < iso_day t \<longleftrightarrow> s < t"
  using iso_day_less [OF assms] iso_day_less [OF assms(2,1)] by (cases s t rule: linorder_cases) auto

lemma iso_day_inj:
  assumes "in_calendar s" "in_calendar t" "iso_day s = iso_day t"
  shows "s = t"
  using iso_day_less [OF assms(1,2)] iso_day_less [OF assms(2,1)] assms(3)
  by (cases s t rule: linorder_cases) auto

lemma make_day_month_end:
  assumes "0 \<le> m" "m < 12"
  shows "make_day y (m + 1) 0 = make_day y m (month_length (leap y) m)"
proof (cases "m = 11")
  case True
  then show ?thesis
    by (simp add: make_day_def Let_def year_start_Suc month_length_def)
next
  case False
  with assms show ?thesis by (simp add: make_day_def Let_def month_length_def)
qed

text \<open>The day number of a calendar date of a four-digit year.\<close>

lemma in_calendar_make_day:
  assumes "valid_date y m d" "100 \<le> y" "y \<le> 9999"
  shows "in_calendar (make_day y m d)" "iso_day (make_day y m d) = iso_date y m d"
proof -
  have "year_start 100 \<le> year_start y" "year_start (y + 1) \<le> year_start 10000"
    using assms by (auto intro: year_start_le)
  then show "in_calendar (make_day y m d)"
    using make_day_in_year(2,3) [OF assms(1)] by (simp add: in_calendar_def)
  show "iso_day (make_day y m d) = iso_date y m d"
    using civil_of_make_day [OF assms(1)] by (simp add: iso_day_def)
qed

lemma format_in_calendar: "in_calendar t \<Longrightarrow> format_date (Some t) = Some (iso_day t)"
  by (simp add: format_date_def take_10_ISO)

lemma Date_UTC_in_calendar:
  assumes "in_calendar (make_day y m d)" "100 \<le> y"
  shows "Date_UTC (Whole y) (Whole m) (Whole d) = Some (make_day y m d)"
  using assms in_calendar_clip [OF assms(1)]
  by (simp add: Date_UTC_def date_utc_def)

lemma endOfMonth_date:
  assumes "valid_date y m d" "100 \<le> y" "y \<le> 9999"
  shows "endOfMonth (iso_date y m d) = Some (iso_date y m (month_length (leap y) m))"
proof -
  have m: "0 \<le> m" "m < 12" "1 \<le> d" "d \<le> 31"
    using assms(1) month_length_bounds(2) [of m "leap y"] by (auto simp: valid_date_def)
  have v: "valid_date y m (month_length (leap y) m)"
    using m month_length_bounds(1) by (simp add: valid_date_def)
  note c = in_calendar_make_day [OF v assms(2,3)]
  show ?thesis
    using c m assms parts_iso_date [of y m d] make_day_month_end [OF m(1,2), of y]
    by (simp add: endOfMonth_def Date_UTC_in_calendar format_in_calendar)
qed

text \<open>The day after the last day of a month is the first of the next.\<close>

lemma dayAfter_month_end:
  assumes "0 \<le> m" "m < 12" "100 \<le> y" "y < 9999"
  shows "dayAfter (iso_date y m (month_length (leap y) m))
      = Some (if m = 11 then iso_date (y + 1) 0 1 else iso_date y (m + 1) 1)"
proof -
  let ?l = "month_length (leap y) m" and ?y = "if m = 11 then y + 1 else y"
    and ?m = "if m = 11 then 0 else m + 1"
  have v: "valid_date y m ?l" "valid_date ?y ?m 1"
    using assms month_length_bounds(1) [of m "leap y"] month_length_bounds(1) [of ?m "leap ?y"]
    by (auto simp: valid_date_def)
  have next': "make_day y m (?l + 1) = make_day ?y ?m 1"
    using assms by (auto simp: make_day_def Let_def year_start_Suc month_length_def)
  note c = in_calendar_make_day [OF v(1)] in_calendar_make_day [OF v(2)]
  show ?thesis
    using daysAfter_day [of "make_day y m ?l" 1] c assms next'
    by (simp add: dayAfter_def make_day_shift split: if_splits)
qed

text \<open>C6. Moving a date by a number of days is exact day arithmetic on the proleptic calendar:
  for every day of the years 0100 to 9999, and a result in them, the printed date is that of the
  shifted day; so moving there and back returns the string.\<close>

theorem daysAfter_exact:
  assumes "in_calendar t" "in_calendar (t + n)"
  shows "daysAfter (iso_day t) n = Some (iso_day (t + n))
    \<and> Option.bind (daysAfter (iso_day t) n) (\<lambda>s. daysAfter s (- n)) = Some (iso_day t)"
proof
  show "daysAfter (iso_day t) n = Some (iso_day (t + n))" by (rule daysAfter_day [OF assms])
  then show "Option.bind (daysAfter (iso_day t) n) (\<lambda>s. daysAfter s (- n)) = Some (iso_day t)"
    using daysAfter_day [of "t + n" "- n"] assms by simp
qed

theorem daysAfter_exact_witness:
  "daysAfter ''2024-02-28'' 2 = Some ''2024-03-01''
   \<and> Option.bind (daysAfter ''2024-02-28'' 2) (\<lambda>s. daysAfter s (- 2)) = Some ''2024-02-28''"
proof -
  have "in_calendar 19781" "in_calendar (19781 + 2)" by code_simp+
  note w = daysAfter_exact [OF this]
  have i: "iso_day 19781 = ''2024-02-28''" "iso_day (19781 + 2) = ''2024-03-01''" by code_simp+
  show ?thesis using w unfolding i .
qed

text \<open>The end of a month is its last day: the result lies in the same month, is not before
  the date, and the day after it is the first of the next month (of the next year for
  December).\<close>

theorem endOfMonth_last_day:
  assumes "valid_date y m d" "100 \<le> y" "y < 9999"
  shows "\<exists>l. endOfMonth (iso_date y m d) = Some (iso_date y m l) \<and> d \<le> l \<and> valid_date y m l
    \<and> dayAfter (iso_date y m l)
      = Some (if m = 11 then iso_date (y + 1) 0 1 else iso_date y (m + 1) 1)"
proof -
  let ?l = "month_length (leap y) m"
  have m: "0 \<le> m" "m < 12" "d \<le> ?l" using assms(1) by (auto simp: valid_date_def)
  then have "valid_date y m ?l" using month_length_bounds(1) by (simp add: valid_date_def)
  moreover have "endOfMonth (iso_date y m d) = Some (iso_date y m ?l)"
    using assms by (intro endOfMonth_date) auto
  ultimately show ?thesis
    using m dayAfter_month_end [OF m(1,2) assms(2,3)] by (intro exI [of _ ?l]) simp
qed

theorem endOfMonth_last_day_witness:
  "iso_date 2024 1 10 = ''2024-02-10''
   \<and> (\<exists>l. endOfMonth ''2024-02-10'' = Some (iso_date 2024 1 l) \<and> 10 \<le> l \<and> valid_date 2024 1 l
      \<and> dayAfter (iso_date 2024 1 l) = Some ''2024-03-01'')"
proof -
  have "valid_date 2024 1 10" "(100::int) \<le> 2024" "(2024::int) < 9999" by code_simp+
  note w = endOfMonth_last_day [OF this]
  have i: "iso_date 2024 1 10 = ''2024-02-10''" by code_simp
  have n: "(if (1::int) = 11 then iso_date (2024 + 1) 0 1 else iso_date 2024 (1 + 1) 1) = ''2024-03-01''"
    by code_simp
  show ?thesis using i w [unfolded i n] by blast
qed

text \<open>A fiscal year that starts on a date ends the day before the same date of the next
  year; when that date does not exist (a start on 29 February) it ends on 28 February, so the
  next year starts on 1 March.\<close>

theorem endOfYearFrom_full_year:
  assumes "valid_date y m d" "100 \<le> y" "y < 9999"
  shows "Option.bind (endOfYearFrom (iso_date y m d)) dayAfter
    = Some (if valid_date (y + 1) m d then iso_date (y + 1) m d else iso_date (y + 1) 2 1)"
proof -
  let ?m = "if valid_date (y + 1) m d then m else 2" and ?d = "if valid_date (y + 1) m d then d else 1"
  have b: "0 \<le> m" "m < 12" "1 \<le> d" "d \<le> 31" "d \<le> month_length (leap y) m"
    using assms(1) month_length_bounds(2) [of m "leap y"] by (auto simp: valid_date_def)
  have feb: "m = 1 \<and> d = 29 \<and> \<not> leap (y + 1)" if "\<not> valid_date (y + 1) m d"
  proof -
    from that b have less: "month_length (leap (y + 1)) m < d" by (auto simp: valid_date_def)
    with b have "m = 1" using month_length_bounds(3) [of m "leap y" "leap (y + 1)"] by fastforce
    with less b(5) show ?thesis by (auto split: if_splits)
  qed
  have v: "valid_date (y + 1) ?m ?d"
    by (auto simp: valid_date_def month_length_def month_start_def)
  have day: "make_day (y + 1) m (d - 1) + 1 = make_day (y + 1) ?m ?d"
  proof (cases "valid_date (y + 1) m d")
    case True
    then show ?thesis by (simp add: make_day_def Let_def)
  next
    case False
    with feb have "m = 1" "d = 29" "\<not> leap (y + 1)" by auto
    with False show ?thesis by (simp add: make_day_def Let_def month_start_def)
  qed
  note c = in_calendar_make_day [OF v]
  have cal: "in_calendar (make_day (y + 1) m (d - 1))"
  proof -
    have "year_start y < year_start (y + 1)" "year_start 100 \<le> year_start y" 
      using assms by (auto intro: year_start_less year_start_le)
    moreover have "year_start (y + 1) \<le> make_day (y + 1) ?m ?d" "in_calendar (make_day (y + 1) ?m ?d)"
      using make_day_in_year(2) [OF v] c(1) assms by auto
    ultimately show ?thesis using day by (simp add: in_calendar_def split del: if_split)
  qed
  have "endOfYearFrom (iso_date y m d) = Some (iso_day (make_day (y + 1) m (d - 1)))"
    using assms b cal parts_iso_date [of y m d]
    by (simp add: endOfYearFrom_def Date_UTC_in_calendar format_in_calendar)
  moreover have "dayAfter (iso_day (make_day (y + 1) m (d - 1))) = Some (iso_day (make_day (y + 1) ?m ?d))"
    using daysAfter_day [OF cal, of 1] c(1) assms by (simp add: dayAfter_def day split del: if_split)
  ultimately show ?thesis using c(2) assms by auto
qed

theorem endOfYearFrom_full_year_witness:
  "Option.bind (endOfYearFrom ''2024-02-29'') dayAfter = Some ''2025-03-01''"
proof -
  have "valid_date 2024 1 29" "(100::int) \<le> 2024" "(2024::int) < 9999" by code_simp+
  note w = endOfYearFrom_full_year [OF this]
  have i: "iso_date 2024 1 29 = ''2024-02-29''" by code_simp
  have n: "(if valid_date (2024 + 1) 1 29 then iso_date (2024 + 1) 1 29 else iso_date (2024 + 1) 2 1)
      = ''2025-03-01''" by code_simp
  show ?thesis using w unfolding i n .
qed

end
