(* ===== verification/Urls.thy ===== *)
theory Urls
  imports Numbers
begin

text \<open>
  The two encoders of the platform that \<open>web/src/lib/api.ts\<close> builds its paths with,
  \<open>encodeURIComponent\<close> and \<open>URLSearchParams\<close>, with the decoders a server applies as their
  reference: a decoded path segment or query is the one that was encoded.
\<close>

section \<open>Encoders of the platform\<close>

text \<open>Strings hold code units below 256, so a character is one UTF-8 byte or two.\<close>

definition hex_digit :: "nat \<Rightarrow> char" where
  "hex_digit n = ''0123456789ABCDEF'' ! n"

definition percent :: "nat \<Rightarrow> string" where
  "percent b = [CHR ''%'', hex_digit (b div 16), hex_digit (b mod 16)]"

definition utf8 :: "char \<Rightarrow> nat list" where
  "utf8 c = (let n = of_char c in if n < 128 then [n] else [192 + n div 64, 128 + n mod 64])"

definition is_alnum :: "char \<Rightarrow> bool" where
  "is_alnum c \<longleftrightarrow> (let n = of_char c :: nat in
     48 \<le> n \<and> n \<le> 57 \<or> 65 \<le> n \<and> n \<le> 90 \<or> 97 \<le> n \<and> n \<le> 122)"

definition encode_with :: "string \<Rightarrow> char \<Rightarrow> string" where
  "encode_with plain c = (if is_alnum c \<or> c \<in> set plain then [c] else concat (map percent (utf8 c)))"

definition encodeURIComponent :: "string \<Rightarrow> string" where
  "encodeURIComponent s = concat (map (encode_with (''-_.!~*'' @ [CHR 0x27] @ ''()'')) s)"

text \<open>\<open>URLSearchParams\<close>: pairs in the order of their \<open>set\<close> calls (on distinct names), written as a
  form: a space is a plus sign.\<close>

definition form_encode :: "string \<Rightarrow> string" where
  "form_encode s = concat (map (\<lambda>c. if c = CHR '' '' then ''+'' else encode_with ''*-._'' c) s)"

fun search_params :: "(string \<times> string) list \<Rightarrow> string" where
  "search_params [] = []"
| "search_params [(k, v)] = form_encode k @ ''='' @ form_encode v"
| "search_params ((k, v) # p # ps) = form_encode k @ ''='' @ form_encode v @ ''&'' @ search_params (p # ps)"

section \<open>Decoding\<close>

definition hex_val :: "char \<Rightarrow> nat" where
  "hex_val c = (let n = of_char c in if n < 58 then n - 48 else n - 55)"

fun pct_bytes :: "string \<Rightarrow> nat list" where
  "pct_bytes (c # a # b # s) =
     (if c = CHR ''%'' then (16 * hex_val a + hex_val b) # pct_bytes s
      else of_char c # pct_bytes (a # b # s))"
| "pct_bytes (c # s) = of_char c # pct_bytes s"
| "pct_bytes [] = []"

fun utf8_decode :: "nat list \<Rightarrow> string" where
  "utf8_decode (b # c # bs) =
     (if b < 128 then char_of b # utf8_decode (c # bs)
      else char_of (64 * (b - 192) + (c - 128)) # utf8_decode bs)"
| "utf8_decode [b] = [char_of b]"
| "utf8_decode [] = []"

definition decodeURIComponent :: "string \<Rightarrow> string" where
  "decodeURIComponent s = utf8_decode (pct_bytes s)"

definition form_decode :: "string \<Rightarrow> string" where
  "form_decode s = decodeURIComponent (map (\<lambda>c. if c = CHR ''+'' then CHR '' '' else c) s)"

definition parse_pair :: "string \<Rightarrow> string \<times> string" where
  "parse_pair s = (form_decode (takeWhile (\<lambda>c. c \<noteq> CHR ''='') s),
     form_decode (tl (dropWhile (\<lambda>c. c \<noteq> CHR ''='') s)))"

definition parse_query :: "string \<Rightarrow> (string \<times> string) list" where
  "parse_query s = map parse_pair (filter (\<lambda>p. p \<noteq> []) (split_on CHR ''&'' s))"

lemma hex_digit_all: "\<forall>n<16. hex_val (hex_digit n) = n \<and> is_alnum (hex_digit n)"
  by code_simp

lemma hex_digit_props:
  assumes "n < 16"
  shows "hex_val (hex_digit n) = n" "is_alnum (hex_digit n)"
  using hex_digit_all assms by auto

lemma of_char_less [simp]: "(of_char c :: nat) < 256"
  by (rule nat_of_char_less_256)

text \<open>Characters the encoders leave alone.\<close>

definition plain_chars :: "string \<Rightarrow> bool" where
  "plain_chars p \<longleftrightarrow> list_all (\<lambda>c. (of_char c :: nat) < 128 \<and> c \<noteq> CHR ''%'') p"

lemma utf8_byte: "b \<in> set (utf8 c) \<Longrightarrow> b < 256"
  using less_mult_imp_div_less [of "of_char c" 64 64] of_char_less [of c]
  by (auto simp: utf8_def Let_def split: if_splits)

lemma pct_bytes_plain: "c \<noteq> CHR ''%'' \<Longrightarrow> pct_bytes (c # s) = of_char c # pct_bytes s"
  by (cases s; cases "tl s"; simp)

lemma pct_bytes_percent: "b < 256 \<Longrightarrow> pct_bytes (percent b @ s) = b # pct_bytes s"
  by (simp add: percent_def hex_digit_props)

lemma pct_bytes_percents:
  "\<forall>b\<in>set bs. b < 256 \<Longrightarrow> pct_bytes (concat (map percent bs) @ s) = bs @ pct_bytes s"
  by (induction bs) (simp_all add: pct_bytes_percent del: append_assoc add: append_assoc)

lemma is_alnum_plain: "is_alnum c \<Longrightarrow> (of_char c :: nat) < 128 \<and> c \<noteq> CHR ''%''"
  by (auto simp: is_alnum_def Let_def)

lemma pct_bytes_encode_with:
  assumes "plain_chars p"
  shows "pct_bytes (encode_with p c @ s) = utf8 c @ pct_bytes s"
proof (cases "is_alnum c \<or> c \<in> set p")
  case True
  then have "(of_char c :: nat) < 128 \<and> c \<noteq> CHR ''%''"
    using is_alnum_plain assms by (auto simp: plain_chars_def list_all_iff)
  with True show ?thesis by (simp add: encode_with_def pct_bytes_plain utf8_def)
next
  case False
  then show ?thesis by (simp add: encode_with_def pct_bytes_percents utf8_byte)
qed

lemma utf8_decode_utf8: "utf8_decode (utf8 c @ bs) = c # utf8_decode bs"
proof (cases "(of_char c :: nat) < 128")
  case True
  then show ?thesis by (cases bs) (simp_all add: utf8_def)
next
  case False
  then show ?thesis by (simp add: utf8_def Let_def)
qed

lemma decode_encode_with:
  assumes "plain_chars p"
  shows "decodeURIComponent (concat (map (encode_with p) s)) = s"
  unfolding decodeURIComponent_def
  by (induction s) (simp_all add: pct_bytes_encode_with [OF assms] utf8_decode_utf8)

lemma encode_with_chars:
  "c' \<in> set (encode_with p c) \<Longrightarrow> is_alnum c' \<or> c' \<in> set p \<or> c' = CHR ''%''"
proof -
  have "is_alnum c' \<or> c' = CHR ''%''" if "b < 256" "c' \<in> set (percent b)" for b
    using that hex_digit_props(2) [of "b div 16"] hex_digit_props(2) [of "b mod 16"]
    by (auto simp: percent_def)
  then show "c' \<in> set (encode_with p c) \<Longrightarrow> ?thesis"
    using utf8_byte by (fastforce simp: encode_with_def split: if_splits)
qed

lemma encodeURIComponent_simps:
  "encodeURIComponent [] = []"
  "encodeURIComponent (c # s) = encode_with (''-_.!~*'' @ [CHR 0x27] @ ''()'') c @ encodeURIComponent s"
  by (simp_all add: encodeURIComponent_def)

lemma decode_encodeURIComponent: "decodeURIComponent (encodeURIComponent s) = s"
  unfolding encodeURIComponent_def by (rule decode_encode_with) code_simp

lemma encodeURIComponent_inject [simp]:
  "encodeURIComponent s = encodeURIComponent t \<longleftrightarrow> s = t"
  by (metis decode_encodeURIComponent)

lemma encodeURIComponent_chars:
  "c \<in> set (encodeURIComponent s) \<Longrightarrow> is_alnum c \<or> c \<in> set (''-_.!~*'' @ [CHR 0x27] @ ''()'') \<or> c = CHR ''%''"
  unfolding encodeURIComponent_def using encode_with_chars by fastforce

lemma encodeURIComponent_no_delimiter [simp]:
  "CHR ''/'' \<notin> set (encodeURIComponent s)" "CHR ''?'' \<notin> set (encodeURIComponent s)"
  "CHR ''#'' \<notin> set (encodeURIComponent s)"
proof -
  have "\<not> is_alnum CHR ''/''" "\<not> is_alnum CHR ''?''" "\<not> is_alnum CHR ''#''" by code_simp+
  then show "CHR ''/'' \<notin> set (encodeURIComponent s)" "CHR ''?'' \<notin> set (encodeURIComponent s)"
    "CHR ''#'' \<notin> set (encodeURIComponent s)"
    using encodeURIComponent_chars by fastforce+
qed

section \<open>Query strings\<close>

lemma form_encode_simps [simp]:
  "form_encode [] = []"
  "form_encode (c # s) = (if c = CHR '' '' then ''+'' else encode_with ''*-._'' c) @ form_encode s"
  by (simp_all add: form_encode_def)

lemma form_encode_chars:
  "c \<in> set (form_encode s) \<Longrightarrow> is_alnum c \<or> c \<in> set ''*-._%+''"
  unfolding form_encode_def using encode_with_chars by (fastforce split: if_splits)

lemma form_encode_no_delimiter [simp]:
  "CHR ''&'' \<notin> set (form_encode s)" "CHR ''='' \<notin> set (form_encode s)"
proof -
  have "\<not> is_alnum CHR ''&''" "\<not> is_alnum CHR ''=''" by code_simp+
  then show "CHR ''&'' \<notin> set (form_encode s)" "CHR ''='' \<notin> set (form_encode s)"
    using form_encode_chars by fastforce+
qed

lemma encode_with_no_plus:
  assumes "CHR ''+'' \<notin> set p"
  shows "map (\<lambda>c. if c = CHR ''+'' then CHR '' '' else c) (encode_with p c) = encode_with p c"
proof -
  have "\<not> is_alnum CHR ''+''" by code_simp
  then have "CHR ''+'' \<notin> set (encode_with p c)" using encode_with_chars assms by fastforce
  then show ?thesis by (intro map_idI) auto
qed

lemma form_decode_encode: "form_decode (form_encode s) = s"
proof -
  have p: "plain_chars ''*-._''" by code_simp
  have sp: "pct_bytes (CHR '' '' # r) = 32 # pct_bytes r" for r
    by (subst pct_bytes_plain) simp_all
  have d: "utf8_decode (32 # bs) = CHR '' '' # utf8_decode bs" for bs
  proof -
    have "char_of (32::nat) = CHR '' ''" by code_simp
    then show ?thesis by (cases bs) simp_all
  qed
  show ?thesis
    unfolding form_decode_def decodeURIComponent_def
    by (induction s) (simp_all add: encode_with_no_plus pct_bytes_encode_with [OF p] utf8_decode_utf8 sp d)
qed

lemma takeWhile_dropWhile_mark:
  "x \<notin> set a \<Longrightarrow> takeWhile (\<lambda>c. c \<noteq> x) (a @ x # b) = a"
  "x \<notin> set a \<Longrightarrow> tl (dropWhile (\<lambda>c. c \<noteq> x) (a @ x # b)) = b"
  by (induction a) auto

lemma parse_pair_encode: "parse_pair (form_encode k @ CHR ''='' # form_encode v) = (k, v)"
  by (simp add: parse_pair_def takeWhile_dropWhile_mark form_decode_encode)

lemma parse_search_params: "parse_query (search_params ps) = ps"
proof (induction ps rule: search_params.induct)
  case 1
  then show ?case by (simp add: parse_query_def)
next
  case (2 k v)
  then show ?case by (simp add: parse_query_def split_on_none parse_pair_encode)
next
  case (3 k v p ps)
  have "split_on CHR ''&'' (search_params ((k, v) # p # ps))
      = (form_encode k @ CHR ''='' # form_encode v) # split_on CHR ''&'' (search_params (p # ps))"
    using split_on_append [of "CHR ''&''" "form_encode k @ CHR ''='' # form_encode v"
        "search_params (p # ps)"] by simp
  with 3 show ?case by (simp add: parse_query_def parse_pair_encode)
qed

lemma search_params_Nil [simp]: "search_params ps = [] \<longleftrightarrow> ps = []"
  by (cases ps rule: search_params.cases) auto

lemma search_params_inject: "search_params ps = search_params qs \<longleftrightarrow> ps = qs"
  by (metis parse_search_params)

end
