(* ===== verification/Client.thy ===== *)
theory Client
  imports Urls
begin

text \<open>
  The typed fetch client of \<open>web/src/lib/api.ts\<close> (its first eighty lines): \<open>failure\<close>, \<open>get\<close>,
  \<open>send\<close>, \<open>del\<close> and \<open>post\<close>, and the unauthorized event. An asynchronous function is a function of the browser's state that
  returns a value or an exception together with the next state. The network (the browser's
  fetch and the server behind it) is a field of that state: a function from a request and the
  state of the world to a reply and the next state of the world, about which nothing is assumed.
\<close>

section \<open>Outcomes, requests and replies\<close>

text \<open>What an API call throws: an \<open>ApiError\<close>, the \<open>TypeError\<close> of a fetch that got no response, or
  the \<open>SyntaxError\<close> of a body that is not JSON. The cast \<open>as T\<close> of a response is unchecked in
  the source; a JSON body of another shape is the outcome \<open>Shape_Error\<close>, outside the contract.\<close>

datatype exn =
    Api_Error (error_status: int) (api_message: string)
  | Type_Error string
  | Syntax_Error string
  | Shape_Error

text \<open>The \<open>message\<close> of the exception as an \<open>Error\<close> object.\<close>

fun error_message :: "exn \<Rightarrow> string" where
  "error_message (Api_Error n m) = m"
| "error_message (Type_Error m) = m"
| "error_message (Syntax_Error m) = m"
| "error_message Shape_Error = []"

text \<open>A response body: not JSON, the error object of the backend, or the data of an endpoint.\<close>

datatype 'b content = No_JSON string | Error_Object string | JSON 'b

datatype 'b reply = Rejected string | Response (status: int) (content: "'b content")

record 'p request =
  rq_method :: string
  rq_path :: string
  rq_headers :: "(string \<times> string) list"
  rq_body :: "'p option"

text \<open>The state an asynchronous function runs in: the network and its world, the requests sent
  so far and the events dispatched on the window, oldest first.\<close>

record ('w, 'p, 'b) browser =
  network :: "'p request \<Rightarrow> 'w \<Rightarrow> 'b reply \<times> 'w"
  world :: 'w
  sent :: "'p request list"
  events :: "string list"

type_synonym ('s, 'a) io = "'s \<Rightarrow> (exn + 'a) \<times> 's"

definition return_io :: "'a \<Rightarrow> ('s, 'a) io" where
  "return_io x s = (Inr x, s)"

definition throw_io :: "exn \<Rightarrow> ('s, 'a) io" where
  "throw_io e s = (Inl e, s)"

definition then_io :: "('s, 'a) io \<Rightarrow> ('a \<Rightarrow> ('s, 'b) io) \<Rightarrow> ('s, 'b) io" where
  "then_io m f s = (case m s of (Inl e, s') \<Rightarrow> (Inl e, s') | (Inr x, s') \<Rightarrow> f x s')"

definition map_io :: "('a \<Rightarrow> 'b) \<Rightarrow> ('s, 'a) io \<Rightarrow> ('s, 'b) io" where
  "map_io f m = then_io m (\<lambda>x. return_io (f x))"

text \<open>\<open>Promise.all\<close> of two promises: both calls are made, in order, whatever the first gives; the
  result is rejected with the first rejection. Longer arrays nest to the right.\<close>

definition both_io :: "('s, 'a) io \<Rightarrow> ('s, 'b) io \<Rightarrow> ('s, 'a \<times> 'b) io" where
  "both_io m n s = (case m s of (r, s') \<Rightarrow> (case n s' of (q, s'') \<Rightarrow>
     ((case r of Inl e \<Rightarrow> Inl e | Inr x \<Rightarrow> (case q of Inl e \<Rightarrow> Inl e | Inr y \<Rightarrow> Inr (x, y))), s'')))"

section \<open>The client\<close>

definition BASE :: string where
  "BASE = ''/api''"

definition UNAUTHORIZED_EVENT :: string where
  "UNAUTHORIZED_EVENT = ''tadmor:unauthorized''"

definition fetch :: "'p request \<Rightarrow> ('w, 'p, 'b) browser \<Rightarrow> 'b reply \<times> ('w, 'p, 'b) browser" where
  "fetch rq s = (case network s rq (world s) of (r, w) \<Rightarrow>
     (r, s\<lparr>world := w, sent := sent s @ [rq]\<rparr>))"

definition dispatchEvent :: "string \<Rightarrow> ('w, 'p, 'b) browser \<Rightarrow> ('w, 'p, 'b) browser" where
  "dispatchEvent e s = s\<lparr>events := events s @ [e]\<rparr>"

text \<open>\<open>res.ok\<close>\<close>

definition ok :: "int \<Rightarrow> bool" where
  "ok st \<longleftrightarrow> 200 \<le> st \<and> st \<le> 299"

definition status_message :: "int \<Rightarrow> string" where
  "status_message st = ''request failed ('' @ show_int st @ '')''"

text \<open>The error of a failed response: the event first, then the message of the body, if the body
  is JSON with a non-empty error field.\<close>

definition failure ::
    "int \<Rightarrow> 'b content \<Rightarrow> ('w, 'p, 'b) browser \<Rightarrow> exn \<times> ('w, 'p, 'b) browser" where
  "failure st body s =
     (let s' = (if st = 401 then dispatchEvent UNAUTHORIZED_EVENT s else s);
          message = (case body of
             Error_Object e \<Rightarrow> if e \<noteq> [] then e else status_message st
           | JSON _ \<Rightarrow> status_message st
           | No_JSON _ \<Rightarrow> status_message st)
      in (Api_Error st message, s'))"

text \<open>\<open>(await res.json()) as T\<close>, with the cast as an argument.\<close>

definition json_as :: "('b \<Rightarrow> 'a option) \<Rightarrow> 'b content \<Rightarrow> ('s, 'a) io" where
  "json_as cast body = (case body of
       No_JSON m \<Rightarrow> throw_io (Syntax_Error m)
     | Error_Object _ \<Rightarrow> throw_io Shape_Error
     | JSON b \<Rightarrow> (case cast b of None \<Rightarrow> throw_io Shape_Error | Some x \<Rightarrow> return_io x))"

definition get :: "('b \<Rightarrow> 'a option) \<Rightarrow> string \<Rightarrow> (('w, 'p, 'b) browser, 'a) io" where
  "get cast path s =
     (case fetch \<lparr>rq_method = ''GET'', rq_path = BASE @ path,
         rq_headers = [(''Accept'', ''application/json'')], rq_body = None\<rparr> s of
       (Rejected m, s) \<Rightarrow> (Inl (Type_Error m), s)
     | (Response st body, s) \<Rightarrow>
         if \<not> ok st then (case failure st body s of (e, s) \<Rightarrow> (Inl e, s))
         else json_as cast body s)"

definition send :: "string \<Rightarrow> string \<Rightarrow> 'p \<Rightarrow> (('w, 'p, 'b) browser, unit) io" where
  "send verb path body s =
     (case fetch \<lparr>rq_method = verb, rq_path = BASE @ path,
         rq_headers = [(''Content-Type'', ''application/json''), (''Accept'', ''application/json'')],
         rq_body = Some body\<rparr> s of
       (Rejected m, s) \<Rightarrow> (Inl (Type_Error m), s)
     | (Response st body, s) \<Rightarrow>
         if \<not> ok st then (case failure st body s of (e, s) \<Rightarrow> (Inl e, s))
         else (Inr (), s))"

definition del :: "string \<Rightarrow> (('w, 'p, 'b) browser, unit) io" where
  "del path s =
     (case fetch \<lparr>rq_method = ''DELETE'', rq_path = BASE @ path,
         rq_headers = [(''Accept'', ''application/json'')], rq_body = None\<rparr> s of
       (Rejected m, s) \<Rightarrow> (Inl (Type_Error m), s)
     | (Response st body, s) \<Rightarrow>
         if \<not> ok st then (case failure st body s of (e, s) \<Rightarrow> (Inl e, s))
         else (Inr (), s))"

definition post :: "('b \<Rightarrow> 'a option) \<Rightarrow> string \<Rightarrow> 'p \<Rightarrow> (('w, 'p, 'b) browser, 'a) io" where
  "post cast path body s =
     (case fetch \<lparr>rq_method = ''POST'', rq_path = BASE @ path,
         rq_headers = [(''Content-Type'', ''application/json''), (''Accept'', ''application/json'')],
         rq_body = Some body\<rparr> s of
       (Rejected m, s) \<Rightarrow> (Inl (Type_Error m), s)
     | (Response st body, s) \<Rightarrow>
         if \<not> ok st then (case failure st body s of (e, s) \<Rightarrow> (Inl e, s))
         else json_as cast body s)"

section \<open>One exchange\<close>

text \<open>The four functions have one shape: a request, then the reading of a good response.\<close>

definition exchange ::
    "'p request \<Rightarrow> ('b content \<Rightarrow> (('w, 'p, 'b) browser, 'a) io) \<Rightarrow> (('w, 'p, 'b) browser, 'a) io" where
  "exchange rq read s =
     (case fetch rq s of
       (Rejected m, s) \<Rightarrow> (Inl (Type_Error m), s)
     | (Response st body, s) \<Rightarrow>
         if \<not> ok st then (case failure st body s of (e, s) \<Rightarrow> (Inl e, s))
         else read body s)"

definition get_request :: "string \<Rightarrow> 'p request" where
  "get_request path = \<lparr>rq_method = ''GET'', rq_path = BASE @ path,
     rq_headers = [(''Accept'', ''application/json'')], rq_body = None\<rparr>"

definition del_request :: "string \<Rightarrow> 'p request" where
  "del_request path = \<lparr>rq_method = ''DELETE'', rq_path = BASE @ path,
     rq_headers = [(''Accept'', ''application/json'')], rq_body = None\<rparr>"

definition body_request :: "string \<Rightarrow> string \<Rightarrow> 'p \<Rightarrow> 'p request" where
  "body_request verb path body = \<lparr>rq_method = verb, rq_path = BASE @ path,
     rq_headers = [(''Content-Type'', ''application/json''), (''Accept'', ''application/json'')],
     rq_body = Some body\<rparr>"

lemma get_exchange: "get cast path = exchange (get_request path) (json_as cast)"
  by (rule ext) (simp add: get_def exchange_def get_request_def)

lemma post_exchange:
  "post cast path body = exchange (body_request ''POST'' path body) (json_as cast)"
  by (rule ext) (simp add: post_def exchange_def body_request_def)

lemma send_exchange:
  "send verb path body = exchange (body_request verb path body) (\<lambda>_. return_io ())"
  by (rule ext) (simp add: send_def exchange_def body_request_def return_io_def
      split: prod.splits reply.splits)

lemma del_exchange: "del path = exchange (del_request path) (\<lambda>_. return_io ())"
  by (rule ext) (simp add: del_def exchange_def del_request_def return_io_def
      split: prod.splits reply.splits)

lemmas client_exchange = get_exchange post_exchange send_exchange del_exchange

lemma request_simps [simp]:
  "rq_method (get_request p) = ''GET''" "rq_path (get_request p) = BASE @ p"
  "rq_body (get_request p) = None"
  "rq_method (del_request p) = ''DELETE''" "rq_path (del_request p) = BASE @ p"
  "rq_body (del_request p) = None"
  "rq_method (body_request v p b) = v" "rq_path (body_request v p b) = BASE @ p"
  "rq_body (body_request v p b) = Some b"
  by (simp_all add: get_request_def del_request_def body_request_def)

lemma request_inject [simp]:
  "get_request p = get_request p' \<longleftrightarrow> p = p'"
  "del_request p = del_request p' \<longleftrightarrow> p = p'"
  "body_request v p b = body_request v' p' b' \<longleftrightarrow> v = v' \<and> p = p' \<and> b = b'"
  by (auto simp: get_request_def del_request_def body_request_def)

lemma failure_simp:
  "failure st body s = (Api_Error st (case body of Error_Object e \<Rightarrow>
       if e \<noteq> [] then e else status_message st | _ \<Rightarrow> status_message st),
     s\<lparr>events := events s @ (if st = 401 then [UNAUTHORIZED_EVENT] else [])\<rparr>)"
  by (cases body) (simp_all add: failure_def dispatchEvent_def Let_def)

lemma json_as_state [simp]: "snd (json_as cast body s) = s"
  by (simp add: json_as_def throw_io_def return_io_def split: content.split option.split)

lemma return_io_state [simp]: "snd (return_io x s) = s"
  by (simp add: return_io_def)

text \<open>What an exchange leaves behind, whatever it returns.\<close>

definition after_exchange :: "'p request \<Rightarrow> ('w, 'p, 'b) browser \<Rightarrow> ('w, 'p, 'b) browser" where
  "after_exchange rq s = (case network s rq (world s) of (r, w) \<Rightarrow>
     s\<lparr>world := w, sent := sent s @ [rq], events := events s
       @ (case r of Response st _ \<Rightarrow> if st = 401 then [UNAUTHORIZED_EVENT] else [] | Rejected _ \<Rightarrow> [])\<rparr>)"

lemma exchange_state:
  assumes "\<And>b s. snd (read b s) = s"
  shows "snd (exchange rq read s) = after_exchange rq s"
  using assms
  by (auto simp: exchange_def after_exchange_def fetch_def failure_simp ok_def
      split: prod.splits reply.splits)

lemma client_state [simp]:
  "snd (get cast p s) = after_exchange (get_request p) s"
  "snd (post cast p b s) = after_exchange (body_request ''POST'' p b) s"
  "snd (send v p b s) = after_exchange (body_request v p b) s"
  "snd (del p s) = after_exchange (del_request p) s"
  unfolding client_exchange by (rule exchange_state; simp)+

lemma after_exchange_log [simp]:
  "sent (after_exchange rq s) = sent s @ [rq]" "network (after_exchange rq s) = network s"
  by (simp_all add: after_exchange_def split: prod.split)

lemma map_io_state [simp]: "snd (map_io f m s) = snd (m s)"
  by (simp add: map_io_def then_io_def return_io_def split: prod.split sum.split)

text \<open>A call that makes exactly one exchange.\<close>

definition makes :: "(('w, 'p, 'b) browser, 'a) io \<Rightarrow> 'p request \<Rightarrow> bool" where
  "makes m rq \<longleftrightarrow> (\<forall>s. snd (m s) = after_exchange rq s)"

named_theorems api_requests \<open>the request each function of the API makes\<close>

lemma makes_client [api_requests]:
  "makes (get cast p) (get_request p)"
  "makes (post cast p b) (body_request ''POST'' p b)"
  "makes (send v p b) (body_request v p b)"
  "makes (del p) (del_request p)"
  by (simp_all add: makes_def)

lemma makes_map_io [api_requests]: "makes m rq \<Longrightarrow> makes (map_io f m) rq"
  by (simp add: makes_def)

lemma makes_sent: "makes m rq \<Longrightarrow> sent (snd (m s)) = sent s @ [rq]"
  by (simp add: makes_def)

text \<open>The result of an exchange, by the reply of the network.\<close>

definition reply_to :: "'p request \<Rightarrow> ('w, 'p, 'b) browser \<Rightarrow> 'b reply" where
  "reply_to rq s = fst (network s rq (world s))"

fun reply_message :: "int \<Rightarrow> 'b content \<Rightarrow> string" where
  "reply_message st (Error_Object e) = (if e = [] then status_message st else e)"
| "reply_message st (JSON b) = status_message st"
| "reply_message st (No_JSON m) = status_message st"

lemma exchange_failed:
  assumes "reply_to rq s = Response st body" "\<not> ok st"
  shows "exchange rq read s = (Inl (Api_Error st (reply_message st body)), after_exchange rq s)"
  using assms
  by (cases body) (auto simp: exchange_def fetch_def failure_simp after_exchange_def reply_to_def
      split: prod.splits)

lemma exchange_rejected:
  assumes "reply_to rq s = Rejected m"
  shows "exchange rq read s = (Inl (Type_Error m), after_exchange rq s)"
  using assms
  by (auto simp: exchange_def fetch_def after_exchange_def reply_to_def split: prod.splits)

lemma exchange_answered:
  assumes "reply_to rq s = Response st body" "ok st" "\<And>b s. snd (read b s) = s"
  shows "exchange rq read s = (fst (read body (after_exchange rq s)), after_exchange rq s)"
  using assms(1,2) assms(3) [of body "after_exchange rq s"]
  by (auto simp: exchange_def fetch_def after_exchange_def reply_to_def ok_def
      intro!: prod_eqI split: prod.splits)

lemma exchange_json:
  assumes "reply_to rq s = Response st (JSON b)" "ok st" "cast b = Some x"
  shows "exchange rq (json_as cast) s = (Inr x, after_exchange rq s)"
proof -
  have "json_as cast (JSON b) (after_exchange rq s) = (Inr x, after_exchange rq s)"
    using assms(3) by (simp add: json_as_def return_io_def)
  then show ?thesis using exchange_answered [OF assms(1,2), of "json_as cast"] by simp
qed

lemma status_message_not_Nil [simp]: "status_message st \<noteq> []"
  by (simp add: status_message_def)

lemma reply_message_not_Nil [simp]: "reply_message st body \<noteq> []"
  by (cases body) simp_all

end
