(* ===== verification/Wire_Master.thy ===== *)
theory Wire_Master
  imports Prelude
begin

text \<open>
  The wire types of users and master data (\<open>web/src/lib/api.ts\<close>): one record per interface, its fields
  in order under a prefix of the record, \<open>number\<close> ids as integers, a nullable field as an option.
  The last two types collect the bodies the endpoints answer with and take.
\<close>

record User = 
  user_id :: int
  user_email :: string
  user_full_name :: string
  user_is_admin :: bool

record UserRecord = 
  ur_id :: int
  ur_email :: string
  ur_full_name :: string
  ur_is_active :: bool
  ur_is_admin :: bool

record Account = 
  acc_id :: int
  acc_code :: string
  acc_name :: string
  acc_account_type :: string
  acc_parent_id :: "int option"
  acc_currency_code :: "string option"
  acc_is_postable :: bool
  acc_is_active :: bool
  acc_is_cash :: bool
  acc_cash_flow_activity :: string

record AccountInput = 
  acci_code :: string
  acci_name :: string
  acci_account_type :: string
  acci_parent_id :: "int option"
  acci_currency_code :: "string option"
  acci_is_postable :: bool
  acci_is_active :: bool
  acci_is_cash :: bool
  acci_cash_flow_activity :: string

record Organization = 
  org_id :: int
  org_name :: string
  org_legal_name :: "string option"
  org_tax_id :: "string option"
  org_country_code :: "string option"
  org_default_currency :: "string option"
  org_email :: "string option"
  org_is_self :: bool

record OrganizationInput = 
  orgi_name :: string
  orgi_legal_name :: "string option"
  orgi_tax_id :: "string option"
  orgi_country_code :: "string option"
  orgi_default_currency :: "string option"
  orgi_email :: "string option"
  orgi_is_self :: bool

record Customer = 
  cust_id :: int
  cust_organization_id :: int
  cust_customer_number :: "string option"
  cust_ar_account_id :: "int option"
  cust_payment_terms_code :: "string option"
  cust_currency_code :: "string option"
  cust_tax_code :: "string option"
  cust_credit_limit :: "string option"
  cust_is_active :: bool

record CustomerInput = 
  custi_organization_id :: int
  custi_customer_number :: "string option"
  custi_ar_account_id :: "int option"
  custi_payment_terms_code :: "string option"
  custi_currency_code :: "string option"
  custi_tax_code :: "string option"
  custi_credit_limit :: "string option"
  custi_is_active :: bool

record Warehouse = 
  wh_id :: int
  wh_code :: string
  wh_name :: string
  wh_address_id :: "int option"
  wh_is_active :: bool

record WarehouseInput = 
  whi_code :: string
  whi_name :: string
  whi_address_id :: "int option"
  whi_is_active :: bool

record TaxCode = 
  tc_code :: string
  tc_name :: string
  tc_rate :: string
  tc_tax_account_id :: "int option"
  tc_is_active :: bool

record TaxCodeInput = 
  tci_code :: string
  tci_name :: string
  tci_rate :: string
  tci_tax_account_id :: "int option"
  tci_is_active :: bool

record PaymentTerm = 
  pt_code :: string
  pt_name :: string
  pt_due_days :: int

record PaymentTermInput = 
  pti_code :: string
  pti_name :: string
  pti_due_days :: int

record Settings = 
  set_base_currency :: string
  set_fx_gain_loss_account_id :: "int option"

record Supplier = 
  supp_id :: int
  supp_organization_id :: int
  supp_supplier_number :: "string option"
  supp_ap_account_id :: "int option"
  supp_payment_terms_code :: "string option"
  supp_currency_code :: "string option"
  supp_tax_code :: "string option"
  supp_is_active :: bool

record SupplierInput = 
  suppi_organization_id :: int
  suppi_supplier_number :: "string option"
  suppi_ap_account_id :: "int option"
  suppi_payment_terms_code :: "string option"
  suppi_currency_code :: "string option"
  suppi_tax_code :: "string option"
  suppi_is_active :: bool

record Product = 
  prod_id :: int
  prod_sku :: string
  prod_name :: string
  prod_description :: "string option"
  prod_unit_price :: string
  prod_currency_code :: "string option"
  prod_revenue_account_id :: "int option"
  prod_tax_code :: "string option"
  prod_track_inventory :: bool
  prod_inventory_account_id :: "int option"
  prod_cogs_account_id :: "int option"
  prod_is_active :: bool

record ProductInput = 
  prodi_sku :: string
  prodi_name :: string
  prodi_description :: "string option"
  prodi_unit_price :: string
  prodi_currency_code :: "string option"
  prodi_revenue_account_id :: "int option"
  prodi_tax_code :: "string option"
  prodi_track_inventory :: bool
  prodi_inventory_account_id :: "int option"
  prodi_cogs_account_id :: "int option"
  prodi_is_active :: bool

text \<open>The argument of \<open>createUser\<close> and of \<open>updateUser\<close>, object types without a name.\<close>

record UserCreate =
  uc_email :: string
  uc_full_name :: string
  uc_password :: string
  uc_is_admin :: bool

record UserUpdate =
  uu_email :: string
  uu_full_name :: string
  uu_is_active :: bool
  uu_is_admin :: bool

datatype master_body =
    User_Body (the_User: User)
  | UserRecord_Body (the_UserRecord: UserRecord)
  | Account_Body (the_Account: Account)
  | Organization_Body (the_Organization: Organization)
  | Customer_Body (the_Customer: Customer)
  | Warehouse_Body (the_Warehouse: Warehouse)
  | TaxCode_Body (the_TaxCode: TaxCode)
  | PaymentTerm_Body (the_PaymentTerm: PaymentTerm)
  | Settings_Body (the_Settings: Settings)
  | Supplier_Body (the_Supplier: Supplier)
  | Product_Body (the_Product: Product)
  | UserRecord_List (the_UserRecord_list: "UserRecord list")
  | Account_List (the_Account_list: "Account list")
  | Organization_List (the_Organization_list: "Organization list")
  | Customer_List (the_Customer_list: "Customer list")
  | Warehouse_List (the_Warehouse_list: "Warehouse list")
  | TaxCode_List (the_TaxCode_list: "TaxCode list")
  | PaymentTerm_List (the_PaymentTerm_list: "PaymentTerm list")
  | Supplier_List (the_Supplier_list: "Supplier list")
  | Product_List (the_Product_list: "Product list")

datatype master_payload =
    Credentials string string
  | UserCreate_Payload UserCreate
  | UserUpdate_Payload UserUpdate
  | Password_Payload string
  | AccountInput_Payload AccountInput
  | OrganizationInput_Payload OrganizationInput
  | CustomerInput_Payload CustomerInput
  | WarehouseInput_Payload WarehouseInput
  | TaxCodeInput_Payload TaxCodeInput
  | PaymentTermInput_Payload PaymentTermInput
  | Settings_Payload Settings
  | SupplierInput_Payload SupplierInput
  | ProductInput_Payload ProductInput

end
