(* ===== verification/Wire_Ledger.thy ===== *)
theory Wire_Ledger
  imports Prelude
begin

text \<open>
  The wire types of the ledger calendar and of the reports (\<open>web/src/lib/api.ts\<close>). Monetary
  fields are the exact decimal strings of the API.
\<close>

record ExchangeRate = 
  xr_currency_code :: string
  xr_rate_date :: string
  xr_rate :: string

record ExchangeRateInput = 
  xri_currency_code :: string
  xri_rate_date :: string
  xri_rate :: string

record FiscalYear = 
  fy_id :: int
  fy_name :: string
  fy_start_date :: string
  fy_end_date :: string
  fy_status :: string

record FiscalYearInput = 
  fyi_name :: string
  fyi_start_date :: string
  fyi_end_date :: string

record CloseFiscalYearResult = 
  cfy_closing_entry_id :: "int option"
  cfy_next_fiscal_year_id :: "int option"

record AccountingPeriod = 
  ap_id :: int
  ap_fiscal_year_id :: int
  ap_name :: string
  ap_start_date :: string
  ap_end_date :: string
  ap_status :: string

record AccountingPeriodInput = 
  api_fiscal_year_id :: int
  api_name :: string
  api_start_date :: string
  api_end_date :: string
  api_status :: string

record TrialBalanceRow = 
  tb_account_id :: int
  tb_code :: string
  tb_name :: string
  tb_account_type :: string
  tb_total_debit :: string
  tb_total_credit :: string
  tb_balance :: string

record AccountActivityRow = 
  aa_account_id :: int
  aa_code :: string
  aa_name :: string
  aa_account_type :: string
  aa_amount :: string

record BalanceSheet = 
  bs_rows :: "AccountActivityRow list"
  bs_current_earnings :: string

record CashFlowRow = 
  cfr_account_id :: int
  cfr_code :: string
  cfr_name :: string
  cfr_activity :: string
  cfr_amount :: string

record CashFlow = 
  cf_net_income :: string
  cf_rows :: "CashFlowRow list"
  cf_net_cash_flow :: string
  cf_opening_cash :: string
  cf_closing_cash :: string

record LedgerRow = 
  lr_journal_entry_id :: int
  lr_entry_date :: string
  lr_reference :: "string option"
  lr_memo :: "string option"
  lr_currency_code :: string
  lr_debit :: string
  lr_credit :: string
  lr_base_debit :: string
  lr_base_credit :: string

record JournalEntryLine = 
  jl_line_no :: int
  jl_account_id :: int
  jl_account_code :: string
  jl_account_name :: string
  jl_memo :: "string option"
  jl_debit :: string
  jl_credit :: string
  jl_base_debit :: string
  jl_base_credit :: string

record JournalEntry = 
  je_id :: int
  je_entry_date :: string
  je_currency_code :: string
  je_exchange_rate :: string
  je_reference :: "string option"
  je_memo :: "string option"
  je_status :: string
  je_lines :: "JournalEntryLine list"

record AgingRow = 
  ag_party_id :: int
  ag_party_name :: string
  ag_total_outstanding :: string
  ag_not_yet_due :: string
  ag_days_1_30 :: string
  ag_days_31_60 :: string
  ag_days_61_90 :: string
  ag_days_over_90 :: string

record StockValuationRow = 
  sv_product_id :: int
  sv_sku :: string
  sv_name :: string
  sv_qty_on_hand :: string
  sv_value_on_hand :: string
  sv_avg_unit_cost :: string

datatype ledger_body =
    FiscalYear_Body (the_FiscalYear: FiscalYear)
  | CloseFiscalYearResult_Body (the_CloseFiscalYearResult: CloseFiscalYearResult)
  | AccountingPeriod_Body (the_AccountingPeriod: AccountingPeriod)
  | BalanceSheet_Body (the_BalanceSheet: BalanceSheet)
  | CashFlow_Body (the_CashFlow: CashFlow)
  | JournalEntry_Body (the_JournalEntry: JournalEntry)
  | ExchangeRate_List (the_ExchangeRate_list: "ExchangeRate list")
  | FiscalYear_List (the_FiscalYear_list: "FiscalYear list")
  | AccountingPeriod_List (the_AccountingPeriod_list: "AccountingPeriod list")
  | TrialBalanceRow_List (the_TrialBalanceRow_list: "TrialBalanceRow list")
  | AccountActivityRow_List (the_AccountActivityRow_list: "AccountActivityRow list")
  | LedgerRow_List (the_LedgerRow_list: "LedgerRow list")
  | AgingRow_List (the_AgingRow_list: "AgingRow list")
  | StockValuationRow_List (the_StockValuationRow_list: "StockValuationRow list")

datatype ledger_payload =
    Retained_Earnings int
  | ExchangeRateInput_Payload ExchangeRateInput
  | FiscalYearInput_Payload FiscalYearInput
  | AccountingPeriodInput_Payload AccountingPeriodInput

end
