(* ===== verification/Wire_Documents.thy ===== *)
theory Wire_Documents
  imports Prelude
begin

text \<open>
  The wire types of the subledger documents, payments and stock movements
  (\<open>web/src/lib/api.ts\<close>). An interface that extends another is a record extension.
\<close>

record DocumentAmounts = 
  da_currency_code :: string
  da_status :: string
  da_total :: string
  da_amount_applied :: string
  da_balance :: string
  da_journal_entry_id :: "int option"
  da_reference :: "string option"
  da_memo :: "string option"

record SalesInvoice = DocumentAmounts +
  si_id :: int
  si_invoice_number :: string
  si_customer_id :: int
  si_invoice_date :: string
  si_due_date :: "string option"
  si_payment_status :: string

record PurchaseBill = DocumentAmounts +
  pb_id :: int
  pb_bill_number :: string
  pb_supplier_id :: int
  pb_bill_date :: string
  pb_due_date :: "string option"
  pb_payment_status :: string

record SalesCreditNote = DocumentAmounts +
  sc_id :: int
  sc_credit_note_number :: string
  sc_customer_id :: int
  sc_credit_note_date :: string
  sc_application_status :: string

record PurchaseCreditNote = DocumentAmounts +
  pc_id :: int
  pc_credit_note_number :: string
  pc_supplier_id :: int
  pc_credit_note_date :: string
  pc_application_status :: string

record DocumentBalance = 
  db_id :: int
  db_number :: string
  db_party_id :: int
  db_currency_code :: string
  db_date :: string
  db_due_date :: "string option"
  db_status :: string
  db_total :: string
  db_amount_applied :: string
  db_balance :: string
  db_payment_status :: string
  db_journal_entry_id :: "int option"
  db_reference :: "string option"
  db_memo :: "string option"

record SalesInvoiceLine = 
  sil_line_no :: int
  sil_product_id :: "int option"
  sil_description :: string
  sil_quantity :: string
  sil_unit_price :: string
  sil_tax_code :: "string option"
  sil_tax_rate :: string
  sil_line_subtotal :: string
  sil_tax_amount :: string
  sil_line_total :: string
  sil_revenue_account_id :: "int option"
  sil_order_line_id :: "int option"

record SalesInvoiceLineInput = 
  sili_product_id :: "int option"
  sili_description :: string
  sili_quantity :: string
  sili_unit_price :: string
  sili_revenue_account_id :: "int option"
  sili_tax_code :: "string option"
  sili_tax_rate :: string

record SalesInvoiceInput = 
  sii_invoice_number :: string
  sii_customer_id :: int
  sii_invoice_date :: string
  sii_due_date :: "string option"
  sii_currency_code :: string
  sii_reference :: "string option"
  sii_memo :: "string option"
  sii_lines :: "SalesInvoiceLineInput list"

record PurchaseBillLine = 
  pbl_line_no :: int
  pbl_product_id :: "int option"
  pbl_description :: string
  pbl_quantity :: string
  pbl_unit_cost :: string
  pbl_tax_code :: "string option"
  pbl_tax_rate :: string
  pbl_line_subtotal :: string
  pbl_tax_amount :: string
  pbl_line_total :: string
  pbl_expense_account_id :: "int option"
  pbl_order_line_id :: "int option"

record PurchaseBillLineInput = 
  pbli_product_id :: "int option"
  pbli_description :: string
  pbli_quantity :: string
  pbli_unit_cost :: string
  pbli_expense_account_id :: "int option"
  pbli_tax_code :: "string option"
  pbli_tax_rate :: string

record PurchaseBillInput = 
  pbi_bill_number :: string
  pbi_supplier_id :: int
  pbi_bill_date :: string
  pbi_due_date :: "string option"
  pbi_currency_code :: string
  pbi_reference :: "string option"
  pbi_memo :: "string option"
  pbi_lines :: "PurchaseBillLineInput list"

record SalesCreditNoteInput = 
  sci_credit_note_number :: string
  sci_customer_id :: int
  sci_credit_note_date :: string
  sci_currency_code :: string
  sci_reference :: "string option"
  sci_memo :: "string option"
  sci_lines :: "SalesInvoiceLineInput list"

record PurchaseCreditNoteInput = 
  pci_credit_note_number :: string
  pci_supplier_id :: int
  pci_credit_note_date :: string
  pci_currency_code :: string
  pci_reference :: "string option"
  pci_memo :: "string option"
  pci_lines :: "PurchaseBillLineInput list"

record PaymentAmounts = 
  pa_currency_code :: string
  pa_amount :: string
  pa_method :: "string option"
  pa_reference :: "string option"
  pa_status :: string
  pa_amount_applied :: string
  pa_unapplied :: string
  pa_journal_entry_id :: "int option"

record CustomerPayment = PaymentAmounts +
  cp_id :: int
  cp_customer_id :: int
  cp_payment_date :: string
  cp_deposit_account_id :: "int option"

record SupplierPayment = PaymentAmounts +
  sp_id :: int
  sp_supplier_id :: int
  sp_payment_date :: string
  sp_payment_account_id :: "int option"

record Payment = 
  pay_id :: int
  pay_party_id :: int
  pay_date :: string
  pay_currency_code :: string
  pay_amount :: string
  pay_method :: "string option"
  pay_reference :: "string option"
  pay_status :: string
  pay_amount_applied :: string
  pay_unapplied :: string
  pay_journal_entry_id :: "int option"
  pay_account_id :: "int option"

record PaymentApplication = 
  app_document_id :: int
  app_document_number :: string
  app_amount_applied :: string

record CustomerPaymentInput = 
  cpi_customer_id :: int
  cpi_payment_date :: string
  cpi_currency_code :: string
  cpi_amount :: string
  cpi_method :: "string option"
  cpi_reference :: "string option"
  cpi_deposit_account_id :: "int option"

record SupplierPaymentInput = 
  spi_supplier_id :: int
  spi_payment_date :: string
  spi_currency_code :: string
  spi_amount :: string
  spi_method :: "string option"
  spi_reference :: "string option"
  spi_payment_account_id :: "int option"

record StockMovement = 
  sm_id :: int
  sm_product_id :: int
  sm_warehouse_id :: int
  sm_movement_date :: string
  sm_movement_type :: string
  sm_status :: string
  sm_quantity :: string
  sm_unit_cost :: string
  sm_total_cost :: string
  sm_reference :: "string option"
  sm_notes :: "string option"
  sm_journal_entry_id :: "int option"
  sm_source_type :: "string option"

record StockMovementInput = 
  smi_product_id :: int
  smi_warehouse_id :: int
  smi_movement_type :: string
  smi_movement_date :: "string option"
  smi_quantity :: string
  smi_unit_cost :: string
  smi_reference :: "string option"
  smi_notes :: "string option"

datatype document_body =
    SalesInvoice_Body (the_SalesInvoice: SalesInvoice)
  | PurchaseBill_Body (the_PurchaseBill: PurchaseBill)
  | SalesCreditNote_Body (the_SalesCreditNote: SalesCreditNote)
  | PurchaseCreditNote_Body (the_PurchaseCreditNote: PurchaseCreditNote)
  | CustomerPayment_Body (the_CustomerPayment: CustomerPayment)
  | SupplierPayment_Body (the_SupplierPayment: SupplierPayment)
  | StockMovement_Body (the_StockMovement: StockMovement)
  | SalesInvoice_List (the_SalesInvoice_list: "SalesInvoice list")
  | PurchaseBill_List (the_PurchaseBill_list: "PurchaseBill list")
  | SalesCreditNote_List (the_SalesCreditNote_list: "SalesCreditNote list")
  | PurchaseCreditNote_List (the_PurchaseCreditNote_list: "PurchaseCreditNote list")
  | SalesInvoiceLine_List (the_SalesInvoiceLine_list: "SalesInvoiceLine list")
  | PurchaseBillLine_List (the_PurchaseBillLine_list: "PurchaseBillLine list")
  | PaymentApplication_List (the_PaymentApplication_list: "PaymentApplication list")
  | CustomerPayment_List (the_CustomerPayment_list: "CustomerPayment list")
  | SupplierPayment_List (the_SupplierPayment_list: "SupplierPayment list")
  | StockMovement_List (the_StockMovement_list: "StockMovement list")

datatype document_payload =
    Recipients "string list"
  | Credit_Account int
  | SalesInvoiceInput_Payload SalesInvoiceInput
  | PurchaseBillInput_Payload PurchaseBillInput
  | SalesCreditNoteInput_Payload SalesCreditNoteInput
  | PurchaseCreditNoteInput_Payload PurchaseCreditNoteInput
  | CustomerPaymentInput_Payload CustomerPaymentInput
  | SupplierPaymentInput_Payload SupplierPaymentInput
  | StockMovementInput_Payload StockMovementInput

end
