(* ===== verification/Wire_Orders.thy ===== *)
theory Wire_Orders
  imports Prelude
begin

text \<open>
  The wire types of orders and of bank reconciliation (\<open>web/src/lib/api.ts\<close>). An optional field
  (\<open>lines?\<close>) is an option as well.
\<close>

record SalesOrderSummary = 
  so_id :: int
  so_order_number :: string
  so_customer_id :: int
  so_order_date :: string
  so_expected_ship_date :: "string option"
  so_currency_code :: string
  so_status :: string
  so_total :: string
  so_invoiced_status :: string
  so_shipped_status :: string
  so_reference :: "string option"
  so_memo :: "string option"

record PurchaseOrderSummary = 
  po_id :: int
  po_order_number :: string
  po_supplier_id :: int
  po_order_date :: string
  po_expected_receipt_date :: "string option"
  po_currency_code :: string
  po_status :: string
  po_total :: string
  po_billed_status :: string
  po_received_status :: string
  po_reference :: "string option"
  po_memo :: "string option"

record SalesOrderLine = 
  sol_line_no :: int
  sol_order_line_id :: int
  sol_product_id :: "int option"
  sol_description :: string
  sol_quantity :: string
  sol_unit_price :: string
  sol_tax_code :: "string option"
  sol_tax_rate :: string
  sol_line_subtotal :: string
  sol_tax_amount :: string
  sol_line_total :: string
  sol_revenue_account_id :: "int option"
  sol_qty_invoiced :: string
  sol_qty_shipped :: string
  sol_qty_to_invoice :: string
  sol_qty_to_ship :: string

record PurchaseOrderLine = 
  pol_line_no :: int
  pol_order_line_id :: int
  pol_product_id :: "int option"
  pol_description :: string
  pol_quantity :: string
  pol_unit_cost :: string
  pol_tax_code :: "string option"
  pol_tax_rate :: string
  pol_line_subtotal :: string
  pol_tax_amount :: string
  pol_line_total :: string
  pol_expense_account_id :: "int option"
  pol_qty_billed :: string
  pol_qty_received :: string
  pol_qty_to_bill :: string
  pol_qty_to_receive :: string

record SalesOrderLineInput = 
  soli_product_id :: "int option"
  soli_description :: string
  soli_quantity :: string
  soli_unit_price :: string
  soli_revenue_account_id :: "int option"
  soli_tax_code :: "string option"
  soli_tax_rate :: string

record SalesOrderInput = 
  soi_order_number :: string
  soi_customer_id :: int
  soi_order_date :: string
  soi_expected_ship_date :: "string option"
  soi_currency_code :: string
  soi_reference :: "string option"
  soi_memo :: "string option"
  soi_lines :: "SalesOrderLineInput list"

record PurchaseOrderLineInput = 
  poli_product_id :: "int option"
  poli_description :: string
  poli_quantity :: string
  poli_unit_cost :: string
  poli_expense_account_id :: "int option"
  poli_tax_code :: "string option"
  poli_tax_rate :: string

record PurchaseOrderInput = 
  poi_order_number :: string
  poi_supplier_id :: int
  poi_order_date :: string
  poi_expected_receipt_date :: "string option"
  poi_currency_code :: string
  poi_reference :: "string option"
  poi_memo :: "string option"
  poi_lines :: "PurchaseOrderLineInput list"

record OrderLineQty = 
  olq_order_line_id :: int
  olq_quantity :: string

record InvoiceFromOrderInput = 
  ifo_invoice_number :: string
  ifo_invoice_date :: string
  ifo_due_date :: "string option"
  ifo_lines :: "OrderLineQty list option"

record BillFromOrderInput = 
  bfo_bill_number :: string
  bfo_bill_date :: string
  bfo_due_date :: "string option"
  bfo_lines :: "OrderLineQty list option"

record FulfilMovementInput = 
  fmi_warehouse_id :: int
  fmi_movement_date :: "string option"
  fmi_reference :: "string option"
  fmi_lines :: "OrderLineQty list option"

record BankStatement = 
  bst_id :: int
  bst_account_id :: int
  bst_account_code :: string
  bst_account_name :: string
  bst_statement_date :: string
  bst_opening_balance :: string
  bst_closing_balance :: string
  bst_reference :: "string option"
  bst_status :: string
  bst_line_count :: int
  bst_matched_count :: int
  bst_lines_total :: string
  bst_difference :: string

record BankStatementInput = 
  bsti_account_id :: int
  bsti_statement_date :: string
  bsti_opening_balance :: string
  bsti_closing_balance :: string
  bsti_reference :: "string option"

record BankStatementLine = 
  bsl_id :: int
  bsl_line_no :: int
  bsl_txn_date :: string
  bsl_description :: string
  bsl_reference :: "string option"
  bsl_amount :: string
  bsl_journal_line_id :: "int option"
  bsl_journal_entry_id :: "int option"
  bsl_entry_date :: "string option"
  bsl_entry_memo :: "string option"

record BankStatementLineInput = 
  bsli_txn_date :: string
  bsli_description :: string
  bsli_reference :: "string option"
  bsli_amount :: string

record BankMatchCandidate = 
  bmc_journal_line_id :: int
  bmc_journal_entry_id :: int
  bmc_entry_date :: string
  bmc_reference :: "string option"
  bmc_memo :: "string option"
  bmc_amount :: string

datatype order_body =
    SalesOrderSummary_Body (the_SalesOrderSummary: SalesOrderSummary)
  | PurchaseOrderSummary_Body (the_PurchaseOrderSummary: PurchaseOrderSummary)
  | BankStatement_Body (the_BankStatement: BankStatement)
  | SalesOrderSummary_List (the_SalesOrderSummary_list: "SalesOrderSummary list")
  | PurchaseOrderSummary_List (the_PurchaseOrderSummary_list: "PurchaseOrderSummary list")
  | SalesOrderLine_List (the_SalesOrderLine_list: "SalesOrderLine list")
  | PurchaseOrderLine_List (the_PurchaseOrderLine_list: "PurchaseOrderLine list")
  | BankStatement_List (the_BankStatement_list: "BankStatement list")
  | BankStatementLine_List (the_BankStatementLine_list: "BankStatementLine list")
  | BankMatchCandidate_List (the_BankMatchCandidate_list: "BankMatchCandidate list")

datatype order_payload =
    Csv string
  | Journal_Line int
  | SalesOrderInput_Payload SalesOrderInput
  | PurchaseOrderInput_Payload PurchaseOrderInput
  | InvoiceFromOrderInput_Payload InvoiceFromOrderInput
  | BillFromOrderInput_Payload BillFromOrderInput
  | FulfilMovementInput_Payload FulfilMovementInput
  | BankStatementInput_Payload BankStatementInput
  | BankStatementLineInput_Payload BankStatementLineInput

end
