(* ===== verification/Wire.thy ===== *)
theory Wire
  imports Client Wire_Master Wire_Ledger Wire_Documents Wire_Orders
begin

text \<open>
  Everything that travels between the client and the server: the small object types the calls of
  \<open>web/src/lib/api.ts\<close> name in place, the response bodies and the request bodies of all
  endpoints, and the casts of a body to the type a call declares.
\<close>

datatype basic_body =
    Id_Body (the_id: int)
  | Code_Body (the_code: string)
  | Rate_Key_Body (the_rate_key: "string \<times> string")
  | Reversal_Body (the_reversal: "int option")
  | Reversed_Body (the_reversed: int)
  | Posted_Body (the_posted: int)
  | Applied_Body (the_applied: "(int \<times> string) list")
  | Emailed_Body (the_emailed: "string \<times> string list")
  | Invoiced_Body (the_invoiced: int)
  | Moved_Body (the_moved: "int list")
  | Billed_Body (the_billed: int)
  | Imported_Body (the_imported: int)
  | Matched_Body (the_matched: int)

datatype body = Basic basic_body | Master master_body | Ledger ledger_body
  | Document document_body | Order order_body

datatype payload = Empty_Object | Master_Payload master_payload | Ledger_Payload ledger_payload
  | Document_Payload document_payload | Order_Payload order_payload

type_synonym ('w, 'a) call = "(('w, payload, body) browser, 'a) io"

definition basic_as :: "(basic_body \<Rightarrow> bool) \<Rightarrow> (basic_body \<Rightarrow> 'a) \<Rightarrow> body \<Rightarrow> 'a option" where
  "basic_as is sel b = (case b of Basic x \<Rightarrow> if is x then Some (sel x) else None | _ \<Rightarrow> None)"

definition master_as :: "(master_body \<Rightarrow> bool) \<Rightarrow> (master_body \<Rightarrow> 'a) \<Rightarrow> body \<Rightarrow> 'a option" where
  "master_as is sel b = (case b of Master x \<Rightarrow> if is x then Some (sel x) else None | _ \<Rightarrow> None)"

definition ledger_as :: "(ledger_body \<Rightarrow> bool) \<Rightarrow> (ledger_body \<Rightarrow> 'a) \<Rightarrow> body \<Rightarrow> 'a option" where
  "ledger_as is sel b = (case b of Ledger x \<Rightarrow> if is x then Some (sel x) else None | _ \<Rightarrow> None)"

definition document_as :: "(document_body \<Rightarrow> bool) \<Rightarrow> (document_body \<Rightarrow> 'a) \<Rightarrow> body \<Rightarrow> 'a option" where
  "document_as is sel b = (case b of Document x \<Rightarrow> if is x then Some (sel x) else None | _ \<Rightarrow> None)"

definition order_as :: "(order_body \<Rightarrow> bool) \<Rightarrow> (order_body \<Rightarrow> 'a) \<Rightarrow> body \<Rightarrow> 'a option" where
  "order_as is sel b = (case b of Order x \<Rightarrow> if is x then Some (sel x) else None | _ \<Rightarrow> None)"

lemmas cast_defs = basic_as_def master_as_def ledger_as_def document_as_def order_as_def

end
