(* ===== verification/Resource.thy ===== *)
theory Resource
  imports Client
begin

text \<open>
  The contract the calls of one REST resource share, as interfaces: a collection that is listed
  and created in, members that are read and replaced, for some resources deleted, for the
  documents that post to the ledger posted and unposted. The API theories prove the laws for the
  functions of \<open>web/src/lib/api.ts\<close> (one interpretation per resource) and get the lemmas below.
\<close>

lemma show_int_no_slash [simp]: "CHR ''/'' \<notin> set (show_int i)"
proof -
  have "CHR ''/'' \<notin> set (show_nat n)" for n
    using all_digits_show_nat [of n] by (auto simp: all_digits_def list_all_iff is_digit_def)
  then show ?thesis by (simp add: show_int_def)
qed

text \<open>Segments of a path after the collection.\<close>

definition member_path :: "string \<Rightarrow> string \<Rightarrow> string" where
  "member_path coll seg = coll @ ''/'' @ seg"

lemma member_path_inject [simp]: "member_path c s = member_path c t \<longleftrightarrow> s = t"
  by (simp add: member_path_def)

lemma append_mark:
  "x \<notin> set s \<Longrightarrow> x \<notin> set t \<Longrightarrow> s @ x # a = t @ x # b \<longleftrightarrow> s = t \<and> a = b"
proof (induction s arbitrary: t)
  case Nil
  then show ?case by (cases t) auto
next
  case (Cons y s)
  then show ?case by (cases t) auto
qed

lemma member_path_action:
  assumes "CHR ''/'' \<notin> set s" "CHR ''/'' \<notin> set t"
  shows "member_path c s @ ''/'' @ a = member_path c t @ ''/'' @ b \<longleftrightarrow> s = t \<and> a = b"
  using append_mark [OF assms] by (simp add: member_path_def)

locale resource =
  fixes fetch_all :: "(('w, 'p, 'b) browser, 'l) io"
    and fetch_one :: "'k \<Rightarrow> (('w, 'p, 'b) browser, 'm) io"
    and create :: "'i \<Rightarrow> (('w, 'p, 'b) browser, 'c) io"
    and update :: "'k \<Rightarrow> 'i \<Rightarrow> (('w, 'p, 'b) browser, unit) io"
    and coll :: string
    and key :: "'k \<Rightarrow> string"
    and load :: "'i \<Rightarrow> 'p"
  assumes fetch_all: "makes fetch_all (get_request coll)"
    and fetch_one: "makes (fetch_one k) (get_request (member_path coll (key k)))"
    and create: "makes (create i) (body_request ''POST'' coll (load i))"
    and update: "makes (update k i) (body_request ''PUT'' (member_path coll (key k)) (load i))"
    and key_inject: "key k = key k' \<longleftrightarrow> k = k'"
    and key_segment: "CHR ''/'' \<notin> set (key k)"
    and load_inject: "load i = load i' \<longleftrightarrow> i = i'"
begin

text \<open>Reading sends no body and no other method than GET, so it changes nothing on the server.\<close>

lemma reads:
  "sent (snd (fetch_all s)) = sent s @ [get_request coll]"
  "sent (snd (fetch_one k s)) = sent s @ [get_request (member_path coll (key k))]"
  using fetch_all fetch_one by (simp_all add: makes_sent)

lemma writes:
  "sent (snd (create i s)) = sent s @ [body_request ''POST'' coll (load i)]"
  "sent (snd (update k i s)) = sent s @ [body_request ''PUT'' (member_path coll (key k)) (load i)]"
  using create update by (simp_all add: makes_sent)

text \<open>Replacing a member writes to the address it is read from.\<close>

lemma same_address:
  "rq_path (last (sent (snd (fetch_one k s)))) = rq_path (last (sent (snd (update k i s))))"
  by (simp add: reads writes)

text \<open>The request that replaces a member determines the member and the whole input.\<close>

lemma update_inject:
  "sent (snd (update k i s)) = sent (snd (update k' i' s)) \<longleftrightarrow> k = k' \<and> i = i'"
  by (simp add: writes key_inject load_inject)

lemma create_inject: "sent (snd (create i s)) = sent (snd (create i' s)) \<longleftrightarrow> i = i'"
  by (simp add: writes load_inject)

lemma member_not_collection: "member_path coll (key k) \<noteq> coll"
  by (simp add: member_path_def)

end

locale deletable = resource fetch_all fetch_one create update coll key load
  for fetch_all :: "(('w, 'p, 'b) browser, 'l) io"
    and fetch_one :: "'k \<Rightarrow> (('w, 'p, 'b) browser, 'm) io"
    and create :: "'i \<Rightarrow> (('w, 'p, 'b) browser, 'c) io"
    and update :: "'k \<Rightarrow> 'i \<Rightarrow> (('w, 'p, 'b) browser, unit) io"
    and coll key load +
  fixes remove :: "'k \<Rightarrow> (('w, 'p, 'b) browser, unit) io"
  assumes remove: "makes (remove k) (del_request (member_path coll (key k)))"
begin

lemma removes: "sent (snd (remove k s)) = sent s @ [del_request (member_path coll (key k))]"
  using remove by (simp add: makes_sent)

lemma remove_inject: "sent (snd (remove k s)) = sent (snd (remove k' s)) \<longleftrightarrow> k = k'"
  by (simp add: removes key_inject)

end

locale postable = deletable fetch_all fetch_one create update coll key load remove
  for fetch_all :: "(('w, 'p, 'b) browser, 'l) io"
    and fetch_one :: "'k \<Rightarrow> (('w, 'p, 'b) browser, 'm) io"
    and create :: "'i \<Rightarrow> (('w, 'p, 'b) browser, 'c) io"
    and update :: "'k \<Rightarrow> 'i \<Rightarrow> (('w, 'p, 'b) browser, unit) io"
    and coll key load
    and remove :: "'k \<Rightarrow> (('w, 'p, 'b) browser, unit) io" +
  fixes post_it :: "'k \<Rightarrow> (('w, 'p, 'b) browser, 'x) io"
    and unpost_it :: "'k \<Rightarrow> (('w, 'p, 'b) browser, 'y) io"
    and args :: "'p"
    and none :: "'p"
  assumes post_it: "makes (post_it k) (body_request ''POST'' (member_path coll (key k) @ ''/post'') args)"
    and unpost_it: "makes (unpost_it k) (body_request ''POST'' (member_path coll (key k) @ ''/unpost'') none)"
begin

lemma transitions:
  "sent (snd (post_it k s)) = sent s @ [body_request ''POST'' (member_path coll (key k) @ ''/post'') args]"
  "sent (snd (unpost_it k s)) = sent s @ [body_request ''POST'' (member_path coll (key k) @ ''/unpost'') none]"
  using post_it unpost_it by (simp_all add: makes_sent)

text \<open>No transition of one document is the request of another transition, document or operation:
  posting can never be taken for creating, replacing or unposting.\<close>

lemma transitions_distinct:
  "sent (snd (post_it k s)) \<noteq> sent (snd (unpost_it k' s))"
  "sent (snd (post_it k s)) \<noteq> sent (snd (create i s))"
  "sent (snd (unpost_it k s)) \<noteq> sent (snd (create i s))"
  "sent (snd (post_it k s)) = sent (snd (post_it k' s)) \<longleftrightarrow> k = k'"
  "sent (snd (unpost_it k s)) = sent (snd (unpost_it k' s)) \<longleftrightarrow> k = k'"
  using member_path_action [OF key_segment [of k] key_segment [of k'], of coll "''post''" "''unpost''"]
    member_path_action [OF key_segment [of k] key_segment [of k'], of coll "''post''" "''post''"]
    member_path_action [OF key_segment [of k] key_segment [of k'], of coll "''unpost''" "''unpost''"]
  by (auto simp: transitions writes key_inject member_path_def)

end

end
