(* ===== verification/Api_Master.thy ===== *)
theory Api_Master
  imports Wire Resource
begin

text \<open>
  The calls of \<open>web/src/lib/api.ts\<close> for the session, the users and the master data, in the order of
  the file, and the resources they form.
\<close>

section \<open>Closed sets mirrored from the database\<close>

definition ACCOUNT_TYPES :: "(string \<times> string) list" where
  "ACCOUNT_TYPES = [(''asset'', ''Asset''), (''liability'', ''Liability''), (''equity'', ''Equity''),
     (''revenue'', ''Revenue''), (''expense'', ''Expense'')]"

definition CASH_FLOW_ACTIVITIES :: "(string \<times> string) list" where
  "CASH_FLOW_ACTIVITIES = [(''operating'', ''Operating''), (''investing'', ''Investing''),
     (''financing'', ''Financing'')]"

section \<open>Session, users and master data\<close>

definition login :: "string \<Rightarrow> string \<Rightarrow> ('w, User) call" where
  "login email password =
     post (master_as is_User_Body the_User)
       ''/auth/login'' (Master_Payload (Credentials email password))"

definition logout :: "('w, unit) call" where
  "logout = send ''POST'' ''/auth/logout'' Empty_Object"

definition me :: "('w, User) call" where
  "me = get (master_as is_User_Body the_User) ''/auth/me''"

definition listUsers :: "('w, UserRecord list) call" where
  "listUsers = get (master_as is_UserRecord_List the_UserRecord_list) ''/users''"

definition getUser :: "int \<Rightarrow> ('w, UserRecord) call" where
  "getUser ident = get (master_as is_UserRecord_Body the_UserRecord) (''/users/'' @ show_int ident)"

definition createUser :: "UserCreate \<Rightarrow> ('w, int) call" where
  "createUser input =
     post (basic_as is_Id_Body the_id) ''/users'' (Master_Payload (UserCreate_Payload input))"

definition updateUser :: "int \<Rightarrow> UserUpdate \<Rightarrow> ('w, unit) call" where
  "updateUser ident input =
     send ''PUT'' (''/users/'' @ show_int ident) (Master_Payload (UserUpdate_Payload input))"

definition setUserPassword :: "int \<Rightarrow> string \<Rightarrow> ('w, unit) call" where
  "setUserPassword ident password =
     send ''POST''
       (''/users/'' @ show_int ident @ ''/password'') (Master_Payload (Password_Payload password))"

definition listAccounts :: "('w, Account list) call" where
  "listAccounts = get (master_as is_Account_List the_Account_list) ''/accounts''"

definition getAccount :: "int \<Rightarrow> ('w, Account) call" where
  "getAccount ident = get (master_as is_Account_Body the_Account) (''/accounts/'' @ show_int ident)"

definition createAccount :: "AccountInput \<Rightarrow> ('w, int) call" where
  "createAccount input =
     post (basic_as is_Id_Body the_id) ''/accounts'' (Master_Payload (AccountInput_Payload input))"

definition updateAccount :: "int \<Rightarrow> AccountInput \<Rightarrow> ('w, unit) call" where
  "updateAccount ident input =
     send ''PUT'' (''/accounts/'' @ show_int ident) (Master_Payload (AccountInput_Payload input))"

definition listOrganizations :: "('w, Organization list) call" where
  "listOrganizations =
     get (master_as is_Organization_List the_Organization_list) ''/organizations''"

definition getOrganization :: "int \<Rightarrow> ('w, Organization) call" where
  "getOrganization ident =
     get (master_as is_Organization_Body the_Organization) (''/organizations/'' @ show_int ident)"

definition createOrganization :: "OrganizationInput \<Rightarrow> ('w, int) call" where
  "createOrganization input =
     post (basic_as is_Id_Body the_id)
       ''/organizations'' (Master_Payload (OrganizationInput_Payload input))"

definition updateOrganization :: "int \<Rightarrow> OrganizationInput \<Rightarrow> ('w, unit) call" where
  "updateOrganization ident input =
     send ''PUT''
       (''/organizations/'' @ show_int ident) (Master_Payload (OrganizationInput_Payload input))"

definition listCustomers :: "('w, Customer list) call" where
  "listCustomers = get (master_as is_Customer_List the_Customer_list) ''/customers''"

definition getCustomer :: "int \<Rightarrow> ('w, Customer) call" where
  "getCustomer ident =
     get (master_as is_Customer_Body the_Customer) (''/customers/'' @ show_int ident)"

definition createCustomer :: "CustomerInput \<Rightarrow> ('w, int) call" where
  "createCustomer input =
     post (basic_as is_Id_Body the_id)
       ''/customers'' (Master_Payload (CustomerInput_Payload input))"

definition updateCustomer :: "int \<Rightarrow> CustomerInput \<Rightarrow> ('w, unit) call" where
  "updateCustomer ident input =
     send ''PUT'' (''/customers/'' @ show_int ident) (Master_Payload (CustomerInput_Payload input))"

definition listWarehouses :: "('w, Warehouse list) call" where
  "listWarehouses = get (master_as is_Warehouse_List the_Warehouse_list) ''/warehouses''"

definition getWarehouse :: "int \<Rightarrow> ('w, Warehouse) call" where
  "getWarehouse ident =
     get (master_as is_Warehouse_Body the_Warehouse) (''/warehouses/'' @ show_int ident)"

definition createWarehouse :: "WarehouseInput \<Rightarrow> ('w, int) call" where
  "createWarehouse input =
     post (basic_as is_Id_Body the_id)
       ''/warehouses'' (Master_Payload (WarehouseInput_Payload input))"

definition updateWarehouse :: "int \<Rightarrow> WarehouseInput \<Rightarrow> ('w, unit) call" where
  "updateWarehouse ident input =
     send ''PUT''
       (''/warehouses/'' @ show_int ident) (Master_Payload (WarehouseInput_Payload input))"

definition listTaxCodes :: "('w, TaxCode list) call" where
  "listTaxCodes = get (master_as is_TaxCode_List the_TaxCode_list) ''/tax-codes''"

definition getTaxCode :: "string \<Rightarrow> ('w, TaxCode) call" where
  "getTaxCode code =
     get (master_as is_TaxCode_Body the_TaxCode) (''/tax-codes/'' @ encodeURIComponent code)"

definition createTaxCode :: "TaxCodeInput \<Rightarrow> ('w, string) call" where
  "createTaxCode input =
     post (basic_as is_Code_Body the_code)
       ''/tax-codes'' (Master_Payload (TaxCodeInput_Payload input))"

definition updateTaxCode :: "string \<Rightarrow> TaxCodeInput \<Rightarrow> ('w, unit) call" where
  "updateTaxCode code input =
     send ''PUT''
       (''/tax-codes/'' @ encodeURIComponent code) (Master_Payload (TaxCodeInput_Payload input))"

definition listPaymentTerms :: "('w, PaymentTerm list) call" where
  "listPaymentTerms = get (master_as is_PaymentTerm_List the_PaymentTerm_list) ''/payment-terms''"

definition getPaymentTerm :: "string \<Rightarrow> ('w, PaymentTerm) call" where
  "getPaymentTerm code =
     get (master_as is_PaymentTerm_Body the_PaymentTerm)
       (''/payment-terms/'' @ encodeURIComponent code)"

definition createPaymentTerm :: "PaymentTermInput \<Rightarrow> ('w, string) call" where
  "createPaymentTerm input =
     post (basic_as is_Code_Body the_code)
       ''/payment-terms'' (Master_Payload (PaymentTermInput_Payload input))"

definition updatePaymentTerm :: "string \<Rightarrow> PaymentTermInput \<Rightarrow> ('w, unit) call" where
  "updatePaymentTerm code input =
     send ''PUT''
       (''/payment-terms/'' @ encodeURIComponent code) (Master_Payload (PaymentTermInput_Payload input))"

definition getSettings :: "('w, Settings) call" where
  "getSettings = get (master_as is_Settings_Body the_Settings) ''/settings''"

definition updateSettings :: "Settings \<Rightarrow> ('w, unit) call" where
  "updateSettings input = send ''PUT'' ''/settings'' (Master_Payload (Settings_Payload input))"

definition listSuppliers :: "('w, Supplier list) call" where
  "listSuppliers = get (master_as is_Supplier_List the_Supplier_list) ''/suppliers''"

definition getSupplier :: "int \<Rightarrow> ('w, Supplier) call" where
  "getSupplier ident =
     get (master_as is_Supplier_Body the_Supplier) (''/suppliers/'' @ show_int ident)"

definition createSupplier :: "SupplierInput \<Rightarrow> ('w, int) call" where
  "createSupplier input =
     post (basic_as is_Id_Body the_id)
       ''/suppliers'' (Master_Payload (SupplierInput_Payload input))"

definition updateSupplier :: "int \<Rightarrow> SupplierInput \<Rightarrow> ('w, unit) call" where
  "updateSupplier ident input =
     send ''PUT'' (''/suppliers/'' @ show_int ident) (Master_Payload (SupplierInput_Payload input))"

definition listProducts :: "('w, Product list) call" where
  "listProducts = get (master_as is_Product_List the_Product_list) ''/products''"

definition getProduct :: "int \<Rightarrow> ('w, Product) call" where
  "getProduct ident = get (master_as is_Product_Body the_Product) (''/products/'' @ show_int ident)"

definition createProduct :: "ProductInput \<Rightarrow> ('w, int) call" where
  "createProduct input =
     post (basic_as is_Id_Body the_id) ''/products'' (Master_Payload (ProductInput_Payload input))"

definition updateProduct :: "int \<Rightarrow> ProductInput \<Rightarrow> ('w, unit) call" where
  "updateProduct ident input =
     send ''PUT'' (''/products/'' @ show_int ident) (Master_Payload (ProductInput_Payload input))"

section \<open>The resources\<close>

interpretation accounts: resource listAccounts getAccount createAccount updateAccount
    "''/accounts''" show_int "\<lambda>i. Master_Payload (AccountInput_Payload i)"
  by unfold_locales (simp_all add: member_path_def api_requests
    listAccounts_def getAccount_def createAccount_def updateAccount_def)

interpretation organizations: resource listOrganizations getOrganization createOrganization updateOrganization
    "''/organizations''" show_int "\<lambda>i. Master_Payload (OrganizationInput_Payload i)"
  by unfold_locales (simp_all add: member_path_def api_requests
    listOrganizations_def getOrganization_def createOrganization_def updateOrganization_def)

interpretation customers: resource listCustomers getCustomer createCustomer updateCustomer
    "''/customers''" show_int "\<lambda>i. Master_Payload (CustomerInput_Payload i)"
  by unfold_locales (simp_all add: member_path_def api_requests
    listCustomers_def getCustomer_def createCustomer_def updateCustomer_def)

interpretation warehouses: resource listWarehouses getWarehouse createWarehouse updateWarehouse
    "''/warehouses''" show_int "\<lambda>i. Master_Payload (WarehouseInput_Payload i)"
  by unfold_locales (simp_all add: member_path_def api_requests
    listWarehouses_def getWarehouse_def createWarehouse_def updateWarehouse_def)

interpretation tax_codes: resource listTaxCodes getTaxCode createTaxCode updateTaxCode
    "''/tax-codes''" encodeURIComponent "\<lambda>i. Master_Payload (TaxCodeInput_Payload i)"
  by unfold_locales (simp_all add: member_path_def api_requests
    listTaxCodes_def getTaxCode_def createTaxCode_def updateTaxCode_def)

interpretation payment_terms: resource listPaymentTerms getPaymentTerm createPaymentTerm updatePaymentTerm
    "''/payment-terms''" encodeURIComponent "\<lambda>i. Master_Payload (PaymentTermInput_Payload i)"
  by unfold_locales (simp_all add: member_path_def api_requests
    listPaymentTerms_def getPaymentTerm_def createPaymentTerm_def updatePaymentTerm_def)

interpretation suppliers: resource listSuppliers getSupplier createSupplier updateSupplier
    "''/suppliers''" show_int "\<lambda>i. Master_Payload (SupplierInput_Payload i)"
  by unfold_locales (simp_all add: member_path_def api_requests
    listSuppliers_def getSupplier_def createSupplier_def updateSupplier_def)

interpretation products: resource listProducts getProduct createProduct updateProduct
    "''/products''" show_int "\<lambda>i. Master_Payload (ProductInput_Payload i)"
  by unfold_locales (simp_all add: member_path_def api_requests
    listProducts_def getProduct_def createProduct_def updateProduct_def)


end
