(* ===== verification/Api_Ledger.thy ===== *)
theory Api_Ledger
  imports Wire Resource
begin

text \<open>
  The calls of \<open>web/src/lib/api.ts\<close> for the ledger calendar (exchange rates, fiscal years, periods)
  and for the read-only reports.
\<close>

section \<open>The calendar\<close>

definition listExchangeRates :: "('w, ExchangeRate list) call" where
  "listExchangeRates =
     get (ledger_as is_ExchangeRate_List the_ExchangeRate_list) ''/exchange-rates''"

definition createExchangeRate :: "ExchangeRateInput \<Rightarrow> ('w, string \<times> string) call" where
  "createExchangeRate input =
     post (basic_as is_Rate_Key_Body the_rate_key)
       ''/exchange-rates'' (Ledger_Payload (ExchangeRateInput_Payload input))"

definition updateExchangeRate :: "string \<Rightarrow> string \<Rightarrow> ExchangeRateInput \<Rightarrow> ('w, unit) call" where
  "updateExchangeRate currency date input =
     send ''PUT''
       (''/exchange-rates/'' @ encodeURIComponent currency @ ''/'' @ encodeURIComponent date) (Ledger_Payload (ExchangeRateInput_Payload input))"

definition deleteExchangeRate :: "string \<Rightarrow> string \<Rightarrow> ('w, unit) call" where
  "deleteExchangeRate currency date =
     del (''/exchange-rates/'' @ encodeURIComponent currency @ ''/'' @ encodeURIComponent date)"

definition listFiscalYears :: "('w, FiscalYear list) call" where
  "listFiscalYears = get (ledger_as is_FiscalYear_List the_FiscalYear_list) ''/fiscal-years''"

definition getFiscalYear :: "int \<Rightarrow> ('w, FiscalYear) call" where
  "getFiscalYear ident =
     get (ledger_as is_FiscalYear_Body the_FiscalYear) (''/fiscal-years/'' @ show_int ident)"

definition createFiscalYear :: "FiscalYearInput \<Rightarrow> ('w, int) call" where
  "createFiscalYear input =
     post (basic_as is_Id_Body the_id)
       ''/fiscal-years'' (Ledger_Payload (FiscalYearInput_Payload input))"

definition updateFiscalYear :: "int \<Rightarrow> FiscalYearInput \<Rightarrow> ('w, unit) call" where
  "updateFiscalYear ident input =
     send ''PUT''
       (''/fiscal-years/'' @ show_int ident) (Ledger_Payload (FiscalYearInput_Payload input))"

definition closeFiscalYear :: "int \<Rightarrow> int \<Rightarrow> ('w, CloseFiscalYearResult) call" where
  "closeFiscalYear ident retainedEarningsAccountId =
     post (ledger_as is_CloseFiscalYearResult_Body the_CloseFiscalYearResult)
       (''/fiscal-years/'' @ show_int ident @ ''/close'') (Ledger_Payload (Retained_Earnings retainedEarningsAccountId))"

definition reopenFiscalYear :: "int \<Rightarrow> ('w, int option) call" where
  "reopenFiscalYear ident =
     post (basic_as is_Reversal_Body the_reversal)
       (''/fiscal-years/'' @ show_int ident @ ''/reopen'') Empty_Object"

definition listAccountingPeriods :: "('w, AccountingPeriod list) call" where
  "listAccountingPeriods =
     get (ledger_as is_AccountingPeriod_List the_AccountingPeriod_list) ''/accounting-periods''"

definition getAccountingPeriod :: "int \<Rightarrow> ('w, AccountingPeriod) call" where
  "getAccountingPeriod ident =
     get (ledger_as is_AccountingPeriod_Body the_AccountingPeriod)
       (''/accounting-periods/'' @ show_int ident)"

definition createAccountingPeriod :: "AccountingPeriodInput \<Rightarrow> ('w, int) call" where
  "createAccountingPeriod input =
     post (basic_as is_Id_Body the_id)
       ''/accounting-periods'' (Ledger_Payload (AccountingPeriodInput_Payload input))"

definition updateAccountingPeriod :: "int \<Rightarrow> AccountingPeriodInput \<Rightarrow> ('w, unit) call" where
  "updateAccountingPeriod ident input =
     send ''PUT''
       (''/accounting-periods/'' @ show_int ident) (Ledger_Payload (AccountingPeriodInput_Payload input))"

section \<open>Reports\<close>

definition getTrialBalance :: "('w, TrialBalanceRow list) call" where
  "getTrialBalance =
     get (ledger_as is_TrialBalanceRow_List the_TrialBalanceRow_list) ''/trial-balance''"

definition getProfitAndLoss :: "string \<Rightarrow> string \<Rightarrow> ('w, AccountActivityRow list) call" where
  "getProfitAndLoss from_date to_date =
     (let params = (if from_date \<noteq> [] then [(''from'', from_date)] else [])
            @ (if to_date \<noteq> [] then [(''to'', to_date)] else []);
          qs = search_params params
      in get (ledger_as is_AccountActivityRow_List the_AccountActivityRow_list)
           (''/profit-and-loss'' @ (if qs = [] then [] else ''?'' @ qs)))"

definition getBalanceSheet :: "string \<Rightarrow> ('w, BalanceSheet) call" where
  "getBalanceSheet asOf = get (ledger_as is_BalanceSheet_Body the_BalanceSheet)
     (if asOf = [] then ''/balance-sheet'' else ''/balance-sheet?as_of='' @ asOf)"

definition getCashFlow :: "string \<Rightarrow> string \<Rightarrow> ('w, CashFlow) call" where
  "getCashFlow from_date to_date =
     (let params = (if from_date \<noteq> [] then [(''from'', from_date)] else [])
            @ (if to_date \<noteq> [] then [(''to'', to_date)] else []);
          qs = search_params params
      in get (ledger_as is_CashFlow_Body the_CashFlow)
           (''/cash-flow'' @ (if qs = [] then [] else ''?'' @ qs)))"

definition getAccountLedger :: "int \<Rightarrow> string \<Rightarrow> string \<Rightarrow> ('w, LedgerRow list) call" where
  "getAccountLedger accountId from_date to_date =
     (let params = (if from_date \<noteq> [] then [(''from'', from_date)] else [])
            @ (if to_date \<noteq> [] then [(''to'', to_date)] else []);
          qs = search_params params
      in get (ledger_as is_LedgerRow_List the_LedgerRow_list)
           (''/accounts/'' @ show_int accountId @ ''/ledger'' @ (if qs = [] then [] else ''?'' @ qs)))"

definition getJournalEntry :: "int \<Rightarrow> ('w, JournalEntry) call" where
  "getJournalEntry ident =
     get (ledger_as is_JournalEntry_Body the_JournalEntry) (''/journal-entries/'' @ show_int ident)"

definition getARAging :: "('w, AgingRow list) call" where
  "getARAging = get (ledger_as is_AgingRow_List the_AgingRow_list) ''/ar-aging''"

definition getAPAging :: "('w, AgingRow list) call" where
  "getAPAging = get (ledger_as is_AgingRow_List the_AgingRow_list) ''/ap-aging''"

definition getInventoryValuation :: "('w, StockValuationRow list) call" where
  "getInventoryValuation =
     get (ledger_as is_StockValuationRow_List the_StockValuationRow_list) ''/inventory-valuation''"

section \<open>The resources\<close>

interpretation fiscal_years: resource listFiscalYears getFiscalYear createFiscalYear updateFiscalYear
    "''/fiscal-years''" show_int "\<lambda>i. Ledger_Payload (FiscalYearInput_Payload i)"
  by unfold_locales (simp_all add: member_path_def api_requests
    listFiscalYears_def getFiscalYear_def createFiscalYear_def updateFiscalYear_def)

interpretation periods: resource listAccountingPeriods getAccountingPeriod createAccountingPeriod updateAccountingPeriod
    "''/accounting-periods''" show_int "\<lambda>i. Ledger_Payload (AccountingPeriodInput_Payload i)"
  by unfold_locales (simp_all add: member_path_def api_requests
    listAccountingPeriods_def getAccountingPeriod_def createAccountingPeriod_def updateAccountingPeriod_def)


end
