(* ===== verification/Api_Documents.thy ===== *)
theory Api_Documents
  imports Wire Resource
begin

text \<open>
  The calls of \<open>web/src/lib/api.ts\<close> for the subledger documents, payments and stock movements, and
  the converters from the wire shapes to the generic views the shared screens work on.
\<close>

section \<open>Converters\<close>

definition amounts :: "'a DocumentAmounts_scheme \<Rightarrow> DocumentAmounts" where
  "amounts d = \<lparr>da_currency_code = da_currency_code d, da_status = da_status d, da_total = da_total d,
     da_amount_applied = da_amount_applied d, da_balance = da_balance d,
     da_journal_entry_id = da_journal_entry_id d, da_reference = da_reference d, da_memo = da_memo d\<rparr>"

definition fromSalesInvoice :: "SalesInvoice \<Rightarrow> DocumentBalance" where
  "fromSalesInvoice d =
     (let a = amounts d in
      \<lparr>db_id = si_id d, db_number = si_invoice_number d, db_party_id = si_customer_id d,
       db_currency_code = da_currency_code a, db_date = si_invoice_date d, db_due_date = si_due_date d,
       db_status = da_status a, db_total = da_total a, db_amount_applied = da_amount_applied a,
       db_balance = da_balance a, db_payment_status = si_payment_status d,
       db_journal_entry_id = da_journal_entry_id a, db_reference = da_reference a,
       db_memo = da_memo a\<rparr>)"

definition fromPurchaseBill :: "PurchaseBill \<Rightarrow> DocumentBalance" where
  "fromPurchaseBill d =
     (let a = amounts d in
      \<lparr>db_id = pb_id d, db_number = pb_bill_number d, db_party_id = pb_supplier_id d,
       db_currency_code = da_currency_code a, db_date = pb_bill_date d, db_due_date = pb_due_date d,
       db_status = da_status a, db_total = da_total a, db_amount_applied = da_amount_applied a,
       db_balance = da_balance a, db_payment_status = pb_payment_status d,
       db_journal_entry_id = da_journal_entry_id a, db_reference = da_reference a,
       db_memo = da_memo a\<rparr>)"

definition fromSalesCreditNote :: "SalesCreditNote \<Rightarrow> DocumentBalance" where
  "fromSalesCreditNote d =
     (let a = amounts d in
      \<lparr>db_id = sc_id d, db_number = sc_credit_note_number d, db_party_id = sc_customer_id d,
       db_currency_code = da_currency_code a, db_date = sc_credit_note_date d, db_due_date = None,
       db_status = da_status a, db_total = da_total a, db_amount_applied = da_amount_applied a,
       db_balance = da_balance a, db_payment_status = sc_application_status d,
       db_journal_entry_id = da_journal_entry_id a, db_reference = da_reference a,
       db_memo = da_memo a\<rparr>)"

definition fromPurchaseCreditNote :: "PurchaseCreditNote \<Rightarrow> DocumentBalance" where
  "fromPurchaseCreditNote d =
     (let a = amounts d in
      \<lparr>db_id = pc_id d, db_number = pc_credit_note_number d, db_party_id = pc_supplier_id d,
       db_currency_code = da_currency_code a, db_date = pc_credit_note_date d, db_due_date = None,
       db_status = da_status a, db_total = da_total a, db_amount_applied = da_amount_applied a,
       db_balance = da_balance a, db_payment_status = pc_application_status d,
       db_journal_entry_id = da_journal_entry_id a, db_reference = da_reference a,
       db_memo = da_memo a\<rparr>)"

definition paymentAmounts :: "'a PaymentAmounts_scheme \<Rightarrow> PaymentAmounts" where
  "paymentAmounts p = \<lparr>pa_currency_code = pa_currency_code p, pa_amount = pa_amount p,
     pa_method = pa_method p, pa_reference = pa_reference p, pa_status = pa_status p,
     pa_amount_applied = pa_amount_applied p, pa_unapplied = pa_unapplied p,
     pa_journal_entry_id = pa_journal_entry_id p\<rparr>"

definition fromCustomerPayment :: "CustomerPayment \<Rightarrow> Payment" where
  "fromCustomerPayment p =
     (let a = paymentAmounts p in
      \<lparr>pay_id = cp_id p, pay_party_id = cp_customer_id p, pay_date = cp_payment_date p,
       pay_currency_code = pa_currency_code a, pay_amount = pa_amount a, pay_method = pa_method a,
       pay_reference = pa_reference a, pay_status = pa_status a,
       pay_amount_applied = pa_amount_applied a, pay_unapplied = pa_unapplied a,
       pay_journal_entry_id = pa_journal_entry_id a, pay_account_id = cp_deposit_account_id p\<rparr>)"

definition fromSupplierPayment :: "SupplierPayment \<Rightarrow> Payment" where
  "fromSupplierPayment p =
     (let a = paymentAmounts p in
      \<lparr>pay_id = sp_id p, pay_party_id = sp_supplier_id p, pay_date = sp_payment_date p,
       pay_currency_code = pa_currency_code a, pay_amount = pa_amount a, pay_method = pa_method a,
       pay_reference = pa_reference a, pay_status = pa_status a,
       pay_amount_applied = pa_amount_applied a, pay_unapplied = pa_unapplied a,
       pay_journal_entry_id = pa_journal_entry_id a, pay_account_id = sp_payment_account_id p\<rparr>)"

definition PAYMENT_METHODS :: "string list" where
  "PAYMENT_METHODS = [''cash'', ''check'', ''card'', ''transfer'', ''other'']"

definition MOVEMENT_TYPES :: "string list" where
  "MOVEMENT_TYPES = [''receipt'', ''issue'', ''adjustment'', ''transfer_in'', ''transfer_out'']"

section \<open>The calls\<close>

definition emailDocument :: "string \<Rightarrow> int \<Rightarrow> string list \<Rightarrow> ('w, string \<times> string list) call" where
  "emailDocument collection_path ident to_addresses =
     post (basic_as is_Emailed_Body the_emailed)
       (''/'' @ collection_path @ ''/'' @ show_int ident @ ''/email'') (Document_Payload (Recipients to_addresses))"

definition listSalesInvoices :: "('w, DocumentBalance list) call" where
  "listSalesInvoices =
     map_io (map fromSalesInvoice) (get (document_as is_SalesInvoice_List the_SalesInvoice_list)
       ''/sales-invoices'')"

definition getSalesInvoice :: "int \<Rightarrow> ('w, DocumentBalance) call" where
  "getSalesInvoice ident =
     map_io fromSalesInvoice (get (document_as is_SalesInvoice_Body the_SalesInvoice)
       (''/sales-invoices/'' @ show_int ident))"

definition getSalesInvoiceLines :: "int \<Rightarrow> ('w, SalesInvoiceLine list) call" where
  "getSalesInvoiceLines ident =
     get (document_as is_SalesInvoiceLine_List the_SalesInvoiceLine_list)
       (''/sales-invoices/'' @ show_int ident @ ''/lines'')"

definition createSalesInvoice :: "SalesInvoiceInput \<Rightarrow> ('w, int) call" where
  "createSalesInvoice input =
     post (basic_as is_Id_Body the_id)
       ''/sales-invoices'' (Document_Payload (SalesInvoiceInput_Payload input))"

definition updateSalesInvoice :: "int \<Rightarrow> SalesInvoiceInput \<Rightarrow> ('w, unit) call" where
  "updateSalesInvoice ident input =
     send ''PUT''
       (''/sales-invoices/'' @ show_int ident) (Document_Payload (SalesInvoiceInput_Payload input))"

definition deleteSalesInvoice :: "int \<Rightarrow> ('w, unit) call" where
  "deleteSalesInvoice ident = del (''/sales-invoices/'' @ show_int ident)"

definition postSalesInvoice :: "int \<Rightarrow> ('w, int) call" where
  "postSalesInvoice ident =
     post (basic_as is_Posted_Body the_posted)
       (''/sales-invoices/'' @ show_int ident @ ''/post'') Empty_Object"

definition unpostSalesInvoice :: "int \<Rightarrow> ('w, int) call" where
  "unpostSalesInvoice ident =
     post (basic_as is_Reversed_Body the_reversed)
       (''/sales-invoices/'' @ show_int ident @ ''/unpost'') Empty_Object"

definition listPurchaseBills :: "('w, DocumentBalance list) call" where
  "listPurchaseBills =
     map_io (map fromPurchaseBill) (get (document_as is_PurchaseBill_List the_PurchaseBill_list)
       ''/purchase-bills'')"

definition getPurchaseBill :: "int \<Rightarrow> ('w, DocumentBalance) call" where
  "getPurchaseBill ident =
     map_io fromPurchaseBill (get (document_as is_PurchaseBill_Body the_PurchaseBill)
       (''/purchase-bills/'' @ show_int ident))"

definition getPurchaseBillLines :: "int \<Rightarrow> ('w, PurchaseBillLine list) call" where
  "getPurchaseBillLines ident =
     get (document_as is_PurchaseBillLine_List the_PurchaseBillLine_list)
       (''/purchase-bills/'' @ show_int ident @ ''/lines'')"

definition createPurchaseBill :: "PurchaseBillInput \<Rightarrow> ('w, int) call" where
  "createPurchaseBill input =
     post (basic_as is_Id_Body the_id)
       ''/purchase-bills'' (Document_Payload (PurchaseBillInput_Payload input))"

definition updatePurchaseBill :: "int \<Rightarrow> PurchaseBillInput \<Rightarrow> ('w, unit) call" where
  "updatePurchaseBill ident input =
     send ''PUT''
       (''/purchase-bills/'' @ show_int ident) (Document_Payload (PurchaseBillInput_Payload input))"

definition deletePurchaseBill :: "int \<Rightarrow> ('w, unit) call" where
  "deletePurchaseBill ident = del (''/purchase-bills/'' @ show_int ident)"

definition postPurchaseBill :: "int \<Rightarrow> ('w, int) call" where
  "postPurchaseBill ident =
     post (basic_as is_Posted_Body the_posted)
       (''/purchase-bills/'' @ show_int ident @ ''/post'') Empty_Object"

definition unpostPurchaseBill :: "int \<Rightarrow> ('w, int) call" where
  "unpostPurchaseBill ident =
     post (basic_as is_Reversed_Body the_reversed)
       (''/purchase-bills/'' @ show_int ident @ ''/unpost'') Empty_Object"

definition listSalesCreditNotes :: "('w, DocumentBalance list) call" where
  "listSalesCreditNotes =
     map_io (map fromSalesCreditNote) (get (document_as is_SalesCreditNote_List the_SalesCreditNote_list)
       ''/sales-credit-notes'')"

definition getSalesCreditNote :: "int \<Rightarrow> ('w, DocumentBalance) call" where
  "getSalesCreditNote ident =
     map_io fromSalesCreditNote (get (document_as is_SalesCreditNote_Body the_SalesCreditNote)
       (''/sales-credit-notes/'' @ show_int ident))"

definition getSalesCreditNoteLines :: "int \<Rightarrow> ('w, SalesInvoiceLine list) call" where
  "getSalesCreditNoteLines ident =
     get (document_as is_SalesInvoiceLine_List the_SalesInvoiceLine_list)
       (''/sales-credit-notes/'' @ show_int ident @ ''/lines'')"

definition getSalesCreditNoteApplications :: "int \<Rightarrow> ('w, PaymentApplication list) call" where
  "getSalesCreditNoteApplications ident =
     get (document_as is_PaymentApplication_List the_PaymentApplication_list)
       (''/sales-credit-notes/'' @ show_int ident @ ''/applications'')"

definition createSalesCreditNote :: "SalesCreditNoteInput \<Rightarrow> ('w, int) call" where
  "createSalesCreditNote input =
     post (basic_as is_Id_Body the_id)
       ''/sales-credit-notes'' (Document_Payload (SalesCreditNoteInput_Payload input))"

definition updateSalesCreditNote :: "int \<Rightarrow> SalesCreditNoteInput \<Rightarrow> ('w, unit) call" where
  "updateSalesCreditNote ident input =
     send ''PUT''
       (''/sales-credit-notes/'' @ show_int ident) (Document_Payload (SalesCreditNoteInput_Payload input))"

definition deleteSalesCreditNote :: "int \<Rightarrow> ('w, unit) call" where
  "deleteSalesCreditNote ident = del (''/sales-credit-notes/'' @ show_int ident)"

definition postSalesCreditNote :: "int \<Rightarrow> ('w, int) call" where
  "postSalesCreditNote ident =
     post (basic_as is_Posted_Body the_posted)
       (''/sales-credit-notes/'' @ show_int ident @ ''/post'') Empty_Object"

definition applySalesCreditNote :: "int \<Rightarrow> ('w, (int \<times> string) list) call" where
  "applySalesCreditNote ident =
     post (basic_as is_Applied_Body the_applied)
       (''/sales-credit-notes/'' @ show_int ident @ ''/apply'') Empty_Object"

definition unpostSalesCreditNote :: "int \<Rightarrow> ('w, int) call" where
  "unpostSalesCreditNote ident =
     post (basic_as is_Reversed_Body the_reversed)
       (''/sales-credit-notes/'' @ show_int ident @ ''/unpost'') Empty_Object"

definition listPurchaseCreditNotes :: "('w, DocumentBalance list) call" where
  "listPurchaseCreditNotes =
     map_io (map fromPurchaseCreditNote) (get (document_as is_PurchaseCreditNote_List the_PurchaseCreditNote_list)
       ''/purchase-credit-notes'')"

definition getPurchaseCreditNote :: "int \<Rightarrow> ('w, DocumentBalance) call" where
  "getPurchaseCreditNote ident =
     map_io fromPurchaseCreditNote (get (document_as is_PurchaseCreditNote_Body the_PurchaseCreditNote)
       (''/purchase-credit-notes/'' @ show_int ident))"

definition getPurchaseCreditNoteLines :: "int \<Rightarrow> ('w, PurchaseBillLine list) call" where
  "getPurchaseCreditNoteLines ident =
     get (document_as is_PurchaseBillLine_List the_PurchaseBillLine_list)
       (''/purchase-credit-notes/'' @ show_int ident @ ''/lines'')"

definition getPurchaseCreditNoteApplications :: "int \<Rightarrow> ('w, PaymentApplication list) call" where
  "getPurchaseCreditNoteApplications ident =
     get (document_as is_PaymentApplication_List the_PaymentApplication_list)
       (''/purchase-credit-notes/'' @ show_int ident @ ''/applications'')"

definition createPurchaseCreditNote :: "PurchaseCreditNoteInput \<Rightarrow> ('w, int) call" where
  "createPurchaseCreditNote input =
     post (basic_as is_Id_Body the_id)
       ''/purchase-credit-notes'' (Document_Payload (PurchaseCreditNoteInput_Payload input))"

definition updatePurchaseCreditNote :: "int \<Rightarrow> PurchaseCreditNoteInput \<Rightarrow> ('w, unit) call" where
  "updatePurchaseCreditNote ident input =
     send ''PUT''
       (''/purchase-credit-notes/'' @ show_int ident) (Document_Payload (PurchaseCreditNoteInput_Payload input))"

definition deletePurchaseCreditNote :: "int \<Rightarrow> ('w, unit) call" where
  "deletePurchaseCreditNote ident = del (''/purchase-credit-notes/'' @ show_int ident)"

definition postPurchaseCreditNote :: "int \<Rightarrow> ('w, int) call" where
  "postPurchaseCreditNote ident =
     post (basic_as is_Posted_Body the_posted)
       (''/purchase-credit-notes/'' @ show_int ident @ ''/post'') Empty_Object"

definition applyPurchaseCreditNote :: "int \<Rightarrow> ('w, (int \<times> string) list) call" where
  "applyPurchaseCreditNote ident =
     post (basic_as is_Applied_Body the_applied)
       (''/purchase-credit-notes/'' @ show_int ident @ ''/apply'') Empty_Object"

definition unpostPurchaseCreditNote :: "int \<Rightarrow> ('w, int) call" where
  "unpostPurchaseCreditNote ident =
     post (basic_as is_Reversed_Body the_reversed)
       (''/purchase-credit-notes/'' @ show_int ident @ ''/unpost'') Empty_Object"

definition listCustomerPayments :: "('w, Payment list) call" where
  "listCustomerPayments =
     map_io (map fromCustomerPayment) (get (document_as is_CustomerPayment_List the_CustomerPayment_list)
       ''/customer-payments'')"

definition getCustomerPayment :: "int \<Rightarrow> ('w, Payment) call" where
  "getCustomerPayment ident =
     map_io fromCustomerPayment (get (document_as is_CustomerPayment_Body the_CustomerPayment)
       (''/customer-payments/'' @ show_int ident))"

definition getCustomerPaymentApplications :: "int \<Rightarrow> ('w, PaymentApplication list) call" where
  "getCustomerPaymentApplications ident =
     get (document_as is_PaymentApplication_List the_PaymentApplication_list)
       (''/customer-payments/'' @ show_int ident @ ''/applications'')"

definition createCustomerPayment :: "CustomerPaymentInput \<Rightarrow> ('w, int) call" where
  "createCustomerPayment input =
     post (basic_as is_Id_Body the_id)
       ''/customer-payments'' (Document_Payload (CustomerPaymentInput_Payload input))"

definition updateCustomerPayment :: "int \<Rightarrow> CustomerPaymentInput \<Rightarrow> ('w, unit) call" where
  "updateCustomerPayment ident input =
     send ''PUT''
       (''/customer-payments/'' @ show_int ident) (Document_Payload (CustomerPaymentInput_Payload input))"

definition deleteCustomerPayment :: "int \<Rightarrow> ('w, unit) call" where
  "deleteCustomerPayment ident = del (''/customer-payments/'' @ show_int ident)"

definition postCustomerPayment :: "int \<Rightarrow> ('w, int) call" where
  "postCustomerPayment ident =
     post (basic_as is_Posted_Body the_posted)
       (''/customer-payments/'' @ show_int ident @ ''/post'') Empty_Object"

definition unpostCustomerPayment :: "int \<Rightarrow> ('w, int) call" where
  "unpostCustomerPayment ident =
     post (basic_as is_Reversed_Body the_reversed)
       (''/customer-payments/'' @ show_int ident @ ''/unpost'') Empty_Object"

definition applyCustomerPayment :: "int \<Rightarrow> ('w, (int \<times> string) list) call" where
  "applyCustomerPayment ident =
     post (basic_as is_Applied_Body the_applied)
       (''/customer-payments/'' @ show_int ident @ ''/apply'') Empty_Object"

definition listSupplierPayments :: "('w, Payment list) call" where
  "listSupplierPayments =
     map_io (map fromSupplierPayment) (get (document_as is_SupplierPayment_List the_SupplierPayment_list)
       ''/supplier-payments'')"

definition getSupplierPayment :: "int \<Rightarrow> ('w, Payment) call" where
  "getSupplierPayment ident =
     map_io fromSupplierPayment (get (document_as is_SupplierPayment_Body the_SupplierPayment)
       (''/supplier-payments/'' @ show_int ident))"

definition getSupplierPaymentApplications :: "int \<Rightarrow> ('w, PaymentApplication list) call" where
  "getSupplierPaymentApplications ident =
     get (document_as is_PaymentApplication_List the_PaymentApplication_list)
       (''/supplier-payments/'' @ show_int ident @ ''/applications'')"

definition createSupplierPayment :: "SupplierPaymentInput \<Rightarrow> ('w, int) call" where
  "createSupplierPayment input =
     post (basic_as is_Id_Body the_id)
       ''/supplier-payments'' (Document_Payload (SupplierPaymentInput_Payload input))"

definition updateSupplierPayment :: "int \<Rightarrow> SupplierPaymentInput \<Rightarrow> ('w, unit) call" where
  "updateSupplierPayment ident input =
     send ''PUT''
       (''/supplier-payments/'' @ show_int ident) (Document_Payload (SupplierPaymentInput_Payload input))"

definition deleteSupplierPayment :: "int \<Rightarrow> ('w, unit) call" where
  "deleteSupplierPayment ident = del (''/supplier-payments/'' @ show_int ident)"

definition postSupplierPayment :: "int \<Rightarrow> ('w, int) call" where
  "postSupplierPayment ident =
     post (basic_as is_Posted_Body the_posted)
       (''/supplier-payments/'' @ show_int ident @ ''/post'') Empty_Object"

definition unpostSupplierPayment :: "int \<Rightarrow> ('w, int) call" where
  "unpostSupplierPayment ident =
     post (basic_as is_Reversed_Body the_reversed)
       (''/supplier-payments/'' @ show_int ident @ ''/unpost'') Empty_Object"

definition applySupplierPayment :: "int \<Rightarrow> ('w, (int \<times> string) list) call" where
  "applySupplierPayment ident =
     post (basic_as is_Applied_Body the_applied)
       (''/supplier-payments/'' @ show_int ident @ ''/apply'') Empty_Object"

definition listStockMovements :: "('w, StockMovement list) call" where
  "listStockMovements =
     get (document_as is_StockMovement_List the_StockMovement_list) ''/stock-movements''"

definition getStockMovement :: "int \<Rightarrow> ('w, StockMovement) call" where
  "getStockMovement ident =
     get (document_as is_StockMovement_Body the_StockMovement)
       (''/stock-movements/'' @ show_int ident)"

definition createStockMovement :: "StockMovementInput \<Rightarrow> ('w, int) call" where
  "createStockMovement input =
     post (basic_as is_Id_Body the_id)
       ''/stock-movements'' (Document_Payload (StockMovementInput_Payload input))"

definition updateStockMovement :: "int \<Rightarrow> StockMovementInput \<Rightarrow> ('w, unit) call" where
  "updateStockMovement ident input =
     send ''PUT''
       (''/stock-movements/'' @ show_int ident) (Document_Payload (StockMovementInput_Payload input))"

definition deleteStockMovement :: "int \<Rightarrow> ('w, unit) call" where
  "deleteStockMovement ident = del (''/stock-movements/'' @ show_int ident)"

definition postStockMovement :: "int \<Rightarrow> int option \<Rightarrow> ('w, int) call" where
  "postStockMovement ident creditAccountId =
     post (basic_as is_Posted_Body the_posted)
       (''/stock-movements/'' @ show_int ident @ ''/post'') (Document_Payload (Credit_Account (case creditAccountId of None \<Rightarrow> 0 | Some a \<Rightarrow> a)))"

definition unpostStockMovement :: "int \<Rightarrow> ('w, int) call" where
  "unpostStockMovement ident =
     post (basic_as is_Reversed_Body the_reversed)
       (''/stock-movements/'' @ show_int ident @ ''/unpost'') Empty_Object"

section \<open>The resources\<close>

interpretation sales_invoices: postable listSalesInvoices getSalesInvoice createSalesInvoice updateSalesInvoice
    "''/sales-invoices''" show_int "\<lambda>i. Document_Payload (SalesInvoiceInput_Payload i)" deleteSalesInvoice
    postSalesInvoice unpostSalesInvoice Empty_Object Empty_Object
  by unfold_locales (simp_all add: member_path_def api_requests
    listSalesInvoices_def getSalesInvoice_def createSalesInvoice_def updateSalesInvoice_def deleteSalesInvoice_def postSalesInvoice_def unpostSalesInvoice_def)

interpretation purchase_bills: postable listPurchaseBills getPurchaseBill createPurchaseBill updatePurchaseBill
    "''/purchase-bills''" show_int "\<lambda>i. Document_Payload (PurchaseBillInput_Payload i)" deletePurchaseBill
    postPurchaseBill unpostPurchaseBill Empty_Object Empty_Object
  by unfold_locales (simp_all add: member_path_def api_requests
    listPurchaseBills_def getPurchaseBill_def createPurchaseBill_def updatePurchaseBill_def deletePurchaseBill_def postPurchaseBill_def unpostPurchaseBill_def)

interpretation sales_credit_notes: postable listSalesCreditNotes getSalesCreditNote createSalesCreditNote updateSalesCreditNote
    "''/sales-credit-notes''" show_int "\<lambda>i. Document_Payload (SalesCreditNoteInput_Payload i)" deleteSalesCreditNote
    postSalesCreditNote unpostSalesCreditNote Empty_Object Empty_Object
  by unfold_locales (simp_all add: member_path_def api_requests
    listSalesCreditNotes_def getSalesCreditNote_def createSalesCreditNote_def updateSalesCreditNote_def deleteSalesCreditNote_def postSalesCreditNote_def unpostSalesCreditNote_def)

interpretation purchase_credit_notes: postable listPurchaseCreditNotes getPurchaseCreditNote createPurchaseCreditNote updatePurchaseCreditNote
    "''/purchase-credit-notes''" show_int "\<lambda>i. Document_Payload (PurchaseCreditNoteInput_Payload i)" deletePurchaseCreditNote
    postPurchaseCreditNote unpostPurchaseCreditNote Empty_Object Empty_Object
  by unfold_locales (simp_all add: member_path_def api_requests
    listPurchaseCreditNotes_def getPurchaseCreditNote_def createPurchaseCreditNote_def updatePurchaseCreditNote_def deletePurchaseCreditNote_def postPurchaseCreditNote_def unpostPurchaseCreditNote_def)

interpretation customer_payments: postable listCustomerPayments getCustomerPayment createCustomerPayment updateCustomerPayment
    "''/customer-payments''" show_int "\<lambda>i. Document_Payload (CustomerPaymentInput_Payload i)" deleteCustomerPayment
    postCustomerPayment unpostCustomerPayment Empty_Object Empty_Object
  by unfold_locales (simp_all add: member_path_def api_requests
    listCustomerPayments_def getCustomerPayment_def createCustomerPayment_def updateCustomerPayment_def deleteCustomerPayment_def postCustomerPayment_def unpostCustomerPayment_def)

interpretation supplier_payments: postable listSupplierPayments getSupplierPayment createSupplierPayment updateSupplierPayment
    "''/supplier-payments''" show_int "\<lambda>i. Document_Payload (SupplierPaymentInput_Payload i)" deleteSupplierPayment
    postSupplierPayment unpostSupplierPayment Empty_Object Empty_Object
  by unfold_locales (simp_all add: member_path_def api_requests
    listSupplierPayments_def getSupplierPayment_def createSupplierPayment_def updateSupplierPayment_def deleteSupplierPayment_def postSupplierPayment_def unpostSupplierPayment_def)

interpretation stock_movements: deletable listStockMovements getStockMovement createStockMovement updateStockMovement
    "''/stock-movements''" show_int "\<lambda>i. Document_Payload (StockMovementInput_Payload i)" deleteStockMovement
  by unfold_locales (simp_all add: member_path_def api_requests
    listStockMovements_def getStockMovement_def createStockMovement_def updateStockMovement_def deleteStockMovement_def)


end
