(* ===== verification/Api_Orders.thy ===== *)
theory Api_Orders
  imports Wire Resource
begin

text \<open>
  The calls of \<open>web/src/lib/api.ts\<close> for sales and purchase orders, their transitions and fulfilment,
  and for bank reconciliation.
\<close>

section \<open>The calls\<close>

definition listSalesOrders :: "('w, SalesOrderSummary list) call" where
  "listSalesOrders =
     get (order_as is_SalesOrderSummary_List the_SalesOrderSummary_list) ''/sales-orders''"

definition getSalesOrder :: "int \<Rightarrow> ('w, SalesOrderSummary) call" where
  "getSalesOrder ident =
     get (order_as is_SalesOrderSummary_Body the_SalesOrderSummary)
       (''/sales-orders/'' @ show_int ident)"

definition getSalesOrderLines :: "int \<Rightarrow> ('w, SalesOrderLine list) call" where
  "getSalesOrderLines ident =
     get (order_as is_SalesOrderLine_List the_SalesOrderLine_list)
       (''/sales-orders/'' @ show_int ident @ ''/lines'')"

definition createSalesOrder :: "SalesOrderInput \<Rightarrow> ('w, int) call" where
  "createSalesOrder input =
     post (basic_as is_Id_Body the_id)
       ''/sales-orders'' (Order_Payload (SalesOrderInput_Payload input))"

definition updateSalesOrder :: "int \<Rightarrow> SalesOrderInput \<Rightarrow> ('w, unit) call" where
  "updateSalesOrder ident input =
     send ''PUT''
       (''/sales-orders/'' @ show_int ident) (Order_Payload (SalesOrderInput_Payload input))"

definition deleteSalesOrder :: "int \<Rightarrow> ('w, unit) call" where
  "deleteSalesOrder ident = del (''/sales-orders/'' @ show_int ident)"

definition listPurchaseOrders :: "('w, PurchaseOrderSummary list) call" where
  "listPurchaseOrders =
     get (order_as is_PurchaseOrderSummary_List the_PurchaseOrderSummary_list) ''/purchase-orders''"

definition getPurchaseOrder :: "int \<Rightarrow> ('w, PurchaseOrderSummary) call" where
  "getPurchaseOrder ident =
     get (order_as is_PurchaseOrderSummary_Body the_PurchaseOrderSummary)
       (''/purchase-orders/'' @ show_int ident)"

definition getPurchaseOrderLines :: "int \<Rightarrow> ('w, PurchaseOrderLine list) call" where
  "getPurchaseOrderLines ident =
     get (order_as is_PurchaseOrderLine_List the_PurchaseOrderLine_list)
       (''/purchase-orders/'' @ show_int ident @ ''/lines'')"

definition createPurchaseOrder :: "PurchaseOrderInput \<Rightarrow> ('w, int) call" where
  "createPurchaseOrder input =
     post (basic_as is_Id_Body the_id)
       ''/purchase-orders'' (Order_Payload (PurchaseOrderInput_Payload input))"

definition updatePurchaseOrder :: "int \<Rightarrow> PurchaseOrderInput \<Rightarrow> ('w, unit) call" where
  "updatePurchaseOrder ident input =
     send ''PUT''
       (''/purchase-orders/'' @ show_int ident) (Order_Payload (PurchaseOrderInput_Payload input))"

definition deletePurchaseOrder :: "int \<Rightarrow> ('w, unit) call" where
  "deletePurchaseOrder ident = del (''/purchase-orders/'' @ show_int ident)"

definition confirmSalesOrder :: "int \<Rightarrow> ('w, unit) call" where
  "confirmSalesOrder ident =
     send ''POST'' (''/sales-orders/'' @ show_int ident @ ''/confirm'') Empty_Object"

definition closeSalesOrder :: "int \<Rightarrow> ('w, unit) call" where
  "closeSalesOrder ident =
     send ''POST'' (''/sales-orders/'' @ show_int ident @ ''/close'') Empty_Object"

definition cancelSalesOrder :: "int \<Rightarrow> ('w, unit) call" where
  "cancelSalesOrder ident =
     send ''POST'' (''/sales-orders/'' @ show_int ident @ ''/cancel'') Empty_Object"

definition confirmPurchaseOrder :: "int \<Rightarrow> ('w, unit) call" where
  "confirmPurchaseOrder ident =
     send ''POST'' (''/purchase-orders/'' @ show_int ident @ ''/confirm'') Empty_Object"

definition closePurchaseOrder :: "int \<Rightarrow> ('w, unit) call" where
  "closePurchaseOrder ident =
     send ''POST'' (''/purchase-orders/'' @ show_int ident @ ''/close'') Empty_Object"

definition cancelPurchaseOrder :: "int \<Rightarrow> ('w, unit) call" where
  "cancelPurchaseOrder ident =
     send ''POST'' (''/purchase-orders/'' @ show_int ident @ ''/cancel'') Empty_Object"

definition invoiceSalesOrder :: "int \<Rightarrow> InvoiceFromOrderInput \<Rightarrow> ('w, int) call" where
  "invoiceSalesOrder ident input =
     post (basic_as is_Invoiced_Body the_invoiced)
       (''/sales-orders/'' @ show_int ident @ ''/invoice'') (Order_Payload (InvoiceFromOrderInput_Payload input))"

definition shipSalesOrder :: "int \<Rightarrow> FulfilMovementInput \<Rightarrow> ('w, int list) call" where
  "shipSalesOrder ident input =
     post (basic_as is_Moved_Body the_moved)
       (''/sales-orders/'' @ show_int ident @ ''/ship'') (Order_Payload (FulfilMovementInput_Payload input))"

definition billPurchaseOrder :: "int \<Rightarrow> BillFromOrderInput \<Rightarrow> ('w, int) call" where
  "billPurchaseOrder ident input =
     post (basic_as is_Billed_Body the_billed)
       (''/purchase-orders/'' @ show_int ident @ ''/bill'') (Order_Payload (BillFromOrderInput_Payload input))"

definition receivePurchaseOrder :: "int \<Rightarrow> FulfilMovementInput \<Rightarrow> ('w, int list) call" where
  "receivePurchaseOrder ident input =
     post (basic_as is_Moved_Body the_moved)
       (''/purchase-orders/'' @ show_int ident @ ''/receive'') (Order_Payload (FulfilMovementInput_Payload input))"

definition listBankStatements :: "('w, BankStatement list) call" where
  "listBankStatements =
     get (order_as is_BankStatement_List the_BankStatement_list) ''/bank-statements''"

definition getBankStatement :: "int \<Rightarrow> ('w, BankStatement) call" where
  "getBankStatement ident =
     get (order_as is_BankStatement_Body the_BankStatement)
       (''/bank-statements/'' @ show_int ident)"

definition getBankStatementLines :: "int \<Rightarrow> ('w, BankStatementLine list) call" where
  "getBankStatementLines ident =
     get (order_as is_BankStatementLine_List the_BankStatementLine_list)
       (''/bank-statements/'' @ show_int ident @ ''/lines'')"

definition getBankMatchCandidates :: "int \<Rightarrow> ('w, BankMatchCandidate list) call" where
  "getBankMatchCandidates ident =
     get (order_as is_BankMatchCandidate_List the_BankMatchCandidate_list)
       (''/bank-statements/'' @ show_int ident @ ''/candidates'')"

definition createBankStatement :: "BankStatementInput \<Rightarrow> ('w, int) call" where
  "createBankStatement input =
     post (basic_as is_Id_Body the_id)
       ''/bank-statements'' (Order_Payload (BankStatementInput_Payload input))"

definition updateBankStatement :: "int \<Rightarrow> BankStatementInput \<Rightarrow> ('w, unit) call" where
  "updateBankStatement ident input =
     send ''PUT''
       (''/bank-statements/'' @ show_int ident) (Order_Payload (BankStatementInput_Payload input))"

definition deleteBankStatement :: "int \<Rightarrow> ('w, unit) call" where
  "deleteBankStatement ident = del (''/bank-statements/'' @ show_int ident)"

definition addBankStatementLine :: "int \<Rightarrow> BankStatementLineInput \<Rightarrow> ('w, int) call" where
  "addBankStatementLine ident input =
     post (basic_as is_Id_Body the_id)
       (''/bank-statements/'' @ show_int ident @ ''/lines'') (Order_Payload (BankStatementLineInput_Payload input))"

definition importBankStatementCSV :: "int \<Rightarrow> string \<Rightarrow> ('w, int) call" where
  "importBankStatementCSV ident csv =
     post (basic_as is_Imported_Body the_imported)
       (''/bank-statements/'' @ show_int ident @ ''/import'') (Order_Payload (Csv csv))"

definition autoMatchBankStatement :: "int \<Rightarrow> ('w, int) call" where
  "autoMatchBankStatement ident =
     post (basic_as is_Matched_Body the_matched)
       (''/bank-statements/'' @ show_int ident @ ''/auto-match'') Empty_Object"

definition reconcileBankStatement :: "int \<Rightarrow> ('w, unit) call" where
  "reconcileBankStatement ident =
     send ''POST'' (''/bank-statements/'' @ show_int ident @ ''/reconcile'') Empty_Object"

definition reopenBankStatement :: "int \<Rightarrow> ('w, unit) call" where
  "reopenBankStatement ident =
     send ''POST'' (''/bank-statements/'' @ show_int ident @ ''/reopen'') Empty_Object"

definition matchBankStatementLine :: "int \<Rightarrow> int \<Rightarrow> ('w, unit) call" where
  "matchBankStatementLine lineId journalLineId =
     send ''POST''
       (''/bank-statement-lines/'' @ show_int lineId @ ''/match'') (Order_Payload (Journal_Line journalLineId))"

definition unmatchBankStatementLine :: "int \<Rightarrow> ('w, unit) call" where
  "unmatchBankStatementLine lineId =
     send ''POST'' (''/bank-statement-lines/'' @ show_int lineId @ ''/unmatch'') Empty_Object"

definition deleteBankStatementLine :: "int \<Rightarrow> ('w, unit) call" where
  "deleteBankStatementLine lineId = del (''/bank-statement-lines/'' @ show_int lineId)"

section \<open>The resources\<close>

interpretation sales_orders: deletable listSalesOrders getSalesOrder createSalesOrder updateSalesOrder
    "''/sales-orders''" show_int "\<lambda>i. Order_Payload (SalesOrderInput_Payload i)" deleteSalesOrder
  by unfold_locales (simp_all add: member_path_def api_requests
    listSalesOrders_def getSalesOrder_def createSalesOrder_def updateSalesOrder_def deleteSalesOrder_def)

interpretation purchase_orders: deletable listPurchaseOrders getPurchaseOrder createPurchaseOrder updatePurchaseOrder
    "''/purchase-orders''" show_int "\<lambda>i. Order_Payload (PurchaseOrderInput_Payload i)" deletePurchaseOrder
  by unfold_locales (simp_all add: member_path_def api_requests
    listPurchaseOrders_def getPurchaseOrder_def createPurchaseOrder_def updatePurchaseOrder_def deletePurchaseOrder_def)

interpretation bank_statements: deletable listBankStatements getBankStatement createBankStatement updateBankStatement
    "''/bank-statements''" show_int "\<lambda>i. Order_Payload (BankStatementInput_Payload i)" deleteBankStatement
  by unfold_locales (simp_all add: member_path_def api_requests
    listBankStatements_def getBankStatement_def createBankStatement_def updateBankStatement_def deleteBankStatement_def)


end
