(* ===== verification/Api.thy ===== *)
theory Api
  imports Api_Master Api_Ledger Api_Documents Api_Orders
begin

text \<open>
  What the calls of \<open>web/src/lib/api.ts\<close> promise together: how failures surface, which requests
  a call makes, that members of a resource are told apart, that query strings carry the bounds
  of a report, and that the converters keep what the server sent.
\<close>

section \<open>Failures\<close>

text \<open>The reading of a good response; \<open>Shape_Error\<close> stands for a body of another shape than the cast
  claims, which is outside the contract of the server.\<close>

definition read_as :: "(body \<Rightarrow> 'a option) \<Rightarrow> body content \<Rightarrow> exn + 'a" where
  "read_as cast c = (case c of
       No_JSON m \<Rightarrow> Inl (Syntax_Error m)
     | Error_Object _ \<Rightarrow> Inl Shape_Error
     | JSON y \<Rightarrow> (case cast y of None \<Rightarrow> Inl Shape_Error | Some x \<Rightarrow> Inr x))"

lemma json_as_read: "json_as cast c s = (read_as cast c, s)"
  by (simp add: json_as_def read_as_def throw_io_def return_io_def split: content.split option.split)

lemma exchange_reads:
  "exchange rq (json_as cast) s = (case reply_to rq s of
       Rejected e \<Rightarrow> Inl (Type_Error e)
     | Response st c \<Rightarrow> if \<not> ok st then Inl (Api_Error st (reply_message st c)) else read_as cast c,
     after_exchange rq s)"
  by (cases "reply_to rq s") (auto simp: exchange_rejected exchange_failed exchange_answered json_as_read)

lemma exchange_ignores:
  "exchange rq (\<lambda>_. return_io ()) s = (case reply_to rq s of
       Rejected e \<Rightarrow> Inl (Type_Error e)
     | Response st c \<Rightarrow> if \<not> ok st then Inl (Api_Error st (reply_message st c)) else Inr (),
     after_exchange rq s)"
  by (cases "reply_to rq s") (auto simp: exchange_rejected exchange_failed exchange_answered return_io_def)

text \<open>C7. What a call of the client gives is settled by the reply alone, after one request. A request
  without a response throws the TypeError of the fetch; a response outside 200 to 299 throws an
  \<open>ApiError\<close> with the status and a message that is never empty (the message of the backend's error
  object, or a text with the status when the body is something else); a good response to a call that
  reads it throws the SyntaxError of a body that is no JSON and gives the value of one that is; and
  a good response to a call that reads nothing gives nothing, whatever its body, even none. A JSON
  body of another shape than the type of the call, which the code would take as it is, is outside the
  contract of the server (\<open>Shape_Error\<close>).\<close>

theorem client_failures:
  "get cast path s = (case reply_to (get_request path) s of
       Rejected e \<Rightarrow> Inl (Type_Error e)
     | Response st c \<Rightarrow> if \<not> ok st then Inl (Api_Error st (reply_message st c)) else read_as cast c,
     after_exchange (get_request path) s)
   \<and> post cast path p s = (case reply_to (body_request ''POST'' path p) s of
       Rejected e \<Rightarrow> Inl (Type_Error e)
     | Response st c \<Rightarrow> if \<not> ok st then Inl (Api_Error st (reply_message st c)) else read_as cast c,
     after_exchange (body_request ''POST'' path p) s)
   \<and> send verb path p s = (case reply_to (body_request verb path p) s of
       Rejected e \<Rightarrow> Inl (Type_Error e)
     | Response st c \<Rightarrow> if \<not> ok st then Inl (Api_Error st (reply_message st c)) else Inr (),
     after_exchange (body_request verb path p) s)
   \<and> del path s = (case reply_to (del_request path) s of
       Rejected e \<Rightarrow> Inl (Type_Error e)
     | Response st c \<Rightarrow> if \<not> ok st then Inl (Api_Error st (reply_message st c)) else Inr (),
     after_exchange (del_request path) s)
   \<and> reply_message st body \<noteq> []
   \<and> (read_as cast body = Inl (Syntax_Error m) \<longleftrightarrow> body = No_JSON m)
   \<and> (read_as cast body = Inr x \<longleftrightarrow> (\<exists>y. body = JSON y \<and> cast y = Some x))"
  unfolding client_exchange exchange_reads exchange_ignores
  by (auto simp: read_as_def split: content.splits option.splits)

definition refusing :: "int \<Rightarrow> string \<Rightarrow> (unit, payload, body) browser" where
  "refusing st m = \<lparr>network = (\<lambda>rq w. (Response st (Error_Object m), w)), world = (), sent = [],
     events = []\<rparr>"

lemma refusing_simps [simp]:
  "reply_to rq (refusing st m) = Response st (Error_Object m)" "events (refusing st m) = []"
  by (simp_all add: reply_to_def refusing_def)

text \<open>A server that answers every request with 204 and no body.\<close>

definition no_content_browser :: "(unit, payload, body) browser" where
  "no_content_browser = \<lparr>network = (\<lambda>rq w. (Response 204 (No_JSON ''Unexpected end of JSON input''), w)), world = (),
     sent = [], events = []\<rparr>"

lemma no_content_simps [simp]:
  "reply_to rq no_content_browser = Response 204 (No_JSON ''Unexpected end of JSON input'')" "sent no_content_browser = []"
  by (simp_all add: reply_to_def no_content_browser_def)

theorem client_failures_witness:
  "fst (get (master_as is_User_Body the_User) ''/auth/me'' (refusing 401 ''no session''))
     = Inl (Api_Error 401 ''no session'')
   \<and> fst (send ''PUT'' ''/accounts/7'' Empty_Object no_content_browser) = Inr ()
   \<and> fst (get (master_as is_User_Body the_User) ''/auth/me'' no_content_browser)
     = Inl (Syntax_Error ''Unexpected end of JSON input'')"
proof -
  have "\<not> ok 401" "ok 204" by (simp_all add: ok_def)
  then show ?thesis
    using client_failures [of "master_as is_User_Body the_User" "''/auth/me''" "refusing 401 ''no session''"]
      client_failures [of "master_as is_User_Body the_User" "''/auth/me''" no_content_browser Empty_Object "''PUT''"]
    by (simp add: client_failures read_as_def)
qed

fun unauthorized :: "'b reply \<Rightarrow> string list" where
  "unauthorized (Response st body) = (if st = 401 then [''tadmor:unauthorized''] else [])"
| "unauthorized (Rejected m) = []"

text \<open>C8. The session is dropped exactly when the server says so: a call dispatches the
  unauthorized event once when the status of its response is 401, and no other event ever.\<close>
theorem unauthorized_event_iff_401:
  "events (snd (get cast path s)) = events s @ unauthorized (reply_to (get_request path) s)
   \<and> events (snd (post cast path p s))
      = events s @ unauthorized (reply_to (body_request ''POST'' path p) s)
   \<and> events (snd (send verb path p s))
      = events s @ unauthorized (reply_to (body_request verb path p) s)
   \<and> events (snd (del path s)) = events s @ unauthorized (reply_to (del_request path) s)"
  by (simp add: after_exchange_def reply_to_def UNAUTHORIZED_EVENT_def
      split: prod.split reply.split)

section \<open>Requests\<close>


definition bounds :: "string \<Rightarrow> string \<Rightarrow> (string \<times> string) list" where
  "bounds lo hi = filter (\<lambda>p. snd p \<noteq> []) [(''from'', lo), (''to'', hi)]"

definition with_query :: "string \<Rightarrow> (string \<times> string) list \<Rightarrow> string" where
  "with_query path ps = path @ (if ps = [] then [] else ''?'' @ search_params ps)"

text \<open>A report is asked for exactly the range it is given: the query string of the
  profit-and-loss, cash-flow and ledger calls, decoded the way a server decodes a form, is the
  list of the bounds that are not empty, whatever characters they hold, and without bounds there
  is no query string.\<close>
theorem report_query:
  "\<exists>q1 q2 q3. parse_query q1 = bounds lo hi \<and> parse_query q2 = bounds lo hi \<and> parse_query q3 = bounds lo hi
    \<and> sent (snd (getProfitAndLoss lo hi s)) = sent s @ [get_request
        (if bounds lo hi = [] then ''/profit-and-loss'' else ''/profit-and-loss?'' @ q1)]
    \<and> sent (snd (getCashFlow lo hi s)) = sent s @ [get_request
        (if bounds lo hi = [] then ''/cash-flow'' else ''/cash-flow?'' @ q2)]
    \<and> sent (snd (getAccountLedger k lo hi s)) = sent s @ [get_request
        (''/accounts/'' @ show_int k @ (if bounds lo hi = [] then ''/ledger'' else ''/ledger?'' @ q3))]"
  by (rule exI [of _ "search_params (bounds lo hi)"])+
    (simp add: parse_search_params getProfitAndLoss_def getCashFlow_def getAccountLedger_def
      bounds_def Let_def)

text \<open>Members are told apart whatever their keys are: replacing a tax code, a payment term
  or an account sends one PUT that determines the key and every field of the input, to the
  address the member is read from.\<close>

theorem member_addresses:
  "(sent (snd (updateTaxCode c i s)) = sent (snd (updateTaxCode c' i' s)) \<longleftrightarrow> c = c' \<and> i = i')
   \<and> rq_path (last (sent (snd (getTaxCode c s)))) = rq_path (last (sent (snd (updateTaxCode c i s))))
   \<and> (sent (snd (updatePaymentTerm c t s)) = sent (snd (updatePaymentTerm c' t' s)) \<longleftrightarrow> c = c' \<and> t = t')
   \<and> rq_path (last (sent (snd (getPaymentTerm c s)))) = rq_path (last (sent (snd (updatePaymentTerm c t s))))
   \<and> (sent (snd (updateAccount k a s)) = sent (snd (updateAccount k' a' s)) \<longleftrightarrow> k = k' \<and> a = a')
   \<and> rq_path (last (sent (snd (getAccount k s)))) = rq_path (last (sent (snd (updateAccount k a s))))"
  by (intro conjI tax_codes.update_inject tax_codes.same_address payment_terms.update_inject
      payment_terms.same_address accounts.update_inject accounts.same_address)

text \<open>The transitions of a document cannot be mistaken for one another: posting an invoice
  is a different request from unposting one, from creating one and from deleting one, and the
  posting requests of two invoices differ; the same for customer payments.\<close>

theorem document_transitions:
  "sent (snd (postSalesInvoice k s)) \<noteq> sent (snd (unpostSalesInvoice k' s))
   \<and> sent (snd (postSalesInvoice k s)) \<noteq> sent (snd (createSalesInvoice i s))
   \<and> sent (snd (postSalesInvoice k s)) \<noteq> sent (snd (deleteSalesInvoice k' s))
   \<and> (sent (snd (postSalesInvoice k s)) = sent (snd (postSalesInvoice k' s)) \<longleftrightarrow> k = k')
   \<and> sent (snd (postCustomerPayment k s)) \<noteq> sent (snd (unpostCustomerPayment k' s))
   \<and> (sent (snd (postCustomerPayment k s)) = sent (snd (postCustomerPayment k' s)) \<longleftrightarrow> k = k')"
proof -
  have "sent (snd (postSalesInvoice k s)) \<noteq> sent (snd (deleteSalesInvoice k' s))"
    by (simp add: sales_invoices.transitions sales_invoices.removes body_request_def del_request_def)
  then show ?thesis
    by (intro conjI sales_invoices.transitions_distinct customer_payments.transitions_distinct)
qed

section \<open>Converters\<close>

lemma map_io_ok: "m s = (Inr x, s') \<Longrightarrow> map_io f m s = (Inr (f x), s')"
  by (simp add: map_io_def then_io_def return_io_def)

text \<open>The generic document view keeps what the server sent: for a list of invoices the
  call returns one row per invoice in the order of the response, with the identity, party, date,
  amounts, status and ledger entry of the invoice, and for credit notes a row without due date
  whose payment status is the application status.\<close>

theorem document_lists:
  assumes "reply_to (get_request ''/sales-invoices'') s
      = Response 200 (JSON (Document (SalesInvoice_List ds)))"
    and "reply_to (get_request ''/purchase-credit-notes'') s
      = Response 200 (JSON (Document (PurchaseCreditNote_List cs)))"
  shows "\<exists>rows notes. fst (listSalesInvoices s) = Inr rows \<and> fst (listPurchaseCreditNotes s) = Inr notes
    \<and> list_all2 (\<lambda>d r. db_id r = si_id d \<and> db_number r = si_invoice_number d
         \<and> db_party_id r = si_customer_id d \<and> db_date r = si_invoice_date d
         \<and> db_due_date r = si_due_date d \<and> db_payment_status r = si_payment_status d
         \<and> db_total r = da_total d \<and> db_amount_applied r = da_amount_applied d
         \<and> db_balance r = da_balance d \<and> db_currency_code r = da_currency_code d
         \<and> db_status r = da_status d \<and> db_journal_entry_id r = da_journal_entry_id d
         \<and> db_reference r = da_reference d \<and> db_memo r = da_memo d) ds rows
    \<and> list_all2 (\<lambda>c r. db_id r = pc_id c \<and> db_number r = pc_credit_note_number c
         \<and> db_party_id r = pc_supplier_id c \<and> db_date r = pc_credit_note_date c
         \<and> db_due_date r = None \<and> db_payment_status r = pc_application_status c
         \<and> db_total r = da_total c \<and> db_balance r = da_balance c) cs notes"
proof -
  have k: "ok 200" by (simp add: ok_def)
  have "fst (listSalesInvoices s) = Inr (map fromSalesInvoice ds)"
    using exchange_json [OF assms(1) k, of "document_as is_SalesInvoice_List the_SalesInvoice_list" ds]
    by (simp add: listSalesInvoices_def get_exchange map_io_ok document_as_def)
  moreover have "fst (listPurchaseCreditNotes s) = Inr (map fromPurchaseCreditNote cs)"
    using exchange_json [OF assms(2) k,
        of "document_as is_PurchaseCreditNote_List the_PurchaseCreditNote_list" cs]
    by (simp add: listPurchaseCreditNotes_def get_exchange map_io_ok document_as_def)
  ultimately show ?thesis
    by (intro exI conjI)
      (assumption, assumption, simp_all add: list_all2_conv_all_nth fromSalesInvoice_def
        fromPurchaseCreditNote_def amounts_def)
qed

definition serving :: "(string \<Rightarrow> body) \<Rightarrow> (unit, payload, body) browser" where
  "serving f = \<lparr>network = (\<lambda>rq w. (Response 200 (JSON (f (rq_path rq))), w)), world = (), sent = [],
     events = []\<rparr>"

lemma reply_to_serving [simp]: "reply_to rq (serving f) = Response 200 (JSON (f (rq_path rq)))"
  by (simp add: reply_to_def serving_def)

text \<open>A server that answers every request with the body of its path.\<close>

definition answering :: "(string \<Rightarrow> body) \<Rightarrow> payload request \<Rightarrow> 'w \<Rightarrow> body reply \<times> 'w" where
  "answering g rq w = (Response 200 (JSON (g (rq_path rq))), w)"

lemma get_answering:
  assumes "network b = answering g"
  shows "get cast path b = (case cast (g (BASE @ path)) of None \<Rightarrow> Inl Shape_Error | Some x \<Rightarrow> Inr x,
    after_exchange (get_request path) b)"
proof -
  have "reply_to (get_request path) b = Response 200 (JSON (g (BASE @ path)))"
    by (simp add: reply_to_def assms answering_def)
  moreover have "ok 200" by (simp add: ok_def)
  ultimately show ?thesis
    by (simp add: get_exchange exchange_answered)
      (simp add: json_as_def throw_io_def return_io_def split: option.split)
qed

definition sample_invoice :: SalesInvoice where
  "sample_invoice = \<lparr>da_currency_code = ''USD'', da_status = ''draft'', da_total = ''10.0000'',
     da_amount_applied = ''0.0000'', da_balance = ''10.0000'', da_journal_entry_id = None,
     da_reference = None, da_memo = None, si_id = 7, si_invoice_number = ''INV-7'', si_customer_id = 3,
     si_invoice_date = ''2024-02-10'', si_due_date = Some ''2024-03-11'',
     si_payment_status = ''unpaid''\<rparr>"

theorem document_lists_witness:
  "\<exists>r. fst (listSalesInvoices (serving (\<lambda>path. if path = ''/api/sales-invoices''
        then Document (SalesInvoice_List [sample_invoice]) else Document (PurchaseCreditNote_List []))))
      = Inr [r] \<and> db_number r = ''INV-7'' \<and> db_party_id r = 3 \<and> db_due_date r = Some ''2024-03-11''"
proof -
  let ?f = "\<lambda>path. if path = ''/api/sales-invoices''
        then Document (SalesInvoice_List [sample_invoice]) else Document (PurchaseCreditNote_List [])"
  have "reply_to (get_request ''/sales-invoices'') (serving ?f)
      = Response 200 (JSON (Document (SalesInvoice_List [sample_invoice])))"
    "reply_to (get_request ''/purchase-credit-notes'') (serving ?f)
      = Response 200 (JSON (Document (PurchaseCreditNote_List [])))"
    by (simp_all add: BASE_def)
  from document_lists [OF this] show ?thesis
    by (auto simp: list_all2_Cons1 sample_invoice_def)
qed

end
