(* ===== verification/Screens.thy ===== *)
theory Screens
  imports Prelude
begin

text \<open>
  What a screen of the front end is: a list of elements rendered from the state of its
  component, some of which offer events, and the states a component reaches when the user does
  what the elements offer. The markup of the source is kept as its content: headings, alerts,
  links, buttons, fields, selects and tables, with labels, values and handlers; layout and class
  names are left out, and the characters beyond Latin-1 (the ellipsis, the dash of an empty value and
  the arrow between dates) are written in ASCII.
\<close>

datatype 'e element =
    Heading string
  | Note string
  | Alert string
  | Link (link_label: string) (link_to: string)
  | Button (button_label: string) (disabled: bool) 'e
  | Field (field_id: string) (field_label: string) (required: bool) (field_value: string) "string \<Rightarrow> 'e"
  | Select (select_id: string) (select_label: string) (select_value: string)
      (select_options: "(string \<times> string) list") "string \<Rightarrow> 'e"
  | Checkbox (check_id: string) (check_label: string) (checked: bool) "bool \<Rightarrow> 'e"
  | Datum (datum_label: string) (datum_value: string)
  | Table (columns: "string list") (rows: "string list list")

definition em_dash :: string where
  "em_dash = ''--''"

text \<open>\<open>{condition && (...)}\<close>\<close>

definition guarded :: "bool \<Rightarrow> 'a list \<Rightarrow> 'a list" where
  "guarded c es = (if c then es else [])"

lemma set_guarded [simp]: "set (guarded c es) = (if c then set es else {})"
  by (simp add: guarded_def)

lemma guarded_simps [simp]: "guarded True es = es" "guarded False es = []"
  by (simp_all add: guarded_def)

text \<open>The events an element offers: a button that is not disabled, a field with any text, a
  select with one of its options.\<close>

inductive offered :: "'e element \<Rightarrow> 'e \<Rightarrow> bool" where
  button: "offered (Button l False e) e"
| field: "offered (Field i l r v h) (h s)"
| select: "(v', t) \<in> set opts \<Longrightarrow> offered (Select i l v opts h) (h v')"
| check: "offered (Checkbox i l v h) (h c)"

inductive_simps offered_simps [simp]:
  "offered (Heading t) e" "offered (Note t) e" "offered (Alert t) e" "offered (Link t u) e"
  "offered (Button l d e') e" "offered (Field i l r v h) e" "offered (Select i l v opts h) e"
  "offered (Checkbox i l c h) e" "offered (Datum l v) e" "offered (Table cs rs) e"

definition offers :: "'e element list \<Rightarrow> 'e \<Rightarrow> bool" where
  "offers els e \<longleftrightarrow> (\<exists>el \<in> set els. offered el e)"

lemma offers_simps [simp]:
  "\<not> offers [] e" "offers (el # els) e \<longleftrightarrow> offered el e \<or> offers els e"
  "offers (els @ els') e \<longleftrightarrow> offers els e \<or> offers els' e"
  "offers (guarded c els) e \<longleftrightarrow> c \<and> offers els e"
  by (auto simp: offers_def)

lemma offers_concat: "offers (concat (map f xs)) e \<longleftrightarrow> (\<exists>x \<in> set xs. offers (f x) e)"
  by (auto simp: offers_def)

text \<open>Reachable states of a component: from a start state, by its steps.\<close>

inductive reachable :: "('s \<Rightarrow> bool) \<Rightarrow> ('s \<Rightarrow> 's \<Rightarrow> bool) \<Rightarrow> 's \<Rightarrow> bool"
  for start :: "'s \<Rightarrow> bool" and move :: "'s \<Rightarrow> 's \<Rightarrow> bool" where
  starting: "start s \<Longrightarrow> reachable start move s"
| moving: "reachable start move s \<Longrightarrow> move s s' \<Longrightarrow> reachable start move s'"

lemma reachable_weaken:
  "reachable start move x \<Longrightarrow> (\<And>y. start y \<Longrightarrow> start' y) \<Longrightarrow> reachable start' move x"
  by (induction rule: reachable.induct) (auto intro: reachable.intros)

text \<open>The invariant rule as an interface: what a component must show of one step.\<close>

locale invariant =
  fixes start :: "'s \<Rightarrow> bool" and move :: "'s \<Rightarrow> 's \<Rightarrow> bool" and inv :: "'s \<Rightarrow> bool"
  assumes start_inv: "start s \<Longrightarrow> inv s"
    and move_inv: "inv s \<Longrightarrow> move s s' \<Longrightarrow> inv s'"
begin

lemma reachable_inv: "reachable start move s \<Longrightarrow> inv s"
  by (induction rule: reachable.induct) (auto intro: start_inv move_inv)

end

end
