(* ===== verification/Forms.thy ===== *)
theory Forms
  imports Api Amount Screens
begin

text \<open>
  What the document forms (\<open>web/src/components/*-form.tsx\<close>) share: the sentinel of nullable
  selects, the helpers every form file repeats, the operations on the lines of a document, the
  totals of their previews, and the contract of a form that is submitted, as an interface.
\<close>

section \<open>Helpers of the form files\<close>

text \<open>The select component reserves the empty string, so nullable selects use this value.\<close>

definition NONE :: string where
  "NONE = ''__none__''"

definition emptyToNull :: "string \<Rightarrow> string option" where
  "emptyToNull s = (let t = trim s in if t = [] then None else Some t)"

text \<open>A nullable select back to the wire: \<open>v === NONE ? null : v\<close>, and with \<open>Number(v)\<close> for ids.
  Select values are the decimal strings of ids, which \<open>Number\<close> reads back; a value that is no
  integer would not be an id (\<open>JSON.stringify\<close> writes NaN as null).\<close>

definition code_or_null :: "string \<Rightarrow> string option" where
  "code_or_null v = (if v = NONE then None else Some v)"

definition id_or_null :: "string \<Rightarrow> int option" where
  "id_or_null v = (if v = NONE then None else (case Number v of Whole i \<Rightarrow> Some i | _ \<Rightarrow> None))"

definition id_of :: "string \<Rightarrow> int" where
  "id_of v = (case Number v of Whole i \<Rightarrow> i | _ \<Rightarrow> 0)"

text \<open>The other way: \<open>x !== null ? String(x) : NONE\<close>, \<open>x ?? NONE\<close> and \<open>x ?? ""\<close>.\<close>

definition id_select :: "int option \<Rightarrow> string" where
  "id_select x = (case x of None \<Rightarrow> NONE | Some i \<Rightarrow> show_int i)"

definition code_select :: "string option \<Rightarrow> string" where
  "code_select x = (case x of None \<Rightarrow> NONE | Some c \<Rightarrow> c)"

definition or_empty :: "string option \<Rightarrow> string" where
  "or_empty x = (case x of None \<Rightarrow> [] | Some s \<Rightarrow> s)"

text \<open>A string that is null or empty is falsy.\<close>

definition truthy :: "string option \<Rightarrow> bool" where
  "truthy x \<longleftrightarrow> (case x of None \<Rightarrow> False | Some s \<Rightarrow> s \<noteq> [])"

text \<open>\<open>new Map(orgs.map((o) => [o.id, o.name]))\<close>, where a later entry replaces an earlier one,
  and \<open>orgNames.get(id) ?? `#${ownId}`\<close>.\<close>

definition org_names :: "Organization list \<Rightarrow> int \<Rightarrow> string option" where
  "org_names orgs = map_of (rev (map (\<lambda>o'. (org_id o', org_name o')) orgs))"

definition party_name :: "Organization list \<Rightarrow> int \<Rightarrow> int \<Rightarrow> string" where
  "party_name orgs organization own =
     (case org_names orgs organization of Some n \<Rightarrow> n | None \<Rightarrow> ''#'' @ show_int own)"

text \<open>\<open>err instanceof ApiError ? err.message : String(err)\<close>\<close>

fun save_message :: "exn \<Rightarrow> string" where
  "save_message (Api_Error st m) = m"
| "save_message (Type_Error m) = (if m = [] then ''TypeError'' else ''TypeError: '' @ m)"
| "save_message (Syntax_Error m) = (if m = [] then ''SyntaxError'' else ''SyntaxError: '' @ m)"
| "save_message Shape_Error = ''Error''"

text \<open>\<open>x !== null ? call(x) : null\<close> as an element of \<open>Promise.all\<close>.\<close>

definition optional_io :: "('k \<Rightarrow> ('s, 'a) io) \<Rightarrow> 'k option \<Rightarrow> ('s, 'a option) io" where
  "optional_io call k = (case k of None \<Rightarrow> return_io None | Some x \<Rightarrow> map_io Some (call x))"

lemma emptyToNull_or_empty [simp]: "trim (or_empty x) = or_empty x \<Longrightarrow> x \<noteq> Some [] \<Longrightarrow> emptyToNull (or_empty x) = x"
  by (cases x) (auto simp: emptyToNull_def or_empty_def Let_def)

lemma show_int_not_NONE [simp]: "show_int i \<noteq> NONE" "NONE \<noteq> show_int i"
proof -
  have "\<not> all_digits NONE" "\<not> startsWith NONE ''-''" by code_simp+
  then show "show_int i \<noteq> NONE" "NONE \<noteq> show_int i"
    unfolding show_int_def by (metis all_digits_show_nat append_Cons startsWith_Cons)+
qed

lemma id_select_roundtrip [simp]: "id_or_null (id_select x) = x"
  by (cases x) (simp_all add: id_or_null_def id_select_def)

lemma id_of_show_int [simp]: "id_of (show_int i) = i"
  by (simp add: id_of_def)

lemma code_select_roundtrip [simp]: "x \<noteq> Some NONE \<Longrightarrow> code_or_null (code_select x) = x"
  by (cases x) (simp_all add: code_or_null_def code_select_def)

text \<open>The values a nullable id select takes: the sentinel or the string of an id.\<close>

definition id_value :: "string \<Rightarrow> bool" where
  "id_value v \<longleftrightarrow> v = NONE \<or> (\<exists>i. v = show_int i)"

lemma id_value_simps [simp]: "id_value NONE" "id_value (show_int i)" "id_value (id_select x)"
  by (auto simp: id_value_def id_select_def split: option.split)

lemma id_value_wire: "id_value v \<Longrightarrow> id_select (id_or_null v) = v"
  by (auto simp: id_value_def id_or_null_def id_select_def)

section \<open>Lines of a document\<close>

text \<open>\<open>ls.map((l, i) => (i === index ? { ...l, ...patch } : l))\<close> and
  \<open>ls.filter((_, j) => j !== i)\<close>; a patch is the function that spreads it.\<close>

fun patch_from :: "nat \<Rightarrow> nat \<Rightarrow> ('l \<Rightarrow> 'l) \<Rightarrow> 'l list \<Rightarrow> 'l list" where
  "patch_from i index patch [] = []"
| "patch_from i index patch (l # ls) =
     (if i = index then patch l else l) # patch_from (Suc i) index patch ls"

definition patch_line :: "nat \<Rightarrow> ('l \<Rightarrow> 'l) \<Rightarrow> 'l list \<Rightarrow> 'l list" where
  "patch_line = patch_from 0"

fun remove_from :: "nat \<Rightarrow> nat \<Rightarrow> 'l list \<Rightarrow> 'l list" where
  "remove_from j i [] = []"
| "remove_from j i (l # ls) = (if j \<noteq> i then l # remove_from (Suc j) i ls else remove_from (Suc j) i ls)"

definition remove_line :: "nat \<Rightarrow> 'l list \<Rightarrow> 'l list" where
  "remove_line = remove_from 0"

lemma length_patch_from [simp]: "length (patch_from i k p ls) = length ls"
  by (induction ls arbitrary: i) auto

lemma length_patch_line [simp]: "length (patch_line k p ls) = length ls"
  by (simp add: patch_line_def)

lemma nth_patch_from:
  "j < length ls \<Longrightarrow> patch_from i k p ls ! j = (if i + j = k then p (ls ! j) else ls ! j)"
proof (induction ls arbitrary: i j)
  case (Cons l ls)
  then show ?case by (cases j) auto
qed simp

lemma nth_patch_line:
  "j < length ls \<Longrightarrow> patch_line k p ls ! j = (if j = k then p (ls ! j) else ls ! j)"
  by (simp add: patch_line_def nth_patch_from)

lemma remove_from_split: "remove_from j i ls = (if i < j then ls else take (i - j) ls @ drop (Suc (i - j)) ls)"
proof (induction ls arbitrary: j)
  case (Cons l ls)
  show ?case
  proof (cases "i - j")
    case 0
    with Cons show ?thesis by (cases "i = j") auto
  next
    case (Suc n)
    then have "i - Suc j = n" "j \<noteq> i" "\<not> i < Suc j" by auto
    with Cons Suc show ?thesis by auto
  qed
qed simp

lemma remove_line_split: "remove_line i ls = take i ls @ drop (Suc i) ls"
  by (simp add: remove_line_def remove_from_split)

lemma list_all_patch_line:
  "list_all P ls \<Longrightarrow> (\<And>l. P l \<Longrightarrow> P (p l)) \<Longrightarrow> list_all P (patch_line k p ls)"
  by (auto simp: list_all_length nth_patch_line)

lemma list_all_remove_line: "list_all P ls \<Longrightarrow> list_all P (remove_line i ls)"
  by (auto simp: list_all_iff remove_line_split dest: in_set_takeD in_set_dropD)

lemma remove_line_not_Nil: "1 < length ls \<Longrightarrow> remove_line i ls \<noteq> []"
  by (cases i) (auto simp: remove_line_split)

lemma patch_line_Nil [simp]: "patch_line k p ls = [] \<longleftrightarrow> ls = []"
  by (metis length_0_conv length_patch_line)

section \<open>Totals of the previews\<close>

text \<open>\<open>previews.every((p) => p !== null)\<close> and the three sums; a call that throws is the outer
  \<open>None\<close>, the \<open>null\<close> of an input that is no number the inner one.\<close>

definition line_totals :: "line_money option list \<Rightarrow> line_money option option" where
  "line_totals previews =
     (if list_all (\<lambda>p. p \<noteq> None) previews then
        Option.bind (sumAmounts (map (\<lambda>p. lm_subtotal (the p)) previews)) (\<lambda>subtotal.
        Option.bind (sumAmounts (map (\<lambda>p. lm_tax (the p)) previews)) (\<lambda>tax.
        Option.bind (sumAmounts (map (\<lambda>p. lm_total (the p)) previews)) (\<lambda>total.
        Some (Some \<lparr>lm_subtotal = subtotal, lm_tax = tax, lm_total = total\<rparr>))))
      else Some None)"

definition wf_money :: "line_money \<Rightarrow> bool" where
  "wf_money m \<longleftrightarrow> scale4 (lm_subtotal m) \<and> scale4 (lm_tax m) \<and> scale4 (lm_total m)
     \<and> amount_value (lm_total m) = amount_value (lm_subtotal m) + amount_value (lm_tax m)"

lemma lineAmounts_wf: "lineAmounts q p t = Some (Some m) \<Longrightarrow> wf_money m"
  by (auto simp: lineAmounts_def wf_money_def add_divide_distrib Let_def
      split: if_splits Option.bind_splits)

lemma sum_scale4:
  assumes "list_all scale4 vs"
  shows "\<exists>r. sumAmounts vs = Some r \<and> scale4 r \<and> amount_value r = sum_list (map amount_value vs)"
  using am.sum_defined [OF assms] am.sum_ok [OF assms] am.sum_value [OF assms] by blast

lemma line_totals_exact:
  assumes "list_all (\<lambda>p. p \<noteq> None \<longrightarrow> wf_money (the p)) ps"
  shows "if list_all (\<lambda>p. p \<noteq> None) ps then
      \<exists>t. line_totals ps = Some (Some t) \<and> wf_money t
        \<and> amount_value (lm_subtotal t) = sum_list (map (\<lambda>p. amount_value (lm_subtotal (the p))) ps)
        \<and> amount_value (lm_tax t) = sum_list (map (\<lambda>p. amount_value (lm_tax (the p))) ps)
        \<and> amount_value (lm_total t) = sum_list (map (\<lambda>p. amount_value (lm_total (the p))) ps)
    else line_totals ps = Some None"
proof (cases "list_all (\<lambda>p. p \<noteq> None) ps")
  case True
  with assms have wf: "list_all (\<lambda>p. wf_money (the p)) ps" by (auto simp: list_all_iff)
  then have s: "list_all scale4 (map (\<lambda>p. lm_subtotal (the p)) ps)"
    "list_all scale4 (map (\<lambda>p. lm_tax (the p)) ps)" "list_all scale4 (map (\<lambda>p. lm_total (the p)) ps)"
    by (auto simp: list_all_iff wf_money_def)
  have "sum_list (map (\<lambda>p. amount_value (lm_total (the p))) ps)
      = sum_list (map (\<lambda>p. amount_value (lm_subtotal (the p)) + amount_value (lm_tax (the p))) ps)"
    using wf by (intro arg_cong [where f = sum_list] map_cong) (auto simp: list_all_iff wf_money_def)
  with True show ?thesis
    using sum_scale4 [OF s(1)] sum_scale4 [OF s(2)] sum_scale4 [OF s(3)]
    by (auto simp: line_totals_def wf_money_def sum_list_addf comp_def)
next
  case False
  then show ?thesis by (simp add: line_totals_def)
qed

lemma lineAmounts_not_None: "lineAmounts q p t \<noteq> None"
proof (cases "AMOUNT_RE q \<and> AMOUNT_RE p \<and> AMOUNT_RE t")
  case True
  then show ?thesis by (auto elim: lineAmounts_units [of q p t])
qed (auto simp: lineAmounts_def)

text \<open>The preview of lines, whatever their record: never an exception, and on amounts of the fixed
  scale the sums of what the database stores for the lines.\<close>

definition preview_totals :: "('l \<Rightarrow> line_money option option) \<Rightarrow> 'l list \<Rightarrow> line_money option option" where
  "preview_totals preview ls = (let previews = map preview ls in
     if None \<in> set previews then None else line_totals (map the previews))"

definition stored_total :: "('l \<Rightarrow> rat \<times> rat \<times> rat) \<Rightarrow> 'l list \<Rightarrow> rat \<times> rat" where
  "stored_total v ls =
     (sum_list (map (\<lambda>l. case v l of (q, p, t) \<Rightarrow> db_round (q * p)) ls),
      sum_list (map (\<lambda>l. case v l of (q, p, t) \<Rightarrow> db_round (q * p * t / 100)) ls))"

lemma preview_totals_database:
  assumes "\<And>l. preview l = lineAmounts (q l) (p l) (t l)"
  defines "amt \<equiv> amount_value"
  shows "preview_totals preview ls \<noteq> None"
    and "list_all (\<lambda>l. scale4 (q l) \<and> scale4 (p l) \<and> scale4 (t l)) ls \<Longrightarrow>
      \<exists>m. preview_totals preview ls = Some (Some m)
        \<and> (amt (lm_subtotal m), amt (lm_tax m)) = stored_total (\<lambda>l. (amt (q l), amt (p l), amt (t l))) ls
        \<and> amt (lm_total m) = amt (lm_subtotal m) + amt (lm_tax m)"
proof -
  let ?ps = "map (\<lambda>l. the (preview l)) ls"
  have d: "preview l \<noteq> None" for l by (simp add: assms(1) lineAmounts_not_None)
  then have "None \<notin> set (map preview ls)" by (metis (no_types, lifting) ex_map_conv)
  then have e: "preview_totals preview ls = line_totals ?ps"
    by (simp add: preview_totals_def Let_def comp_def)
  have wf: "list_all (\<lambda>p. p \<noteq> None \<longrightarrow> wf_money (the p)) ?ps"
  proof (unfold list_all_iff, intro ballI impI)
    fix m assume "m \<in> set ?ps" "m \<noteq> None"
    then obtain l where l: "m = the (preview l)" by auto
    with \<open>m \<noteq> None\<close> d [of l] have "preview l = Some (Some (the m))" by auto
    then show "wf_money (the m)" unfolding assms(1) by (rule lineAmounts_wf)
  qed
  note x = line_totals_exact [OF wf]
  show "preview_totals preview ls \<noteq> None" using x unfolding e by (auto split: if_splits)
  assume s: "list_all (\<lambda>l. scale4 (q l) \<and> scale4 (p l) \<and> scale4 (t l)) ls"
  have m: "\<exists>m. preview l = Some (Some m) \<and> amt (lm_subtotal m) = db_round (amt (q l) * amt (p l))
      \<and> amt (lm_tax m) = db_round (amt (q l) * amt (p l) * amt (t l) / 100)" if "l \<in> set ls" for l
    using s that lineAmounts_database [of "q l" "p l" "t l"]
    by (auto simp: list_all_iff assms(1) amt_def)
  then have "list_all (\<lambda>p. p \<noteq> None) ?ps" by (force simp: list_all_iff)
  with x obtain r where r: "line_totals ?ps = Some (Some r)" "wf_money r"
    "amount_value (lm_subtotal r) = sum_list (map (\<lambda>p. amount_value (lm_subtotal (the p))) ?ps)"
    "amount_value (lm_tax r) = sum_list (map (\<lambda>p. amount_value (lm_tax (the p))) ?ps)" by auto
  moreover have "map (\<lambda>p. amount_value (lm_subtotal (the p))) ?ps
      = map (\<lambda>l. db_round (amt (q l) * amt (p l))) ls"
    "map (\<lambda>p. amount_value (lm_tax (the p))) ?ps
      = map (\<lambda>l. db_round (amt (q l) * amt (p l) * amt (t l) / 100)) ls"
    using m by (force simp: amt_def)+
  then have "sum_list (map (\<lambda>p. amount_value (lm_subtotal (the p))) ?ps)
      = sum_list (map (\<lambda>l. db_round (amt (q l) * amt (p l))) ls)"
    "sum_list (map (\<lambda>p. amount_value (lm_tax (the p))) ?ps)
      = sum_list (map (\<lambda>l. db_round (amt (q l) * amt (p l) * amt (t l) / 100)) ls)"
    by (simp_all only:)
  ultimately show "\<exists>m. preview_totals preview ls = Some (Some m)
        \<and> (amt (lm_subtotal m), amt (lm_tax m)) = stored_total (\<lambda>l. (amt (q l), amt (p l), amt (t l))) ls
        \<and> amt (lm_total m) = amt (lm_subtotal m) + amt (lm_tax m)"
    unfolding e by (simp add: amt_def stored_total_def wf_money_def)
qed

text \<open>What a preview reads from an input, with the default of an empty one.\<close>

definition or_default :: "string \<Rightarrow> string \<Rightarrow> string" where
  "or_default d s = (if trim s = [] then d else s)"

text \<open>A nullable text as the server stores it: no blanks around it, null rather than empty.\<close>

definition clean :: "string option \<Rightarrow> bool" where
  "clean x \<longleftrightarrow> x \<noteq> Some [] \<and> trim (or_empty x) = or_empty x"

lemma clean_input [simp]: "clean x \<Longrightarrow> emptyToNull (or_empty x) = x"
  by (simp add: clean_def)

lemma printed_input: "printed s \<Longrightarrow> trim (trimAmount s) = trimAmount s"
  using trimAmount_printed(1) [of s] by (intro amount_trim) (simp add: printed_def)

section \<open>Calls that save\<close>

text \<open>What a submission throws for a reply: nothing when the status is good and the body is one the
  call accepts. Creating reads the new key from the body; an update reads no body at all, its reply
  is 204.\<close>

definition id_content :: "body content \<Rightarrow> bool" where
  "id_content c \<longleftrightarrow> (case c of JSON (Basic (Id_Body i)) \<Rightarrow> True | _ \<Rightarrow> False)"

definition accepted :: "'k option \<Rightarrow> (body content \<Rightarrow> bool) \<Rightarrow> body content \<Rightarrow> bool" where
  "accepted route shape c \<longleftrightarrow> (case route of None \<Rightarrow> shape c | Some k \<Rightarrow> True)"

lemma accepted_simps [simp]: "accepted None shape = shape" "accepted (Some k) shape c"
  by (rule ext) (simp_all add: accepted_def)

fun failed_with :: "('b content \<Rightarrow> bool) \<Rightarrow> 'b reply \<Rightarrow> exn option" where
  "failed_with accepts (Rejected e) = Some (Type_Error e)"
| "failed_with accepts (Response st c) =
     (if \<not> ok st then Some (Api_Error st (reply_message st c))
      else if accepts c then None
      else Some (case c of No_JSON m \<Rightarrow> Syntax_Error m | _ \<Rightarrow> Shape_Error))"

text \<open>A call that makes one request and throws exactly then.\<close>

definition saves :: "(body content \<Rightarrow> bool) \<Rightarrow> ('w, 'a) call \<Rightarrow> payload request \<Rightarrow> bool" where
  "saves accepts m rq \<longleftrightarrow> (\<forall>b. snd (m b) = after_exchange rq b
     \<and> (case failed_with accepts (reply_to rq b) of
          None \<Rightarrow> \<exists>x. fst (m b) = Inr x
        | Some e \<Rightarrow> fst (m b) = Inl e))"

named_theorems saving_calls \<open>calls that save, and their requests\<close>

lemma saves_post:
  fixes cast :: "body \<Rightarrow> 'a option"
  assumes "\<And>c. accepts c \<longleftrightarrow> (\<exists>x. c = JSON x \<and> cast x \<noteq> None)"
  shows "saves accepts (post cast path p :: ('w, 'a) call) (body_request ''POST'' path p)"
  unfolding saves_def post_exchange
proof (intro allI conjI)
  fix b :: "('w, payload, body) browser"
  let ?rq = "body_request ''POST'' path p"
  show "snd (exchange ?rq (json_as cast) b) = after_exchange ?rq b" by (simp add: exchange_state)
  show "case failed_with accepts (reply_to ?rq b) of None \<Rightarrow> \<exists>x. fst (exchange ?rq (json_as cast) b) = Inr x
      | Some e \<Rightarrow> fst (exchange ?rq (json_as cast) b) = Inl e"
    by (cases "reply_to ?rq b")
      (auto simp: exchange_reads read_as_def assms split: content.splits option.splits)
qed

lemma saves_id [saving_calls]:
  "saves id_content (post (basic_as is_Id_Body the_id) path p) (body_request ''POST'' path p)"
  by (rule saves_post) (auto simp: id_content_def basic_as_def split: content.splits body.splits basic_body.splits)

lemma saves_send [saving_calls]:
  assumes "\<And>c. accepts c"
  shows "saves accepts (send verb path p :: ('w, unit) call) (body_request verb path p)"
  unfolding saves_def send_exchange
proof (intro allI conjI)
  fix b :: "('w, payload, body) browser"
  let ?rq = "body_request verb path p"
  show "snd (exchange ?rq (\<lambda>_. return_io ()) b) = after_exchange ?rq b" by (simp add: exchange_state)
  show "case failed_with accepts (reply_to ?rq b) of None \<Rightarrow> \<exists>x. fst (exchange ?rq (\<lambda>_. return_io ()) b) = Inr x
      | Some e \<Rightarrow> fst (exchange ?rq (\<lambda>_. return_io ()) b) = Inl e"
    by (cases "reply_to ?rq b") (auto simp: exchange_ignores assms)
qed

lemma map_io_fst: "fst (map_io f m s) = (case fst (m s) of Inl e \<Rightarrow> Inl e | Inr x \<Rightarrow> Inr (f x))"
  by (simp add: map_io_def then_io_def return_io_def split: prod.split sum.split)

lemma saves_map_io [saving_calls]: "saves accepts m rq \<Longrightarrow> saves accepts (map_io f m) rq"
  unfolding saves_def map_io_state map_io_fst
proof
  fix b
  assume h: "\<forall>b. snd (m b) = after_exchange rq b \<and> (case failed_with accepts (reply_to rq b) of
    None \<Rightarrow> \<exists>x. fst (m b) = Inr x | Some e \<Rightarrow> fst (m b) = Inl e)"
  show "snd (m b) = after_exchange rq b \<and> (case failed_with accepts (reply_to rq b) of
      None \<Rightarrow> \<exists>x. (case fst (m b) of Inl e \<Rightarrow> Inl e | Inr x \<Rightarrow> Inr (f x)) = Inr x
    | Some e \<Rightarrow> (case fst (m b) of Inl e \<Rightarrow> Inl e | Inr x \<Rightarrow> Inr (f x)) = Inl e)"
    using spec [OF h, of b] by (auto split: option.split_asm option.split)
qed

lemma saves_fails:
  assumes "saves accepts m rq" "failed_with accepts (reply_to rq b) = Some e"
  shows "m b = (Inl e, after_exchange rq b)"
  using assms(1) [unfolded saves_def, rule_format, of b] assms(2) by (simp add: prod_eq_iff)

lemma saves_ok:
  assumes "saves accepts m rq" "failed_with accepts (reply_to rq b) = None"
  shows "\<exists>x. m b = (Inr x, after_exchange rq b)"
  using assms(1) [unfolded saves_def, rule_format, of b] assms(2) by (auto simp: prod_eq_iff)

lemma saves_state: "saves accepts m rq \<Longrightarrow> snd (m b) = after_exchange rq b"
  by (simp add: saves_def)

section \<open>Loads\<close>

lemma both_io_result:
  "both_io m n s = (Inr (x, y), s') \<longleftrightarrow> (\<exists>s1. m s = (Inr x, s1) \<and> n s1 = (Inr y, s'))"
  by (auto simp: both_io_def split: prod.splits sum.splits)

lemma both_io_fails: "fst (m s) = Inl e \<Longrightarrow> fst (both_io m n s) = Inl e"
  by (cases "m s") (simp add: both_io_def split: prod.split)

text \<open>A load only reads: it leaves the network alone and sends nothing but GET requests.\<close>

definition reads_only :: "(('w, 'p, 'b) browser, 'a) io \<Rightarrow> bool" where
  "reads_only m \<longleftrightarrow> (\<forall>b. network (snd (m b)) = network b
     \<and> (\<exists>rqs. sent (snd (m b)) = sent b @ rqs \<and> list_all (\<lambda>rq. rq_method rq = ''GET'') rqs))"

named_theorems reading \<open>calls that only read\<close>

lemma reads_only_get [reading]: "reads_only (get cast path)"
  by (simp add: reads_only_def)

lemma reads_only_return [reading]: "reads_only (return_io x)"
  by (simp add: reads_only_def)

lemma reads_only_map [reading]: "reads_only m \<Longrightarrow> reads_only (map_io f m)"
  by (simp add: reads_only_def)

lemma both_io_state [simp]: "snd (both_io m n s) = snd (n (snd (m s)))"
  by (simp add: both_io_def split: prod.split)

lemma reads_onlyE:
  assumes "reads_only m"
  obtains rqs where "network (snd (m b)) = network b" "sent (snd (m b)) = sent b @ rqs"
    "list_all (\<lambda>rq. rq_method rq = ''GET'') rqs"
  using assms unfolding reads_only_def by blast

lemma reads_only_both [reading]:
  assumes "reads_only m" "reads_only n"
  shows "reads_only (both_io m n)"
  unfolding reads_only_def
proof
  fix b
  obtain r1 where "network (snd (m b)) = network b" "sent (snd (m b)) = sent b @ r1"
    "list_all (\<lambda>rq. rq_method rq = ''GET'') r1" using assms(1) by (rule reads_onlyE)
  moreover obtain r2 where "network (snd (n (snd (m b)))) = network (snd (m b))"
    "sent (snd (n (snd (m b)))) = sent (snd (m b)) @ r2"
    "list_all (\<lambda>rq. rq_method rq = ''GET'') r2" using assms(2) by (rule reads_onlyE)
  ultimately show "network (snd (both_io m n b)) = network b
      \<and> (\<exists>rqs. sent (snd (both_io m n b)) = sent b @ rqs \<and> list_all (\<lambda>rq. rq_method rq = ''GET'') rqs)"
    by (intro conjI exI [of _ "r1 @ r2"]) simp_all
qed

lemma reads_only_optional [reading]: "(\<And>x. reads_only (call x)) \<Longrightarrow> reads_only (optional_io call k)"
  by (cases k) (simp_all add: optional_io_def reading)

lemma reads_only_sent:
  assumes "reads_only m" "list_all (\<lambda>rq. rq_method rq = ''GET'') (sent b)"
  shows "list_all (\<lambda>rq. rq_method rq = ''GET'') (sent (snd (m b)))"
  using assms(2) by (rule_tac reads_onlyE [OF assms(1), of b]) simp

lemma reads_only_network: "reads_only m \<Longrightarrow> network (snd (m b)) = network b"
  by (simp add: reads_only_def)

lemma optional_io_result [simp]:
  "optional_io call None s = (Inr x, s') \<longleftrightarrow> x = None \<and> s' = s"
  "optional_io call (Some k) s = (Inr x, s') \<longleftrightarrow> (\<exists>y. x = Some y \<and> call k s = (Inr y, s'))"
  by (auto simp: optional_io_def return_io_def map_io_def then_io_def split: prod.splits sum.splits)

section \<open>The contract of a form\<close>

text \<open>A form is submitted in a state that either has a problem, which is shown and sends nothing,
  or stands for one request; then it leaves for another page, or shows the failure and can be
  submitted again. What the user typed is never lost. The forms below keep these laws.\<close>

locale form_submit =
  fixes submit :: "'f \<Rightarrow> ('w, 'p, 'b) browser \<Rightarrow> 'f \<times> ('w, 'p, 'b) browser"
    and problem :: "'f \<Rightarrow> string option"
    and rq :: "'f \<Rightarrow> 'p request"
    and accepts :: "'b content \<Rightarrow> bool"
    and fields :: "'f \<Rightarrow> 'x"
    and saving :: "'f \<Rightarrow> bool"
    and save_error :: "'f \<Rightarrow> string option"
    and left :: "'f \<Rightarrow> string option"
  assumes refused: "problem f = Some m \<Longrightarrow> snd (submit f b) = b
      \<and> save_error (fst (submit f b)) = Some m \<and> saving (fst (submit f b)) = saving f
      \<and> left (fst (submit f b)) = left f"
    and keeps: "fields (fst (submit f b)) = fields f"
    and sends: "problem f = None \<Longrightarrow> snd (submit f b) = after_exchange (rq f) b"
    and succeeds: "problem f = None \<Longrightarrow> failed_with accepts (reply_to (rq f) b) = None \<Longrightarrow>
      left (fst (submit f b)) \<noteq> None \<and> save_error (fst (submit f b)) = None \<and> saving (fst (submit f b))"
    and fails: "problem f = None \<Longrightarrow> failed_with accepts (reply_to (rq f) b) = Some e \<Longrightarrow>
      left (fst (submit f b)) = left f \<and> save_error (fst (submit f b)) = Some (save_message e)
        \<and> \<not> saving (fst (submit f b))"
begin

lemma at_most_one_request:
  "sent (snd (submit f b)) = sent b \<or> sent (snd (submit f b)) = sent b @ [rq f]"
  using refused [of f _ b] sends [of f b] by (cases "problem f") auto

lemma nothing_sent_iff:
  "sent (snd (submit f b)) = sent b \<longleftrightarrow> problem f \<noteq> None"
  using refused [of f _ b] sends [of f b] by (cases "problem f") auto

text \<open>Every submission ends in sight of the user: on another page or with a message.\<close>

lemma ends: "left (fst (submit f b)) \<noteq> None \<or> save_error (fst (submit f b)) \<noteq> None"
proof (cases "problem f")
  case None
  then show ?thesis
    using succeeds [of f b] fails [of f b] by (cases "failed_with accepts (reply_to (rq f) b)") auto
next
  case (Some m)
  then show ?thesis using refused [of f m b] by simp
qed

end

section \<open>The moves of a form\<close>

text \<open>A form moves when its effect has run (the result may come after a cancellation) and when the
  user does what the screen offers.\<close>

inductive form_move :: "('s, 'd) io \<Rightarrow> (bool \<Rightarrow> exn + 'd \<Rightarrow> 'f \<Rightarrow> 'f) \<Rightarrow> ('f \<Rightarrow> 'e \<Rightarrow> bool)
    \<Rightarrow> ('e \<Rightarrow> 'f \<times> 's \<Rightarrow> 'f \<times> 's) \<Rightarrow> 'f \<times> 's \<Rightarrow> 'f \<times> 's \<Rightarrow> bool"
  for load accept offer step where
  load: "load b = (r, b') \<Longrightarrow> form_move load accept offer step (f, b) (accept cancelled r f, b')"
| user: "offer f e \<Longrightarrow> form_move load accept offer step (f, b) (step e (f, b))"

inductive_cases form_moveE: "form_move load accept offer step (f, b) s"

text \<open>The start of a form on a network, before it sent anything.\<close>

definition fresh_on :: "('p request \<Rightarrow> 'w \<Rightarrow> 'b reply \<times> 'w) \<Rightarrow> ('f \<Rightarrow> bool)
    \<Rightarrow> 'f \<times> ('w, 'p, 'b) browser \<Rightarrow> bool" where
  "fresh_on net initial s \<longleftrightarrow> initial (fst s) \<and> network (snd s) = net \<and> sent (snd s) = []"

text \<open>A network on which every load that succeeds gives data with a property.\<close>

definition always_loads :: "('p request \<Rightarrow> 'w \<Rightarrow> 'b reply \<times> 'w) \<Rightarrow> (('w, 'p, 'b) browser, 'd) io
    \<Rightarrow> ('d \<Rightarrow> bool) \<Rightarrow> bool" where
  "always_loads net load P \<longleftrightarrow> (\<forall>b data b'. network b = net \<longrightarrow> load b = (Inr data, b') \<longrightarrow> P data)"

lemma always_loadsD:
  "always_loads net load P \<Longrightarrow> network b = net \<Longrightarrow> load b = (Inr data, b') \<Longrightarrow> P data"
  by (simp add: always_loads_def)

text \<open>The contract of a form that edits an existing document: until it has accepted data it
  offers nothing, and locked data does not make it ready. So such a form only ever reads.\<close>

locale edit_form =
  fixes load :: "(('w, 'p, 'b) browser, 'd) io"
    and accept :: "bool \<Rightarrow> exn + 'd \<Rightarrow> 'f \<Rightarrow> 'f"
    and offer :: "'f \<Rightarrow> 'e \<Rightarrow> bool"
    and step :: "'e \<Rightarrow> 'f \<times> ('w, 'p, 'b) browser \<Rightarrow> 'f \<times> ('w, 'p, 'b) browser"
    and initial :: "'f \<Rightarrow> bool"
    and ready :: "'f \<Rightarrow> bool"
    and locked :: "'d \<Rightarrow> bool"
  assumes load_reads: "reads_only load"
    and locked_waits: "\<not> ready f \<Longrightarrow> (\<And>data. r = Inr data \<Longrightarrow> locked data) \<Longrightarrow> \<not> ready (accept c r f)"
    and waiting: "\<not> ready f \<Longrightarrow> \<not> offer f e"
    and initial_waits: "initial f \<Longrightarrow> \<not> ready f"
begin

lemma waiting_move:
  assumes "always_loads net load locked" "form_move load accept offer step (f, b) (f', b')"
    and "\<not> ready f" "network b = net" "list_all (\<lambda>rq. rq_method rq = ''GET'') (sent b)"
  shows "\<not> ready f' \<and> network b' = net \<and> list_all (\<lambda>rq. rq_method rq = ''GET'') (sent b')"
proof -
  from assms(2) consider (loaded) r c where "load b = (r, b')" "f' = accept c r f"
    | (acted) e where "offer f e" by (auto elim: form_moveE)
  then show ?thesis
  proof cases
  case (loaded r c)
  then have b': "snd (load b) = b'" by simp
  have "locked data" if "r = Inr data" for data
    using always_loadsD [OF assms(1,4)] loaded that by simp
  then have "\<not> ready f'" using loaded assms(3) locked_waits by simp
  moreover have "network b' = net" "list_all (\<lambda>rq. rq_method rq = ''GET'') (sent b')"
    using reads_only_network [OF load_reads, of b] reads_only_sent [OF load_reads assms(5)] assms(4)
    by (simp_all add: b')
  ultimately show ?thesis by simp
next
  case (acted e)
  then show ?thesis using waiting assms(3) by simp
  qed
qed

lemma only_reads:
  assumes "always_loads net load locked"
    and "reachable (fresh_on net initial) (form_move load accept offer step) s"
  shows "\<not> ready (fst s) \<and> network (snd s) = net
    \<and> list_all (\<lambda>rq. rq_method rq = ''GET'') (sent (snd s))"
  using assms(2)
proof (induction rule: reachable.induct)
  case (starting s)
  then show ?case by (simp add: fresh_on_def initial_waits)
next
  case (moving s s')
  then show ?case
    using waiting_move [OF assms(1), of "fst s" "snd s" "fst s'" "snd s'"] by simp
qed

lemma untouched:
  assumes "always_loads net load locked"
    and "reachable (fresh_on net initial) (form_move load accept offer step) (f, b)"
  shows "list_all (\<lambda>rq. rq_method rq = ''GET'') (sent b) \<and> \<not> offer f e"
  using only_reads [OF assms] waiting by simp

end

end
