(* ===== verification/Invoice_Form.thy ===== *)
theory Invoice_Form
  imports Forms
begin

text \<open>
  The sales-invoice form (\<open>web/src/components/invoice-form.tsx\<close>): the state of the component as a
  record, its load in create and edit mode, the handlers of its fields and lines, the preview of
  the totals and the submission.
\<close>

section \<open>State\<close>

record LineState =
  il_productId :: string
  il_description :: string
  il_quantity :: string
  il_unitPrice :: string
  il_taxCode :: string
  il_taxRate :: string
  il_revenueAccountId :: string

definition blankLine :: LineState where
  "blankLine = \<lparr>il_productId = NONE, il_description = [], il_quantity = ''1'', il_unitPrice = [],
     il_taxCode = NONE, il_taxRate = ''0'', il_revenueAccountId = NONE\<rparr>"

record CustomerOption =
  co_id :: int
  co_name :: string
  co_currency :: "string option"

record InvoiceForm =
  iv_customers :: "CustomerOption list"
  iv_products :: "Product list"
  iv_taxCodes :: "TaxCode list"
  iv_accounts :: "Account list"
  iv_error :: "string option"
  iv_loaded :: bool
  iv_customerId :: string
  iv_invoiceNumber :: string
  iv_invoiceDate :: string
  iv_dueDate :: string
  iv_currencyCode :: string
  iv_reference :: string
  iv_memo :: string
  iv_lines :: "LineState list"
  iv_saving :: bool
  iv_saveError :: "string option"
  iv_navigated :: "string option"

text \<open>The initial state, with the date part of the clock's UTC time.\<close>

definition invoice_init :: "string \<Rightarrow> InvoiceForm" where
  "invoice_init utc_date = \<lparr>iv_customers = [], iv_products = [], iv_taxCodes = [], iv_accounts = [],
     iv_error = None, iv_loaded = False, iv_customerId = [], iv_invoiceNumber = [],
     iv_invoiceDate = utc_date, iv_dueDate = [], iv_currencyCode = [], iv_reference = [],
     iv_memo = [], iv_lines = [blankLine], iv_saving = False, iv_saveError = None,
     iv_navigated = None\<rparr>"

section \<open>Loading\<close>

type_synonym invoice_data =
  "Customer list \<times> Organization list \<times> Product list \<times> TaxCode list \<times> Account list
     \<times> DocumentBalance option \<times> SalesInvoiceLine list option"

definition load_invoice_form :: "int option \<Rightarrow> ('w, invoice_data) call" where
  "load_invoice_form invoiceId =
     both_io listCustomers (both_io listOrganizations (both_io listProducts (both_io listTaxCodes
       (both_io listAccounts (both_io (optional_io getSalesInvoice invoiceId)
         (optional_io getSalesInvoiceLines invoiceId))))))"

definition line_state_of :: "SalesInvoiceLine \<Rightarrow> LineState" where
  "line_state_of l = \<lparr>il_productId = id_select (sil_product_id l), il_description = sil_description l,
     il_quantity = trimAmount (sil_quantity l), il_unitPrice = trimAmount (sil_unit_price l),
     il_taxCode = code_select (sil_tax_code l), il_taxRate = trimAmount (sil_tax_rate l),
     il_revenueAccountId = id_select (sil_revenue_account_id l)\<rparr>"

definition invoice_loaded :: "bool \<Rightarrow> exn + invoice_data \<Rightarrow> InvoiceForm \<Rightarrow> InvoiceForm" where
  "invoice_loaded cancelled result f =
     (case result of
       Inl err \<Rightarrow> if cancelled then f else f\<lparr>iv_error := Some (error_message err)\<rparr>
     | Inr (custs, orgs, prods, taxes, accts, doc, docLines) \<Rightarrow>
         if cancelled then f
         else
           let f = f\<lparr>
                 iv_customers := map (\<lambda>c. \<lparr>co_id = cust_id c,
                     co_name = party_name orgs (cust_organization_id c) (cust_id c),
                     co_currency = cust_currency_code c\<rparr>) (filter cust_is_active custs),
                 iv_products := filter prod_is_active prods, iv_taxCodes := taxes,
                 iv_accounts := accts\<rparr>
           in (case (doc, docLines) of
                (Some d, Some ls) \<Rightarrow>
                  if db_status d \<noteq> ''draft''
                  then f\<lparr>iv_error := Some ''Only draft invoices can be edited.''\<rparr>
                  else if list_ex (\<lambda>l. sil_order_line_id l \<noteq> None) ls
                  then f\<lparr>iv_error := Some (''This invoice was created from a sales order and cannot ''
                      @ ''be edited. Delete it and invoice the order again instead.'')\<rparr>
                  else f\<lparr>iv_customerId := show_int (db_party_id d), iv_invoiceNumber := db_number d,
                      iv_invoiceDate := db_date d, iv_dueDate := or_empty (db_due_date d),
                      iv_currencyCode := db_currency_code d,
                      iv_reference := or_empty (db_reference d), iv_memo := or_empty (db_memo d),
                      iv_lines := map line_state_of ls, iv_loaded := True\<rparr>
              | _ \<Rightarrow> f\<lparr>iv_loaded := True\<rparr>))"

section \<open>Editing\<close>

definition setLine :: "nat \<Rightarrow> (LineState \<Rightarrow> LineState) \<Rightarrow> InvoiceForm \<Rightarrow> InvoiceForm" where
  "setLine index patch f = f\<lparr>iv_lines := patch_line index patch (iv_lines f)\<rparr>"

definition chooseProduct :: "nat \<Rightarrow> string \<Rightarrow> InvoiceForm \<Rightarrow> InvoiceForm" where
  "chooseProduct index value f =
     (case find (\<lambda>p. show_int (prod_id p) = value) (iv_products f) of
       None \<Rightarrow> setLine index (\<lambda>l. l\<lparr>il_productId := NONE\<rparr>) f
     | Some product \<Rightarrow>
         let rate = (if truthy (prod_tax_code product) then
               (case find (\<lambda>t. Some (tc_code t) = prod_tax_code product) (iv_taxCodes f) of
                  Some t \<Rightarrow> tc_rate t | None \<Rightarrow> ''0'')
             else ''0'')
         in setLine index (\<lambda>l. l\<lparr>il_productId := value, il_description := prod_name product,
              il_unitPrice := prod_unit_price product,
              il_revenueAccountId := id_select (prod_revenue_account_id product),
              il_taxCode := code_select (prod_tax_code product), il_taxRate := rate\<rparr>) f)"

definition chooseTaxCode :: "nat \<Rightarrow> string \<Rightarrow> InvoiceForm \<Rightarrow> InvoiceForm" where
  "chooseTaxCode index value f =
     (let rate = (if value = NONE then ''0'' else
           (case find (\<lambda>t. tc_code t = value) (iv_taxCodes f) of Some t \<Rightarrow> tc_rate t | None \<Rightarrow> ''0''))
      in setLine index (\<lambda>l. l\<lparr>il_taxCode := value, il_taxRate := rate\<rparr>) f)"

definition chooseCustomer :: "string \<Rightarrow> InvoiceForm \<Rightarrow> InvoiceForm" where
  "chooseCustomer value f =
     (let f = f\<lparr>iv_customerId := value\<rparr> in
      case find (\<lambda>c. show_int (co_id c) = value) (iv_customers f) of
        None \<Rightarrow> f
      | Some c \<Rightarrow> if truthy (co_currency c) \<and> trim (iv_currencyCode f) = []
          then f\<lparr>iv_currencyCode := or_empty (co_currency c)\<rparr> else f)"

section \<open>Preview\<close>

definition previewLine :: "LineState \<Rightarrow> line_money option option" where
  "previewLine l = lineAmounts (if trim (il_quantity l) = [] then ''1'' else il_quantity l)
     (if trim (il_unitPrice l) = [] then ''0'' else il_unitPrice l)
     (if trim (il_taxRate l) = [] then ''0'' else il_taxRate l)"

text \<open>Rendering maps the lines to their previews first; an exception there would be one here.\<close>

definition invoice_totals :: "InvoiceForm \<Rightarrow> line_money option option" where
  "invoice_totals f = (let previews = map previewLine (iv_lines f) in
     if None \<in> set previews then None else line_totals (map the previews))"

section \<open>Submission\<close>

definition invoice_line_input :: "LineState \<Rightarrow> SalesInvoiceLineInput" where
  "invoice_line_input l = \<lparr>sili_product_id = id_or_null (il_productId l),
     sili_description = trim (il_description l), sili_quantity = trim (il_quantity l),
     sili_unit_price = trim (il_unitPrice l),
     sili_revenue_account_id = id_or_null (il_revenueAccountId l),
     sili_tax_code = code_or_null (il_taxCode l), sili_tax_rate = trim (il_taxRate l)\<rparr>"

definition invoice_input :: "InvoiceForm \<Rightarrow> SalesInvoiceInput" where
  "invoice_input f = \<lparr>sii_invoice_number = trim (iv_invoiceNumber f),
     sii_customer_id = id_of (iv_customerId f), sii_invoice_date = iv_invoiceDate f,
     sii_due_date = emptyToNull (iv_dueDate f),
     sii_currency_code = toUpperCase (trim (iv_currencyCode f)),
     sii_reference = emptyToNull (iv_reference f), sii_memo = emptyToNull (iv_memo f),
     sii_lines = map invoice_line_input (iv_lines f)\<rparr>"

definition save_invoice :: "int option \<Rightarrow> SalesInvoiceInput \<Rightarrow> ('w, int) call" where
  "save_invoice invoiceId input =
     (case invoiceId of
       Some i \<Rightarrow> map_io (\<lambda>_. i) (updateSalesInvoice i input)
     | None \<Rightarrow> createSalesInvoice input)"

definition handleSubmit :: "int option \<Rightarrow> InvoiceForm \<Rightarrow> ('w, payload, body) browser
    \<Rightarrow> InvoiceForm \<times> ('w, payload, body) browser" where
  "handleSubmit invoiceId f b =
     (if iv_customerId f = [] then (f\<lparr>iv_saveError := Some ''Please choose a customer.''\<rparr>, b)
      else
        let input = invoice_input f; f = f\<lparr>iv_saving := True, iv_saveError := None\<rparr> in
        case save_invoice invoiceId input b of
          (Inr docId, b) \<Rightarrow> (f\<lparr>iv_navigated := Some (''/invoices/'' @ show_int docId)\<rparr>, b)
        | (Inl err, b) \<Rightarrow> (f\<lparr>iv_saving := False, iv_saveError := Some (save_message err)\<rparr>, b))"

section \<open>The screen\<close>

datatype invoice_event =
    Choose_Customer string | Set_Number string | Set_Date string | Set_Due_Date string
  | Set_Currency string | Set_Reference string | Set_Memo string
  | Choose_Product nat string | Set_Description nat string | Set_Quantity nat string
  | Set_Unit_Price nat string | Choose_Tax_Code nat string | Set_Tax_Rate nat string
  | Set_Revenue_Account nat string | Remove_Line nat | Add_Line | Submit

definition header_view :: "InvoiceForm \<Rightarrow> invoice_event element list" where
  "header_view f =
     [Select ''customer'' ''Customer'' (iv_customerId f)
        (map (\<lambda>c. (show_int (co_id c), co_name c)) (iv_customers f)) Choose_Customer,
      Field ''invoice_number'' ''Invoice #'' True (iv_invoiceNumber f) Set_Number,
      Field ''invoice_date'' ''Invoice Date'' True (iv_invoiceDate f) Set_Date,
      Field ''due_date'' ''Due Date'' False (iv_dueDate f) Set_Due_Date,
      Field ''currency'' ''Currency'' True (iv_currencyCode f) Set_Currency,
      Field ''reference'' ''Reference'' False (iv_reference f) Set_Reference,
      Field ''memo'' ''Memo'' False (iv_memo f) Set_Memo]"

definition line_view :: "InvoiceForm \<Rightarrow> nat \<Rightarrow> LineState \<Rightarrow> invoice_event element list" where
  "line_view f i line =
     (let ident = (\<lambda>s. ''line_'' @ show_nat i @ s) in
      [Select (ident ''_product'') ''Product'' (il_productId line)
         ((NONE, ''Free-form'') # map (\<lambda>p. (show_int (prod_id p),
             prod_sku p @ '' '' @ em_dash @ '' '' @ prod_name p)) (iv_products f)) (Choose_Product i),
       Field (ident ''_description'') ''Description'' True (il_description line) (Set_Description i),
       Field (ident ''_quantity'') ''Qty'' False (il_quantity line) (Set_Quantity i),
       Field (ident ''_unit_price'') ''Unit Price'' False (il_unitPrice line) (Set_Unit_Price i),
       Select (ident ''_tax_code'') ''Tax Code'' (il_taxCode line)
         ((NONE, ''None'') # map (\<lambda>t. (tc_code t,
             tc_code t @ '' '' @ em_dash @ '' '' @ tc_name t)) (iv_taxCodes f)) (Choose_Tax_Code i),
       Field (ident ''_tax_rate'') ''Tax Rate %'' False (il_taxRate line) (Set_Tax_Rate i),
       Select (ident ''_revenue_account'') ''Revenue Account'' (il_revenueAccountId line)
         ((NONE, (''Product'' @ [CHR 0x27, CHR ''s''])) # map (\<lambda>a. (show_int (acc_id a),
             acc_code a @ '' '' @ em_dash @ '' '' @ acc_name a)) (iv_accounts f))
         (Set_Revenue_Account i),
       Datum ''Line total: '' (case previewLine line of
           Some (Some m) \<Rightarrow> formatAmount (lm_total m) | _ \<Rightarrow> em_dash)]
      @ guarded (1 < length (iv_lines f)) [Button ''Remove'' False (Remove_Line i)])"

definition totals_view :: "InvoiceForm \<Rightarrow> invoice_event element list" where
  "totals_view f =
     (let shown = (\<lambda>sel. case invoice_totals f of
          Some (Some m) \<Rightarrow> formatAmount (sel m) | _ \<Rightarrow> em_dash) in
      [Datum ''Subtotal'' (shown lm_subtotal), Datum ''Tax'' (shown lm_tax),
       Datum ''Total'' (shown lm_total)])"

definition actions_view :: "int option \<Rightarrow> InvoiceForm \<Rightarrow> invoice_event element list" where
  "actions_view invoiceId f =
     (case iv_saveError f of None \<Rightarrow> [] | Some e \<Rightarrow> [Alert (''Failed to save: '' @ e)])
     @ [Button (if iv_saving f then ''Saving...''
          else if invoiceId \<noteq> None then ''Save changes'' else ''Create draft'') (iv_saving f) Submit,
        Link ''Cancel'' (case invoiceId of
          Some i \<Rightarrow> ''/invoices/'' @ show_int i | None \<Rightarrow> ''/invoices'')]"

definition invoice_view :: "int option \<Rightarrow> InvoiceForm \<Rightarrow> invoice_event element list" where
  "invoice_view invoiceId f =
     [Heading (if invoiceId \<noteq> None then ''Edit Invoice'' else ''New Invoice''),
      Note (if invoiceId \<noteq> None then ''Rewrites the draft -- it stays unposted.''
        else ''Creates a draft -- post it to the ledger from the invoice page.'')]
     @ (case iv_error f of None \<Rightarrow> [] | Some e \<Rightarrow> [Alert e, Link ''Back to invoices'' ''/invoices''])
     @ guarded (iv_error f = None \<and> \<not> iv_loaded f) [Note ''Loading...'']
     @ guarded (iv_error f = None \<and> iv_loaded f)
         (header_view f
          @ concat (map (\<lambda>(i, line). line_view f i line) (enumerate 0 (iv_lines f)))
          @ [Button ''Add line'' False Add_Line] @ totals_view f @ actions_view invoiceId f)"

fun invoice_step :: "int option \<Rightarrow> invoice_event \<Rightarrow> InvoiceForm \<times> ('w, payload, body) browser
    \<Rightarrow> InvoiceForm \<times> ('w, payload, body) browser" where
  "invoice_step k (Choose_Customer v) (f, b) = (chooseCustomer v f, b)"
| "invoice_step k (Set_Number v) (f, b) = (f\<lparr>iv_invoiceNumber := v\<rparr>, b)"
| "invoice_step k (Set_Date v) (f, b) = (f\<lparr>iv_invoiceDate := v\<rparr>, b)"
| "invoice_step k (Set_Due_Date v) (f, b) = (f\<lparr>iv_dueDate := v\<rparr>, b)"
| "invoice_step k (Set_Currency v) (f, b) = (f\<lparr>iv_currencyCode := v\<rparr>, b)"
| "invoice_step k (Set_Reference v) (f, b) = (f\<lparr>iv_reference := v\<rparr>, b)"
| "invoice_step k (Set_Memo v) (f, b) = (f\<lparr>iv_memo := v\<rparr>, b)"
| "invoice_step k (Choose_Product i v) (f, b) = (chooseProduct i v f, b)"
| "invoice_step k (Set_Description i v) (f, b) = (setLine i (\<lambda>l. l\<lparr>il_description := v\<rparr>) f, b)"
| "invoice_step k (Set_Quantity i v) (f, b) = (setLine i (\<lambda>l. l\<lparr>il_quantity := v\<rparr>) f, b)"
| "invoice_step k (Set_Unit_Price i v) (f, b) = (setLine i (\<lambda>l. l\<lparr>il_unitPrice := v\<rparr>) f, b)"
| "invoice_step k (Choose_Tax_Code i v) (f, b) = (chooseTaxCode i v f, b)"
| "invoice_step k (Set_Tax_Rate i v) (f, b) = (setLine i (\<lambda>l. l\<lparr>il_taxRate := v\<rparr>) f, b)"
| "invoice_step k (Set_Revenue_Account i v) (f, b) =
     (setLine i (\<lambda>l. l\<lparr>il_revenueAccountId := v\<rparr>) f, b)"
| "invoice_step k (Remove_Line i) (f, b) = (f\<lparr>iv_lines := remove_line i (iv_lines f)\<rparr>, b)"
| "invoice_step k Add_Line (f, b) = (f\<lparr>iv_lines := iv_lines f @ [blankLine]\<rparr>, b)"
| "invoice_step k Submit (f, b) = handleSubmit k f b"

definition invoice_move :: "int option \<Rightarrow> InvoiceForm \<times> ('w, payload, body) browser
    \<Rightarrow> InvoiceForm \<times> ('w, payload, body) browser \<Rightarrow> bool" where
  "invoice_move k = form_move (load_invoice_form k) invoice_loaded
     (\<lambda>f. offers (invoice_view k f)) (invoice_step k)"

section \<open>Submission keeps the contract of a form\<close>

definition invoice_problem :: "InvoiceForm \<Rightarrow> string option" where
  "invoice_problem f = (if iv_customerId f = [] then Some ''Please choose a customer.'' else None)"

definition invoice_fields :: "InvoiceForm \<Rightarrow> InvoiceForm" where
  "invoice_fields f = f\<lparr>iv_saving := False, iv_saveError := None, iv_navigated := None\<rparr>"

definition invoice_request :: "int option \<Rightarrow> SalesInvoiceInput \<Rightarrow> payload request" where
  "invoice_request k i = (let p = Document_Payload (SalesInvoiceInput_Payload i) in
     case k of Some n \<Rightarrow> body_request ''PUT'' (''/sales-invoices/'' @ show_int n) p
     | None \<Rightarrow> body_request ''POST'' ''/sales-invoices'' p)"

lemma save_invoice_saves: "saves (accepted k id_content) (save_invoice k i) (invoice_request k i)"
  by (cases k) (simp_all add: save_invoice_def invoice_request_def Let_def updateSalesInvoice_def
      createSalesInvoice_def saving_calls)

interpretation invoice_form: form_submit "handleSubmit k" invoice_problem
    "\<lambda>f. invoice_request k (invoice_input f)" "accepted k id_content" invoice_fields iv_saving iv_saveError
    iv_navigated for k
proof unfold_locales
  fix f m b e
  note s = save_invoice_saves [of k "invoice_input f"]
  show "invoice_problem f = Some m \<Longrightarrow> snd (handleSubmit k f b) = b
      \<and> iv_saveError (fst (handleSubmit k f b)) = Some m
      \<and> iv_saving (fst (handleSubmit k f b)) = iv_saving f
      \<and> iv_navigated (fst (handleSubmit k f b)) = iv_navigated f"
    by (auto simp: handleSubmit_def invoice_problem_def split: if_splits)
  show "invoice_fields (fst (handleSubmit k f b)) = invoice_fields f"
    by (simp add: handleSubmit_def invoice_fields_def Let_def split: prod.split sum.split)
  show "invoice_problem f = None \<Longrightarrow>
      snd (handleSubmit k f b) = after_exchange (invoice_request k (invoice_input f)) b"
    using saves_state [OF s, of b]
    by (auto simp: handleSubmit_def invoice_problem_def Let_def split: if_splits prod.splits sum.splits)
  show "invoice_problem f = None \<Longrightarrow> failed_with (accepted k id_content) (reply_to (invoice_request k (invoice_input f)) b) = None \<Longrightarrow> iv_navigated (fst (handleSubmit k f b)) \<noteq> None
        \<and> iv_saveError (fst (handleSubmit k f b)) = None \<and> iv_saving (fst (handleSubmit k f b))"
    using saves_ok [OF s, of b]
    by (auto simp: handleSubmit_def invoice_problem_def Let_def split: if_splits)
  show "invoice_problem f = None \<Longrightarrow>
      failed_with (accepted k id_content) (reply_to (invoice_request k (invoice_input f)) b) = Some e \<Longrightarrow>
      iv_navigated (fst (handleSubmit k f b)) = iv_navigated f
        \<and> iv_saveError (fst (handleSubmit k f b)) = Some (save_message e)
        \<and> \<not> iv_saving (fst (handleSubmit k f b))"
    using saves_fails [OF s, of b e]
    by (auto simp: handleSubmit_def invoice_problem_def Let_def split: if_splits)
qed

section \<open>What every reachable form keeps\<close>

definition line_ok :: "LineState \<Rightarrow> bool" where
  "line_ok l \<longleftrightarrow> id_value (il_productId l) \<and> id_value (il_revenueAccountId l)"

definition invoice_inv :: "int option \<Rightarrow> InvoiceForm \<Rightarrow> bool" where
  "invoice_inv k f \<longleftrightarrow> (k = None \<longrightarrow> iv_lines f \<noteq> [])
     \<and> (iv_customerId f = [] \<or> (\<exists>i. iv_customerId f = show_int i)) \<and> list_all line_ok (iv_lines f)"

lemma line_ok_simps [simp]:
  "line_ok blankLine" "line_ok (line_state_of sl)"
  "line_ok (l\<lparr>il_description := v\<rparr>) = line_ok l" "line_ok (l\<lparr>il_quantity := v\<rparr>) = line_ok l"
  "line_ok (l\<lparr>il_unitPrice := v\<rparr>) = line_ok l" "line_ok (l\<lparr>il_taxRate := v\<rparr>) = line_ok l"
  "line_ok (l\<lparr>il_taxCode := v\<rparr>) = line_ok l"
  by (simp_all add: line_ok_def blankLine_def line_state_of_def)

lemma setLine_inv:
  "invoice_inv k f \<Longrightarrow> (\<And>l. line_ok l \<Longrightarrow> line_ok (p l)) \<Longrightarrow> invoice_inv k (setLine i p f)"
  by (auto simp: invoice_inv_def setLine_def list_all_patch_line)

lemma chooseProduct_inv: "invoice_inv k f \<Longrightarrow> invoice_inv k (chooseProduct i v f)"
  by (auto simp: chooseProduct_def Let_def line_ok_def id_value_def id_select_def find_Some_iff
      intro!: setLine_inv split: option.split)

lemma chooseCustomer_inv:
  "invoice_inv k f \<Longrightarrow> v = [] \<or> (\<exists>i. v = show_int i) \<Longrightarrow> invoice_inv k (chooseCustomer v f)"
  by (auto simp: invoice_inv_def chooseCustomer_def Let_def split: option.split)

lemma handleSubmit_frame:
  "iv_lines (fst (handleSubmit k f b)) = iv_lines f"
  "iv_customerId (fst (handleSubmit k f b)) = iv_customerId f"
  by (simp_all add: handleSubmit_def Let_def split: prod.split sum.split)

lemma invoice_step_inv:
  assumes "invoice_inv k f" "offers (invoice_view k f) e"
  shows "invoice_inv k (fst (invoice_step k e (f, b)))"
proof -
  have i: "v = [] \<or> (\<exists>i. v = show_int i)" if "e = Choose_Customer v" for v
    using assms(2) that
    by (auto simp: invoice_view_def header_view_def line_view_def totals_view_def actions_view_def
        offers_concat Let_def split: option.splits)
  have a: "id_value v" if "e = Set_Revenue_Account n v" for n v
    using assms(2) that
    by (auto simp: invoice_view_def header_view_def line_view_def totals_view_def actions_view_def
        offers_concat Let_def split: option.splits)
  have r: "1 < length (iv_lines f)" if "e = Remove_Line n" for n
    using assms(2) that
    by (auto simp: invoice_view_def header_view_def line_view_def totals_view_def actions_view_def
        offers_concat Let_def split: option.splits)
  show ?thesis
  proof (cases e)
    case (Choose_Customer v)
    with assms(1) i show ?thesis by (simp add: chooseCustomer_inv)
  next
    case (Choose_Product n v)
    with assms(1) show ?thesis by (simp add: chooseProduct_inv)
  next
    case (Remove_Line n)
    with assms(1) r show ?thesis
      by (auto simp: invoice_inv_def list_all_remove_line remove_line_not_Nil)
  next
    case (Set_Revenue_Account n v)
    with assms(1) a show ?thesis by (auto simp: line_ok_def intro: setLine_inv)
  next
    case Submit
    with assms(1) show ?thesis by (simp add: invoice_inv_def handleSubmit_frame)
  qed (use assms(1) in \<open>auto simp: invoice_inv_def chooseTaxCode_def Let_def setLine_def
      intro!: list_all_patch_line\<close>)
qed

lemma invoice_loaded_inv:
  assumes "invoice_inv k f" "load_invoice_form k b = (r, b')"
  shows "invoice_inv k (invoice_loaded c r f)"
  using assms
  by (auto simp: invoice_loaded_def load_invoice_form_def both_io_result invoice_inv_def Let_def
      list_all_iff split: sum.splits prod.splits option.splits)

definition initial_invoice :: "InvoiceForm \<Rightarrow> bool" where
  "initial_invoice f \<longleftrightarrow> (\<exists>date. f = invoice_init date)"

definition invoice_start :: "InvoiceForm \<times> ('w, payload, body) browser \<Rightarrow> bool" where
  "invoice_start s \<longleftrightarrow> initial_invoice (fst s)"

interpretation invoice_states: invariant invoice_start "invoice_move k" "\<lambda>s. invoice_inv k (fst s)" for k
proof unfold_locales
  fix s s'
  show "invoice_start s \<Longrightarrow> invoice_inv k (fst s)"
    by (auto simp: invoice_start_def initial_invoice_def invoice_init_def invoice_inv_def)
  show "invoice_inv k (fst s) \<Longrightarrow> invoice_move k s s' \<Longrightarrow> invoice_inv k (fst s')"
    by (cases s) (auto simp: invoice_move_def elim!: form_moveE intro: invoice_loaded_inv invoice_step_inv)
qed

section \<open>Properties\<close>

definition line_values :: "LineState \<Rightarrow> rat \<times> rat \<times> rat" where
  "line_values l = (amount_value (or_default ''1'' (il_quantity l)),
     amount_value (or_default ''0'' (il_unitPrice l)), amount_value (or_default ''0'' (il_taxRate l)))"

definition line_scale4 :: "LineState \<Rightarrow> bool" where
  "line_scale4 l \<longleftrightarrow> scale4 (or_default ''1'' (il_quantity l))
     \<and> scale4 (or_default ''0'' (il_unitPrice l)) \<and> scale4 (or_default ''0'' (il_taxRate l))"

lemma invoice_totals_preview: "invoice_totals f = preview_totals previewLine (iv_lines f)"
  by (simp add: invoice_totals_def preview_totals_def)

lemma previewLine_default: "previewLine l = lineAmounts (or_default ''1'' (il_quantity l))
    (or_default ''0'' (il_unitPrice l)) (or_default ''0'' (il_taxRate l))"
  by (simp add: previewLine_def or_default_def)

text \<open>C9. The totals the form shows are the ones the database will compute: whatever the lines
  hold rendering them throws nothing, and when every input is an amount of at most four decimals
  (or empty), subtotal and tax are the sums over the lines of quantity times price and of its tax,
  each rounded half away from zero to four decimals, and the total is their sum.\<close>

theorem invoice_totals_exact:
  assumes "list_all line_scale4 (iv_lines f)"
  shows "\<exists>m. invoice_totals f = Some (Some m)
    \<and> (amount_value (lm_subtotal m), amount_value (lm_tax m)) = stored_total line_values (iv_lines f)
    \<and> amount_value (lm_total m) = amount_value (lm_subtotal m) + amount_value (lm_tax m)
    \<and> invoice_totals g \<noteq> None"
  using preview_totals_database(2) [OF previewLine_default, where ls = "iv_lines f"] assms
    preview_totals_database(1) [OF previewLine_default, where ls = "iv_lines g"]
  unfolding invoice_totals_preview line_values_def line_scale4_def by simp

definition sample_form :: InvoiceForm where
  "sample_form = (invoice_init ''2024-02-10'')\<lparr>iv_customerId := ''3'', iv_invoiceNumber := ''INV-8'',
     iv_currencyCode := ''usd'', iv_loaded := True,
     iv_lines := [blankLine\<lparr>il_description := ''Ruler'', il_quantity := ''3'', il_unitPrice := ''9.99'',
       il_taxRate := ''8.25''\<rparr>, blankLine\<lparr>il_description := ''Gift'', il_unitPrice := '' ''\<rparr>]\<rparr>"

theorem invoice_totals_exact_witness:
  "\<exists>m. invoice_totals sample_form = Some (Some m)
    \<and> (amount_value (lm_subtotal m), amount_value (lm_tax m))
        = stored_total line_values (iv_lines sample_form)
    \<and> amount_value (lm_total m) = amount_value (lm_subtotal m) + amount_value (lm_tax m)"
proof -
  have "list_all line_scale4 (iv_lines sample_form)" by code_simp
  from invoice_totals_exact [OF this] show ?thesis by blast
qed

text \<open>What the user sees of a submission: the page of the document, or the message over an enabled
  button on the page where the form was.\<close>

definition leaves_for :: "InvoiceForm \<Rightarrow> int \<Rightarrow> bool" where
  "leaves_for f' i \<longleftrightarrow> iv_navigated f' = Some (''/invoices/'' @ show_int i) \<and> iv_saveError f' = None"

definition stays_with :: "InvoiceForm \<Rightarrow> InvoiceForm \<Rightarrow> exn \<Rightarrow> bool" where
  "stays_with f f' e \<longleftrightarrow> iv_saveError f' = Some (save_message e) \<and> \<not> iv_saving f' \<and> iv_navigated f' = iv_navigated f"

lemma save_invoice_result:
  "fst (save_invoice k i b) = (case failed_with (accepted k id_content) (reply_to (invoice_request k i) b) of
     Some e \<Rightarrow> Inl e
   | None \<Rightarrow> Inr (case k of Some n \<Rightarrow> n | None \<Rightarrow>
       (case reply_to (invoice_request k i) b of Response st (JSON (Basic (Id_Body j))) \<Rightarrow> j)))"
proof (cases "failed_with (accepted k id_content) (reply_to (invoice_request k i) b)")
  case (Some e)
  then show ?thesis using saves_fails [OF save_invoice_saves Some] by simp
next
  case None
  obtain x where x: "save_invoice k i b = (Inr x, after_exchange (invoice_request k i) b)"
    using saves_ok [OF save_invoice_saves None] by blast
  show ?thesis
  proof (cases k)
    case (Some n)
    then show ?thesis using x None
      by (simp add: save_invoice_def map_io_def then_io_def return_io_def split: prod.splits sum.splits)
  next
    case k: None
    then obtain st j where r: "reply_to (invoice_request k i) b = Response st (JSON (Basic (Id_Body j)))" "ok st"
      using None by (cases "reply_to (invoice_request k i) b")
        (auto simp: id_content_def split: if_splits content.splits body.splits basic_body.splits)
    have "fst (save_invoice k i b) = Inr j"
      using exchange_json [OF r, of "basic_as is_Id_Body the_id" j] k
      by (simp add: save_invoice_def createSalesInvoice_def invoice_request_def post_exchange basic_as_def)
    then show ?thesis using None k r(1) by simp
  qed
qed

text \<open>C10. Submitting is safe to repeat and never loses input, whatever the server answers. Without a
  customer nothing is sent and the form says so; otherwise exactly one request goes out, the PUT of
  the edited invoice or the POST of a new one with the input built from the fields, and nothing the
  user typed changes. A request that gets no response, or a status outside 200 to 299, leaves the
  form where it is with the message and the button enabled. A good answer to a PUT, whose body is
  not read (the server sends 204 without one), leads to the invoice edited; a good answer to a POST
  leads to the invoice whose id it holds, and stays with the message when it is no JSON. A JSON body
  without an id is outside the contract of the server.\<close>

theorem invoice_submit:
  assumes "iv_customerId f \<noteq> []" "iv_customerId g = []"
  shows "sent (snd (handleSubmit k f b)) = sent b @ [invoice_request k (invoice_input f)]
    \<and> invoice_fields (fst (handleSubmit k f b)) = invoice_fields f
    \<and> (case reply_to (invoice_request k (invoice_input f)) b of
         Rejected m \<Rightarrow> stays_with f (fst (handleSubmit k f b)) (Type_Error m)
       | Response st c \<Rightarrow>
           if \<not> ok st then stays_with f (fst (handleSubmit k f b)) (Api_Error st (reply_message st c))
           else (case k of
               Some n \<Rightarrow> leaves_for (fst (handleSubmit k f b)) n
             | None \<Rightarrow> (case c of
                   JSON (Basic (Id_Body i)) \<Rightarrow> leaves_for (fst (handleSubmit k f b)) i
                 | No_JSON m \<Rightarrow> stays_with f (fst (handleSubmit k f b)) (Syntax_Error m)
                 | _ \<Rightarrow> True)))
    \<and> handleSubmit k g b = (g\<lparr>iv_saveError := Some ''Please choose a customer.''\<rparr>, b)"
proof -
  have p: "invoice_problem f = None" using assms(1) by (simp add: invoice_problem_def)
  have g: "handleSubmit k g b = (g\<lparr>iv_saveError := Some ''Please choose a customer.''\<rparr>, b)"
    using assms(2) by (simp add: handleSubmit_def)
  let ?q = "reply_to (invoice_request k (invoice_input f)) b" and ?f' = "fst (handleSubmit k f b)"
  have fails: "failed_with (accepted k id_content) ?q = Some e \<Longrightarrow> stays_with f ?f' e" for e
    using invoice_form.fails [OF p, of k b e] by (simp add: stays_with_def)
  have leaves: "fst (save_invoice k (invoice_input f) b) = Inr i \<Longrightarrow> leaves_for ?f' i" for i
    using assms(1) by (cases "save_invoice k (invoice_input f) b") (simp add: handleSubmit_def Let_def leaves_for_def)
  note result = save_invoice_result [of k "invoice_input f" b]
  have "case ?q of
         Rejected m \<Rightarrow> stays_with f ?f' (Type_Error m)
       | Response st c \<Rightarrow>
           if \<not> ok st then stays_with f ?f' (Api_Error st (reply_message st c))
           else (case k of
               Some n \<Rightarrow> leaves_for ?f' n
             | None \<Rightarrow> (case c of
                   JSON (Basic (Id_Body i)) \<Rightarrow> leaves_for ?f' i
                 | No_JSON m \<Rightarrow> stays_with f ?f' (Syntax_Error m)
                 | _ \<Rightarrow> True))"
    using fails leaves result
    by (cases ?q; cases k) (auto simp: id_content_def split: content.splits body.splits basic_body.splits)
  then show ?thesis
    using g invoice_form.sends [OF p, of k b] invoice_form.keeps [of k f b] by simp
qed

theorem invoice_submit_witness:
  "iv_saveError (fst (handleSubmit (Some 7) sample_form (refusing 409 ''posted''))) = Some ''posted''
   \<and> map rq_path (sent (snd (handleSubmit (Some 7) sample_form (refusing 409 ''posted''))))
      = [''/api/sales-invoices/7'']
   \<and> iv_navigated (fst (handleSubmit (Some 7) sample_form no_content_browser)) = Some ''/invoices/7''"
proof -
  have c: "iv_customerId sample_form \<noteq> []" "iv_customerId (invoice_init []) = []" and n: "\<not> ok 409" "ok 204"
    by (simp_all add: sample_form_def ok_def invoice_init_def)
  moreover have "show_int 7 = ''7''" by code_simp
  moreover have "sent (refusing 409 ''posted'') = []" by (simp add: refusing_def)
  ultimately show ?thesis
    using invoice_submit [OF c, of "Some 7" "refusing 409 ''posted''"] invoice_submit [OF c, of "Some 7" no_content_browser]
    by (simp add: invoice_request_def Let_def BASE_def stays_with_def leaves_for_def)
qed

text \<open>A document as the server stores it, with an upper-case currency.\<close>

definition clean_document :: "DocumentBalance \<Rightarrow> bool" where
  "clean_document d \<longleftrightarrow> trim (db_number d) = db_number d \<and> clean (db_due_date d)
     \<and> clean (db_reference d) \<and> clean (db_memo d)
     \<and> toUpperCase (trim (db_currency_code d)) = db_currency_code d"

definition clean_line :: "SalesInvoiceLine \<Rightarrow> bool" where
  "clean_line l \<longleftrightarrow> trim (sil_description l) = sil_description l \<and> sil_tax_code l \<noteq> Some NONE
     \<and> printed (sil_quantity l) \<and> printed (sil_unit_price l) \<and> printed (sil_tax_rate l)"

lemma invoice_line_back:
  assumes "clean_line l"
  shows "invoice_line_input (line_state_of l) = \<lparr>sili_product_id = sil_product_id l,
     sili_description = sil_description l, sili_quantity = trimAmount (sil_quantity l),
     sili_unit_price = trimAmount (sil_unit_price l),
     sili_revenue_account_id = sil_revenue_account_id l, sili_tax_code = sil_tax_code l,
     sili_tax_rate = trimAmount (sil_tax_rate l)\<rparr>"
  using assms by (simp add: invoice_line_input_def line_state_of_def clean_line_def printed_input)

definition same_line :: "SalesInvoiceLine \<Rightarrow> SalesInvoiceLineInput \<Rightarrow> bool" where
  "same_line l i \<longleftrightarrow> sili_product_id i = sil_product_id l \<and> sili_description i = sil_description l
     \<and> sili_revenue_account_id i = sil_revenue_account_id l \<and> sili_tax_code i = sil_tax_code l
     \<and> amount_value (sili_quantity i) = amount_value (sil_quantity l)
     \<and> amount_value (sili_unit_price i) = amount_value (sil_unit_price l)
     \<and> amount_value (sili_tax_rate i) = amount_value (sil_tax_rate l)"

text \<open>C11. Editing changes only what the user edits: opening a draft and saving it at once sends
  back the invoice it loaded, header and lines, with every amount of the same value.\<close>

theorem invoice_edit_roundtrip:
  assumes "db_status d = ''draft''" "list_all (\<lambda>l. sil_order_line_id l = None) ls"
    and "clean_document d" "list_all clean_line ls"
    and "f = invoice_loaded False (Inr (custs, orgs, prods, taxes, accts, Some d, Some ls))
      (invoice_init date)"
  shows "iv_loaded f \<and> iv_error f = None
    \<and> invoice_input f = \<lparr>sii_invoice_number = db_number d, sii_customer_id = db_party_id d,
        sii_invoice_date = db_date d, sii_due_date = db_due_date d,
        sii_currency_code = db_currency_code d, sii_reference = db_reference d,
        sii_memo = db_memo d, sii_lines = sii_lines (invoice_input f)\<rparr>
    \<and> list_all2 same_line ls (sii_lines (invoice_input f))
    \<and> sent (snd (handleSubmit (Some n) f b))
        = sent b @ [invoice_request (Some n) (invoice_input f)]"
proof -
  have nl: "\<not> list_ex (\<lambda>l. sil_order_line_id l \<noteq> None) ls"
    using assms(2) by (auto simp: list_ex_iff list_all_iff)
  have f: "iv_loaded f" "iv_error f = None" "iv_customerId f = show_int (db_party_id d)"
    "iv_invoiceNumber f = db_number d" "iv_invoiceDate f = db_date d"
    "iv_dueDate f = or_empty (db_due_date d)" "iv_currencyCode f = db_currency_code d"
    "iv_reference f = or_empty (db_reference d)" "iv_memo f = or_empty (db_memo d)"
    "iv_lines f = map line_state_of ls"
    using assms(1,5) nl by (simp_all add: invoice_loaded_def invoice_init_def)
  have "invoice_problem f = None" using f(3) by (simp add: invoice_problem_def)
  then have "sent (snd (handleSubmit (Some n) f b))
      = sent b @ [invoice_request (Some n) (invoice_input f)]"
    using invoice_form.sends [of f "Some n" b] by simp
  moreover have "list_all2 same_line ls (sii_lines (invoice_input f))"
    using assms(4)
    by (auto simp: invoice_input_def f list_all2_conv_all_nth list_all_length invoice_line_back
        same_line_def clean_line_def trimAmount_printed)
  ultimately show ?thesis
    using f(1,2) assms(3)
    by (simp add: invoice_input_def f clean_document_def clean_def)
qed

definition sample_line :: SalesInvoiceLine where
  "sample_line = \<lparr>sil_line_no = 1, sil_product_id = Some 4, sil_description = ''Ruler'',
     sil_quantity = ''3.0000'', sil_unit_price = ''9.9900'', sil_tax_code = Some ''VAT'',
     sil_tax_rate = ''8.2500'', sil_line_subtotal = ''29.9700'', sil_tax_amount = ''2.4725'',
     sil_line_total = ''32.4425'', sil_revenue_account_id = None, sil_order_line_id = None\<rparr>"

theorem invoice_edit_roundtrip_witness:
  "\<exists>i. sii_lines (invoice_input (invoice_loaded False
      (Inr ([], [], [], [], [], Some (fromSalesInvoice sample_invoice), Some [sample_line]))
      (invoice_init []))) = [i] \<and> same_line sample_line i"
proof -
  have "db_status (fromSalesInvoice sample_invoice) = ''draft''"
    "list_all (\<lambda>l. sil_order_line_id l = None) [sample_line]"
    "clean_document (fromSalesInvoice sample_invoice)" "list_all clean_line [sample_line]"
    by code_simp+
  from invoice_edit_roundtrip [OF this refl, of "[]" "[]" "[]" "[]" "[]" "[]" 0 undefined]
  show ?thesis by (auto simp: list_all2_Cons1)
qed

section \<open>Documents that must not be rewritten\<close>

definition locked :: "invoice_data \<Rightarrow> bool" where
  "locked data = (case data of (_, _, _, _, _, doc, docLines) \<Rightarrow>
     (case (doc, docLines) of
       (Some d, Some ls) \<Rightarrow> db_status d \<noteq> ''draft'' \<or> list_ex (\<lambda>l. sil_order_line_id l \<noteq> None) ls
     | _ \<Rightarrow> False))"

lemma load_invoice_form_reads: "reads_only (load_invoice_form k)"
  unfolding load_invoice_form_def
  by (intro reading; unfold listCustomers_def listOrganizations_def listProducts_def
    listTaxCodes_def listAccounts_def getSalesInvoice_def getSalesInvoiceLines_def; intro reading)

interpretation invoice_edit: edit_form "load_invoice_form k" invoice_loaded
    "\<lambda>f. offers (invoice_view k f)" "invoice_step k" initial_invoice iv_loaded locked for k
proof unfold_locales
  fix f :: InvoiceForm and r c e
  show "reads_only (load_invoice_form k)" by (rule load_invoice_form_reads)
  show "\<not> iv_loaded f \<Longrightarrow> (\<And>data. r = Inr data \<Longrightarrow> locked data) \<Longrightarrow> \<not> iv_loaded (invoice_loaded c r f)"
    by (auto simp: invoice_loaded_def locked_def Let_def split: sum.splits option.splits)
  show "\<not> iv_loaded f \<Longrightarrow> \<not> offers (invoice_view k f) e"
    by (auto simp: invoice_view_def split: option.splits)
  show "initial_invoice f \<Longrightarrow> \<not> iv_loaded f"
    by (auto simp: initial_invoice_def invoice_init_def)
qed

text \<open>C12. The edit form never writes to an invoice that is posted or that came from an order: as
  long as the server answers with such a document (or not at all), every request the form makes,
  however often it loads and whatever the user does, is a GET, and no submit button appears.\<close>

theorem locked_invoice_untouched:
  assumes "always_loads net (load_invoice_form (Some n)) locked"
    and "reachable (fresh_on net initial_invoice) (invoice_move (Some n)) (f, b)"
  shows "list_all (\<lambda>rq. rq_method rq = ''GET'') (sent b) \<and> \<not> offers (invoice_view (Some n) f) Submit"
  using invoice_edit.untouched [OF assms(1) assms(2) [unfolded invoice_move_def]] .

text \<open>The selects of every reachable form hold identifiers: the customer is empty or the
  string of an id, product and account of each line are the sentinel or the string of an id, so
  the input sent to the server names exactly what was chosen; a new invoice always has a line.\<close>

theorem invoice_reachable:
  assumes "reachable invoice_start (invoice_move k) (f, b)"
  shows "(k = None \<longrightarrow> iv_lines f \<noteq> [])
    \<and> (iv_customerId f = [] \<or> show_int (sii_customer_id (invoice_input f)) = iv_customerId f)
    \<and> list_all2 (\<lambda>l i. id_select (sili_product_id i) = il_productId l
         \<and> id_select (sili_revenue_account_id i) = il_revenueAccountId l)
        (iv_lines f) (sii_lines (invoice_input f))"
proof -
  have "invoice_inv k f" using invoice_states.reachable_inv [OF assms] by simp
  then show ?thesis
    by (auto simp: invoice_inv_def invoice_input_def invoice_line_input_def line_ok_def
        list_all2_conv_all_nth list_all_length id_value_wire)
qed

definition sample_server :: "string \<Rightarrow> string \<Rightarrow> body" where
  "sample_server state path =
     (if path = ''/api/customers'' then Master (Customer_List [])
      else if path = ''/api/organizations'' then Master (Organization_List [])
      else if path = ''/api/products'' then Master (Product_List [])
      else if path = ''/api/tax-codes'' then Master (TaxCode_List [])
      else if path = ''/api/accounts'' then Master (Account_List [])
      else if path = ''/api/sales-invoices/7'' then
        Document (SalesInvoice_Body (sample_invoice\<lparr>da_status := state\<rparr>))
      else Document (SalesInvoiceLine_List [sample_line]))"

lemma load_from_sample:
  assumes "network b = answering (sample_server state)"
  shows "\<exists>b'. load_invoice_form (Some 7) b = (Inr ([], [], [], [], [],
      Some (fromSalesInvoice (sample_invoice\<lparr>da_status := state\<rparr>)), Some [sample_line]), b')"
proof -
  have "show_int 7 = ''7''" by code_simp
  then show ?thesis
    using assms
    by (simp add: load_invoice_form_def both_io_result listCustomers_def listOrganizations_def
        listProducts_def listTaxCodes_def listAccounts_def getSalesInvoice_def
        getSalesInvoiceLines_def get_answering map_io_def then_io_def return_io_def
        master_as_def document_as_def BASE_def sample_server_def)
qed

definition sample_browser :: "string \<Rightarrow> (unit, payload, body) browser" where
  "sample_browser state =
     \<lparr>network = answering (sample_server state), world = (), sent = [], events = []\<rparr>"

theorem locked_invoice_untouched_witness:
  "(\<exists>b'. load_invoice_form (Some 7) (sample_browser ''posted'')
      = (Inr ([], [], [], [], [], Some (fromSalesInvoice (sample_invoice\<lparr>da_status := ''posted''\<rparr>)),
          Some [sample_line]), b')
      \<and> list_all (\<lambda>rq. rq_method rq = ''GET'') (sent b'))
   \<and> \<not> offers (invoice_view (Some 7) (invoice_loaded False
        (fst (load_invoice_form (Some 7) (sample_browser ''posted''))) (invoice_init []))) Submit"
proof -
  let ?b = "sample_browser ''posted''"
  have n: "network ?b = answering (sample_server ''posted'')" by (simp add: sample_browser_def)
  obtain b' where b': "load_invoice_form (Some 7) ?b = (Inr ([], [], [], [], [],
      Some (fromSalesInvoice (sample_invoice\<lparr>da_status := ''posted''\<rparr>)), Some [sample_line]), b')"
    using load_from_sample [OF n] by blast
  have "db_status (fromSalesInvoice (sample_invoice\<lparr>da_status := ''posted''\<rparr>)) \<noteq> ''draft''"
    by code_simp
  then have l: "always_loads (network ?b) (load_invoice_form (Some 7)) locked"
    unfolding n using load_from_sample [of _ "''posted''"]
    by (fastforce simp: always_loads_def locked_def)
  have s: "reachable (fresh_on (network ?b) initial_invoice) (invoice_move (Some 7)) (invoice_init [], ?b)"
    by (rule reachable.starting) (auto simp: fresh_on_def initial_invoice_def sample_browser_def)
  have m: "invoice_move (Some 7) (invoice_init [], ?b)
      (invoice_loaded False (fst (load_invoice_form (Some 7) ?b)) (invoice_init []), b')"
    unfolding invoice_move_def by (rule form_move.load) (simp add: b')
  from s m have "reachable (fresh_on (network ?b) initial_invoice) (invoice_move (Some 7))
      (invoice_loaded False (fst (load_invoice_form (Some 7) ?b)) (invoice_init []), b')"
    by (rule reachable.moving)
  then have u: "list_all (\<lambda>rq. rq_method rq = ''GET'') (sent b')
    \<and> \<not> offers (invoice_view (Some 7) (invoice_loaded False
        (fst (load_invoice_form (Some 7) ?b)) (invoice_init []))) Submit"
    by (rule locked_invoice_untouched [OF l])
  show ?thesis
    by (rule conjI, rule exI [of _ b'], rule conjI [OF b' conjunct1 [OF u]], rule conjunct2 [OF u])
qed

theorem invoice_reachable_witness: "iv_lines (invoice_init []) \<noteq> []"
proof -
  have "reachable invoice_start (invoice_move None) (invoice_init [], refusing 500 [])"
    by (rule reachable.starting) (auto simp: invoice_start_def initial_invoice_def)
  from invoice_reachable [OF this] show ?thesis by simp
qed

end
