(* ===== verification/Bill_Form.thy ===== *)
theory Bill_Form
  imports Forms
begin

text \<open>
  The purchase-bill form (\<open>web/src/components/bill-form.tsx\<close>), the mirror of the invoice
  form except that a product does not prefill the cost and the account: the state of the component as a
  record, its load in create and edit mode, the handlers of its fields and lines, the preview of
  the totals and the submission.
\<close>

section \<open>State\<close>

record BillLine =
  bl_productId :: string
  bl_description :: string
  bl_quantity :: string
  bl_unitCost :: string
  bl_taxCode :: string
  bl_taxRate :: string
  bl_expenseAccountId :: string

definition blankBillLine :: BillLine where
  "blankBillLine = \<lparr>bl_productId = NONE, bl_description = [], bl_quantity = ''1'', bl_unitCost = [],
     bl_taxCode = NONE, bl_taxRate = ''0'', bl_expenseAccountId = NONE\<rparr>"

record SupplierOption =
  spo_id :: int
  spo_name :: string
  spo_currency :: "string option"

record BillForm =
  bv_suppliers :: "SupplierOption list"
  bv_products :: "Product list"
  bv_taxCodes :: "TaxCode list"
  bv_accounts :: "Account list"
  bv_error :: "string option"
  bv_loaded :: bool
  bv_supplierId :: string
  bv_billNumber :: string
  bv_billDate :: string
  bv_dueDate :: string
  bv_currencyCode :: string
  bv_reference :: string
  bv_memo :: string
  bv_lines :: "BillLine list"
  bv_saving :: bool
  bv_saveError :: "string option"
  bv_navigated :: "string option"

text \<open>The initial state, with the date part of the clock's UTC time.\<close>

definition bill_init :: "string \<Rightarrow> BillForm" where
  "bill_init utc_date = \<lparr>bv_suppliers = [], bv_products = [], bv_taxCodes = [], bv_accounts = [],
     bv_error = None, bv_loaded = False, bv_supplierId = [], bv_billNumber = [],
     bv_billDate = utc_date, bv_dueDate = [], bv_currencyCode = [], bv_reference = [],
     bv_memo = [], bv_lines = [blankBillLine], bv_saving = False, bv_saveError = None,
     bv_navigated = None\<rparr>"

section \<open>Loading\<close>

type_synonym bill_data =
  "Supplier list \<times> Organization list \<times> Product list \<times> TaxCode list \<times> Account list
     \<times> DocumentBalance option \<times> PurchaseBillLine list option"

definition load_bill_form :: "int option \<Rightarrow> ('w, bill_data) call" where
  "load_bill_form billId =
     both_io listSuppliers (both_io listOrganizations (both_io listProducts (both_io listTaxCodes
       (both_io listAccounts (both_io (optional_io getPurchaseBill billId)
         (optional_io getPurchaseBillLines billId))))))"

definition bill_line_of :: "PurchaseBillLine \<Rightarrow> BillLine" where
  "bill_line_of l = \<lparr>bl_productId = id_select (pbl_product_id l), bl_description = pbl_description l,
     bl_quantity = trimAmount (pbl_quantity l), bl_unitCost = trimAmount (pbl_unit_cost l),
     bl_taxCode = code_select (pbl_tax_code l), bl_taxRate = trimAmount (pbl_tax_rate l),
     bl_expenseAccountId = id_select (pbl_expense_account_id l)\<rparr>"

definition bill_loaded :: "bool \<Rightarrow> exn + bill_data \<Rightarrow> BillForm \<Rightarrow> BillForm" where
  "bill_loaded cancelled result f =
     (case result of
       Inl err \<Rightarrow> if cancelled then f else f\<lparr>bv_error := Some (error_message err)\<rparr>
     | Inr (supps, orgs, prods, taxes, accts, doc, docLines) \<Rightarrow>
         if cancelled then f
         else
           let f = f\<lparr>
                 bv_suppliers := map (\<lambda>c. \<lparr>spo_id = supp_id c,
                     spo_name = party_name orgs (supp_organization_id c) (supp_id c),
                     spo_currency = supp_currency_code c\<rparr>) (filter supp_is_active supps),
                 bv_products := filter prod_is_active prods, bv_taxCodes := taxes,
                 bv_accounts := accts\<rparr>
           in (case (doc, docLines) of
                (Some d, Some ls) \<Rightarrow>
                  if db_status d \<noteq> ''draft''
                  then f\<lparr>bv_error := Some ''Only draft bills can be edited.''\<rparr>
                  else if list_ex (\<lambda>l. pbl_order_line_id l \<noteq> None) ls
                  then f\<lparr>bv_error := Some (''This bill was created from a purchase order and cannot ''
                      @ ''be edited. Delete it and bill the order again instead.'')\<rparr>
                  else f\<lparr>bv_supplierId := show_int (db_party_id d), bv_billNumber := db_number d,
                      bv_billDate := db_date d, bv_dueDate := or_empty (db_due_date d),
                      bv_currencyCode := db_currency_code d,
                      bv_reference := or_empty (db_reference d), bv_memo := or_empty (db_memo d),
                      bv_lines := map bill_line_of ls, bv_loaded := True\<rparr>
              | _ \<Rightarrow> f\<lparr>bv_loaded := True\<rparr>))"

section \<open>Editing\<close>

definition setBillLine :: "nat \<Rightarrow> (BillLine \<Rightarrow> BillLine) \<Rightarrow> BillForm \<Rightarrow> BillForm" where
  "setBillLine index patch f = f\<lparr>bv_lines := patch_line index patch (bv_lines f)\<rparr>"

definition chooseBillProduct :: "nat \<Rightarrow> string \<Rightarrow> BillForm \<Rightarrow> BillForm" where
  "chooseBillProduct index value f =
     (case find (\<lambda>p. show_int (prod_id p) = value) (bv_products f) of
       None \<Rightarrow> setBillLine index (\<lambda>l. l\<lparr>bl_productId := NONE\<rparr>) f
     | Some product \<Rightarrow>
         let rate = (if truthy (prod_tax_code product) then
               (case find (\<lambda>t. Some (tc_code t) = prod_tax_code product) (bv_taxCodes f) of
                  Some t \<Rightarrow> tc_rate t | None \<Rightarrow> ''0'')
             else ''0'')
         in setBillLine index (\<lambda>l. l\<lparr>bl_productId := value, bl_description := prod_name product,
              bl_taxCode := code_select (prod_tax_code product), bl_taxRate := rate\<rparr>) f)"

definition chooseBillTaxCode :: "nat \<Rightarrow> string \<Rightarrow> BillForm \<Rightarrow> BillForm" where
  "chooseBillTaxCode index value f =
     (let rate = (if value = NONE then ''0'' else
           (case find (\<lambda>t. tc_code t = value) (bv_taxCodes f) of Some t \<Rightarrow> tc_rate t | None \<Rightarrow> ''0''))
      in setBillLine index (\<lambda>l. l\<lparr>bl_taxCode := value, bl_taxRate := rate\<rparr>) f)"

definition chooseSupplier :: "string \<Rightarrow> BillForm \<Rightarrow> BillForm" where
  "chooseSupplier value f =
     (let f = f\<lparr>bv_supplierId := value\<rparr> in
      case find (\<lambda>c. show_int (spo_id c) = value) (bv_suppliers f) of
        None \<Rightarrow> f
      | Some c \<Rightarrow> if truthy (spo_currency c) \<and> trim (bv_currencyCode f) = []
          then f\<lparr>bv_currencyCode := or_empty (spo_currency c)\<rparr> else f)"

section \<open>Preview\<close>

definition previewBillLine :: "BillLine \<Rightarrow> line_money option option" where
  "previewBillLine l = lineAmounts (if trim (bl_quantity l) = [] then ''1'' else bl_quantity l)
     (if trim (bl_unitCost l) = [] then ''0'' else bl_unitCost l)
     (if trim (bl_taxRate l) = [] then ''0'' else bl_taxRate l)"

text \<open>Rendering maps the lines to their previews first; an exception there would be one here.\<close>

definition bill_totals :: "BillForm \<Rightarrow> line_money option option" where
  "bill_totals f = (let previews = map previewBillLine (bv_lines f) in
     if None \<in> set previews then None else line_totals (map the previews))"

section \<open>Submission\<close>

definition bill_line_input :: "BillLine \<Rightarrow> PurchaseBillLineInput" where
  "bill_line_input l = \<lparr>pbli_product_id = id_or_null (bl_productId l),
     pbli_description = trim (bl_description l), pbli_quantity = trim (bl_quantity l),
     pbli_unit_cost = trim (bl_unitCost l),
     pbli_expense_account_id = id_or_null (bl_expenseAccountId l),
     pbli_tax_code = code_or_null (bl_taxCode l), pbli_tax_rate = trim (bl_taxRate l)\<rparr>"

definition bill_input :: "BillForm \<Rightarrow> PurchaseBillInput" where
  "bill_input f = \<lparr>pbi_bill_number = trim (bv_billNumber f),
     pbi_supplier_id = id_of (bv_supplierId f), pbi_bill_date = bv_billDate f,
     pbi_due_date = emptyToNull (bv_dueDate f),
     pbi_currency_code = toUpperCase (trim (bv_currencyCode f)),
     pbi_reference = emptyToNull (bv_reference f), pbi_memo = emptyToNull (bv_memo f),
     pbi_lines = map bill_line_input (bv_lines f)\<rparr>"

definition save_bill :: "int option \<Rightarrow> PurchaseBillInput \<Rightarrow> ('w, int) call" where
  "save_bill billId input =
     (case billId of
       Some i \<Rightarrow> map_io (\<lambda>_. i) (updatePurchaseBill i input)
     | None \<Rightarrow> createPurchaseBill input)"

definition submitBill :: "int option \<Rightarrow> BillForm \<Rightarrow> ('w, payload, body) browser
    \<Rightarrow> BillForm \<times> ('w, payload, body) browser" where
  "submitBill billId f b =
     (if bv_supplierId f = [] then (f\<lparr>bv_saveError := Some ''Please choose a supplier.''\<rparr>, b)
      else
        let input = bill_input f; f = f\<lparr>bv_saving := True, bv_saveError := None\<rparr> in
        case save_bill billId input b of
          (Inr docId, b) \<Rightarrow> (f\<lparr>bv_navigated := Some (''/bills/'' @ show_int docId)\<rparr>, b)
        | (Inl err, b) \<Rightarrow> (f\<lparr>bv_saving := False, bv_saveError := Some (save_message err)\<rparr>, b))"

section \<open>The screen\<close>

datatype bill_event =
    Choose_Supplier string | Set_Number string | Set_Date string | Set_Due_Date string
  | Set_Currency string | Set_Reference string | Set_Memo string
  | Choose_Product nat string | Set_Description nat string | Set_Quantity nat string
  | Set_Unit_Cost nat string | Choose_Tax_Code nat string | Set_Tax_Rate nat string
  | Set_Expense_Account nat string | Remove_Line nat | Add_Line | Submit

definition bill_header_view :: "BillForm \<Rightarrow> bill_event element list" where
  "bill_header_view f =
     [Select ''supplier'' ''Supplier'' (bv_supplierId f)
        (map (\<lambda>c. (show_int (spo_id c), spo_name c)) (bv_suppliers f)) Choose_Supplier,
      Field ''bill_number'' ''Bill #'' True (bv_billNumber f) Set_Number,
      Field ''bill_date'' ''Bill Date'' True (bv_billDate f) Set_Date,
      Field ''due_date'' ''Due Date'' False (bv_dueDate f) Set_Due_Date,
      Field ''currency'' ''Currency'' True (bv_currencyCode f) Set_Currency,
      Field ''reference'' ''Reference'' False (bv_reference f) Set_Reference,
      Field ''memo'' ''Memo'' False (bv_memo f) Set_Memo]"

definition bill_line_view :: "BillForm \<Rightarrow> nat \<Rightarrow> BillLine \<Rightarrow> bill_event element list" where
  "bill_line_view f i line =
     (let ident = (\<lambda>s. ''line_'' @ show_nat i @ s) in
      [Select (ident ''_product'') ''Product'' (bl_productId line)
         ((NONE, ''Free-form'') # map (\<lambda>p. (show_int (prod_id p),
             prod_sku p @ '' '' @ em_dash @ '' '' @ prod_name p)) (bv_products f)) (Choose_Product i),
       Field (ident ''_description'') ''Description'' True (bl_description line) (Set_Description i),
       Field (ident ''_quantity'') ''Qty'' False (bl_quantity line) (Set_Quantity i),
       Field (ident ''_unit_cost'') ''Unit Cost'' False (bl_unitCost line) (Set_Unit_Cost i),
       Select (ident ''_tax_code'') ''Tax Code'' (bl_taxCode line)
         ((NONE, ''None'') # map (\<lambda>t. (tc_code t,
             tc_code t @ '' '' @ em_dash @ '' '' @ tc_name t)) (bv_taxCodes f)) (Choose_Tax_Code i),
       Field (ident ''_tax_rate'') ''Tax Rate %'' False (bl_taxRate line) (Set_Tax_Rate i),
       Select (ident ''_expense_account'') ''Expense Account'' (bl_expenseAccountId line)
         ((NONE, (''Product'' @ [CHR 0x27, CHR ''s''])) # map (\<lambda>a. (show_int (acc_id a),
             acc_code a @ '' '' @ em_dash @ '' '' @ acc_name a)) (bv_accounts f))
         (Set_Expense_Account i),
       Datum ''Line total: '' (case previewBillLine line of
           Some (Some m) \<Rightarrow> formatAmount (lm_total m) | _ \<Rightarrow> em_dash)]
      @ guarded (1 < length (bv_lines f)) [Button ''Remove'' False (Remove_Line i)])"

definition bill_totals_view :: "BillForm \<Rightarrow> bill_event element list" where
  "bill_totals_view f =
     (let shown = (\<lambda>sel. case bill_totals f of
          Some (Some m) \<Rightarrow> formatAmount (sel m) | _ \<Rightarrow> em_dash) in
      [Datum ''Subtotal'' (shown lm_subtotal), Datum ''Tax'' (shown lm_tax),
       Datum ''Total'' (shown lm_total)])"

definition bill_actions_view :: "int option \<Rightarrow> BillForm \<Rightarrow> bill_event element list" where
  "bill_actions_view billId f =
     (case bv_saveError f of None \<Rightarrow> [] | Some e \<Rightarrow> [Alert (''Failed to save: '' @ e)])
     @ [Button (if bv_saving f then ''Saving...''
          else if billId \<noteq> None then ''Save changes'' else ''Create draft'') (bv_saving f) Submit,
        Link ''Cancel'' (case billId of
          Some i \<Rightarrow> ''/bills/'' @ show_int i | None \<Rightarrow> ''/bills'')]"

definition bill_view :: "int option \<Rightarrow> BillForm \<Rightarrow> bill_event element list" where
  "bill_view billId f =
     [Heading (if billId \<noteq> None then ''Edit Bill'' else ''New Bill''),
      Note (if billId \<noteq> None then ''Rewrites the draft -- it stays unposted.''
        else ''Creates a draft -- post it to the ledger from the bill page.'')]
     @ (case bv_error f of None \<Rightarrow> [] | Some e \<Rightarrow> [Alert e, Link ''Back to bills'' ''/bills''])
     @ guarded (bv_error f = None \<and> \<not> bv_loaded f) [Note ''Loading...'']
     @ guarded (bv_error f = None \<and> bv_loaded f)
         (bill_header_view f
          @ concat (map (\<lambda>(i, line). bill_line_view f i line) (enumerate 0 (bv_lines f)))
          @ [Button ''Add line'' False Add_Line] @ bill_totals_view f @ bill_actions_view billId f)"

fun bill_step :: "int option \<Rightarrow> bill_event \<Rightarrow> BillForm \<times> ('w, payload, body) browser
    \<Rightarrow> BillForm \<times> ('w, payload, body) browser" where
  "bill_step k (Choose_Supplier v) (f, b) = (chooseSupplier v f, b)"
| "bill_step k (Set_Number v) (f, b) = (f\<lparr>bv_billNumber := v\<rparr>, b)"
| "bill_step k (Set_Date v) (f, b) = (f\<lparr>bv_billDate := v\<rparr>, b)"
| "bill_step k (Set_Due_Date v) (f, b) = (f\<lparr>bv_dueDate := v\<rparr>, b)"
| "bill_step k (Set_Currency v) (f, b) = (f\<lparr>bv_currencyCode := v\<rparr>, b)"
| "bill_step k (Set_Reference v) (f, b) = (f\<lparr>bv_reference := v\<rparr>, b)"
| "bill_step k (Set_Memo v) (f, b) = (f\<lparr>bv_memo := v\<rparr>, b)"
| "bill_step k (Choose_Product i v) (f, b) = (chooseBillProduct i v f, b)"
| "bill_step k (Set_Description i v) (f, b) = (setBillLine i (\<lambda>l. l\<lparr>bl_description := v\<rparr>) f, b)"
| "bill_step k (Set_Quantity i v) (f, b) = (setBillLine i (\<lambda>l. l\<lparr>bl_quantity := v\<rparr>) f, b)"
| "bill_step k (Set_Unit_Cost i v) (f, b) = (setBillLine i (\<lambda>l. l\<lparr>bl_unitCost := v\<rparr>) f, b)"
| "bill_step k (Choose_Tax_Code i v) (f, b) = (chooseBillTaxCode i v f, b)"
| "bill_step k (Set_Tax_Rate i v) (f, b) = (setBillLine i (\<lambda>l. l\<lparr>bl_taxRate := v\<rparr>) f, b)"
| "bill_step k (Set_Expense_Account i v) (f, b) =
     (setBillLine i (\<lambda>l. l\<lparr>bl_expenseAccountId := v\<rparr>) f, b)"
| "bill_step k (Remove_Line i) (f, b) = (f\<lparr>bv_lines := remove_line i (bv_lines f)\<rparr>, b)"
| "bill_step k Add_Line (f, b) = (f\<lparr>bv_lines := bv_lines f @ [blankBillLine]\<rparr>, b)"
| "bill_step k Submit (f, b) = submitBill k f b"

definition bill_move :: "int option \<Rightarrow> BillForm \<times> ('w, payload, body) browser
    \<Rightarrow> BillForm \<times> ('w, payload, body) browser \<Rightarrow> bool" where
  "bill_move k = form_move (load_bill_form k) bill_loaded
     (\<lambda>f. offers (bill_view k f)) (bill_step k)"

section \<open>Submission keeps the contract of a form\<close>

definition bill_problem :: "BillForm \<Rightarrow> string option" where
  "bill_problem f = (if bv_supplierId f = [] then Some ''Please choose a supplier.'' else None)"

definition bill_fields :: "BillForm \<Rightarrow> BillForm" where
  "bill_fields f = f\<lparr>bv_saving := False, bv_saveError := None, bv_navigated := None\<rparr>"

definition bill_request :: "int option \<Rightarrow> PurchaseBillInput \<Rightarrow> payload request" where
  "bill_request k i = (let p = Document_Payload (PurchaseBillInput_Payload i) in
     case k of Some n \<Rightarrow> body_request ''PUT'' (''/purchase-bills/'' @ show_int n) p
     | None \<Rightarrow> body_request ''POST'' ''/purchase-bills'' p)"

lemma save_bill_saves: "saves (accepted k id_content) (save_bill k i) (bill_request k i)"
  by (cases k) (simp_all add: save_bill_def bill_request_def Let_def updatePurchaseBill_def
      createPurchaseBill_def saving_calls)

interpretation bill_form: form_submit "submitBill k" bill_problem
    "\<lambda>f. bill_request k (bill_input f)" "accepted k id_content" bill_fields bv_saving bv_saveError
    bv_navigated for k
proof unfold_locales
  fix f m b e
  note s = save_bill_saves [of k "bill_input f"]
  show "bill_problem f = Some m \<Longrightarrow> snd (submitBill k f b) = b
      \<and> bv_saveError (fst (submitBill k f b)) = Some m
      \<and> bv_saving (fst (submitBill k f b)) = bv_saving f
      \<and> bv_navigated (fst (submitBill k f b)) = bv_navigated f"
    by (auto simp: submitBill_def bill_problem_def split: if_splits)
  show "bill_fields (fst (submitBill k f b)) = bill_fields f"
    by (simp add: submitBill_def bill_fields_def Let_def split: prod.split sum.split)
  show "bill_problem f = None \<Longrightarrow>
      snd (submitBill k f b) = after_exchange (bill_request k (bill_input f)) b"
    using saves_state [OF s, of b]
    by (auto simp: submitBill_def bill_problem_def Let_def split: if_splits prod.splits sum.splits)
  show "bill_problem f = None \<Longrightarrow> failed_with (accepted k id_content) (reply_to (bill_request k (bill_input f)) b) = None \<Longrightarrow> bv_navigated (fst (submitBill k f b)) \<noteq> None
        \<and> bv_saveError (fst (submitBill k f b)) = None \<and> bv_saving (fst (submitBill k f b))"
    using saves_ok [OF s, of b]
    by (auto simp: submitBill_def bill_problem_def Let_def split: if_splits)
  show "bill_problem f = None \<Longrightarrow>
      failed_with (accepted k id_content) (reply_to (bill_request k (bill_input f)) b) = Some e \<Longrightarrow>
      bv_navigated (fst (submitBill k f b)) = bv_navigated f
        \<and> bv_saveError (fst (submitBill k f b)) = Some (save_message e)
        \<and> \<not> bv_saving (fst (submitBill k f b))"
    using saves_fails [OF s, of b e]
    by (auto simp: submitBill_def bill_problem_def Let_def split: if_splits)
qed

section \<open>Properties\<close>

definition bill_line_values :: "BillLine \<Rightarrow> rat \<times> rat \<times> rat" where
  "bill_line_values l = (amount_value (or_default ''1'' (bl_quantity l)),
     amount_value (or_default ''0'' (bl_unitCost l)), amount_value (or_default ''0'' (bl_taxRate l)))"

definition bill_line_scale4 :: "BillLine \<Rightarrow> bool" where
  "bill_line_scale4 l \<longleftrightarrow> scale4 (or_default ''1'' (bl_quantity l))
     \<and> scale4 (or_default ''0'' (bl_unitCost l)) \<and> scale4 (or_default ''0'' (bl_taxRate l))"

lemma bill_totals_preview: "bill_totals f = preview_totals previewBillLine (bv_lines f)"
  by (simp add: bill_totals_def preview_totals_def)

lemma previewBillLine_default: "previewBillLine l = lineAmounts (or_default ''1'' (bl_quantity l))
    (or_default ''0'' (bl_unitCost l)) (or_default ''0'' (bl_taxRate l))"
  by (simp add: previewBillLine_def or_default_def)

text \<open>The totals the form shows are the ones the database will compute: whatever the lines
  hold rendering them throws nothing, and when every input is an amount of at most four decimals
  (or empty), subtotal and tax are the sums over the lines of quantity times price and of its tax,
  each rounded half away from zero to four decimals, and the total is their sum.\<close>

lemma bill_totals_exact:
  assumes "list_all bill_line_scale4 (bv_lines f)"
  shows "\<exists>m. bill_totals f = Some (Some m)
    \<and> (amount_value (lm_subtotal m), amount_value (lm_tax m)) = stored_total bill_line_values (bv_lines f)
    \<and> amount_value (lm_total m) = amount_value (lm_subtotal m) + amount_value (lm_tax m)
    \<and> bill_totals g \<noteq> None"
  using preview_totals_database(2) [OF previewBillLine_default, where ls = "bv_lines f"] assms
    preview_totals_database(1) [OF previewBillLine_default, where ls = "bv_lines g"]
  unfolding bill_totals_preview bill_line_values_def bill_line_scale4_def by simp

text \<open>Submitting is safe to repeat and never loses input: without a supplier nothing is sent
  and the form says so, otherwise exactly one request goes out, the PUT of the edited bill or
  the POST of a new one with the input built from the fields; nothing the user typed changes; a
  failure shows its message and enables the button again, and a success leaves the form.\<close>

lemma bill_submit:
  assumes "bv_supplierId f \<noteq> []" "bv_supplierId g = []"
  shows "sent (snd (submitBill k f b)) = sent b @ [bill_request k (bill_input f)]
    \<and> bill_fields (fst (submitBill k f b)) = bill_fields f
    \<and> (case failed_with (accepted k id_content) (reply_to (bill_request k (bill_input f)) b) of
         None \<Rightarrow> bv_navigated (fst (submitBill k f b)) \<noteq> None
       | Some e \<Rightarrow> bv_saveError (fst (submitBill k f b)) = Some (save_message e)
         \<and> \<not> bv_saving (fst (submitBill k f b))
         \<and> bv_navigated (fst (submitBill k f b)) = bv_navigated f)
    \<and> submitBill k g b = (g\<lparr>bv_saveError := Some ''Please choose a supplier.''\<rparr>, b)"
proof -
  have p: "bill_problem f = None" using assms(1) by (simp add: bill_problem_def)
  have "submitBill k g b = (g\<lparr>bv_saveError := Some ''Please choose a supplier.''\<rparr>, b)"
    using assms(2) by (simp add: submitBill_def)
  then show ?thesis
    using bill_form.sends [OF p, of k b] bill_form.keeps [of k f b]
      bill_form.succeeds [OF p, of k b] bill_form.fails [OF p, of k b]
    by (simp split: option.split)
qed

text \<open>A document as the server stores it, with an upper-case currency.\<close>

definition clean_bill :: "DocumentBalance \<Rightarrow> bool" where
  "clean_bill d \<longleftrightarrow> trim (db_number d) = db_number d \<and> clean (db_due_date d)
     \<and> clean (db_reference d) \<and> clean (db_memo d)
     \<and> toUpperCase (trim (db_currency_code d)) = db_currency_code d"

definition clean_bill_line :: "PurchaseBillLine \<Rightarrow> bool" where
  "clean_bill_line l \<longleftrightarrow> trim (pbl_description l) = pbl_description l \<and> pbl_tax_code l \<noteq> Some NONE
     \<and> printed (pbl_quantity l) \<and> printed (pbl_unit_cost l) \<and> printed (pbl_tax_rate l)"

lemma bill_line_back:
  assumes "clean_bill_line l"
  shows "bill_line_input (bill_line_of l) = \<lparr>pbli_product_id = pbl_product_id l,
     pbli_description = pbl_description l, pbli_quantity = trimAmount (pbl_quantity l),
     pbli_unit_cost = trimAmount (pbl_unit_cost l),
     pbli_expense_account_id = pbl_expense_account_id l, pbli_tax_code = pbl_tax_code l,
     pbli_tax_rate = trimAmount (pbl_tax_rate l)\<rparr>"
  using assms by (simp add: bill_line_input_def bill_line_of_def clean_bill_line_def printed_input)

definition same_bill_line :: "PurchaseBillLine \<Rightarrow> PurchaseBillLineInput \<Rightarrow> bool" where
  "same_bill_line l i \<longleftrightarrow> pbli_product_id i = pbl_product_id l \<and> pbli_description i = pbl_description l
     \<and> pbli_expense_account_id i = pbl_expense_account_id l \<and> pbli_tax_code i = pbl_tax_code l
     \<and> amount_value (pbli_quantity i) = amount_value (pbl_quantity l)
     \<and> amount_value (pbli_unit_cost i) = amount_value (pbl_unit_cost l)
     \<and> amount_value (pbli_tax_rate i) = amount_value (pbl_tax_rate l)"

text \<open>Editing changes only what the user edits: opening a draft and saving it at once sends
  back the bill it loaded, header and lines, with every amount of the same value.\<close>

theorem bill_edit_roundtrip:
  assumes "db_status d = ''draft''" "list_all (\<lambda>l. pbl_order_line_id l = None) ls"
    and "clean_bill d" "list_all clean_bill_line ls"
    and "f = bill_loaded False (Inr (supps, orgs, prods, taxes, accts, Some d, Some ls))
      (bill_init date)"
  shows "bv_loaded f \<and> bv_error f = None
    \<and> bill_input f = \<lparr>pbi_bill_number = db_number d, pbi_supplier_id = db_party_id d,
        pbi_bill_date = db_date d, pbi_due_date = db_due_date d,
        pbi_currency_code = db_currency_code d, pbi_reference = db_reference d,
        pbi_memo = db_memo d, pbi_lines = pbi_lines (bill_input f)\<rparr>
    \<and> list_all2 same_bill_line ls (pbi_lines (bill_input f))
    \<and> sent (snd (submitBill (Some n) f b))
        = sent b @ [bill_request (Some n) (bill_input f)]"
proof -
  have nl: "\<not> list_ex (\<lambda>l. pbl_order_line_id l \<noteq> None) ls"
    using assms(2) by (auto simp: list_ex_iff list_all_iff)
  have f: "bv_loaded f" "bv_error f = None" "bv_supplierId f = show_int (db_party_id d)"
    "bv_billNumber f = db_number d" "bv_billDate f = db_date d"
    "bv_dueDate f = or_empty (db_due_date d)" "bv_currencyCode f = db_currency_code d"
    "bv_reference f = or_empty (db_reference d)" "bv_memo f = or_empty (db_memo d)"
    "bv_lines f = map bill_line_of ls"
    using assms(1,5) nl by (simp_all add: bill_loaded_def bill_init_def)
  have "bill_problem f = None" using f(3) by (simp add: bill_problem_def)
  then have "sent (snd (submitBill (Some n) f b))
      = sent b @ [bill_request (Some n) (bill_input f)]"
    using bill_form.sends [of f "Some n" b] by simp
  moreover have "list_all2 same_bill_line ls (pbi_lines (bill_input f))"
    using assms(4)
    by (auto simp: bill_input_def f list_all2_conv_all_nth list_all_length bill_line_back
        same_bill_line_def clean_bill_line_def trimAmount_printed)
  ultimately show ?thesis
    using f(1,2) assms(3)
    by (simp add: bill_input_def f clean_bill_def clean_def)
qed

definition sample_bill :: PurchaseBill where
  "sample_bill = \<lparr>da_currency_code = ''EUR'', da_status = ''draft'', da_total = ''120.0000'',
     da_amount_applied = ''0.0000'', da_balance = ''120.0000'', da_journal_entry_id = None,
     da_reference = Some ''PO 12'', da_memo = None, pb_id = 7, pb_bill_number = ''B-7'', pb_supplier_id = 5,
     pb_bill_date = ''2024-05-02'', pb_due_date = None, pb_payment_status = ''unpaid''\<rparr>"

definition sample_bill_line :: PurchaseBillLine where
  "sample_bill_line = \<lparr>pbl_line_no = 1, pbl_product_id = Some 4, pbl_description = ''Paper'',
     pbl_quantity = ''3.0000'', pbl_unit_cost = ''40.0000'', pbl_tax_code = Some ''VAT'',
     pbl_tax_rate = ''0.0000'', pbl_line_subtotal = ''120.0000'', pbl_tax_amount = ''0.0000'',
     pbl_line_total = ''120.0000'', pbl_expense_account_id = None, pbl_order_line_id = None\<rparr>"

theorem bill_edit_roundtrip_witness:
  "\<exists>i. pbi_lines (bill_input (bill_loaded False
      (Inr ([], [], [], [], [], Some (fromPurchaseBill sample_bill), Some [sample_bill_line]))
      (bill_init []))) = [i] \<and> same_bill_line sample_bill_line i"
proof -
  have "db_status (fromPurchaseBill sample_bill) = ''draft''"
    "list_all (\<lambda>l. pbl_order_line_id l = None) [sample_bill_line]"
    "clean_bill (fromPurchaseBill sample_bill)" "list_all clean_bill_line [sample_bill_line]"
    by code_simp+
  from bill_edit_roundtrip [OF this refl, of "[]" "[]" "[]" "[]" "[]" "[]" 0 undefined]
  show ?thesis by (auto simp: list_all2_Cons1)
qed

section \<open>Documents that must not be rewritten\<close>

definition bill_locked :: "bill_data \<Rightarrow> bool" where
  "bill_locked data = (case data of (_, _, _, _, _, doc, docLines) \<Rightarrow>
     (case (doc, docLines) of
       (Some d, Some ls) \<Rightarrow> db_status d \<noteq> ''draft'' \<or> list_ex (\<lambda>l. pbl_order_line_id l \<noteq> None) ls
     | _ \<Rightarrow> False))"

lemma load_bill_form_reads: "reads_only (load_bill_form k)"
  unfolding load_bill_form_def
  by (intro reading; unfold listSuppliers_def listOrganizations_def listProducts_def
    listTaxCodes_def listAccounts_def getPurchaseBill_def getPurchaseBillLines_def; intro reading)

definition initial_bill :: "BillForm \<Rightarrow> bool" where
  "initial_bill f \<longleftrightarrow> (\<exists>date. f = bill_init date)"

interpretation bill_edit: edit_form "load_bill_form k" bill_loaded
    "\<lambda>f. offers (bill_view k f)" "bill_step k" initial_bill bv_loaded bill_locked for k
proof unfold_locales
  fix f :: BillForm and r c e
  show "reads_only (load_bill_form k)" by (rule load_bill_form_reads)
  show "\<not> bv_loaded f \<Longrightarrow> (\<And>data. r = Inr data \<Longrightarrow> bill_locked data) \<Longrightarrow> \<not> bv_loaded (bill_loaded c r f)"
    by (auto simp: bill_loaded_def bill_locked_def Let_def split: sum.splits option.splits)
  show "\<not> bv_loaded f \<Longrightarrow> \<not> offers (bill_view k f) e"
    by (auto simp: bill_view_def split: option.splits)
  show "initial_bill f \<Longrightarrow> \<not> bv_loaded f"
    by (auto simp: initial_bill_def bill_init_def)
qed

text \<open>The edit form never writes to an bill that is posted or that came from an order: as
  long as the server answers with such a document (or not at all), every request the form makes,
  however often it loads and whatever the user does, is a GET, and no submit button appears.\<close>

theorem locked_bill_untouched:
  assumes "always_loads net (load_bill_form (Some n)) bill_locked"
    and "reachable (fresh_on net initial_bill) (bill_move (Some n)) (f, b)"
  shows "list_all (\<lambda>rq. rq_method rq = ''GET'') (sent b) \<and> \<not> offers (bill_view (Some n) f) Submit"
  using bill_edit.untouched [OF assms(1) assms(2) [unfolded bill_move_def]] .

definition sample_bill_server :: "string \<Rightarrow> string \<Rightarrow> body" where
  "sample_bill_server state path =
     (if path = ''/api/suppliers'' then Master (Supplier_List [])
      else if path = ''/api/organizations'' then Master (Organization_List [])
      else if path = ''/api/products'' then Master (Product_List [])
      else if path = ''/api/tax-codes'' then Master (TaxCode_List [])
      else if path = ''/api/accounts'' then Master (Account_List [])
      else if path = ''/api/purchase-bills/7'' then
        Document (PurchaseBill_Body (sample_bill\<lparr>da_status := state\<rparr>))
      else Document (PurchaseBillLine_List [sample_bill_line]))"

lemma load_bill_from_sample:
  assumes "network b = answering (sample_bill_server state)"
  shows "\<exists>b'. load_bill_form (Some 7) b = (Inr ([], [], [], [], [],
      Some (fromPurchaseBill (sample_bill\<lparr>da_status := state\<rparr>)), Some [sample_bill_line]), b')"
proof -
  have "show_int 7 = ''7''" by code_simp
  then show ?thesis
    using assms
    by (simp add: load_bill_form_def both_io_result listSuppliers_def listOrganizations_def
        listProducts_def listTaxCodes_def listAccounts_def getPurchaseBill_def
        getPurchaseBillLines_def get_answering map_io_def then_io_def return_io_def
        master_as_def document_as_def BASE_def sample_bill_server_def)
qed

definition sample_bill_browser :: "string \<Rightarrow> (unit, payload, body) browser" where
  "sample_bill_browser state =
     \<lparr>network = answering (sample_bill_server state), world = (), sent = [], events = []\<rparr>"

theorem locked_bill_untouched_witness:
  "(\<exists>b'. load_bill_form (Some 7) (sample_bill_browser ''posted'')
      = (Inr ([], [], [], [], [], Some (fromPurchaseBill (sample_bill\<lparr>da_status := ''posted''\<rparr>)),
          Some [sample_bill_line]), b')
      \<and> list_all (\<lambda>rq. rq_method rq = ''GET'') (sent b'))
   \<and> \<not> offers (bill_view (Some 7) (bill_loaded False
        (fst (load_bill_form (Some 7) (sample_bill_browser ''posted''))) (bill_init []))) Submit"
proof -
  let ?b = "sample_bill_browser ''posted''"
  have n: "network ?b = answering (sample_bill_server ''posted'')" by (simp add: sample_bill_browser_def)
  obtain b' where b': "load_bill_form (Some 7) ?b = (Inr ([], [], [], [], [],
      Some (fromPurchaseBill (sample_bill\<lparr>da_status := ''posted''\<rparr>)), Some [sample_bill_line]), b')"
    using load_bill_from_sample [OF n] by blast
  have "db_status (fromPurchaseBill (sample_bill\<lparr>da_status := ''posted''\<rparr>)) \<noteq> ''draft''"
    by code_simp
  then have l: "always_loads (network ?b) (load_bill_form (Some 7)) bill_locked"
    unfolding n using load_bill_from_sample [of _ "''posted''"]
    by (fastforce simp: always_loads_def bill_locked_def)
  have s: "reachable (fresh_on (network ?b) initial_bill) (bill_move (Some 7)) (bill_init [], ?b)"
    by (rule reachable.starting) (auto simp: fresh_on_def initial_bill_def sample_bill_browser_def)
  have m: "bill_move (Some 7) (bill_init [], ?b)
      (bill_loaded False (fst (load_bill_form (Some 7) ?b)) (bill_init []), b')"
    unfolding bill_move_def by (rule form_move.load) (simp add: b')
  from s m have "reachable (fresh_on (network ?b) initial_bill) (bill_move (Some 7))
      (bill_loaded False (fst (load_bill_form (Some 7) ?b)) (bill_init []), b')"
    by (rule reachable.moving)
  then have u: "list_all (\<lambda>rq. rq_method rq = ''GET'') (sent b')
    \<and> \<not> offers (bill_view (Some 7) (bill_loaded False
        (fst (load_bill_form (Some 7) ?b)) (bill_init []))) Submit"
    by (rule locked_bill_untouched [OF l])
  show ?thesis
    by (rule conjI, rule exI [of _ b'], rule conjI [OF b' conjunct1 [OF u]], rule conjunct2 [OF u])
qed

end
