(* ===== verification/Document_List.thy ===== *)
theory Document_List
  imports Forms
begin

text \<open>
  The shared list screen of invoices, bills and credit notes
  (\<open>web/src/components/document-list.tsx\<close>), with the joins of party names it exports, the two
  badges, and the amount cell (\<open>amount-cell.tsx\<close>). A Map is a function to an option.
\<close>

section \<open>Party names\<close>

definition customer_names :: "Customer list \<Rightarrow> Organization list \<Rightarrow> int \<Rightarrow> string option" where
  "customer_names customers orgs = map_of (rev (map (\<lambda>c. (cust_id c,
     party_name orgs (cust_organization_id c) (cust_id c))) customers))"

definition fetchCustomerNames :: "('w, int \<Rightarrow> string option) call" where
  "fetchCustomerNames =
     map_io (\<lambda>(customers, orgs). customer_names customers orgs) (both_io listCustomers listOrganizations)"

definition supplier_names :: "Supplier list \<Rightarrow> Organization list \<Rightarrow> int \<Rightarrow> string option" where
  "supplier_names suppliers orgs = map_of (rev (map (\<lambda>s. (supp_id s,
     party_name orgs (supp_organization_id s) (supp_id s))) suppliers))"

definition fetchSupplierNames :: "('w, int \<Rightarrow> string option) call" where
  "fetchSupplierNames =
     map_io (\<lambda>(suppliers, orgs). supplier_names suppliers orgs) (both_io listSuppliers listOrganizations)"

text \<open>\<open>names.get(id) ?? `#${id}`\<close>\<close>

definition name_or_id :: "(int \<Rightarrow> string option) \<Rightarrow> int \<Rightarrow> string" where
  "name_or_id names k = (case names k of Some n \<Rightarrow> n | None \<Rightarrow> ''#'' @ show_int k)"

section \<open>Badges and amounts\<close>

datatype badge = Default_Badge | Destructive_Badge | Secondary_Badge | Outline_Badge

definition StatusBadge :: "string \<Rightarrow> badge" where
  "StatusBadge st = (if st = ''posted'' then Default_Badge
     else if st = ''void'' then Destructive_Badge else Outline_Badge)"

definition PaymentBadge :: "string \<Rightarrow> badge" where
  "PaymentBadge st = (if st = ''paid'' \<or> st = ''applied'' then Default_Badge
     else if st = ''partial'' then Secondary_Badge else Outline_Badge)"

text \<open>The text of the cell, and whether it is muted; the zero test throws on a text that is no
  number.\<close>

definition AmountCell :: "string \<Rightarrow> (string \<times> bool) option" where
  "AmountCell v = map_option (\<lambda>z. (formatAmount v, z)) (isZeroAmount v)"

section \<open>The list\<close>

record DocumentList =
  dl_documents :: "DocumentBalance list option"
  dl_partyNames :: "int \<Rightarrow> string option"
  dl_error :: "string option"

definition document_list_init :: DocumentList where
  "document_list_init = \<lparr>dl_documents = None, dl_partyNames = (\<lambda>_. None), dl_error = None\<rparr>"

definition documents_loaded :: "bool \<Rightarrow> exn + DocumentBalance list \<times> (int \<Rightarrow> string option)
    \<Rightarrow> DocumentList \<Rightarrow> DocumentList" where
  "documents_loaded cancelled result s = (case result of
       Inr (docs, names) \<Rightarrow> if cancelled then s else s\<lparr>dl_partyNames := names, dl_documents := Some docs\<rparr>
     | Inl err \<Rightarrow> if cancelled then s else s\<lparr>dl_error := Some (error_message err)\<rparr>)"

record 'w list_config =
  lc_title :: string
  lc_description :: string
  lc_partyLabel :: string
  lc_paymentLabel :: string
  lc_showDue :: bool
  lc_newLabel :: string
  lc_basePath :: string
  lc_emptyMessage :: string
  lc_fetchDocuments :: "('w, DocumentBalance list) call"
  lc_fetchPartyNames :: "('w, int \<Rightarrow> string option) call"

definition Invoices :: "'w list_config" where
  "Invoices = \<lparr>lc_title = ''Sales Invoices'', lc_description = ''Draft and posted invoices, newest first.'',
     lc_partyLabel = ''Customer'', lc_paymentLabel = ''Payment'', lc_showDue = True,
     lc_newLabel = ''New invoice'', lc_basePath = ''/invoices'', lc_emptyMessage = ''No invoices yet.'',
     lc_fetchDocuments = listSalesInvoices, lc_fetchPartyNames = fetchCustomerNames\<rparr>"

definition Bills :: "'w list_config" where
  "Bills = \<lparr>lc_title = ''Purchase Bills'', lc_description = ''Draft and posted bills, newest first.'',
     lc_partyLabel = ''Supplier'', lc_paymentLabel = ''Payment'', lc_showDue = True,
     lc_newLabel = ''New bill'', lc_basePath = ''/bills'', lc_emptyMessage = ''No bills yet.'',
     lc_fetchDocuments = listPurchaseBills, lc_fetchPartyNames = fetchSupplierNames\<rparr>"

definition CreditNotes :: "'w list_config" where
  "CreditNotes = \<lparr>lc_title = ''Credit Notes'',
     lc_description = ''Credit issued to customers, newest first.'',
     lc_partyLabel = ''Customer'', lc_paymentLabel = ''Applied'', lc_showDue = False,
     lc_newLabel = ''New credit note'', lc_basePath = ''/credit-notes'',
     lc_emptyMessage = ''No credit notes yet.'',
     lc_fetchDocuments = listSalesCreditNotes, lc_fetchPartyNames = fetchCustomerNames\<rparr>"

definition SupplierCredits :: "'w list_config" where
  "SupplierCredits = \<lparr>lc_title = ''Supplier Credits'',
     lc_description = ''Credit received from suppliers, newest first.'',
     lc_partyLabel = ''Supplier'', lc_paymentLabel = ''Applied'', lc_showDue = False,
     lc_newLabel = ''New supplier credit'', lc_basePath = ''/supplier-credits'',
     lc_emptyMessage = ''No supplier credits yet.'',
     lc_fetchDocuments = listPurchaseCreditNotes, lc_fetchPartyNames = fetchSupplierNames\<rparr>"

definition load_documents :: "'w list_config \<Rightarrow> ('w, DocumentBalance list \<times> (int \<Rightarrow> string option)) call" where
  "load_documents c = both_io (lc_fetchDocuments c) (lc_fetchPartyNames c)"

text \<open>A row; the two badges appear as their texts.\<close>

definition document_row :: "'w list_config \<Rightarrow> (int \<Rightarrow> string option) \<Rightarrow> DocumentBalance \<Rightarrow> string list" where
  "document_row c names doc =
     [db_number doc, name_or_id names (db_party_id doc), db_date doc]
     @ guarded (lc_showDue c) [case db_due_date doc of Some d \<Rightarrow> d | None \<Rightarrow> em_dash]
     @ [db_status doc, db_payment_status doc, formatAmount (db_total doc), formatAmount (db_balance doc)]"

definition document_list_view :: "'w list_config \<Rightarrow> DocumentList \<Rightarrow> unit element list" where
  "document_list_view c s =
     [Heading (lc_title c), Note (lc_description c), Link (lc_newLabel c) (lc_basePath c @ ''/new'')]
     @ (case dl_error s of None \<Rightarrow> [] | Some e \<Rightarrow> [Alert (''Failed to load: '' @ e)])
     @ guarded (dl_error s = None \<and> dl_documents s = None) [Note ''Loading...'']
     @ (case dl_documents s of
          None \<Rightarrow> []
        | Some [] \<Rightarrow> [Note (lc_emptyMessage c)]
        | Some docs \<Rightarrow>
            [Table ([''Number'', lc_partyLabel c, ''Date''] @ guarded (lc_showDue c) [''Due'']
               @ [''Status'', lc_paymentLabel c, ''Total'', ''Balance''])
              (map (document_row c (dl_partyNames s)) docs)]
            @ map (\<lambda>doc. Link (db_number doc) (lc_basePath c @ ''/'' @ show_int (db_id doc))) docs)"

section \<open>Facts\<close>

lemma document_row_columns:
  "length (document_row c names doc) = (if lc_showDue c then 8 else 7)"
  by (simp add: document_row_def guarded_def)

lemma fetch_names_reads [reading]: "reads_only fetchCustomerNames" "reads_only fetchSupplierNames"
  unfolding fetchCustomerNames_def fetchSupplierNames_def listCustomers_def listOrganizations_def
    listSuppliers_def by (intro reading)+

end
