(* ===== verification/Actions.thy ===== *)
theory Actions
  imports Forms
begin

text \<open>
  Screens with actions that stay pending. A detail screen of the front end loads in an effect,
  and starts an action (post, delete, confirm, ...) when a button is clicked: the synchronous part
  marks the screen as acting, the promise settles later, in any order with the effect and with
  what the user does meanwhile. A screen is its state, the actions in flight, oldest first, and
  the browser. The contract that keeps one action in flight at a time is an interface, and so are
  the ones about what the actions send and about the offers the requests go back to.
\<close>

inductive screen_move :: "('c \<Rightarrow> 'f \<times> 's \<Rightarrow> 'f \<times> 's) \<Rightarrow> ('f \<Rightarrow> 'e \<Rightarrow> bool) \<Rightarrow> ('e \<Rightarrow> 'a option)
    \<Rightarrow> ('a \<Rightarrow> 'f \<Rightarrow> 'f) \<Rightarrow> ('a \<Rightarrow> 'f \<times> 's \<Rightarrow> 'f \<times> 's) \<Rightarrow> ('e \<Rightarrow> 'f \<Rightarrow> 'f)
    \<Rightarrow> 'f \<times> 'a list \<times> 's \<Rightarrow> 'f \<times> 'a list \<times> 's \<Rightarrow> bool"
  for effect offer action start settle react where
  effect: "effect c (f, b) = (f', b') \<Longrightarrow>
    screen_move effect offer action start settle react (f, pend, b) (f', pend, b')"
| start: "offer f e \<Longrightarrow> action e = Some a \<Longrightarrow>
    screen_move effect offer action start settle react (f, pend, b) (start a f, pend @ [a], b)"
| settle: "settle a (f, b) = (f', b') \<Longrightarrow>
    screen_move effect offer action start settle react (f, before @ a # after, b) (f', before @ after, b')"
| react: "offer f e \<Longrightarrow> action e = None \<Longrightarrow>
    screen_move effect offer action start settle react (f, pend, b) (react e f, pend, b)"

inductive_cases screen_moveE: "screen_move effect offer action start settle react (f, pend, b) (f', pend', b')"

lemma screen_move_cases [consumes 1, case_names effect start settle react]:
  assumes "screen_move effect offer action start settle react (f, pend, b) (f', pend', b')"
    and "\<And>c. effect c (f, b) = (f', b') \<Longrightarrow> pend' = pend \<Longrightarrow> P"
    and "\<And>e a. offer f e \<Longrightarrow> action e = Some a \<Longrightarrow> f' = start a f \<Longrightarrow> pend' = pend @ [a] \<Longrightarrow> b' = b \<Longrightarrow> P"
    and "\<And>a xs ys. settle a (f, b) = (f', b') \<Longrightarrow> pend = xs @ a # ys \<Longrightarrow> pend' = xs @ ys \<Longrightarrow> P"
    and "\<And>e. offer f e \<Longrightarrow> action e = None \<Longrightarrow> f' = react e f \<Longrightarrow> pend' = pend \<Longrightarrow> b' = b \<Longrightarrow> P"
  shows P
  using assms(1)
  apply (rule screen_moveE)
     apply (rule assms(2); simp)
    apply (rule assms(3); simp)
   apply (rule assms(4); simp)
  apply (rule assms(5); simp)
  done

definition opened :: "('f \<Rightarrow> bool) \<Rightarrow> 'f \<times> 'a list \<times> ('w, 'p, 'b) browser \<Rightarrow> bool" where
  "opened initial s \<longleftrightarrow> initial (fst s) \<and> fst (snd s) = [] \<and> sent (snd (snd s)) = []"

section \<open>One action at a time\<close>

text \<open>While a screen is acting it offers no further action; only settling an action ends that.\<close>

locale exclusive_actions =
  fixes effect :: "'c \<Rightarrow> 'f \<times> ('w, 'p, 'b) browser \<Rightarrow> 'f \<times> ('w, 'p, 'b) browser"
    and offer :: "'f \<Rightarrow> 'e \<Rightarrow> bool"
    and action :: "'e \<Rightarrow> 'a option"
    and start :: "'a \<Rightarrow> 'f \<Rightarrow> 'f"
    and settle :: "'a \<Rightarrow> 'f \<times> ('w, 'p, 'b) browser \<Rightarrow> 'f \<times> ('w, 'p, 'b) browser"
    and react :: "'e \<Rightarrow> 'f \<Rightarrow> 'f"
    and initial :: "'f \<Rightarrow> bool"
    and acting :: "'f \<Rightarrow> bool"
  assumes starts_acting: "acting (start a f)"
    and acting_blocks: "acting f \<Longrightarrow> offer f e \<Longrightarrow> action e = None"
    and effect_keeps: "acting (fst (effect c (f, b))) = acting f"
    and react_keeps: "action e = None \<Longrightarrow> acting (react e f) = acting f"
begin

definition single :: "'f \<times> 'a list \<times> ('w, 'p, 'b) browser \<Rightarrow> bool" where
  "single s \<longleftrightarrow> (case s of (f, pend, b) \<Rightarrow> pend = [] \<or> (acting f \<and> length pend = 1))"

lemma single_move:
  assumes "single (f, pend, b)"
    and "screen_move effect offer action start settle react (f, pend, b) (f', pend', b')"
  shows "single (f', pend', b')"
  using assms(2)
proof (cases rule: screen_move_cases)
  case (effect c)
  with assms(1) effect_keeps [of c f b] show ?thesis by (auto simp: single_def)
next
  case (start e a)
  with assms(1) acting_blocks [of f e] starts_acting [of a f] show ?thesis by (auto simp: single_def)
next
  case (settle a xs ys)
  with assms(1) show ?thesis by (auto simp: single_def)
next
  case (react e)
  with assms(1) react_keeps [of e f] show ?thesis by (auto simp: single_def)
qed

end

sublocale exclusive_actions \<subseteq> in_flight: invariant "opened initial"
  "screen_move effect offer action start settle react" single
proof unfold_locales
  fix s s'
  show "opened initial s \<Longrightarrow> single s" by (auto simp: opened_def single_def)
  show "single s \<Longrightarrow> screen_move effect offer action start settle react s s' \<Longrightarrow> single s'"
    using single_move by (cases s, cases s') blast
qed

context exclusive_actions
begin

lemma at_most_one:
  assumes "reachable (opened initial) (screen_move effect offer action start settle react) (f, pend, b)"
  shows "length pend \<le> 1 \<and> (pend \<noteq> [] \<longrightarrow> (\<forall>e. offer f e \<longrightarrow> action e = None))"
  using in_flight.reachable_inv [OF assms] acting_blocks by (auto simp: single_def)

end

section \<open>What the actions send\<close>

text \<open>The effect only reads, and an action makes its own request before it reads again. Then
  nothing else than the requests of actions is ever written.\<close>

definition appends :: "('p request \<Rightarrow> bool) \<Rightarrow> ('w, 'p, 'b) browser \<Rightarrow> ('w, 'p, 'b) browser \<Rightarrow> bool" where
  "appends P b b' \<longleftrightarrow> (\<exists>rqs. sent b' = sent b @ rqs \<and> list_all P rqs)"

lemma appends_refl [simp]: "appends P b b"
  by (simp add: appends_def)

lemma appends_trans: "appends P b b' \<Longrightarrow> appends P b' b'' \<Longrightarrow> appends P b b''"
  unfolding appends_def by fastforce

lemma appends_mono: "appends P b b' \<Longrightarrow> (\<And>rq. P rq \<Longrightarrow> Q rq) \<Longrightarrow> appends Q b b'"
  unfolding appends_def by (metis list.pred_mono_strong)

lemma appends_sent: "appends P b b' \<Longrightarrow> list_all P (sent b) \<Longrightarrow> list_all P (sent b')"
  by (auto simp: appends_def)

lemma reads_appends: "reads_only m \<Longrightarrow> appends (\<lambda>rq. rq_method rq = ''GET'') b (snd (m b))"
  unfolding reads_only_def appends_def by blast

locale writing_actions =
  fixes effect :: "'c \<Rightarrow> 'f \<times> ('w, 'p, 'b) browser \<Rightarrow> 'f \<times> ('w, 'p, 'b) browser"
    and offer :: "'f \<Rightarrow> 'e \<Rightarrow> bool"
    and action :: "'e \<Rightarrow> 'a option"
    and start :: "'a \<Rightarrow> 'f \<Rightarrow> 'f"
    and settle :: "'a \<Rightarrow> 'f \<times> ('w, 'p, 'b) browser \<Rightarrow> 'f \<times> ('w, 'p, 'b) browser"
    and react :: "'e \<Rightarrow> 'f \<Rightarrow> 'f"
    and initial :: "'f \<Rightarrow> bool"
    and allowed :: "'p request \<Rightarrow> bool"
  assumes effect_sends: "appends allowed b (snd (effect c (f, b)))"
    and settle_sends: "appends allowed b (snd (settle a (f, b)))"
begin

lemma all_allowed:
  assumes "reachable (opened initial) (screen_move effect offer action start settle react) s"
  shows "list_all allowed (sent (snd (snd s)))"
  using assms
proof (induction rule: reachable.induct)
  case (starting s)
  then show ?case by (simp add: opened_def)
next
  case (moving s s')
  obtain f pend b f' pend' b' where s: "s = (f, pend, b)" "s' = (f', pend', b')"
    by (cases s, cases s') auto
  from moving.hyps(2) have "appends allowed b b'"
    unfolding s
  proof (cases rule: screen_move_cases)
    case (effect c)
    then show ?thesis using effect_sends [of b c f] by simp
  next
    case (settle a xs ys)
    then show ?thesis using settle_sends [of b a f] by simp
  qed simp_all
  then show ?case using moving.IH by (simp add: s appends_sent)
qed

end

section \<open>Requests traced back to what was offered\<close>

text \<open>On screens with one action at a time whose effect only reads and whose actions make their own
  request, every write of a run goes back to an action the screen offered earlier in that run, while
  nothing else was in flight.\<close>

locale traced_actions = exclusive_actions effect offer action start settle react initial acting
  for effect :: "'c \<Rightarrow> 'f \<times> ('w, 'p, 'b) browser \<Rightarrow> 'f \<times> ('w, 'p, 'b) browser"
    and offer :: "'f \<Rightarrow> 'e \<Rightarrow> bool"
    and action :: "'e \<Rightarrow> 'a option"
    and start :: "'a \<Rightarrow> 'f \<Rightarrow> 'f"
    and settle :: "'a \<Rightarrow> 'f \<times> ('w, 'p, 'b) browser \<Rightarrow> 'f \<times> ('w, 'p, 'b) browser"
    and react :: "'e \<Rightarrow> 'f \<Rightarrow> 'f"
    and initial :: "'f \<Rightarrow> bool"
    and acting :: "'f \<Rightarrow> bool" +
  fixes request_of :: "'a \<Rightarrow> 'p request"
  assumes effect_reads: "appends (\<lambda>r. rq_method r = ''GET'') b (snd (effect c (f, b)))"
    and settle_own: "appends (\<lambda>r. r = request_of a \<or> rq_method r = ''GET'') b (snd (settle a (f, b)))"
begin

definition started :: "'f \<times> 'a list \<times> ('w, 'p, 'b) browser \<Rightarrow> 'a \<Rightarrow> bool" where
  "started x a \<longleftrightarrow> (\<exists>f b e. reachable (opened initial) (screen_move effect offer action start settle react) (f, [], b)
     \<and> offer f e \<and> action e = Some a \<and> (screen_move effect offer action start settle react)\<^sup>*\<^sup>* (f, [], b) x)"

definition traced :: "'f \<times> 'a list \<times> ('w, 'p, 'b) browser \<Rightarrow> 'p request \<Rightarrow> bool" where
  "traced x rq \<longleftrightarrow> rq_method rq = ''GET'' \<or> (\<exists>a. started x a \<and> rq = request_of a)"

lemma started_later:
  assumes "screen_move effect offer action start settle react x y" "started x a"
  shows "started y a"
  using assms(2) unfolding started_def
  by (elim exE conjE, intro exI conjI) (assumption+, rule rtranclp.rtrancl_into_rtrancl, assumption, rule assms(1))

lemma traced_later:
  "screen_move effect offer action start settle react x y \<Longrightarrow> traced x rq \<Longrightarrow> traced y rq"
  using started_later unfolding traced_def by blast

lemma requests_traced:
  assumes "reachable (opened initial) (screen_move effect offer action start settle react) x"
  shows "list_all (started x) (fst (snd x)) \<and> list_all (traced x) (sent (snd (snd x)))"
  using assms
proof (induction rule: reachable.induct)
  case (starting x)
  then show ?case by (simp add: opened_def)
next
  case (moving x x')
  obtain f pend b f' pend' b' where s: "x = (f, pend, b)" "x' = (f', pend', b')"
    by (cases x, cases x') auto
  have ih: "list_all (started x') pend" "list_all (traced x') (sent b)"
    using moving.IH started_later [OF moving.hyps(2)] traced_later [OF moving.hyps(2)]
    by (simp_all add: s(1) list_all_iff)
  note r = moving.hyps(1) [unfolded s]
  from moving.hyps(2) [unfolded s] have "list_all (started x') pend' \<and> list_all (traced x') (sent b')"
  proof (cases rule: screen_move_cases)
    case (effect c)
    have "appends (traced x') b (snd (effect c (f, b)))" for c
      by (rule appends_mono [OF effect_reads]) (simp add: traced_def)
    from this [of c] have "list_all (traced x') (sent b')" using effect ih(2) by (simp add: appends_sent)
    then show ?thesis using effect ih(1) by simp
  next
    case (start e a)
    then have "pend = []" using at_most_one [OF r] by auto
    with r start moving.hyps(2) have "started x' a"
      unfolding started_def s(1) by (intro exI [of _ f] exI [of _ b] exI [of _ e] conjI r_into_rtranclp) simp_all
    then show ?thesis using start ih by simp
  next
    case (settle a xs ys)
    then have "started x' a" using ih(1) by simp
    then have "appends (traced x') b (snd (settle a (f, b)))"
      by (intro appends_mono [OF settle_own]) (auto simp: traced_def)
    then have "list_all (traced x') (sent b')" using settle ih(2) by (simp add: appends_sent)
    then show ?thesis using settle ih(1) by simp
  next
    case (react e)
    then show ?thesis using ih by simp
  qed
  then show ?case by (simp add: s)
qed

end

section \<open>An action and the load that follows\<close>

text \<open>\<open>action(id).then(load)\<close>\<close>

definition then_load :: "('w, 'x) call \<Rightarrow> ('w, 'd) call \<Rightarrow> ('w, 'd) call" where
  "then_load call load = then_io call (\<lambda>_. load)"

lemma then_load_sends:
  assumes "makes call rq" "reads_only load"
  shows "appends (\<lambda>r. r = rq \<or> rq_method r = ''GET'') b (snd (then_load call load b))"
proof -
  let ?P = "\<lambda>r. r = rq \<or> rq_method r = ''GET''"
  have c: "appends ?P b (snd (call b))"
    using assms(1) by (simp add: makes_sent appends_def)
  have l: "appends ?P b' (snd (load b'))" for b'
    by (rule appends_mono [OF reads_appends [OF assms(2)]]) simp
  obtain r b' where r: "call b = (r, b')" by (cases "call b")
  show ?thesis
  proof (cases r)
    case (Inl e)
    then show ?thesis using c r by (simp add: then_load_def then_io_def)
  next
    case (Inr x)
    have "appends ?P b b'" using c r by simp
    then have "appends ?P b (snd (load b'))" by (rule appends_trans) (rule l)
    then show ?thesis using Inr r by (simp add: then_load_def then_io_def)
  qed
qed

lemma then_load_result:
  "then_load call load b = (case call b of (Inl e, b') \<Rightarrow> (Inl e, b') | (Inr x, b') \<Rightarrow> load b')"
  by (simp add: then_load_def then_io_def)

section \<open>Refused requests\<close>

text \<open>The text shown when the server or the network fails a request, and calls that stop there.\<close>

definition failure_of :: "'p request \<Rightarrow> ('w, 'p, 'b) browser \<Rightarrow> string option" where
  "failure_of rq b = (case reply_to rq b of
       Rejected e \<Rightarrow> Some (save_message (Type_Error e))
     | Response st c \<Rightarrow> if ok st then None else Some (reply_message st c))"

definition stops :: "(('w, 'p, 'b) browser, 'a) io \<Rightarrow> 'p request \<Rightarrow> bool" where
  "stops m rq \<longleftrightarrow> (\<forall>b t. failure_of rq b = Some t \<longrightarrow>
     (\<exists>e. m b = (Inl e, after_exchange rq b) \<and> save_message e = t))"

named_theorems stopping \<open>calls that stop at a refused request\<close>

lemma stops_exchange: "stops (exchange rq read) rq"
  by (auto simp: stops_def failure_of_def exchange_failed exchange_rejected
      split: reply.splits if_splits)

lemma stops_client [stopping]:
  "stops (get cast p) (get_request p)" "stops (post cast p x) (body_request ''POST'' p x)"
  "stops (send v p x) (body_request v p x)" "stops (del p) (del_request p)"
  unfolding client_exchange by (rule stops_exchange)+

lemma stops_then [stopping]: "stops m rq \<Longrightarrow> stops (then_io m f) rq"
  unfolding stops_def then_io_def by fastforce

lemma stops_map [stopping]: "stops m rq \<Longrightarrow> stops (map_io f m) rq"
  unfolding map_io_def by (rule stops_then)

lemma stops_then_load [stopping]: "stops m rq \<Longrightarrow> stops (then_load m load) rq"
  unfolding then_load_def by (rule stops_then)

lemma stopsE:
  assumes "stops m rq" "failure_of rq b = Some t"
  obtains e where "m b = (Inl e, after_exchange rq b)" "save_message e = t"
  using assms unfolding stops_def by blast

end
