(* ===== verification/Progress.thy ===== *)
theory Progress
  imports Actions
begin

text \<open>
  What the detail screens promise about their actions, as an abstract machine with one slot: idle,
  busy with an action, or left for another page. The screens refine it when settling an action
  either frees the screen or leaves it.
\<close>

datatype 'a slot = Idle | Busy 'a | Left

inductive slot_step :: "'a slot \<Rightarrow> 'a slot \<Rightarrow> bool" where
  begins: "slot_step Idle (Busy a)"
| ends: "slot_step (Busy a) Idle"
| leaves: "slot_step (Busy a) Left"

inductive_simps slot_step_simps [simp]: "slot_step Idle s" "slot_step (Busy a) s" "slot_step Left s"

text \<open>The abstraction of a screen with its pending actions.\<close>

definition slot_of :: "('f \<Rightarrow> bool) \<Rightarrow> 'f \<times> 'a list \<times> 's \<Rightarrow> 'a slot" where
  "slot_of acting x = (case x of (f, pend, b) \<Rightarrow>
     (case pend of a # _ \<Rightarrow> Busy a | [] \<Rightarrow> if acting f then Left else Idle))"

locale recovering_actions =
  exclusive_actions effect offer action start settle react initial acting
  for effect :: "'c \<Rightarrow> 'f \<times> ('w, 'p, 'b) browser \<Rightarrow> 'f \<times> ('w, 'p, 'b) browser"
    and offer :: "'f \<Rightarrow> 'e \<Rightarrow> bool"
    and action :: "'e \<Rightarrow> 'a option"
    and start :: "'a \<Rightarrow> 'f \<Rightarrow> 'f"
    and settle :: "'a \<Rightarrow> 'f \<times> ('w, 'p, 'b) browser \<Rightarrow> 'f \<times> ('w, 'p, 'b) browser"
    and react :: "'e \<Rightarrow> 'f \<Rightarrow> 'f"
    and initial :: "'f \<Rightarrow> bool"
    and acting :: "'f \<Rightarrow> bool" +
  fixes gone :: "'f \<Rightarrow> bool"
  assumes starts_idle: "initial f \<Longrightarrow> \<not> acting f"
    and settle_ends: "\<not> acting (fst (settle a (f, b))) \<or> gone (fst (settle a (f, b)))"
    and effect_gone: "gone f \<Longrightarrow> gone (fst (effect c (f, b)))"
    and react_gone: "action e = None \<Longrightarrow> gone f \<Longrightarrow> gone (react e f)"
begin

text \<open>An acting screen has its action in flight, or is being left.\<close>

definition busy_or_left :: "'f \<times> 'a list \<times> ('w, 'p, 'b) browser \<Rightarrow> bool" where
  "busy_or_left x \<longleftrightarrow> single x \<and> (case x of (f, pend, b) \<Rightarrow> acting f \<longrightarrow> pend \<noteq> [] \<or> gone f)"

lemma busy_or_left_move:
  assumes "busy_or_left (f, pend, b)"
    and m: "screen_move effect offer action start settle react (f, pend, b) (f', pend', b')"
  shows "busy_or_left (f', pend', b')"
proof -
  have "single (f', pend', b')"
    using assms(1) single_move [OF _ m] by (simp add: busy_or_left_def)
  moreover have "acting f' \<longrightarrow> pend' \<noteq> [] \<or> gone f'"
    using m
  proof (cases rule: screen_move_cases)
    case (effect c)
    then show ?thesis
      using assms(1) effect_keeps [of c f b] effect_gone [of f c b] by (auto simp: busy_or_left_def)
  next
    case (settle a xs ys)
    then show ?thesis using settle_ends [of a f b] by auto
  next
    case (react e)
    then show ?thesis
      using assms(1) react_keeps [of e f] react_gone [of e f] by (auto simp: busy_or_left_def)
  qed simp_all
  ultimately show ?thesis by (simp add: busy_or_left_def)
qed

lemma slot_move:
  assumes "single (f, pend, b)"
    and "screen_move effect offer action start settle react (f, pend, b) (f', pend', b')"
  shows "slot_of acting (f', pend', b') = slot_of acting (f, pend, b)
    \<or> slot_step (slot_of acting (f, pend, b)) (slot_of acting (f', pend', b'))"
  using assms(2)
proof (cases rule: screen_move_cases)
  case (effect c)
  then show ?thesis using effect_keeps [of c f b] by (auto simp: slot_of_def split: list.split)
next
  case (start e a)
  then have "\<not> acting f" using acting_blocks by fastforce
  with assms(1) have "pend = []" by (simp add: single_def)
  then show ?thesis using start \<open>\<not> acting f\<close> by (simp add: slot_of_def)
next
  case (settle a xs ys)
  with assms(1) have "xs = []" "ys = []" by (auto simp: single_def)
  then show ?thesis using settle by (simp add: slot_of_def)
next
  case (react e)
  then show ?thesis using react_keeps [of e f] by (auto simp: slot_of_def split: list.split)
qed

end

sublocale recovering_actions \<subseteq> progress: invariant "opened initial"
  "screen_move effect offer action start settle react" busy_or_left
proof unfold_locales
  fix x x'
  show "opened initial x \<Longrightarrow> busy_or_left x"
    using in_flight.start_inv [of x] by (auto simp: opened_def busy_or_left_def starts_idle split: prod.split)
  show "busy_or_left x \<Longrightarrow> screen_move effect offer action start settle react x x' \<Longrightarrow> busy_or_left x'"
    using busy_or_left_move by (cases x, cases x') blast
qed

context recovering_actions
begin

text \<open>The refinement: every move of a screen is a step of the slot or leaves it as it is, and a
  screen that ends up left has set out for another page.\<close>

lemma refines_slot:
  assumes "reachable (opened initial) (screen_move effect offer action start settle react) x"
    and "screen_move effect offer action start settle react x y"
  shows "(slot_of acting y = slot_of acting x \<or> slot_step (slot_of acting x) (slot_of acting y))
    \<and> (slot_of acting y = Left \<longrightarrow> gone (fst y))"
proof
  have x: "busy_or_left x" by (rule progress.reachable_inv [OF assms(1)])
  obtain f pend b f' pend' b' where e: "x = (f, pend, b)" "y = (f', pend', b')" by (cases x, cases y)
  show "slot_of acting y = slot_of acting x \<or> slot_step (slot_of acting x) (slot_of acting y)"
    using x assms(2) slot_move unfolding e busy_or_left_def by blast
  have "busy_or_left y" by (rule progress.move_inv [OF x assms(2)])
  then show "slot_of acting y = Left \<longrightarrow> gone (fst y)"
    by (auto simp: e busy_or_left_def slot_of_def split: list.splits if_splits)
qed

text \<open>No screen stays busy for ever: what is in flight can settle, and that ends the action.\<close>

lemma settles:
  assumes "reachable (opened initial) (screen_move effect offer action start settle react) (f, pend, b)"
    and "acting f" "\<not> gone f"
  shows "\<exists>a. pend = [a] \<and> (let y = settle a (f, b) in
    screen_move effect offer action start settle react (f, pend, b) (fst y, [], snd y)
    \<and> (\<not> acting (fst y) \<or> gone (fst y)))"
proof -
  have "busy_or_left (f, pend, b)" by (rule progress.reachable_inv [OF assms(1)])
  then have "length pend = 1" using assms(2,3) by (auto simp: busy_or_left_def single_def)
  then obtain a where a: "pend = [a]" by (cases pend) auto
  have "screen_move effect offer action start settle react (f, [] @ a # [], b)
      (fst (settle a (f, b)), [] @ [], snd (settle a (f, b)))"
    by (rule screen_move.settle) simp
  then show ?thesis using settle_ends [of a f b] by (simp add: a Let_def)
qed

end

end
