(* ===== verification/Document_Detail.thy ===== *)
theory Document_Detail
  imports Document_List Progress
begin

text \<open>
  The detail screen of one invoice, bill or credit note
  (\<open>web/src/components/document-detail.tsx\<close>) with its lifecycle actions, and the panel that emails
  a document (\<open>email-document.tsx\<close>). An action is a promise that stays pending until the network
  answers; a screen is its state, the actions still pending, and the browser.
\<close>

section \<open>Lines\<close>

record LineView =
  lv_line_no :: int
  lv_description :: string
  lv_quantity :: string
  lv_unit_amount :: string
  lv_tax_code :: "string option"
  lv_tax_amount :: string
  lv_line_subtotal :: string
  lv_line_total :: string
  lv_order_line_id :: "int option"

definition invoice_line_view :: "SalesInvoiceLine \<Rightarrow> LineView" where
  "invoice_line_view l = \<lparr>lv_line_no = sil_line_no l, lv_description = sil_description l,
     lv_quantity = sil_quantity l, lv_unit_amount = sil_unit_price l, lv_tax_code = sil_tax_code l,
     lv_tax_amount = sil_tax_amount l, lv_line_subtotal = sil_line_subtotal l,
     lv_line_total = sil_line_total l, lv_order_line_id = sil_order_line_id l\<rparr>"

definition bill_detail_line :: "PurchaseBillLine \<Rightarrow> LineView" where
  "bill_detail_line l = \<lparr>lv_line_no = pbl_line_no l, lv_description = pbl_description l,
     lv_quantity = pbl_quantity l, lv_unit_amount = pbl_unit_cost l, lv_tax_code = pbl_tax_code l,
     lv_tax_amount = pbl_tax_amount l, lv_line_subtotal = pbl_line_subtotal l,
     lv_line_total = pbl_line_total l, lv_order_line_id = pbl_order_line_id l\<rparr>"

definition fetchInvoiceLines :: "int \<Rightarrow> ('w, LineView list) call" where
  "fetchInvoiceLines ident = map_io (map invoice_line_view) (getSalesInvoiceLines ident)"

definition fetchBillLines :: "int \<Rightarrow> ('w, LineView list) call" where
  "fetchBillLines ident = map_io (map bill_detail_line) (getPurchaseBillLines ident)"

definition fetchCreditNoteLines :: "int \<Rightarrow> ('w, LineView list) call" where
  "fetchCreditNoteLines ident = map_io (map invoice_line_view) (getSalesCreditNoteLines ident)"

definition fetchSupplierCreditLines :: "int \<Rightarrow> ('w, LineView list) call" where
  "fetchSupplierCreditLines ident = map_io (map bill_detail_line) (getPurchaseCreditNoteLines ident)"

section \<open>The four screens\<close>

text \<open>The properties of the component; calls whose result is dropped are calls of unit.\<close>

record 'w detail_props =
  dp_titlePrefix :: string
  dp_backPath :: string
  dp_unitLabel :: string
  dp_balanceLabel :: string
  dp_fetchDocument :: "int \<Rightarrow> ('w, DocumentBalance) call"
  dp_fetchLines :: "int \<Rightarrow> ('w, LineView list) call"
  dp_fetchPartyNames :: "('w, int \<Rightarrow> string option) call"
  dp_post :: "int \<Rightarrow> ('w, unit) call"
  dp_unpost :: "int \<Rightarrow> ('w, unit) call"
  dp_deleteDocument :: "int \<Rightarrow> ('w, unit) call"
  dp_apply :: "(int \<Rightarrow> ('w, unit) call) option"
  dp_fetchApplications :: "(int \<Rightarrow> ('w, PaymentApplication list) call) option"
  dp_appliedDocLabel :: string
  dp_appliedDocBasePath :: string
  dp_applyHint :: string
  dp_pdfBasePath :: string

definition ignoring :: "('k \<Rightarrow> ('w, 'a) call) \<Rightarrow> 'k \<Rightarrow> ('w, unit) call" where
  "ignoring call k = map_io (\<lambda>_. ()) (call k)"

definition InvoiceDetail :: "'w detail_props" where
  "InvoiceDetail = \<lparr>dp_titlePrefix = ''Invoice'', dp_backPath = ''/invoices'',
     dp_unitLabel = ''Unit Price'', dp_balanceLabel = ''Balance due'',
     dp_fetchDocument = getSalesInvoice, dp_fetchLines = fetchInvoiceLines,
     dp_fetchPartyNames = fetchCustomerNames, dp_post = ignoring postSalesInvoice,
     dp_unpost = ignoring unpostSalesInvoice, dp_deleteDocument = deleteSalesInvoice,
     dp_apply = None, dp_fetchApplications = None, dp_appliedDocLabel = [],
     dp_appliedDocBasePath = [], dp_applyHint = [], dp_pdfBasePath = ''/api/sales-invoices''\<rparr>"

definition BillDetail :: "'w detail_props" where
  "BillDetail = \<lparr>dp_titlePrefix = ''Bill'', dp_backPath = ''/bills'',
     dp_unitLabel = ''Unit Cost'', dp_balanceLabel = ''Balance due'',
     dp_fetchDocument = getPurchaseBill, dp_fetchLines = fetchBillLines,
     dp_fetchPartyNames = fetchSupplierNames, dp_post = ignoring postPurchaseBill,
     dp_unpost = ignoring unpostPurchaseBill, dp_deleteDocument = deletePurchaseBill,
     dp_apply = None, dp_fetchApplications = None, dp_appliedDocLabel = [],
     dp_appliedDocBasePath = [], dp_applyHint = [], dp_pdfBasePath = ''/api/purchase-bills''\<rparr>"

definition CreditNoteDetail :: "'w detail_props" where
  "CreditNoteDetail = \<lparr>dp_titlePrefix = ''Credit Note'', dp_backPath = ''/credit-notes'',
     dp_unitLabel = ''Unit Price'', dp_balanceLabel = ''Unapplied'',
     dp_fetchDocument = getSalesCreditNote, dp_fetchLines = fetchCreditNoteLines,
     dp_fetchPartyNames = fetchCustomerNames, dp_post = ignoring postSalesCreditNote,
     dp_unpost = ignoring unpostSalesCreditNote, dp_deleteDocument = deleteSalesCreditNote,
     dp_apply = Some (ignoring applySalesCreditNote),
     dp_fetchApplications = Some getSalesCreditNoteApplications, dp_appliedDocLabel = ''Invoice'',
     dp_appliedDocBasePath = ''/invoices'', dp_applyHint = ''Apply allocates the unapplied credit ''
       @ ''to the customer'' @ [CHR 0x27] @ ''s open invoices, oldest first.'',
     dp_pdfBasePath = ''/api/sales-credit-notes''\<rparr>"

definition SupplierCreditDetail :: "'w detail_props" where
  "SupplierCreditDetail = \<lparr>dp_titlePrefix = ''Supplier Credit'', dp_backPath = ''/supplier-credits'',
     dp_unitLabel = ''Unit Cost'', dp_balanceLabel = ''Unapplied'',
     dp_fetchDocument = getPurchaseCreditNote, dp_fetchLines = fetchSupplierCreditLines,
     dp_fetchPartyNames = fetchSupplierNames, dp_post = ignoring postPurchaseCreditNote,
     dp_unpost = ignoring unpostPurchaseCreditNote, dp_deleteDocument = deletePurchaseCreditNote,
     dp_apply = Some (ignoring applyPurchaseCreditNote),
     dp_fetchApplications = Some getPurchaseCreditNoteApplications, dp_appliedDocLabel = ''Bill'',
     dp_appliedDocBasePath = ''/bills'', dp_applyHint = ''Apply allocates the unapplied credit ''
       @ ''to the supplier'' @ [CHR 0x27] @ ''s open bills, oldest first.'',
     dp_pdfBasePath = ''/api/purchase-credit-notes''\<rparr>"

section \<open>State and loading\<close>

record DocumentDetail =
  dd_document :: "DocumentBalance option"
  dd_lines :: "LineView list option"
  dd_applications :: "PaymentApplication list"
  dd_partyName :: "string option"
  dd_error :: "string option"
  dd_acting :: bool
  dd_actionError :: "string option"
  dd_emailOpen :: bool
  dd_navigated :: "string option"

definition detail_init :: DocumentDetail where
  "detail_init = \<lparr>dd_document = None, dd_lines = None, dd_applications = [], dd_partyName = None,
     dd_error = None, dd_acting = False, dd_actionError = None, dd_emailOpen = False,
     dd_navigated = None\<rparr>"

type_synonym detail_data = "DocumentBalance \<times> LineView list \<times> PaymentApplication list \<times> string"

definition load_detail :: "'w detail_props \<Rightarrow> int \<Rightarrow> ('w, detail_data) call" where
  "load_detail p documentId =
     map_io (\<lambda>(doc, lns, apps, names). (doc, lns, apps, name_or_id names (db_party_id doc)))
       (both_io (dp_fetchDocument p documentId) (both_io (dp_fetchLines p documentId)
         (both_io (case dp_fetchApplications p of Some call \<Rightarrow> call documentId | None \<Rightarrow> return_io [])
           (dp_fetchPartyNames p))))"

definition show_detail :: "detail_data \<Rightarrow> DocumentDetail \<Rightarrow> DocumentDetail" where
  "show_detail data s = (case data of (doc, lns, apps, name) \<Rightarrow>
     s\<lparr>dd_document := Some doc, dd_lines := Some lns, dd_applications := apps,
       dd_partyName := Some name\<rparr>)"

text \<open>The parameter of the route is a string; \<open>Number(id)\<close> must be a positive integer.\<close>

definition invalid_id :: "string \<Rightarrow> bool" where
  "invalid_id route \<longleftrightarrow> (case Number route of Whole k \<Rightarrow> k \<le> 0 | _ \<Rightarrow> True)"

definition detail_loaded :: "bool \<Rightarrow> exn + detail_data \<Rightarrow> DocumentDetail \<Rightarrow> DocumentDetail" where
  "detail_loaded cancelled result s = (case result of
       Inr data \<Rightarrow> if cancelled then s else show_detail data s
     | Inl err \<Rightarrow> if cancelled then s else s\<lparr>dd_error := Some (error_message err)\<rparr>)"

definition detail_effect :: "'w detail_props \<Rightarrow> string \<Rightarrow> bool
    \<Rightarrow> DocumentDetail \<times> ('w, payload, body) browser \<Rightarrow> DocumentDetail \<times> ('w, payload, body) browser" where
  "detail_effect p route cancelled x = (case x of (s, b) \<Rightarrow>
     if invalid_id route then (s\<lparr>dd_error := Some ''Invalid id.''\<rparr>, b)
     else (case load_detail p (id_of route) b of (r, b) \<Rightarrow> (detail_loaded cancelled r s, b)))"

section \<open>Actions\<close>

datatype detail_action = Post_It | Unpost_It | Apply_It | Delete_It

text \<open>\<open>action(documentId).then(load)\<close>; deleting does not load again.\<close>

definition detail_call :: "'w detail_props \<Rightarrow> int \<Rightarrow> detail_action \<Rightarrow> ('w, detail_data option) call" where
  "detail_call p k a =
     (let reload = map_io Some (load_detail p k) in
      case a of
       Post_It \<Rightarrow> then_load (dp_post p k) reload
     | Unpost_It \<Rightarrow> then_load (dp_unpost p k) reload
     | Apply_It \<Rightarrow> (case dp_apply p of
         Some call \<Rightarrow> then_load (call k) reload
       | None \<Rightarrow> throw_io (Type_Error ''apply is not a function''))
     | Delete_It \<Rightarrow> map_io (\<lambda>_. None) (dp_deleteDocument p k))"

text \<open>The synchronous part of \<open>runAction\<close> and \<open>runDelete\<close> (deleting asks the user first; an
  event of the model is a confirmed one), and what their promise does when it settles.\<close>

definition run_start :: "detail_action \<Rightarrow> DocumentDetail \<Rightarrow> DocumentDetail" where
  "run_start a s = s\<lparr>dd_acting := True, dd_actionError := None\<rparr>"

definition run_settled :: "'w detail_props \<Rightarrow> exn + detail_data option \<Rightarrow> DocumentDetail \<Rightarrow> DocumentDetail" where
  "run_settled p result s = (case result of
       Inr (Some data) \<Rightarrow> (show_detail data s)\<lparr>dd_acting := False\<rparr>
     | Inr None \<Rightarrow> s\<lparr>dd_navigated := Some (dp_backPath p)\<rparr>
     | Inl err \<Rightarrow> s\<lparr>dd_acting := False, dd_actionError := Some (save_message err)\<rparr>)"

definition run_settle :: "'w detail_props \<Rightarrow> string \<Rightarrow> detail_action
    \<Rightarrow> DocumentDetail \<times> ('w, payload, body) browser \<Rightarrow> DocumentDetail \<times> ('w, payload, body) browser" where
  "run_settle p route a x = (case x of (s, b) \<Rightarrow>
     (case detail_call p (id_of route) a b of (r, b) \<Rightarrow> (run_settled p r s, b)))"

section \<open>The screen\<close>

datatype detail_event = Run detail_action | Toggle_Email | Close_Email

definition emailCollection :: "'w detail_props \<Rightarrow> string" where
  "emailCollection p = (if startsWith (dp_pdfBasePath p) ''/api/'' then drop 5 (dp_pdfBasePath p)
     else dp_pdfBasePath p)"

fun detail_react :: "detail_event \<Rightarrow> DocumentDetail \<Rightarrow> DocumentDetail" where
  "detail_react Toggle_Email s = s\<lparr>dd_emailOpen := \<not> dd_emailOpen s\<rparr>"
| "detail_react Close_Email s = s\<lparr>dd_emailOpen := False\<rparr>"
| "detail_react (Run a) s = s"

fun detail_action_of :: "detail_event \<Rightarrow> detail_action option" where
  "detail_action_of (Run a) = Some a"
| "detail_action_of _ = None"

definition total_cell :: "string list \<Rightarrow> string" where
  "total_cell vs = (case sumAmounts vs of Some t \<Rightarrow> formatAmount t | None \<Rightarrow> [])"

definition detail_actions_view :: "'w detail_props \<Rightarrow> int \<Rightarrow> bool \<Rightarrow> DocumentDetail
    \<Rightarrow> DocumentBalance \<Rightarrow> LineView list \<Rightarrow> detail_event element list" where
  "detail_actions_view p documentId is_admin s doc lines =
     guarded (db_status doc = ''draft'')
       [Button (if dd_acting s then ''Posting...'' else ''Post to ledger'') (dd_acting s) (Run Post_It)]
     @ guarded (db_status doc = ''draft'' \<and> \<not> list_ex (\<lambda>l. lv_order_line_id l \<noteq> None) lines)
         [Link ''Edit'' (dp_backPath p @ ''/'' @ show_int documentId @ ''/edit'')]
     @ guarded (db_status doc = ''draft'') [Button ''Delete'' (dd_acting s) (Run Delete_It)]
     @ guarded (dp_apply p \<noteq> None \<and> db_status doc = ''posted''
           \<and> isZeroAmount (db_balance doc) = Some False)
         [Button (if dd_acting s then ''Applying...'' else ''Apply'') (dd_acting s) (Run Apply_It)]
     @ [Link ''PDF'' (dp_pdfBasePath p @ ''/'' @ show_int documentId @ ''/pdf''),
        Button ''Email'' (dd_acting s) Toggle_Email]
     @ guarded (db_status doc = ''posted'' \<and> is_admin)
         [Button (if dd_acting s then ''Unposting...'' else ''Unpost'') (dd_acting s) (Run Unpost_It)]
     @ [Link ''Back'' (dp_backPath p)]"

definition detail_lines_view :: "'w detail_props \<Rightarrow> DocumentBalance \<Rightarrow> LineView list
    \<Rightarrow> detail_event element list" where
  "detail_lines_view p doc lines =
     (if lines = [] then [Note ''This document has no lines.'']
      else
        [Table [''#'', ''Description'', ''Qty'', dp_unitLabel p, ''Tax'', ''Tax Amount'', ''Line Total'']
          (map (\<lambda>l. [show_int (lv_line_no l), lv_description l, formatAmount (lv_quantity l),
              formatAmount (lv_unit_amount l), (case lv_tax_code l of Some c \<Rightarrow> c | None \<Rightarrow> em_dash),
              formatAmount (lv_tax_amount l), formatAmount (lv_line_total l)]) lines),
         Datum ''Subtotal'' (total_cell (map lv_line_subtotal lines)),
         Datum ''Tax'' (total_cell (map lv_tax_amount lines)),
         Datum ''Total'' (formatAmount (db_total doc)),
         Datum ''Applied'' (formatAmount (db_amount_applied doc)),
         Datum (dp_balanceLabel p) (formatAmount (db_balance doc))])"

definition detail_applications_view :: "'w detail_props \<Rightarrow> DocumentDetail \<Rightarrow> DocumentBalance
    \<Rightarrow> detail_event element list" where
  "detail_applications_view p s doc =
     guarded (dp_fetchApplications p \<noteq> None)
       (Heading ''Applied to''
        # (if dd_applications s = [] then
             [Note (''Not applied to any '' @ toLowerCase (dp_appliedDocLabel p) @ '' yet.''
                @ guarded (db_status doc = ''posted'') ('' '' @ dp_applyHint p))]
           else
             [Table [dp_appliedDocLabel p, ''Amount Applied'']
                (map (\<lambda>a. [app_document_number a, formatAmount (app_amount_applied a)])
                   (dd_applications s))]
             @ map (\<lambda>a. Link (app_document_number a)
                 (dp_appliedDocBasePath p @ ''/'' @ show_int (app_document_id a))) (dd_applications s)))"

definition detail_view :: "'w detail_props \<Rightarrow> int \<Rightarrow> bool \<Rightarrow> detail_event element list \<Rightarrow> DocumentDetail
    \<Rightarrow> detail_event element list" where
  "detail_view p documentId is_admin email_panel s =
     (case dd_error s of None \<Rightarrow> [] | Some e \<Rightarrow> [Alert e, Link ''Back'' (dp_backPath p)])
     @ guarded (dd_error s = None \<and> (dd_document s = None \<or> dd_lines s = None)) [Note ''Loading...'']
     @ (case (dd_document s, dd_lines s) of
          (Some doc, Some lines) \<Rightarrow>
            [Heading (dp_titlePrefix p @ '' '' @ db_number doc), Datum ''status'' (db_status doc),
             Datum ''payment'' (db_payment_status doc),
             Note (or_empty (dd_partyName s) @ '' '' @ [CHR 0xB7] @ '' '' @ db_date doc
               @ (case db_due_date doc of None \<Rightarrow> []
                  | Some d \<Rightarrow> '' '' @ [CHR 0xB7] @ '' due '' @ d)
               @ '' '' @ [CHR 0xB7] @ '' '' @ db_currency_code doc)]
            @ (case db_journal_entry_id doc of None \<Rightarrow> []
               | Some j \<Rightarrow> [Link (''journal entry #'' @ show_int j) (''/journal-entries/'' @ show_int j)])
            @ detail_actions_view p documentId is_admin s doc lines
            @ (case dd_actionError s of None \<Rightarrow> [] | Some e \<Rightarrow> [Alert e])
            @ guarded (dd_emailOpen s) email_panel
            @ detail_lines_view p doc lines
            @ detail_applications_view p s doc
        | _ \<Rightarrow> [])"

section \<open>The screen as a machine\<close>

text \<open>The elements of the email panel that reach this screen are its Done or Cancel button.\<close>

definition detail_offers :: "'w detail_props \<Rightarrow> string \<Rightarrow> bool \<Rightarrow> DocumentDetail \<Rightarrow> detail_event \<Rightarrow> bool" where
  "detail_offers p route is_admin s =
     offers (detail_view p (id_of route) is_admin [Button ''Cancel'' False Close_Email] s)"

definition detail_move :: "'w detail_props \<Rightarrow> string \<Rightarrow> bool
    \<Rightarrow> DocumentDetail \<times> detail_action list \<times> ('w, payload, body) browser
    \<Rightarrow> DocumentDetail \<times> detail_action list \<times> ('w, payload, body) browser \<Rightarrow> bool" where
  "detail_move p route is_admin = screen_move (detail_effect p route) (detail_offers p route is_admin)
     detail_action_of run_start (run_settle p route) detail_react"

definition is_detail :: "'w detail_props \<Rightarrow> bool" where
  "is_detail p \<longleftrightarrow> p = InvoiceDetail \<or> p = BillDetail \<or> p = CreditNoteDetail \<or> p = SupplierCreditDetail"

text \<open>The actions offered, in terms of the document shown.\<close>

definition permitted :: "'w detail_props \<Rightarrow> bool \<Rightarrow> DocumentBalance \<Rightarrow> detail_action \<Rightarrow> bool" where
  "permitted p is_admin doc a = (case a of
       Post_It \<Rightarrow> db_status doc = ''draft''
     | Delete_It \<Rightarrow> db_status doc = ''draft''
     | Unpost_It \<Rightarrow> db_status doc = ''posted'' \<and> is_admin
     | Apply_It \<Rightarrow> db_status doc = ''posted'' \<and> dp_apply p \<noteq> None
         \<and> isZeroAmount (db_balance doc) = Some False)"

lemma no_offers_applications [simp]: "\<not> offers (detail_applications_view p s doc) e"
  by (auto simp: detail_applications_view_def offers_def split: if_splits)

lemma no_offers_lines [simp]: "\<not> offers (detail_lines_view p doc lines) e"
  by (simp add: detail_lines_view_def)

lemma offers_option [simp]: "\<not> offers (case x of None \<Rightarrow> [] | Some t \<Rightarrow> [Alert t]) e"
  "\<not> offers (case x of None \<Rightarrow> [] | Some t \<Rightarrow> [Alert t, Link l u]) e"
  "\<not> offers (case y of None \<Rightarrow> [] | Some j \<Rightarrow> [Link (g j) (h j)]) e"
  by (simp_all split: option.split)

lemma detail_offers_run:
  "detail_offers p route is_admin s (Run a) \<longleftrightarrow>
     (\<exists>doc. dd_document s = Some doc \<and> dd_lines s \<noteq> None \<and> \<not> dd_acting s \<and> permitted p is_admin doc a)"
  by (cases a; cases "dd_document s"; cases "dd_lines s")
    (auto simp: detail_offers_def detail_view_def detail_actions_view_def permitted_def)

interpretation detail_screen: exclusive_actions "detail_effect p route" "detail_offers p route is_admin"
    detail_action_of run_start "run_settle p route" detail_react "\<lambda>s. s = detail_init" dd_acting
  for p route is_admin
proof unfold_locales
  fix a s c b e
  show "dd_acting (run_start a s)" by (simp add: run_start_def)
  show "dd_acting s \<Longrightarrow> detail_offers p route is_admin s e \<Longrightarrow> detail_action_of e = None"
    by (cases e) (auto simp: detail_offers_run)
  show "dd_acting (fst (detail_effect p route c (s, b))) = dd_acting s"
    by (auto simp: detail_effect_def detail_loaded_def show_detail_def split: prod.split sum.split)
  show "detail_action_of e = None \<Longrightarrow> dd_acting (detail_react e s) = dd_acting s"
    by (cases e) auto
qed

interpretation detail_slot: recovering_actions "detail_effect p route" "detail_offers p route is_admin"
    detail_action_of run_start "run_settle p route" detail_react "\<lambda>s. s = detail_init" dd_acting
    "\<lambda>s. dd_navigated s \<noteq> None" for p route is_admin
proof unfold_locales
  fix s a b c e
  show "s = detail_init \<Longrightarrow> \<not> dd_acting s" by (simp add: detail_init_def)
  show "\<not> dd_acting (fst (run_settle p route a (s, b))) \<or> dd_navigated (fst (run_settle p route a (s, b))) \<noteq> None"
    by (simp add: run_settle_def run_settled_def show_detail_def split: prod.split sum.split option.split)
  show "dd_navigated s \<noteq> None \<Longrightarrow> dd_navigated (fst (detail_effect p route c (s, b))) \<noteq> None"
    by (simp add: detail_effect_def detail_loaded_def show_detail_def split: prod.split sum.split)
  show "detail_action_of e = None \<Longrightarrow> dd_navigated s \<noteq> None \<Longrightarrow> dd_navigated (detail_react e s) \<noteq> None"
    by (cases e) auto
qed

section \<open>Requests\<close>

text \<open>The document's own addresses: the collection of its PDF, the id of the route.\<close>

definition detail_request :: "string \<Rightarrow> int \<Rightarrow> detail_action \<Rightarrow> payload request" where
  "detail_request coll k a =
     (let path = ''/'' @ coll @ ''/'' @ show_int k in
      case a of
        Post_It \<Rightarrow> body_request ''POST'' (path @ ''/post'') Empty_Object
      | Unpost_It \<Rightarrow> body_request ''POST'' (path @ ''/unpost'') Empty_Object
      | Apply_It \<Rightarrow> body_request ''POST'' (path @ ''/apply'') Empty_Object
      | Delete_It \<Rightarrow> del_request path)"

lemma emailCollections [simp]:
  "emailCollection InvoiceDetail = ''sales-invoices''" "emailCollection BillDetail = ''purchase-bills''"
  "emailCollection CreditNoteDetail = ''sales-credit-notes''"
  "emailCollection SupplierCreditDetail = ''purchase-credit-notes''"
  by (simp_all add: emailCollection_def startsWith_def InvoiceDetail_def BillDetail_def
      CreditNoteDetail_def SupplierCreditDetail_def)

lemmas detail_screens = InvoiceDetail_def BillDetail_def CreditNoteDetail_def SupplierCreditDetail_def

lemmas detail_fetches = fetchInvoiceLines_def fetchBillLines_def fetchCreditNoteLines_def
  fetchSupplierCreditLines_def getSalesInvoice_def getSalesInvoiceLines_def getPurchaseBill_def
  getPurchaseBillLines_def getSalesCreditNote_def getSalesCreditNoteLines_def
  getPurchaseCreditNote_def getPurchaseCreditNoteLines_def getSalesCreditNoteApplications_def
  getPurchaseCreditNoteApplications_def

lemma detail_fetches_read:
  assumes "is_detail p"
  shows "reads_only (dp_fetchDocument p k)" "reads_only (dp_fetchLines p k)"
    "reads_only (dp_fetchPartyNames p)" "dp_fetchApplications p = Some call \<Longrightarrow> reads_only (call k)"
  using assms by (auto simp: is_detail_def detail_screens detail_fetches intro!: reading)

lemma load_detail_reads:
  assumes "is_detail p" shows "reads_only (load_detail p k)"
proof -
  have apps: "reads_only (case dp_fetchApplications p of Some call \<Rightarrow> call k | None \<Rightarrow> return_io [])"
    using detail_fetches_read [OF assms] by (auto intro: reading split: option.split)
  then show ?thesis
    unfolding load_detail_def
    by (intro reads_only_map reads_only_both apps detail_fetches_read(1-3) [OF assms])
qed

lemma makes_ignoring: "makes (call k) rq \<Longrightarrow> makes (ignoring call k) rq"
  by (simp add: ignoring_def makes_map_io)

lemmas detail_calls = postSalesInvoice_def unpostSalesInvoice_def deleteSalesInvoice_def
  postPurchaseBill_def unpostPurchaseBill_def deletePurchaseBill_def postSalesCreditNote_def
  unpostSalesCreditNote_def deleteSalesCreditNote_def applySalesCreditNote_def
  postPurchaseCreditNote_def unpostPurchaseCreditNote_def deletePurchaseCreditNote_def
  applyPurchaseCreditNote_def

lemma detail_action_requests:
  assumes "is_detail p"
  shows "makes (dp_post p k) (detail_request (emailCollection p) k Post_It)"
    "makes (dp_unpost p k) (detail_request (emailCollection p) k Unpost_It)"
    "makes (dp_deleteDocument p k) (detail_request (emailCollection p) k Delete_It)"
    "dp_apply p = Some call \<Longrightarrow> makes (call k) (detail_request (emailCollection p) k Apply_It)"
  using assms unfolding is_detail_def
  by (auto simp: detail_request_def Let_def)
    (auto simp: detail_screens detail_calls makes_def ignoring_def)

lemma effect_reads:
  assumes "is_detail p"
  shows "appends (\<lambda>rq. rq_method rq = ''GET'') b (snd (detail_effect p route c (s, b)))"
  using reads_appends [OF load_detail_reads [OF assms], of b "id_of route"]
  by (auto simp: detail_effect_def split: prod.splits)

lemma makes_appends: "makes m rq \<Longrightarrow> P rq \<Longrightarrow> appends P b (snd (m b))"
  by (simp add: makes_sent appends_def)

lemma detail_call_sends:
  assumes "is_detail p"
  shows "appends (\<lambda>rq. rq = detail_request (emailCollection p) k a \<or> rq_method rq = ''GET'') b (snd (detail_call p k a b))"
proof -
  note l = reads_only_map [OF load_detail_reads [OF assms], of Some k]
  show ?thesis
  proof (cases a)
    case Post_It
    then show ?thesis
      using then_load_sends [OF detail_action_requests(1) [OF assms, of k] l] by (simp add: detail_call_def)
  next
    case Unpost_It
    then show ?thesis
      using then_load_sends [OF detail_action_requests(2) [OF assms, of k] l] by (simp add: detail_call_def)
  next
    case Apply_It
    then show ?thesis
      using then_load_sends [OF detail_action_requests(4) [OF assms, of _ k] l]
      by (auto simp: detail_call_def throw_io_def Let_def split: option.split)
  next
    case Delete_It
    then show ?thesis
      using makes_appends [OF detail_action_requests(3) [OF assms, of k],
          of "\<lambda>rq. rq = detail_request (emailCollection p) k Delete_It \<or> rq_method rq = ''GET''" b]
      by (simp add: detail_call_def)
  qed
qed

definition own_request :: "string \<Rightarrow> int \<Rightarrow> payload request \<Rightarrow> bool" where
  "own_request coll k rq \<longleftrightarrow> rq_method rq = ''GET'' \<or> (\<exists>a. rq = detail_request coll k a)"

lemma detail_writes:
  assumes "is_detail p"
  shows "writing_actions (detail_effect p route) (run_settle p route) (own_request (emailCollection p) (id_of route))"
proof unfold_locales
  fix b c s a
  show "appends (own_request (emailCollection p) (id_of route)) b (snd (detail_effect p route c (s, b)))"
    by (rule appends_mono [OF effect_reads [OF assms]]) (simp add: own_request_def)
  have "appends (own_request (emailCollection p) (id_of route)) b (snd (detail_call p (id_of route) a b))"
    by (rule appends_mono [OF detail_call_sends [OF assms]]) (auto simp: own_request_def)
  then show "appends (own_request (emailCollection p) (id_of route)) b (snd (run_settle p route a (s, b)))"
    by (simp add: run_settle_def split: prod.split)
      (metis snd_conv)
qed

interpretation invoice_detail: writing_actions "detail_effect InvoiceDetail route"
    "detail_offers InvoiceDetail route is_admin" detail_action_of run_start "run_settle InvoiceDetail route"
    detail_react "\<lambda>s. s = detail_init" "own_request ''sales-invoices'' (id_of route)" for route is_admin
  using detail_writes [of InvoiceDetail route] by (simp add: is_detail_def)

interpretation bill_detail: writing_actions "detail_effect BillDetail route"
    "detail_offers BillDetail route is_admin" detail_action_of run_start "run_settle BillDetail route"
    detail_react "\<lambda>s. s = detail_init" "own_request ''purchase-bills'' (id_of route)" for route is_admin
  using detail_writes [of BillDetail route] by (simp add: is_detail_def)

interpretation credit_note_detail: writing_actions "detail_effect CreditNoteDetail route"
    "detail_offers CreditNoteDetail route is_admin" detail_action_of run_start
    "run_settle CreditNoteDetail route" detail_react "\<lambda>s. s = detail_init"
    "own_request ''sales-credit-notes'' (id_of route)" for route is_admin
  using detail_writes [of CreditNoteDetail route] by (simp add: is_detail_def)

interpretation supplier_credit_detail: writing_actions "detail_effect SupplierCreditDetail route"
    "detail_offers SupplierCreditDetail route is_admin" detail_action_of run_start
    "run_settle SupplierCreditDetail route" detail_react "\<lambda>s. s = detail_init"
    "own_request ''purchase-credit-notes'' (id_of route)" for route is_admin
  using detail_writes [of SupplierCreditDetail route] by (simp add: is_detail_def)

section \<open>Properties\<close>

text \<open>C13. A detail screen has at most one action in flight: in every state it reaches, whatever the
  order in which its effect, its actions and the user come, no second action can be started while
  one is pending, and the actions it offers are exactly those of the life cycle: posting and
  deleting a draft, unposting a posted document for administrators, applying a posted credit with
  a balance.\<close>

theorem detail_actions:
  assumes "reachable (opened (\<lambda>s. s = detail_init)) (detail_move p route is_admin) (s, pend, b)"
  shows "length pend \<le> 1 \<and> (\<exists>a. pend = [a]) \<noteq> (pend = [])
    \<and> (detail_offers p route is_admin s (Run a) \<longleftrightarrow> (\<exists>doc. dd_document s = Some doc
        \<and> dd_lines s \<noteq> None \<and> \<not> dd_acting s \<and> pend = [] \<and> permitted p is_admin doc a))"
proof -
  have l: "length pend \<le> 1" and o: "pend = [] \<or> (\<forall>e. detail_offers p route is_admin s e \<longrightarrow> detail_action_of e = None)"
    using detail_screen.at_most_one [OF assms [unfolded detail_move_def]] by auto
  have "detail_offers p route is_admin s (Run a) \<Longrightarrow> pend = []" using o by fastforce
  moreover have "(\<exists>a. pend = [a]) \<noteq> (pend = [])" using l by (cases pend) auto
  ultimately show ?thesis using l detail_offers_run by blast
qed

text \<open>C14. A detail screen writes to its own document only: every request an invoice, bill, credit
  note or supplier credit screen ever makes is a GET, or posts, unposts, applies or deletes the
  document of its route.\<close>

theorem detail_touches_own:
  "(reachable (opened (\<lambda>s. s = detail_init)) (detail_move InvoiceDetail route adm) (s1, as1, b1) \<longrightarrow>
      list_all (own_request ''sales-invoices'' (id_of route)) (sent b1))
   \<and> (reachable (opened (\<lambda>s. s = detail_init)) (detail_move BillDetail route adm) (s2, as2, b2) \<longrightarrow>
      list_all (own_request ''purchase-bills'' (id_of route)) (sent b2))
   \<and> (reachable (opened (\<lambda>s. s = detail_init)) (detail_move CreditNoteDetail route adm) (s3, as3, b3) \<longrightarrow>
      list_all (own_request ''sales-credit-notes'' (id_of route)) (sent b3))
   \<and> (reachable (opened (\<lambda>s. s = detail_init)) (detail_move SupplierCreditDetail route adm) (s4, as4, b4) \<longrightarrow>
      list_all (own_request ''purchase-credit-notes'' (id_of route)) (sent b4))"
  unfolding detail_move_def
  apply (intro conjI impI)
     apply (drule invoice_detail.all_allowed, simp)
    apply (drule bill_detail.all_allowed, simp)
   apply (drule credit_note_detail.all_allowed, simp)
  apply (drule supplier_credit_detail.all_allowed, simp)
  done

lemma detail_action_stops:
  assumes "is_detail p"
  shows "stops (dp_post p k) (detail_request (emailCollection p) k Post_It)"
    "stops (dp_unpost p k) (detail_request (emailCollection p) k Unpost_It)"
    "stops (dp_deleteDocument p k) (detail_request (emailCollection p) k Delete_It)"
    "dp_apply p = Some call \<Longrightarrow> stops (call k) (detail_request (emailCollection p) k Apply_It)"
  using assms unfolding is_detail_def
  by (auto simp: detail_request_def Let_def)
    (auto simp: detail_screens detail_calls ignoring_def intro!: stopping)

lemma detail_call_stops:
  assumes "is_detail p" "a = Apply_It \<longrightarrow> dp_apply p \<noteq> None"
  shows "stops (detail_call p k a) (detail_request (emailCollection p) k a)"
  using detail_action_stops [OF assms(1)] assms(2)
  by (cases a) (auto simp: detail_call_def Let_def intro!: stops_then_load stops_map)

text \<open>A refused action changes nothing but the message: when the server or the network fails
  the request of an action, no further request is made, the screen shows the document it showed
  before with the reason, and the buttons work again.\<close>

theorem detail_action_refused:
  assumes "is_detail p" "a = Apply_It \<longrightarrow> dp_apply p \<noteq> None"
    and "failure_of (detail_request (emailCollection p) (id_of route) a) b = Some m"
  shows "run_settle p route a (run_start a s, b)
    = (s\<lparr>dd_acting := False, dd_actionError := Some m\<rparr>,
       after_exchange (detail_request (emailCollection p) (id_of route) a) b)"
  by (rule stopsE [OF detail_call_stops [OF assms(1,2)] assms(3)])
    (simp add: run_settle_def run_settled_def run_start_def)

definition detail_server :: "string \<Rightarrow> body" where
  "detail_server path =
     (if path = ''/api/customers'' then Master (Customer_List [])
      else if path = ''/api/organizations'' then Master (Organization_List [])
      else if path = ''/api/sales-invoices/7/lines'' then Document (SalesInvoiceLine_List [])
      else if path = ''/api/sales-invoices/7'' then Document (SalesInvoice_Body sample_invoice)
      else Basic (Posted_Body 1))"

definition detail_browser :: "(unit, payload, body) browser" where
  "detail_browser = \<lparr>network = answering detail_server, world = (), sent = [], events = []\<rparr>"

lemma route_7 [simp]: "\<not> invalid_id ''7''" "id_of ''7'' = 7"
  by code_simp+

lemma show_7: "show_int 7 = ''7''"
  by code_simp

lemma detail_load_7:
  assumes "network b = answering detail_server"
  shows "\<exists>b'. load_detail InvoiceDetail 7 b
      = (Inr (fromSalesInvoice sample_invoice, [], [], ''#'' @ show_int 3), b')
    \<and> network b' = answering detail_server"
  using assms
  by (simp add: load_detail_def InvoiceDetail_def fetchInvoiceLines_def fetchCustomerNames_def
      both_io_def map_io_def then_io_def return_io_def getSalesInvoice_def getSalesInvoiceLines_def
      listCustomers_def listOrganizations_def get_answering master_as_def document_as_def BASE_def
      detail_server_def show_7 customer_names_def name_or_id_def fromSalesInvoice_def
      sample_invoice_def Let_def)

text \<open>The screen of a draft once loaded, and then with its posting in flight.\<close>

lemma detail_shown:
  "\<exists>b. reachable (opened (\<lambda>s. s = detail_init)) (detail_move InvoiceDetail ''7'' adm)
     (show_detail (fromSalesInvoice sample_invoice, [], [], ''#'' @ show_int 3) detail_init, [],
       (b :: (unit, payload, body) browser))
   \<and> network b = answering detail_server"
proof -
  let ?s = "show_detail (fromSalesInvoice sample_invoice, [], [], ''#'' @ show_int 3) detail_init"
  have start: "reachable (opened (\<lambda>s. s = detail_init)) (detail_move InvoiceDetail ''7'' adm)
      (detail_init, [], detail_browser)"
    by (rule reachable.starting) (simp add: opened_def detail_browser_def)
  obtain b where b: "load_detail InvoiceDetail 7 detail_browser
      = (Inr (fromSalesInvoice sample_invoice, [], [], ''#'' @ show_int 3), b)"
    "network b = answering detail_server"
    using detail_load_7 [of detail_browser] by (auto simp: detail_browser_def)
  have "detail_effect InvoiceDetail ''7'' False (detail_init, detail_browser) = (?s, b)"
    by (simp add: detail_effect_def b detail_loaded_def)
  then have "detail_move InvoiceDetail ''7'' adm (detail_init, [], detail_browser) (?s, [], b)"
    unfolding detail_move_def by (rule screen_move.effect)
  with start have "reachable (opened (\<lambda>s. s = detail_init)) (detail_move InvoiceDetail ''7'' adm) (?s, [], b)"
    by (rule reachable.moving)
  with b(2) show ?thesis by blast
qed

lemma detail_posting:
  "\<exists>b s. reachable (opened (\<lambda>s. s = detail_init)) (detail_move InvoiceDetail ''7'' adm)
      (s, [Post_It], (b :: (unit, payload, body) browser)) \<and> network b = answering detail_server"
proof -
  let ?s = "show_detail (fromSalesInvoice sample_invoice, [], [], ''#'' @ show_int 3) detail_init"
  obtain b where b: "reachable (opened (\<lambda>s. s = detail_init)) (detail_move InvoiceDetail ''7'' adm) (?s, [],
      (b :: (unit, payload, body) browser))"
    "network b = answering detail_server" using detail_shown by blast
  have "detail_offers InvoiceDetail ''7'' adm ?s (Run Post_It)"
    by (simp add: detail_offers_run show_detail_def detail_init_def permitted_def
        fromSalesInvoice_def sample_invoice_def amounts_def Let_def)
  then have "detail_move InvoiceDetail ''7'' adm (?s, [], b) (run_start Post_It ?s, [] @ [Post_It], b)"
    unfolding detail_move_def by (rule screen_move.start) simp
  with b(1) have "reachable (opened (\<lambda>s. s = detail_init)) (detail_move InvoiceDetail ''7'' adm)
      (run_start Post_It ?s, [] @ [Post_It], b)"
    by (rule reachable.moving)
  with b(2) show ?thesis by (intro exI conjI) (simp_all only: append_Nil)
qed

theorem detail_actions_witness:
  "\<exists>s b. reachable (opened (\<lambda>s. s = detail_init)) (detail_move InvoiceDetail ''7'' True)
      (s, [Post_It], (b :: (unit, payload, body) browser))
    \<and> \<not> detail_offers (InvoiceDetail :: unit detail_props) ''7'' True s (Run Post_It)"
proof -
  obtain b s where r: "reachable (opened (\<lambda>s. s = detail_init)) (detail_move InvoiceDetail ''7'' True)
      (s, [Post_It], (b :: (unit, payload, body) browser))"
    using detail_posting by blast
  have "\<not> detail_offers (InvoiceDetail :: unit detail_props) ''7'' True s (Run Post_It)"
    using detail_actions [OF r, of Post_It] by simp
  with r show ?thesis by (intro exI conjI)
qed

theorem detail_touches_own_witness:
  "\<exists>s b. reachable (opened (\<lambda>s. s = detail_init)) (detail_move InvoiceDetail ''7'' False)
      (s, [Post_It], (b :: (unit, payload, body) browser))
    \<and> list_all (own_request ''sales-invoices'' 7) (sent b)"
proof -
  obtain b s where r: "reachable (opened (\<lambda>s. s = detail_init)) (detail_move InvoiceDetail ''7'' False)
      (s, [Post_It], (b :: (unit, payload, body) browser))"
    using detail_posting by blast
  have "list_all (own_request ''sales-invoices'' 7) (sent b)"
    using conjunct1 [OF detail_touches_own, THEN mp, OF r] by simp
  with r show ?thesis by (intro exI conjI)
qed

theorem detail_action_refused_witness:
  "dd_actionError (fst (run_settle (InvoiceDetail :: unit detail_props) ''7'' Post_It
      (run_start Post_It detail_init, refusing 409 ''period is closed''))) = Some ''period is closed''"
proof -
  have "is_detail (InvoiceDetail :: unit detail_props)" by (simp add: is_detail_def)
  moreover have "failure_of (detail_request (emailCollection (InvoiceDetail :: unit detail_props))
      (id_of ''7'') Post_It) (refusing 409 ''period is closed'') = Some ''period is closed''"
    by (simp add: failure_of_def ok_def)
  ultimately show ?thesis
    using detail_action_refused [of InvoiceDetail Post_It "''7''" "refusing 409 ''period is closed''"
        "''period is closed''" detail_init] by simp
qed

end
