(* ===== verification/Email_Document.thy ===== *)
theory Email_Document
  imports Forms
begin

text \<open>
  The panel that emails a printable document (\<open>web/src/components/email-document.tsx\<close>): the
  recipients are typed into one field, separated by commas; a blank field leaves the choice of the
  address to the server, which answers with the addresses it used.
\<close>

record EmailPanel =
  em_to :: string
  em_busy :: bool
  em_error :: "string option"
  em_sentTo :: "string list option"


definition recipients :: "string \<Rightarrow> string list" where
  "recipients s = filter (\<lambda>r. r \<noteq> []) (map trim (split_on (CHR '','') s))"




datatype email_event = Set_To string | Send_Email | Close_Panel

fun join_with :: "string \<Rightarrow> string list \<Rightarrow> string" where
  "join_with sep [] = []"
| "join_with sep [x] = x"
| "join_with sep (x # xs) = x @ sep @ join_with sep xs"

definition email_view :: "string \<Rightarrow> EmailPanel \<Rightarrow> email_event element list" where
  "email_view label s =
     (case em_sentTo s of
       Some addresses \<Rightarrow>
         [Note (''Emailed '' @ toLowerCase label @ '' to '' @ join_with '', '' addresses @ ''.''),
          Button ''Done'' False Close_Panel]
     | None \<Rightarrow>
         [Note (''Emails this '' @ toLowerCase label @ '' as a PDF attachment.''),
          Field ''email_to'' ''To'' False (em_to s) Set_To,
          Note (''Comma-separate multiple recipients. Leave blank to use the counterparty''
            @ [CHR 0x27] @ ''s email on file.'')]
         @ (case em_error s of None \<Rightarrow> [] | Some e \<Rightarrow> [Alert e])
         @ [Button (if em_busy s then ''Sending...'' else ''Send'') (em_busy s) Send_Email,
            Button ''Cancel'' False Close_Panel])"

section \<open>Facts\<close>


lemma trim_space [simp]: "is_space c \<Longrightarrow> trim (c # s) = trim s"
  by (simp add: trim_def)



lemma recipients_skip [simp]: "recipients (CHR '' '' # s) = recipients s"
proof -
  have "is_space (CHR '' '')" by (simp add: is_space_def)
  then show ?thesis by (cases "split_on (CHR '','') s") (auto simp: recipients_def)
qed




end
