(* ===== verification/Draft_Form.thy ===== *)
theory Draft_Form
  imports Document_List
begin

text \<open>
  What the two parameterized document forms of the front end share, the credit-note form
  (\<open>web/src/components/credit-note-form.tsx\<close>) and the order form (\<open>order-form.tsx\<close>): the lines,
  the party options, the state, the handlers of the fields, the preview, the submission and the
  parts of the screen. The state of the order form extends the record with its expected date.
\<close>

section \<open>Lines and parties\<close>

record DraftLine =
  ln_productId :: string
  ln_description :: string
  ln_quantity :: string
  ln_unitAmount :: string
  ln_taxCode :: string
  ln_taxRate :: string
  ln_accountId :: string

definition blankDraftLine :: DraftLine where
  "blankDraftLine = \<lparr>ln_productId = NONE, ln_description = [], ln_quantity = ''1'', ln_unitAmount = [],
     ln_taxCode = NONE, ln_taxRate = ''0'', ln_accountId = NONE\<rparr>"

record PartyOption =
  opt_id :: int
  opt_name :: string
  opt_currency :: "string option"

definition fetchCustomerOptions :: "('w, PartyOption list) call" where
  "fetchCustomerOptions = map_io (\<lambda>(customers, orgs).
     map (\<lambda>c. \<lparr>opt_id = cust_id c, opt_name = party_name orgs (cust_organization_id c) (cust_id c),
       opt_currency = cust_currency_code c\<rparr>) (filter cust_is_active customers))
     (both_io listCustomers listOrganizations)"

definition fetchSupplierOptions :: "('w, PartyOption list) call" where
  "fetchSupplierOptions = map_io (\<lambda>(suppliers, orgs).
     map (\<lambda>s. \<lparr>opt_id = supp_id s, opt_name = party_name orgs (supp_organization_id s) (supp_id s),
       opt_currency = supp_currency_code s\<rparr>) (filter supp_is_active suppliers))
     (both_io listSuppliers listOrganizations)"

text \<open>The values of a line as both forms read and write them.\<close>

record LineValues =
  va_product_id :: "int option"
  va_description :: string
  va_quantity :: string
  va_unit_amount :: string
  va_account_id :: "int option"
  va_tax_code :: "string option"
  va_tax_rate :: string

definition draft_line_of :: "LineValues \<Rightarrow> DraftLine" where
  "draft_line_of l = \<lparr>ln_productId = id_select (va_product_id l), ln_description = va_description l,
     ln_quantity = trimAmount (va_quantity l), ln_unitAmount = trimAmount (va_unit_amount l),
     ln_taxCode = code_select (va_tax_code l), ln_taxRate = trimAmount (va_tax_rate l),
     ln_accountId = id_select (va_account_id l)\<rparr>"

definition draft_line_values :: "DraftLine \<Rightarrow> LineValues" where
  "draft_line_values l = \<lparr>va_product_id = id_or_null (ln_productId l),
     va_description = trim (ln_description l), va_quantity = trim (ln_quantity l),
     va_unit_amount = trim (ln_unitAmount l), va_account_id = id_or_null (ln_accountId l),
     va_tax_code = code_or_null (ln_taxCode l), va_tax_rate = trim (ln_taxRate l)\<rparr>"

section \<open>State\<close>

record draft_form =
  df_parties :: "PartyOption list"
  df_products :: "Product list"
  df_taxCodes :: "TaxCode list"
  df_accounts :: "Account list"
  df_error :: "string option"
  df_loaded :: bool
  df_partyId :: string
  df_number :: string
  df_date :: string
  df_currencyCode :: string
  df_reference :: string
  df_memo :: string
  df_lines :: "DraftLine list"
  df_saving :: bool
  df_saveError :: "string option"
  df_navigated :: "string option"

definition draft_init :: "string \<Rightarrow> draft_form" where
  "draft_init utc_date = \<lparr>df_parties = [], df_products = [], df_taxCodes = [], df_accounts = [],
     df_error = None, df_loaded = False, df_partyId = [], df_number = [], df_date = utc_date,
     df_currencyCode = [], df_reference = [], df_memo = [], df_lines = [blankDraftLine],
     df_saving = False, df_saveError = None, df_navigated = None\<rparr>"

section \<open>Handlers\<close>

definition setDraftLine :: "nat \<Rightarrow> (DraftLine \<Rightarrow> DraftLine) \<Rightarrow> 'z draft_form_scheme \<Rightarrow> 'z draft_form_scheme" where
  "setDraftLine index patch f = f\<lparr>df_lines := patch_line index patch (df_lines f)\<rparr>"

text \<open>The rate of a tax code among the loaded ones, and what choosing a product fills in; the
  prefill of the form comes last.\<close>

definition code_rate :: "TaxCode list \<Rightarrow> string \<Rightarrow> string" where
  "code_rate taxCodes code =
     (case find (\<lambda>t. tc_code t = code) taxCodes of Some t \<Rightarrow> tc_rate t | None \<Rightarrow> ''0'')"

definition chooseDraftProduct :: "(Product \<Rightarrow> DraftLine \<Rightarrow> DraftLine) \<Rightarrow> nat \<Rightarrow> string
    \<Rightarrow> 'z draft_form_scheme \<Rightarrow> 'z draft_form_scheme" where
  "chooseDraftProduct prefill index value f =
     (case find (\<lambda>p. show_int (prod_id p) = value) (df_products f) of
       None \<Rightarrow> setDraftLine index (\<lambda>l. l\<lparr>ln_productId := NONE\<rparr>) f
     | Some product \<Rightarrow>
         let rate = (if truthy (prod_tax_code product)
               then code_rate (df_taxCodes f) (or_empty (prod_tax_code product)) else ''0'')
         in setDraftLine index (\<lambda>l. prefill product (l\<lparr>ln_productId := value,
              ln_taxCode := code_select (prod_tax_code product), ln_taxRate := rate\<rparr>)) f)"

definition chooseDraftTaxCode :: "nat \<Rightarrow> string \<Rightarrow> 'z draft_form_scheme \<Rightarrow> 'z draft_form_scheme" where
  "chooseDraftTaxCode index value f =
     (let rate = (if value = NONE then ''0'' else code_rate (df_taxCodes f) value)
      in setDraftLine index (\<lambda>l. l\<lparr>ln_taxCode := value, ln_taxRate := rate\<rparr>) f)"

definition chooseParty :: "string \<Rightarrow> 'z draft_form_scheme \<Rightarrow> 'z draft_form_scheme" where
  "chooseParty value f =
     (let f = f\<lparr>df_partyId := value\<rparr> in
      case find (\<lambda>p. show_int (opt_id p) = value) (df_parties f) of
        None \<Rightarrow> f
      | Some p \<Rightarrow> if truthy (opt_currency p) \<and> trim (df_currencyCode f) = []
          then f\<lparr>df_currencyCode := or_empty (opt_currency p)\<rparr> else f)"

section \<open>Preview\<close>

definition previewDraftLine :: "DraftLine \<Rightarrow> line_money option option" where
  "previewDraftLine l = lineAmounts (if trim (ln_quantity l) = [] then ''1'' else ln_quantity l)
     (if trim (ln_unitAmount l) = [] then ''0'' else ln_unitAmount l)
     (if trim (ln_taxRate l) = [] then ''0'' else ln_taxRate l)"

definition draft_totals :: "'z draft_form_scheme \<Rightarrow> line_money option option" where
  "draft_totals f = (let previews = map previewDraftLine (df_lines f) in
     if None \<in> set previews then None else line_totals (map the previews))"

section \<open>Submission\<close>

text \<open>\<open>handleSubmit\<close>, with the call that saves as an argument.\<close>

definition submit_draft :: "string \<Rightarrow> string \<Rightarrow> ('w, int) call \<Rightarrow> 'z draft_form_scheme
    \<Rightarrow> ('w, payload, body) browser \<Rightarrow> 'z draft_form_scheme \<times> ('w, payload, body) browser" where
  "submit_draft partyLabel basePath save f b =
     (if df_partyId f = []
      then (f\<lparr>df_saveError := Some (''Please choose a '' @ toLowerCase partyLabel @ ''.'')\<rparr>, b)
      else
        let f = f\<lparr>df_saving := True, df_saveError := None\<rparr> in
        case save b of
          (Inr docId, b) \<Rightarrow> (f\<lparr>df_navigated := Some (basePath @ ''/'' @ show_int docId)\<rparr>, b)
        | (Inl err, b) \<Rightarrow> (f\<lparr>df_saving := False, df_saveError := Some (save_message err)\<rparr>, b))"

section \<open>The screen\<close>

datatype draft_event =
    Pick_Party string | Type_Number string | Type_Date string | Type_Expected string
  | Type_Currency string | Type_Reference string | Type_Memo string
  | Pick_Product nat string | Type_Description nat string | Type_Quantity nat string
  | Type_Unit_Amount nat string | Pick_Tax_Code nat string | Type_Tax_Rate nat string
  | Pick_Account nat string | Drop_Line nat | New_Line | Save_Draft

definition draft_line_view :: "string \<Rightarrow> string \<Rightarrow> string \<Rightarrow> 'z draft_form_scheme \<Rightarrow> nat \<Rightarrow> DraftLine
    \<Rightarrow> draft_event element list" where
  "draft_line_view unit_id unitLabel accountLabel f i line =
     (let ident = (\<lambda>s. ''line_'' @ show_nat i @ s) in
      [Select (ident ''_product'') ''Product'' (ln_productId line)
         ((NONE, ''Free-form'') # map (\<lambda>p. (show_int (prod_id p),
             prod_sku p @ '' '' @ em_dash @ '' '' @ prod_name p)) (df_products f)) (Pick_Product i),
       Field (ident ''_description'') ''Description'' True (ln_description line) (Type_Description i),
       Field (ident ''_quantity'') ''Qty'' False (ln_quantity line) (Type_Quantity i),
       Field (ident unit_id) unitLabel False (ln_unitAmount line) (Type_Unit_Amount i),
       Select (ident ''_tax_code'') ''Tax Code'' (ln_taxCode line)
         ((NONE, ''None'') # map (\<lambda>t. (tc_code t,
             tc_code t @ '' '' @ em_dash @ '' '' @ tc_name t)) (df_taxCodes f)) (Pick_Tax_Code i),
       Field (ident ''_tax_rate'') ''Tax Rate %'' False (ln_taxRate line) (Type_Tax_Rate i),
       Select (ident ''_account'') accountLabel (ln_accountId line)
         ((NONE, (''Product'' @ [CHR 0x27, CHR ''s''])) # map (\<lambda>a. (show_int (acc_id a),
             acc_code a @ '' '' @ em_dash @ '' '' @ acc_name a)) (df_accounts f)) (Pick_Account i),
       Datum ''Line total: '' (case previewDraftLine line of
           Some (Some m) \<Rightarrow> formatAmount (lm_total m) | _ \<Rightarrow> em_dash)]
      @ guarded (1 < length (df_lines f)) [Button ''Remove'' False (Drop_Line i)])"

definition draft_totals_view :: "'z draft_form_scheme \<Rightarrow> draft_event element list" where
  "draft_totals_view f =
     (let shown = (\<lambda>sel. case draft_totals f of
          Some (Some m) \<Rightarrow> formatAmount (sel m) | _ \<Rightarrow> em_dash) in
      [Datum ''Subtotal'' (shown lm_subtotal), Datum ''Tax'' (shown lm_tax),
       Datum ''Total'' (shown lm_total)])"

definition draft_actions_view :: "int option \<Rightarrow> string \<Rightarrow> string \<Rightarrow> 'z draft_form_scheme
    \<Rightarrow> draft_event element list" where
  "draft_actions_view editId basePath backLabel f =
     (case df_saveError f of None \<Rightarrow> [] | Some e \<Rightarrow> [Alert (''Failed to save: '' @ e)])
     @ [Button (if df_saving f then ''Saving...''
          else if editId \<noteq> None then ''Save changes'' else ''Create draft'') (df_saving f) Save_Draft,
        Link backLabel (case editId of
          Some i \<Rightarrow> basePath @ ''/'' @ show_int i | None \<Rightarrow> basePath)]"

definition draft_party_view :: "string \<Rightarrow> 'z draft_form_scheme \<Rightarrow> draft_event element" where
  "draft_party_view partyLabel f = Select ''party'' partyLabel (df_partyId f)
     (map (\<lambda>p. (show_int (opt_id p), opt_name p)) (df_parties f)) Pick_Party"

text \<open>The steps of the handlers; the prefill, the handler of the expected date and the submission
  are the form's.\<close>

fun draft_edit :: "(Product \<Rightarrow> DraftLine \<Rightarrow> DraftLine) \<Rightarrow> draft_event
    \<Rightarrow> 'z draft_form_scheme \<Rightarrow> 'z draft_form_scheme" where
  "draft_edit prefill (Pick_Party v) f = chooseParty v f"
| "draft_edit prefill (Type_Number v) f = f\<lparr>df_number := v\<rparr>"
| "draft_edit prefill (Type_Date v) f = f\<lparr>df_date := v\<rparr>"
| "draft_edit prefill (Type_Currency v) f = f\<lparr>df_currencyCode := v\<rparr>"
| "draft_edit prefill (Type_Reference v) f = f\<lparr>df_reference := v\<rparr>"
| "draft_edit prefill (Type_Memo v) f = f\<lparr>df_memo := v\<rparr>"
| "draft_edit prefill (Pick_Product i v) f = chooseDraftProduct prefill i v f"
| "draft_edit prefill (Type_Description i v) f = setDraftLine i (\<lambda>l. l\<lparr>ln_description := v\<rparr>) f"
| "draft_edit prefill (Type_Quantity i v) f = setDraftLine i (\<lambda>l. l\<lparr>ln_quantity := v\<rparr>) f"
| "draft_edit prefill (Type_Unit_Amount i v) f = setDraftLine i (\<lambda>l. l\<lparr>ln_unitAmount := v\<rparr>) f"
| "draft_edit prefill (Pick_Tax_Code i v) f = chooseDraftTaxCode i v f"
| "draft_edit prefill (Type_Tax_Rate i v) f = setDraftLine i (\<lambda>l. l\<lparr>ln_taxRate := v\<rparr>) f"
| "draft_edit prefill (Pick_Account i v) f = setDraftLine i (\<lambda>l. l\<lparr>ln_accountId := v\<rparr>) f"
| "draft_edit prefill (Drop_Line i) f = f\<lparr>df_lines := remove_line i (df_lines f)\<rparr>"
| "draft_edit prefill New_Line f = f\<lparr>df_lines := df_lines f @ [blankDraftLine]\<rparr>"
| "draft_edit prefill (Type_Expected v) f = f"
| "draft_edit prefill Save_Draft f = f"

section \<open>Lines go out as they came in\<close>

text \<open>A line as the server stores it, and a line of the same values.\<close>

definition clean_values :: "LineValues \<Rightarrow> bool" where
  "clean_values l \<longleftrightarrow> trim (va_description l) = va_description l \<and> va_tax_code l \<noteq> Some NONE
     \<and> printed (va_quantity l) \<and> printed (va_unit_amount l) \<and> printed (va_tax_rate l)"

definition same_values :: "LineValues \<Rightarrow> LineValues \<Rightarrow> bool" where
  "same_values l i \<longleftrightarrow> va_product_id i = va_product_id l \<and> va_description i = va_description l
     \<and> va_account_id i = va_account_id l \<and> va_tax_code i = va_tax_code l
     \<and> amount_value (va_quantity i) = amount_value (va_quantity l)
     \<and> amount_value (va_unit_amount i) = amount_value (va_unit_amount l)
     \<and> amount_value (va_tax_rate i) = amount_value (va_tax_rate l)"

lemma draft_line_back: "clean_values l \<Longrightarrow> same_values l (draft_line_values (draft_line_of l))"
  by (simp add: same_values_def clean_values_def draft_line_values_def draft_line_of_def
      printed_input trimAmount_printed)

lemma draft_lines_back:
  "list_all clean_values ls \<Longrightarrow>
    list_all2 same_values ls (map draft_line_values (map draft_line_of ls))"
  by (simp add: list_all2_conv_all_nth list_all_length draft_line_back)

section \<open>The preview is the database's money\<close>

definition draft_amounts :: "DraftLine \<Rightarrow> rat \<times> rat \<times> rat" where
  "draft_amounts l = (amount_value (or_default ''1'' (ln_quantity l)),
     amount_value (or_default ''0'' (ln_unitAmount l)), amount_value (or_default ''0'' (ln_taxRate l)))"

definition draft_scale4 :: "DraftLine \<Rightarrow> bool" where
  "draft_scale4 l \<longleftrightarrow> scale4 (or_default ''1'' (ln_quantity l))
     \<and> scale4 (or_default ''0'' (ln_unitAmount l)) \<and> scale4 (or_default ''0'' (ln_taxRate l))"

lemma previewDraftLine_default: "previewDraftLine l = lineAmounts (or_default ''1'' (ln_quantity l))
    (or_default ''0'' (ln_unitAmount l)) (or_default ''0'' (ln_taxRate l))"
  by (simp add: previewDraftLine_def or_default_def)

lemma draft_totals_preview: "draft_totals f = preview_totals previewDraftLine (df_lines f)"
  by (simp add: draft_totals_def preview_totals_def)

lemma draft_totals_database:
  "draft_totals f \<noteq> None"
  "list_all draft_scale4 (df_lines f) \<Longrightarrow> \<exists>m. draft_totals f = Some (Some m)
    \<and> (amount_value (lm_subtotal m), amount_value (lm_tax m)) = stored_total draft_amounts (df_lines f)
    \<and> amount_value (lm_total m) = amount_value (lm_subtotal m) + amount_value (lm_tax m)"
  using preview_totals_database [OF previewDraftLine_default, where ls = "df_lines f"]
  unfolding draft_totals_preview draft_amounts_def draft_scale4_def by simp_all

section \<open>Submission keeps the contract of a form\<close>

definition draft_problem :: "string \<Rightarrow> 'z draft_form_scheme \<Rightarrow> string option" where
  "draft_problem partyLabel f =
     (if df_partyId f = [] then Some (''Please choose a '' @ toLowerCase partyLabel @ ''.'') else None)"

definition draft_fields :: "'z draft_form_scheme \<Rightarrow> 'z draft_form_scheme" where
  "draft_fields f = f\<lparr>df_saving := False, df_saveError := None, df_navigated := None\<rparr>"

lemma draft_form_submit:
  fixes save :: "'z draft_form_scheme \<Rightarrow> ('w, int) call"
  assumes "\<And>f. saves accepts (save f) (rq f)"
  shows "form_submit (\<lambda>f. submit_draft partyLabel basePath (save f) f) (draft_problem partyLabel) rq
    accepts draft_fields df_saving df_saveError df_navigated"
proof unfold_locales
  fix f :: "'z draft_form_scheme" and m e and b :: "('w, payload, body) browser"
  note s = assms [of f] and d = submit_draft_def draft_problem_def Let_def
  let ?r = "submit_draft partyLabel basePath (save f) f b"
  show "draft_problem partyLabel f = Some m \<Longrightarrow> snd ?r = b \<and> df_saveError (fst ?r) = Some m
      \<and> df_saving (fst ?r) = df_saving f \<and> df_navigated (fst ?r) = df_navigated f"
    by (auto simp: d split: if_splits)
  show "draft_fields (fst ?r) = draft_fields f"
    by (simp add: d draft_fields_def split: prod.split sum.split)
  show "draft_problem partyLabel f = None \<Longrightarrow> snd ?r = after_exchange (rq f) b"
    using saves_state [OF s, of b] by (auto simp: d split: if_splits prod.splits sum.splits)
  show "draft_problem partyLabel f = None \<Longrightarrow> failed_with accepts (reply_to (rq f) b) = None \<Longrightarrow> df_navigated (fst ?r) \<noteq> None \<and> df_saveError (fst ?r) = None
        \<and> df_saving (fst ?r)"
    using saves_ok [OF s, of b] by (auto simp: d split: if_splits)
  show "draft_problem partyLabel f = None \<Longrightarrow>
      failed_with accepts (reply_to (rq f) b) = Some e \<Longrightarrow>
      df_navigated (fst ?r) = df_navigated f \<and> df_saveError (fst ?r) = Some (save_message e)
        \<and> \<not> df_saving (fst ?r)"
    using saves_fails [OF s, of b e]
    by (auto simp: d split: if_splits)
qed

lemma submit_draft_frame [simp]:
  "df_lines (fst (submit_draft l p save f b)) = df_lines f"
  "df_partyId (fst (submit_draft l p save f b)) = df_partyId f"
  by (simp_all add: submit_draft_def Let_def split: prod.split sum.split)

section \<open>What editing keeps\<close>

definition draft_line_ok :: "DraftLine \<Rightarrow> bool" where
  "draft_line_ok l \<longleftrightarrow> id_value (ln_productId l) \<and> id_value (ln_accountId l)"

definition draft_ok :: "int option \<Rightarrow> 'z draft_form_scheme \<Rightarrow> bool" where
  "draft_ok k f \<longleftrightarrow> (k = None \<longrightarrow> df_lines f \<noteq> [])
     \<and> (df_partyId f = [] \<or> (\<exists>i. df_partyId f = show_int i)) \<and> list_all draft_line_ok (df_lines f)"

lemma draft_line_ok_simps [simp]:
  "draft_line_ok blankDraftLine" "draft_line_ok (draft_line_of v)"
  "draft_line_ok (l\<lparr>ln_description := s\<rparr>) = draft_line_ok l"
  "draft_line_ok (l\<lparr>ln_quantity := s\<rparr>) = draft_line_ok l"
  "draft_line_ok (l\<lparr>ln_unitAmount := s\<rparr>) = draft_line_ok l"
  "draft_line_ok (l\<lparr>ln_taxRate := s\<rparr>) = draft_line_ok l"
  "draft_line_ok (l\<lparr>ln_taxCode := s\<rparr>) = draft_line_ok l"
  by (simp_all add: draft_line_ok_def blankDraftLine_def draft_line_of_def)

lemma setDraftLine_ok:
  "draft_ok k f \<Longrightarrow> (\<And>l. draft_line_ok l \<Longrightarrow> draft_line_ok (p l)) \<Longrightarrow> draft_ok k (setDraftLine i p f)"
  by (auto simp: draft_ok_def setDraftLine_def list_all_patch_line)

lemma chooseDraftProduct_ok:
  assumes "draft_ok k f" "\<And>p l. draft_line_ok l \<Longrightarrow> draft_line_ok (prefill p l)"
  shows "draft_ok k (chooseDraftProduct prefill i v f)"
  using assms by (auto simp: chooseDraftProduct_def Let_def draft_line_ok_def find_Some_iff
      intro!: setDraftLine_ok split: option.split)

lemma chooseParty_ok:
  "draft_ok k f \<Longrightarrow> v = [] \<or> (\<exists>i. v = show_int i) \<Longrightarrow> draft_ok k (chooseParty v f)"
  by (auto simp: draft_ok_def chooseParty_def Let_def split: option.split)

text \<open>What an offered event may carry.\<close>

definition draft_event_ok :: "'z draft_form_scheme \<Rightarrow> draft_event \<Rightarrow> bool" where
  "draft_event_ok f e \<longleftrightarrow> (case e of
       Pick_Party v \<Rightarrow> v = [] \<or> (\<exists>i. v = show_int i)
     | Pick_Account i v \<Rightarrow> id_value v
     | Drop_Line i \<Rightarrow> 1 < length (df_lines f)
     | _ \<Rightarrow> True)"

lemma draft_edit_ok:
  assumes "draft_ok k f" "draft_event_ok f e" "\<And>p l. draft_line_ok l \<Longrightarrow> draft_line_ok (prefill p l)"
  shows "draft_ok k (draft_edit prefill e f)"
proof (cases e)
  case (Pick_Party v)
  with assms(1,2) show ?thesis by (simp add: chooseParty_ok draft_event_ok_def)
next
  case (Pick_Product n v)
  with assms(1,3) show ?thesis by (simp add: chooseDraftProduct_ok)
next
  case (Drop_Line n)
  with assms(1,2) show ?thesis
    by (auto simp: draft_ok_def draft_event_ok_def list_all_remove_line remove_line_not_Nil)
next
  case (Pick_Account n v)
  with assms(1,2) show ?thesis by (auto simp: draft_line_ok_def draft_event_ok_def intro: setDraftLine_ok)
next
  case (Pick_Tax_Code n v)
  with assms(1) show ?thesis by (simp add: chooseDraftTaxCode_def Let_def setDraftLine_ok)
qed (use assms(1) in \<open>auto simp: draft_ok_def setDraftLine_def intro!: list_all_patch_line\<close>)

lemma draft_event_ok_simps [simp]:
  "draft_event_ok f (Type_Number v)" "draft_event_ok f (Type_Date v)" "draft_event_ok f (Type_Expected v)"
  "draft_event_ok f (Type_Currency v)" "draft_event_ok f (Type_Reference v)"
  "draft_event_ok f (Type_Memo v)" "draft_event_ok f New_Line" "draft_event_ok f Save_Draft"
  by (simp_all add: draft_event_ok_def)

lemma draft_view_events:
  "offers (draft_line_view u ul al f i l) e \<Longrightarrow> draft_event_ok f e"
  "offered (draft_party_view pl f) e \<Longrightarrow> draft_event_ok f e"
  by (auto simp: draft_line_view_def draft_party_view_def Let_def draft_event_ok_def)

lemma draft_totals_events [simp]: "\<not> offers (draft_totals_view f) e"
  by (simp add: draft_totals_view_def Let_def)

lemma draft_actions_events: "offers (draft_actions_view k bp bl f) e \<Longrightarrow> e = Save_Draft"
  by (auto simp: draft_actions_view_def split: option.splits)

end
