(* ===== verification/Credit_Form.thy ===== *)
theory Credit_Form
  imports Draft_Form
begin

text \<open>
  The credit-note form (\<open>web/src/components/credit-note-form.tsx\<close>): one component for sales credit
  notes and supplier credits, which differ in the party, the unit amount, the account of a line
  and what a product fills in.
\<close>

section \<open>The two forms\<close>

record HeaderState =
  hs_partyId :: int
  hs_number :: string
  hs_date :: string
  hs_currency :: string
  hs_reference :: "string option"
  hs_memo :: "string option"

definition sales_credit_input :: "HeaderState \<Rightarrow> LineValues list \<Rightarrow> SalesCreditNoteInput" where
  "sales_credit_input header lns = \<lparr>sci_credit_note_number = hs_number header,
     sci_customer_id = hs_partyId header, sci_credit_note_date = hs_date header,
     sci_currency_code = hs_currency header, sci_reference = hs_reference header,
     sci_memo = hs_memo header,
     sci_lines = map (\<lambda>l. \<lparr>sili_product_id = va_product_id l, sili_description = va_description l,
       sili_quantity = va_quantity l, sili_unit_price = va_unit_amount l,
       sili_revenue_account_id = va_account_id l, sili_tax_code = va_tax_code l,
       sili_tax_rate = va_tax_rate l\<rparr>) lns\<rparr>"

definition supplier_credit_input :: "HeaderState \<Rightarrow> LineValues list \<Rightarrow> PurchaseCreditNoteInput" where
  "supplier_credit_input header lns = \<lparr>pci_credit_note_number = hs_number header,
     pci_supplier_id = hs_partyId header, pci_credit_note_date = hs_date header,
     pci_currency_code = hs_currency header, pci_reference = hs_reference header,
     pci_memo = hs_memo header,
     pci_lines = map (\<lambda>l. \<lparr>pbli_product_id = va_product_id l, pbli_description = va_description l,
       pbli_quantity = va_quantity l, pbli_unit_cost = va_unit_amount l,
       pbli_expense_account_id = va_account_id l, pbli_tax_code = va_tax_code l,
       pbli_tax_rate = va_tax_rate l\<rparr>) lns\<rparr>"

text \<open>The property \<open>save\<close>: an update of the edited note, or a creation; it gives the id to go to.\<close>

definition save_sales_credit :: "int option \<Rightarrow> HeaderState \<Rightarrow> LineValues list \<Rightarrow> ('w, int) call" where
  "save_sales_credit editId header lns = (let input = sales_credit_input header lns in
     case editId of Some i \<Rightarrow> map_io (\<lambda>_. i) (updateSalesCreditNote i input)
     | None \<Rightarrow> createSalesCreditNote input)"

definition save_supplier_credit :: "int option \<Rightarrow> HeaderState \<Rightarrow> LineValues list \<Rightarrow> ('w, int) call" where
  "save_supplier_credit editId header lns = (let input = supplier_credit_input header lns in
     case editId of Some i \<Rightarrow> map_io (\<lambda>_. i) (updatePurchaseCreditNote i input)
     | None \<Rightarrow> createPurchaseCreditNote input)"

definition sales_credit_values :: "SalesInvoiceLine \<Rightarrow> LineValues" where
  "sales_credit_values l = \<lparr>va_product_id = sil_product_id l, va_description = sil_description l,
     va_quantity = sil_quantity l, va_unit_amount = sil_unit_price l,
     va_account_id = sil_revenue_account_id l, va_tax_code = sil_tax_code l,
     va_tax_rate = sil_tax_rate l\<rparr>"

definition supplier_credit_values :: "PurchaseBillLine \<Rightarrow> LineValues" where
  "supplier_credit_values l = \<lparr>va_product_id = pbl_product_id l, va_description = pbl_description l,
     va_quantity = pbl_quantity l, va_unit_amount = pbl_unit_cost l,
     va_account_id = pbl_expense_account_id l, va_tax_code = pbl_tax_code l,
     va_tax_rate = pbl_tax_rate l\<rparr>"

record 'w credit_props =
  cp_title :: string
  cp_noun :: string
  cp_partyLabel :: string
  cp_unitLabel :: string
  cp_accountLabel :: string
  cp_basePath :: string
  cp_backLabel :: string
  cp_fetchParties :: "('w, PartyOption list) call"
  cp_prefill :: "Product \<Rightarrow> DraftLine \<Rightarrow> DraftLine"
  cp_fetchDocument :: "int \<Rightarrow> ('w, DocumentBalance) call"
  cp_fetchLines :: "int \<Rightarrow> ('w, LineValues list) call"
  cp_save :: "int option \<Rightarrow> HeaderState \<Rightarrow> LineValues list \<Rightarrow> ('w, int) call"

definition CreditNoteForm :: "bool \<Rightarrow> 'w credit_props" where
  "CreditNoteForm editing = \<lparr>cp_title = (if editing then ''Edit Credit Note'' else ''New Credit Note''),
     cp_noun = ''credit notes'', cp_partyLabel = ''Customer'', cp_unitLabel = ''Unit Price'',
     cp_accountLabel = ''Revenue Account'', cp_basePath = ''/credit-notes'', cp_backLabel = ''Cancel'',
     cp_fetchParties = fetchCustomerOptions,
     cp_prefill = (\<lambda>p l. l\<lparr>ln_description := prod_name p, ln_unitAmount := prod_unit_price p,
       ln_accountId := id_select (prod_revenue_account_id p)\<rparr>),
     cp_fetchDocument = getSalesCreditNote,
     cp_fetchLines = (\<lambda>i. map_io (map sales_credit_values) (getSalesCreditNoteLines i)),
     cp_save = save_sales_credit\<rparr>"

definition SupplierCreditForm :: "bool \<Rightarrow> 'w credit_props" where
  "SupplierCreditForm editing =
    \<lparr>cp_title = (if editing then ''Edit Supplier Credit'' else ''New Supplier Credit''),
     cp_noun = ''supplier credits'', cp_partyLabel = ''Supplier'', cp_unitLabel = ''Unit Cost'',
     cp_accountLabel = ''Expense Account'', cp_basePath = ''/supplier-credits'', cp_backLabel = ''Cancel'',
     cp_fetchParties = fetchSupplierOptions,
     cp_prefill = (\<lambda>p l. l\<lparr>ln_description := prod_name p\<rparr>),
     cp_fetchDocument = getPurchaseCreditNote,
     cp_fetchLines = (\<lambda>i. map_io (map supplier_credit_values) (getPurchaseCreditNoteLines i)),
     cp_save = save_supplier_credit\<rparr>"

section \<open>Loading\<close>

type_synonym credit_data = "PartyOption list \<times> Product list \<times> TaxCode list \<times> Account list
  \<times> DocumentBalance option \<times> LineValues list option"

definition load_credit_form :: "'w credit_props \<Rightarrow> int option \<Rightarrow> ('w, credit_data) call" where
  "load_credit_form p editId =
     both_io (cp_fetchParties p) (both_io listProducts (both_io listTaxCodes (both_io listAccounts
       (both_io (optional_io (cp_fetchDocument p) editId) (optional_io (cp_fetchLines p) editId)))))"

definition credit_loaded :: "'w credit_props \<Rightarrow> bool \<Rightarrow> exn + credit_data \<Rightarrow> draft_form \<Rightarrow> draft_form" where
  "credit_loaded p cancelled result f =
     (case result of
       Inl err \<Rightarrow> if cancelled then f else f\<lparr>df_error := Some (error_message err)\<rparr>
     | Inr (partyOpts, prods, taxes, accts, doc, docLines) \<Rightarrow>
         if cancelled then f
         else
           let f = f\<lparr>df_parties := partyOpts, df_products := filter prod_is_active prods,
                 df_taxCodes := taxes, df_accounts := accts\<rparr>
           in (case (doc, docLines) of
                (Some d, Some ls) \<Rightarrow>
                  if db_status d \<noteq> ''draft''
                  then f\<lparr>df_error := Some (''Only draft '' @ cp_noun p @ '' can be edited.'')\<rparr>
                  else f\<lparr>df_partyId := show_int (db_party_id d), df_number := db_number d,
                      df_date := db_date d, df_currencyCode := db_currency_code d,
                      df_reference := or_empty (db_reference d), df_memo := or_empty (db_memo d),
                      df_lines := map draft_line_of ls, df_loaded := True\<rparr>
              | _ \<Rightarrow> f\<lparr>df_loaded := True\<rparr>))"

section \<open>Submission\<close>

definition credit_header :: "draft_form \<Rightarrow> HeaderState" where
  "credit_header f = \<lparr>hs_partyId = id_of (df_partyId f), hs_number = trim (df_number f),
     hs_date = df_date f, hs_currency = toUpperCase (trim (df_currencyCode f)),
     hs_reference = emptyToNull (df_reference f), hs_memo = emptyToNull (df_memo f)\<rparr>"

definition submitCredit :: "'w credit_props \<Rightarrow> int option \<Rightarrow> draft_form
    \<Rightarrow> ('w, payload, body) browser \<Rightarrow> draft_form \<times> ('w, payload, body) browser" where
  "submitCredit p editId f = submit_draft (cp_partyLabel p) (cp_basePath p)
     (cp_save p editId (credit_header f) (map draft_line_values (df_lines f))) f"

section \<open>The screen\<close>

definition credit_header_view :: "'w credit_props \<Rightarrow> draft_form \<Rightarrow> draft_event element list" where
  "credit_header_view p f =
     [draft_party_view (cp_partyLabel p) f,
      Field ''credit_note_number'' ''Credit Note #'' True (df_number f) Type_Number,
      Field ''credit_note_date'' ''Date'' True (df_date f) Type_Date,
      Field ''currency'' ''Currency'' True (df_currencyCode f) Type_Currency,
      Field ''reference'' ''Reference'' False (df_reference f) Type_Reference,
      Field ''memo'' ''Memo'' False (df_memo f) Type_Memo]"

definition credit_view :: "'w credit_props \<Rightarrow> int option \<Rightarrow> draft_form \<Rightarrow> draft_event element list" where
  "credit_view p editId f =
     [Heading (cp_title p),
      Note (if editId \<noteq> None then ''Rewrites the draft -- it stays unposted.''
        else ''Creates a draft -- post it to the ledger from the credit note page, then apply it ''
          @ ''to open documents.'')]
     @ (case df_error f of None \<Rightarrow> [] | Some e \<Rightarrow> [Alert e, Link ''Back'' (cp_basePath p)])
     @ guarded (df_error f = None \<and> \<not> df_loaded f) [Note ''Loading...'']
     @ guarded (df_error f = None \<and> df_loaded f)
         (credit_header_view p f
          @ concat (map (\<lambda>(i, line). draft_line_view ''_unit_amount'' (cp_unitLabel p)
              (cp_accountLabel p) f i line) (enumerate 0 (df_lines f)))
          @ [Button ''Add line'' False New_Line] @ draft_totals_view f
          @ draft_actions_view editId (cp_basePath p) (cp_backLabel p) f)"

definition credit_step :: "'w credit_props \<Rightarrow> int option \<Rightarrow> draft_event
    \<Rightarrow> draft_form \<times> ('w, payload, body) browser \<Rightarrow> draft_form \<times> ('w, payload, body) browser" where
  "credit_step p editId e x = (case x of (f, b) \<Rightarrow>
     if e = Save_Draft then submitCredit p editId f b else (draft_edit (cp_prefill p) e f, b))"

definition credit_move :: "'w credit_props \<Rightarrow> int option \<Rightarrow> draft_form \<times> ('w, payload, body) browser
    \<Rightarrow> draft_form \<times> ('w, payload, body) browser \<Rightarrow> bool" where
  "credit_move p k = form_move (load_credit_form p k) (credit_loaded p)
     (\<lambda>f. offers (credit_view p k f)) (credit_step p k)"

section \<open>The contracts\<close>

definition credit_lines :: "draft_form \<Rightarrow> LineValues list" where
  "credit_lines f = map draft_line_values (df_lines f)"

definition sales_credit_request :: "int option \<Rightarrow> SalesCreditNoteInput \<Rightarrow> payload request" where
  "sales_credit_request k i = (let p = Document_Payload (SalesCreditNoteInput_Payload i) in
     case k of Some n \<Rightarrow> body_request ''PUT'' (''/sales-credit-notes/'' @ show_int n) p
     | None \<Rightarrow> body_request ''POST'' ''/sales-credit-notes'' p)"

definition supplier_credit_request :: "int option \<Rightarrow> PurchaseCreditNoteInput \<Rightarrow> payload request" where
  "supplier_credit_request k i = (let p = Document_Payload (PurchaseCreditNoteInput_Payload i) in
     case k of Some n \<Rightarrow> body_request ''PUT'' (''/purchase-credit-notes/'' @ show_int n) p
     | None \<Rightarrow> body_request ''POST'' ''/purchase-credit-notes'' p)"

lemma save_credit_saves:
  "saves (accepted k id_content) (save_sales_credit k h ls) (sales_credit_request k (sales_credit_input h ls))"
  "saves (accepted k id_content) (save_supplier_credit k h ls) (supplier_credit_request k (supplier_credit_input h ls))"
  by (cases k; simp add: save_sales_credit_def save_supplier_credit_def sales_credit_request_def
      supplier_credit_request_def Let_def updateSalesCreditNote_def createSalesCreditNote_def
      updatePurchaseCreditNote_def createPurchaseCreditNote_def saving_calls)+

lemma submit_sales_credit: "submitCredit (CreditNoteForm editing) k
    = (\<lambda>f. submit_draft ''Customer'' ''/credit-notes'' (save_sales_credit k (credit_header f) (credit_lines f)) f)"
  by (rule ext) (simp add: submitCredit_def CreditNoteForm_def credit_lines_def)

lemma submit_supplier_credit: "submitCredit (SupplierCreditForm editing) k
    = (\<lambda>f. submit_draft ''Supplier'' ''/supplier-credits''
        (save_supplier_credit k (credit_header f) (credit_lines f)) f)"
  by (rule ext) (simp add: submitCredit_def SupplierCreditForm_def credit_lines_def)

interpretation sales_credit: form_submit "submitCredit (CreditNoteForm editing) k"
    "draft_problem ''Customer''"
    "\<lambda>f. sales_credit_request k (sales_credit_input (credit_header f) (credit_lines f))"
    "accepted k id_content" draft_fields df_saving df_saveError df_navigated for editing k
  unfolding submit_sales_credit by (rule draft_form_submit, rule save_credit_saves)

interpretation supplier_credit: form_submit "submitCredit (SupplierCreditForm editing) k"
    "draft_problem ''Supplier''"
    "\<lambda>f. supplier_credit_request k (supplier_credit_input (credit_header f) (credit_lines f))"
    "accepted k id_content" draft_fields df_saving df_saveError df_navigated for editing k
  unfolding submit_supplier_credit by (rule draft_form_submit, rule save_credit_saves)

definition credit_locked :: "credit_data \<Rightarrow> bool" where
  "credit_locked data = (case data of (_, _, _, _, doc, docLines) \<Rightarrow>
     (case (doc, docLines) of (Some d, Some ls) \<Rightarrow> db_status d \<noteq> ''draft'' | _ \<Rightarrow> False))"

definition initial_draft :: "draft_form \<Rightarrow> bool" where
  "initial_draft f \<longleftrightarrow> (\<exists>date. f = draft_init date)"

definition is_credit_form :: "'w credit_props \<Rightarrow> bool" where
  "is_credit_form p \<longleftrightarrow> (\<exists>ed. p = CreditNoteForm ed \<or> p = SupplierCreditForm ed)"

lemma fetch_options_read [reading]: "reads_only fetchCustomerOptions" "reads_only fetchSupplierOptions"
  unfolding fetchCustomerOptions_def fetchSupplierOptions_def listCustomers_def listOrganizations_def
    listSuppliers_def by (intro reading)+

lemma master_lists_read [reading]: "reads_only listProducts" "reads_only listTaxCodes"
  "reads_only listAccounts"
  unfolding listProducts_def listTaxCodes_def listAccounts_def by (intro reading)+

lemma load_credit_form_reads: "is_credit_form p \<Longrightarrow> reads_only (load_credit_form p k)"
  unfolding load_credit_form_def
  by (intro reads_only_both reads_only_optional master_lists_read)
    (auto simp: is_credit_form_def CreditNoteForm_def SupplierCreditForm_def getSalesCreditNote_def
      getSalesCreditNoteLines_def getPurchaseCreditNote_def getPurchaseCreditNoteLines_def
      intro!: reading)

lemma credit_edit_form:
  assumes "is_credit_form p"
  shows "edit_form (load_credit_form p k) (credit_loaded p) (\<lambda>f. offers (credit_view p k f))
    initial_draft df_loaded credit_locked"
proof unfold_locales
  fix f :: draft_form and r c e
  show "reads_only (load_credit_form p k)" by (rule load_credit_form_reads [OF assms])
  show "\<not> df_loaded f \<Longrightarrow> (\<And>data. r = Inr data \<Longrightarrow> credit_locked data) \<Longrightarrow> \<not> df_loaded (credit_loaded p c r f)"
    by (auto simp: credit_loaded_def credit_locked_def Let_def split: sum.splits option.splits)
  show "\<not> df_loaded f \<Longrightarrow> \<not> offers (credit_view p k f) e"
    by (auto simp: credit_view_def split: option.splits)
  show "initial_draft f \<Longrightarrow> \<not> df_loaded f" by (auto simp: initial_draft_def draft_init_def)
qed

interpretation sales_credit_edit: edit_form "load_credit_form (CreditNoteForm editing :: 'w credit_props) k"
    "credit_loaded (CreditNoteForm editing :: 'w credit_props)" "\<lambda>f. offers (credit_view (CreditNoteForm editing :: 'w credit_props) k f)"
    "credit_step (CreditNoteForm editing :: 'w credit_props) k" initial_draft df_loaded credit_locked for editing k
  by (rule credit_edit_form) (auto simp: is_credit_form_def)

interpretation supplier_credit_edit: edit_form "load_credit_form (SupplierCreditForm editing :: 'w credit_props) k"
    "credit_loaded (SupplierCreditForm editing :: 'w credit_props)"
    "\<lambda>f. offers (credit_view (SupplierCreditForm editing :: 'w credit_props) k f)"
    "credit_step (SupplierCreditForm editing :: 'w credit_props) k" initial_draft df_loaded credit_locked for editing k
  by (rule credit_edit_form) (auto simp: is_credit_form_def)

section \<open>What every reachable form keeps\<close>

lemma credit_step_ok:
  assumes "is_credit_form p" "draft_ok k f" "offers (credit_view p k f) e"
  shows "draft_ok k (fst (credit_step p k e (f, b)))"
proof (cases "e = Save_Draft")
  case True
  with assms(2) show ?thesis by (simp add: credit_step_def submitCredit_def draft_ok_def)
next
  case False
  have "draft_event_ok f e"
    using assms(3)
    by (auto simp: credit_view_def credit_header_view_def offers_concat
        dest: draft_view_events draft_actions_events split: option.splits)
  moreover have "draft_line_ok (cp_prefill p pr l)" if "draft_line_ok l" for pr l
    using assms(1) that by (auto simp: is_credit_form_def CreditNoteForm_def SupplierCreditForm_def
        draft_line_ok_def)
  ultimately show ?thesis
    using False assms(2) by (simp add: credit_step_def draft_edit_ok)
qed

lemma credit_loaded_ok:
  assumes "draft_ok k f" "load_credit_form p k b = (r, b')"
  shows "draft_ok k (credit_loaded p c r f)"
  using assms
  by (auto simp: credit_loaded_def load_credit_form_def both_io_result draft_ok_def Let_def
      list_all_iff split: sum.splits prod.splits option.splits)

lemma credit_states:
  assumes "is_credit_form p"
  shows "invariant (\<lambda>s. initial_draft (fst s)) (credit_move p k) (\<lambda>s. draft_ok k (fst s))"
proof unfold_locales
  fix s s' :: "draft_form \<times> ('a, payload, body) browser"
  show "initial_draft (fst s) \<Longrightarrow> draft_ok k (fst s)"
    by (auto simp: initial_draft_def draft_init_def draft_ok_def)
  show "draft_ok k (fst s) \<Longrightarrow> credit_move p k s s' \<Longrightarrow> draft_ok k (fst s')"
    by (cases s) (auto simp: credit_move_def elim!: form_moveE
        intro: credit_loaded_ok credit_step_ok [OF assms])
qed

interpretation sales_credit_states: invariant "\<lambda>s. initial_draft (fst s)"
    "credit_move (CreditNoteForm editing) k" "\<lambda>s. draft_ok k (fst s)" for editing k
  by (rule credit_states) (auto simp: is_credit_form_def)

interpretation supplier_credit_states: invariant "\<lambda>s. initial_draft (fst s)"
    "credit_move (SupplierCreditForm editing) k" "\<lambda>s. draft_ok k (fst s)" for editing k
  by (rule credit_states) (auto simp: is_credit_form_def)

section \<open>Properties\<close>

text \<open>A credit note as the server stores it.\<close>

definition clean_note :: "DocumentBalance \<Rightarrow> bool" where
  "clean_note d \<longleftrightarrow> trim (db_number d) = db_number d \<and> clean (db_reference d) \<and> clean (db_memo d)
     \<and> toUpperCase (trim (db_currency_code d)) = db_currency_code d"

text \<open>Editing a credit note changes only what the user edits: opening a draft and saving it at
  once makes one request, the PUT of that note, whose header is the one loaded and whose lines are
  the ones loaded with every amount of the same value; for sales and for supplier credits.\<close>

theorem credit_edit_roundtrip:
  assumes "db_status d = ''draft''" "clean_note d" "list_all clean_values ls"
    and "f = credit_loaded (CreditNoteForm ed :: 'w credit_props) False
      (Inr (ps, prods, taxes, accts, Some d, Some ls)) (draft_init date)"
    and "g = credit_loaded (SupplierCreditForm ed :: 'w credit_props) False
      (Inr (ps, prods, taxes, accts, Some d, Some ls)) (draft_init date)"
  shows "df_loaded f \<and> df_error f = None
    \<and> credit_header f = \<lparr>hs_partyId = db_party_id d, hs_number = db_number d, hs_date = db_date d,
        hs_currency = db_currency_code d, hs_reference = db_reference d, hs_memo = db_memo d\<rparr>
    \<and> list_all2 same_values ls (credit_lines f)
    \<and> credit_header g = credit_header f \<and> credit_lines g = credit_lines f
    \<and> snd (submitCredit (CreditNoteForm ed :: 'w credit_props) (Some n) f b) = after_exchange
        (sales_credit_request (Some n) (sales_credit_input (credit_header f) (credit_lines f))) b
    \<and> snd (submitCredit (SupplierCreditForm ed :: 'w credit_props) (Some n) g b) = after_exchange
        (supplier_credit_request (Some n) (supplier_credit_input (credit_header f) (credit_lines f))) b"
proof -
  have f: "df_loaded f" "df_error f = None" "df_partyId f = show_int (db_party_id d)"
    "df_number f = db_number d" "df_date f = db_date d" "df_currencyCode f = db_currency_code d"
    "df_reference f = or_empty (db_reference d)" "df_memo f = or_empty (db_memo d)"
    "df_lines f = map draft_line_of ls"
    using assms(1,4) by (simp_all add: credit_loaded_def draft_init_def)
  have g: "g = f" using assms(1,4,5) by (simp add: credit_loaded_def)
  have h: "credit_header f = \<lparr>hs_partyId = db_party_id d, hs_number = db_number d, hs_date = db_date d,
        hs_currency = db_currency_code d, hs_reference = db_reference d, hs_memo = db_memo d\<rparr>"
    using assms(2) by (simp add: credit_header_def f clean_note_def)
  have l: "list_all2 same_values ls (credit_lines f)"
    unfolding credit_lines_def f by (rule draft_lines_back [OF assms(3)])
  have p: "draft_problem ''Customer'' f = None" "draft_problem ''Supplier'' f = None"
    using f(3) by (simp_all add: draft_problem_def)
  show ?thesis
    unfolding g by (intro conjI f(1,2) h l refl sales_credit.sends [OF p(1)] supplier_credit.sends [OF p(2)])
qed

definition sample_values :: LineValues where
  "sample_values = \<lparr>va_product_id = Some 4, va_description = ''Ruler'', va_quantity = ''3.0000'',
     va_unit_amount = ''9.9900'', va_account_id = None, va_tax_code = Some ''VAT'',
     va_tax_rate = ''8.2500''\<rparr>"

theorem credit_edit_roundtrip_witness:
  "\<exists>v. credit_lines (credit_loaded (CreditNoteForm True :: unit credit_props) False
      (Inr ([], [], [], [], Some (fromSalesInvoice sample_invoice), Some [sample_values]))
      (draft_init [])) = [v] \<and> same_values sample_values v"
proof -
  have "db_status (fromSalesInvoice sample_invoice) = ''draft''"
    "clean_note (fromSalesInvoice sample_invoice)" "list_all clean_values [sample_values]"
    by code_simp+
  from credit_edit_roundtrip [OF this refl refl, where ed = True and ps = "[]" and prods = "[]"
      and taxes = "[]" and accts = "[]" and date = "[]"]
  show ?thesis by (auto simp: list_all2_Cons1)
qed

text \<open>The edit form never writes to a credit note that is posted: as long as the server answers
  with such a note (or not at all), every request of the form is a GET and no submit button
  appears; for sales and for supplier credits.\<close>

theorem locked_credit_untouched:
  fixes p :: "'w credit_props"
  assumes "is_credit_form p" "always_loads net (load_credit_form p (Some n)) credit_locked"
    and "reachable (fresh_on net initial_draft) (credit_move p (Some n)) (f, b)"
  shows "list_all (\<lambda>rq. rq_method rq = ''GET'') (sent b) \<and> \<not> offers (credit_view p (Some n) f) Save_Draft"
proof -
  from assms(1) consider ed where "p = CreditNoteForm ed" | ed where "p = SupplierCreditForm ed"
    by (auto simp: is_credit_form_def)
  then show ?thesis
  proof cases
    case 1
    show ?thesis
      using sales_credit_edit.untouched [OF assms(2,3) [unfolded credit_move_def 1]] by (simp add: 1)
  next
    case 2
    show ?thesis
      using supplier_credit_edit.untouched [OF assms(2,3) [unfolded credit_move_def 2]] by (simp add: 2)
  qed
qed

definition sample_note :: "string \<Rightarrow> SalesCreditNote" where
  "sample_note state = \<lparr>da_currency_code = ''USD'', da_status = state, da_total = ''10.0000'',
     da_amount_applied = ''0.0000'', da_balance = ''10.0000'', da_journal_entry_id = Some 5,
     da_reference = None, da_memo = None, sc_id = 7, sc_credit_note_number = ''CN-7'',
     sc_customer_id = 3, sc_credit_note_date = ''2024-02-10'', sc_application_status = ''open''\<rparr>"

definition credit_server :: "string \<Rightarrow> body" where
  "credit_server path =
     (if path = ''/api/customers'' then Master (Customer_List [])
      else if path = ''/api/organizations'' then Master (Organization_List [])
      else if path = ''/api/products'' then Master (Product_List [])
      else if path = ''/api/tax-codes'' then Master (TaxCode_List [])
      else if path = ''/api/accounts'' then Master (Account_List [])
      else if path = ''/api/sales-credit-notes/7'' then
        Document (SalesCreditNote_Body (sample_note ''posted''))
      else Document (SalesInvoiceLine_List []))"

lemma load_posted_note:
  assumes "network b = answering credit_server"
  shows "\<exists>b'. load_credit_form (CreditNoteForm ed) (Some 7) b = (Inr ([], [], [], [],
      Some (fromSalesCreditNote (sample_note ''posted'')), Some []), b')"
proof -
  have "show_int 7 = ''7''" by code_simp
  then show ?thesis
    using assms
    by (simp add: load_credit_form_def CreditNoteForm_def fetchCustomerOptions_def both_io_result
        listCustomers_def listOrganizations_def listProducts_def listTaxCodes_def listAccounts_def
        getSalesCreditNote_def getSalesCreditNoteLines_def get_answering map_io_def then_io_def
        both_io_def optional_io_def return_io_def master_as_def document_as_def BASE_def credit_server_def)
qed

theorem locked_credit_untouched_witness:
  "\<exists>p f. \<exists>b :: (unit, payload, body) browser. p = CreditNoteForm True
    \<and> f = credit_loaded p False (fst (load_credit_form p (Some 7) b)) (draft_init [])
    \<and> \<not> offers (credit_view p (Some 7) f) Save_Draft"
proof -
  let ?p = "CreditNoteForm True :: unit credit_props"
  let ?net = "answering credit_server :: payload request \<Rightarrow> unit \<Rightarrow> body reply \<times> unit"
  let ?b = "\<lparr>network = ?net, world = (), sent = [], events = []\<rparr>"
  let ?f = "credit_loaded ?p False (fst (load_credit_form ?p (Some 7) ?b)) (draft_init [])"
  have c: "is_credit_form ?p" by (auto simp: is_credit_form_def)
  have d: "db_status (fromSalesCreditNote (sample_note ''posted'')) \<noteq> ''draft''" by code_simp
  have l: "always_loads ?net (load_credit_form ?p (Some 7)) credit_locked"
    unfolding always_loads_def
  proof (intro allI impI)
    fix b data b' assume "network b = ?net" "load_credit_form ?p (Some 7) b = (Inr data, b')"
    with load_posted_note [of b True] d show "credit_locked data" by (auto simp: credit_locked_def)
  qed
  have s: "reachable (fresh_on ?net initial_draft) (credit_move ?p (Some 7)) (draft_init [], ?b)"
    by (rule reachable.starting) (auto simp: fresh_on_def initial_draft_def)
  have m: "credit_move ?p (Some 7) (draft_init [], ?b) (?f, snd (load_credit_form ?p (Some 7) ?b))"
    unfolding credit_move_def by (rule form_move.load) simp
  from s m have "reachable (fresh_on ?net initial_draft) (credit_move ?p (Some 7))
      (?f, snd (load_credit_form ?p (Some 7) ?b))"
    by (rule reachable.moving)
  from locked_credit_untouched [OF c l this] show ?thesis by blast
qed

end
