(* ===== verification/Order_Form.thy ===== *)
theory Order_Form
  imports Credit_Form
begin

text \<open>
  The order form (\<open>web/src/components/order-form.tsx\<close>): one component for sales and purchase
  orders, driven by a configuration. Its state is the one of \<open>Draft_Form\<close> with an expected date;
  the two shapes of an order are normalized when they are read and told apart when they are saved.
\<close>

section \<open>Configuration\<close>

datatype order_kind = Sales | Purchase

record 'w OrderConfig =
  oc_kind :: order_kind
  oc_title :: string
  oc_partyLabel :: string
  oc_unitLabel :: string
  oc_accountLabel :: string
  oc_expectedDateLabel :: string
  oc_basePath :: string
  oc_fetchParties :: "('w, PartyOption list) call"
  oc_prefillPrice :: bool

definition SalesOrderForm :: "bool \<Rightarrow> 'w OrderConfig" where
  "SalesOrderForm editing = \<lparr>oc_kind = Sales,
     oc_title = (if editing then ''Edit Sales Order'' else ''New Sales Order''),
     oc_partyLabel = ''Customer'', oc_unitLabel = ''Unit Price'', oc_accountLabel = ''Revenue Account'',
     oc_expectedDateLabel = ''Expected Ship Date'', oc_basePath = ''/sales-orders'',
     oc_fetchParties = fetchCustomerOptions, oc_prefillPrice = True\<rparr>"

definition PurchaseOrderForm :: "bool \<Rightarrow> 'w OrderConfig" where
  "PurchaseOrderForm editing = \<lparr>oc_kind = Purchase,
     oc_title = (if editing then ''Edit Purchase Order'' else ''New Purchase Order''),
     oc_partyLabel = ''Supplier'', oc_unitLabel = ''Unit Cost'', oc_accountLabel = ''Expense Account'',
     oc_expectedDateLabel = ''Expected Receipt Date'', oc_basePath = ''/purchase-orders'',
     oc_fetchParties = fetchSupplierOptions, oc_prefillPrice = False\<rparr>"

section \<open>State\<close>

record order_form = draft_form +
  of_expectedDate :: string

definition order_init :: "string \<Rightarrow> order_form" where
  "order_init utc_date = \<lparr>df_parties = [], df_products = [], df_taxCodes = [], df_accounts = [],
     df_error = None, df_loaded = False, df_partyId = [], df_number = [], df_date = utc_date,
     df_currencyCode = [], df_reference = [], df_memo = [], df_lines = [blankDraftLine],
     df_saving = False, df_saveError = None, df_navigated = None, of_expectedDate = []\<rparr>"

section \<open>Loading\<close>

record OrderHeader =
  oh_status :: string
  oh_partyId :: int
  oh_number :: string
  oh_date :: string
  oh_expected :: "string option"
  oh_currency :: string
  oh_reference :: "string option"
  oh_memo :: "string option"

definition sales_order_header :: "SalesOrderSummary \<Rightarrow> OrderHeader" where
  "sales_order_header o' = \<lparr>oh_status = so_status o', oh_partyId = so_customer_id o',
     oh_number = so_order_number o', oh_date = so_order_date o',
     oh_expected = so_expected_ship_date o', oh_currency = so_currency_code o',
     oh_reference = so_reference o', oh_memo = so_memo o'\<rparr>"

definition purchase_order_header :: "PurchaseOrderSummary \<Rightarrow> OrderHeader" where
  "purchase_order_header o' = \<lparr>oh_status = po_status o', oh_partyId = po_supplier_id o',
     oh_number = po_order_number o', oh_date = po_order_date o',
     oh_expected = po_expected_receipt_date o', oh_currency = po_currency_code o',
     oh_reference = po_reference o', oh_memo = po_memo o'\<rparr>"

definition sales_order_values :: "SalesOrderLine \<Rightarrow> LineValues" where
  "sales_order_values l = \<lparr>va_product_id = sol_product_id l, va_description = sol_description l,
     va_quantity = sol_quantity l, va_unit_amount = sol_unit_price l,
     va_account_id = sol_revenue_account_id l, va_tax_code = sol_tax_code l,
     va_tax_rate = sol_tax_rate l\<rparr>"

definition purchase_order_values :: "PurchaseOrderLine \<Rightarrow> LineValues" where
  "purchase_order_values l = \<lparr>va_product_id = pol_product_id l, va_description = pol_description l,
     va_quantity = pol_quantity l, va_unit_amount = pol_unit_cost l,
     va_account_id = pol_expense_account_id l, va_tax_code = pol_tax_code l,
     va_tax_rate = pol_tax_rate l\<rparr>"

definition existing_order :: "order_kind \<Rightarrow> int \<Rightarrow> ('w, OrderHeader) call" where
  "existing_order kind editId = (case kind of
       Sales \<Rightarrow> map_io sales_order_header (getSalesOrder editId)
     | Purchase \<Rightarrow> map_io purchase_order_header (getPurchaseOrder editId))"

definition existing_lines :: "order_kind \<Rightarrow> int \<Rightarrow> ('w, LineValues list) call" where
  "existing_lines kind editId = (case kind of
       Sales \<Rightarrow> map_io (map sales_order_values) (getSalesOrderLines editId)
     | Purchase \<Rightarrow> map_io (map purchase_order_values) (getPurchaseOrderLines editId))"

type_synonym order_data = "PartyOption list \<times> Product list \<times> TaxCode list \<times> Account list
  \<times> OrderHeader option \<times> LineValues list option"

text \<open>The two reads of an existing order start before the others do.\<close>

definition load_order_form :: "'w OrderConfig \<Rightarrow> int option \<Rightarrow> ('w, order_data) call" where
  "load_order_form config editId =
     map_io (\<lambda>((order, orderLines), pty, prods, taxes, accts). (pty, prods, taxes, accts, order, orderLines))
       (both_io (both_io (optional_io (existing_order (oc_kind config)) editId)
           (optional_io (existing_lines (oc_kind config)) editId))
         (both_io (oc_fetchParties config) (both_io listProducts (both_io listTaxCodes listAccounts))))"

definition order_loaded :: "bool \<Rightarrow> exn + order_data \<Rightarrow> order_form \<Rightarrow> order_form" where
  "order_loaded cancelled result f =
     (case result of
       Inl err \<Rightarrow> if cancelled then f else f\<lparr>df_error := Some (error_message err)\<rparr>
     | Inr (pty, prods, taxes, accts, order, orderLines) \<Rightarrow>
         if cancelled then f
         else
           let f = f\<lparr>df_parties := pty, df_products := filter prod_is_active prods,
                 df_taxCodes := taxes, df_accounts := accts\<rparr>
           in (case (order, orderLines) of
                (Some d, Some ls) \<Rightarrow>
                  if oh_status d \<noteq> ''draft''
                  then f\<lparr>df_error := Some ''Only draft orders can be edited.''\<rparr>
                  else f\<lparr>df_partyId := show_int (oh_partyId d), df_number := oh_number d,
                      df_date := oh_date d, of_expectedDate := or_empty (oh_expected d),
                      df_currencyCode := oh_currency d,
                      df_reference := or_empty (oh_reference d), df_memo := or_empty (oh_memo d),
                      df_lines := map draft_line_of ls, df_loaded := True\<rparr>
              | _ \<Rightarrow> f\<lparr>df_loaded := True\<rparr>))"

section \<open>Choosing a product\<close>

definition order_prefill :: "'w OrderConfig \<Rightarrow> Product \<Rightarrow> DraftLine \<Rightarrow> DraftLine" where
  "order_prefill config product l = l\<lparr>ln_description := prod_name product,
     ln_unitAmount := (if oc_prefillPrice config then prod_unit_price product
       else ln_unitAmount blankDraftLine),
     ln_accountId := (if oc_kind config = Sales then id_select (prod_revenue_account_id product)
       else NONE)\<rparr>"

definition chooseOrderProduct :: "'w OrderConfig \<Rightarrow> nat \<Rightarrow> string \<Rightarrow> order_form \<Rightarrow> order_form" where
  "chooseOrderProduct config = chooseDraftProduct (order_prefill config)"

section \<open>Submission\<close>

definition sales_order_input :: "order_form \<Rightarrow> SalesOrderInput" where
  "sales_order_input f = \<lparr>soi_order_number = trim (df_number f), soi_customer_id = id_of (df_partyId f),
     soi_order_date = df_date f, soi_expected_ship_date = emptyToNull (of_expectedDate f),
     soi_currency_code = toUpperCase (trim (df_currencyCode f)),
     soi_reference = emptyToNull (df_reference f), soi_memo = emptyToNull (df_memo f),
     soi_lines = map (\<lambda>l. \<lparr>soli_product_id = id_or_null (ln_productId l),
       soli_description = trim (ln_description l), soli_quantity = trim (ln_quantity l),
       soli_unit_price = trim (ln_unitAmount l), soli_revenue_account_id = id_or_null (ln_accountId l),
       soli_tax_code = code_or_null (ln_taxCode l), soli_tax_rate = trim (ln_taxRate l)\<rparr>) (df_lines f)\<rparr>"

definition purchase_order_input :: "order_form \<Rightarrow> PurchaseOrderInput" where
  "purchase_order_input f = \<lparr>poi_order_number = trim (df_number f),
     poi_supplier_id = id_of (df_partyId f), poi_order_date = df_date f,
     poi_expected_receipt_date = emptyToNull (of_expectedDate f),
     poi_currency_code = toUpperCase (trim (df_currencyCode f)),
     poi_reference = emptyToNull (df_reference f), poi_memo = emptyToNull (df_memo f),
     poi_lines = map (\<lambda>l. \<lparr>poli_product_id = id_or_null (ln_productId l),
       poli_description = trim (ln_description l), poli_quantity = trim (ln_quantity l),
       poli_unit_cost = trim (ln_unitAmount l), poli_expense_account_id = id_or_null (ln_accountId l),
       poli_tax_code = code_or_null (ln_taxCode l), poli_tax_rate = trim (ln_taxRate l)\<rparr>) (df_lines f)\<rparr>"

definition save_order :: "order_kind \<Rightarrow> int option \<Rightarrow> order_form \<Rightarrow> ('w, int) call" where
  "save_order kind editId f = (case kind of
       Sales \<Rightarrow> (case editId of
         Some i \<Rightarrow> map_io (\<lambda>_. i) (updateSalesOrder i (sales_order_input f))
       | None \<Rightarrow> createSalesOrder (sales_order_input f))
     | Purchase \<Rightarrow> (case editId of
         Some i \<Rightarrow> map_io (\<lambda>_. i) (updatePurchaseOrder i (purchase_order_input f))
       | None \<Rightarrow> createPurchaseOrder (purchase_order_input f)))"

definition submitOrder :: "'w OrderConfig \<Rightarrow> int option \<Rightarrow> order_form
    \<Rightarrow> ('w, payload, body) browser \<Rightarrow> order_form \<times> ('w, payload, body) browser" where
  "submitOrder config editId f = submit_draft (oc_partyLabel config) (oc_basePath config)
     (save_order (oc_kind config) editId f) f"

section \<open>The screen\<close>

definition order_header_view :: "'w OrderConfig \<Rightarrow> order_form \<Rightarrow> draft_event element list" where
  "order_header_view config f =
     [draft_party_view (oc_partyLabel config) f,
      Field ''order_number'' ''Order #'' True (df_number f) Type_Number,
      Field ''order_date'' ''Order Date'' True (df_date f) Type_Date,
      Field ''expected_date'' (oc_expectedDateLabel config) False (of_expectedDate f) Type_Expected,
      Field ''currency'' ''Currency'' True (df_currencyCode f) Type_Currency,
      Field ''reference'' ''Reference'' False (df_reference f) Type_Reference,
      Field ''memo'' ''Memo'' False (df_memo f) Type_Memo]"

definition order_lines_view :: "'w OrderConfig \<Rightarrow> order_form \<Rightarrow> draft_event element list" where
  "order_lines_view config f =
     concat (map (\<lambda>(i, line). draft_line_view ''_unit'' (oc_unitLabel config) (oc_accountLabel config) f i line)
       (enumerate 0 (df_lines f)))
     @ [Button ''Add line'' False New_Line]"

definition order_footer_view :: "'w OrderConfig \<Rightarrow> int option \<Rightarrow> order_form \<Rightarrow> draft_event element list" where
  "order_footer_view config editId f =
     draft_totals_view f @ draft_actions_view editId (oc_basePath config) ''Cancel'' f"

definition order_view :: "'w OrderConfig \<Rightarrow> int option \<Rightarrow> order_form \<Rightarrow> draft_event element list" where
  "order_view config editId f =
     [Heading (oc_title config),
      Note (if editId \<noteq> None then ''Rewrites the draft -- it stays unconfirmed.''
        else ''Creates a draft -- confirm it from the order page to allow fulfilment.'')]
     @ (case df_error f of None \<Rightarrow> [] | Some e \<Rightarrow> [Alert e, Link ''Back'' (oc_basePath config)])
     @ guarded (df_error f = None \<and> \<not> df_loaded f) [Note ''Loading...'']
     @ guarded (df_error f = None \<and> df_loaded f)
         (order_header_view config f @ order_lines_view config f @ order_footer_view config editId f)"

definition order_step :: "'w OrderConfig \<Rightarrow> int option \<Rightarrow> draft_event
    \<Rightarrow> order_form \<times> ('w, payload, body) browser \<Rightarrow> order_form \<times> ('w, payload, body) browser" where
  "order_step config editId e x = (case x of (f, b) \<Rightarrow>
     (case e of
       Save_Draft \<Rightarrow> submitOrder config editId f b
     | Type_Expected v \<Rightarrow> (f\<lparr>of_expectedDate := v\<rparr>, b)
     | Pick_Product i v \<Rightarrow> (chooseOrderProduct config i v f, b)
     | _ \<Rightarrow> (draft_edit (order_prefill config) e f, b)))"

definition order_move :: "'w OrderConfig \<Rightarrow> int option \<Rightarrow> order_form \<times> ('w, payload, body) browser
    \<Rightarrow> order_form \<times> ('w, payload, body) browser \<Rightarrow> bool" where
  "order_move config k = form_move (load_order_form config k) order_loaded
     (\<lambda>f. offers (order_view config k f)) (order_step config k)"

section \<open>The contracts\<close>

definition order_request :: "order_kind \<Rightarrow> int option \<Rightarrow> order_form \<Rightarrow> payload request" where
  "order_request kind k f =
     (let (coll, p) = (case kind of
          Sales \<Rightarrow> (''/sales-orders'', SalesOrderInput_Payload (sales_order_input f))
        | Purchase \<Rightarrow> (''/purchase-orders'', PurchaseOrderInput_Payload (purchase_order_input f)))
      in case k of Some n \<Rightarrow> body_request ''PUT'' (coll @ ''/'' @ show_int n) (Order_Payload p)
         | None \<Rightarrow> body_request ''POST'' coll (Order_Payload p))"

lemma save_order_saves: "saves (accepted k id_content) (save_order kind k f) (order_request kind k f)"
  by (cases kind; cases k) (simp_all add: save_order_def order_request_def updateSalesOrder_def
      createSalesOrder_def updatePurchaseOrder_def createPurchaseOrder_def saving_calls)

interpretation orders: form_submit "submitOrder config k" "draft_problem (oc_partyLabel config)"
    "order_request (oc_kind config) k" "accepted k id_content" draft_fields df_saving df_saveError df_navigated
  for config k
  unfolding submitOrder_def by (rule draft_form_submit, rule save_order_saves)

definition order_locked :: "order_data \<Rightarrow> bool" where
  "order_locked data = (case data of (_, _, _, _, order, orderLines) \<Rightarrow>
     (case (order, orderLines) of (Some d, Some ls) \<Rightarrow> oh_status d \<noteq> ''draft'' | _ \<Rightarrow> False))"

definition initial_order :: "order_form \<Rightarrow> bool" where
  "initial_order f \<longleftrightarrow> (\<exists>date. f = order_init date)"

definition is_order_form :: "'w OrderConfig \<Rightarrow> bool" where
  "is_order_form config \<longleftrightarrow> (\<exists>ed. config = SalesOrderForm ed \<or> config = PurchaseOrderForm ed)"

lemma existing_reads [reading]: "reads_only (existing_order kind i)" "reads_only (existing_lines kind i)"
  by (cases kind; auto simp: existing_order_def existing_lines_def getSalesOrder_def
      getPurchaseOrder_def getSalesOrderLines_def getPurchaseOrderLines_def intro!: reading)+

lemma load_order_form_reads:
  assumes "is_order_form config" shows "reads_only (load_order_form config k)"
proof -
  have "reads_only (oc_fetchParties config)"
    using assms fetch_options_read
    by (auto simp: is_order_form_def SalesOrderForm_def PurchaseOrderForm_def)
  then show ?thesis
    unfolding load_order_form_def
    by (intro reads_only_map reads_only_both reads_only_optional existing_reads master_lists_read)
qed

lemma order_edit_form:
  assumes "is_order_form config"
  shows "edit_form (load_order_form config k) order_loaded (\<lambda>f. offers (order_view config k f))
    initial_order df_loaded order_locked"
proof unfold_locales
  fix f :: order_form and r c e
  show "reads_only (load_order_form config k)" by (rule load_order_form_reads [OF assms])
  show "\<not> df_loaded f \<Longrightarrow> (\<And>data. r = Inr data \<Longrightarrow> order_locked data) \<Longrightarrow> \<not> df_loaded (order_loaded c r f)"
    by (auto simp: order_loaded_def order_locked_def Let_def split: sum.splits option.splits)
  show "\<not> df_loaded f \<Longrightarrow> \<not> offers (order_view config k f) e"
    by (auto simp: order_view_def split: option.splits)
  show "initial_order f \<Longrightarrow> \<not> df_loaded f" by (auto simp: initial_order_def order_init_def)
qed

interpretation sales_order_edit: edit_form "load_order_form (SalesOrderForm editing :: 'w OrderConfig) k"
    order_loaded "\<lambda>f. offers (order_view (SalesOrderForm editing :: 'w OrderConfig) k f)"
    "order_step (SalesOrderForm editing :: 'w OrderConfig) k" initial_order df_loaded order_locked
  for editing k
  by (rule order_edit_form) (auto simp: is_order_form_def)

interpretation purchase_order_edit:
    edit_form "load_order_form (PurchaseOrderForm editing :: 'w OrderConfig) k"
    order_loaded "\<lambda>f. offers (order_view (PurchaseOrderForm editing :: 'w OrderConfig) k f)"
    "order_step (PurchaseOrderForm editing :: 'w OrderConfig) k" initial_order df_loaded order_locked
  for editing k
  by (rule order_edit_form) (auto simp: is_order_form_def)

section \<open>What every reachable form keeps\<close>

lemma order_prefill_ok: "draft_line_ok l \<Longrightarrow> draft_line_ok (order_prefill config p l)"
  by (simp add: order_prefill_def draft_line_ok_def)

lemma order_view_events: "offers (order_view config k f) e \<Longrightarrow> draft_event_ok f e"
  by (auto simp: order_view_def order_header_view_def order_lines_view_def order_footer_view_def
      offers_concat dest: draft_view_events draft_actions_events split: option.splits)

lemma order_step_ok:
  assumes "draft_ok k f" "offers (order_view config k f) e"
  shows "draft_ok k (fst (order_step config k e (f, b)))"
proof -
  have "draft_ok k (draft_edit (order_prefill config) e f)"
    by (rule draft_edit_ok [OF assms(1) order_view_events [OF assms(2)] order_prefill_ok])
  with assms(1) show ?thesis
    by (cases e) (auto simp: order_step_def submitOrder_def draft_ok_def chooseOrderProduct_def)
qed

lemma order_loaded_ok:
  assumes "draft_ok k f" "load_order_form config k b = (r, b')"
  shows "draft_ok k (order_loaded c r f)"
proof (cases "r")
  case (Inr data)
  obtain pty prods taxes accts o' ls where d: "data = (pty, prods, taxes, accts, o', ls)"
    by (cases data) auto
  have "k = None \<longrightarrow> o' = None"
    using assms(2) unfolding Inr d
    by (auto simp: load_order_form_def map_io_def then_io_def both_io_def optional_io_def return_io_def
        split: prod.splits sum.splits)
  then show ?thesis
    using assms(1)
    by (auto simp: order_loaded_def Inr d draft_ok_def Let_def list_all_iff split: option.splits)
qed (use assms(1) in \<open>simp add: order_loaded_def draft_ok_def\<close>)

interpretation order_states: invariant "\<lambda>s. initial_order (fst s)" "order_move config k"
    "\<lambda>s. draft_ok k (fst s)" for config k
proof unfold_locales
  fix s s' :: "order_form \<times> ('a, payload, body) browser"
  show "initial_order (fst s) \<Longrightarrow> draft_ok k (fst s)"
    by (auto simp: initial_order_def order_init_def draft_ok_def)
  show "draft_ok k (fst s) \<Longrightarrow> order_move config k s s' \<Longrightarrow> draft_ok k (fst s')"
    by (cases s) (auto simp: order_move_def elim!: form_moveE intro: order_loaded_ok order_step_ok)
qed

section \<open>Properties\<close>

definition clean_order :: "OrderHeader \<Rightarrow> bool" where
  "clean_order d \<longleftrightarrow> trim (oh_number d) = oh_number d \<and> clean (oh_expected d)
     \<and> clean (oh_reference d) \<and> clean (oh_memo d)
     \<and> toUpperCase (trim (oh_currency d)) = oh_currency d"

text \<open>Editing an order changes only what the user edits: opening a draft sales order and saving
  it at once makes one request, the PUT of that order, with the header that was loaded and lines
  of the same products, texts, accounts, tax codes and amounts; a purchase order likewise.\<close>

theorem order_edit_roundtrip:
  assumes "oh_status d = ''draft''" "clean_order d" "list_all clean_values ls"
    and "f = order_loaded False (Inr (ps, prods, taxes, accts, Some d, Some ls)) (order_init date)"
    and "oc_kind config = kind"
  shows "snd (submitOrder config (Some n) f b) = after_exchange (order_request kind (Some n) f) b
    \<and> sales_order_input f = \<lparr>soi_order_number = oh_number d, soi_customer_id = oh_partyId d,
        soi_order_date = oh_date d, soi_expected_ship_date = oh_expected d,
        soi_currency_code = oh_currency d, soi_reference = oh_reference d, soi_memo = oh_memo d,
        soi_lines = soi_lines (sales_order_input f)\<rparr>
    \<and> list_all2 (\<lambda>l i. same_values l \<lparr>va_product_id = soli_product_id i,
        va_description = soli_description i, va_quantity = soli_quantity i,
        va_unit_amount = soli_unit_price i, va_account_id = soli_revenue_account_id i,
        va_tax_code = soli_tax_code i, va_tax_rate = soli_tax_rate i\<rparr>) ls (soi_lines (sales_order_input f))
    \<and> poi_expected_receipt_date (purchase_order_input f) = oh_expected d
    \<and> poi_supplier_id (purchase_order_input f) = oh_partyId d
    \<and> list_all2 (\<lambda>l i. same_values l \<lparr>va_product_id = poli_product_id i,
        va_description = poli_description i, va_quantity = poli_quantity i,
        va_unit_amount = poli_unit_cost i, va_account_id = poli_expense_account_id i,
        va_tax_code = poli_tax_code i, va_tax_rate = poli_tax_rate i\<rparr>) ls (poi_lines (purchase_order_input f))"
proof -
  have f: "df_partyId f = show_int (oh_partyId d)" "df_number f = oh_number d" "df_date f = oh_date d"
    "of_expectedDate f = or_empty (oh_expected d)" "df_currencyCode f = oh_currency d"
    "df_reference f = or_empty (oh_reference d)" "df_memo f = or_empty (oh_memo d)"
    "df_lines f = map draft_line_of ls"
    using assms(1,4) by (simp_all add: order_loaded_def order_init_def)
  have p: "draft_problem (oc_partyLabel config) f = None" using f(1) by (simp add: draft_problem_def)
  have s: "same_values l (draft_line_values (draft_line_of l))" if "l \<in> set ls" for l
    using assms(3) that draft_line_back by (auto simp: list_all_iff)
  show ?thesis
    using orders.sends [OF p, of "Some n" b] assms(2,5) s
    by (simp add: sales_order_input_def purchase_order_input_def f clean_order_def list_all2_map2
        list_all2_same draft_line_values_def)
qed

definition sample_order :: "string \<Rightarrow> SalesOrderSummary" where
  "sample_order state = \<lparr>so_id = 7, so_order_number = ''SO-7'', so_customer_id = 3,
     so_order_date = ''2024-02-10'', so_expected_ship_date = Some ''2024-02-20'',
     so_currency_code = ''USD'', so_status = state, so_total = ''32.4425'',
     so_invoiced_status = ''none'', so_shipped_status = ''none'', so_reference = None, so_memo = None\<rparr>"

theorem order_edit_roundtrip_witness:
  "poi_supplier_id (purchase_order_input (order_loaded False (Inr ([], [], [], [],
      Some (sales_order_header (sample_order ''draft'')), Some [sample_values])) (order_init []))) = 3"
proof -
  have "oh_status (sales_order_header (sample_order ''draft'')) = ''draft''"
    "clean_order (sales_order_header (sample_order ''draft''))" "list_all clean_values [sample_values]"
    by code_simp+
  from order_edit_roundtrip [OF this refl refl, where config = "SalesOrderForm True" and ps = "[]"
      and prods = "[]" and taxes = "[]" and accts = "[]" and date = "[]" and n = 7 and b = "refusing 500 []"]
  have "poi_supplier_id (purchase_order_input (order_loaded False (Inr ([], [], [], [],
      Some (sales_order_header (sample_order ''draft'')), Some [sample_values])) (order_init [])))
    = oh_partyId (sales_order_header (sample_order ''draft''))" by blast
  then show ?thesis by (simp add: sales_order_header_def sample_order_def)
qed

text \<open>The edit form never writes to an order that is confirmed: as long as the server answers
  with such an order (or not at all), every request of the form is a GET and no submit button
  appears; for sales and for purchase orders.\<close>

theorem locked_order_untouched:
  fixes config :: "'w OrderConfig"
  assumes "is_order_form config" "always_loads net (load_order_form config (Some n)) order_locked"
    and "reachable (fresh_on net initial_order) (order_move config (Some n)) (f, b)"
  shows "list_all (\<lambda>rq. rq_method rq = ''GET'') (sent b)
    \<and> \<not> offers (order_view config (Some n) f) Save_Draft"
proof -
  from assms(1) consider ed where "config = SalesOrderForm ed" | ed where "config = PurchaseOrderForm ed"
    by (auto simp: is_order_form_def)
  then show ?thesis
  proof cases
    case 1
    show ?thesis
      using sales_order_edit.untouched [OF assms(2,3) [unfolded order_move_def 1]] by (simp add: 1)
  next
    case 2
    show ?thesis
      using purchase_order_edit.untouched [OF assms(2,3) [unfolded order_move_def 2]] by (simp add: 2)
  qed
qed

definition order_server :: "string \<Rightarrow> body" where
  "order_server path =
     (if path = ''/api/customers'' then Master (Customer_List [])
      else if path = ''/api/organizations'' then Master (Organization_List [])
      else if path = ''/api/products'' then Master (Product_List [])
      else if path = ''/api/tax-codes'' then Master (TaxCode_List [])
      else if path = ''/api/accounts'' then Master (Account_List [])
      else if path = ''/api/sales-orders/7'' then
        Order (SalesOrderSummary_Body (sample_order ''open''))
      else Order (SalesOrderLine_List []))"

lemma load_confirmed_order:
  assumes "network b = answering order_server"
  shows "\<exists>b'. load_order_form (SalesOrderForm ed) (Some 7) b = (Inr ([], [], [], [],
      Some (sales_order_header (sample_order ''open'')), Some []), b')"
proof -
  have "show_int 7 = ''7''" by code_simp
  then show ?thesis
    using assms
    by (simp add: load_order_form_def SalesOrderForm_def fetchCustomerOptions_def
        listCustomers_def listOrganizations_def listProducts_def listTaxCodes_def listAccounts_def
        existing_order_def existing_lines_def
        getSalesOrder_def getSalesOrderLines_def get_answering map_io_def then_io_def
        both_io_def optional_io_def return_io_def master_as_def order_as_def BASE_def order_server_def)
qed

theorem locked_order_untouched_witness:
  "\<exists>p f. \<exists>b :: (unit, payload, body) browser. p = SalesOrderForm True
    \<and> f = order_loaded False (fst (load_order_form p (Some 7) b)) (order_init [])
    \<and> \<not> offers (order_view p (Some 7) f) Save_Draft"
proof -
  let ?p = "SalesOrderForm True :: unit OrderConfig"
  let ?net = "answering order_server :: payload request \<Rightarrow> unit \<Rightarrow> body reply \<times> unit"
  let ?b = "\<lparr>network = ?net, world = (), sent = [], events = []\<rparr>"
  let ?f = "order_loaded False (fst (load_order_form ?p (Some 7) ?b)) (order_init [])"
  have c: "is_order_form ?p" by (auto simp: is_order_form_def)
  have d: "oh_status (sales_order_header (sample_order ''open'')) \<noteq> ''draft''" by code_simp
  have l: "always_loads ?net (load_order_form ?p (Some 7)) order_locked"
    unfolding always_loads_def
  proof (intro allI impI)
    fix b data b' assume "network b = ?net" "load_order_form ?p (Some 7) b = (Inr data, b')"
    with load_confirmed_order [of b True] d show "order_locked data" by (auto simp: order_locked_def)
  qed
  have s: "reachable (fresh_on ?net initial_order) (order_move ?p (Some 7)) (order_init [], ?b)"
    by (rule reachable.starting) (auto simp: fresh_on_def initial_order_def)
  have m: "order_move ?p (Some 7) (order_init [], ?b) (?f, snd (load_order_form ?p (Some 7) ?b))"
    unfolding order_move_def by (rule form_move.load) simp
  from s m have "reachable (fresh_on ?net initial_order) (order_move ?p (Some 7))
      (?f, snd (load_order_form ?p (Some 7) ?b))"
    by (rule reachable.moving)
  from locked_order_untouched [OF c l this] show ?thesis by blast
qed

text \<open>Every reachable order form holds a document that can be sent: a new order never loses its
  last line, and party, product and account of the input are exactly what the selects show.\<close>

theorem order_reachable:
  assumes "reachable (\<lambda>s. initial_order (fst s)) (order_move config k) (f, b)"
  shows "(k = None \<longrightarrow> df_lines f \<noteq> [])
    \<and> (df_partyId f = [] \<or> show_int (soi_customer_id (sales_order_input f)) = df_partyId f)
    \<and> list_all2 (\<lambda>l i. id_select (soli_product_id i) = ln_productId l
         \<and> id_select (soli_revenue_account_id i) = ln_accountId l)
        (df_lines f) (soi_lines (sales_order_input f))"
proof -
  have "draft_ok k f" using order_states.reachable_inv [OF assms] by simp
  then show ?thesis
    by (auto simp: draft_ok_def sales_order_input_def draft_line_ok_def list_all2_conv_all_nth
        list_all_length id_value_wire)
qed

theorem order_reachable_witness: "df_lines (order_init []) \<noteq> []"
proof -
  have "reachable (\<lambda>s. initial_order (fst s)) (order_move (SalesOrderForm False) None)
      (order_init [], refusing 500 [])"
    by (rule reachable.starting) (auto simp: initial_order_def)
  from order_reachable [OF this] show ?thesis by simp
qed

end
