(* ===== verification/Session.thy ===== *)
theory Session
  imports Actions
begin

text \<open>
  The session of the front end: the sign-in form (\<open>web/src/components/login-form.tsx\<close>) and the shell
  around the screens (\<open>web/src/App.tsx\<close>), with the probe that asks who is signed in, signing in and
  out, the listener that drops back to the sign-in form on an unauthorized reply, and the sidebar.
  The requests of the screens inside the shell are exchanges of any kind: the shell sees only the
  events they dispatch.
\<close>

section \<open>The sign-in form\<close>

record LoginForm =
  lf_email :: string
  lf_password :: string
  lf_show :: bool
  lf_error :: "string option"
  lf_busy :: bool

definition login_init :: LoginForm where
  "login_init = \<lparr>lf_email = [], lf_password = [], lf_show = False, lf_error = None, lf_busy = False\<rparr>"

text \<open>The synchronous part of \<open>handleSubmit\<close>, and whether it goes on to call the server.\<close>

definition login_ready :: "LoginForm \<Rightarrow> bool" where
  "login_ready f \<longleftrightarrow> trim (lf_email f) \<noteq> [] \<and> lf_password f \<noteq> []"

definition login_submit :: "LoginForm \<Rightarrow> LoginForm" where
  "login_submit f = (if \<not> login_ready f then f\<lparr>lf_error := Some ''Email and password are required.''\<rparr>
     else f\<lparr>lf_busy := True, lf_error := None\<rparr>)"

definition login_failed :: "exn \<Rightarrow> LoginForm \<Rightarrow> LoginForm" where
  "login_failed err f = f\<lparr>lf_busy := False, lf_error := Some (save_message err)\<rparr>"

section \<open>The shell\<close>

text \<open>Who is signed in: \<open>undefined\<close> while the probe runs, \<open>null\<close> when nobody is.\<close>

datatype session = Undefined | Null | Current User

record App =
  app_user :: session
  app_navOpen :: bool
  app_login :: LoginForm

definition app_init :: App where
  "app_init = \<lparr>app_user = Undefined, app_navOpen = False, app_login = login_init\<rparr>"

text \<open>Setting the user to null where the shell or the blank page was shown mounts a new form.\<close>

definition setUser :: "session \<Rightarrow> App \<Rightarrow> App" where
  "setUser u s = (if u = Null \<and> app_user s \<noteq> Null then s\<lparr>app_user := u, app_login := login_init\<rparr>
     else s\<lparr>app_user := u\<rparr>)"

text \<open>The listener of the unauthorized event, for the events dispatched since \<open>b\<close>.\<close>

definition listen :: "('w, 'p, 'b) browser \<Rightarrow> ('w, 'p, 'b) browser \<Rightarrow> App \<Rightarrow> App" where
  "listen b b' s = (if UNAUTHORIZED_EVENT \<in> set (drop (length (events b)) (events b'))
     then setUser Null s else s)"

datatype app_call = Probe | is_Sign_In: Sign_In string string | Sign_Out

definition app_settle :: "app_call \<Rightarrow> App \<times> ('w, payload, body) browser
    \<Rightarrow> App \<times> ('w, payload, body) browser" where
  "app_settle c x = (case x of (s, b) \<Rightarrow> (case c of
       Probe \<Rightarrow> (case me b of
           (Inr u, b') \<Rightarrow> (setUser (Current u) (listen b b' s), b')
         | (Inl _, b') \<Rightarrow> (setUser Null (listen b b' s), b'))
     | Sign_In email password \<Rightarrow> (case login email password b of
           (Inr u, b') \<Rightarrow> (setUser (Current u) (listen b b' s), b')
         | (Inl err, b') \<Rightarrow> ((listen b b' s)\<lparr>app_login := login_failed err (app_login (listen b b' s))\<rparr>, b'))
     | Sign_Out \<Rightarrow> (case logout b of (_, b') \<Rightarrow> (setUser Null (listen b b' s), b'))))"

section \<open>The sidebar\<close>

definition navGroups :: "(string \<times> (string \<times> string) list) list" where
  "navGroups =
     [(''Sales'', [(''/sales-orders'', ''Sales Orders''), (''/invoices'', ''Invoices''),
        (''/credit-notes'', ''Credit Notes''), (''/customer-payments'', ''Customer Payments''),
        (''/customers'', ''Customers'')]),
      (''Purchases'', [(''/purchase-orders'', ''Purchase Orders''), (''/bills'', ''Bills''),
        (''/supplier-credits'', ''Supplier Credits''), (''/supplier-payments'', ''Supplier Payments''),
        (''/suppliers'', ''Suppliers'')]),
      (''Inventory'', [(''/products'', ''Products''), (''/stock-movements'', ''Stock Movements''),
        (''/warehouses'', ''Warehouses'')]),
      (''Reports'', [(''/reports/profit-and-loss'', ''Profit & Loss''),
        (''/reports/balance-sheet'', ''Balance Sheet''), (''/reports/cash-flow'', ''Cash Flow''),
        (''/reports/trial-balance'', ''Trial Balance''), (''/reports/ar-aging'', ''AR Aging''),
        (''/reports/ap-aging'', ''AP Aging''), (''/reports/inventory'', ''Inventory Valuation'')]),
      (''Accounting'', [(''/accounts'', ''Chart of Accounts''),
        (''/bank-statements'', ''Bank Reconciliation''), (''/exchange-rates'', ''Exchange Rates''),
        (''/periods'', ''Periods'')]),
      (''Setup'', [(''/organizations'', ''Organizations''), (''/tax-codes'', ''Tax Codes''),
        (''/payment-terms'', ''Payment Terms''), (''/settings'', ''Settings'')])]"

definition adminNavItems :: "(string \<times> string) list" where
  "adminNavItems = [(''/users'', ''Users'')]"

definition nav_items :: "bool \<Rightarrow> string \<times> (string \<times> string) list \<Rightarrow> (string \<times> string) list" where
  "nav_items isAdmin g = (if fst g = ''Setup'' \<and> isAdmin then snd g @ adminNavItems else snd g)"

definition SidebarNav :: "bool \<Rightarrow> 'e element list" where
  "SidebarNav isAdmin = Link ''Home'' ''/''
     # concat (map (\<lambda>g. Note (fst g)
         # map (\<lambda>(to_path, label). Link label to_path) (nav_items isAdmin g)) navGroups)"

section \<open>What is shown\<close>

datatype app_event = Type_Email string | Type_Password string | Toggle_Show | Submit_Login
  | Open_Nav | Close_Nav | Click_Sign_Out

definition login_view :: "LoginForm \<Rightarrow> app_event element list" where
  "login_view f =
     [Heading ''Tadmor'', Note ''Sign in to your account.'',
      Field ''email'' ''Email'' False (lf_email f) Type_Email,
      Field ''password'' ''Password'' False (lf_password f) Type_Password,
      Button (if lf_show f then ''Hide password'' else ''Show password'') False Toggle_Show]
     @ (case lf_error f of None \<Rightarrow> [] | Some e \<Rightarrow> [Alert e])
     @ [Button (if lf_busy f then ''Signing in...'' else ''Sign in'') (lf_busy f) Submit_Login,
        Note ''Guest access: guest@demo / guest123'']"

definition shell_view :: "User \<Rightarrow> App \<Rightarrow> app_event element list" where
  "shell_view u s =
     guarded (app_navOpen s) [Button [] False Close_Nav]
     @ Heading ''Tadmor'' # SidebarNav (user_is_admin u)
     @ [Button ''Open navigation'' False Open_Nav, Note (user_full_name u),
        Button ''Sign out'' False Click_Sign_Out]"

definition app_view :: "App \<Rightarrow> app_event element list" where
  "app_view s = (case app_user s of
       Undefined \<Rightarrow> [] | Null \<Rightarrow> login_view (app_login s) | Current u \<Rightarrow> shell_view u s)"

fun app_react :: "app_event \<Rightarrow> App \<Rightarrow> App" where
  "app_react (Type_Email v) s = s\<lparr>app_login := (app_login s)\<lparr>lf_email := v\<rparr>\<rparr>"
| "app_react (Type_Password v) s = s\<lparr>app_login := (app_login s)\<lparr>lf_password := v\<rparr>\<rparr>"
| "app_react Toggle_Show s = s\<lparr>app_login := (app_login s)\<lparr>lf_show := \<not> lf_show (app_login s)\<rparr>\<rparr>"
| "app_react Submit_Login s = s\<lparr>app_login := login_submit (app_login s)\<rparr>"
| "app_react Open_Nav s = s\<lparr>app_navOpen := True\<rparr>"
| "app_react Close_Nav s = s\<lparr>app_navOpen := False\<rparr>"
| "app_react Click_Sign_Out s = s"

definition app_call_of :: "App \<Rightarrow> app_event \<Rightarrow> app_call list" where
  "app_call_of s e = (case e of
       Submit_Login \<Rightarrow> if login_ready (app_login s)
         then [Sign_In (trim (lf_email (app_login s))) (lf_password (app_login s))] else []
     | Click_Sign_Out \<Rightarrow> [Sign_Out]
     | _ \<Rightarrow> [])"

text \<open>The shell moves when a call of its own settles, when the user does what is offered, and when
  a screen that is or was inside the shell makes a request.\<close>

inductive app_move :: "App \<times> app_call list \<times> ('w, payload, body) browser
    \<Rightarrow> App \<times> app_call list \<times> ('w, payload, body) browser \<Rightarrow> bool" where
  settle: "app_settle c (s, b) = (s', b') \<Longrightarrow>
    app_move (s, before @ c # after, b) (s', before @ after, b')"
| user: "offers (app_view s) e \<Longrightarrow> app_move (s, pend, b) (app_react e s, pend @ app_call_of s e, b)"
| screen: "app_user s \<noteq> Undefined \<Longrightarrow>
    app_move (s, pend, b) (listen b (after_exchange rq b) s, pend, after_exchange rq b)"

inductive_cases app_moveE: "app_move (s, pend, b) (s', pend', b')"

definition app_opened :: "App \<times> app_call list \<times> ('w, payload, body) browser \<Rightarrow> bool" where
  "app_opened x \<longleftrightarrow> fst x = app_init \<and> fst (snd x) = [Probe]"

section \<open>The invariant of the session\<close>

lemma setUser_simps [simp]:
  "app_user (setUser u s) = u" "app_user s = Null \<Longrightarrow> setUser Null s = s"
  "u \<noteq> Null \<Longrightarrow> app_login (setUser u s) = app_login s"
  "app_user s \<noteq> Null \<Longrightarrow> app_login (setUser Null s) = login_init"
  by (simp_all add: setUser_def)

lemma listen_user: "app_user (listen b b' s) = app_user s \<or> app_user (listen b b' s) = Null"
  by (simp add: listen_def)

lemma listen_Null [simp]: "app_user s = Null \<Longrightarrow> listen b b' s = s"
  by (simp add: listen_def)

lemma login_init_idle [simp]: "\<not> lf_busy login_init"
  by (simp add: login_init_def)

definition signing :: "app_call list \<Rightarrow> nat" where
  "signing pend = length (filter is_Sign_In pend)"

lemma signing_simps [simp]:
  "signing [] = 0" "signing (c # cs) = of_bool (is_Sign_In c) + signing cs"
  "signing (cs @ ds) = signing cs + signing ds"
  by (simp_all add: signing_def)

text \<open>The blank page is shown exactly while the probe is in flight, with nothing else; a sign-in
  is in flight exactly while the form says so. Whoever is signed in was named by the server.\<close>

definition named_by :: "(payload request \<Rightarrow> 'w \<Rightarrow> body reply \<times> 'w) \<Rightarrow> User \<Rightarrow> bool" where
  "named_by net u \<longleftrightarrow> (\<exists>b :: ('w, payload, body) browser. network b = net
     \<and> (fst (me b) = Inr u \<or> (\<exists>email password. fst (login email password b) = Inr u)))"

definition session_ok :: "(payload request \<Rightarrow> 'w \<Rightarrow> body reply \<times> 'w)
    \<Rightarrow> App \<times> app_call list \<times> ('w, payload, body) browser \<Rightarrow> bool" where
  "session_ok net x \<longleftrightarrow> (case x of (s, pend, b) \<Rightarrow> network b = net
     \<and> (case app_user s of
          Undefined \<Rightarrow> pend = [Probe]
        | Null \<Rightarrow> Probe \<notin> set pend \<and> signing pend = of_bool (lf_busy (app_login s))
        | Current u \<Rightarrow> Probe \<notin> set pend \<and> signing pend = 0 \<and> named_by net u))"

lemma auth_calls_network [simp]:
  "network (snd (me b)) = network b" "network (snd (login e p b)) = network b"
  "network (snd (logout b)) = network b"
  by (simp_all add: me_def login_def logout_def)

lemma session_settle:
  assumes ok: "session_ok net (s, xs @ c # ys, b)" and st: "app_settle c (s, b) = (s', b')"
  shows "session_ok net (s', xs @ ys, b')"
proof -
  have n: "network b = net" using ok by (simp add: session_ok_def)
  show ?thesis
  proof (cases c)
    case Probe
    then have u: "app_user s = Undefined" and e: "xs = []" "ys = []"
      using ok by (auto simp: session_ok_def append_eq_Cons_conv split: session.splits)
    obtain r b1 where m: "me b = (r, b1)" by (cases "me b")
    then have "network b1 = net" using auth_calls_network(1) [of b] n by simp
    moreover have "named_by net u'" if "r = Inr u'" for u'
      using m n that unfolding named_by_def by (intro exI [of _ b]) simp
    moreover have "\<not> lf_busy (app_login (setUser Null (listen b b1 s)))"
      using listen_user [of b b1 s] u by (auto simp: listen_def)
    ultimately show ?thesis
      using st Probe m e by (auto simp: app_settle_def session_ok_def split: sum.splits)
  next
    case (Sign_In em pw)
    then have u: "app_user s = Null" and p: "Probe \<notin> set (xs @ ys)" and z: "signing (xs @ ys) = 0"
      using ok by (auto simp: session_ok_def append_eq_Cons_conv of_bool_def split: session.splits if_splits)
    obtain r b1 where m: "login em pw b = (r, b1)" by (cases "login em pw b")
    then have "network b1 = net" using auth_calls_network(2) [of em pw b] n by simp
    moreover have "named_by net u'" if "r = Inr u'" for u'
      using m n that unfolding named_by_def by (intro exI [of _ b] conjI disjI2 exI [of _ em] exI [of _ pw]) simp_all
    ultimately show ?thesis
      using st Sign_In m u p z
      by (auto simp: app_settle_def session_ok_def login_failed_def split: sum.splits)
  next
    case Sign_Out
    then have u: "app_user s \<noteq> Undefined" and p: "Probe \<notin> set (xs @ ys)"
      using ok by (auto simp: session_ok_def append_eq_Cons_conv split: session.splits)
    obtain r b1 where m: "logout b = (r, b1)" by (cases "logout b")
    then have "network b1 = net" using auth_calls_network(3) [of b] n by simp
    moreover have "signing (xs @ ys) = of_bool (lf_busy (app_login (setUser Null (listen b b1 s))))"
      using ok u Sign_Out by (auto simp: session_ok_def listen_def split: session.splits)
    ultimately show ?thesis
      using st Sign_Out m p by (auto simp: app_settle_def session_ok_def)
  qed
qed

lemma session_user:
  assumes ok: "session_ok net (s, pend, b)" and o: "offers (app_view s) e"
  shows "session_ok net (app_react e s, pend @ app_call_of s e, b)"
proof (cases "app_user s")
  case Undefined
  then show ?thesis using o by (simp add: app_view_def)
next
  case Null
  then show ?thesis using ok o
    by (cases e) (auto simp: session_ok_def app_view_def login_view_def app_call_of_def login_submit_def
        split: option.splits)
next
  case (Current u)
  then show ?thesis using ok o
    by (cases e) (auto simp: session_ok_def app_view_def shell_view_def SidebarNav_def app_call_of_def
        offers_def split: session.splits if_splits)
qed

lemma session_screen:
  assumes ok: "session_ok net (s, pend, b)" and u: "app_user s \<noteq> Undefined"
  shows "session_ok net (listen b (after_exchange rq b) s, pend, after_exchange rq b)"
  using assms by (auto simp: session_ok_def listen_def split: session.splits)

interpretation session: invariant "\<lambda>x. app_opened x \<and> network (snd (snd x)) = net" app_move "session_ok net" for net
proof unfold_locales
  fix x x'
  show "app_opened x \<and> network (snd (snd x)) = net \<Longrightarrow> session_ok net x"
    by (auto simp: app_opened_def session_ok_def app_init_def)
  show "session_ok net x \<Longrightarrow> app_move x x' \<Longrightarrow> session_ok net x'"
    by (cases x, cases x') (auto elim!: app_moveE intro: session_settle session_user session_screen)
qed

section \<open>Properties\<close>

lemma session_reachable:
  assumes "reachable app_opened app_move (s, pend, b)"
  shows "session_ok (network b) (s, pend, b)"
proof -
  have "\<exists>net. reachable (\<lambda>x. app_opened x \<and> network (snd (snd x)) = net) app_move y"
    if "reachable app_opened app_move y" for y :: "App \<times> app_call list \<times> ('a, payload, body) browser"
    using that
  proof (induction rule: reachable.induct)
    case (starting y)
    then show ?case by (intro exI [of _ "network (snd (snd y))"] reachable.starting) simp
  next
    case (moving y z)
    then obtain net where "reachable (\<lambda>x. app_opened x \<and> network (snd (snd x)) = net) app_move y" by blast
    then show ?case using moving.hyps(2) by (intro exI [of _ net]) (rule reachable.moving)
  qed
  from this [OF assms] obtain net
    where "reachable (\<lambda>x. app_opened x \<and> network (snd (snd x)) = net) app_move (s, pend, b)" by blast
  then have "session_ok net (s, pend, b)" by (rule session.reachable_inv)
  moreover from this have "network b = net" by (simp add: session_ok_def)
  ultimately show ?thesis by simp
qed

lemma unauthorized_listens:
  assumes "reply_to rq b = Response 401 c"
  shows "app_user (listen b (after_exchange rq b) s) = Null"
proof -
  have "events (after_exchange rq b) = events b @ [UNAUTHORIZED_EVENT]"
    using assms by (auto simp: after_exchange_def reply_to_def split: prod.splits)
  then show ?thesis by (simp add: listen_def)
qed

lemma users_link_login: "Link l ''/users'' \<notin> set (login_view f)"
  by (auto simp: login_view_def split: option.split)

lemma nav_users: "(\<exists>g \<in> set navGroups. (''/users'', l) \<in> set (nav_items adm g)) \<longleftrightarrow> adm \<and> l = ''Users''"
  by (auto simp: navGroups_def nav_items_def adminNavItems_def)

lemma users_link_shell:
  "Link l ''/users'' \<in> set (shell_view u s) \<longleftrightarrow> user_is_admin u \<and> l = ''Users''"
proof -
  have "Link l ''/users'' \<in> set (shell_view u s)
    \<longleftrightarrow> (\<exists>g \<in> set navGroups. (''/users'', l) \<in> set (nav_items (user_is_admin u) g))"
    by (auto simp: shell_view_def SidebarNav_def guarded_def)
  then show ?thesis using nav_users by simp
qed

text \<open>C18. The shell is shown only to a user this server has named, in answer to the probe or to a
  sign-in; the link to the users appears exactly for administrators; and whatever request a screen
  makes, if the server calls it unauthorized the sign-in form is what is shown next.\<close>

theorem session_guard:
  assumes "reachable app_opened app_move (s, pend, b)"
  shows "(app_user s = Current u \<longrightarrow> named_by (network b) u)
    \<and> (Link l ''/users'' \<in> set (app_view s)
        \<longleftrightarrow> (\<exists>v. app_user s = Current v \<and> user_is_admin v \<and> l = ''Users''))
    \<and> (reply_to rq b = Response 401 c \<longrightarrow>
        app_view (listen b (after_exchange rq b) s) = login_view (app_login (listen b (after_exchange rq b) s)))"
proof (intro conjI impI)
  show "app_user s = Current u \<Longrightarrow> named_by (network b) u"
    using session_reachable [OF assms] by (simp add: session_ok_def)
  show "Link l ''/users'' \<in> set (app_view s)
      \<longleftrightarrow> (\<exists>v. app_user s = Current v \<and> user_is_admin v \<and> l = ''Users'')"
    by (cases "app_user s") (simp_all add: app_view_def users_link_login users_link_shell)
  show "reply_to rq b = Response 401 c \<Longrightarrow>
      app_view (listen b (after_exchange rq b) s) = login_view (app_login (listen b (after_exchange rq b) s))"
    using unauthorized_listens [of rq b c s] by (simp add: app_view_def)
qed

text \<open>C19. The session never hangs: the blank page is shown only while the probe is in flight, and
  whatever the answer it ends with the sign-in form or the shell; the sign-in button is disabled only while
  exactly one sign-in is in flight, and when that settles the shell is shown, or the form again,
  usable and with a message.\<close>

theorem session_live:
  assumes "reachable app_opened app_move (s, pend, b)"
  shows "(app_view s = [] \<longleftrightarrow> pend = [Probe])
    \<and> app_view (fst (app_settle Probe (s, b))) \<noteq> []
    \<and> (app_user s = Null \<and> lf_busy (app_login s) \<longleftrightarrow> signing pend = 1) \<and> signing pend \<le> 1
    \<and> (Sign_In e p \<in> set pend \<longrightarrow>
        (let s' = fst (app_settle (Sign_In e p) (s, b)) in
          (\<exists>v. app_user s' = Current v)
          \<or> offers (app_view s') Submit_Login \<and> lf_error (app_login s') \<noteq> None))"
proof -
  have ok: "session_ok (network b) (s, pend, b)" by (rule session_reachable [OF assms])
  have blank: "app_view s = [] \<longleftrightarrow> app_user s = Undefined" for s
    by (cases "app_user s") (simp_all add: app_view_def login_view_def shell_view_def)
  have "app_user s = Null" if "Sign_In e p \<in> set pend"
  proof -
    have "signing pend \<noteq> 0" using that by (auto simp: signing_def filter_empty_conv intro!: bexI [of _ "Sign_In e p"])
    then show ?thesis using ok that by (auto simp: session_ok_def split: session.splits)
  qed
  then have "Sign_In e p \<in> set pend \<longrightarrow>
        (let s' = fst (app_settle (Sign_In e p) (s, b)) in (\<exists>v. app_user s' = Current v)
          \<or> offers (app_view s') Submit_Login \<and> lf_error (app_login s') \<noteq> None)"
    by (auto simp: app_settle_def Let_def login_failed_def app_view_def login_view_def split: prod.split sum.split)
  moreover have "app_view s = [] \<longleftrightarrow> pend = [Probe]"
    using ok by (auto simp: blank session_ok_def split: session.splits)
  moreover have "app_view (fst (app_settle Probe (s, b))) \<noteq> []"
    by (simp add: blank app_settle_def split: prod.split sum.split)
  moreover have "(app_user s = Null \<and> lf_busy (app_login s) \<longleftrightarrow> signing pend = 1) \<and> signing pend \<le> 1"
    using ok by (auto simp: session_ok_def of_bool_def split: session.splits if_splits)
  ultimately show ?thesis by blast
qed

definition admin_user :: User where
  "admin_user = \<lparr>user_id = 1, user_email = ''a@b'', user_full_name = ''Ada'', user_is_admin = True\<rparr>"

definition session_browser :: "(unit, payload, body) browser" where
  "session_browser = \<lparr>network = answering (\<lambda>_. Master (User_Body admin_user)), world = (), sent = [], events = []\<rparr>"

lemma probe_answered:
  "app_settle Probe (app_init, session_browser)
    = (setUser (Current admin_user) app_init, after_exchange (get_request ''/auth/me'') session_browser)"
proof -
  have "me session_browser = (Inr admin_user, after_exchange (get_request ''/auth/me'') session_browser)"
    unfolding me_def get_exchange
    by (rule exchange_json [where st = 200 and b = "Master (User_Body admin_user)"])
      (simp_all add: reply_to_def session_browser_def answering_def ok_def master_as_def)
  moreover have "events (after_exchange (get_request ''/auth/me'') session_browser) = []"
    by (simp add: after_exchange_def session_browser_def answering_def)
  ultimately show ?thesis by (simp add: app_settle_def listen_def)
qed

lemma admin_signed_in:
  "reachable app_opened app_move (setUser (Current admin_user) app_init, [],
     after_exchange (get_request ''/auth/me'') session_browser)"
proof -
  have "reachable app_opened app_move (app_init, [] @ Probe # [], session_browser)"
    by (rule reachable.starting) (simp add: app_opened_def)
  moreover have "app_move (app_init, [] @ Probe # [], session_browser)
      (setUser (Current admin_user) app_init, [] @ [], after_exchange (get_request ''/auth/me'') session_browser)"
    by (rule app_move.settle) (rule probe_answered)
  ultimately have "reachable app_opened app_move (setUser (Current admin_user) app_init, [] @ [],
     after_exchange (get_request ''/auth/me'') session_browser)"
    by (rule reachable.moving)
  then show ?thesis by simp
qed

theorem session_guard_witness:
  "Link ''Users'' ''/users'' \<in> set (app_view (setUser (Current admin_user) app_init))"
  using session_guard [OF admin_signed_in, of admin_user "''Users''"]
  by (simp add: admin_user_def)

theorem session_live_witness:
  "app_view (fst (app_settle Probe (app_init, session_browser))) \<noteq> []"
proof -
  have "reachable app_opened app_move (app_init, [Probe], session_browser)"
    by (rule reachable.starting) (simp add: app_opened_def)
  from session_live [OF this, of "[]" "[]"] show ?thesis by simp
qed

end
