(* ===== verification/Routes.thy ===== *)
theory Routes
  imports Session
begin

text \<open>
  The routes of the shell (\<open>web/src/App.tsx\<close>): the table from path patterns to the components they
  render. The router itself is a library: it is a parameter, of which only the documented ranking
  is assumed, that a path goes to the matching route with the fewest parameters and to the
  catch-all when there is none.
\<close>

section \<open>The table\<close>

datatype form_mode = Create | Edit

text \<open>The element of a route: the component by its name, with its mode, or the catch-all's text.\<close>

datatype page = Page string "form_mode option" | Not_Found

type_synonym route = "string \<times> page"

definition ledger_routes :: "route list" where
  "ledger_routes =
    [(''/'', Page ''Dashboard'' None), (''/accounts'', Page ''ChartOfAccounts'' None),
     (''/accounts/new'', Page ''AccountForm'' (Some Create)),
     (''/accounts/:id'', Page ''AccountForm'' (Some Edit)),
     (''/accounts/:id/ledger'', Page ''AccountLedger'' None),
     (''/journal-entries/:id'', Page ''JournalEntryDetail'' None)]"

definition master_routes :: "route list" where
  "master_routes =
    [(''/organizations'', Page ''Organizations'' None),
     (''/organizations/new'', Page ''OrganizationForm'' (Some Create)),
     (''/organizations/:id'', Page ''OrganizationForm'' (Some Edit)),
     (''/customers'', Page ''Customers'' None),
     (''/customers/new'', Page ''CustomerForm'' (Some Create)),
     (''/customers/:id'', Page ''CustomerForm'' (Some Edit)),
     (''/suppliers'', Page ''Suppliers'' None),
     (''/suppliers/new'', Page ''SupplierForm'' (Some Create)),
     (''/suppliers/:id'', Page ''SupplierForm'' (Some Edit)),
     (''/products'', Page ''Products'' None),
     (''/products/new'', Page ''ProductForm'' (Some Create)),
     (''/products/:id'', Page ''ProductForm'' (Some Edit)),
     (''/tax-codes'', Page ''TaxCodes'' None),
     (''/tax-codes/new'', Page ''TaxCodeForm'' (Some Create)),
     (''/tax-codes/:code'', Page ''TaxCodeForm'' (Some Edit)),
     (''/payment-terms'', Page ''PaymentTerms'' None),
     (''/payment-terms/new'', Page ''PaymentTermForm'' (Some Create)),
     (''/payment-terms/:code'', Page ''PaymentTermForm'' (Some Edit)),
     (''/warehouses'', Page ''Warehouses'' None),
     (''/warehouses/new'', Page ''WarehouseForm'' (Some Create)),
     (''/warehouses/:id'', Page ''WarehouseForm'' (Some Edit))]"

definition banking_routes :: "route list" where
  "banking_routes =
    [(''/bank-statements'', Page ''BankStatements'' None),
     (''/bank-statements/new'', Page ''BankStatementForm'' (Some Create)),
     (''/bank-statements/:id'', Page ''BankStatementDetail'' None),
     (''/bank-statements/:id/edit'', Page ''BankStatementForm'' (Some Edit)),
     (''/exchange-rates'', Page ''ExchangeRates'' None),
     (''/exchange-rates/new'', Page ''ExchangeRateForm'' (Some Create)),
     (''/exchange-rates/:currency/:date'', Page ''ExchangeRateForm'' (Some Edit)),
     (''/settings'', Page ''SettingsScreen'' None), (''/periods'', Page ''Periods'' None),
     (''/periods/new'', Page ''PeriodForm'' (Some Create)),
     (''/periods/:id'', Page ''PeriodForm'' (Some Edit)),
     (''/fiscal-years/new'', Page ''FiscalYearForm'' (Some Create)),
     (''/fiscal-years/:id'', Page ''FiscalYearForm'' (Some Edit)),
     (''/fiscal-years/:id/close'', Page ''FiscalYearClose'' None),
     (''/users'', Page ''Users'' None), (''/users/new'', Page ''UserForm'' (Some Create)),
     (''/users/:id'', Page ''UserForm'' (Some Edit))]"

definition document_routes :: "route list" where
  "document_routes =
    [(''/sales-orders'', Page ''SalesOrders'' None),
     (''/sales-orders/new'', Page ''SalesOrderForm'' None),
     (''/sales-orders/:id'', Page ''SalesOrderDetail'' None),
     (''/sales-orders/:id/edit'', Page ''SalesOrderForm'' (Some Edit)),
     (''/purchase-orders'', Page ''PurchaseOrders'' None),
     (''/purchase-orders/new'', Page ''PurchaseOrderForm'' None),
     (''/purchase-orders/:id'', Page ''PurchaseOrderDetail'' None),
     (''/purchase-orders/:id/edit'', Page ''PurchaseOrderForm'' (Some Edit)),
     (''/invoices'', Page ''Invoices'' None), (''/invoices/new'', Page ''InvoiceForm'' None),
     (''/invoices/:id'', Page ''InvoiceDetail'' None),
     (''/invoices/:id/edit'', Page ''InvoiceForm'' (Some Edit)),
     (''/bills'', Page ''Bills'' None), (''/bills/new'', Page ''BillForm'' None),
     (''/bills/:id'', Page ''BillDetail'' None),
     (''/bills/:id/edit'', Page ''BillForm'' (Some Edit)),
     (''/credit-notes'', Page ''CreditNotes'' None),
     (''/credit-notes/new'', Page ''CreditNoteForm'' None),
     (''/credit-notes/:id'', Page ''CreditNoteDetail'' None),
     (''/credit-notes/:id/edit'', Page ''CreditNoteForm'' (Some Edit)),
     (''/supplier-credits'', Page ''SupplierCredits'' None),
     (''/supplier-credits/new'', Page ''SupplierCreditForm'' None),
     (''/supplier-credits/:id'', Page ''SupplierCreditDetail'' None),
     (''/supplier-credits/:id/edit'', Page ''SupplierCreditForm'' (Some Edit))]"

definition payment_routes :: "route list" where
  "payment_routes =
    [(''/customer-payments'', Page ''CustomerPayments'' None),
     (''/customer-payments/new'', Page ''CustomerPaymentForm'' None),
     (''/customer-payments/:id'', Page ''CustomerPaymentDetail'' None),
     (''/customer-payments/:id/edit'', Page ''CustomerPaymentForm'' (Some Edit)),
     (''/supplier-payments'', Page ''SupplierPayments'' None),
     (''/supplier-payments/new'', Page ''SupplierPaymentForm'' None),
     (''/supplier-payments/:id'', Page ''SupplierPaymentDetail'' None),
     (''/supplier-payments/:id/edit'', Page ''SupplierPaymentForm'' (Some Edit)),
     (''/stock-movements'', Page ''StockMovements'' None),
     (''/stock-movements/new'', Page ''StockMovementForm'' None),
     (''/stock-movements/:id'', Page ''StockMovementDetail'' None),
     (''/stock-movements/:id/edit'', Page ''StockMovementForm'' (Some Edit))]"

definition report_routes :: "route list" where
  "report_routes =
    [(''/reports/profit-and-loss'', Page ''ProfitAndLoss'' None),
     (''/reports/balance-sheet'', Page ''BalanceSheetReport'' None),
     (''/reports/cash-flow'', Page ''CashFlowStatement'' None),
     (''/reports/trial-balance'', Page ''TrialBalance'' None),
     (''/reports/ar-aging'', Page ''ARAging'' None),
     (''/reports/ap-aging'', Page ''APAging'' None),
     (''/reports/inventory'', Page ''InventoryValuation'' None)]"

definition routes :: "route list" where
  "routes = ledger_routes @ master_routes @ banking_routes @ document_routes @ payment_routes
     @ report_routes"

section \<open>Paths\<close>

text \<open>Lower case by the bits of a character, which is what computations with literal paths use.\<close>

lemma lower_char_bits [code]:
  "lower_char (Char b0 b1 b2 b3 b4 b5 b6 b7) = (
     if b6 \<and> \<not> b7 \<and> \<not> b5 \<and> (b0 \<or> b1 \<or> b2 \<or> b3 \<or> b4) \<and> \<not> (b4 \<and> b3 \<and> (b2 \<or> (b1 \<and> b0)))
     then Char b0 b1 b2 b3 b4 True b6 b7 else Char b0 b1 b2 b3 b4 b5 b6 b7)"
  by (cases b0; cases b1; cases b2; cases b3; cases b4; cases b5; cases b6; cases b7; simp add: lower_char_def char_of_def bit_0)

text \<open>A segment of a pattern that starts with a colon stands for any segment that is not empty; the
  others match whatever the case of their letters, as the router does unless it is told otherwise.\<close>

definition seg_matches :: "string \<Rightarrow> string \<Rightarrow> bool" where
  "seg_matches pat seg = (if startsWith pat '':'' then seg \<noteq> [] else toLowerCase pat = toLowerCase seg)"

definition path_matches :: "string \<Rightarrow> string \<Rightarrow> bool" where
  "path_matches pat path = list_all2 seg_matches (split_on CHR ''/'' pat) (split_on CHR ''/'' path)"

definition params :: "string \<Rightarrow> nat" where
  "params pat = length (filter (\<lambda>s. startsWith s '':'') (split_on CHR ''/'' pat))"

text \<open>What the router is relied on for.\<close>

definition ranked :: "(route list \<Rightarrow> string \<Rightarrow> page) \<Rightarrow> bool" where
  "ranked router \<longleftrightarrow> (\<forall>rs path.
     (\<forall>r \<in> set rs. \<not> path_matches (fst r) path) \<and> router rs path = Not_Found
     \<or> (\<exists>r \<in> set rs. path_matches (fst r) path \<and> router rs path = snd r
          \<and> (\<forall>q \<in> set rs. path_matches (fst q) path \<longrightarrow> params (fst r) \<le> params (fst q))))"

text \<open>A router that ranks: the first of the matching routes with the fewest parameters.\<close>

definition ranking_router :: "route list \<Rightarrow> string \<Rightarrow> page" where
  "ranking_router rs path = (case filter (\<lambda>r. path_matches (fst r) path) rs of
       [] \<Rightarrow> Not_Found | ms \<Rightarrow> snd (arg_min_list (params \<circ> fst) ms))"

lemma ranking_router_ranked: "ranked ranking_router"
  unfolding ranked_def
proof (intro allI)
  fix rs :: "route list" and path :: string
  let ?ms = "filter (\<lambda>r. path_matches (fst r) path) rs" and ?f = "params \<circ> fst"
  show "(\<forall>r \<in> set rs. \<not> path_matches (fst r) path) \<and> ranking_router rs path = Not_Found
     \<or> (\<exists>r \<in> set rs. path_matches (fst r) path \<and> ranking_router rs path = snd r
          \<and> (\<forall>q \<in> set rs. path_matches (fst q) path \<longrightarrow> params (fst r) \<le> params (fst q)))"
  proof (cases "?ms = []")
    case True
    then show ?thesis by (simp add: ranking_router_def filter_empty_conv)
  next
    case False
    let ?r = "arg_min_list ?f ?ms"
    have r: "?r \<in> set ?ms" using False by (rule arg_min_list_in)
    have "?f ?r \<le> ?f q" if "q \<in> set ?ms" for q
      using f_arg_min_list_f [OF False, of ?f] that by simp
    moreover have "ranking_router rs path = snd ?r"
      using False by (simp add: ranking_router_def split: list.split)
    ultimately show ?thesis using r by (intro disjI2 bexI [of _ ?r]) auto
  qed
qed

section \<open>Paths of pages\<close>

lemma split_on_join: "split_on c (s @ c # t) = split_on c s @ split_on c t"
  by (induction s) (auto split: list.splits)

lemma path_matches_join:
  "path_matches p u \<Longrightarrow> path_matches q v \<Longrightarrow> path_matches (p @ CHR ''/'' # q) (u @ CHR ''/'' # v)"
  by (simp add: path_matches_def split_on_join list_all2_appendI)

lemma split_on_subset: "x \<in> set (split_on c s) \<Longrightarrow> set x \<subseteq> set s"
proof (induction s arbitrary: x)
  case (Cons a s)
  then have "set y \<subseteq> set s" if "y \<in> set (split_on c s)" for y using that by blast
  then show ?case using Cons.prems by (cases "split_on c s") (auto split: if_splits, blast+)
qed simp

lemma path_matches_literal: "CHR '':'' \<notin> set p \<Longrightarrow> path_matches p p"
  unfolding path_matches_def
proof (rule list.rel_refl_strong)
  fix x assume "CHR '':'' \<notin> set p" "x \<in> set (split_on CHR ''/'' p)"
  then have "CHR '':'' \<notin> set x" using split_on_subset by blast
  then have "\<not> startsWith x '':''" by (cases x) auto
  then show "seg_matches x x" by (simp add: seg_matches_def)
qed

text \<open>A path with the ids written as holes; an id is not a literal segment of any pattern.\<close>

definition fill :: "int \<Rightarrow> string option \<Rightarrow> string" where
  "fill k t = (case t of Some s \<Rightarrow> s | None \<Rightarrow> show_int k)"

definition hole_matches :: "string \<Rightarrow> string option \<Rightarrow> bool" where
  "hole_matches pat t = (case t of Some s \<Rightarrow> seg_matches pat s | None \<Rightarrow> startsWith pat '':'')"

definition numeric :: "string \<Rightarrow> bool" where
  "numeric s \<longleftrightarrow> s \<noteq> [] \<and> (is_digit (hd s) \<or> hd s = CHR ''-'')"

lemma numeric_show_int: "numeric (show_int k)"
proof (cases "k < 0")
  case False
  then have "hd (show_int k) \<in> set (show_int k)" by simp
  moreover have "\<forall>c \<in> set (show_int k). is_digit c"
    using False all_digits_show_nat [of "nat k"] by (simp add: show_int_def all_digits_def list_all_iff)
  ultimately show ?thesis by (simp add: numeric_def)
qed (simp add: numeric_def show_int_def)

lemma lower_char_code: "of_char (lower_char c) = (let n = of_char c :: nat in if 65 \<le> n \<and> n \<le> 90 then n + 32 else n)"
  by (simp add: lower_char_def Let_def)

lemma numeric_lower: "numeric (toLowerCase s) = numeric s"
proof (cases s)
  case (Cons c t)
  have dash: "of_char d = (45 :: nat) \<longleftrightarrow> d = CHR ''-''" for d
    using of_char_eq_iff [of d "CHR ''-''"] by simp
  have "is_digit (lower_char c) = is_digit c" by (auto simp: is_digit_def lower_char_code Let_def)
  moreover have "lower_char c = CHR ''-'' \<longleftrightarrow> c = CHR ''-''"
    unfolding dash [symmetric] lower_char_code by (auto simp: Let_def)
  ultimately show ?thesis using Cons by (simp add: numeric_def toLowerCase_def)
qed (simp add: numeric_def toLowerCase_def)

lemma hole_matches_fill: "\<not> numeric pat \<Longrightarrow> seg_matches pat (fill k t) = hole_matches pat t"
  using numeric_show_int [of k] numeric_lower [of pat] numeric_lower [of "show_int k"]
  by (auto simp: hole_matches_def fill_def seg_matches_def split: option.split)

lemma path_matches_filled:
  assumes "split_on CHR ''/'' path = map (fill k) ts" "\<forall>x \<in> set (split_on CHR ''/'' pat). \<not> numeric x"
  shows "path_matches pat path = list_all2 hole_matches (split_on CHR ''/'' pat) ts"
  unfolding path_matches_def assms(1) list_all2_map2
  using assms(2) by (auto simp: list_all2_conv_all_nth hole_matches_fill)

lemma routes_literal: "list_all (\<lambda>r. list_all (\<lambda>x. \<not> numeric x) (split_on CHR ''/'' (fst r))
    \<and> snd r \<noteq> Not_Found) routes"
  by code_simp

definition route_of :: "string option list \<Rightarrow> page list" where
  "route_of ts = map snd (filter (\<lambda>r. list_all2 hole_matches (split_on CHR ''/'' (fst r)) ts) routes)"

lemma page_filled:
  assumes "ranked router" "split_on CHR ''/'' path = map (fill k) ts" "route_of ts = [e]"
  shows "router routes path = e"
proof -
  have m: "path_matches (fst r) path = list_all2 hole_matches (split_on CHR ''/'' (fst r)) ts"
    if "r \<in> set routes" for r
    using path_matches_filled [OF assms(2)] routes_literal that by (simp add: list_all_iff)
  have e: "set (route_of ts) = {snd r | r. r \<in> set routes \<and> path_matches (fst r) path}"
  proof -
    have "set (route_of ts) = snd ` {r \<in> set routes. list_all2 hole_matches (split_on CHR ''/'' (fst r)) ts}"
      by (simp add: route_of_def)
    also have "\<dots> = snd ` {r \<in> set routes. path_matches (fst r) path}" using m by auto
    finally show ?thesis by blast
  qed
  consider "\<forall>r \<in> set routes. \<not> path_matches (fst r) path"
    | r where "r \<in> set routes" "path_matches (fst r) path" "router routes path = snd r"
    using assms(1) unfolding ranked_def by blast
  then show ?thesis
  proof cases
    case 1
    then show ?thesis using e assms(3) by force
  next
    case (2 r)
    then have "snd r \<in> set (route_of ts)" using e by blast
    then show ?thesis using 2 assms(3) by simp
  qed
qed

text \<open>Links that lead to a page of the front end, and the addresses of the server they may also
  name (opened outside the router).\<close>

definition alive :: "(route list \<Rightarrow> string \<Rightarrow> page) \<Rightarrow> string \<Rightarrow> bool" where
  "alive router path \<longleftrightarrow> router routes path \<noteq> Not_Found \<or> startsWith path ''/api/''"

lemma alive_match:
  assumes "ranked router" "r \<in> set routes" "path_matches (fst r) path"
  shows "alive router path"
proof -
  obtain q where "q \<in> set routes" "router routes path = snd q"
    using assms unfolding ranked_def by blast
  then show ?thesis using routes_literal by (auto simp: alive_def list_all_iff)
qed

lemma alive_literal:
  assumes "ranked router" "path \<in> fst ` set routes" "CHR '':'' \<notin> set path"
  shows "alive router path"
  using assms alive_match [OF assms(1)] path_matches_literal by blast

lemma split_on_show_int: "split_on CHR ''/'' (show_int k) = [show_int k]"
proof (rule split_on_none)
  show "CHR ''/'' \<notin> set (show_int k)"
    using all_digits_set [OF all_digits_show_nat, of "CHR ''/''"]
    by (auto simp: show_int_def) (simp_all add: is_digit_def)
qed

lemma path_matches_id: "path_matches '':id'' (show_int k)"
  by (simp add: path_matches_def split_on_show_int split_on_none seg_matches_def)

lemma alive_id:
  assumes "ranked router" "base @ ''/:id'' \<in> fst ` set routes" "CHR '':'' \<notin> set base"
  shows "alive router (base @ ''/'' @ show_int k)"
proof -
  have "path_matches (base @ ''/:id'') (base @ ''/'' @ show_int k)"
    using path_matches_join [OF path_matches_literal [OF assms(3)] path_matches_id] by simp
  then show ?thesis using assms(2) alive_match [OF assms(1)] by fastforce
qed

lemma alive_under:
  assumes "ranked router" "base @ ''/:id/'' @ sub \<in> fst ` set routes" "CHR '':'' \<notin> set base" "CHR '':'' \<notin> set sub"
  shows "alive router (base @ ''/'' @ show_int k @ ''/'' @ sub)"
proof -
  have "path_matches (base @ CHR ''/'' # '':id'' @ CHR ''/'' # sub) (base @ CHR ''/'' # show_int k @ CHR ''/'' # sub)"
    by (rule path_matches_join [OF path_matches_literal [OF assms(3)]
        path_matches_join [OF path_matches_id path_matches_literal [OF assms(4)]]])
  then show ?thesis using assms(2) alive_match [OF assms(1)] by fastforce
qed

lemma alive_api: "alive router (''/api/'' @ rest)"
  by (simp add: alive_def startsWith_def)

text \<open>A screen without dead links.\<close>

definition links_alive :: "(route list \<Rightarrow> string \<Rightarrow> page) \<Rightarrow> 'e element list \<Rightarrow> bool" where
  "links_alive router els \<longleftrightarrow> list_all (\<lambda>el. case el of Link l path \<Rightarrow> alive router path | _ \<Rightarrow> True) els"

lemma links_alive_simps [simp]:
  "links_alive router []" "links_alive router (els @ els') \<longleftrightarrow> links_alive router els \<and> links_alive router els'"
  "links_alive router (Link l path # els) \<longleftrightarrow> alive router path \<and> links_alive router els"
  "links_alive router (Heading t # els) = links_alive router els"
  "links_alive router (Note t # els) = links_alive router els"
  "links_alive router (Alert t # els) = links_alive router els"
  "links_alive router (Button l d e # els) = links_alive router els"
  "links_alive router (Field i l q v h # els) = links_alive router els"
  "links_alive router (Select i l v os h # els) = links_alive router els"
  "links_alive router (Checkbox i l c ch # els) = links_alive router els"
  "links_alive router (Datum l v # els) = links_alive router els"
  "links_alive router (Table cs rs # els) = links_alive router els"
  by (simp_all add: links_alive_def)

lemma links_alive_guarded [simp]: "links_alive router (guarded c els) \<longleftrightarrow> (c \<longrightarrow> links_alive router els)"
  by (simp add: guarded_def)

lemma links_alive_concat:
  "links_alive router (concat (map f xs)) \<longleftrightarrow> (\<forall>x \<in> set xs. links_alive router (f x))"
  by (induction xs) simp_all

lemma links_alive_map: "(\<And>x. x \<in> set xs \<Longrightarrow> links_alive router [f x]) \<Longrightarrow> links_alive router (map f xs)"
  by (auto simp: links_alive_def list_all_iff)

text \<open>The paths of the table the screens link to.\<close>

definition document_bases :: "string list" where
  "document_bases = [''/invoices'', ''/bills'', ''/credit-notes'', ''/supplier-credits'', ''/sales-orders'',
     ''/purchase-orders'', ''/customer-payments'', ''/supplier-payments'', ''/stock-movements'',
     ''/bank-statements'']"

definition document_base :: "string \<Rightarrow> bool" where
  "document_base base \<longleftrightarrow> base \<in> set document_bases"

lemma plain_routes: "list_all (\<lambda>p. p \<in> set (map fst routes) \<and> p @ ''/new'' \<in> set (map fst routes)
    \<and> p @ ''/:id'' \<in> set (map fst routes) \<and> p @ ''/:id/edit'' \<in> set (map fst routes)
    \<and> CHR '':'' \<notin> set p) document_bases"
  by code_simp

lemma single_routes: "list_all (\<lambda>q. q \<in> set (map fst routes)) [''/'', ''/journal-entries/:id'']"
  by code_simp

lemma nav_routes:
  "list_all (\<lambda>grp. list_all (\<lambda>x. fst x \<in> set (map fst routes) \<and> CHR '':'' \<notin> set (fst x)) (snd grp)) navGroups
   \<and> list_all (\<lambda>x. fst x \<in> set (map fst routes) \<and> CHR '':'' \<notin> set (fst x)) adminNavItems"
  by code_simp


section \<open>Codes that read as pages\<close>

text \<open>The router takes the first of two matching routes that has fewer parameters.\<close>

lemma ranked_two:
  assumes "ranked router" "filter (\<lambda>r. path_matches (fst r) path) rs = [p, q]" "params (fst p) < params (fst q)"
  shows "router rs path = snd p"
proof -
  have only: "r \<in> set rs \<and> path_matches (fst r) path \<longleftrightarrow> r = p \<or> r = q" for r
    using arg_cong [OF assms(2), of "\<lambda>xs. r \<in> set xs"] by simp
  have "(\<forall>r \<in> set rs. \<not> path_matches (fst r) path) \<and> router rs path = Not_Found
     \<or> (\<exists>r \<in> set rs. path_matches (fst r) path \<and> router rs path = snd r
          \<and> (\<forall>q \<in> set rs. path_matches (fst q) path \<longrightarrow> params (fst r) \<le> params (fst q)))"
    using spec [OF spec [OF assms(1) [unfolded ranked_def], of rs], of path] .
  then obtain r where r: "r \<in> set rs" "path_matches (fst r) path" "router rs path = snd r"
      "params (fst r) \<le> params (fst p)"
    using only [of p] by auto
  then have "r = p \<or> r = q" using only [of r] by simp
  then show ?thesis using r assms(3) by auto
qed

text \<open>The routes whose patterns start with given segments.\<close>

definition under :: "string list \<Rightarrow> route list" where
  "under pre = filter (\<lambda>r. list_all2 seg_matches (take (length pre) (split_on CHR ''/'' (fst r))) pre) routes"

lemma filter_under:
  assumes "split_on CHR ''/'' path = pre @ segs"
  shows "filter (\<lambda>r. path_matches (fst r) path) routes
    = filter (\<lambda>r. list_all2 seg_matches (drop (length pre) (split_on CHR ''/'' (fst r))) segs) (under pre)"
proof -
  have "path_matches pat path \<longleftrightarrow> list_all2 seg_matches (take (length pre) (split_on CHR ''/'' pat)) pre
      \<and> list_all2 seg_matches (drop (length pre) (split_on CHR ''/'' pat)) segs" for pat
  proof
    assume "path_matches pat path"
    then obtain us vs where "split_on CHR ''/'' pat = us @ vs" "list_all2 seg_matches us pre" "list_all2 seg_matches vs segs"
      "length us = length pre"
      unfolding path_matches_def assms by (metis list_all2_append2)
    then show "list_all2 seg_matches (take (length pre) (split_on CHR ''/'' pat)) pre
      \<and> list_all2 seg_matches (drop (length pre) (split_on CHR ''/'' pat)) segs" by simp
  next
    assume "list_all2 seg_matches (take (length pre) (split_on CHR ''/'' pat)) pre
      \<and> list_all2 seg_matches (drop (length pre) (split_on CHR ''/'' pat)) segs"
    then show "path_matches pat path"
      unfolding path_matches_def assms by (metis append_take_drop_id list_all2_appendI)
  qed
  then show ?thesis unfolding under_def by (simp add: conj_commute)
qed

lemma under_codes:
  "under [[], ''tax-codes''] = [(''/tax-codes'', Page ''TaxCodes'' None),
     (''/tax-codes/new'', Page ''TaxCodeForm'' (Some Create)), (''/tax-codes/:code'', Page ''TaxCodeForm'' (Some Edit))]"
  "under [[], ''payment-terms''] = [(''/payment-terms'', Page ''PaymentTerms'' None),
     (''/payment-terms/new'', Page ''PaymentTermForm'' (Some Create)),
     (''/payment-terms/:code'', Page ''PaymentTermForm'' (Some Edit))]"
  "under [[], ''exchange-rates''] = [(''/exchange-rates'', Page ''ExchangeRates'' None),
     (''/exchange-rates/new'', Page ''ExchangeRateForm'' (Some Create)),
     (''/exchange-rates/:currency/:date'', Page ''ExchangeRateForm'' (Some Edit))]"
  by code_simp+

text \<open>A code in a path: never empty, never two segments, and the word \<open>new\<close> only when it is that word.\<close>

lemma hex_no_slash: "n < 16 \<Longrightarrow> hex_digit n \<noteq> CHR ''/''"
proof -
  assume "n < 16"
  then have "hex_digit n \<in> set ''0123456789ABCDEF''" unfolding hex_digit_def by (intro nth_mem) simp
  then show ?thesis by auto
qed

lemma percent_chars: "b < 256 \<Longrightarrow> CHR ''/'' \<notin> set (percent b)" "CHR ''%'' \<in> set (percent b)"
proof -
  have "b div 16 < 16" "b mod 16 < 16" if "b < 256" using that by (simp_all add: less_mult_imp_div_less)
  from this [THEN hex_no_slash] show "b < 256 \<Longrightarrow> CHR ''/'' \<notin> set (percent b)" by (auto simp: percent_def)
qed (simp add: percent_def)

lemma encoded_chars:
  "CHR ''/'' \<notin> set (encodeURIComponent s)" "s \<noteq> [] \<Longrightarrow> encodeURIComponent s \<noteq> []"
  "CHR ''%'' \<notin> set (encodeURIComponent s) \<Longrightarrow> encodeURIComponent s = s"
  "list_all is_alnum s \<Longrightarrow> encodeURIComponent s = s"
proof -
  have u: "utf8 c \<noteq> []" for c by (simp add: utf8_def Let_def)
  have slash: "\<not> is_alnum CHR ''/''" by (simp add: is_alnum_def)
  have "CHR ''/'' \<notin> set (encode_with (''-_.!~*'' @ [CHR 0x27] @ ''()'') c)" for c
    using utf8_byte [of _ c] percent_chars(1) slash by (auto simp: encode_with_def)
  then show "CHR ''/'' \<notin> set (encodeURIComponent s)" by (auto simp: encodeURIComponent_def)
  have "percent b \<noteq> []" for b by (simp add: percent_def)
  then have ne: "encode_with p c \<noteq> []" for p c
    using u [of c] by (cases "utf8 c") (auto simp: encode_with_def)
  then show "s \<noteq> [] \<Longrightarrow> encodeURIComponent s \<noteq> []" by (cases s) (simp_all add: encodeURIComponent_def)
  have plain: "encode_with p c = [c]" if "CHR ''%'' \<notin> set (encode_with p c)" for p c
    using that u [of c] percent_chars(2) [of "hd (utf8 c)"] by (cases "utf8 c") (auto simp: encode_with_def split: if_splits)
  then show "CHR ''%'' \<notin> set (encodeURIComponent s) \<Longrightarrow> encodeURIComponent s = s"
    by (induction s) (simp_all add: encodeURIComponent_def)
  show "list_all is_alnum s \<Longrightarrow> encodeURIComponent s = s"
    by (induction s) (simp_all add: encodeURIComponent_def encode_with_def)
qed

lemma lower_char_letter: "of_char (lower_char c) \<in> {97..122 :: nat} \<Longrightarrow> is_alnum c"
  by (auto simp: is_alnum_def lower_char_code Let_def split: if_splits)

lemma encoded_new: "toLowerCase (encodeURIComponent s) = ''new'' \<longleftrightarrow> toLowerCase s = ''new''"
proof
  have letters: "list_all is_alnum t" if "toLowerCase t = ''new''" for t
  proof -
    have "of_char (lower_char c) \<in> {97..122 :: nat}" if "c \<in> set t" for c
    proof -
      have "lower_char c \<in> set (toLowerCase t)" using that by (simp add: toLowerCase_def)
      then have "lower_char c \<in> {CHR ''n'', CHR ''e'', CHR ''w''}" using \<open>toLowerCase t = ''new''\<close> by auto
      then show ?thesis by auto
    qed
    then show ?thesis using lower_char_letter by (simp add: list_all_iff)
  qed
  show "toLowerCase (encodeURIComponent s) = ''new''" if "toLowerCase s = ''new''"
    using that encoded_chars(4) [OF letters [OF that]] by simp
  assume n: "toLowerCase (encodeURIComponent s) = ''new''"
  have "\<not> is_alnum CHR ''%''" by (simp add: is_alnum_def)
  then have "CHR ''%'' \<notin> set (encodeURIComponent s)" using letters [OF n] by (auto simp: list_all_iff)
  with n encoded_chars(3) [of s] show "toLowerCase s = ''new''" by simp
qed

lemma ranked_one:
  assumes "ranked router" "filter (\<lambda>r. path_matches (fst r) path) rs = [p]"
  shows "router rs path = snd p"
proof -
  have only: "r \<in> set rs \<and> path_matches (fst r) path \<longleftrightarrow> r = p" for r
    using arg_cong [OF assms(2), of "\<lambda>xs. r \<in> set xs"] by simp
  have "(\<forall>r \<in> set rs. \<not> path_matches (fst r) path) \<and> router rs path = Not_Found
     \<or> (\<exists>r \<in> set rs. path_matches (fst r) path \<and> router rs path = snd r
          \<and> (\<forall>q \<in> set rs. path_matches (fst q) path \<longrightarrow> params (fst r) \<le> params (fst q)))"
    using spec [OF spec [OF assms(1) [unfolded ranked_def], of rs], of path] .
  then obtain r where "r \<in> set rs \<and> path_matches (fst r) path" "router rs path = snd r"
    using only [of p] by auto
  then show ?thesis using only [of r] by simp
qed

text \<open>The page of a record whose key is a code under a literal segment: the form in edit mode, unless
  the code reads as the page of a new record.\<close>

lemma page_of_code:
  assumes "ranked router" "CHR ''/'' \<notin> set base"
    and "under [[], base] = [(CHR ''/'' # base, list), (CHR ''/'' # base @ ''/new'', new), (CHR ''/'' # base @ ''/:code'', edit)]"
    and "code \<noteq> []"
  shows "router routes (CHR ''/'' # base @ CHR ''/'' # encodeURIComponent code)
    = (if toLowerCase code = ''new'' then new else edit)"
proof -
  let ?path = "CHR ''/'' # base @ CHR ''/'' # encodeURIComponent code"
  have s: "split_on CHR ''/'' (CHR ''/'' # base @ t) = [] # split_on CHR ''/'' (base @ t)" for t
    using split_on_join [of "CHR ''/''" "[]" "base @ t"] by simp
  have b: "split_on CHR ''/'' base = [base]" by (rule split_on_none [OF assms(2)])
  have path: "split_on CHR ''/'' ?path = [[], base] @ [encodeURIComponent code]"
    using encoded_chars(1) [of code] by (simp add: s split_on_join b split_on_none)
  have pats: "split_on CHR ''/'' (CHR ''/'' # base) = [[], base]"
    "split_on CHR ''/'' (CHR ''/'' # base @ ''/new'') = [[], base, ''new'']"
    "split_on CHR ''/'' (CHR ''/'' # base @ ''/:code'') = [[], base, '':code'']"
    "split_on CHR ''/'' (base @ ''/new'') = [base, ''new'']" "split_on CHR ''/'' (base @ ''/:code'') = [base, '':code'']"
    using s [of "[]"] by (simp_all add: s split_on_join b)
  have m: "seg_matches ''new'' (encodeURIComponent code) \<longleftrightarrow> toLowerCase code = ''new''"
    "seg_matches '':code'' (encodeURIComponent code)"
    using encoded_chars(2) [OF assms(4)] encoded_new [of code]
    by (auto simp: seg_matches_def toLowerCase_def lower_char_def)
  show ?thesis
  proof (cases "toLowerCase code = ''new''")
    case True
    then have "filter (\<lambda>r. path_matches (fst r) ?path) routes
        = [(CHR ''/'' # base @ ''/new'', new), (CHR ''/'' # base @ ''/:code'', edit)]"
      unfolding filter_under [OF path] by (simp add: assms(3) pats b m)
    from ranked_two [OF assms(1) this] show ?thesis using True by (simp add: params_def pats b)
  next
    case False
    then have "filter (\<lambda>r. path_matches (fst r) ?path) routes = [(CHR ''/'' # base @ ''/:code'', edit)]"
      unfolding filter_under [OF path] by (simp add: assms(3) pats b m)
    from ranked_one [OF assms(1) this] show ?thesis using False by simp
  qed
qed

lemma code_pages:
  assumes "ranked router" "code \<noteq> []"
  shows "router routes (''/tax-codes/'' @ encodeURIComponent code)
      = Page ''TaxCodeForm'' (Some (if toLowerCase code = ''new'' then Create else Edit))"
    "router routes (''/payment-terms/'' @ encodeURIComponent code)
      = Page ''PaymentTermForm'' (Some (if toLowerCase code = ''new'' then Create else Edit))"
  using page_of_code [OF assms(1), of "''tax-codes''", simplified, OF under_codes(1) assms(2)]
    page_of_code [OF assms(1), of "''payment-terms''", simplified, OF under_codes(2) assms(2)]
  by simp_all

lemma rate_page:
  assumes "ranked router" "currency \<noteq> []" "date \<noteq> []"
  shows "router routes (''/exchange-rates/'' @ encodeURIComponent currency @ ''/'' @ encodeURIComponent date)
    = Page ''ExchangeRateForm'' (Some Edit)"
proof -
  let ?path = "''/exchange-rates/'' @ encodeURIComponent currency @ ''/'' @ encodeURIComponent date"
  have path: "split_on CHR ''/'' ?path = [[], ''exchange-rates''] @ [encodeURIComponent currency, encodeURIComponent date]"
    using encoded_chars(1) by (simp add: split_on_join split_on_none)
  have "filter (\<lambda>r. path_matches (fst r) ?path) routes
      = [(''/exchange-rates/:currency/:date'', Page ''ExchangeRateForm'' (Some Edit))]"
    unfolding filter_under [OF path] using encoded_chars(2) assms(2,3) by (simp add: under_codes seg_matches_def)
  from ranked_one [OF assms(1) this] show ?thesis by simp
qed

end
