(* ===== verification/Report_State.thy ===== *)
theory Report_State
  imports Document_Detail
begin

text \<open>
  Screens that show the answer to a query. The reports of the front end keep a query (the bounds of
  a date range, the id of their route), load its answer in an effect, and load again when the query
  changes; the effect's cleanup cancels the load before. Answers may come back in any order. The
  contract, as an interface: what is shown when nothing is awaited answers the current query.
\<close>

record ('q, 'd) report =
  rp_query :: 'q
  rp_data :: "'d option"
  rp_error :: "string option"

definition report_init :: "'q \<Rightarrow> ('q, 'd) report" where
  "report_init q = \<lparr>rp_query = q, rp_data = None, rp_error = None\<rparr>"

text \<open>What a load does when it returns. Only the reports with bounds clear an old error.\<close>

definition report_accept :: "bool \<Rightarrow> bool \<Rightarrow> exn + 'd \<Rightarrow> ('q, 'd) report \<Rightarrow> ('q, 'd) report" where
  "report_accept clears cancelled result s = (case result of
       Inr d \<Rightarrow> if cancelled then s
         else if clears then s\<lparr>rp_data := Some d, rp_error := None\<rparr> else s\<lparr>rp_data := Some d\<rparr>
     | Inl err \<Rightarrow> if cancelled then s else s\<lparr>rp_error := Some (error_message err)\<rparr>)"

text \<open>The loads in flight: the query each was started for and whether it has been cancelled. The
  effect of a query that names no record shows an error instead of loading.\<close>

definition report_effect :: "('q \<Rightarrow> string option) \<Rightarrow> 'q \<Rightarrow> ('q, 'd) report \<times> ('q \<times> bool) list
    \<Rightarrow> ('q, 'd) report \<times> ('q \<times> bool) list" where
  "report_effect problem q x = (case x of (s, pend) \<Rightarrow>
     (case problem q of
        Some m \<Rightarrow> (s\<lparr>rp_error := Some m\<rparr>, pend)
      | None \<Rightarrow> (s, pend @ [(q, False)])))"

definition cancel_all :: "('q \<times> bool) list \<Rightarrow> ('q \<times> bool) list" where
  "cancel_all = map (\<lambda>(q, c). (q, True))"

text \<open>A change of the query renders again: the cleanup, then the effect. Setting the same query does
  nothing.\<close>

definition report_change :: "('q \<Rightarrow> string option) \<Rightarrow> 'q \<Rightarrow> ('q, 'd) report \<times> ('q \<times> bool) list
    \<Rightarrow> ('q, 'd) report \<times> ('q \<times> bool) list" where
  "report_change problem q x = (case x of (s, pend) \<Rightarrow>
     if q = rp_query s then (s, pend)
     else report_effect problem q (s\<lparr>rp_query := q\<rparr>, cancel_all pend))"

inductive report_move :: "('q \<Rightarrow> (('w, 'p, 'b) browser, 'd) io) \<Rightarrow> bool \<Rightarrow> ('q \<Rightarrow> string option)
    \<Rightarrow> ('q, 'd) report \<times> ('q \<times> bool) list \<times> ('w, 'p, 'b) browser
    \<Rightarrow> ('q, 'd) report \<times> ('q \<times> bool) list \<times> ('w, 'p, 'b) browser \<Rightarrow> bool"
  for load clears problem where
  change: "report_change problem q (s, pend) = (s', pend') \<Longrightarrow>
    report_move load clears problem (s, pend, b) (s', pend', b)"
| answer: "load q b = (r, b') \<Longrightarrow>
    report_move load clears problem (s, before @ (q, c) # after, b) (report_accept clears c r s, before @ after, b')"

lemma report_move_cases [consumes 1, case_names change answer]:
  assumes "report_move load clears problem (s, pend, b) (s', pend', b')"
  obtains q where "report_change problem q (s, pend) = (s', pend')" "b' = b"
  | q c r before after where "pend = before @ (q, c) # after" "pend' = before @ after" "load q b = (r, b')"
      "s' = report_accept clears c r s"
  using assms by (cases rule: report_move.cases) blast+

text \<open>A report that has just been mounted on a network.\<close>

definition mounted :: "('q \<Rightarrow> string option) \<Rightarrow> ('p request \<Rightarrow> 'w \<Rightarrow> 'b reply \<times> 'w)
    \<Rightarrow> ('q, 'd) report \<times> ('q \<times> bool) list \<times> ('w, 'p, 'b) browser \<Rightarrow> bool" where
  "mounted problem net x \<longleftrightarrow> (case x of (s, pend, b) \<Rightarrow> network b = net
     \<and> (\<exists>q. (s, pend) = report_effect problem q (report_init q, [])))"

definition answers :: "('q \<Rightarrow> (('w, 'p, 'b) browser, 'd) io) \<Rightarrow> ('p request \<Rightarrow> 'w \<Rightarrow> 'b reply \<times> 'w) \<Rightarrow> 'q \<Rightarrow> 'd \<Rightarrow> bool" where
  "answers load net q d \<longleftrightarrow> (\<exists>b. network b = net \<and> fst (load q b) = Inr d)"

definition awaited :: "('q \<times> bool) list \<Rightarrow> 'q list" where
  "awaited pend = map fst (filter (\<lambda>x. \<not> snd x) pend)"

lemma awaited_simps [simp]: "awaited [] = []" "awaited (p @ p') = awaited p @ awaited p'"
  "awaited ((q, c) # p) = (if c then awaited p else q # awaited p)" "awaited (cancel_all p) = []"
  by (auto simp: awaited_def cancel_all_def filter_empty_conv)

lemma awaited_single:
  "awaited pend = [q] \<Longrightarrow> \<exists>before after. pend = before @ (q, False) # after \<and> awaited before = [] \<and> awaited after = []"
proof (induction pend)
  case (Cons x pend)
  obtain q' c where x: "x = (q', c)" by (cases x)
  show ?case
  proof (cases c)
    case True
    with Cons x obtain before after where "pend = before @ (q, False) # after" "awaited before = []" "awaited after = []"
      by auto
    with x True show ?thesis by (intro exI [of _ "x # before"] exI [of _ after]) simp
  next
    case False
    with Cons.prems x show ?thesis by (intro exI [of _ "[]"] exI [of _ pend]) simp
  qed
qed simp

locale latest_wins =
  fixes load :: "'q \<Rightarrow> (('w, 'p, 'b) browser, 'd) io"
  assumes load_reads: "reads_only (load q)"
begin

definition fresh :: "('p request \<Rightarrow> 'w \<Rightarrow> 'b reply \<times> 'w) \<Rightarrow> ('q, 'd) report \<times> ('q \<times> bool) list \<times> ('w, 'p, 'b) browser \<Rightarrow> bool" where
  "fresh net x \<longleftrightarrow> (case x of (s, pend, b) \<Rightarrow> network b = net
     \<and> (awaited pend = [] \<or> awaited pend = [rp_query s])
     \<and> (awaited pend = [] \<and> rp_error s = None \<longrightarrow> (\<exists>d. rp_data s = Some d \<and> answers load net (rp_query s) d))
     \<and> (\<forall>d. rp_data s = Some d \<longrightarrow> (\<exists>q. answers load net q d)))"

lemma fresh_move:
  assumes f: "fresh net (s, pend, b)" and m: "report_move load clears problem (s, pend, b) (s', pend', b')"
  shows "fresh net (s', pend', b')"
  using m
proof (cases rule: report_move_cases)
  case (change q)
  then show ?thesis
    using f by (auto simp: fresh_def report_change_def report_effect_def split: if_splits option.splits)
next
  case (answer q c r before after)
  have b': "b' = snd (load q b)" using answer by simp
  have n: "network b = net" using f by (simp add: fresh_def)
  have n': "network b' = net" unfolding b' using reads_only_network [OF load_reads, of q b] n by simp
  have a: "answers load net q d" if "r = Inr d" for d
    unfolding answers_def using answer(3) n that by (intro exI [of _ b]) simp
  show ?thesis
  proof (cases c)
    case True
    then show ?thesis using f answer n' by (auto simp: fresh_def report_accept_def split: sum.splits)
  next
    case False
    then have "awaited before = []" "awaited after = []" "q = rp_query s"
      using f answer by (auto simp: fresh_def append_eq_Cons_conv)
    then show ?thesis
      using f answer n' a False by (auto simp: fresh_def report_accept_def split: sum.splits)
  qed
qed

end

sublocale latest_wins \<subseteq> current: invariant "mounted problem net" "report_move load clears problem" "fresh net"
  for problem clears net
proof unfold_locales
  fix x x'
  show "mounted problem net x \<Longrightarrow> fresh net x"
    by (auto simp: mounted_def fresh_def report_effect_def report_init_def split: option.splits)
  show "fresh net x \<Longrightarrow> report_move load clears problem x x' \<Longrightarrow> fresh net x'"
    using fresh_move by (cases x, cases x') blast
qed

context latest_wins
begin

text \<open>When nothing is awaited and no error is shown, the data is an answer to the current query, and
  otherwise exactly the current query is awaited, whose answer can arrive.\<close>

lemma shows_current:
  assumes "reachable (mounted problem net) (report_move load clears problem) (s, pend, b)"
  shows "(awaited pend = [] \<longrightarrow> rp_error s \<noteq> None \<or> (\<exists>d. rp_data s = Some d \<and> answers load net (rp_query s) d))
    \<and> (awaited pend \<noteq> [] \<longrightarrow> awaited pend = [rp_query s])
    \<and> (\<forall>d. rp_data s = Some d \<longrightarrow> (\<exists>q. answers load net q d))"
  using current.reachable_inv [OF assms] by (auto simp: fresh_def)

lemma can_answer:
  assumes "reachable (mounted problem net) (report_move load clears problem) (s, pend, b)" "awaited pend \<noteq> []"
  shows "\<exists>s' pend' b'. report_move load clears problem (s, pend, b) (s', pend', b') \<and> awaited pend' = []
    \<and> rp_query s' = rp_query s"
proof -
  have "awaited pend = [rp_query s]" using shows_current [OF assms(1)] assms(2) by blast
  from awaited_single [OF this] obtain before after
    where p: "pend = before @ (rp_query s, False) # after" "awaited before = []" "awaited after = []" by blast
  obtain r b' where l: "load (rp_query s) b = (r, b')" by (cases "load (rp_query s) b")
  have "report_move load clears problem (s, before @ (rp_query s, False) # after, b)
      (report_accept clears False r s, before @ after, b')" using l by (rule report_move.answer [of load])
  moreover have "rp_query (report_accept clears False r s) = rp_query s"
    by (simp add: report_accept_def split: sum.split)
  ultimately show ?thesis using p by force
qed

end

end
