(* ===== verification/Dashboard.thy ===== *)
theory Dashboard
  imports Report_State Dates
begin

text \<open>
  The landing screen (\<open>web/src/components/dashboard.tsx\<close>): balances outstanding per currency, the
  documents that need attention and the counts of open work, all computed from the ordinary lists.
  Two things of the runtime are arguments: \<open>cmp\<close> is \<open>localeCompare\<close>, whose collation belongs to
  the user's locale, and \<open>by_due\<close> is the sort by due date, whose comparator never answers 0, so that
  the language leaves the order to the engine and promises a permutation. The user's clock is the
  argument of \<open>today\<close>. \<open>None\<close> is a rendering that throws.
\<close>

section \<open>What is outstanding\<close>

definition ATTENTION_ROWS :: nat where
  "ATTENTION_ROWS = 5"

definition BILL_HORIZON_DAYS :: int where
  "BILL_HORIZON_DAYS = 14"

record DashboardData =
  da_invoices :: "DocumentBalance list"
  da_bills :: "DocumentBalance list"
  da_salesOrders :: "SalesOrderSummary list"
  da_purchaseOrders :: "PurchaseOrderSummary list"
  da_customerNames :: "int \<Rightarrow> string option"
  da_supplierNames :: "int \<Rightarrow> string option"

text \<open>The test of one document: the balance is looked at only when the document is posted.\<close>

definition is_outstanding :: "DocumentBalance \<Rightarrow> bool option" where
  "is_outstanding d =
     (if db_status d = ''posted''
      then map_option (\<lambda>zero. \<not> zero \<and> \<not> startsWith (db_balance d) ''-'') (isZeroAmount (db_balance d))
      else Some False)"

fun outstanding :: "DocumentBalance list \<Rightarrow> DocumentBalance list option" where
  "outstanding [] = Some []"
| "outstanding (d # ds) = do {
     keep \<leftarrow> is_outstanding d;
     rest \<leftarrow> outstanding ds;
     Some (if keep then d # rest else rest) }"

text \<open>A Map keeps its keys in the order of their first insertion.\<close>

fun add_balance :: "string \<Rightarrow> string \<Rightarrow> (string \<times> string list) list \<Rightarrow> (string \<times> string list) list" where
  "add_balance c v [] = [(c, [v])]"
| "add_balance c v ((k, vs) # gs) = (if k = c then (k, vs @ [v]) # gs else (k, vs) # add_balance c v gs)"

definition balance_groups :: "DocumentBalance list \<Rightarrow> (string \<times> string list) list" where
  "balance_groups docs = foldl (\<lambda>gs d. add_balance (db_currency_code d) (db_balance d) gs) [] docs"

text \<open>The sort of the language is stable: the result of inserting from the right.\<close>

fun insert_by :: "(string \<Rightarrow> string \<Rightarrow> int) \<Rightarrow> string \<times> 'v \<Rightarrow> (string \<times> 'v) list \<Rightarrow> (string \<times> 'v) list" where
  "insert_by cmp x [] = [x]"
| "insert_by cmp x (y # ys) = (if cmp (fst x) (fst y) \<le> 0 then x # y # ys else y # insert_by cmp x ys)"

definition sort_by :: "(string \<Rightarrow> string \<Rightarrow> int) \<Rightarrow> (string \<times> 'v) list \<Rightarrow> (string \<times> 'v) list" where
  "sort_by cmp xs = foldr (insert_by cmp) xs []"

fun sum_groups :: "(string \<times> string list) list \<Rightarrow> (string \<times> string) list option" where
  "sum_groups [] = Some []"
| "sum_groups ((c, vs) # gs) = do {
     amount \<leftarrow> sumAmounts vs; rest \<leftarrow> sum_groups gs; Some ((c, amount) # rest) }"

definition byCurrency :: "(string \<Rightarrow> string \<Rightarrow> int) \<Rightarrow> DocumentBalance list \<Rightarrow> (string \<times> string) list option" where
  "byCurrency cmp docs = sum_groups (sort_by cmp (balance_groups docs))"

definition due_before :: "string \<Rightarrow> DocumentBalance list \<Rightarrow> DocumentBalance list" where
  "due_before day = filter (\<lambda>d. case db_due_date d of None \<Rightarrow> False | Some due \<Rightarrow> due < day)"

definition due_by :: "string \<Rightarrow> DocumentBalance list \<Rightarrow> DocumentBalance list" where
  "due_by day = filter (\<lambda>d. case db_due_date d of None \<Rightarrow> False | Some due \<Rightarrow> due \<le> day)"

section \<open>Loading\<close>

definition load_dashboard :: "unit \<Rightarrow> ('w, DashboardData) call" where
  "load_dashboard _ =
     map_io (\<lambda>(invoices, bills, salesOrders, purchaseOrders, customers, suppliers, orgs).
       \<lparr>da_invoices = invoices, da_bills = bills, da_salesOrders = salesOrders, da_purchaseOrders = purchaseOrders,
        da_customerNames = customer_names customers orgs, da_supplierNames = supplier_names suppliers orgs\<rparr>)
     (both_io listSalesInvoices (both_io listPurchaseBills (both_io listSalesOrders (both_io listPurchaseOrders
       (both_io listCustomers (both_io listSuppliers listOrganizations))))))"

definition dashboard_moves :: "(unit, DashboardData) report \<times> (unit \<times> bool) list \<times> ('w, payload, body) browser
    \<Rightarrow> (unit, DashboardData) report \<times> (unit \<times> bool) list \<times> ('w, payload, body) browser \<Rightarrow> bool" where
  "dashboard_moves = report_move load_dashboard False (\<lambda>_. None)"

section \<open>The screen\<close>

definition amount_in :: "string \<times> string \<Rightarrow> string" where
  "amount_in x = (case x of (currency, amount) \<Rightarrow> formatAmount amount @ '' '' @ currency)"

fun separated :: "string list \<Rightarrow> string" where
  "separated [] = []"
| "separated [t] = t"
| "separated (t # u # ts) = t @ '' '' @ [CHR 0xB7] @ '' '' @ separated (u # ts)"

definition StatCard :: "string \<Rightarrow> (string \<times> string) list \<Rightarrow> (string \<times> string) list \<Rightarrow> unit element list" where
  "StatCard label balances overdue =
     [Note label] @ guarded (balances = []) [Note ''0.00''] @ map (\<lambda>x. Note (amount_in x)) balances
     @ [Note (if overdue \<noteq> [] then ''Overdue: '' @ separated (map amount_in overdue) else ''Nothing overdue'')]"

definition CountCard :: "string \<Rightarrow> nat \<Rightarrow> string \<Rightarrow> unit element list" where
  "CountCard label n detail = [Note label, Note (show_nat n), Note detail]"

record attention =
  at_title :: string
  at_emptyMessage :: string
  at_partyLabel :: string
  at_basePath :: string
  at_documents :: "DocumentBalance list"
  at_partyNames :: "int \<Rightarrow> string option"
  at_reportLabel :: string
  at_reportPath :: string

definition attention_row :: "attention \<Rightarrow> DocumentBalance \<Rightarrow> string list" where
  "attention_row p doc = [db_number doc, name_or_id (at_partyNames p) (db_party_id doc),
     (case db_due_date doc of Some d \<Rightarrow> d | None \<Rightarrow> []), formatAmount (db_balance doc)]"

definition AttentionList :: "attention \<Rightarrow> unit element list" where
  "AttentionList p = (let shown = take ATTENTION_ROWS (at_documents p) in
     [Heading (at_title p), Link (at_reportLabel p) (at_reportPath p)]
     @ (if shown = [] then [Note (at_emptyMessage p)]
        else [Table [''Number'', at_partyLabel p, ''Due'', ''Balance''] (map (attention_row p) shown)]
          @ map (\<lambda>doc. Link (db_number doc) (at_basePath p @ ''/'' @ show_int (db_id doc))) shown
          @ guarded (length shown < length (at_documents p))
              [Note (''And '' @ show_nat (length (at_documents p) - length shown) @ '' more '' @ em_dash @ '' see the ''),
               Link (toLowerCase (at_reportLabel p)) (at_reportPath p)]))"

definition overdue_list :: "(int \<Rightarrow> string option) \<Rightarrow> DocumentBalance list \<Rightarrow> unit element list" where
  "overdue_list names docs = AttentionList
     \<lparr>at_title = ''Overdue invoices'', at_emptyMessage = ''Nothing overdue.'', at_partyLabel = ''Customer'',
      at_basePath = ''/invoices'', at_documents = docs, at_partyNames = names,
      at_reportLabel = ''AR aging report'', at_reportPath = ''/reports/ar-aging''\<rparr>"

definition coming_due_list :: "(int \<Rightarrow> string option) \<Rightarrow> DocumentBalance list \<Rightarrow> unit element list" where
  "coming_due_list names docs = AttentionList
     \<lparr>at_title = ''Bills due within '' @ show_int BILL_HORIZON_DAYS @ '' days'', at_emptyMessage = ''Nothing coming due.'',
      at_partyLabel = ''Supplier'', at_basePath = ''/bills'', at_documents = docs, at_partyNames = names,
      at_reportLabel = ''AP aging report'', at_reportPath = ''/reports/ap-aging''\<rparr>"

definition quick_actions :: "unit element list" where
  "quick_actions =
     [Heading ''Quick actions'', Link ''New invoice'' ''/invoices/new'',
      Link ''Record customer payment'' ''/customer-payments/new'', Link ''New bill'' ''/bills/new'',
      Link ''Pay a supplier'' ''/supplier-payments/new'', Link ''New sales order'' ''/sales-orders/new'',
      Link ''New purchase order'' ''/purchase-orders/new'']"

definition DashboardBody :: "(string \<Rightarrow> string \<Rightarrow> int) \<Rightarrow> (DocumentBalance list \<Rightarrow> DocumentBalance list) \<Rightarrow> int \<times> int \<times> int
    \<Rightarrow> DashboardData \<Rightarrow> unit element list option" where
  "DashboardBody cmp by_due clock data = do {
     let todayStr = today clock;
     billHorizon \<leftarrow> daysAfter todayStr BILL_HORIZON_DAYS;
     openInvoices \<leftarrow> outstanding (da_invoices data);
     openBills \<leftarrow> outstanding (da_bills data);
     let overdueInvoices = by_due (due_before todayStr openInvoices);
     let billsComingDue = by_due (due_by billHorizon openBills);
     let openSales = length (filter (\<lambda>o'. so_status o' = ''open'') (da_salesOrders data));
     let openPurchases = length (filter (\<lambda>o'. po_status o' = ''open'') (da_purchaseOrders data));
     let draftInvoices = length (filter (\<lambda>d. db_status d = ''draft'') (da_invoices data));
     let draftBills = length (filter (\<lambda>d. db_status d = ''draft'') (da_bills data));
     receivables \<leftarrow> byCurrency cmp openInvoices;
     receivables_overdue \<leftarrow> byCurrency cmp overdueInvoices;
     payables \<leftarrow> byCurrency cmp openBills;
     payables_overdue \<leftarrow> byCurrency cmp (due_before todayStr openBills);
     Some (StatCard ''Receivables outstanding'' receivables receivables_overdue
       @ StatCard ''Payables outstanding'' payables payables_overdue
       @ CountCard ''Open orders'' (openSales + openPurchases)
           (separated [show_nat openSales @ '' sales'', show_nat openPurchases @ '' purchase''])
       @ CountCard ''Drafts to post'' (draftInvoices + draftBills)
           (separated [show_nat draftInvoices @ '' invoices'', show_nat draftBills @ '' bills''])
       @ overdue_list (da_customerNames data) overdueInvoices
       @ coming_due_list (da_supplierNames data) billsComingDue
       @ quick_actions) }"

definition Dashboard :: "(string \<Rightarrow> string \<Rightarrow> int) \<Rightarrow> (DocumentBalance list \<Rightarrow> DocumentBalance list) \<Rightarrow> int \<times> int \<times> int
    \<Rightarrow> (unit, DashboardData) report \<Rightarrow> unit element list option" where
  "Dashboard cmp by_due clock s = do {
     body \<leftarrow> (case rp_data s of None \<Rightarrow> Some [] | Some data \<Rightarrow> DashboardBody cmp by_due clock data);
     Some ([Heading ''Home'', Note ''Outstanding balances and work in progress across the business.'']
       @ (case rp_error s of None \<Rightarrow> [] | Some e \<Rightarrow> [Alert (''Failed to load: '' @ e)])
       @ guarded (rp_error s = None \<and> rp_data s = None) [Note ''Loading...''] @ body) }"

section \<open>The balances\<close>

definition owing :: "DocumentBalance \<Rightarrow> bool" where
  "owing d \<longleftrightarrow> db_status d = ''posted'' \<and> 0 < amount_value (db_balance d)"

lemma amount_sign: "amount_value s \<noteq> 0 \<Longrightarrow> startsWith s ''-'' \<longleftrightarrow> amount_value s < 0"
  by (auto simp: amount_value_def divide_less_0_iff zero_less_divide_iff)

lemma is_outstanding_owing:
  assumes "db_status d = ''posted'' \<longrightarrow> scale4 (db_balance d)"
  shows "is_outstanding d = Some (owing d)"
proof (cases "db_status d = ''posted''")
  case True
  with assms have "isZeroAmount (db_balance d) = Some (amount_value (db_balance d) = 0)" by (simp add: am.zero_law)
  with True amount_sign [of "db_balance d"] show ?thesis by (auto simp: is_outstanding_def owing_def)
qed (simp add: is_outstanding_def owing_def)

lemma outstanding_owing:
  "\<forall>d \<in> set docs. db_status d = ''posted'' \<longrightarrow> scale4 (db_balance d) \<Longrightarrow> outstanding docs = Some (filter owing docs)"
  by (induction docs) (simp_all add: is_outstanding_owing)

lemma add_balance_keys: "fst ` set (add_balance c v gs) = insert c (fst ` set gs)"
  by (induction c v gs rule: add_balance.induct) auto

lemma add_balance_distinct: "distinct (map fst gs) \<Longrightarrow> distinct (map fst (add_balance c v gs))"
  by (induction c v gs rule: add_balance.induct) (simp_all add: add_balance_keys, blast)

lemma add_balance_lookup:
  "map_of (add_balance c v gs) k
    = (if k = c then Some ((case map_of gs c of None \<Rightarrow> [] | Some vs \<Rightarrow> vs) @ [v]) else map_of gs k)"
  by (induction c v gs rule: add_balance.induct) auto

lemma balance_groups_snoc:
  "balance_groups (docs @ [d]) = add_balance (db_currency_code d) (db_balance d) (balance_groups docs)"
  by (simp add: balance_groups_def)

lemma balance_groups_keys:
  "distinct (map fst (balance_groups docs))" "fst ` set (balance_groups docs) = db_currency_code ` set docs"
proof -
  have "distinct (map fst (balance_groups docs)) \<and> fst ` set (balance_groups docs) = db_currency_code ` set docs"
  proof (induction docs rule: rev_induct)
    case (snoc d docs)
    then show ?case by (simp add: balance_groups_snoc add_balance_keys add_balance_distinct)
  qed (simp add: balance_groups_def)
  then show "distinct (map fst (balance_groups docs))" "fst ` set (balance_groups docs) = db_currency_code ` set docs"
    by simp_all
qed

definition in_currency :: "string \<Rightarrow> DocumentBalance list \<Rightarrow> DocumentBalance list" where
  "in_currency c = filter (\<lambda>d. db_currency_code d = c)"

lemma balance_groups_lookup:
  "map_of (balance_groups docs) c = (if c \<in> db_currency_code ` set docs then Some (map db_balance (in_currency c docs)) else None)"
proof (induction docs arbitrary: c rule: rev_induct)
  case Nil
  then show ?case by (simp add: balance_groups_def)
next
  case (snoc d docs)
  let ?old = "map_of (balance_groups docs) (db_currency_code d)"
  have none: "db_currency_code d \<notin> db_currency_code ` set docs \<Longrightarrow> in_currency (db_currency_code d) docs = []"
    unfolding in_currency_def filter_empty_conv by (metis imageI)
  then have "(case ?old of None \<Rightarrow> [] | Some vs \<Rightarrow> vs) = map db_balance (in_currency (db_currency_code d) docs)"
    by (cases "db_currency_code d \<in> db_currency_code ` set docs") (simp_all add: snoc.IH [of "db_currency_code d"])
  then show ?case
    unfolding balance_groups_snoc add_balance_lookup by (simp add: snoc.IH [of c] in_currency_def)
qed

lemma balance_groups_member:
  assumes "(c, vs) \<in> set (balance_groups docs)"
  shows "vs = map db_balance (in_currency c docs)" "c \<in> db_currency_code ` set docs"
proof -
  have "map_of (balance_groups docs) c = Some vs" using assms balance_groups_keys(1) by (simp add: map_of_is_SomeI)
  then show "vs = map db_balance (in_currency c docs)" "c \<in> db_currency_code ` set docs"
    by (auto simp: balance_groups_lookup split: if_splits)
qed

lemma mset_insert_by: "mset (insert_by cmp x xs) = add_mset x (mset xs)"
  by (induction xs) auto

lemma mset_sort_by [simp]: "mset (sort_by cmp xs) = mset xs"
  unfolding sort_by_def by (induction xs) (simp_all add: mset_insert_by)

lemma set_sort_by [simp]: "set (sort_by cmp xs) = set xs"
  by (rule mset_eq_setD) simp

lemma distinct_sort_by: "distinct (map fst xs) \<Longrightarrow> distinct (map fst (sort_by cmp xs))"
  using mset_eq_imp_distinct_iff [of "map fst (sort_by cmp xs)" "map fst xs"] by simp

definition collates :: "(string \<Rightarrow> string \<Rightarrow> int) \<Rightarrow> bool" where
  "collates cmp \<longleftrightarrow> (\<forall>a b. cmp a b \<le> 0 \<or> cmp b a \<le> 0) \<and> (\<forall>a b c. cmp a b \<le> 0 \<and> cmp b c \<le> 0 \<longrightarrow> cmp a c \<le> 0)"

lemma sorted_insert_by:
  assumes "collates cmp" "sorted_wrt (\<lambda>x y. cmp (fst x) (fst y) \<le> 0) xs"
  shows "sorted_wrt (\<lambda>x y. cmp (fst x) (fst y) \<le> 0) (insert_by cmp x xs)"
proof -
  have tot: "\<not> cmp a b \<le> 0 \<Longrightarrow> cmp b a \<le> 0" and trans: "cmp a b \<le> 0 \<Longrightarrow> cmp b c \<le> 0 \<Longrightarrow> cmp a c \<le> 0" for a b c
    using assms(1) unfolding collates_def by blast+
  have elems: "set (insert_by cmp x xs) = insert x (set xs)" for xs
    using mset_insert_by [of cmp x xs] by (metis set_mset_add_mset_insert set_mset_mset)
  show ?thesis using assms(2)
  proof (induction xs)
    case (Cons y ys)
    show ?case
    proof (cases "cmp (fst x) (fst y) \<le> 0")
      case True
      with Cons.prems trans show ?thesis by auto
    next
      case False
      with Cons.prems Cons.IH tot [OF False] show ?thesis by (auto simp: elems)
    qed
  qed simp
qed

lemma sorted_sort_by: "collates cmp \<Longrightarrow> sorted_wrt (\<lambda>x y. cmp (fst x) (fst y) \<le> 0) (sort_by cmp xs)"
  unfolding sort_by_def by (induction xs) (simp_all add: sorted_insert_by)

lemma sum_groups_exact:
  assumes "\<forall>(c, vs) \<in> set gs. list_all scale4 vs"
  shows "\<exists>r. sum_groups gs = Some r
    \<and> list_all2 (\<lambda>(c, vs) (k, v). k = c \<and> amount_value v = sum_list (map amount_value vs)) gs r"
  using assms
proof (induction gs)
  case (Cons g gs)
  obtain c vs where g: "g = (c, vs)" by (cases g)
  with Cons.prems have "list_all scale4 vs" by simp
  from am.sum_law [OF this] obtain v where v: "sumAmounts vs = Some v" "amount_value v = sum_list (map amount_value vs)" by blast
  from Cons obtain r where "sum_groups gs = Some r"
    "list_all2 (\<lambda>(c, vs) (k, v). k = c \<and> amount_value v = sum_list (map amount_value vs)) gs r" by auto
  with g v show ?case by (intro exI [of _ "(c, v) # r"]) simp
qed simp

lemma groups_keys:
  "list_all2 (\<lambda>(c, vs) (k, v). k = c \<and> amount_value v = sum_list (map amount_value vs)) gs r \<Longrightarrow> map fst r = map fst gs"
  by (induction gs r rule: list_all2_induct) auto

lemma byCurrency_exact:
  assumes "\<forall>d \<in> set docs. scale4 (db_balance d)"
  shows "\<exists>gs. byCurrency cmp docs = Some gs \<and> map fst gs = map fst (sort_by cmp (balance_groups docs))
    \<and> (\<forall>(c, v) \<in> set gs. c \<in> db_currency_code ` set docs
        \<and> amount_value v = sum_list (map (amount_value \<circ> db_balance) (in_currency c docs)))"
proof -
  let ?gs = "sort_by cmp (balance_groups docs)"
  have "\<forall>(c, vs) \<in> set ?gs. list_all scale4 vs"
    using assms by (auto simp: in_currency_def list_all_iff dest!: balance_groups_member(1))
  from sum_groups_exact [OF this] obtain r where r: "sum_groups ?gs = Some r"
    "list_all2 (\<lambda>(c, vs) (k, v). k = c \<and> amount_value v = sum_list (map amount_value vs)) ?gs r" by blast
  have "map fst r = map fst ?gs"
    using r(2) by (rule groups_keys)
  moreover have "\<forall>(c, v) \<in> set r. c \<in> db_currency_code ` set docs
      \<and> amount_value v = sum_list (map (amount_value \<circ> db_balance) (in_currency c docs))"
  proof (intro ballI, clarify)
    fix c v assume "(c, v) \<in> set r"
    then obtain i where i: "i < length r" "r ! i = (c, v)" by (metis in_set_conv_nth)
    obtain k vs where k: "?gs ! i = (k, vs)" by (cases "?gs ! i")
    from list_all2_nthD2 [OF r(2) i(1)] i(2) k have kv: "c = k" "amount_value v = sum_list (map amount_value vs)" by simp_all
    have "i < length ?gs" using i(1) list_all2_lengthD [OF r(2)] by simp
    then have "(k, vs) \<in> set ?gs" using k by (metis nth_mem)
    then have "(k, vs) \<in> set (balance_groups docs)" by simp
    from balance_groups_member [OF this] kv show "c \<in> db_currency_code ` set docs
      \<and> amount_value v = sum_list (map (amount_value \<circ> db_balance) (in_currency c docs))" by simp
  qed
  ultimately show ?thesis using r(1) by (simp add: byCurrency_def)
qed

lemma owing_sum: "list_all owing docs \<Longrightarrow> docs \<noteq> [] \<Longrightarrow> 0 < sum_list (map (amount_value \<circ> db_balance) docs)"
proof (induction docs)
  case (Cons d ds)
  then have d: "0 < amount_value (db_balance d)" by (simp add: owing_def)
  show ?case
  proof (cases "ds = []")
    case False
    with Cons have "0 < sum_list (map (amount_value \<circ> db_balance) ds)" by (simp add: comp_def)
    with d show ?thesis by (simp add: comp_def)
  qed (use d in simp)
qed simp

text \<open>C33. The balances on the landing screen are exact. For posted documents whose balances have at
  most four decimals, the documents counted are those that owe something; every currency they have
  appears once, in the order of the user's collation, with the exact sum of the balances in it, which
  is positive; nothing is summed across currencies.\<close>

theorem dashboard_balances:
  assumes "\<forall>d \<in> set docs. db_status d = ''posted'' \<longrightarrow> scale4 (db_balance d)" and "collates cmp"
  shows "\<exists>os gs. outstanding docs = Some os \<and> os = filter owing docs \<and> byCurrency cmp os = Some gs
    \<and> distinct (map fst gs) \<and> set (map fst gs) = db_currency_code ` set os
    \<and> sorted_wrt (\<lambda>x y. cmp (fst x) (fst y) \<le> 0) gs
    \<and> (\<forall>(c, v) \<in> set gs. 0 < amount_value v
        \<and> amount_value v = sum_list (map (amount_value \<circ> db_balance) (in_currency c os)))"
proof -
  let ?os = "filter owing docs" and ?sorted = "sort_by cmp (balance_groups (filter owing docs))"
  have "\<forall>d \<in> set ?os. scale4 (db_balance d)" using assms(1) by (auto simp: owing_def)
  from byCurrency_exact [OF this] obtain gs where gs: "byCurrency cmp ?os = Some gs" "map fst gs = map fst ?sorted"
    "\<forall>(c, v) \<in> set gs. c \<in> db_currency_code ` set ?os
      \<and> amount_value v = sum_list (map (amount_value \<circ> db_balance) (in_currency c ?os))" by blast
  have keys: "distinct (map fst gs)" "set (map fst gs) = db_currency_code ` set ?os"
    unfolding gs(2) using balance_groups_keys [of ?os] by (simp_all add: distinct_sort_by)
  have "sorted_wrt (\<lambda>a b. cmp a b \<le> 0) (map fst gs)"
    unfolding gs(2) sorted_wrt_map by (rule sorted_sort_by [OF assms(2)])
  then have order: "sorted_wrt (\<lambda>x y. cmp (fst x) (fst y) \<le> 0) gs" by (simp add: sorted_wrt_map)
  have positive: "0 < amount_value v" if "(c, v) \<in> set gs" for c v
  proof -
    from gs(3) that have c: "c \<in> db_currency_code ` set ?os"
      and v: "amount_value v = sum_list (map (amount_value \<circ> db_balance) (in_currency c ?os))" by auto
    from c have "in_currency c ?os \<noteq> []" by (auto simp: in_currency_def filter_empty_conv)
    moreover have "list_all owing (in_currency c ?os)" by (auto simp: in_currency_def list_all_iff)
    ultimately show ?thesis unfolding v by (intro owing_sum)
  qed
  have "\<forall>(c, v) \<in> set gs. 0 < amount_value v
      \<and> amount_value v = sum_list (map (amount_value \<circ> db_balance) (in_currency c ?os))"
    using gs(3) positive by auto
  with outstanding_owing [OF assms(1)] gs(1) keys order show ?thesis by blast
qed

section \<open>What needs attention\<close>

lemma today_iso_day:
  assumes "civil_of_day t = clock" "1000 \<le> fst clock" "in_calendar t"
  shows "today clock = iso_day t"
proof -
  obtain y m d where c: "civil_of_day t = (y, m, d)" "100 \<le> y" "y \<le> 9999" "0 \<le> m" "m < 12" "1 \<le> d" "d \<le> 31"
    using assms(3) by (rule in_calendar_civil)
  have y: "1000 \<le> y" using c(1) assms(1,2) by auto
  have "show_int y = pad 4 y" 
  proof -
    have "length (show_nat (nat y)) = 4"
    proof (rule antisym)
      show "length (show_nat (nat y)) \<le> 4" using c(3) by (intro length_show_nat) auto
      show "4 \<le> length (show_nat (nat y))"
      proof (rule ccontr)
        assume "\<not> 4 \<le> length (show_nat (nat y))"
        then have "digits_val (show_nat (nat y)) < 10 ^ 3"
          using digits_val_less [OF all_digits_show_nat, of "nat y"] power_increasing [of "length (show_nat (nat y))" 3 "10::nat"] by linarith
        then show False using y by simp
      qed
    qed
    then show ?thesis using y by (simp add: pad_def padStart_def show_int_def)
  qed
  then show ?thesis
    using c assms(1) y by (simp add: today_def iso_day_def iso_date_def iso_year_def pad_def show_int_def Let_def)
qed

text \<open>The documents that owe something and are due on a day that satisfies a test.\<close>

definition owing_due :: "(int \<Rightarrow> bool) \<Rightarrow> DocumentBalance list \<Rightarrow> DocumentBalance list" where
  "owing_due P = filter (\<lambda>d. owing d \<and> (\<exists>u. in_calendar u \<and> db_due_date d = Some (iso_day u) \<and> P u))"

definition dated :: "DocumentBalance \<Rightarrow> bool" where
  "dated d \<longleftrightarrow> db_due_date d = None \<or> (\<exists>u. in_calendar u \<and> db_due_date d = Some (iso_day u))"

lemma due_filters:
  assumes "\<forall>d \<in> set docs. dated d" "in_calendar h"
  shows "due_before (iso_day h) (filter owing docs) = owing_due (\<lambda>u. u < h) docs"
    "due_by (iso_day h) (filter owing docs) = owing_due (\<lambda>u. u \<le> h) docs"
proof -
  have le: "iso_day u \<le> iso_day h \<longleftrightarrow> u \<le> h" if "in_calendar u" for u
    using iso_day_less_iff [OF assms(2) that] by (simp add: not_less [symmetric])
  have "(case db_due_date d of None \<Rightarrow> False | Some due \<Rightarrow> due < iso_day h) \<and> owing d
      \<longleftrightarrow> owing d \<and> (\<exists>u. in_calendar u \<and> db_due_date d = Some (iso_day u) \<and> u < h)"
    "(case db_due_date d of None \<Rightarrow> False | Some due \<Rightarrow> due \<le> iso_day h) \<and> owing d
      \<longleftrightarrow> owing d \<and> (\<exists>u. in_calendar u \<and> db_due_date d = Some (iso_day u) \<and> u \<le> h)" if "d \<in> set docs" for d
    using assms(1) that iso_day_less_iff [OF _ assms(2)] le unfolding dated_def by (fastforce split: option.split)+
  then show "due_before (iso_day h) (filter owing docs) = owing_due (\<lambda>u. u < h) docs"
    "due_by (iso_day h) (filter owing docs) = owing_due (\<lambda>u. u \<le> h) docs"
    unfolding due_before_def due_by_def owing_due_def filter_filter by (auto intro!: filter_cong)
qed

lemma in_permuted: "mset ys = mset xs \<Longrightarrow> d \<in> set ys \<longleftrightarrow> d \<in> set xs"
  by (metis set_mset_mset)

text \<open>What a screen shows, read back from its elements: its tables and its links.\<close>

definition tables :: "'e element list \<Rightarrow> string list list list" where
  "tables els = concat (map (\<lambda>el. case el of Table hs rs \<Rightarrow> [rs] | _ \<Rightarrow> []) els)"

definition links :: "'e element list \<Rightarrow> (string \<times> string) list" where
  "links els = concat (map (\<lambda>el. case el of Link l u \<Rightarrow> [(l, u)] | _ \<Rightarrow> []) els)"

lemma shown_append [simp]:
  "tables [] = []" "tables (xs @ ys) = tables xs @ tables ys" "links [] = []" "links (xs @ ys) = links xs @ links ys"
  by (simp_all add: tables_def links_def)

lemma shown_elements [simp]:
  "tables (Note n # els) = tables els" "links (Note n # els) = links els"
  "tables (Heading h # els) = tables els" "links (Heading h # els) = links els"
  "tables (Link l u # els) = tables els" "links (Link l u # els) = (l, u) # links els"
  "tables (Table hs rs # els) = rs # tables els" "links (Table hs rs # els) = links els"
  by (simp_all add: tables_def links_def)

lemma shown_maps [simp]:
  "tables (map (\<lambda>x. Link (f x) (g x)) xs) = []" "links (map (\<lambda>x. Link (f x) (g x)) xs) = map (\<lambda>x. (f x, g x)) xs"
  "tables (map (\<lambda>x. Note (f x)) xs) = []" "links (map (\<lambda>x. Note (f x)) xs) = []"
  by (induction xs) (simp_all add: tables_def links_def)

lemma cards_show_nothing:
  "tables (StatCard l bs os) = []" "links (StatCard l bs os) = []"
  "tables (CountCard l n d) = []" "links (CountCard l n d) = []"
  by (simp_all add: StatCard_def CountCard_def guarded_def)

text \<open>What an attention list is to show of its documents: a row for each of the first five, a link to
  each, and when there are more a second link to the report.\<close>

definition attention_rows :: "(int \<Rightarrow> string option) \<Rightarrow> DocumentBalance list \<Rightarrow> string list list" where
  "attention_rows names ds = map (\<lambda>d. [db_number d, name_or_id names (db_party_id d),
     (case db_due_date d of Some due \<Rightarrow> due | None \<Rightarrow> []), formatAmount (db_balance d)]) (take 5 ds)"

definition attention_links :: "string \<Rightarrow> string \<Rightarrow> string \<Rightarrow> string \<Rightarrow> DocumentBalance list \<Rightarrow> (string \<times> string) list" where
  "attention_links report again url base ds = [(report, url)]
     @ map (\<lambda>d. (db_number d, base @ show_int (db_id d))) (take 5 ds)
     @ (if 5 < length ds then [(again, url)] else [])"

definition and_more :: "DocumentBalance list \<Rightarrow> unit element" where
  "and_more ds = Note (''And '' @ show_nat (length ds - 5) @ '' more '' @ em_dash @ '' see the '')"

lemma overdue_list_shows:
  "tables (overdue_list names ds) = (if ds = [] then [] else [attention_rows names ds])"
  "links (overdue_list names ds)
    = attention_links ''AR aging report'' ''ar aging report'' ''/reports/ar-aging'' ''/invoices/'' ds"
  "ds = [] \<Longrightarrow> Note ''Nothing overdue.'' \<in> set (overdue_list names ds)"
  "5 < length ds \<Longrightarrow> and_more ds \<in> set (overdue_list names ds)"
proof -
  have "toLowerCase ''AR aging report'' = ''ar aging report''" by code_simp
  then show "tables (overdue_list names ds) = (if ds = [] then [] else [attention_rows names ds])"
    "links (overdue_list names ds)
      = attention_links ''AR aging report'' ''ar aging report'' ''/reports/ar-aging'' ''/invoices/'' ds"
    "ds = [] \<Longrightarrow> Note ''Nothing overdue.'' \<in> set (overdue_list names ds)"
    "5 < length ds \<Longrightarrow> and_more ds \<in> set (overdue_list names ds)"
    by (auto simp: overdue_list_def AttentionList_def Let_def ATTENTION_ROWS_def attention_rows_def attention_row_def
        attention_links_def and_more_def guarded_def)
qed

lemma coming_due_list_shows:
  "tables (coming_due_list names ds) = (if ds = [] then [] else [attention_rows names ds])"
  "links (coming_due_list names ds)
    = attention_links ''AP aging report'' ''ap aging report'' ''/reports/ap-aging'' ''/bills/'' ds"
  "ds = [] \<Longrightarrow> Note ''Nothing coming due.'' \<in> set (coming_due_list names ds)"
  "5 < length ds \<Longrightarrow> and_more ds \<in> set (coming_due_list names ds)"
proof -
  have "toLowerCase ''AP aging report'' = ''ap aging report''" by code_simp
  then show "tables (coming_due_list names ds) = (if ds = [] then [] else [attention_rows names ds])"
    "links (coming_due_list names ds)
      = attention_links ''AP aging report'' ''ap aging report'' ''/reports/ap-aging'' ''/bills/'' ds"
    "ds = [] \<Longrightarrow> Note ''Nothing coming due.'' \<in> set (coming_due_list names ds)"
    "5 < length ds \<Longrightarrow> and_more ds \<in> set (coming_due_list names ds)"
    by (auto simp: coming_due_list_def AttentionList_def Let_def ATTENTION_ROWS_def attention_rows_def attention_row_def
        attention_links_def and_more_def guarded_def)
qed

definition quick_links :: "(string \<times> string) list" where
  "quick_links = [(''New invoice'', ''/invoices/new''), (''Record customer payment'', ''/customer-payments/new''),
     (''New bill'', ''/bills/new''), (''Pay a supplier'', ''/supplier-payments/new''),
     (''New sales order'', ''/sales-orders/new''), (''New purchase order'', ''/purchase-orders/new'')]"

lemma quick_actions_show: "tables quick_actions = []" "links quick_actions = quick_links"
  by (simp_all add: quick_actions_def quick_links_def)

lemma append_4: "a @ b @ c @ d @ rest = (a @ b @ c @ d) @ rest"
  by simp

text \<open>C34. The landing screen renders for every list of documents the server can send, and its two
  attention lists are about exactly the right documents: the posted invoices that owe something and
  were due before today, and the posted bills that owe something and are due at most fourteen days
  after today, counted in calendar days across the ends of months and years; whatever order the
  engine's sort gives them, none is lost or added. The screen has a table for each list that is not
  empty, with a row (number, party, due date, balance) for each of the first five, and says so when
  one is empty or how many more there are; and its links are, in order, the report and the documents
  shown of each list, the report again when there are more than five, and the quick actions.\<close>

theorem dashboard_attention:
  assumes "\<And>ds. mset (by_due ds) = mset ds"
    and "civil_of_day t = clock" "1000 \<le> fst clock" "in_calendar t" "in_calendar (t + 14)"
    and "\<forall>d \<in> set (da_invoices data) \<union> set (da_bills data). dated d \<and> (db_status d = ''posted'' \<longrightarrow> scale4 (db_balance d))"
  shows "\<exists>cards overdue coming els. DashboardBody cmp by_due clock data = Some els
    \<and> els = cards @ overdue_list (da_customerNames data) overdue @ coming_due_list (da_supplierNames data) coming
        @ quick_actions
    \<and> mset overdue = mset (owing_due (\<lambda>u. u < t) (da_invoices data))
    \<and> mset coming = mset (owing_due (\<lambda>u. u \<le> t + 14) (da_bills data))
    \<and> tables els = (if overdue = [] then [] else [attention_rows (da_customerNames data) overdue])
        @ (if coming = [] then [] else [attention_rows (da_supplierNames data) coming])
    \<and> links els
      = attention_links ''AR aging report'' ''ar aging report'' ''/reports/ar-aging'' ''/invoices/'' overdue
        @ attention_links ''AP aging report'' ''ap aging report'' ''/reports/ap-aging'' ''/bills/'' coming
        @ quick_links
    \<and> (overdue = [] \<longrightarrow> Note ''Nothing overdue.'' \<in> set els) \<and> (coming = [] \<longrightarrow> Note ''Nothing coming due.'' \<in> set els)
    \<and> (5 < length overdue \<longrightarrow> and_more overdue \<in> set els) \<and> (5 < length coming \<longrightarrow> and_more coming \<in> set els)"
proof -
  let ?is = "da_invoices data" and ?bs = "da_bills data"
  have horizon: "daysAfter (iso_day t) BILL_HORIZON_DAYS = Some (iso_day (t + 14))"
    using daysAfter_day [OF assms(4,5)] by (simp add: BILL_HORIZON_DAYS_def)
  have dated: "\<forall>d \<in> set ?is. dated d" "\<forall>d \<in> set ?bs. dated d"
    and amounts: "\<forall>d \<in> set ?is. db_status d = ''posted'' \<longrightarrow> scale4 (db_balance d)"
      "\<forall>d \<in> set ?bs. db_status d = ''posted'' \<longrightarrow> scale4 (db_balance d)"
    using assms(6) by auto
  note due = due_filters(1) [OF dated(1) assms(4)] due_filters(1) [OF dated(2) assms(4)] due_filters(2) [OF dated(2) assms(5)]
  have scaled: "\<forall>d \<in> set (filter owing ?is). scale4 (db_balance d)" "\<forall>d \<in> set (filter owing ?bs). scale4 (db_balance d)"
    "\<forall>d \<in> set (by_due (owing_due (\<lambda>u. u < t) ?is)). scale4 (db_balance d)"
    "\<forall>d \<in> set (owing_due (\<lambda>u. u < t) ?bs). scale4 (db_balance d)"
    using amounts by (auto simp: owing_def owing_due_def in_permuted [OF assms(1)])
  obtain g1 g2 g3 g4 where g: "byCurrency cmp (filter owing ?is) = Some g1" "byCurrency cmp (filter owing ?bs) = Some g2"
    "byCurrency cmp (by_due (owing_due (\<lambda>u. u < t) ?is)) = Some g3" "byCurrency cmp (owing_due (\<lambda>u. u < t) ?bs) = Some g4"
    using scaled [THEN byCurrency_exact [of _ cmp]] by blast
  note parts = today_iso_day [OF assms(2-4)] horizon outstanding_owing [OF amounts(1)] outstanding_owing [OF amounts(2)] due g
  let ?overdue = "by_due (owing_due (\<lambda>u. u < t) ?is)" and ?coming = "by_due (owing_due (\<lambda>u. u \<le> t + 14) ?bs)"
  have "\<exists>cards. tables cards = [] \<and> links cards = [] \<and> DashboardBody cmp by_due clock data
      = Some (cards @ overdue_list (da_customerNames data) ?overdue @ coming_due_list (da_supplierNames data) ?coming
          @ quick_actions)"
    unfolding DashboardBody_def Let_def parts Option.bind.bind_lunit option.inject
    by (intro exI conjI, rule_tac [3] append_4) (simp_all add: cards_show_nothing)
  then obtain cards where cards: "tables cards = []" "links cards = []"
    "DashboardBody cmp by_due clock data
      = Some (cards @ overdue_list (da_customerNames data) ?overdue @ coming_due_list (da_supplierNames data) ?coming
          @ quick_actions)" by blast
  show ?thesis
    by (rule exI [of _ cards], rule exI [of _ ?overdue], rule exI [of _ ?coming])
      (simp add: cards assms(1) overdue_list_shows coming_due_list_shows quick_actions_show)
qed

section \<open>Examples\<close>

definition balance_of :: "string \<Rightarrow> string \<Rightarrow> string \<Rightarrow> string option \<Rightarrow> DocumentBalance" where
  "balance_of st cur v due = \<lparr>db_id = 7, db_number = ''INV-7'', db_party_id = 3, db_currency_code = cur, db_date = ''2024-02-01'',
     db_due_date = due, db_status = st, db_total = v, db_amount_applied = ''0'', db_balance = v, db_payment_status = ''unpaid'',
     db_journal_entry_id = None, db_reference = None, db_memo = None\<rparr>"

definition by_code :: "string \<Rightarrow> string \<Rightarrow> int" where
  "by_code a b = (if a < b then - 1 else if a = b then 0 else 1)"

lemma collates_by_code: "collates by_code"
  by (auto simp: collates_def by_code_def split: if_splits)

theorem dashboard_balances_witness:
  "\<exists>os gs. outstanding [balance_of ''posted'' ''USD'' ''2'' None, balance_of ''posted'' ''EUR'' ''5'' None,
      balance_of ''draft'' ''GBP'' ''1'' None, balance_of ''posted'' ''EUR'' ''3'' None] = Some os
    \<and> byCurrency by_code os = Some gs \<and> distinct (map fst gs) \<and> set (map fst gs) = {''USD'', ''EUR''}
    \<and> sorted_wrt (\<lambda>x y. by_code (fst x) (fst y) \<le> 0) gs"
proof -
  let ?docs = "[balance_of ''posted'' ''USD'' ''2'' None, balance_of ''posted'' ''EUR'' ''5'' None,
      balance_of ''draft'' ''GBP'' ''1'' None, balance_of ''posted'' ''EUR'' ''3'' None]"
  have "\<forall>d \<in> set ?docs. db_status d = ''posted'' \<longrightarrow> scale4 (db_balance d)" by code_simp
  from dashboard_balances [OF this collates_by_code] obtain os gs where os: "outstanding ?docs = Some os"
    "os = filter owing ?docs" "byCurrency by_code os = Some gs" "distinct (map fst gs)"
    "set (map fst gs) = db_currency_code ` set os" "sorted_wrt (\<lambda>x y. by_code (fst x) (fst y) \<le> 0) gs" by blast
  have "map db_currency_code (filter owing ?docs) = [''USD'', ''EUR'', ''EUR'']" by code_simp
  then have "db_currency_code ` set os = {''USD'', ''EUR''}"
    using os(2) by (metis list.set(1,2) set_map insert_absorb2)
  with os show ?thesis by (intro exI [of _ os] exI [of _ gs]) simp
qed

theorem dashboard_attention_witness:
  "\<exists>els overdue coming. DashboardBody by_code (\<lambda>ds. ds) (2024, 1, 28)
      \<lparr>da_invoices = [balance_of ''posted'' ''EUR'' ''5'' (Some ''2024-02-27'')],
       da_bills = [balance_of ''posted'' ''EUR'' ''3'' (Some ''2024-03-13'')], da_salesOrders = [], da_purchaseOrders = [],
       da_customerNames = (\<lambda>_. None), da_supplierNames = (\<lambda>_. None)\<rparr>
      = Some els
    \<and> links els = attention_links ''AR aging report'' ''ar aging report'' ''/reports/ar-aging'' ''/invoices/'' overdue
        @ attention_links ''AP aging report'' ''ap aging report'' ''/reports/ap-aging'' ''/bills/'' coming @ quick_links
    \<and> mset overdue = {#balance_of ''posted'' ''EUR'' ''5'' (Some ''2024-02-27'')#}
    \<and> mset coming = {#balance_of ''posted'' ''EUR'' ''3'' (Some ''2024-03-13'')#}"
proof -
  let ?i = "balance_of ''posted'' ''EUR'' ''5'' (Some ''2024-02-27'')"
    and ?b = "balance_of ''posted'' ''EUR'' ''3'' (Some ''2024-03-13'')"
  let ?data = "\<lparr>da_invoices = [?i], da_bills = [?b], da_salesOrders = [], da_purchaseOrders = [],
       da_customerNames = (\<lambda>_. None), da_supplierNames = (\<lambda>_. None)\<rparr>"
  have days: "in_calendar 19780" "in_calendar 19781" "in_calendar 19795" "iso_day 19780 = ''2024-02-27''"
    "iso_day 19795 = ''2024-03-13''" "civil_of_day 19781 = (2024, 1, 28)" by code_simp+
  have owes: "owing ?i" "owing ?b" "scale4 (db_balance ?i)" "scale4 (db_balance ?b)" by code_simp+
  have due: "db_due_date ?i = Some (iso_day 19780)" "db_due_date ?b = Some (iso_day 19795)"
    by (simp_all add: balance_of_def days)
  have dated: "dated ?i" "dated ?b" unfolding dated_def due using days by blast+
  have lists: "owing_due (\<lambda>u. u < 19781) [?i] = [?i]" "owing_due (\<lambda>u. u \<le> 19781 + 14) [?b] = [?b]"
  proof -
    have "\<exists>u. in_calendar u \<and> db_due_date ?i = Some (iso_day u) \<and> u < 19781"
      by (intro exI [of _ 19780] conjI days due) simp
    moreover have "\<exists>u. in_calendar u \<and> db_due_date ?b = Some (iso_day u) \<and> u \<le> 19781 + 14"
      by (intro exI [of _ 19795] conjI days due) simp
    ultimately show "owing_due (\<lambda>u. u < 19781) [?i] = [?i]" "owing_due (\<lambda>u. u \<le> 19781 + 14) [?b] = [?b]"
      using owes by (simp_all add: owing_due_def)
  qed
  have t: "in_calendar (19781 + 14)" "1000 \<le> fst (2024 :: int, 1 :: int, 28 :: int)" using days by simp_all
  have docs: "\<forall>d \<in> set (da_invoices ?data) \<union> set (da_bills ?data). dated d \<and> (db_status d = ''posted'' \<longrightarrow> scale4 (db_balance d))"
    using owes dated by simp
  from dashboard_attention [of "\<lambda>ds. ds" _ _ _ by_code, OF refl days(6) t(2) days(2) t(1) docs]
  show ?thesis
  proof (elim exE conjE)
    fix cards overdue coming els
    assume r: "DashboardBody by_code (\<lambda>ds. ds) (2024, 1, 28) ?data = Some els"
      "mset overdue = mset (owing_due (\<lambda>u. u < 19781) (da_invoices ?data))"
      "mset coming = mset (owing_due (\<lambda>u. u \<le> 19781 + 14) (da_bills ?data))"
      "links els = attention_links ''AR aging report'' ''ar aging report'' ''/reports/ar-aging'' ''/invoices/'' overdue
        @ attention_links ''AP aging report'' ''ap aging report'' ''/reports/ap-aging'' ''/bills/'' coming @ quick_links"
    have "mset overdue = {#?i#}" "mset coming = {#?b#}" using r(2,3) by (simp_all only: DashboardData.simps lists mset.simps)
    with r(1,4) show ?thesis by blast
  qed
qed

section \<open>The lists it shows are those of one load\<close>

interpretation home: latest_wins "load_dashboard :: unit \<Rightarrow> ('w, DashboardData) call"
  by unfold_locales (simp add: load_dashboard_def listSalesInvoices_def listPurchaseBills_def listSalesOrders_def
      listPurchaseOrders_def listCustomers_def listSuppliers_def listOrganizations_def reading)

lemma dashboard_shows_load:
  assumes "reachable (mounted (\<lambda>_. None) net) dashboard_moves (s, pend, b)" "awaited pend = []" "rp_error s = None"
  shows "\<exists>data. rp_data s = Some data \<and> answers load_dashboard net () data"
  using home.shows_current [OF assms(1) [unfolded dashboard_moves_def]] assms(2,3) by auto

end
