(* ===== verification/Reports.thy ===== *)
theory Reports
  imports Report_State
begin

text \<open>
  The ledger reports: profit and loss (\<open>web/src/components/profit-and-loss.tsx\<close>), balance sheet
  (\<open>balance-sheet.tsx\<close>), cash flow (\<open>cash-flow.tsx\<close>), one account's ledger (\<open>account-ledger.tsx\<close>),
  trial balance (\<open>trial-balance.tsx\<close>), aging (\<open>aging-report.tsx\<close>), inventory valuation
  (\<open>inventory-valuation.tsx\<close>) and a journal entry (\<open>journal-entry.tsx\<close>). Each is a report in the sense
  of \<open>Report_State\<close>; its rendering computes totals, and \<open>None\<close> is a rendering that throws because
  an amount of the answer is no number.
\<close>

datatype range_event = Type_From string | Type_To string

fun no_problem :: "'q \<Rightarrow> string option" where
  "no_problem q = None"

definition status_view :: "string \<Rightarrow> ('q, 'd) report \<Rightarrow> 'e element list" where
  "status_view what s =
     (case rp_error s of None \<Rightarrow> [] | Some e \<Rightarrow> [Alert (''Failed to load '' @ what @ '': '' @ e)])
     @ guarded (rp_error s = None \<and> rp_data s = None) [Note ''Loading...'']"

definition range_fields :: "string \<times> string \<Rightarrow> range_event element list" where
  "range_fields q = [Field ''from'' ''From'' False (fst q) Type_From, Field ''to'' ''To'' False (snd q) Type_To]"

fun range_query :: "range_event \<Rightarrow> string \<times> string \<Rightarrow> string \<times> string" where
  "range_query (Type_From v) (f, t) = (v, t)"
| "range_query (Type_To v) (f, t) = (f, v)"

definition activity_cells :: "AccountActivityRow \<Rightarrow> string list" where
  "activity_cells r = [aa_code r, aa_name r, formatAmount (aa_amount r)]"

definition of_type :: "string \<Rightarrow> AccountActivityRow list \<Rightarrow> AccountActivityRow list" where
  "of_type ty = filter (\<lambda>r. aa_account_type r = ty)"

section \<open>Profit and loss\<close>

record pl_totals =
  pl_revenue :: string
  pl_expenses :: string
  pl_net_income :: string

definition profit_totals :: "AccountActivityRow list \<Rightarrow> pl_totals option" where
  "profit_totals rws = do {
     revenue \<leftarrow> sumAmounts (map aa_amount (of_type ''revenue'' rws));
     expenses \<leftarrow> sumAmounts (map aa_amount (of_type ''expense'' rws));
     minus_expenses \<leftarrow> negateAmount expenses;
     net \<leftarrow> sumAmounts [revenue, minus_expenses];
     Some \<lparr>pl_revenue = revenue, pl_expenses = expenses, pl_net_income = net\<rparr> }"

definition pl_section :: "string \<Rightarrow> AccountActivityRow list \<Rightarrow> string \<Rightarrow> 'e element list" where
  "pl_section title rws tot =
     (if rws = [] then []
      else [Heading title, Table [''Code'', ''Account'', ''Amount''] (map activity_cells rws),
            Datum (''Total '' @ toLowerCase title) (formatAmount tot)])"

definition ProfitAndLoss :: "(string \<times> string, AccountActivityRow list) report \<Rightarrow> range_event element list option" where
  "ProfitAndLoss s = do {
     let rws = (case rp_data s of None \<Rightarrow> [] | Some rws \<Rightarrow> rws);
     t \<leftarrow> profit_totals rws;
     Some ([Heading ''Profit & Loss'',
        Note ''Posted revenue and expenses over a date range; leave a bound blank for all time.'']
       @ range_fields (rp_query s) @ status_view ''the profit & loss'' s
       @ (case rp_data s of
            None \<Rightarrow> []
          | Some [] \<Rightarrow> [Note ''No posted revenue or expenses in this range.'']
          | Some rws \<Rightarrow> pl_section ''Revenue'' (of_type ''revenue'' rws) (pl_revenue t)
              @ pl_section ''Expenses'' (of_type ''expense'' rws) (pl_expenses t)
              @ [Datum ''Net Income'' (formatAmount (pl_net_income t))])) }"

definition load_profit :: "string \<times> string \<Rightarrow> ('w, AccountActivityRow list) call" where
  "load_profit q = getProfitAndLoss (fst q) (snd q)"

definition profit_moves :: "(string \<times> string, AccountActivityRow list) report \<times> ((string \<times> string) \<times> bool) list \<times> ('w, payload, body) browser
    \<Rightarrow> (string \<times> string, AccountActivityRow list) report \<times> ((string \<times> string) \<times> bool) list \<times> ('w, payload, body) browser \<Rightarrow> bool" where
  "profit_moves = report_move load_profit True no_problem"

section \<open>Balance sheet\<close>

record bs_totals =
  bt_assets :: string
  bt_liabilities :: string
  bt_equity :: string
  bt_footer :: string

text \<open>Before the sheet has loaded its rows are empty and its earnings zero; the footer is only
  computed for a sheet that is shown.\<close>

definition sheet_totals :: "BalanceSheet \<Rightarrow> bs_totals option" where
  "sheet_totals sheet = do {
     assets \<leftarrow> sumAmounts (map aa_amount (of_type ''asset'' (bs_rows sheet)));
     liabilities \<leftarrow> sumAmounts (map aa_amount (of_type ''liability'' (bs_rows sheet)));
     equity \<leftarrow> sumAmounts (map aa_amount (of_type ''equity'' (bs_rows sheet)) @ [bs_current_earnings sheet]);
     footer \<leftarrow> sumAmounts [liabilities, equity];
     Some \<lparr>bt_assets = assets, bt_liabilities = liabilities, bt_equity = equity, bt_footer = footer\<rparr> }"

definition bs_section :: "string \<Rightarrow> AccountActivityRow list \<Rightarrow> string \<Rightarrow> (string \<times> string) option \<Rightarrow> 'e element list" where
  "bs_section title rws tot extraRow =
     (if rws = [] \<and> extraRow = None then []
      else [Heading title, Table [''Code'', ''Account'', ''Amount'']
              (map activity_cells rws
               @ (case extraRow of None \<Rightarrow> [] | Some (label, amount) \<Rightarrow> [[[], label, formatAmount amount]])),
            Datum (''Total '' @ toLowerCase title) (formatAmount tot)])"

definition BalanceSheetReport :: "(string, BalanceSheet) report \<Rightarrow> string element list option" where
  "BalanceSheetReport s = do {
     t \<leftarrow> sheet_totals (case rp_data s of None \<Rightarrow> \<lparr>bs_rows = [], bs_current_earnings = ''0''\<rparr> | Some sheet \<Rightarrow> sheet);
     Some ([Heading ''Balance Sheet'',
        Note ''Assets, liabilities, and equity from posted entries; leave the date blank for all time.'',
        Field ''as_of'' ''As of'' False (rp_query s) (\<lambda>v. v)]
       @ status_view ''the balance sheet'' s
       @ (case rp_data s of
            None \<Rightarrow> []
          | Some sheet \<Rightarrow>
              if bs_rows sheet = [] then [Note ''Nothing posted on or before this date.'']
              else bs_section ''Assets'' (of_type ''asset'' (bs_rows sheet)) (bt_assets t) None
                @ bs_section ''Liabilities'' (of_type ''liability'' (bs_rows sheet)) (bt_liabilities t) None
                @ bs_section ''Equity'' (of_type ''equity'' (bs_rows sheet)) (bt_equity t)
                    (Some (''Current earnings'', bs_current_earnings sheet))
                @ [Datum ''Liabilities + Equity'' (formatAmount (bt_footer t))])) }"

definition sheet_moves :: "(string, BalanceSheet) report \<times> (string \<times> bool) list \<times> ('w, payload, body) browser
    \<Rightarrow> (string, BalanceSheet) report \<times> (string \<times> bool) list \<times> ('w, payload, body) browser \<Rightarrow> bool" where
  "sheet_moves = report_move getBalanceSheet True no_problem"

section \<open>Cash flow\<close>

definition of_activity :: "string \<Rightarrow> CashFlowRow list \<Rightarrow> CashFlowRow list" where
  "of_activity a = filter (\<lambda>r. cfr_activity r = a)"

record cf_totals =
  ct_operating :: string
  ct_investing :: string
  ct_financing :: string

definition cash_totals :: "string \<Rightarrow> CashFlowRow list \<Rightarrow> cf_totals option" where
  "cash_totals net_income rws = do {
     operating \<leftarrow> sumAmounts (net_income # map cfr_amount (of_activity ''operating'' rws));
     investing \<leftarrow> sumAmounts (map cfr_amount (of_activity ''investing'' rws));
     financing \<leftarrow> sumAmounts (map cfr_amount (of_activity ''financing'' rws));
     Some \<lparr>ct_operating = operating, ct_investing = investing, ct_financing = financing\<rparr> }"

definition cf_section :: "string \<Rightarrow> CashFlowRow list \<Rightarrow> string \<Rightarrow> (string \<times> string) option \<Rightarrow> 'e element list" where
  "cf_section title rws tot leadRow =
     (if rws = [] \<and> leadRow = None then []
      else [Heading title, Table [''Code'', ''Account'', ''Amount'']
              ((case leadRow of None \<Rightarrow> [] | Some (label, amount) \<Rightarrow> [[[], label, formatAmount amount]])
               @ map (\<lambda>r. [cfr_code r, cfr_name r, formatAmount (cfr_amount r)]) rws),
            Datum (''Net cash from '' @ toLowerCase title) (formatAmount tot)])"

text \<open>Nothing to show: no rows, and no income or flow, which are looked at only then.\<close>

definition empty_flow :: "CashFlow \<Rightarrow> bool option" where
  "empty_flow cf =
     (if cf_rows cf \<noteq> [] then Some False
      else do {
        no_income \<leftarrow> isZeroAmount (cf_net_income cf);
        if no_income then isZeroAmount (cf_net_cash_flow cf) else Some False })"

definition CashFlowStatement :: "(string \<times> string, CashFlow) report \<Rightarrow> range_event element list option" where
  "CashFlowStatement s = do {
     t \<leftarrow> (case rp_data s of None \<Rightarrow> cash_totals ''0'' [] | Some cf \<Rightarrow> cash_totals (cf_net_income cf) (cf_rows cf));
     empty \<leftarrow> (case rp_data s of None \<Rightarrow> Some False | Some cf \<Rightarrow> empty_flow cf);
     Some ([Heading ''Cash Flow'',
        Note ''Sources and uses of cash over a date range (indirect method); leave a bound blank for all time.'']
       @ range_fields (rp_query s) @ status_view ''the cash flow'' s
       @ guarded empty [Note ''No posted activity in this range.'']
       @ (case rp_data s of
            None \<Rightarrow> []
          | Some cf \<Rightarrow> guarded (\<not> empty)
              (cf_section ''Operating activities'' (of_activity ''operating'' (cf_rows cf)) (ct_operating t)
                 (Some (''Net income'', cf_net_income cf))
               @ cf_section ''Investing activities'' (of_activity ''investing'' (cf_rows cf)) (ct_investing t) None
               @ cf_section ''Financing activities'' (of_activity ''financing'' (cf_rows cf)) (ct_financing t) None
               @ [Datum ''Net change in cash'' (formatAmount (cf_net_cash_flow cf)),
                  Datum ''Cash at start of range'' (formatAmount (cf_opening_cash cf)),
                  Datum ''Cash at end of range'' (formatAmount (cf_closing_cash cf))]))) }"

definition load_cash_flow :: "string \<times> string \<Rightarrow> ('w, CashFlow) call" where
  "load_cash_flow q = getCashFlow (fst q) (snd q)"

definition flow_moves :: "(string \<times> string, CashFlow) report \<times> ((string \<times> string) \<times> bool) list \<times> ('w, payload, body) browser
    \<Rightarrow> (string \<times> string, CashFlow) report \<times> ((string \<times> string) \<times> bool) list \<times> ('w, payload, body) browser \<Rightarrow> bool" where
  "flow_moves = report_move load_cash_flow True no_problem"

section \<open>One account's ledger\<close>

type_synonym ledger_query = "string \<times> string \<times> string"

definition load_ledger :: "ledger_query \<Rightarrow> ('w, Account \<times> LedgerRow list) call" where
  "load_ledger q = (case q of (route, from, to) \<Rightarrow>
     both_io (getAccount (id_of route)) (getAccountLedger (id_of route) from to))"

definition ledger_problem :: "ledger_query \<Rightarrow> string option" where
  "ledger_problem q = (if invalid_id (fst q) then Some ''Invalid account id.'' else None)"

fun running_balances :: "string \<Rightarrow> LedgerRow list \<Rightarrow> string list option" where
  "running_balances running [] = Some []"
| "running_balances running (r # rs) = do {
     minus_credit \<leftarrow> negateAmount (lr_base_credit r);
     running' \<leftarrow> sumAmounts [running, lr_base_debit r, minus_credit];
     bs \<leftarrow> running_balances running' rs;
     Some (running' # bs) }"

definition hasFx :: "LedgerRow list \<Rightarrow> bool" where
  "hasFx rws \<longleftrightarrow> list_ex (\<lambda>r. lr_debit r \<noteq> lr_base_debit r \<or> lr_credit r \<noteq> lr_base_credit r) rws"

definition ledger_cells :: "bool \<Rightarrow> LedgerRow \<Rightarrow> string \<Rightarrow> string list" where
  "ledger_cells fx r balance =
     [lr_entry_date r, ''#'' @ show_int (lr_journal_entry_id r),
      (case lr_memo r of Some m \<Rightarrow> m | None \<Rightarrow> (case lr_reference r of Some x \<Rightarrow> x | None \<Rightarrow> em_dash))]
     @ guarded fx [lr_currency_code r]
     @ [formatAmount (lr_debit r), formatAmount (lr_credit r)]
     @ guarded fx [formatAmount (lr_base_debit r), formatAmount (lr_base_credit r)]
     @ [formatAmount balance]"

definition ledger_footer :: "LedgerRow list \<Rightarrow> string list \<Rightarrow> string list option" where
  "ledger_footer rws balances = do {
     debit \<leftarrow> sumAmounts (map (if hasFx rws then lr_base_debit else lr_debit) rws);
     credit \<leftarrow> sumAmounts (map (if hasFx rws then lr_base_credit else lr_credit) rws);
     Some [(if hasFx rws then ''Total (base)'' else ''Total''), formatAmount debit, formatAmount credit,
       formatAmount (last balances)] }"

definition ledger_table :: "LedgerRow list \<Rightarrow> string list \<Rightarrow> range_event element list option" where
  "ledger_table rws balances = do {
     footer \<leftarrow> ledger_footer rws balances;
     Some ([Table ([''Date'', ''Entry'', ''Memo''] @ guarded (hasFx rws) [''Cur''] @ [''Debit'', ''Credit'']
          @ guarded (hasFx rws) [''Base Dr'', ''Base Cr''] @ [''Balance''])
        (map (\<lambda>(r, v). ledger_cells (hasFx rws) r v) (zip rws balances) @ [footer])]
       @ map (\<lambda>r. Link (''#'' @ show_int (lr_journal_entry_id r))
           (''/journal-entries/'' @ show_int (lr_journal_entry_id r))) rws) }"

definition AccountLedger :: "(ledger_query, Account \<times> LedgerRow list) report \<Rightarrow> range_event element list option" where
  "AccountLedger s = do {
     balances \<leftarrow> (case rp_data s of None \<Rightarrow> Some [] | Some (a, rws) \<Rightarrow> running_balances ''0.0000'' rws);
     table \<leftarrow> (case rp_data s of
         None \<Rightarrow> Some []
       | Some (a, rws) \<Rightarrow> if rws = [] then Some [Note ''No posted activity in this range.''] else ledger_table rws balances);
     Some ((case rp_data s of
          None \<Rightarrow> [Heading ''Account Ledger'']
        | Some (a, _) \<Rightarrow> [Heading (acc_code a @ '' '' @ em_dash @ '' '' @ acc_name a), Datum ''type'' (acc_account_type a)])
       @ [Note ''Posted journal lines, oldest first, with a running debit-positive balance.'',
          Link ''Back to trial balance'' ''/reports/trial-balance'']
       @ range_fields (snd (rp_query s)) @ status_view ''the ledger'' s @ table) }"

definition ledger_moves :: "(ledger_query, Account \<times> LedgerRow list) report \<times> (ledger_query \<times> bool) list \<times> ('w, payload, body) browser
    \<Rightarrow> (ledger_query, Account \<times> LedgerRow list) report \<times> (ledger_query \<times> bool) list \<times> ('w, payload, body) browser \<Rightarrow> bool" where
  "ledger_moves = report_move load_ledger True ledger_problem"

section \<open>Trial balance, aging, valuation\<close>

definition TrialBalance :: "(unit, TrialBalanceRow list) report \<Rightarrow> unit element list option" where
  "TrialBalance s = do {
     table \<leftarrow> (case rp_data s of
         None \<Rightarrow> Some []
       | Some [] \<Rightarrow> Some [Note ''Nothing has been posted yet.'']
       | Some rws \<Rightarrow> do {
           debit \<leftarrow> sumAmounts (map tb_total_debit rws);
           credit \<leftarrow> sumAmounts (map tb_total_credit rws);
           balance \<leftarrow> sumAmounts (map tb_balance rws);
           Some ([Table [''Code'', ''Account'', ''Type'', ''Debit'', ''Credit'', ''Balance'']
             (map (\<lambda>r. [tb_code r, tb_name r, tb_account_type r, formatAmount (tb_total_debit r),
                formatAmount (tb_total_credit r), formatAmount (tb_balance r)]) rws
              @ [[''Total'', formatAmount debit, formatAmount credit, formatAmount balance]])]
             @ map (\<lambda>r. Link (tb_name r) (''/accounts/'' @ show_int (tb_account_id r) @ ''/ledger'')) rws) });
     Some ([Heading ''Trial Balance'', Note ''Posted debit and credit totals per account, ordered by code.'']
       @ status_view ''the trial balance'' s @ table) }"

definition trial_moves :: "(unit, TrialBalanceRow list) report \<times> (unit \<times> bool) list \<times> ('w, payload, body) browser
    \<Rightarrow> (unit, TrialBalanceRow list) report \<times> (unit \<times> bool) list \<times> ('w, payload, body) browser \<Rightarrow> bool" where
  "trial_moves = report_move (\<lambda>_. getTrialBalance) False no_problem"

record 'w aging_props =
  agp_title :: string
  agp_description :: string
  agp_partyLabel :: string
  agp_emptyMessage :: string
  agp_fetchRows :: "('w, AgingRow list) call"

definition ARAging :: "'w aging_props" where
  "ARAging = \<lparr>agp_title = ''AR Aging'', agp_description = ''Outstanding customer balances bucketed by days overdue.'',
     agp_partyLabel = ''Customer'', agp_emptyMessage = ''No outstanding invoices.'', agp_fetchRows = getARAging\<rparr>"

definition APAging :: "'w aging_props" where
  "APAging = \<lparr>agp_title = ''AP Aging'', agp_description = ''Outstanding supplier balances bucketed by days overdue.'',
     agp_partyLabel = ''Supplier'', agp_emptyMessage = ''No outstanding bills.'', agp_fetchRows = getAPAging\<rparr>"

text \<open>The dash of a range, written in ASCII.\<close>

definition en_dash :: string where
  "en_dash = ''-''"

definition buckets :: "(string \<times> (AgingRow \<Rightarrow> string)) list" where
  "buckets = [(''Current'', ag_not_yet_due), (''1'' @ en_dash @ ''30'', ag_days_1_30), (''31'' @ en_dash @ ''60'', ag_days_31_60),
     (''61'' @ en_dash @ ''90'', ag_days_61_90), (''Over 90'', ag_days_over_90), (''Total'', ag_total_outstanding)]"

text \<open>\<open>buckets.map((b) => sumAmounts(rows.map(b.value)))\<close>, which throws when one of them does.\<close>

fun bucket_totals :: "(string \<times> (AgingRow \<Rightarrow> string)) list \<Rightarrow> AgingRow list \<Rightarrow> string list option" where
  "bucket_totals [] rws = Some []"
| "bucket_totals ((label, v) # bs) rws = do {
     t \<leftarrow> sumAmounts (map v rws); ts \<leftarrow> bucket_totals bs rws; Some (t # ts) }"

definition AgingReport :: "'w aging_props \<Rightarrow> (unit, AgingRow list) report \<Rightarrow> unit element list option" where
  "AgingReport p s = do {
     table \<leftarrow> (case rp_data s of
         None \<Rightarrow> Some []
       | Some [] \<Rightarrow> Some [Note (agp_emptyMessage p)]
       | Some rws \<Rightarrow> do {
           totals \<leftarrow> bucket_totals buckets rws;
           Some [Table (agp_partyLabel p # map fst buckets)
             (map (\<lambda>r. ag_party_name r # map (\<lambda>(label, v). formatAmount (v r)) buckets) rws
              @ [''Total'' # map formatAmount totals])] });
     Some ([Heading (agp_title p), Note (agp_description p)] @ status_view ''the report'' s @ table) }"

definition aging_moves :: "'w aging_props \<Rightarrow> (unit, AgingRow list) report \<times> (unit \<times> bool) list \<times> ('w, payload, body) browser
    \<Rightarrow> (unit, AgingRow list) report \<times> (unit \<times> bool) list \<times> ('w, payload, body) browser \<Rightarrow> bool" where
  "aging_moves p = report_move (\<lambda>_. agp_fetchRows p) False no_problem"

definition InventoryValuation :: "(unit, StockValuationRow list) report \<Rightarrow> unit element list option" where
  "InventoryValuation s = do {
     table \<leftarrow> (case rp_data s of
         None \<Rightarrow> Some []
       | Some [] \<Rightarrow> Some [Note ''No stock on hand.'']
       | Some rws \<Rightarrow> do {
           tot \<leftarrow> sumAmounts (map sv_value_on_hand rws);
           Some [Table [''SKU'', ''Product'', ''Qty on hand'', ''Avg unit cost'', ''Value on hand'']
             (map (\<lambda>r. [sv_sku r, sv_name r, formatAmount (sv_qty_on_hand r), formatAmount (sv_avg_unit_cost r),
                formatAmount (sv_value_on_hand r)]) rws
              @ [[''Total'', formatAmount tot]])] });
     Some ([Heading ''Inventory Valuation'', Note ''Quantity and value on hand per tracked product, across warehouses.'']
       @ status_view ''the valuation'' s @ table) }"

definition valuation_moves :: "(unit, StockValuationRow list) report \<times> (unit \<times> bool) list \<times> ('w, payload, body) browser
    \<Rightarrow> (unit, StockValuationRow list) report \<times> (unit \<times> bool) list \<times> ('w, payload, body) browser \<Rightarrow> bool" where
  "valuation_moves = report_move (\<lambda>_. getInventoryValuation) False no_problem"

section \<open>A journal entry\<close>

definition load_entry :: "string \<Rightarrow> ('w, JournalEntry) call" where
  "load_entry route = getJournalEntry (id_of route)"

definition entry_problem :: "string \<Rightarrow> string option" where
  "entry_problem route = (if invalid_id route then Some ''Invalid journal entry id.'' else None)"

definition entry_moves :: "(string, JournalEntry) report \<times> (string \<times> bool) list \<times> ('w, payload, body) browser
    \<Rightarrow> (string, JournalEntry) report \<times> (string \<times> bool) list \<times> ('w, payload, body) browser \<Rightarrow> bool" where
  "entry_moves = report_move load_entry False entry_problem"

definition foreign :: "JournalEntry \<Rightarrow> bool" where
  "foreign e \<longleftrightarrow> list_ex (\<lambda>l. jl_debit l \<noteq> jl_base_debit l \<or> jl_credit l \<noteq> jl_base_credit l) (je_lines e)"

definition entry_cells :: "bool \<Rightarrow> JournalEntryLine \<Rightarrow> string list" where
  "entry_cells fx l =
     [show_int (jl_line_no l), jl_account_code l, jl_account_name l,
      (case jl_memo l of Some m \<Rightarrow> m | None \<Rightarrow> em_dash), formatAmount (jl_debit l), formatAmount (jl_credit l)]
     @ guarded fx [formatAmount (jl_base_debit l), formatAmount (jl_base_credit l)]"

definition entry_footer :: "JournalEntry \<Rightarrow> string list option" where
  "entry_footer e = do {
     debit \<leftarrow> sumAmounts (map jl_debit (je_lines e));
     credit \<leftarrow> sumAmounts (map jl_credit (je_lines e));
     base \<leftarrow> (if foreign e then do {
         bd \<leftarrow> sumAmounts (map jl_base_debit (je_lines e));
         bc \<leftarrow> sumAmounts (map jl_base_credit (je_lines e));
         Some [formatAmount bd, formatAmount bc] } else Some []);
     Some ([(if foreign e then ''Total ('' @ je_currency_code e @ '' / base)'' else ''Total''),
       formatAmount debit, formatAmount credit] @ base) }"

definition JournalEntryDetail :: "(string, JournalEntry) report \<Rightarrow> unit element list option" where
  "JournalEntryDetail s = do {
     body \<leftarrow> (case rp_data s of
         None \<Rightarrow> Some []
       | Some e \<Rightarrow> do {
           footer \<leftarrow> entry_footer e;
           Some ([Heading (''Journal Entry #'' @ show_int (je_id e)), Datum ''status'' (je_status e),
              Note (je_entry_date e @ (case je_reference e of None \<Rightarrow> [] | Some r \<Rightarrow> '' '' @ [CHR 0xB7] @ '' '' @ r)
                @ '' '' @ [CHR 0xB7] @ '' '' @ je_currency_code e
                @ guarded (foreign e) ('' '' @ [CHR 0xB7] @ '' rate '' @ je_exchange_rate e))]
             @ (case je_memo e of None \<Rightarrow> [] | Some m \<Rightarrow> [Note m])
             @ [Link ''Back to trial balance'' ''/reports/trial-balance'',
                Table ([''#'', ''Code'', ''Account'', ''Memo'', ''Debit'', ''Credit'']
                    @ guarded (foreign e) [''Base Dr'', ''Base Cr''])
                  (map (entry_cells (foreign e)) (je_lines e) @ [footer])]
             @ map (\<lambda>l. Link (jl_account_name l) (''/accounts/'' @ show_int (jl_account_id l) @ ''/ledger'')) (je_lines e)) });
     Some ((case rp_error s of None \<Rightarrow> []
          | Some m \<Rightarrow> [Alert m, Link ''Back to trial balance'' ''/reports/trial-balance''])
       @ guarded (rp_error s = None \<and> rp_data s = None) [Note ''Loading...''] @ body) }"

section \<open>What the reports show\<close>

lemma ledger_reads:
  "reads_only (load_profit p)" "reads_only (getBalanceSheet d)" "reads_only (load_cash_flow q)"
  "reads_only (load_ledger l)" "reads_only (load_entry r)"
  by (simp_all add: load_profit_def getProfitAndLoss_def getBalanceSheet_def load_cash_flow_def getCashFlow_def
      load_ledger_def getAccount_def getAccountLedger_def load_entry_def getJournalEntry_def Let_def reading
      split: prod.split)

interpretation profit: latest_wins "load_profit :: string \<times> string \<Rightarrow> ('w, AccountActivityRow list) call"
  by unfold_locales (rule ledger_reads)

interpretation sheet: latest_wins "getBalanceSheet :: string \<Rightarrow> ('w, BalanceSheet) call"
  by unfold_locales (rule ledger_reads)

interpretation flow: latest_wins "load_cash_flow :: string \<times> string \<Rightarrow> ('w, CashFlow) call"
  by unfold_locales (rule ledger_reads)

interpretation ledger: latest_wins "load_ledger :: ledger_query \<Rightarrow> ('w, Account \<times> LedgerRow list) call"
  by unfold_locales (rule ledger_reads)

interpretation entry: latest_wins "load_entry :: string \<Rightarrow> ('w, JournalEntry) call"
  by unfold_locales (rule ledger_reads)

text \<open>C30. A report never shows a stale answer. Answers may arrive in any order while the user types
  other bounds or goes to another account: once nothing is awaited and no error is shown, the profit
  and loss, the balance sheet, the cash flow and the account ledger show an answer of the server to
  the query on the screen; until then exactly that query is awaited and its answer can arrive.\<close>

theorem reports_show_current:
  fixes net :: "payload request \<Rightarrow> 'w \<Rightarrow> body reply \<times> 'w"
  assumes "reachable (mounted no_problem net) profit_moves (s, pend, b)"
    and "reachable (mounted no_problem net) sheet_moves (s', pend', b')"
    and "reachable (mounted no_problem net) flow_moves (t, ps, c)"
    and "reachable (mounted ledger_problem net) ledger_moves (t', ps', c')"
  shows "(awaited pend = [] \<longrightarrow> rp_error s \<noteq> None \<or> (\<exists>rws. rp_data s = Some rws \<and> answers load_profit net (rp_query s) rws))
    \<and> (awaited pend' = [] \<longrightarrow> rp_error s' \<noteq> None
        \<or> (\<exists>sheet. rp_data s' = Some sheet \<and> answers getBalanceSheet net (rp_query s') sheet))
    \<and> (awaited ps = [] \<longrightarrow> rp_error t \<noteq> None \<or> (\<exists>cf. rp_data t = Some cf \<and> answers load_cash_flow net (rp_query t) cf))
    \<and> (awaited ps' = [] \<longrightarrow> rp_error t' \<noteq> None
        \<or> (\<exists>a rws. rp_data t' = Some (a, rws) \<and> answers load_ledger net (rp_query t') (a, rws)))
    \<and> (awaited ps' \<noteq> [] \<longrightarrow> awaited ps' = [rp_query t'] \<and> (\<exists>u qs d. ledger_moves (t', ps', c') (u, qs, d)
        \<and> awaited qs = [] \<and> rp_query u = rp_query t'))"
proof -
  note shown = profit.shows_current [OF assms(1) [unfolded profit_moves_def]] sheet.shows_current [OF assms(2) [unfolded sheet_moves_def]] flow.shows_current [OF assms(3) [unfolded flow_moves_def]]
    ledger.shows_current [OF assms(4) [unfolded ledger_moves_def]]
  have "awaited ps' = [] \<longrightarrow> rp_error t' \<noteq> None
      \<or> (\<exists>a rws. rp_data t' = Some (a, rws) \<and> answers load_ledger net (rp_query t') (a, rws))"
    using conjunct1 [OF shown(4)] by (simp only: split_paired_Ex)
  moreover have "awaited ps' \<noteq> [] \<longrightarrow> awaited ps' = [rp_query t']" using shown(4) by (rule conjunct2 [THEN conjunct1])
  moreover note conjunct1 [OF shown(1)] conjunct1 [OF shown(2)] conjunct1 [OF shown(3)] ledger.can_answer [OF assms(4) [unfolded ledger_moves_def]]
  ultimately show ?thesis unfolding ledger_moves_def by (intro conjI impI) (erule (1) mp | assumption)+
qed

definition quiet_ledger :: "payload request \<Rightarrow> unit \<Rightarrow> body reply \<times> unit" where
  "quiet_ledger = answering (\<lambda>path. Ledger (AccountActivityRow_List []))"

lemma quiet_profit: "network b = quiet_ledger \<Longrightarrow> \<exists>b'. load_profit q b = (Inr [], b') \<and> network b' = quiet_ledger"
  by (simp add: load_profit_def getProfitAndLoss_def Let_def quiet_ledger_def get_answering ledger_as_def)

text \<open>A date is typed while the first load is in flight; its answer comes last, cancelled.\<close>

theorem reports_show_current_witness:
  "\<exists>s b. reachable (mounted no_problem quiet_ledger) profit_moves (s, [], b)
    \<and> rp_query s = (''2026-01-01'', []) \<and> rp_data s = Some []
    \<and> answers load_profit quiet_ledger (''2026-01-01'', []) []"
proof -
  let ?q = "(''2026-01-01'', [])" and ?b = "\<lparr>network = quiet_ledger, world = (), sent = [], events = []\<rparr>"
  let ?init = "report_init ([], []) :: (string \<times> string, AccountActivityRow list) report"
  let ?run = "reachable (mounted no_problem quiet_ledger) (report_move load_profit True no_problem)"
  have start: "?run (?init, [(([], []), False)], ?b)"
    by (rule reachable.starting) (auto simp: mounted_def report_effect_def report_init_def)
  have "report_move load_profit True no_problem (?init, [(([], []), False)], ?b)
      (?init\<lparr>rp_query := ?q\<rparr>, [(([], []), True)] @ [(?q, False)], ?b)"
    by (rule report_move.change [of no_problem ?q])
      (simp add: report_change_def report_effect_def report_init_def cancel_all_def)
  with start have typed: "?run (?init\<lparr>rp_query := ?q\<rparr>, [(([], []), True)] @ [(?q, False)], ?b)"
    by (rule reachable.moving)
  obtain b1 where b1: "load_profit ?q ?b = (Inr [], b1)" "network b1 = quiet_ledger" using quiet_profit [of ?b] by auto
  have "report_move load_profit True no_problem (?init\<lparr>rp_query := ?q\<rparr>, [(([], []), True)] @ (?q, False) # [], ?b)
      (report_accept True False (Inr []) (?init\<lparr>rp_query := ?q\<rparr>), [(([], []), True)] @ [], b1)"
    using b1(1) by (rule report_move.answer [of load_profit])
  with typed have first: "?run (report_accept True False (Inr []) (?init\<lparr>rp_query := ?q\<rparr>), [(([], []), True)] @ [], b1)"
    by (rule reachable.moving)
  let ?s = "report_accept True False (Inr []) (?init\<lparr>rp_query := ?q\<rparr>)"
  obtain b2 where b2: "load_profit ([], []) b1 = (Inr [], b2)" using quiet_profit [of b1] b1(2) by auto
  have "report_move load_profit True no_problem (?s, [] @ (([], []), True) # [], b1)
      (report_accept True True (Inr []) ?s, [] @ [], b2)"
    using b2 by (rule report_move.answer [of load_profit])
  with first have last: "?run (report_accept True True (Inr []) ?s, [], b2)"
    unfolding append_Nil append_Nil2 by (rule reachable.moving)
  have others:
    "reachable (mounted no_problem quiet_ledger) (report_move getBalanceSheet True no_problem)
      (report_init [], [([], False)], ?b)"
    "reachable (mounted no_problem quiet_ledger) (report_move load_cash_flow True no_problem)
      (report_init ([], []), [(([], []), False)], ?b)"
    "reachable (mounted ledger_problem quiet_ledger) (report_move load_ledger True ledger_problem)
      (report_init (''7'', [], []), [((''7'', [], []), False)], ?b)"
    by (rule reachable.starting; auto simp: mounted_def report_effect_def report_init_def ledger_problem_def intro!: exI [of _ "''7''"])+
  have s: "rp_query (report_accept True True (Inr []) ?s) = ?q" "rp_data (report_accept True True (Inr []) ?s) = Some []"
    "rp_error (report_accept True True (Inr []) ?s) = None"
    by (simp_all add: report_accept_def report_init_def)
  from conjunct1 [OF reports_show_current [unfolded profit_moves_def sheet_moves_def flow_moves_def ledger_moves_def, OF last others]] have "answers load_profit quiet_ledger ?q []"
    unfolding s by simp
  with last s show ?thesis unfolding profit_moves_def by (intro exI [of _ "report_accept True True (Inr []) ?s"] exI [of _ b2] conjI)
qed

section \<open>What the reports compute\<close>

text \<open>The balance a ledger carries along is the sum of what was debited less what was credited.\<close>

definition posted_value :: "LedgerRow \<Rightarrow> rat" where
  "posted_value r = amount_value (lr_base_debit r) - amount_value (lr_base_credit r)"

lemma ledger_step:
  assumes "scale4 running" "scale4 (lr_base_debit r)" "scale4 (lr_base_credit r)"
  obtains n v where "negateAmount (lr_base_credit r) = Some n" "sumAmounts [running, lr_base_debit r, n] = Some v"
    "scale4 v" "amount_value v = amount_value running + posted_value r"
proof -
  obtain n where n: "negateAmount (lr_base_credit r) = Some n" "scale4 n"
    "amount_value n = - amount_value (lr_base_credit r)" using am.negate_law [OF assms(3)] by blast
  have "list_all scale4 [running, lr_base_debit r, n]" using assms n by simp
  from am.sum_law [OF this] obtain v where "sumAmounts [running, lr_base_debit r, n] = Some v" "scale4 v"
    "amount_value v = amount_value running + posted_value r"
    by (auto simp: n(3) posted_value_def)
  with n(1) that show ?thesis by blast
qed

lemma running_balances_exact:
  assumes "scale4 running" "list_all (\<lambda>r. scale4 (lr_base_debit r) \<and> scale4 (lr_base_credit r)) rws"
  shows "\<exists>bs. running_balances running rws = Some bs \<and> length bs = length rws \<and> list_all scale4 bs
    \<and> (\<forall>i < length rws. amount_value (bs ! i) = amount_value running + sum_list (map posted_value (take (Suc i) rws)))"
  using assms
proof (induction rws arbitrary: running)
  case (Cons r rws)
  have ok: "scale4 running" "scale4 (lr_base_debit r)" "scale4 (lr_base_credit r)" using Cons.prems by simp_all
  obtain n v where n: "negateAmount (lr_base_credit r) = Some n" "sumAmounts [running, lr_base_debit r, n] = Some v"
    and v: "scale4 v" "amount_value v = amount_value running + posted_value r"
    by (rule ledger_step [OF ok])
  obtain bs where bs: "running_balances v rws = Some bs" "length bs = length rws" "list_all scale4 bs"
    "\<forall>i < length rws. amount_value (bs ! i) = amount_value v + sum_list (map posted_value (take (Suc i) rws))"
    using Cons.IH [OF v(1)] Cons.prems(2) by auto
  have "amount_value ((v # bs) ! i) = amount_value running + sum_list (map posted_value (take (Suc i) (r # rws)))"
    if "i < length (r # rws)" for i
    using that bs(4) v(2) by (cases i) (auto simp: algebra_simps)
  then show ?case using n bs v(1) by simp
qed simp

lemma posted_value_sum:
  "sum_list (map posted_value rws)
    = sum_list (map (amount_value \<circ> lr_base_debit) rws) - sum_list (map (amount_value \<circ> lr_base_credit) rws)"
  by (induction rws) (simp_all add: posted_value_def)

lemma no_fx: "\<not> hasFx rws \<Longrightarrow> map lr_debit rws = map lr_base_debit rws \<and> map lr_credit rws = map lr_base_credit rws"
  by (simp add: hasFx_def list_ex_iff)

lemma footer_columns:
  "map (if hasFx rws then lr_base_debit else lr_debit) rws = map lr_base_debit rws"
  "map (if hasFx rws then lr_base_credit else lr_credit) rws = map lr_base_credit rws"
  using no_fx [of rws] by simp_all

text \<open>C31. The running balance of an account ledger is exact on every row, whatever signs the amounts
  have: row by row it is the base debits less the base credits so far, in exact decimals, and the
  balance in the footer is the footer's total debit less its total credit.\<close>

theorem ledger_balances:
  assumes "list_all (\<lambda>r. scale4 (lr_base_debit r) \<and> scale4 (lr_base_credit r)) rws" "rws \<noteq> []"
  shows "\<exists>bs d c. running_balances ''0.0000'' rws = Some bs \<and> length bs = length rws
    \<and> (\<forall>i < length rws. amount_value (bs ! i) = sum_list (map posted_value (take (Suc i) rws)))
    \<and> ledger_footer rws bs = Some [if hasFx rws then ''Total (base)'' else ''Total'', formatAmount d, formatAmount c,
        formatAmount (last bs)]
    \<and> amount_value (last bs) = amount_value d - amount_value c"
proof -
  have zero: "scale4 ''0.0000''" "amount_value ''0.0000'' = 0" by code_simp+
  obtain bs where bs: "running_balances ''0.0000'' rws = Some bs" "length bs = length rws"
    "\<forall>i < length rws. amount_value (bs ! i) = sum_list (map posted_value (take (Suc i) rws))"
    using running_balances_exact [OF zero(1) assms(1)] zero(2) by auto
  have debits: "list_all scale4 (map lr_base_debit rws)" and credits: "list_all scale4 (map lr_base_credit rws)"
    using assms(1) by (simp_all add: list.pred_map list_all_iff)
  from am.sum_law [OF debits] obtain d where d: "sumAmounts (map lr_base_debit rws) = Some d"
      "amount_value d = sum_list (map (amount_value \<circ> lr_base_debit) rws)" unfolding map_map by blast
  from am.sum_law [OF credits] obtain c where c: "sumAmounts (map lr_base_credit rws) = Some c"
      "amount_value c = sum_list (map (amount_value \<circ> lr_base_credit) rws)" unfolding map_map by blast
  have "amount_value (last bs) = sum_list (map posted_value rws)"
  proof -
    have "bs \<noteq> []" "length rws - 1 < length rws" "Suc (length rws - 1) = length rws" using bs(2) assms(2) by auto
    with bs show ?thesis by (simp add: last_conv_nth del: Suc_pred One_nat_def)
  qed
  then have "amount_value (last bs) = amount_value d - amount_value c" by (simp add: posted_value_sum d(2) c(2))
  moreover have "ledger_footer rws bs = Some [if hasFx rws then ''Total (base)'' else ''Total'', formatAmount d, formatAmount c,
      formatAmount (last bs)]"
    by (simp add: ledger_footer_def footer_columns d(1) c(1))
  ultimately show ?thesis using bs by blast
qed

definition ledger_row :: "string \<Rightarrow> string \<Rightarrow> LedgerRow" where
  "ledger_row debit credit = \<lparr>lr_journal_entry_id = 1, lr_entry_date = ''2026-01-31'', lr_reference = None, lr_memo = None,
     lr_currency_code = ''EUR'', lr_debit = debit, lr_credit = credit, lr_base_debit = debit, lr_base_credit = credit\<rparr>"

theorem ledger_balances_witness:
  "\<exists>bs. running_balances ''0.0000'' [ledger_row ''3'' ''0'', ledger_row ''0'' ''5''] = Some bs
    \<and> amount_value (bs ! 0) = 3 \<and> amount_value (last bs) = - 2"
proof -
  let ?rws = "[ledger_row ''3'' ''0'', ledger_row ''0'' ''5'']"
  have "list_all (\<lambda>r. scale4 (lr_base_debit r) \<and> scale4 (lr_base_credit r)) ?rws" by code_simp
  from ledger_balances [OF this] obtain bs where bs: "running_balances ''0.0000'' ?rws = Some bs" "length bs = length ?rws"
    "\<forall>i < length ?rws. amount_value (bs ! i) = sum_list (map posted_value (take (Suc i) ?rws))" by blast
  have v: "posted_value (ledger_row ''3'' ''0'') = 3" "posted_value (ledger_row ''0'' ''5'') = - 5" by code_simp+
  have "amount_value (bs ! 0) = 3" "amount_value (bs ! 1) = - 2" using bs(2,3) by (simp_all add: v)
  moreover have "last bs = bs ! 1" using bs(2) by (cases bs) (auto simp: last_conv_nth)
  ultimately show ?thesis using bs(1) by auto
qed

section \<open>The statements add up\<close>

definition of_rows :: "('r \<Rightarrow> string) \<Rightarrow> 'r list \<Rightarrow> rat" where
  "of_rows f rws = sum_list (map (amount_value \<circ> f) rws)"

lemma sum_rows:
  assumes "list_all (\<lambda>r. scale4 (f r)) rws"
  obtains v where "sumAmounts (map f rws) = Some v" "scale4 v" "amount_value v = of_rows f rws"
proof -
  have "list_all scale4 (map f rws)" using assms by (simp add: list.pred_map comp_def)
  from am.sum_law [OF this] that show ?thesis unfolding of_rows_def map_map by blast
qed

lemma sum_two:
  assumes "scale4 v" "scale4 w"
  obtains t where "sumAmounts [v, w] = Some t" "scale4 t" "amount_value t = amount_value v + amount_value w"
  using am.sum_law [of "[v, w]"] assms that by auto

lemma filter_scale4: "list_all (\<lambda>r. scale4 (f r)) rws \<Longrightarrow> list_all (\<lambda>r. scale4 (f r)) (filter P rws)"
  by (simp add: list_all_iff)

lemma of_rows_partition:
  "list_all (\<lambda>r. k r \<in> set ks) rws \<Longrightarrow> distinct ks \<Longrightarrow>
     of_rows f rws = sum_list (map (\<lambda>x. of_rows f (filter (\<lambda>r. k r = x) rws)) ks)"
proof (induction rws)
  case Nil
  then show ?case by (simp add: of_rows_def)
next
  case (Cons r rws)
  have split: "of_rows f (filter (\<lambda>r. k r = x) (r # rws))
      = (if k r = x then amount_value (f r) else 0) + of_rows f (filter (\<lambda>r. k r = x) rws)" for x
    by (simp add: of_rows_def)
  have one: "sum_list (map (\<lambda>x. if k r = x then amount_value (f r) else 0) ks) = amount_value (f r)"
    if "k r \<in> set ks" "distinct ks" for ks
  proof -
    have none: "k r \<notin> set ks \<Longrightarrow> sum_list (map (\<lambda>x. if k r = x then amount_value (f r) else 0) ks) = 0" for ks
      by (induction ks) auto
    show ?thesis using that by (induction ks) (auto simp: none)
  qed
  have "of_rows f (r # rws) = amount_value (f r) + of_rows f rws" by (simp add: of_rows_def)
  also have "of_rows f rws = sum_list (map (\<lambda>x. of_rows f (filter (\<lambda>r. k r = x) rws)) ks)" using Cons by simp
  also have "amount_value (f r) = sum_list (map (\<lambda>x. if k r = x then amount_value (f r) else 0) ks)"
    using one [of ks] Cons.prems by simp
  finally show ?case by (simp only: split sum_list_addf)
qed

text \<open>C32. The statements add up, in exact decimals. Every section total is the sum of the rows of its
  section: revenue and expenses in the profit and loss, assets and liabilities in the balance sheet,
  investing and financing in the cash flow; equity takes in the current earnings and operating starts
  from the net income. The net income of the profit and loss is all revenue less all expenses; the
  footer of the balance sheet is liabilities, equity and current earnings together; the three sections
  of the cash flow add up to the net income and every row, each in one section.\<close>

theorem statements_add_up:
  assumes "list_all (\<lambda>r. scale4 (aa_amount r)) rws"
    and "list_all (\<lambda>r. scale4 (aa_amount r)) (bs_rows sheet)" "scale4 (bs_current_earnings sheet)"
    and "list_all (\<lambda>r. scale4 (cfr_amount r)) flows" "scale4 net_income"
    and "list_all (\<lambda>r. cfr_activity r \<in> {''operating'', ''investing'', ''financing''}) flows"
  shows "\<exists>t b c. profit_totals rws = Some t \<and> sheet_totals sheet = Some b \<and> cash_totals net_income flows = Some c
    \<and> amount_value (pl_revenue t) = of_rows aa_amount (of_type ''revenue'' rws)
    \<and> amount_value (pl_expenses t) = of_rows aa_amount (of_type ''expense'' rws)
    \<and> amount_value (pl_net_income t)
        = of_rows aa_amount (of_type ''revenue'' rws) - of_rows aa_amount (of_type ''expense'' rws)
    \<and> amount_value (bt_assets b) = of_rows aa_amount (of_type ''asset'' (bs_rows sheet))
    \<and> amount_value (bt_liabilities b) = of_rows aa_amount (of_type ''liability'' (bs_rows sheet))
    \<and> amount_value (bt_equity b)
        = of_rows aa_amount (of_type ''equity'' (bs_rows sheet)) + amount_value (bs_current_earnings sheet)
    \<and> amount_value (bt_footer b) = of_rows aa_amount (of_type ''liability'' (bs_rows sheet))
        + of_rows aa_amount (of_type ''equity'' (bs_rows sheet)) + amount_value (bs_current_earnings sheet)
    \<and> amount_value (ct_operating c)
        = amount_value net_income + of_rows cfr_amount (of_activity ''operating'' flows)
    \<and> amount_value (ct_investing c) = of_rows cfr_amount (of_activity ''investing'' flows)
    \<and> amount_value (ct_financing c) = of_rows cfr_amount (of_activity ''financing'' flows)
    \<and> amount_value (ct_operating c) + amount_value (ct_investing c) + amount_value (ct_financing c)
        = amount_value net_income + of_rows cfr_amount flows"
proof -
  note part = assms(1,2,4) [THEN filter_scale4]
  obtain rv where rv: "sumAmounts (map aa_amount (of_type ''revenue'' rws)) = Some rv" "scale4 rv"
    "amount_value rv = of_rows aa_amount (of_type ''revenue'' rws)" unfolding of_type_def by (rule sum_rows [OF part(1)])
  obtain ex where ex: "sumAmounts (map aa_amount (of_type ''expense'' rws)) = Some ex" "scale4 ex"
    "amount_value ex = of_rows aa_amount (of_type ''expense'' rws)" unfolding of_type_def by (rule sum_rows [OF part(1)])
  obtain nx where nx: "negateAmount ex = Some nx" "scale4 nx" "amount_value nx = - amount_value ex"
    using am.negate_law [OF ex(2)] by blast
  obtain ni where ni: "sumAmounts [rv, nx] = Some ni" "amount_value ni = amount_value rv + amount_value nx"
    by (rule sum_two [OF rv(2) nx(2)])
  obtain asset where asset: "sumAmounts (map aa_amount (of_type ''asset'' (bs_rows sheet))) = Some asset"
    "amount_value asset = of_rows aa_amount (of_type ''asset'' (bs_rows sheet))"
    unfolding of_type_def by (rule sum_rows [OF part(2)])
  obtain li where li: "sumAmounts (map aa_amount (of_type ''liability'' (bs_rows sheet))) = Some li" "scale4 li"
    "amount_value li = of_rows aa_amount (of_type ''liability'' (bs_rows sheet))"
    unfolding of_type_def by (rule sum_rows [OF part(2)])
  have "list_all scale4 (map aa_amount (of_type ''equity'' (bs_rows sheet)) @ [bs_current_earnings sheet])"
    using assms(2,3) by (auto simp: of_type_def list_all_iff)
  from am.sum_law [OF this] obtain eq where eq: "sumAmounts (map aa_amount (of_type ''equity'' (bs_rows sheet))
      @ [bs_current_earnings sheet]) = Some eq" "scale4 eq"
    "amount_value eq = of_rows aa_amount (of_type ''equity'' (bs_rows sheet)) + amount_value (bs_current_earnings sheet)"
    by (auto simp: of_rows_def)
  obtain ft where ft: "sumAmounts [li, eq] = Some ft" "amount_value ft = amount_value li + amount_value eq"
    by (rule sum_two [OF li(2) eq(2)])
  have "list_all scale4 (net_income # map cfr_amount (of_activity ''operating'' flows))"
    using assms(4,5) by (auto simp: of_activity_def list_all_iff)
  from am.sum_law [OF this] obtain op where op: "sumAmounts (net_income # map cfr_amount (of_activity ''operating'' flows)) = Some op"
    "amount_value op = amount_value net_income + of_rows cfr_amount (of_activity ''operating'' flows)"
    by (auto simp: of_rows_def)
  obtain iv where iv: "sumAmounts (map cfr_amount (of_activity ''investing'' flows)) = Some iv"
    "amount_value iv = of_rows cfr_amount (of_activity ''investing'' flows)"
    unfolding of_activity_def by (rule sum_rows [OF part(3)])
  obtain fi where fi: "sumAmounts (map cfr_amount (of_activity ''financing'' flows)) = Some fi"
    "amount_value fi = of_rows cfr_amount (of_activity ''financing'' flows)"
    unfolding of_activity_def by (rule sum_rows [OF part(3)])
  have "of_rows cfr_amount flows = of_rows cfr_amount (of_activity ''operating'' flows)
      + of_rows cfr_amount (of_activity ''investing'' flows) + of_rows cfr_amount (of_activity ''financing'' flows)"
    unfolding of_activity_def
    using of_rows_partition [of cfr_activity "[''operating'', ''investing'', ''financing'']" flows cfr_amount] assms(6) by simp
  then show ?thesis
    unfolding profit_totals_def sheet_totals_def cash_totals_def
    by (simp add: rv ex nx ni asset li eq ft op iv fi)
qed

theorem statements_add_up_witness:
  "\<exists>t. profit_totals [\<lparr>aa_account_id = 1, aa_code = ''4000'', aa_name = ''Sales'', aa_account_type = ''revenue'', aa_amount = ''5''\<rparr>,
      \<lparr>aa_account_id = 2, aa_code = ''5000'', aa_name = ''Rent'', aa_account_type = ''expense'', aa_amount = ''3''\<rparr>] = Some t
    \<and> amount_value (pl_net_income t) = 2"
proof -
  let ?rws = "[\<lparr>aa_account_id = 1, aa_code = ''4000'', aa_name = ''Sales'', aa_account_type = ''revenue'', aa_amount = ''5''\<rparr>,
      \<lparr>aa_account_id = 2, aa_code = ''5000'', aa_name = ''Rent'', aa_account_type = ''expense'', aa_amount = ''3''\<rparr>]"
  let ?sheet = "\<lparr>bs_rows = [\<lparr>aa_account_id = 3, aa_code = ''1000'', aa_name = ''Cash'', aa_account_type = ''asset'', aa_amount = ''2''\<rparr>],
      bs_current_earnings = ''2''\<rparr>"
  let ?flows = "[\<lparr>cfr_account_id = 4, cfr_code = ''1500'', cfr_name = ''Van'', cfr_activity = ''investing'', cfr_amount = ''-1''\<rparr>]"
  have "list_all (\<lambda>r. scale4 (aa_amount r)) ?rws" by code_simp
  moreover have "list_all (\<lambda>r. scale4 (aa_amount r)) (bs_rows ?sheet)" "scale4 (bs_current_earnings ?sheet)" by code_simp+
  moreover have "list_all (\<lambda>r. scale4 (cfr_amount r)) ?flows" "scale4 ''2''"
    "list_all (\<lambda>r. cfr_activity r \<in> {''operating'', ''investing'', ''financing''}) ?flows" by code_simp+
  ultimately obtain t where t: "profit_totals ?rws = Some t"
    "amount_value (pl_net_income t) = of_rows aa_amount (of_type ''revenue'' ?rws) - of_rows aa_amount (of_type ''expense'' ?rws)"
    using statements_add_up [of ?rws ?sheet ?flows "''2''"] by blast
  have "of_rows aa_amount (of_type ''revenue'' ?rws) - of_rows aa_amount (of_type ''expense'' ?rws) = 2" by code_simp
  with t show ?thesis by (intro exI [of _ t] conjI) simp_all
qed

end
