(* ===== verification/Calendar_Forms.thy ===== *)
theory Calendar_Forms
  imports Document_Detail Dates
begin

text \<open>
  The forms of the fiscal calendar: a fiscal year (\<open>web/src/components/fiscal-year-form.tsx\<close>) and an
  accounting period (\<open>period-form.tsx\<close>), with the defaults that continue the calendar, and the page
  that closes a year (\<open>fiscal-year-close.tsx\<close>).
\<close>

section \<open>Defaults\<close>

record YearFields =
  yf_name :: string
  yf_startDate :: string
  yf_endDate :: string

text \<open>The year of the user's clock is an argument; \<open>None\<close> is the RangeError of a date that does not
  exist.\<close>

definition nextYearDefaults :: "int \<Rightarrow> string option \<Rightarrow> YearFields option" where
  "nextYearDefaults this_year latestEnd = do {
     start \<leftarrow> (case latestEnd of Some e \<Rightarrow> dayAfter e | None \<Rightarrow> Some (show_int this_year @ ''-01-01''));
     e \<leftarrow> endOfYearFrom start;
     Some \<lparr>yf_name = ''FY'' @ take 4 start, yf_startDate = start, yf_endDate = e\<rparr> }"

record PeriodFields =
  pef_fiscalYearId :: string
  pef_name :: string
  pef_startDate :: string
  pef_endDate :: string
  pef_status :: string

text \<open>\<open>years.at(-1)\<close>\<close>

definition at_last :: "'a list \<Rightarrow> 'a option" where
  "at_last xs = (if xs = [] then None else Some (last xs))"

definition covering_year :: "string \<Rightarrow> FiscalYear list \<Rightarrow> FiscalYear option" where
  "covering_year start years =
     (case find (\<lambda>fy. fy_start_date fy \<le> start \<and> start \<le> fy_end_date fy) years of
        Some fy \<Rightarrow> Some fy | None \<Rightarrow> at_last years)"

text \<open>The current instant as \<open>toISOString\<close> prints it is an argument.\<close>

definition nextMonthDefaults :: "string \<Rightarrow> string option \<Rightarrow> FiscalYear list \<Rightarrow> PeriodFields option" where
  "nextMonthDefaults iso_now latestEnd years = do {
     start \<leftarrow> (case latestEnd of Some e \<Rightarrow> dayAfter e | None \<Rightarrow> Some (take 8 iso_now @ ''01''));
     e \<leftarrow> endOfMonth start;
     Some \<lparr>pef_fiscalYearId = (case covering_year start years of Some fy \<Rightarrow> show_int (fy_id fy) | None \<Rightarrow> []),
       pef_name = yearMonth start, pef_startDate = start, pef_endDate = e, pef_status = ''open''\<rparr> }"

text \<open>The message of the RangeError, as V8 words it.\<close>

definition range_error :: string where
  "range_error = ''Invalid time value''"

section \<open>The form of a fiscal year\<close>

record FiscalYearForm =
  fyf_form :: "YearFields option"
  fyf_error :: "string option"
  fyf_saving :: bool
  fyf_saveError :: "string option"
  fyf_navigated :: "string option"

definition year_form_init :: FiscalYearForm where
  "year_form_init = \<lparr>fyf_form = None, fyf_error = None, fyf_saving = False, fyf_saveError = None,
     fyf_navigated = None\<rparr>"

definition existing_year :: "FiscalYear \<Rightarrow> YearFields" where
  "existing_year fy = \<lparr>yf_name = fy_name fy, yf_startDate = fy_start_date fy, yf_endDate = fy_end_date fy\<rparr>"

text \<open>A form opens in edit mode on the id of its route, or in create mode (\<open>None\<close>).\<close>

definition year_effect :: "string option \<Rightarrow> int \<Rightarrow> bool \<Rightarrow> FiscalYearForm \<times> ('w, payload, body) browser
    \<Rightarrow> FiscalYearForm \<times> ('w, payload, body) browser" where
  "year_effect route this_year cancelled x = (case x of (f, b) \<Rightarrow>
     let fail = (\<lambda>m b. (if cancelled then f else f\<lparr>fyf_error := Some m\<rparr>, b));
         fill = (\<lambda>v b. (if cancelled then f else f\<lparr>fyf_form := Some v\<rparr>, b)) in
     (case route of
        Some ident \<Rightarrow>
          if invalid_id ident then (f\<lparr>fyf_error := Some ''Invalid fiscal year id.''\<rparr>, b)
          else (case getFiscalYear (id_of ident) b of
             (Inl err, b) \<Rightarrow> fail (error_message err) b
           | (Inr fy, b) \<Rightarrow> fill (existing_year fy) b)
      | None \<Rightarrow>
          (case listFiscalYears b of
             (Inl err, b) \<Rightarrow> fail (error_message err) b
           | (Inr years, b) \<Rightarrow>
               (case nextYearDefaults this_year (map_option fy_end_date (at_last years)) of
                  None \<Rightarrow> fail range_error b | Some v \<Rightarrow> fill v b))))"

definition year_input :: "YearFields \<Rightarrow> FiscalYearInput" where
  "year_input v = \<lparr>fyi_name = trim (yf_name v), fyi_start_date = yf_startDate v, fyi_end_date = yf_endDate v\<rparr>"

definition save_year :: "string option \<Rightarrow> FiscalYearInput \<Rightarrow> ('w, unit) call" where
  "save_year route input = (case route of
       None \<Rightarrow> map_io (\<lambda>_. ()) (createFiscalYear input)
     | Some ident \<Rightarrow> updateFiscalYear (id_of ident) input)"

definition submitYear :: "string option \<Rightarrow> FiscalYearForm \<Rightarrow> ('w, payload, body) browser
    \<Rightarrow> FiscalYearForm \<times> ('w, payload, body) browser" where
  "submitYear route f b = (case fyf_form f of
       None \<Rightarrow> (f, b)
     | Some form \<Rightarrow>
         if trim (yf_name form) = [] then (f\<lparr>fyf_saveError := Some ''Name is required.''\<rparr>, b)
         else
           let f = f\<lparr>fyf_saving := True, fyf_saveError := None\<rparr> in
           case save_year route (year_input form) b of
             (Inr _, b) \<Rightarrow> (f\<lparr>fyf_navigated := Some ''/periods''\<rparr>, b)
           | (Inl err, b) \<Rightarrow> (f\<lparr>fyf_saving := False, fyf_saveError := Some (save_message err)\<rparr>, b))"

datatype year_event = Year_Name string | Year_Start string | Year_End string | Save_Year

definition year_form_view :: "string option \<Rightarrow> FiscalYearForm \<Rightarrow> year_event element list" where
  "year_form_view route f =
     [Heading (if route = None then ''New Fiscal Year'' else ''Edit Fiscal Year''),
      Note (if route = None then ''Add a reporting year, then create its accounting periods.''
        else ''Update the fiscal year'' @ [CHR 0x27] @ ''s details.'')]
     @ (case fyf_error f of None \<Rightarrow> [] | Some e \<Rightarrow> [Alert e, Link ''Back to periods'' ''/periods''])
     @ guarded (fyf_error f = None \<and> fyf_form f = None) [Note ''Loading...'']
     @ (case fyf_form f of
          None \<Rightarrow> []
        | Some form \<Rightarrow>
            [Field ''name'' ''Name'' False (yf_name form) Year_Name,
             Field ''start_date'' ''Start'' True (yf_startDate form) Year_Start,
             Field ''end_date'' ''End'' True (yf_endDate form) Year_End]
            @ (case fyf_saveError f of None \<Rightarrow> [] | Some e \<Rightarrow> [Alert (''Failed to save: '' @ e)])
            @ [Button (if fyf_saving f then ''Saving...'' else if route = None then ''Create'' else ''Save'')
                 (fyf_saving f) Save_Year, Link ''Cancel'' ''/periods''])"

definition change_year :: "(YearFields \<Rightarrow> YearFields) \<Rightarrow> FiscalYearForm \<Rightarrow> FiscalYearForm" where
  "change_year g f = f\<lparr>fyf_form := map_option g (fyf_form f)\<rparr>"

fun year_step :: "string option \<Rightarrow> year_event \<Rightarrow> FiscalYearForm \<times> ('w, payload, body) browser
    \<Rightarrow> FiscalYearForm \<times> ('w, payload, body) browser" where
  "year_step r (Year_Name v) (f, b) = (change_year (\<lambda>x. x\<lparr>yf_name := v\<rparr>) f, b)"
| "year_step r (Year_Start v) (f, b) = (change_year (\<lambda>x. x\<lparr>yf_startDate := v\<rparr>) f, b)"
| "year_step r (Year_End v) (f, b) = (change_year (\<lambda>x. x\<lparr>yf_endDate := v\<rparr>) f, b)"
| "year_step r Save_Year (f, b) = submitYear r f b"

section \<open>The form of an accounting period\<close>

record PeriodForm =
  pdf_years :: "FiscalYear list"
  pdf_form :: "PeriodFields option"
  pdf_error :: "string option"
  pdf_saving :: bool
  pdf_saveError :: "string option"
  pdf_navigated :: "string option"

definition period_form_init :: PeriodForm where
  "period_form_init = \<lparr>pdf_years = [], pdf_form = None, pdf_error = None, pdf_saving = False,
     pdf_saveError = None, pdf_navigated = None\<rparr>"

definition existing_period :: "AccountingPeriod \<Rightarrow> PeriodFields" where
  "existing_period p = \<lparr>pef_fiscalYearId = show_int (ap_fiscal_year_id p), pef_name = ap_name p,
     pef_startDate = ap_start_date p, pef_endDate = ap_end_date p, pef_status = ap_status p\<rparr>"

text \<open>In create mode the years are set before the defaults are computed, in the same batch.\<close>

definition period_effect :: "string option \<Rightarrow> string \<Rightarrow> bool \<Rightarrow> PeriodForm \<times> ('w, payload, body) browser
    \<Rightarrow> PeriodForm \<times> ('w, payload, body) browser" where
  "period_effect route iso_now cancelled x = (case x of (f, b) \<Rightarrow>
     let fail = (\<lambda>m f b. (if cancelled then f else f\<lparr>pdf_error := Some m\<rparr>, b)) in
     (case route of
        Some ident \<Rightarrow>
          if invalid_id ident then (f\<lparr>pdf_error := Some ''Invalid period id.''\<rparr>, b)
          else (case both_io (getAccountingPeriod (id_of ident)) listFiscalYears b of
             (Inl err, b) \<Rightarrow> fail (error_message err) f b
           | (Inr (p, fy), b) \<Rightarrow>
               (if cancelled then f else f\<lparr>pdf_years := fy, pdf_form := Some (existing_period p)\<rparr>, b))
      | None \<Rightarrow>
          (case both_io listFiscalYears listAccountingPeriods b of
             (Inl err, b) \<Rightarrow> fail (error_message err) f b
           | (Inr (fy, periods), b) \<Rightarrow>
               if cancelled then (f, b)
               else
                 let f = f\<lparr>pdf_years := fy\<rparr> in
                 (case nextMonthDefaults iso_now (map_option ap_end_date (at_last periods)) fy of
                    None \<Rightarrow> fail range_error f b
                  | Some v \<Rightarrow> (f\<lparr>pdf_form := Some v\<rparr>, b)))))"

definition period_input :: "PeriodFields \<Rightarrow> AccountingPeriodInput" where
  "period_input v = \<lparr>api_fiscal_year_id = id_of (pef_fiscalYearId v), api_name = trim (pef_name v),
     api_start_date = pef_startDate v, api_end_date = pef_endDate v, api_status = pef_status v\<rparr>"

definition save_period :: "string option \<Rightarrow> AccountingPeriodInput \<Rightarrow> ('w, unit) call" where
  "save_period route input = (case route of
       None \<Rightarrow> map_io (\<lambda>_. ()) (createAccountingPeriod input)
     | Some ident \<Rightarrow> updateAccountingPeriod (id_of ident) input)"

definition submitPeriod :: "string option \<Rightarrow> PeriodForm \<Rightarrow> ('w, payload, body) browser
    \<Rightarrow> PeriodForm \<times> ('w, payload, body) browser" where
  "submitPeriod route f b = (case pdf_form f of
       None \<Rightarrow> (f, b)
     | Some form \<Rightarrow>
         if pef_fiscalYearId form = [] then (f\<lparr>pdf_saveError := Some ''Please choose a fiscal year.''\<rparr>, b)
         else if trim (pef_name form) = [] then (f\<lparr>pdf_saveError := Some ''Name is required.''\<rparr>, b)
         else
           let f = f\<lparr>pdf_saving := True, pdf_saveError := None\<rparr> in
           case save_period route (period_input form) b of
             (Inr _, b) \<Rightarrow> (f\<lparr>pdf_navigated := Some ''/periods''\<rparr>, b)
           | (Inl err, b) \<Rightarrow> (f\<lparr>pdf_saving := False, pdf_saveError := Some (save_message err)\<rparr>, b))"

datatype period_event = Period_Year string | Period_Name string | Period_Start string | Period_End string
  | Period_Status string | Save_Period

definition year_label :: "FiscalYear \<Rightarrow> string" where
  "year_label fy = fy_name fy @ '' ('' @ fy_start_date fy @ '' -> '' @ fy_end_date fy @ '')''"

definition period_fields_view :: "string option \<Rightarrow> PeriodForm \<Rightarrow> PeriodFields \<Rightarrow> period_event element list" where
  "period_fields_view route f form =
     [if pdf_years f \<noteq> [] then
        Select ''fiscal_year'' ''Fiscal Year'' (pef_fiscalYearId form)
          (map (\<lambda>fy. (show_int (fy_id fy), year_label fy)) (pdf_years f)) Period_Year
      else Note ''No fiscal years yet. Create a fiscal year first.'',
      Field ''name'' ''Name'' False (pef_name form) Period_Name,
      Field ''start_date'' ''Start'' True (pef_startDate form) Period_Start,
      Field ''end_date'' ''End'' True (pef_endDate form) Period_End]
     @ guarded (route \<noteq> None)
         [Select ''status'' ''Status'' (pef_status form) [(''open'', ''open''), (''closed'', ''closed'')] Period_Status]"

definition period_form_view :: "string option \<Rightarrow> PeriodForm \<Rightarrow> period_event element list" where
  "period_form_view route f =
     [Heading (if route = None then ''New Period'' else ''Edit Period''),
      Note (if route = None then ''Open an accounting period so documents can post in it.''
        else ''Update the period'' @ [CHR 0x27] @ ''s details.'')]
     @ (case pdf_error f of None \<Rightarrow> [] | Some e \<Rightarrow> [Alert e, Link ''Back to periods'' ''/periods''])
     @ guarded (pdf_error f = None \<and> pdf_form f = None) [Note ''Loading...'']
     @ (case pdf_form f of
          None \<Rightarrow> []
        | Some form \<Rightarrow>
            period_fields_view route f form
            @ (case pdf_saveError f of None \<Rightarrow> [] | Some e \<Rightarrow> [Alert (''Failed to save: '' @ e)])
            @ [Button (if pdf_saving f then ''Saving...'' else if route = None then ''Create'' else ''Save'')
                 (pdf_saving f \<or> pdf_years f = []) Save_Period, Link ''Cancel'' ''/periods''])"

definition change_period :: "(PeriodFields \<Rightarrow> PeriodFields) \<Rightarrow> PeriodForm \<Rightarrow> PeriodForm" where
  "change_period g f = f\<lparr>pdf_form := map_option g (pdf_form f)\<rparr>"

fun period_step :: "string option \<Rightarrow> period_event \<Rightarrow> PeriodForm \<times> ('w, payload, body) browser
    \<Rightarrow> PeriodForm \<times> ('w, payload, body) browser" where
  "period_step r (Period_Year v) (f, b) = (change_period (\<lambda>x. x\<lparr>pef_fiscalYearId := v\<rparr>) f, b)"
| "period_step r (Period_Name v) (f, b) = (change_period (\<lambda>x. x\<lparr>pef_name := v\<rparr>) f, b)"
| "period_step r (Period_Start v) (f, b) = (change_period (\<lambda>x. x\<lparr>pef_startDate := v\<rparr>) f, b)"
| "period_step r (Period_End v) (f, b) = (change_period (\<lambda>x. x\<lparr>pef_endDate := v\<rparr>) f, b)"
| "period_step r (Period_Status v) (f, b) = (change_period (\<lambda>x. x\<lparr>pef_status := v\<rparr>) f, b)"
| "period_step r Save_Period (f, b) = submitPeriod r f b"

section \<open>Closing a fiscal year\<close>

record FiscalYearClose =
  fc_year :: "FiscalYear option"
  fc_equityAccounts :: "Account list option"
  fc_accountId :: string
  fc_error :: "string option"
  fc_closing :: bool
  fc_closeError :: "string option"
  fc_navigated :: "string option"

definition year_close_init :: FiscalYearClose where
  "year_close_init = \<lparr>fc_year = None, fc_equityAccounts = None, fc_accountId = [], fc_error = None,
     fc_closing = False, fc_closeError = None, fc_navigated = None\<rparr>"

definition equity_account :: "Account \<Rightarrow> bool" where
  "equity_account a \<longleftrightarrow> acc_account_type a = ''equity'' \<and> acc_is_postable a \<and> acc_is_active a"

text \<open>The conventional account, else the first.\<close>

definition preferred_account :: "Account list \<Rightarrow> Account option" where
  "preferred_account equity =
     (case find (\<lambda>a. toLowerCase (acc_name a) = ''retained earnings'') equity of
        Some a \<Rightarrow> Some a
      | None \<Rightarrow> (case equity of [] \<Rightarrow> None | a # _ \<Rightarrow> Some a))"

definition close_loaded :: "bool \<Rightarrow> exn + FiscalYear \<times> Account list \<Rightarrow> FiscalYearClose \<Rightarrow> FiscalYearClose" where
  "close_loaded cancelled result s = (case result of
       Inl err \<Rightarrow> if cancelled then s else s\<lparr>fc_error := Some (error_message err)\<rparr>
     | Inr (fy, accounts) \<Rightarrow>
         if cancelled then s
         else
           let equity = filter equity_account accounts;
               s = s\<lparr>fc_year := Some fy, fc_equityAccounts := Some equity\<rparr> in
           (case preferred_account equity of
              None \<Rightarrow> s | Some a \<Rightarrow> s\<lparr>fc_accountId := show_int (acc_id a)\<rparr>))"

definition close_effect :: "string \<Rightarrow> bool \<Rightarrow> FiscalYearClose \<times> ('w, payload, body) browser
    \<Rightarrow> FiscalYearClose \<times> ('w, payload, body) browser" where
  "close_effect route cancelled x = (case x of (s, b) \<Rightarrow>
     if invalid_id route then (s\<lparr>fc_error := Some ''Invalid fiscal year id.''\<rparr>, b)
     else (case both_io (getFiscalYear (id_of route)) listAccounts b of
        (r, b) \<Rightarrow> (close_loaded cancelled r s, b)))"

datatype close_event = Pick_Equity string | Close_Year string

text \<open>The click captures the selected account; the promise settles later.\<close>

fun close_action :: "close_event \<Rightarrow> string option" where
  "close_action (Close_Year v) = Some v"
| "close_action (Pick_Equity v) = None"

definition close_start :: "string \<Rightarrow> FiscalYearClose \<Rightarrow> FiscalYearClose" where
  "close_start v s = s\<lparr>fc_closing := True, fc_closeError := None\<rparr>"

definition close_settle :: "string \<Rightarrow> string \<Rightarrow> FiscalYearClose \<times> ('w, payload, body) browser
    \<Rightarrow> FiscalYearClose \<times> ('w, payload, body) browser" where
  "close_settle route v x = (case x of (s, b) \<Rightarrow>
     (case closeFiscalYear (id_of route) (id_of v) b of
        (Inr _, b) \<Rightarrow> (s\<lparr>fc_navigated := Some ''/periods''\<rparr>, b)
      | (Inl err, b) \<Rightarrow> (s\<lparr>fc_closing := False, fc_closeError := Some (save_message err)\<rparr>, b)))"

fun close_react :: "close_event \<Rightarrow> FiscalYearClose \<Rightarrow> FiscalYearClose" where
  "close_react (Pick_Equity v) s = s\<lparr>fc_accountId := v\<rparr>"
| "close_react (Close_Year v) s = s"

definition close_form_view :: "FiscalYearClose \<Rightarrow> FiscalYear \<Rightarrow> Account list \<Rightarrow> close_event element list" where
  "close_form_view s year equity =
     [if equity = [] then
        Alert (''No postable, active equity account exists. Create one on the Chart of Accounts screen first.'')
      else Select ''re-account'' ''Retained earnings account'' (fc_accountId s)
        (map (\<lambda>a. (show_int (acc_id a), acc_code a @ '' '' @ em_dash @ '' '' @ acc_name a)) equity) Pick_Equity,
      Note (''The year'' @ [CHR 0x27] @ ''s net income (or loss) is posted here.'')]
     @ (case fc_closeError s of None \<Rightarrow> [] | Some e \<Rightarrow> [Alert (''Failed to close the year: '' @ e)])
     @ [Button (if fc_closing s then ''Closing...'' else ''Close '' @ fy_name year)
          (fc_closing s \<or> fc_accountId s = []) (Close_Year (fc_accountId s)),
        Link ''Cancel'' ''/periods'']"

definition year_close_view :: "FiscalYearClose \<Rightarrow> close_event element list" where
  "year_close_view s =
     [Heading (''Close Fiscal Year'' @ (case fc_year s of None \<Rightarrow> [] | Some y \<Rightarrow> '' '' @ em_dash @ '' '' @ fy_name y)),
      Note (''The year-end close posts a closing entry that zeroes every revenue and expense account into ''
        @ ''retained earnings, closes all of the year'' @ [CHR 0x27] @ ''s periods and the year itself, and ''
        @ ''creates the next fiscal year if it doesn'' @ [CHR 0x27] @ ''t exist yet. Reports are unaffected: ''
        @ ''the income statement ignores closing entries. A closed year can be reopened later, which ''
        @ ''reverses the closing entry.'')]
     @ (case fc_error s of None \<Rightarrow> [] | Some e \<Rightarrow> [Alert e, Link ''Back to periods'' ''/periods''])
     @ guarded (fc_error s = None \<and> (fc_year s = None \<or> fc_equityAccounts s = None)) [Note ''Loading...'']
     @ (case (fc_year s, fc_equityAccounts s) of
          (Some year, Some equity) \<Rightarrow>
            if fy_status year \<noteq> ''open''
            then [Note (fy_name year @ '' is already closed.''), Link ''Back to periods'' ''/periods'']
            else close_form_view s year equity
        | _ \<Rightarrow> [])"

definition close_move :: "string \<Rightarrow> FiscalYearClose \<times> string list \<times> ('w, payload, body) browser
    \<Rightarrow> FiscalYearClose \<times> string list \<times> ('w, payload, body) browser \<Rightarrow> bool" where
  "close_move route = screen_move (close_effect route) (\<lambda>s. offers (year_close_view s)) close_action
     close_start (close_settle route) close_react"

section \<open>The calendar the defaults build\<close>

text \<open>Months numbered from January of the year 0.\<close>

definition month_first :: "int \<Rightarrow> string" where
  "month_first k = iso_date (k div 12) (k mod 12) 1"

definition month_last :: "int \<Rightarrow> string" where
  "month_last k = iso_date (k div 12) (k mod 12) (month_length (leap (k div 12)) (k mod 12))"

text \<open>Creating one period after another with the proposed defaults, and one year after another.\<close>

fun next_periods :: "nat \<Rightarrow> string \<Rightarrow> FiscalYear list \<Rightarrow> PeriodFields list option" where
  "next_periods 0 e years = Some []"
| "next_periods (Suc n) e years = do {
     p \<leftarrow> nextMonthDefaults [] (Some e) years;
     ps \<leftarrow> next_periods n (pef_endDate p) years;
     Some (p # ps) }"

fun next_years :: "nat \<Rightarrow> string \<Rightarrow> YearFields list option" where
  "next_years 0 e = Some []"
| "next_years (Suc n) e = do {
     y \<leftarrow> nextYearDefaults 0 (Some e);
     ys \<leftarrow> next_years n (yf_endDate y);
     Some (y # ys) }"

lemma month_Suc: "(k + 1) div 12 = (if k mod 12 = 11 then k div 12 + 1 else k div 12)"
  "(k + 1) mod 12 = (if k mod 12 = 11 then 0 else k mod 12 + (1::int))"
proof -
  let ?r = "k mod 12"
  have r: "0 \<le> ?r" "?r < 12" by simp_all
  have "(k + 1) div 12 = k div 12 + (?r + 1) div 12" by (subst div_add1_eq) simp
  then show "(k + 1) div 12 = (if ?r = 11 then k div 12 + 1 else k div 12)"
    using r by (cases "?r = 11") (simp_all add: div_pos_pos_trivial)
  have "(k + 1) mod 12 = (?r + 1) mod 12" by (rule mod_add_left_eq [symmetric])
  then show "(k + 1) mod 12 = (if ?r = 11 then 0 else ?r + 1)"
    using r by (cases "?r = 11") simp_all
qed

lemma dayAfter_month_last:
  assumes "1200 \<le> k" "k < 119988"
  shows "dayAfter (month_last k) = Some (month_first (k + 1))"
proof -
  have "0 \<le> k mod 12" "k mod 12 < 12" "100 \<le> k div 12" "k div 12 < 9999" using assms by auto
  from dayAfter_month_end [OF this] show ?thesis by (simp add: month_last_def month_first_def month_Suc)
qed

lemma endOfMonth_month_first:
  assumes "1200 \<le> k" "k < 120000"
  shows "endOfMonth (month_first k) = Some (month_last k)"
proof -
  have "valid_date (k div 12) (k mod 12) 1" "100 \<le> k div 12" "k div 12 \<le> 9999"
    using assms month_length_bounds(1) [of "k mod 12" "leap (k div 12)"] by (auto simp: valid_date_def)
  from endOfMonth_date [OF this] show ?thesis by (simp add: month_first_def month_last_def)
qed

definition month_period :: "FiscalYear list \<Rightarrow> int \<Rightarrow> PeriodFields" where
  "month_period years k = \<lparr>
     pef_fiscalYearId = (case covering_year (month_first k) years of Some fy \<Rightarrow> show_int (fy_id fy) | None \<Rightarrow> []),
     pef_name = take 7 (month_first k), pef_startDate = month_first k, pef_endDate = month_last k,
     pef_status = ''open''\<rparr>"

lemma next_month:
  assumes "1200 \<le> k" "k < 119988"
  shows "nextMonthDefaults now (Some (month_last k)) years = Some (month_period years (k + 1))"
  using assms by (simp add: nextMonthDefaults_def dayAfter_month_last endOfMonth_month_first month_period_def yearMonth_def)

text \<open>C28. Adding period after period with the proposed defaults tiles the calendar: after a period
  that ends with a month, the next n proposals are the n following months, each from its first to
  its last day, named by the month and open, with no day between two of them, across the ends of
  years, for the years 0100 to 9999.\<close>

theorem periods_tile_the_calendar:
  assumes "1200 \<le> k" "k + int n < 119988"
  shows "next_periods n (month_last k) years = Some (map (\<lambda>i. month_period years (k + 1 + int i)) [0..<n])
    \<and> (\<forall>i < n. dayAfter (month_last (k + int i)) = Some (month_first (k + int i + 1)))"
proof (rule conjI)
  show "\<forall>i < n. dayAfter (month_last (k + int i)) = Some (month_first (k + int i + 1))"
    using assms by (auto intro!: dayAfter_month_last)
  show "next_periods n (month_last k) years = Some (map (\<lambda>i. month_period years (k + 1 + int i)) [0..<n])"
    using assms
  proof (induction n arbitrary: k)
    case (Suc n)
    have "next_periods n (month_last (k + 1)) years = Some (map (\<lambda>i. month_period years (k + 1 + 1 + int i)) [0..<n])"
      using Suc.prems by (intro Suc.IH) auto
    moreover have "pef_endDate (month_period years (k + 1)) = month_last (k + 1)" by (simp add: month_period_def)
    moreover have "map (\<lambda>i. month_period years (k + 1 + int i)) [0..<Suc n]
        = month_period years (k + 1) # map (\<lambda>i. month_period years (k + 1 + 1 + int i)) [0..<n]"
      by (simp add: upt_conv_Cons map_Suc_upt [symmetric] add.assoc del: upt_Suc)
    ultimately show ?case using Suc.prems by (simp add: next_month del: upt_Suc)
  qed simp
qed

theorem periods_tile_the_calendar_witness:
  "map_option (map (\<lambda>p. (pef_startDate p, pef_endDate p))) (next_periods 3 ''2023-12-31'' [])
    = Some [(''2024-01-01'', ''2024-01-31''), (''2024-02-01'', ''2024-02-29''), (''2024-03-01'', ''2024-03-31'')]"
proof -
  have "(1200::int) \<le> 24287" "(24287::int) + int 3 < 119988" by simp_all
  note w = conjunct1 [OF periods_tile_the_calendar [OF this, where years = "[]"]]
  have m: "month_last 24287 = ''2023-12-31''" "month_first 24288 = ''2024-01-01''" "month_last 24288 = ''2024-01-31''"
    "month_first 24289 = ''2024-02-01''" "month_last 24289 = ''2024-02-29''"
    "month_first 24290 = ''2024-03-01''" "month_last 24290 = ''2024-03-31''" by code_simp+
  have "[0..<3] = [0, 1, 2::nat]" by (simp add: upt_rec)
  then show ?thesis using w unfolding m by (simp add: month_period_def m)
qed

text \<open>The day before the anniversary of a date.\<close>

definition year_last :: "int \<Rightarrow> int \<Rightarrow> int \<Rightarrow> string" where
  "year_last y m d = iso_day (make_day y m (d - 1))"

lemma anniversary:
  assumes "valid_date y m d" "\<not> (m = 1 \<and> d = 29)" shows "valid_date y' m d"
proof (cases "m = 1")
  case True
  with assms show ?thesis by (auto simp: valid_date_def split: if_splits)
next
  case False
  with assms(1) month_length_bounds(3) [of m "leap y" "leap y'"] show ?thesis by (simp add: valid_date_def)
qed

lemma year_last_next:
  assumes "valid_date y m d" "100 < y" "y \<le> 9999"
  shows "in_calendar (make_day y m (d - 1))" "dayAfter (year_last y m d) = Some (iso_date y m d)"
proof -
  note c = in_calendar_make_day [OF assms(1)]
  have s: "make_day y m (d - 1) + 1 = make_day y m d" using make_day_shift [of y m "d - 1" 1] by simp
  have "year_start 100 < year_start y" "year_start y \<le> make_day y m d"
    using assms make_day_in_year(2) [OF assms(1)] by (auto intro: year_start_less)
  then show cal: "in_calendar (make_day y m (d - 1))"
    using c(1) assms s by (simp add: in_calendar_def)
  show "dayAfter (year_last y m d) = Some (iso_date y m d)"
    using daysAfter_day [OF cal, of 1] c assms by (simp add: dayAfter_def year_last_def s)
qed

lemma endOfYearFrom_year_last:
  assumes "valid_date y m d" "\<not> (m = 1 \<and> d = 29)" "100 \<le> y" "y < 9999"
  shows "endOfYearFrom (iso_date y m d) = Some (year_last (y + 1) m d)"
proof -
  have "valid_date (y + 1) m d" by (rule anniversary [OF assms(1,2)])
  then have cal: "in_calendar (make_day (y + 1) m (d - 1))" using assms by (intro year_last_next(1)) auto
  have b: "0 \<le> m" "m < 12" "1 \<le> d" "d \<le> 31"
    using assms(1) month_length_bounds(2) [of m "leap y"] by (auto simp: valid_date_def)
  show ?thesis
    using assms b cal parts_iso_date [of y m d]
    by (simp add: endOfYearFrom_def Date_UTC_in_calendar format_in_calendar year_last_def)
qed

definition year_fields :: "int \<Rightarrow> int \<Rightarrow> int \<Rightarrow> YearFields" where
  "year_fields y m d = \<lparr>yf_name = ''FY'' @ pad 4 y, yf_startDate = iso_date y m d, yf_endDate = year_last (y + 1) m d\<rparr>"

lemma next_year:
  assumes "valid_date y m d" "\<not> (m = 1 \<and> d = 29)" "100 < y" "y < 9999"
  shows "nextYearDefaults now (Some (year_last y m d)) = Some (year_fields y m d)"
proof -
  have b: "0 \<le> m" "m < 12" "1 \<le> d" "d \<le> 31"
    using assms(1) month_length_bounds(2) [of m "leap y"] by (auto simp: valid_date_def)
  have "take 4 (iso_date y m d) = pad 4 y" using iso_date_digits(1,3) [of y m d] b assms by simp
  then show ?thesis
    using year_last_next(2) [OF assms(1,3)] endOfYearFrom_year_last [OF assms(1,2)] assms
    by (simp add: nextYearDefaults_def year_fields_def)
qed

text \<open>Adding fiscal year after fiscal year with the proposed defaults leaves no gap: after a year
  that ends the day before some date of the calendar (other than 29 February), the next n proposals
  start on that date in n consecutive years, each ends the day before the next one starts, and each
  is named by the calendar year it starts in.\<close>

theorem years_follow_each_other:
  assumes "valid_date y m d" "\<not> (m = 1 \<and> d = 29)" "100 < y" "y + int n \<le> 9999"
  shows "next_years n (year_last y m d) = Some (map (\<lambda>i. year_fields (y + int i) m d) [0..<n])
    \<and> (\<forall>i < n. dayAfter (yf_endDate (year_fields (y + int i) m d)) = Some (iso_date (y + int i + 1) m d))"
proof (rule conjI)
  have v: "valid_date (y + i) m d" for i by (rule anniversary [OF assms(1,2)])
  show "\<forall>i < n. dayAfter (yf_endDate (year_fields (y + int i) m d)) = Some (iso_date (y + int i + 1) m d)"
    using assms(3,4) v [of "_ + 1"] year_last_next(2) [of "y + int _ + 1" m d]
    by (auto simp: year_fields_def add.assoc)
  show "next_years n (year_last y m d) = Some (map (\<lambda>i. year_fields (y + int i) m d) [0..<n])"
    using assms
  proof (induction n arbitrary: y)
    case (Suc n)
    have "next_years n (year_last (y + 1) m d) = Some (map (\<lambda>i. year_fields (y + 1 + int i) m d) [0..<n])"
      using Suc.prems by (intro Suc.IH anniversary [OF Suc.prems(1,2)]) auto
    moreover have "yf_endDate (year_fields y m d) = year_last (y + 1) m d" by (simp add: year_fields_def)
    moreover have "map (\<lambda>i. year_fields (y + int i) m d) [0..<Suc n]
        = year_fields y m d # map (\<lambda>i. year_fields (y + 1 + int i) m d) [0..<n]"
      by (simp add: upt_conv_Cons map_Suc_upt [symmetric] add.assoc del: upt_Suc)
    ultimately show ?case using Suc.prems by (simp add: next_year del: upt_Suc)
  qed simp
qed

theorem years_follow_each_other_witness:
  "next_years 2 ''2024-03-31'' = Some
    [\<lparr>yf_name = ''FY2024'', yf_startDate = ''2024-04-01'', yf_endDate = ''2025-03-31''\<rparr>,
     \<lparr>yf_name = ''FY2025'', yf_startDate = ''2025-04-01'', yf_endDate = ''2026-03-31''\<rparr>]"
proof -
  have "valid_date 2024 3 1" "\<not> ((3::int) = 1 \<and> (1::int) = 29)" "(100::int) < 2024" "(2024::int) + int 2 \<le> 9999"
    by code_simp+
  note w = conjunct1 [OF years_follow_each_other [OF this]]
  have m: "year_last 2024 3 1 = ''2024-03-31''"
    "year_fields 2024 3 1 = \<lparr>yf_name = ''FY2024'', yf_startDate = ''2024-04-01'', yf_endDate = ''2025-03-31''\<rparr>"
    "year_fields 2025 3 1 = \<lparr>yf_name = ''FY2025'', yf_startDate = ''2025-04-01'', yf_endDate = ''2026-03-31''\<rparr>"
    by code_simp+
  have "[0..<2] = [0, 1::nat]" by (simp add: upt_rec)
  then show ?thesis using w unfolding m by (simp add: m)
qed

text \<open>The year proposed for a new period covers its first day when a listed year does.\<close>

lemma covering_year_covers:
  assumes "fy \<in> set years" "fy_start_date fy \<le> start" "start \<le> fy_end_date fy"
  shows "\<exists>fy. covering_year start years = Some fy \<and> fy \<in> set years \<and> fy_start_date fy \<le> start \<and> start \<le> fy_end_date fy"
proof -
  let ?P = "\<lambda>fy. fy_start_date fy \<le> start \<and> start \<le> fy_end_date fy"
  have "find ?P years \<noteq> None" using assms by (auto simp: find_None_iff)
  then obtain fy where "find ?P years = Some fy" by auto
  moreover from this have "?P fy \<and> fy \<in> set years" by (auto simp: find_Some_iff)
  ultimately show ?thesis by (simp add: covering_year_def)
qed

section \<open>Closing a year\<close>

text \<open>An account the server listed as a postable, active equity account, and the requests the page
  makes.\<close>

definition listed_equity :: "(payload request \<Rightarrow> 'w \<Rightarrow> body reply \<times> 'w) \<Rightarrow> string \<Rightarrow> bool" where
  "listed_equity net v \<longleftrightarrow> (\<exists>b accts a. network b = net \<and> fst (listAccounts b) = Inr accts \<and> a \<in> set accts
     \<and> equity_account a \<and> v = show_int (acc_id a))"

definition close_request :: "int \<Rightarrow> int \<Rightarrow> payload request" where
  "close_request k account = body_request ''POST'' (''/fiscal-years/'' @ show_int k @ ''/close'')
     (Ledger_Payload (Retained_Earnings account))"

definition close_allowed :: "(payload request \<Rightarrow> 'w \<Rightarrow> body reply \<times> 'w) \<Rightarrow> int \<Rightarrow> payload request \<Rightarrow> bool" where
  "close_allowed net k rq \<longleftrightarrow> rq_method rq = ''GET'' \<or> (\<exists>v. listed_equity net v \<and> rq = close_request k (id_of v))"

definition close_ok :: "(payload request \<Rightarrow> 'w \<Rightarrow> body reply \<times> 'w) \<Rightarrow> int
    \<Rightarrow> FiscalYearClose \<times> string list \<times> ('w, payload, body) browser \<Rightarrow> bool" where
  "close_ok net k x \<longleftrightarrow> (case x of (s, pend, b) \<Rightarrow> network b = net
     \<and> (fc_accountId s = [] \<or> listed_equity net (fc_accountId s))
     \<and> (\<forall>as a. fc_equityAccounts s = Some as \<longrightarrow> a \<in> set as \<longrightarrow> listed_equity net (show_int (acc_id a)))
     \<and> (\<forall>v \<in> set pend. listed_equity net v) \<and> list_all (close_allowed net k) (sent b))"

lemma close_offers_pick:
  "offers (year_close_view s) (Pick_Equity v) \<longleftrightarrow> (\<exists>fy as. fc_year s = Some fy \<and> fc_equityAccounts s = Some as
     \<and> fy_status fy = ''open'' \<and> (\<exists>a \<in> set as. v = show_int (acc_id a)))"
  by (cases "fc_year s"; cases "fc_equityAccounts s")
    (auto simp: year_close_view_def close_form_view_def split: option.splits)

lemma close_offers_close:
  "offers (year_close_view s) (Close_Year v) \<longleftrightarrow> (\<exists>fy as. fc_year s = Some fy \<and> fc_equityAccounts s = Some as
     \<and> fy_status fy = ''open'' \<and> \<not> fc_closing s \<and> v = fc_accountId s \<and> v \<noteq> [])"
  by (cases "fc_year s"; cases "fc_equityAccounts s")
    (auto simp: year_close_view_def close_form_view_def split: option.splits)

lemma close_reads: "reads_only (both_io (getFiscalYear k) listAccounts)"
  unfolding getFiscalYear_def listAccounts_def by (intro reading)

lemma close_load_network: "network (snd (both_io (getFiscalYear k) listAccounts b)) = network b"
  by (rule reads_only_network [OF close_reads])

lemma close_settle_browser: "snd (close_settle route v (s, b)) = after_exchange (close_request (id_of route) (id_of v)) b"
  by (simp add: close_settle_def closeFiscalYear_def close_request_def prod_eq_iff split: prod.split sum.split)

interpretation close_page: exclusive_actions "close_effect route" "\<lambda>s. offers (year_close_view s)" close_action
    close_start "close_settle route" close_react "\<lambda>s. s = year_close_init" fc_closing for route
proof unfold_locales
  fix v s c e and b :: "('w, payload, body) browser"
  show "fc_closing (close_start v s)" by (simp add: close_start_def)
  show "fc_closing s \<Longrightarrow> offers (year_close_view s) e \<Longrightarrow> close_action e = None"
    by (cases e) (auto simp: close_offers_close)
  show "fc_closing (fst (close_effect route c (s, b))) = fc_closing s"
    by (auto simp: close_effect_def close_loaded_def Let_def split: prod.split sum.split option.split)
  show "close_action e = None \<Longrightarrow> fc_closing (close_react e s) = fc_closing s" by (cases e) auto
qed

lemma preferred_account_mem:
  assumes "preferred_account xs = Some a" shows "a \<in> set xs"
proof (cases "find (\<lambda>a. toLowerCase (acc_name a) = ''retained earnings'') xs")
  case None
  with assms show ?thesis by (cases xs) (auto simp: preferred_account_def)
next
  case (Some x)
  then have "x \<in> set xs" by (auto simp: find_Some_iff)
  with assms Some show ?thesis by (simp add: preferred_account_def)
qed

lemma close_ok_effect:
  assumes "close_ok net k (s, pend, b)" "close_effect route c (s, b) = (s', b')"
  shows "close_ok net k (s', pend, b')"
proof (cases "invalid_id route")
  case True
  with assms show ?thesis by (auto simp: close_effect_def close_ok_def)
next
  case False
  let ?load = "both_io (getFiscalYear (id_of route)) listAccounts"
  obtain r b1 where l: "?load b = (r, b1)" by (cases "?load b")
  then have s': "s' = close_loaded c r s" "b' = b1" using assms(2) False by (auto simp: close_effect_def)
  have b1: "b1 = snd (?load b)" using l by simp
  have n: "network b1 = net" unfolding b1 close_load_network using assms(1) by (simp add: close_ok_def)
  have "appends (close_allowed net k) b b1" unfolding b1
    by (rule appends_mono [OF reads_appends [OF close_reads]]) (simp add: close_allowed_def)
  then have sn: "list_all (close_allowed net k) (sent b1)" using assms(1) by (auto simp: close_ok_def dest: appends_sent)
  have le: "listed_equity net (show_int (acc_id a))" if r: "r = Inr (fy, accts)" and a: "a \<in> set accts" "equity_account a" for fy accts a
  proof -
    obtain b2 where g: "getFiscalYear (id_of route) b = (Inr fy, b2)" "listAccounts b2 = (Inr accts, b1)"
      using l r by (auto simp: both_io_result)
    then have "network b2 = net"
      using reads_only_network [of "getFiscalYear (id_of route)" b] assms(1)
      by (simp add: getFiscalYear_def reads_only_get close_ok_def)
    with g(2) a show ?thesis unfolding listed_equity_def by (intro exI [of _ b2] exI [of _ accts] exI [of _ a]) simp
  qed
  show ?thesis
  proof (cases r)
    case (Inl err)
    then show ?thesis using assms(1) n sn by (auto simp: close_ok_def s' close_loaded_def)
  next
    case (Inr x)
    then obtain fy accts where r: "r = Inr (fy, accts)" by (cases x) auto
    let ?eq = "filter equity_account accts"
    have pr: "listed_equity net (show_int (acc_id a))" if "preferred_account ?eq = Some a" for a
      using preferred_account_mem [OF that] le [OF r] by simp
    show ?thesis
    proof (cases c)
      case True
      then show ?thesis using assms(1) n sn by (auto simp: close_ok_def s' close_loaded_def r)
    next
      case False
      then show ?thesis
        using assms(1) n sn pr le [OF r]
        by (cases "preferred_account ?eq") (auto simp: close_ok_def s' close_loaded_def r Let_def)
    qed
  qed
qed

interpretation close_safe: invariant
    "\<lambda>x. opened (\<lambda>s. s = year_close_init) x \<and> network (snd (snd x)) = net"
    "close_move route" "close_ok net (id_of route)"
    for net :: "payload request \<Rightarrow> 'w \<Rightarrow> body reply \<times> 'w" and route
proof unfold_locales
  fix x x' :: "FiscalYearClose \<times> string list \<times> ('w, payload, body) browser"
  show "opened (\<lambda>s. s = year_close_init) x \<and> network (snd (snd x)) = net \<Longrightarrow> close_ok net (id_of route) x"
    by (auto simp: opened_def close_ok_def year_close_init_def split: prod.splits)
  assume ok: "close_ok net (id_of route) x" and m: "close_move route x x'"
  obtain s pend b s' pend' b' where e: "x = (s, pend, b)" "x' = (s', pend', b')" by (cases x, cases x')
  from m have "close_ok net (id_of route) (s', pend', b')"
    unfolding close_move_def e
  proof (cases rule: screen_move_cases)
    case (effect c)
    then show ?thesis using close_ok_effect ok unfolding e by blast
  next
    case (start ev v)
    then have "ev = Close_Year v" by (cases ev) auto
    with start have "v = fc_accountId s" "v \<noteq> []" by (auto simp: close_offers_close)
    then show ?thesis using start ok by (auto simp: e close_ok_def close_start_def)
  next
    case (settle v xs ys)
    then have "b' = after_exchange (close_request (id_of route) (id_of v)) b"
      using close_settle_browser [of route v s b] by simp
    moreover have "fc_accountId s' = fc_accountId s" "fc_equityAccounts s' = fc_equityAccounts s"
      using settle(1) by (auto simp: close_settle_def split: prod.splits sum.splits)
    moreover have "close_allowed net (id_of route) (close_request (id_of route) (id_of v))"
      using ok settle(2) by (auto simp: close_allowed_def close_ok_def e)
    ultimately show ?thesis using ok settle(2,3) by (auto simp: close_ok_def e)
  next
    case (react ev)
    then obtain v where v: "ev = Pick_Equity v" by (cases ev) auto
    with react(1) obtain as a where "fc_equityAccounts s = Some as" "a \<in> set as" "v = show_int (acc_id a)"
      by (auto simp: close_offers_pick)
    then have "listed_equity net v" using ok by (auto simp: close_ok_def e)
    then show ?thesis using react v ok by (auto simp: close_ok_def e)
  qed
  then show "close_ok net (id_of route) x'" by (simp add: e)
qed

text \<open>C29. Closing a year is guarded: in every state the page reaches, at most one closing is in
  flight, closing is offered only for the selected account of a loaded year that is open with
  nothing in flight, and every request it has made reads, or closes the year of the route into an
  account this server listed as a postable, active equity account.\<close>

theorem close_into_equity:
  assumes "reachable (\<lambda>x. opened (\<lambda>s. s = year_close_init) x \<and> network (snd (snd x)) = net) (close_move route) (s, pend, b)"
  shows "length pend \<le> 1
    \<and> (offers (year_close_view s) (Close_Year v) \<longrightarrow> pend = [] \<and> v = fc_accountId s \<and> listed_equity net v
        \<and> (\<exists>fy. fc_year s = Some fy \<and> fy_status fy = ''open''))
    \<and> list_all (close_allowed net (id_of route)) (sent b)"
proof (intro conjI)
  have ok: "close_ok net (id_of route) (s, pend, b)" by (rule close_safe.reachable_inv [OF assms])
  have "reachable (opened (\<lambda>s. s = year_close_init)) (close_move route) (s, pend, b)"
    by (rule reachable_weaken [OF assms]) simp
  note one = close_page.at_most_one [OF this [unfolded close_move_def]]
  show "length pend \<le> 1" using one by simp
  have "offers (year_close_view s) (Close_Year v) \<Longrightarrow> pend = []" using one by fastforce
  then show "offers (year_close_view s) (Close_Year v) \<longrightarrow> pend = [] \<and> v = fc_accountId s \<and> listed_equity net v
        \<and> (\<exists>fy. fc_year s = Some fy \<and> fy_status fy = ''open'')"
    using ok by (auto simp: close_offers_close close_ok_def)
  show "list_all (close_allowed net (id_of route)) (sent b)" using ok by (simp add: close_ok_def)
qed

definition open_year :: FiscalYear where
  "open_year = \<lparr>fy_id = 7, fy_name = ''FY2024'', fy_start_date = ''2024-01-01'', fy_end_date = ''2024-12-31'',
     fy_status = ''open''\<rparr>"

definition retained_earnings :: Account where
  "retained_earnings = \<lparr>acc_id = 3, acc_code = ''3100'', acc_name = ''Retained Earnings'',
     acc_account_type = ''equity'', acc_parent_id = None, acc_currency_code = None, acc_is_postable = True,
     acc_is_active = True, acc_is_cash = False, acc_cash_flow_activity = ''financing''\<rparr>"

definition close_server :: "string \<Rightarrow> body" where
  "close_server path = (if path = ''/api/accounts'' then Master (Account_List [retained_earnings])
     else Ledger (FiscalYear_Body open_year))"

theorem close_into_equity_witness:
  "\<exists>s b. reachable (\<lambda>x. opened (\<lambda>s. s = year_close_init) x \<and> network (snd (snd x)) = answering close_server)
      (close_move ''7'') (s, [], (b :: (unit, payload, body) browser))
    \<and> offers (year_close_view s) (Close_Year ''3'') \<and> fc_accountId s = ''3''"
proof -
  let ?net = "answering close_server :: payload request \<Rightarrow> unit \<Rightarrow> body reply \<times> unit"
  let ?b = "\<lparr>network = ?net, world = (), sent = [], events = []\<rparr> :: (unit, payload, body) browser"
  let ?R = "reachable (\<lambda>x. opened (\<lambda>s. s = year_close_init) x \<and> network (snd (snd x)) = ?net) (close_move ''7'')"
  let ?s = "close_loaded False (Inr (open_year, [retained_earnings])) year_close_init"
  have start: "?R (year_close_init, [], ?b)" by (rule reachable.starting) (simp add: opened_def)
  have k: "invalid_id ''7'' = False" "id_of ''7'' = 7" by code_simp+
  have "\<exists>b. close_effect ''7'' False (year_close_init, ?b) = (?s, b)"
    by (simp add: close_effect_def k both_io_def getFiscalYear_def listAccounts_def get_answering ledger_as_def
        master_as_def BASE_def close_server_def show_7)
  then obtain b where "close_effect ''7'' False (year_close_init, ?b) = (?s, b)" by blast
  then have "close_move ''7'' (year_close_init, [], ?b) (?s, [], b)"
    unfolding close_move_def by (rule screen_move.effect)
  with start have r: "?R (?s, [], b)" by (rule reachable.moving)
  have v: "fc_year ?s = Some open_year" "fc_equityAccounts ?s = Some [retained_earnings]" "fc_accountId ?s = ''3''"
    "\<not> fc_closing ?s" "fy_status open_year = ''open''" by code_simp+
  then have o': "offers (year_close_view ?s) (Close_Year ''3'')" by (simp add: close_offers_close)
  have "fc_accountId ?s = ''3''" using close_into_equity [OF r, of "''3''"] o' by simp
  with r o' show ?thesis by blast
qed

end
