(* ===== verification/Periods.thy ===== *)
theory Periods
  imports Calendar_Forms
begin

text \<open>
  The fiscal calendar screen (\<open>web/src/components/periods.tsx\<close>): the fiscal years with their periods,
  the toggle that closes or reopens a period, and the reopening of a closed year. Several toggles
  may be in flight at once.
\<close>

section \<open>State and loading\<close>

record Periods =
  pr_years :: "FiscalYear list option"
  pr_periods :: "AccountingPeriod list option"
  pr_error :: "string option"
  pr_togglingId :: "int option"
  pr_toggleError :: "string option"
  pr_reopeningId :: "int option"
  pr_reopenError :: "string option"

definition periods_init :: Periods where
  "periods_init = \<lparr>pr_years = None, pr_periods = None, pr_error = None, pr_togglingId = None,
     pr_toggleError = None, pr_reopeningId = None, pr_reopenError = None\<rparr>"

definition load_calendar :: "('w, FiscalYear list \<times> AccountingPeriod list) call" where
  "load_calendar = both_io listFiscalYears listAccountingPeriods"

definition show_calendar :: "FiscalYear list \<times> AccountingPeriod list \<Rightarrow> Periods \<Rightarrow> Periods" where
  "show_calendar data s = s\<lparr>pr_years := Some (fst data), pr_periods := Some (snd data)\<rparr>"

definition periods_effect :: "bool \<Rightarrow> Periods \<times> ('w, payload, body) browser \<Rightarrow> Periods \<times> ('w, payload, body) browser" where
  "periods_effect cancelled x = (case x of (s, b) \<Rightarrow>
     (case load_calendar b of
        (Inr data, b) \<Rightarrow> (if cancelled then s else show_calendar data s, b)
      | (Inl err, b) \<Rightarrow> (if cancelled then s else s\<lparr>pr_error := Some (error_message err)\<rparr>, b)))"

section \<open>The actions\<close>

text \<open>An action holds the record its row was rendered with.\<close>

datatype periods_action = Toggle_Status AccountingPeriod | Reopen_Year FiscalYear

definition toggled :: "AccountingPeriod \<Rightarrow> string" where
  "toggled p = (if ap_status p = ''open'' then ''closed'' else ''open'')"

definition toggle_input :: "AccountingPeriod \<Rightarrow> AccountingPeriodInput" where
  "toggle_input p = \<lparr>api_fiscal_year_id = ap_fiscal_year_id p, api_name = ap_name p,
     api_start_date = ap_start_date p, api_end_date = ap_end_date p, api_status = toggled p\<rparr>"

definition periods_start :: "periods_action \<Rightarrow> Periods \<Rightarrow> Periods" where
  "periods_start a s = (case a of
       Toggle_Status p \<Rightarrow> s\<lparr>pr_togglingId := Some (ap_id p), pr_toggleError := None\<rparr>
     | Reopen_Year fy \<Rightarrow> s\<lparr>pr_reopeningId := Some (fy_id fy), pr_reopenError := None\<rparr>)"

text \<open>\<open>prev?.map((x) => (x.id === p.id ? { ...x, status } : x)) ?? prev\<close>\<close>

definition patch_status :: "AccountingPeriod \<Rightarrow> AccountingPeriod list \<Rightarrow> AccountingPeriod list" where
  "patch_status p = map (\<lambda>x. if ap_id x = ap_id p then x\<lparr>ap_status := toggled p\<rparr> else x)"

definition periods_settle :: "periods_action \<Rightarrow> Periods \<times> ('w, payload, body) browser
    \<Rightarrow> Periods \<times> ('w, payload, body) browser" where
  "periods_settle a x = (case x of (s, b) \<Rightarrow> (case a of
       Toggle_Status p \<Rightarrow>
         (case updateAccountingPeriod (ap_id p) (toggle_input p) b of
            (Inr _, b) \<Rightarrow> (s\<lparr>pr_periods := map_option (patch_status p) (pr_periods s), pr_togglingId := None\<rparr>, b)
          | (Inl err, b) \<Rightarrow> (s\<lparr>pr_toggleError := Some (save_message err), pr_togglingId := None\<rparr>, b))
     | Reopen_Year fy \<Rightarrow>
         (case then_load (reopenFiscalYear (fy_id fy)) load_calendar b of
            (Inr data, b) \<Rightarrow> ((show_calendar data s)\<lparr>pr_reopeningId := None\<rparr>, b)
          | (Inl err, b) \<Rightarrow> (s\<lparr>pr_reopenError := Some (save_message err), pr_reopeningId := None\<rparr>, b))))"

section \<open>The screen\<close>

definition period_row_view :: "Periods \<Rightarrow> FiscalYear \<Rightarrow> AccountingPeriod \<Rightarrow> periods_action element list" where
  "period_row_view s fy p =
     [Table [''Period'', ''Start'', ''End'', ''Status''] [[ap_name p, ap_start_date p, ap_end_date p, ap_status p]],
      Button (if ap_status p = ''open'' then ''Close'' else ''Reopen'')
        (pr_togglingId s = Some (ap_id p) \<or> fy_status fy = ''closed'') (Toggle_Status p),
      Link ''Edit'' (''/periods/'' @ show_int (ap_id p))]"

definition fiscal_year_view :: "bool \<Rightarrow> Periods \<Rightarrow> AccountingPeriod list \<Rightarrow> FiscalYear \<Rightarrow> periods_action element list" where
  "fiscal_year_view is_admin s periods fy =
     (let fyPeriods = filter (\<lambda>p. ap_fiscal_year_id p = fy_id fy) periods in
      [Heading (fy_name fy), Note (fy_start_date fy @ '' -> '' @ fy_end_date fy), Datum ''status'' (fy_status fy)]
      @ guarded is_admin
          [if fy_status fy = ''open'' then Link ''Close year'' (''/fiscal-years/'' @ show_int (fy_id fy) @ ''/close'')
           else Button ''Reopen year'' (pr_reopeningId s = Some (fy_id fy)) (Reopen_Year fy)]
      @ [Link ''Edit'' (''/fiscal-years/'' @ show_int (fy_id fy))]
      @ (if fyPeriods = [] then [Note ''No periods in this fiscal year yet.'']
         else concat (map (period_row_view s fy) fyPeriods)))"

definition periods_view :: "bool \<Rightarrow> Periods \<Rightarrow> periods_action element list" where
  "periods_view is_admin s =
     [Heading ''Periods'',
      Note (''The fiscal calendar. Documents can only post into an open period, so each new month ''
        @ ''needs a period here before anything can post in it.''),
      Link ''New period'' ''/periods/new'', Link ''New fiscal year'' ''/fiscal-years/new'']
     @ (case pr_error s of None \<Rightarrow> [] | Some e \<Rightarrow> [Alert (''Failed to load periods: '' @ e)])
     @ guarded (pr_error s = None \<and> (pr_years s = None \<or> pr_periods s = None)) [Note ''Loading...'']
     @ guarded (pr_periods s \<noteq> None \<and> pr_years s = Some [])
         [Note ''No fiscal years yet. Create one, then add its periods.'']
     @ (case pr_toggleError s of None \<Rightarrow> [] | Some e \<Rightarrow> [Alert (''Failed to update period: '' @ e)])
     @ (case pr_reopenError s of None \<Rightarrow> [] | Some e \<Rightarrow> [Alert (''Failed to reopen fiscal year: '' @ e)])
     @ (case (pr_years s, pr_periods s) of
          (Some years, Some periods) \<Rightarrow> concat (map (fiscal_year_view is_admin s periods) years)
        | _ \<Rightarrow> [])"

definition periods_move :: "bool \<Rightarrow> Periods \<times> periods_action list \<times> ('w, payload, body) browser
    \<Rightarrow> Periods \<times> periods_action list \<times> ('w, payload, body) browser \<Rightarrow> bool" where
  "periods_move is_admin = screen_move periods_effect (\<lambda>s. offers (periods_view is_admin s)) Some
     periods_start periods_settle (\<lambda>_ s. s)"

section \<open>What is offered and what is sent\<close>

definition periods_permits :: "bool \<Rightarrow> Periods \<Rightarrow> periods_action \<Rightarrow> bool" where
  "periods_permits is_admin s a = (case (pr_years s, pr_periods s) of
       (Some years, Some periods) \<Rightarrow> (case a of
           Toggle_Status p \<Rightarrow> p \<in> set periods \<and> pr_togglingId s \<noteq> Some (ap_id p)
             \<and> (\<exists>fy \<in> set years. fy_id fy = ap_fiscal_year_id p \<and> fy_status fy \<noteq> ''closed'')
         | Reopen_Year fy \<Rightarrow> fy \<in> set years \<and> is_admin \<and> fy_status fy \<noteq> ''open'' \<and> pr_reopeningId s \<noteq> Some (fy_id fy))
     | _ \<Rightarrow> False)"

lemma periods_offers: "offers (periods_view is_admin s) a \<longleftrightarrow> periods_permits is_admin s a"
proof (cases "pr_years s"; cases "pr_periods s")
  fix years periods assume y: "pr_years s = Some years" and p: "pr_periods s = Some periods"
  have f: "offers (fiscal_year_view is_admin s periods fy) a \<longleftrightarrow>
      (\<exists>q \<in> set periods. ap_fiscal_year_id q = fy_id fy \<and> a = Toggle_Status q \<and> pr_togglingId s \<noteq> Some (ap_id q)
         \<and> fy_status fy \<noteq> ''closed'')
      \<or> a = Reopen_Year fy \<and> is_admin \<and> fy_status fy \<noteq> ''open'' \<and> pr_reopeningId s \<noteq> Some (fy_id fy)" for fy
    by (auto simp: fiscal_year_view_def period_row_view_def offers_concat Let_def filter_empty_conv)
  have "offers (periods_view is_admin s) a \<longleftrightarrow> (\<exists>fy \<in> set years. offers (fiscal_year_view is_admin s periods fy) a)"
    using y p by (auto simp: periods_view_def offers_concat split: option.splits)
  then show ?thesis
    unfolding f using y p by (cases a) (auto simp: periods_permits_def)
qed (auto simp: periods_view_def periods_permits_def split: option.splits)

text \<open>A period and a year as this server has listed them, the period up to its status.\<close>

definition listed_period :: "(payload request \<Rightarrow> 'w \<Rightarrow> body reply \<times> 'w) \<Rightarrow> AccountingPeriod \<Rightarrow> bool" where
  "listed_period net p \<longleftrightarrow> (\<exists>b ps q. network b = net \<and> fst (listAccountingPeriods b) = Inr ps \<and> q \<in> set ps
     \<and> q\<lparr>ap_status := ap_status p\<rparr> = p)"

definition toggle_request :: "AccountingPeriod \<Rightarrow> payload request" where
  "toggle_request p = body_request ''PUT'' (''/accounting-periods/'' @ show_int (ap_id p))
     (Ledger_Payload (AccountingPeriodInput_Payload (toggle_input p)))"

definition reopen_request :: "FiscalYear \<Rightarrow> payload request" where
  "reopen_request fy = body_request ''POST'' (''/fiscal-years/'' @ show_int (fy_id fy) @ ''/reopen'') Empty_Object"

definition periods_allowed :: "(payload request \<Rightarrow> 'w \<Rightarrow> body reply \<times> 'w) \<Rightarrow> bool \<Rightarrow> payload request \<Rightarrow> bool" where
  "periods_allowed net is_admin rq \<longleftrightarrow> rq_method rq = ''GET'' \<or> (\<exists>p. listed_period net p \<and> rq = toggle_request p)
     \<or> (is_admin \<and> (\<exists>fy. fy_status fy \<noteq> ''open'' \<and> rq = reopen_request fy))"

fun action_ok :: "(payload request \<Rightarrow> 'w \<Rightarrow> body reply \<times> 'w) \<Rightarrow> bool \<Rightarrow> periods_action \<Rightarrow> bool" where
  "action_ok net is_admin (Toggle_Status p) \<longleftrightarrow> listed_period net p"
| "action_ok net is_admin (Reopen_Year fy) \<longleftrightarrow> is_admin \<and> fy_status fy \<noteq> ''open''"

definition periods_ok :: "(payload request \<Rightarrow> 'w \<Rightarrow> body reply \<times> 'w) \<Rightarrow> bool
    \<Rightarrow> Periods \<times> periods_action list \<times> ('w, payload, body) browser \<Rightarrow> bool" where
  "periods_ok net is_admin x \<longleftrightarrow> (case x of (s, pend, b) \<Rightarrow> network b = net
     \<and> (\<forall>ps p. pr_periods s = Some ps \<longrightarrow> p \<in> set ps \<longrightarrow> listed_period net p)
     \<and> (\<forall>a \<in> set pend. action_ok net is_admin a) \<and> list_all (periods_allowed net is_admin) (sent b))"

lemma load_calendar_reads: "reads_only load_calendar"
  unfolding load_calendar_def listFiscalYears_def listAccountingPeriods_def by (intro reading)

lemma load_calendar_ok:
  assumes "network b = net" "list_all (periods_allowed net is_admin) (sent b)" "load_calendar b = (r, b')"
  shows "network b' = net" "list_all (periods_allowed net is_admin) (sent b')"
    "r = Inr (fys, ps) \<Longrightarrow> p \<in> set ps \<Longrightarrow> listed_period net p"
proof -
  have b': "b' = snd (load_calendar b)" using assms(3) by simp
  show "network b' = net" unfolding b' using reads_only_network [OF load_calendar_reads, of b] assms(1) by simp
  have "appends (periods_allowed net is_admin) b b'" unfolding b'
    by (rule appends_mono [OF reads_appends [OF load_calendar_reads]]) (simp add: periods_allowed_def)
  then show "list_all (periods_allowed net is_admin) (sent b')" using assms(2) by (rule appends_sent)
  assume r: "r = Inr (fys, ps)" and p: "p \<in> set ps"
  with assms(3) obtain b1 where l: "listFiscalYears b = (Inr fys, b1)" "listAccountingPeriods b1 = (Inr ps, b')"
    by (auto simp: load_calendar_def both_io_result)
  then have "network b1 = net"
    using reads_only_network [of listFiscalYears b] assms(1) by (simp add: listFiscalYears_def reads_only_get)
  with l(2) p show "listed_period net p"
    unfolding listed_period_def by (intro exI [of _ b1] exI [of _ ps] exI [of _ p]) simp
qed

lemma patch_status_listed:
  assumes "\<And>p. p \<in> set ps \<Longrightarrow> listed_period net p" "q \<in> set (patch_status p ps)"
  shows "listed_period net q"
proof -
  from assms(2) obtain x where x: "x \<in> set ps" "q = x \<or> q = x\<lparr>ap_status := toggled p\<rparr>"
    by (auto simp: patch_status_def split: if_splits)
  from assms(1) [OF x(1)] obtain b qs y where "network b = net" "fst (listAccountingPeriods b) = Inr qs" "y \<in> set qs"
    "y\<lparr>ap_status := ap_status x\<rparr> = x" unfolding listed_period_def by blast
  moreover from this(4) x(2) have "y\<lparr>ap_status := ap_status q\<rparr> = q" by (cases x; cases y) auto
  ultimately show ?thesis unfolding listed_period_def by blast
qed

lemma periods_ok_settle:
  assumes ok: "periods_ok net is_admin (s, xs @ a # ys, b)" and st: "periods_settle a (s, b) = (s', b')"
  shows "periods_ok net is_admin (s', xs @ ys, b')"
proof -
  have n: "network b = net" and sn: "list_all (periods_allowed net is_admin) (sent b)"
    and ps: "\<And>ps p. pr_periods s = Some ps \<Longrightarrow> p \<in> set ps \<Longrightarrow> listed_period net p"
    and ao: "action_ok net is_admin a" and pend: "\<forall>a \<in> set (xs @ ys). action_ok net is_admin a"
    using ok by (auto simp: periods_ok_def)
  show ?thesis
  proof (cases a)
    case (Toggle_Status p)
    have l: "listed_period net p" using ao Toggle_Status by simp
    obtain r b1 where c: "updateAccountingPeriod (ap_id p) (toggle_input p) b = (r, b1)"
      by (cases "updateAccountingPeriod (ap_id p) (toggle_input p) b")
    have "snd (updateAccountingPeriod (ap_id p) (toggle_input p) b) = after_exchange (toggle_request p) b"
      by (simp add: updateAccountingPeriod_def toggle_request_def)
    with c have b1: "b1 = after_exchange (toggle_request p) b" by simp
    have b': "b' = b1" using st c by (auto simp: periods_settle_def Toggle_Status split: sum.splits)
    have "listed_period net q" if qs: "pr_periods s' = Some qs" and q: "q \<in> set qs" for qs q
    proof (cases "pr_periods s' = pr_periods s")
      case True
      then have "pr_periods s = Some qs" using qs by simp
      then show ?thesis using q by (rule ps)
    next
      case False
      then obtain old where "pr_periods s = Some old" "qs = patch_status p old"
        using st c qs by (cases "pr_periods s") (auto simp: periods_settle_def Toggle_Status split: sum.splits)
      then show ?thesis using ps patch_status_listed [of old net q p] q by blast
    qed
    moreover have "periods_allowed net is_admin (toggle_request p)" using l by (auto simp: periods_allowed_def)
    ultimately show ?thesis using n sn pend by (auto simp: periods_ok_def b' b1)
  next
    case (Reopen_Year fy)
    obtain r b1 where c: "reopenFiscalYear (fy_id fy) b = (r, b1)" by (cases "reopenFiscalYear (fy_id fy) b")
    have "snd (reopenFiscalYear (fy_id fy) b) = after_exchange (reopen_request fy) b"
      by (simp add: reopenFiscalYear_def reopen_request_def)
    with c have b1: "b1 = after_exchange (reopen_request fy) b" by simp
    have "periods_allowed net is_admin (reopen_request fy)" using ao Reopen_Year by (auto simp: periods_allowed_def)
    then have n1: "network b1 = net" and s1: "list_all (periods_allowed net is_admin) (sent b1)" using n sn b1 by simp_all
    show ?thesis
    proof (cases r)
      case (Inl e)
      then have "pr_periods s' = pr_periods s" "b' = b1"
        using st c by (auto simp: periods_settle_def Reopen_Year then_load_result)
      then show ?thesis using n1 s1 ps pend by (auto simp: periods_ok_def)
    next
      case (Inr x)
      obtain q b2 where l: "load_calendar b1 = (q, b2)" by (cases "load_calendar b1")
      have b2: "b' = b2" using st c l Inr by (auto simp: periods_settle_def Reopen_Year then_load_result split: sum.splits)
      note k = load_calendar_ok [OF n1 s1 l]
      show ?thesis
      proof (cases q)
        case (Inl e)
        then have "pr_periods s' = pr_periods s"
          using st c l Inr by (auto simp: periods_settle_def Reopen_Year then_load_result)
        then show ?thesis using k(1,2) ps pend by (auto simp: periods_ok_def b2)
      next
        case d: (Inr data)
        then have "pr_periods s' = Some (snd data)"
          using st c l Inr by (auto simp: periods_settle_def Reopen_Year then_load_result show_calendar_def)
        moreover have "listed_period net p" if "p \<in> set (snd data)" for p
          using k(3) [of "fst data" "snd data"] d that by simp
        ultimately show ?thesis using k(1,2) pend by (auto simp: periods_ok_def b2)
      qed
    qed
  qed
qed

interpretation periods_safe: invariant
    "\<lambda>x. opened (\<lambda>s. s = periods_init) x \<and> network (snd (snd x)) = net"
    "periods_move is_admin" "periods_ok net is_admin"
    for net :: "payload request \<Rightarrow> 'w \<Rightarrow> body reply \<times> 'w" and is_admin
proof unfold_locales
  fix x x' :: "Periods \<times> periods_action list \<times> ('w, payload, body) browser"
  show "opened (\<lambda>s. s = periods_init) x \<and> network (snd (snd x)) = net \<Longrightarrow> periods_ok net is_admin x"
    by (auto simp: opened_def periods_ok_def periods_init_def split: prod.splits)
  assume ok: "periods_ok net is_admin x" and m: "periods_move is_admin x x'"
  obtain s pend b s' pend' b' where e: "x = (s, pend, b)" "x' = (s', pend', b')" by (cases x, cases x')
  from m have "periods_ok net is_admin (s', pend', b')"
    unfolding periods_move_def e
  proof (cases rule: screen_move_cases)
    case (effect c)
    obtain q b1 where l: "load_calendar b = (q, b1)" by (cases "load_calendar b")
    have n: "network b = net" "list_all (periods_allowed net is_admin) (sent b)" using ok by (auto simp: periods_ok_def e)
    note k = load_calendar_ok [OF n l]
    have b1: "b' = b1" using effect l by (auto simp: periods_effect_def split: sum.splits)
    have "pr_periods s' = pr_periods s \<or> (\<exists>data. q = Inr data \<and> pr_periods s' = Some (snd data))"
      using effect l by (auto simp: periods_effect_def show_calendar_def split: sum.splits if_splits)
    moreover have "listed_period net p" if "q = Inr data" "p \<in> set (snd data)" for data p
      using k(3) [of "fst data" "snd data"] that by simp
    ultimately show ?thesis using ok k(1,2) effect(2) by (auto simp: periods_ok_def e b1)
  next
    case (start ev a)
    then have a: "periods_permits is_admin s a" by (simp add: periods_offers)
    have "pr_periods s' = pr_periods s" using start by (simp add: periods_start_def split: periods_action.split)
    moreover have "action_ok net is_admin a"
      using a ok by (cases a; cases "pr_years s"; cases "pr_periods s") (auto simp: periods_permits_def periods_ok_def e)
    ultimately show ?thesis using start ok by (auto simp: periods_ok_def e)
  next
    case (settle a xs ys)
    then show ?thesis using periods_ok_settle ok unfolding e by blast
  qed simp
  then show "periods_ok net is_admin x'" by (simp add: e)
qed

text \<open>The calendar screen changes a period only by its status: in every state it reaches, a toggle
  is offered exactly for a shown period of a shown year that is not closed, unless it is the one
  marked as toggling; reopening is offered to administrators for years that are not open; and every
  request it has made reads, updates a period this server has listed leaving its year, name and
  dates as listed, or, for an administrator, reopens a year.\<close>

theorem periods_only_toggle:
  assumes "reachable (\<lambda>x. opened (\<lambda>s. s = periods_init) x \<and> network (snd (snd x)) = net)
      (periods_move is_admin) (s, pend, b)"
  shows "(offers (periods_view is_admin s) a \<longleftrightarrow> periods_permits is_admin s a)
    \<and> list_all (\<lambda>rq. rq_method rq = ''GET''
        \<or> (\<exists>p. listed_period net p \<and> rq = toggle_request p \<and> api_name (toggle_input p) = ap_name p
            \<and> api_start_date (toggle_input p) = ap_start_date p \<and> api_end_date (toggle_input p) = ap_end_date p
            \<and> api_fiscal_year_id (toggle_input p) = ap_fiscal_year_id p \<and> api_status (toggle_input p) \<noteq> ap_status p)
        \<or> is_admin \<and> (\<exists>fy. fy_status fy \<noteq> ''open'' \<and> rq = reopen_request fy)) (sent b)"
proof
  show "offers (periods_view is_admin s) a \<longleftrightarrow> periods_permits is_admin s a" by (rule periods_offers)
  have "periods_ok net is_admin (s, pend, b)" by (rule periods_safe.reachable_inv [OF assms])
  then have "list_all (periods_allowed net is_admin) (sent b)" by (simp add: periods_ok_def)
  moreover have "api_status (toggle_input p) \<noteq> ap_status p" for p by (auto simp: toggle_input_def toggled_def)
  ultimately show "list_all (\<lambda>rq. rq_method rq = ''GET''
        \<or> (\<exists>p. listed_period net p \<and> rq = toggle_request p \<and> api_name (toggle_input p) = ap_name p
            \<and> api_start_date (toggle_input p) = ap_start_date p \<and> api_end_date (toggle_input p) = ap_end_date p
            \<and> api_fiscal_year_id (toggle_input p) = ap_fiscal_year_id p \<and> api_status (toggle_input p) \<noteq> ap_status p)
        \<or> is_admin \<and> (\<exists>fy. fy_status fy \<noteq> ''open'' \<and> rq = reopen_request fy)) (sent b)"
    by (auto simp: list_all_iff periods_allowed_def toggle_input_def)
qed

definition sample_period :: "int \<Rightarrow> AccountingPeriod" where
  "sample_period i = \<lparr>ap_id = i, ap_fiscal_year_id = 7, ap_name = ''2024-01'', ap_start_date = ''2024-01-01'',
     ap_end_date = ''2024-01-31'', ap_status = ''open''\<rparr>"

definition calendar_server :: "string \<Rightarrow> body" where
  "calendar_server path = (if path = ''/api/fiscal-years'' then Ledger (FiscalYear_List [open_year])
     else Ledger (AccountingPeriod_List [sample_period 5, sample_period 6]))"

abbreviation shown_calendar :: Periods where
  "shown_calendar \<equiv> show_calendar ([open_year], [sample_period 5, sample_period 6]) periods_init"

lemma calendar_shown:
  "\<exists>b. reachable (\<lambda>x. opened (\<lambda>s. s = periods_init) x \<and> network (snd (snd x)) = answering calendar_server)
      (periods_move False) (shown_calendar, [], (b :: (unit, payload, body) browser))"
proof -
  let ?net = "answering calendar_server :: payload request \<Rightarrow> unit \<Rightarrow> body reply \<times> unit"
  let ?b = "\<lparr>network = ?net, world = (), sent = [], events = []\<rparr> :: (unit, payload, body) browser"
  let ?R = "reachable (\<lambda>x. opened (\<lambda>s. s = periods_init) x \<and> network (snd (snd x)) = ?net) (periods_move False)"
  have start: "?R (periods_init, [], ?b)" by (rule reachable.starting) (simp add: opened_def)
  have "\<exists>b. periods_effect False (periods_init, ?b) = (shown_calendar, b)"
    by (simp add: periods_effect_def load_calendar_def both_io_def listFiscalYears_def listAccountingPeriods_def
        get_answering ledger_as_def BASE_def calendar_server_def)
  then obtain b where "periods_effect False (periods_init, ?b) = (shown_calendar, b)" by blast
  then have "periods_move False (periods_init, [], ?b) (shown_calendar, [], b)"
    unfolding periods_move_def by (rule screen_move.effect)
  with start have "?R (shown_calendar, [], b)" by (rule reachable.moving)
  then show ?thesis by blast
qed

theorem periods_only_toggle_witness:
  "offers (periods_view False shown_calendar) (Toggle_Status (sample_period 5))
    \<and> \<not> offers (periods_view False shown_calendar) (Reopen_Year open_year)"
proof -
  obtain b :: "(unit, payload, body) browser" where
    r: "reachable (\<lambda>x. opened (\<lambda>s. s = periods_init) x \<and> network (snd (snd x)) = answering calendar_server)
      (periods_move False) (shown_calendar, [], b)" using calendar_shown by blast
  have "periods_permits False shown_calendar (Toggle_Status (sample_period 5))"
    "\<not> periods_permits False shown_calendar (Reopen_Year open_year)" by code_simp+
  then show ?thesis
    using periods_only_toggle [OF r, of "Toggle_Status (sample_period 5)"] periods_only_toggle [OF r, of "Reopen_Year open_year"]
    by simp
qed

text \<open>The marker of the toggle in flight is one id for all periods: with two toggles in flight, the
  first to settle clears it, and the other period is offered for toggling again while its own
  update is still in flight.\<close>

theorem toggle_marker_forgets:
  "\<exists>s (b :: (unit, payload, body) browser).
    reachable (\<lambda>x. opened (\<lambda>s. s = periods_init) x \<and> network (snd (snd x)) = answering calendar_server)
      (periods_move False) (s, [Toggle_Status (sample_period 6)], b)
    \<and> pr_togglingId s = None \<and> offers (periods_view False s) (Toggle_Status (sample_period 6))"
proof -
  let ?a = "Toggle_Status (sample_period 5)" and ?a' = "Toggle_Status (sample_period 6)"
  obtain b :: "(unit, payload, body) browser" where
    r: "reachable (\<lambda>x. opened (\<lambda>s. s = periods_init) x \<and> network (snd (snd x)) = answering calendar_server)
      (periods_move False) (shown_calendar, [], b)" using calendar_shown by blast
  let ?R = "reachable (\<lambda>x. opened (\<lambda>s. s = periods_init) x
      \<and> network (snd (snd (x :: Periods \<times> periods_action list \<times> (unit, payload, body) browser))) = answering calendar_server)
      (periods_move False)"
  let ?s1 = "periods_start ?a shown_calendar" and ?s2 = "periods_start ?a' (periods_start ?a shown_calendar)"
  have "periods_permits False shown_calendar ?a" by code_simp
  then have "periods_move False (shown_calendar, [], b) (?s1, [] @ [?a], b)"
    unfolding periods_move_def by (intro screen_move.start) (simp_all add: periods_offers)
  with r have r1: "?R (?s1, [] @ [?a], b)" by (rule reachable.moving)
  have "periods_permits False ?s1 ?a'" by code_simp
  then have "periods_move False (?s1, [] @ [?a], b) (?s2, ([] @ [?a]) @ [?a'], b)"
    unfolding periods_move_def by (intro screen_move.start) (simp_all add: periods_offers)
  with r1 have r2: "?R (?s2, [] @ ?a # [?a'], b)" by (rule_tac reachable.moving) simp_all
  obtain s3 b3 where st: "periods_settle ?a (?s2, b) = (s3, b3)" by (cases "periods_settle ?a (?s2, b)")
  then have "periods_move False (?s2, [] @ ?a # [?a'], b) (s3, [] @ [?a'], b3)"
    unfolding periods_move_def by (rule screen_move.settle)
  with r2 have r3: "?R (s3, [?a'], b3)" by (rule_tac reachable.moving) simp_all
  have s3: "pr_togglingId s3 = None" "pr_years s3 = Some [open_year]"
    "pr_periods s3 = pr_periods shown_calendar \<or> pr_periods s3 = Some (patch_status (sample_period 5) [sample_period 5, sample_period 6])"
    using st by (auto simp: periods_settle_def periods_start_def show_calendar_def split: prod.splits sum.splits)
  have "sample_period 6 \<in> set (patch_status (sample_period 5) [sample_period 5, sample_period 6])"
    "pr_periods shown_calendar = Some [sample_period 5, sample_period 6]"
    "fy_id open_year = ap_fiscal_year_id (sample_period 6)" "fy_status open_year \<noteq> ''closed''" by code_simp+
  then have "periods_permits False s3 ?a'" using s3 by (auto simp: periods_permits_def)
  with r3 s3(1) show ?thesis by (auto simp: periods_offers)
qed

end
