(* ===== verification/Bank_Statement.thy ===== *)
theory Bank_Statement
  imports Document_List Document_Detail Dates
begin

text \<open>
  The list of bank statements (\<open>web/src/components/bank-statements.tsx\<close>) and the form of a
  statement's header (\<open>bank-statement-form.tsx\<close>), whose load is two calls in sequence.
\<close>

section \<open>The list\<close>

definition ReconciledBadge :: "string \<Rightarrow> badge" where
  "ReconciledBadge st = (if st = ''reconciled'' then Default_Badge else Outline_Badge)"

record BankStatements =
  bss_statements :: "BankStatement list option"
  bss_error :: "string option"

definition bank_statements_init :: BankStatements where
  "bank_statements_init = \<lparr>bss_statements = None, bss_error = None\<rparr>"

definition statements_loaded :: "bool \<Rightarrow> exn + BankStatement list \<Rightarrow> BankStatements \<Rightarrow> BankStatements" where
  "statements_loaded cancelled result s = (case result of
       Inr rws \<Rightarrow> if cancelled then s else s\<lparr>bss_statements := Some rws\<rparr>
     | Inl err \<Rightarrow> if cancelled then s else s\<lparr>bss_error := Some (error_message err)\<rparr>)"

definition statement_row :: "BankStatement \<Rightarrow> string list" where
  "statement_row s = [show_int (bst_id s), bst_account_code s @ '' '' @ bst_account_name s,
     bst_statement_date s, (case bst_reference s of Some r \<Rightarrow> r | None \<Rightarrow> em_dash), bst_status s,
     show_int (bst_matched_count s) @ ''/'' @ show_int (bst_line_count s),
     formatAmount (bst_closing_balance s), formatAmount (bst_difference s)]"

definition bank_statements_view :: "BankStatements \<Rightarrow> unit element list" where
  "bank_statements_view s =
     [Heading ''Bank Reconciliation'', Note ''Bank statements matched against the ledger, newest first.'',
      Link ''New statement'' ''/bank-statements/new'']
     @ (case bss_error s of None \<Rightarrow> [] | Some e \<Rightarrow> [Alert (''Failed to load: '' @ e)])
     @ guarded (bss_error s = None \<and> bss_statements s = None) [Note ''Loading...'']
     @ (case bss_statements s of
          None \<Rightarrow> []
        | Some [] \<Rightarrow> [Note ''No bank statements yet. Capture one to start reconciling a cash account.'']
        | Some statements \<Rightarrow>
            [Table [''#'', ''Account'', ''Date'', ''Reference'', ''Status'', ''Matched'', ''Closing'', ''Difference'']
              (map statement_row statements)]
            @ map (\<lambda>x. Link (show_int (bst_id x)) (''/bank-statements/'' @ show_int (bst_id x))) statements)"

section \<open>The form\<close>

record FormState =
  fs_accountId :: string
  fs_statementDate :: string
  fs_openingBalance :: string
  fs_closingBalance :: string
  fs_reference :: string

record BankStatementForm =
  bf_accounts :: "Account list"
  bf_form :: "FormState option"
  bf_error :: "string option"
  bf_saving :: bool
  bf_saveError :: "string option"
  bf_navigated :: "string option"

definition bank_form_init :: BankStatementForm where
  "bank_form_init = \<lparr>bf_accounts = [], bf_form = None, bf_error = None, bf_saving = False,
     bf_saveError = None, bf_navigated = None\<rparr>"

definition cash_account :: "Account \<Rightarrow> bool" where
  "cash_account a \<longleftrightarrow> acc_is_cash a \<and> acc_is_postable a \<and> acc_is_active a"

definition existing_statement :: "BankStatement \<Rightarrow> FormState" where
  "existing_statement s = \<lparr>fs_accountId = show_int (bst_account_id s), fs_statementDate = bst_statement_date s,
     fs_openingBalance = trimAmount (bst_opening_balance s),
     fs_closingBalance = trimAmount (bst_closing_balance s), fs_reference = or_empty (bst_reference s)\<rparr>"

definition new_statement :: "string \<Rightarrow> Account list \<Rightarrow> FormState" where
  "new_statement date cashAccounts = \<lparr>
     fs_accountId = (case cashAccounts of [a] \<Rightarrow> show_int (acc_id a) | _ \<Rightarrow> []),
     fs_statementDate = date, fs_openingBalance = ''0'', fs_closingBalance = ''0'', fs_reference = []\<rparr>"

text \<open>The load; the effect may be cancelled while either call is in flight. \<open>route\<close> is the id of
  the route in edit mode.\<close>

definition bank_form_effect :: "string option \<Rightarrow> string \<Rightarrow> bool \<times> bool
    \<Rightarrow> BankStatementForm \<times> ('w, payload, body) browser \<Rightarrow> BankStatementForm \<times> ('w, payload, body) browser" where
  "bank_form_effect route date cancelled x = (case x of (f, b) \<Rightarrow>
     (case listAccounts b of
        (Inl err, b) \<Rightarrow> (if fst cancelled then f else f\<lparr>bf_error := Some (error_message err)\<rparr>, b)
      | (Inr accts, b) \<Rightarrow>
          let cashAccounts = filter cash_account accts in
          if fst cancelled then (f, b)
          else
            let f = f\<lparr>bf_accounts := cashAccounts\<rparr> in
            (case route of
               None \<Rightarrow> (f\<lparr>bf_form := Some (new_statement date cashAccounts)\<rparr>, b)
             | Some ident \<Rightarrow>
                 if invalid_id ident then (f\<lparr>bf_error := Some ''Invalid statement id.''\<rparr>, b)
                 else (case getBankStatement (id_of ident) b of
                    (Inl err, b) \<Rightarrow> (if snd cancelled then f else f\<lparr>bf_error := Some (error_message err)\<rparr>, b)
                  | (Inr s, b) \<Rightarrow> (if snd cancelled then f else f\<lparr>bf_form := Some (existing_statement s)\<rparr>, b)))))"

definition statement_input :: "FormState \<Rightarrow> BankStatementInput" where
  "statement_input form = \<lparr>bsti_account_id = id_of (fs_accountId form),
     bsti_statement_date = fs_statementDate form, bsti_opening_balance = fs_openingBalance form,
     bsti_closing_balance = fs_closingBalance form,
     bsti_reference = (if trim (fs_reference form) = [] then None else Some (trim (fs_reference form)))\<rparr>"

definition save_statement :: "string option \<Rightarrow> BankStatementInput \<Rightarrow> ('w, int) call" where
  "save_statement route input = (case route of
       None \<Rightarrow> createBankStatement input
     | Some ident \<Rightarrow> map_io (\<lambda>_. id_of ident) (updateBankStatement (id_of ident) input))"

definition submitStatement :: "string option \<Rightarrow> BankStatementForm \<Rightarrow> ('w, payload, body) browser
    \<Rightarrow> BankStatementForm \<times> ('w, payload, body) browser" where
  "submitStatement route f b = (case bf_form f of
       None \<Rightarrow> (f, b)
     | Some form \<Rightarrow>
         if fs_accountId form = [] then (f\<lparr>bf_saveError := Some ''Please choose a bank account.''\<rparr>, b)
         else
           let f = f\<lparr>bf_saving := True, bf_saveError := None\<rparr> in
           case save_statement route (statement_input form) b of
             (Inr k, b) \<Rightarrow> (f\<lparr>bf_navigated := Some (''/bank-statements/'' @ show_int k)\<rparr>, b)
           | (Inl err, b) \<Rightarrow> (f\<lparr>bf_saving := False, bf_saveError := Some (save_message err)\<rparr>, b))"

datatype statement_event = Pick_Bank string | Type_Statement_Date string | Type_Opening string
  | Type_Closing string | Type_Bank_Reference string | Save_Statement

definition statement_fields_view :: "BankStatementForm \<Rightarrow> FormState \<Rightarrow> statement_event element list" where
  "statement_fields_view f form =
     [if bf_accounts f \<noteq> [] then
        Select ''account'' ''Bank Account'' (fs_accountId form)
          (map (\<lambda>a. (show_int (acc_id a), acc_code a @ '' '' @ acc_name a)) (bf_accounts f)) Pick_Bank
      else Note ''No cash accounts. Mark a bank account as cash in the chart of accounts first.'',
      Field ''statement_date'' ''Statement Date'' True (fs_statementDate form) Type_Statement_Date,
      Field ''opening_balance'' ''Opening Balance'' True (fs_openingBalance form) Type_Opening,
      Field ''closing_balance'' ''Closing Balance'' True (fs_closingBalance form) Type_Closing,
      Field ''reference'' ''Reference'' False (fs_reference form) Type_Bank_Reference]"

definition bank_form_view :: "string option \<Rightarrow> BankStatementForm \<Rightarrow> statement_event element list" where
  "bank_form_view route f =
     [Heading (if route = None then ''New Bank Statement'' else ''Edit Bank Statement''),
      Note (if route = None then ''Capture a statement'' @ [CHR 0x27] @ ''s header, then add its ''
          @ ''transactions and match them against the ledger.''
        else ''Update the statement'' @ [CHR 0x27] @ ''s header.'')]
     @ (case bf_error f of None \<Rightarrow> []
        | Some e \<Rightarrow> [Alert e, Link ''Back to statements'' ''/bank-statements''])
     @ guarded (bf_error f = None \<and> bf_form f = None) [Note ''Loading...'']
     @ (case bf_form f of
          None \<Rightarrow> []
        | Some form \<Rightarrow>
            statement_fields_view f form
            @ (case bf_saveError f of None \<Rightarrow> [] | Some e \<Rightarrow> [Alert (''Failed to save: '' @ e)])
            @ [Button (if bf_saving f then ''Saving...'' else if route = None then ''Create'' else ''Save'')
                 (bf_saving f \<or> bf_accounts f = []) Save_Statement,
               Link ''Cancel'' (case route of None \<Rightarrow> ''/bank-statements''
                 | Some ident \<Rightarrow> ''/bank-statements/'' @ show_int (id_of ident))])"

definition change_form :: "(FormState \<Rightarrow> FormState) \<Rightarrow> BankStatementForm \<Rightarrow> BankStatementForm" where
  "change_form g f = f\<lparr>bf_form := map_option g (bf_form f)\<rparr>"

fun bank_form_step :: "string option \<Rightarrow> statement_event \<Rightarrow> BankStatementForm \<times> ('w, payload, body) browser
    \<Rightarrow> BankStatementForm \<times> ('w, payload, body) browser" where
  "bank_form_step r (Pick_Bank v) (f, b) = (change_form (\<lambda>x. x\<lparr>fs_accountId := v\<rparr>) f, b)"
| "bank_form_step r (Type_Statement_Date v) (f, b) = (change_form (\<lambda>x. x\<lparr>fs_statementDate := v\<rparr>) f, b)"
| "bank_form_step r (Type_Opening v) (f, b) = (change_form (\<lambda>x. x\<lparr>fs_openingBalance := v\<rparr>) f, b)"
| "bank_form_step r (Type_Closing v) (f, b) = (change_form (\<lambda>x. x\<lparr>fs_closingBalance := v\<rparr>) f, b)"
| "bank_form_step r (Type_Bank_Reference v) (f, b) = (change_form (\<lambda>x. x\<lparr>fs_reference := v\<rparr>) f, b)"
| "bank_form_step r Save_Statement (f, b) = submitStatement r f b"

section \<open>Facts\<close>

text \<open>A new statement offers cash accounts only, and the header of an existing one goes out with
  the values it came in with.\<close>

lemma offered_banks:
  assumes "bank_form_effect route date (False, c) (bank_form_init, b) = (f, b')"
    and "offers (bank_form_view route f) (Pick_Bank v)"
  shows "\<exists>accts b1 a. listAccounts b = (Inr accts, b1) \<and> a \<in> set accts \<and> cash_account a \<and> v = show_int (acc_id a)"
  using assms
  by (cases route; cases "listAccounts b")
    (auto simp: bank_form_effect_def bank_form_view_def bank_form_init_def statement_fields_view_def Let_def
      split: sum.splits if_splits prod.splits option.splits)

lemma statement_roundtrip:
  assumes "clean (bst_reference s)" "printed (bst_opening_balance s)" "printed (bst_closing_balance s)"
    and "bf_form f = Some (existing_statement s)"
  shows "\<exists>ob cb. amount_value ob = amount_value (bst_opening_balance s) \<and> amount_value cb = amount_value (bst_closing_balance s)
    \<and> snd (submitStatement (Some route) f b) = after_exchange (body_request ''PUT'' (''/bank-statements/'' @ show_int (id_of route))
        (Order_Payload (BankStatementInput_Payload \<lparr>bsti_account_id = bst_account_id s,
          bsti_statement_date = bst_statement_date s, bsti_opening_balance = ob, bsti_closing_balance = cb,
          bsti_reference = bst_reference s\<rparr>))) b"
proof -
  have r: "(if trim (or_empty (bst_reference s)) = [] then None else Some (trim (or_empty (bst_reference s)))) = bst_reference s"
    using clean_input [OF assms(1)] by (simp add: emptyToNull_def Let_def)
  have i: "statement_input (existing_statement s) = \<lparr>bsti_account_id = bst_account_id s,
      bsti_statement_date = bst_statement_date s, bsti_opening_balance = trimAmount (bst_opening_balance s),
      bsti_closing_balance = trimAmount (bst_closing_balance s), bsti_reference = bst_reference s\<rparr>"
    using r unfolding statement_input_def existing_statement_def by (simp split: if_splits)
  have "fs_accountId (existing_statement s) \<noteq> []" by (simp add: existing_statement_def)
  then have "snd (submitStatement (Some route) f b)
      = snd (save_statement (Some route) (statement_input (existing_statement s)) b)"
    by (simp add: submitStatement_def assms(4) Let_def split: prod.split sum.split)
  also have "\<dots> = after_exchange (body_request ''PUT'' (''/bank-statements/'' @ show_int (id_of route))
        (Order_Payload (BankStatementInput_Payload (statement_input (existing_statement s))))) b"
    by (simp add: save_statement_def updateBankStatement_def)
  finally show ?thesis
    unfolding i using trimAmount_printed(2) [OF assms(2)] trimAmount_printed(2) [OF assms(3)]
    by (intro exI conjI)
qed

end
