(* ===== verification/Bank_Detail.thy ===== *)
theory Bank_Detail
  imports Bank_Statement Document_Detail Dates
begin

text \<open>
  The reconciliation workspace of a bank statement
  (\<open>web/src/components/bank-statement-detail.tsx\<close>): its load, the actions on the statement and on
  its lines with the load that follows each, the entry of a transaction, the CSV import, the
  picker of match candidates and the rendered screen.
\<close>

section \<open>State and loading\<close>

record NewLine =
  nl_txnDate :: string
  nl_description :: string
  nl_reference :: string
  nl_amount :: string

record BankDetail =
  bd_statement :: "BankStatement option"
  bd_lines :: "BankStatementLine list option"
  bd_candidates :: "BankMatchCandidate list"
  bd_error :: "string option"
  bd_acting :: bool
  bd_actionError :: "string option"
  bd_pickingLineId :: "int option"
  bd_showAll :: bool
  bd_newLine :: NewLine
  bd_csvText :: string
  bd_showImport :: bool
  bd_navigated :: "string option"

definition blank_line :: "string \<Rightarrow> NewLine" where
  "blank_line date = \<lparr>nl_txnDate = date, nl_description = [], nl_reference = [], nl_amount = []\<rparr>"

definition bank_detail_init :: "string \<Rightarrow> BankDetail" where
  "bank_detail_init date = \<lparr>bd_statement = None, bd_lines = None, bd_candidates = [], bd_error = None,
     bd_acting = False, bd_actionError = None, bd_pickingLineId = None, bd_showAll = False,
     bd_newLine = blank_line date, bd_csvText = [], bd_showImport = False, bd_navigated = None\<rparr>"

type_synonym bank_data = "BankStatement \<times> BankStatementLine list \<times> BankMatchCandidate list"

definition load_bank :: "int \<Rightarrow> ('w, bank_data) call" where
  "load_bank statementId = both_io (getBankStatement statementId)
     (both_io (getBankStatementLines statementId) (getBankMatchCandidates statementId))"

definition applyLoaded :: "bank_data \<Rightarrow> BankDetail \<Rightarrow> BankDetail" where
  "applyLoaded data s = (case data of (st, ls, cands) \<Rightarrow>
     s\<lparr>bd_statement := Some st, bd_lines := Some ls, bd_candidates := cands\<rparr>)"

definition bank_opened :: "bool \<Rightarrow> exn + bank_data \<Rightarrow> BankDetail \<Rightarrow> BankDetail" where
  "bank_opened cancelled result s = (case result of
       Inr data \<Rightarrow> if cancelled then s else applyLoaded data s
     | Inl err \<Rightarrow> if cancelled then s else s\<lparr>bd_error := Some (error_message err)\<rparr>)"

definition bank_effect :: "string \<Rightarrow> bool \<Rightarrow> BankDetail \<times> ('w, payload, body) browser
    \<Rightarrow> BankDetail \<times> ('w, payload, body) browser" where
  "bank_effect route cancelled x = (case x of (s, b) \<Rightarrow>
     if invalid_id route then (s\<lparr>bd_error := Some ''Invalid id.''\<rparr>, b)
     else (case load_bank (id_of route) b of (r, b) \<Rightarrow> (bank_opened cancelled r s, b)))"

section \<open>Actions\<close>

text \<open>The actions, with what their closures captured.\<close>

datatype bank_action = Auto_Match | Reconcile | Reopen | Delete_Statement | Add_Bank_Line NewLine
  | Import_CSV string | Match_Line int int | Unmatch_Line int | Delete_Line int

definition new_line_input :: "NewLine \<Rightarrow> BankStatementLineInput" where
  "new_line_input l = \<lparr>bsli_txn_date = nl_txnDate l, bsli_description = trim (nl_description l),
     bsli_reference = (if trim (nl_reference l) = [] then None else Some (trim (nl_reference l))),
     bsli_amount = nl_amount l\<rparr>"

definition bank_call :: "int \<Rightarrow> bank_action \<Rightarrow> ('w, unit) call" where
  "bank_call k a = (case a of
       Auto_Match \<Rightarrow> map_io (\<lambda>_. ()) (autoMatchBankStatement k)
     | Reconcile \<Rightarrow> reconcileBankStatement k
     | Reopen \<Rightarrow> reopenBankStatement k
     | Delete_Statement \<Rightarrow> deleteBankStatement k
     | Add_Bank_Line l \<Rightarrow> map_io (\<lambda>_. ()) (addBankStatementLine k (new_line_input l))
     | Import_CSV csv \<Rightarrow> map_io (\<lambda>_. ()) (importBankStatementCSV k csv)
     | Match_Line l j \<Rightarrow> matchBankStatementLine l j
     | Unmatch_Line l \<Rightarrow> unmatchBankStatementLine l
     | Delete_Line l \<Rightarrow> deleteBankStatementLine l)"

definition bank_start :: "bank_action \<Rightarrow> BankDetail \<Rightarrow> BankDetail" where
  "bank_start a s = s\<lparr>bd_acting := True, bd_actionError := None\<rparr>"

text \<open>What an action does to the screen once its request has succeeded, before the load: the entry
  fields and the import are cleared.\<close>

definition bank_done :: "bank_action \<Rightarrow> BankDetail \<Rightarrow> BankDetail" where
  "bank_done a s = (case a of
       Add_Bank_Line l \<Rightarrow> s\<lparr>bd_newLine := blank_line (nl_txnDate l)\<rparr>
     | Import_CSV csv \<Rightarrow> s\<lparr>bd_csvText := [], bd_showImport := False\<rparr>
     | _ \<Rightarrow> s)"

definition bank_failed :: "exn \<Rightarrow> BankDetail \<Rightarrow> BankDetail" where
  "bank_failed err s = s\<lparr>bd_acting := False, bd_actionError := Some (save_message err)\<rparr>"

definition bank_settle :: "string \<Rightarrow> bank_action \<Rightarrow> BankDetail \<times> ('w, payload, body) browser
    \<Rightarrow> BankDetail \<times> ('w, payload, body) browser" where
  "bank_settle route a x = (case x of (s, b) \<Rightarrow>
     (case bank_call (id_of route) a b of
        (Inl err, b) \<Rightarrow> (bank_failed err s, b)
      | (Inr _, b) \<Rightarrow>
          if a = Delete_Statement then (s\<lparr>bd_navigated := Some ''/bank-statements''\<rparr>, b)
          else (case load_bank (id_of route) b of
             (Inr data, b) \<Rightarrow> ((applyLoaded data (bank_done a s))\<lparr>bd_acting := False,
                 bd_pickingLineId := None, bd_showAll := False\<rparr>, b)
           | (Inl err, b) \<Rightarrow> (bank_failed err (bank_done a s), b))))"

section \<open>The screen\<close>

datatype bank_event = Do bank_action | Toggle_Picker int | Toggle_Show_All | Toggle_Import
  | Type_CSV string | Line_Date string | Line_Description string | Line_Reference string | Line_Amount string

fun bank_action_of :: "bank_event \<Rightarrow> bank_action option" where
  "bank_action_of (Do a) = Some a"
| "bank_action_of _ = None"

fun bank_react :: "bank_event \<Rightarrow> BankDetail \<Rightarrow> BankDetail" where
  "bank_react (Toggle_Picker l) s = s\<lparr>bd_pickingLineId := (if bd_pickingLineId s = Some l then None else Some l),
     bd_showAll := False\<rparr>"
| "bank_react Toggle_Show_All s = s\<lparr>bd_showAll := \<not> bd_showAll s\<rparr>"
| "bank_react Toggle_Import s = s\<lparr>bd_showImport := \<not> bd_showImport s\<rparr>"
| "bank_react (Type_CSV v) s = s\<lparr>bd_csvText := v\<rparr>"
| "bank_react (Line_Date v) s = s\<lparr>bd_newLine := (bd_newLine s)\<lparr>nl_txnDate := v\<rparr>\<rparr>"
| "bank_react (Line_Description v) s = s\<lparr>bd_newLine := (bd_newLine s)\<lparr>nl_description := v\<rparr>\<rparr>"
| "bank_react (Line_Reference v) s = s\<lparr>bd_newLine := (bd_newLine s)\<lparr>nl_reference := v\<rparr>\<rparr>"
| "bank_react (Line_Amount v) s = s\<lparr>bd_newLine := (bd_newLine s)\<lparr>nl_amount := v\<rparr>\<rparr>"
| "bank_react (Do a) s = s"

definition is_open :: "BankStatement \<Rightarrow> bool" where
  "is_open st \<longleftrightarrow> bst_status st = ''open''"

text \<open>The statement adds up; the zero test throws on a difference that is no number, and then
  nothing is rendered.\<close>

definition balanced :: "BankStatement \<Rightarrow> bool" where
  "balanced st \<longleftrightarrow> isZeroAmount (bst_difference st) = Some True"

definition allMatched :: "BankStatement \<Rightarrow> bool" where
  "allMatched st \<longleftrightarrow> bst_matched_count st = bst_line_count st"

definition bank_actions_view :: "int \<Rightarrow> bool \<Rightarrow> BankDetail \<Rightarrow> BankStatement \<Rightarrow> bank_event element list" where
  "bank_actions_view statementId is_admin s st =
     guarded (is_open st)
       [Button (if bd_acting s then ''Working...'' else ''Auto-match'') (bd_acting s) (Do Auto_Match)]
     @ guarded (is_open st)
       [Button ''Reconcile'' (bd_acting s \<or> \<not> allMatched st \<or> \<not> balanced st) (Do Reconcile)]
     @ guarded (is_open st) [Link ''Edit'' (''/bank-statements/'' @ show_int statementId @ ''/edit'')]
     @ guarded (is_open st) [Button ''Delete'' (bd_acting s) (Do Delete_Statement)]
     @ guarded (\<not> is_open st \<and> is_admin)
       [Button (if bd_acting s then ''Reopening...'' else ''Reopen'') (bd_acting s) (Do Reopen)]
     @ [Link ''Back'' ''/bank-statements'']"

definition bank_summary_view :: "BankStatement \<Rightarrow> bank_event element list" where
  "bank_summary_view st =
     map (\<lambda>(label, v). Datum label (formatAmount v))
       [(''Opening'', bst_opening_balance st), (''Lines'', bst_lines_total st),
        (''Closing'', bst_closing_balance st)]
     @ [Datum ''Difference'' (formatAmount (bst_difference st)),
        Datum ''Matched'' (show_int (bst_matched_count st) @ ''/'' @ show_int (bst_line_count st))]"

definition line_candidates :: "BankDetail \<Rightarrow> BankStatementLine \<Rightarrow> BankMatchCandidate list" where
  "line_candidates s l = (if bd_showAll s then bd_candidates s
     else filter (\<lambda>c. bmc_amount c = bsl_amount l) (bd_candidates s))"

definition candidate_view :: "BankDetail \<Rightarrow> BankStatementLine \<Rightarrow> BankMatchCandidate \<Rightarrow> bank_event element list" where
  "candidate_view s l c =
     [Note (bmc_entry_date c),
      Link (''entry #'' @ show_int (bmc_journal_entry_id c)) (''/journal-entries/'' @ show_int (bmc_journal_entry_id c)),
      Note (case bmc_memo c of Some m \<Rightarrow> m | None \<Rightarrow> or_empty (bmc_reference c)),
      Note (formatAmount (bmc_amount c)),
      Button ''Match'' (bd_acting s) (Do (Match_Line (bsl_id l) (bmc_journal_line_id c)))]"

definition picker_view :: "BankDetail \<Rightarrow> BankStatementLine \<Rightarrow> bank_event element list" where
  "picker_view s l =
     (let cands = line_candidates s l in
      if cands = [] then
        Note (''No unmatched ledger entries'' @ (if bd_showAll s then [] else '' of this amount'')
          @ '' on this account. '')
        # guarded (\<not> bd_showAll s) [Button ''Show all amounts'' False Toggle_Show_All]
      else
        [Note (''Unmatched ledger entries'' @ (if bd_showAll s then [] else '' of this amount'')),
         Button (if bd_showAll s then ''Only this amount'' else ''Show all amounts'') False Toggle_Show_All]
        @ concat (map (candidate_view s l) cands))"

definition line_rows_view :: "BankDetail \<Rightarrow> BankStatement \<Rightarrow> BankStatementLine \<Rightarrow> bank_event element list" where
  "line_rows_view s st l =
     (let picking = (bd_pickingLineId s = Some (bsl_id l)); matched = (bsl_journal_line_id l \<noteq> None);
          entry = (case bsl_journal_entry_id l of Some j \<Rightarrow> show_int j | None \<Rightarrow> ''null'') in
      [Table [''#'', ''Date'', ''Description'', ''Reference'', ''Amount'']
         [[show_int (bsl_line_no l), bsl_txn_date l, bsl_description l,
           (case bsl_reference l of Some r \<Rightarrow> r | None \<Rightarrow> em_dash), formatAmount (bsl_amount l)]]]
      @ (if matched then
           [Link (''entry #'' @ entry) (''/journal-entries/'' @ entry),
            Note ([CHR 0xB7] @ '' '' @ or_empty (bsl_entry_date l)
              @ (case bsl_entry_memo l of None \<Rightarrow> [] | Some m \<Rightarrow> '' '' @ [CHR 0xB7] @ '' '' @ m))]
         else [Note ''unmatched''])
      @ guarded (is_open st)
         [if matched then Button ''Unmatch'' (bd_acting s) (Do (Unmatch_Line (bsl_id l)))
          else Button (if picking then ''Close'' else ''Match...'') (bd_acting s) (Toggle_Picker (bsl_id l)),
          Button (''Delete line '' @ show_int (bsl_line_no l)) (bd_acting s) (Do (Delete_Line (bsl_id l)))]
      @ guarded picking (picker_view s l))"

definition entry_view :: "BankDetail \<Rightarrow> bank_event element list" where
  "entry_view s =
     [Field ''line_date'' ''Date'' True (nl_txnDate (bd_newLine s)) Line_Date,
      Field ''line_description'' ''Description'' True (nl_description (bd_newLine s)) Line_Description,
      Field ''line_reference'' ''Reference'' False (nl_reference (bd_newLine s)) Line_Reference,
      Field ''line_amount'' ''Amount'' True (nl_amount (bd_newLine s)) Line_Amount,
      Button ''Add line'' (bd_acting s) (Do (Add_Bank_Line (bd_newLine s))),
      Button (if bd_showImport s then ''Hide import'' else ''Import CSV...'') (bd_acting s) Toggle_Import]
     @ guarded (bd_showImport s)
       [Field ''csv'' [] False (bd_csvText s) Type_CSV,
        Note (''Columns: date (YYYY-MM-DD), description, amount (deposits positive, payments negative), ''
          @ ''optional reference. A header row is skipped automatically.''),
        Button (if bd_acting s then ''Importing...'' else ''Import'') (bd_acting s \<or> trim (bd_csvText s) = [])
          (Do (Import_CSV (bd_csvText s)))]"

definition bank_detail_view :: "int \<Rightarrow> bool \<Rightarrow> BankDetail \<Rightarrow> bank_event element list" where
  "bank_detail_view statementId is_admin s =
     (case bd_error s of
       Some e \<Rightarrow> [Alert e, Link ''Back'' ''/bank-statements'']
     | None \<Rightarrow>
         (case (bd_statement s, bd_lines s) of
            (Some st, Some ls) \<Rightarrow>
              [Heading (''Bank Statement #'' @ show_int (bst_id st)), Datum ''status'' (bst_status st),
               Note (bst_account_code st @ '' '' @ bst_account_name st @ '' '' @ [CHR 0xB7] @ '' ''
                 @ bst_statement_date st
                 @ (case bst_reference st of None \<Rightarrow> [] | Some r \<Rightarrow> '' '' @ [CHR 0xB7] @ '' '' @ r))]
              @ bank_actions_view statementId is_admin s st
              @ bank_summary_view st
              @ (case bd_actionError s of None \<Rightarrow> [] | Some e \<Rightarrow> [Alert e])
              @ guarded (ls = []) [Note ''No transactions yet. Import the statement as CSV or add lines below.'']
              @ concat (map (line_rows_view s st) ls)
              @ guarded (is_open st) (entry_view s)
          | _ \<Rightarrow> [Note ''Loading...'']))"

definition bank_offers :: "string \<Rightarrow> bool \<Rightarrow> BankDetail \<Rightarrow> bank_event \<Rightarrow> bool" where
  "bank_offers route is_admin s = offers (bank_detail_view (id_of route) is_admin s)"

definition bank_move :: "string \<Rightarrow> bool \<Rightarrow> BankDetail \<times> bank_action list \<times> ('w, payload, body) browser
    \<Rightarrow> BankDetail \<times> bank_action list \<times> ('w, payload, body) browser \<Rightarrow> bool" where
  "bank_move route is_admin = screen_move (bank_effect route) (bank_offers route is_admin)
     bank_action_of bank_start (bank_settle route) bank_react"

section \<open>What is offered\<close>

text \<open>An action permitted on the statement and lines shown.\<close>

definition bank_permits :: "bool \<Rightarrow> BankDetail \<Rightarrow> BankStatement \<Rightarrow> BankStatementLine list \<Rightarrow> bank_action \<Rightarrow> bool" where
  "bank_permits is_admin s st ls a = (case a of
       Auto_Match \<Rightarrow> is_open st
     | Reconcile \<Rightarrow> is_open st \<and> allMatched st \<and> balanced st
     | Reopen \<Rightarrow> \<not> is_open st \<and> is_admin
     | Delete_Statement \<Rightarrow> is_open st
     | Add_Bank_Line l \<Rightarrow> is_open st \<and> l = bd_newLine s
     | Import_CSV csv \<Rightarrow> is_open st \<and> bd_showImport s \<and> csv = bd_csvText s \<and> trim csv \<noteq> []
     | Unmatch_Line i \<Rightarrow> is_open st \<and> (\<exists>l \<in> set ls. bsl_id l = i \<and> bsl_journal_line_id l \<noteq> None)
     | Delete_Line i \<Rightarrow> is_open st \<and> (\<exists>l \<in> set ls. bsl_id l = i)
     | Match_Line i j \<Rightarrow> bd_pickingLineId s = Some i \<and> (\<exists>l \<in> set ls. bsl_id l = i
         \<and> (\<exists>c \<in> set (line_candidates s l). bmc_journal_line_id c = j)))"

lemma offers_candidates: "offers (concat (map (candidate_view s l) cs)) (Do a) \<longleftrightarrow>
    \<not> bd_acting s \<and> (\<exists>c \<in> set cs. a = Match_Line (bsl_id l) (bmc_journal_line_id c))"
  by (auto simp: offers_concat candidate_view_def)

lemma offers_picker: "offers (picker_view s l) (Do a) \<longleftrightarrow>
    \<not> bd_acting s \<and> (\<exists>c \<in> set (line_candidates s l). a = Match_Line (bsl_id l) (bmc_journal_line_id c))"
  by (auto simp: picker_view_def offers_candidates Let_def)

lemma offers_line: "offers (line_rows_view s st l) (Do a) \<longleftrightarrow> \<not> bd_acting s \<and>
    (is_open st \<and> (bsl_journal_line_id l \<noteq> None \<and> a = Unmatch_Line (bsl_id l) \<or> a = Delete_Line (bsl_id l))
     \<or> bd_pickingLineId s = Some (bsl_id l)
       \<and> (\<exists>c \<in> set (line_candidates s l). a = Match_Line (bsl_id l) (bmc_journal_line_id c)))"
  by (auto simp: line_rows_view_def Let_def offers_picker)

lemma offers_summary [simp]: "\<not> offers (bank_summary_view st) e"
  by (simp add: bank_summary_view_def)

lemma offers_entry: "offers (entry_view s) (Do a) \<longleftrightarrow> \<not> bd_acting s \<and>
    (a = Add_Bank_Line (bd_newLine s) \<or> bd_showImport s \<and> a = Import_CSV (bd_csvText s) \<and> trim (bd_csvText s) \<noteq> [])"
  by (auto simp: entry_view_def)

lemma bank_offers_do:
  "bank_offers route is_admin s (Do a) \<longleftrightarrow> (\<exists>st ls. bd_statement s = Some st \<and> bd_lines s = Some ls
     \<and> bd_error s = None \<and> \<not> bd_acting s \<and> bank_permits is_admin s st ls a)"
  by (cases a; cases "bd_statement s"; cases "bd_lines s"; cases "bd_error s")
    (auto simp: bank_offers_def bank_detail_view_def bank_actions_view_def bank_permits_def
      offers_concat offers_line offers_entry)

interpretation bank_screen: exclusive_actions "bank_effect route" "bank_offers route is_admin"
    bank_action_of bank_start "bank_settle route" bank_react "\<lambda>s. \<exists>date. s = bank_detail_init date" bd_acting
  for route is_admin
proof unfold_locales
  fix a s c b e
  show "bd_acting (bank_start a s)" by (simp add: bank_start_def)
  show "bd_acting s \<Longrightarrow> bank_offers route is_admin s e \<Longrightarrow> bank_action_of e = None"
    by (cases e) (auto simp: bank_offers_do)
  show "bd_acting (fst (bank_effect route c (s, b))) = bd_acting s"
    by (auto simp: bank_effect_def bank_opened_def applyLoaded_def split: prod.split sum.split)
  show "bank_action_of e = None \<Longrightarrow> bd_acting (bank_react e s) = bd_acting s"
    by (cases e) auto
qed

interpretation bank_slot: recovering_actions "bank_effect route" "bank_offers route is_admin"
    bank_action_of bank_start "bank_settle route" bank_react "\<lambda>s. \<exists>date. s = bank_detail_init date" bd_acting
    "\<lambda>s. bd_navigated s \<noteq> None" for route is_admin
proof unfold_locales
  fix s a b c e
  show "\<exists>date. s = bank_detail_init date \<Longrightarrow> \<not> bd_acting s" by (auto simp: bank_detail_init_def)
  show "\<not> bd_acting (fst (bank_settle route a (s, b))) \<or> bd_navigated (fst (bank_settle route a (s, b))) \<noteq> None"
    by (simp add: bank_settle_def bank_failed_def split: prod.split sum.split)
  show "bd_navigated s \<noteq> None \<Longrightarrow> bd_navigated (fst (bank_effect route c (s, b))) \<noteq> None"
    by (simp add: bank_effect_def bank_opened_def applyLoaded_def split: prod.split sum.split)
  show "bank_action_of e = None \<Longrightarrow> bd_navigated s \<noteq> None \<Longrightarrow> bd_navigated (bank_react e s) \<noteq> None"
    by (cases e) auto
qed

section \<open>Requests\<close>

text \<open>A line the server has listed for the statement, and the requests the workspace may make.\<close>

definition listed :: "(payload request \<Rightarrow> 'w \<Rightarrow> body reply \<times> 'w) \<Rightarrow> int \<Rightarrow> int \<Rightarrow> bool" where
  "listed net k i \<longleftrightarrow> (\<exists>b ls. network b = net \<and> fst (getBankStatementLines k b) = Inr ls \<and> i \<in> bsl_id ` set ls)"

fun line_of_action :: "bank_action \<Rightarrow> int option" where
  "line_of_action (Match_Line i j) = Some i"
| "line_of_action (Unmatch_Line i) = Some i"
| "line_of_action (Delete_Line i) = Some i"
| "line_of_action _ = None"

definition bank_request :: "int \<Rightarrow> bank_action \<Rightarrow> payload request" where
  "bank_request k a =
     (let statement = ''/bank-statements/'' @ show_int k; line = (\<lambda>i. ''/bank-statement-lines/'' @ show_int i) in
      case a of
       Auto_Match \<Rightarrow> body_request ''POST'' (statement @ ''/auto-match'') Empty_Object
     | Reconcile \<Rightarrow> body_request ''POST'' (statement @ ''/reconcile'') Empty_Object
     | Reopen \<Rightarrow> body_request ''POST'' (statement @ ''/reopen'') Empty_Object
     | Delete_Statement \<Rightarrow> del_request statement
     | Add_Bank_Line l \<Rightarrow> body_request ''POST'' (statement @ ''/lines'')
         (Order_Payload (BankStatementLineInput_Payload (new_line_input l)))
     | Import_CSV csv \<Rightarrow> body_request ''POST'' (statement @ ''/import'') (Order_Payload (Csv csv))
     | Match_Line i j \<Rightarrow> body_request ''POST'' (line i @ ''/match'') (Order_Payload (Journal_Line j))
     | Unmatch_Line i \<Rightarrow> body_request ''POST'' (line i @ ''/unmatch'') Empty_Object
     | Delete_Line i \<Rightarrow> del_request (line i))"

definition bank_allowed :: "(payload request \<Rightarrow> 'w \<Rightarrow> body reply \<times> 'w) \<Rightarrow> int \<Rightarrow> payload request \<Rightarrow> bool" where
  "bank_allowed net k rq \<longleftrightarrow> rq_method rq = ''GET''
     \<or> (\<exists>a. rq = bank_request k a \<and> (\<forall>i. line_of_action a = Some i \<longrightarrow> listed net k i))"

lemma bank_call_makes: "makes (bank_call k a) (bank_request k a)"
  by (cases a) (auto simp: bank_call_def bank_request_def Let_def makes_def autoMatchBankStatement_def
      reconcileBankStatement_def reopenBankStatement_def deleteBankStatement_def addBankStatementLine_def
      importBankStatementCSV_def matchBankStatementLine_def unmatchBankStatementLine_def
      deleteBankStatementLine_def)

lemma bank_call_state: "snd (bank_call k a b) = after_exchange (bank_request k a) b"
  by (rule bank_call_makes [unfolded makes_def, rule_format])

lemma load_bank_reads: "reads_only (load_bank k)"
  unfolding load_bank_def getBankStatement_def getBankStatementLines_def getBankMatchCandidates_def
  by (intro reading)

lemma load_bank_lists:
  assumes "load_bank k b = (Inr (st, ls, cands), b')"
  shows "\<forall>l \<in> set ls. listed (network b) k (bsl_id l)"
proof -
  obtain b1 where "getBankStatement k b = (Inr st, b1)"
    and l: "\<exists>b2. getBankStatementLines k b1 = (Inr ls, b2)"
    using assms by (auto simp: load_bank_def both_io_result)
  then have "network b1 = network b"
    using reads_only_network [of "getBankStatement k" b] by (simp add: getBankStatement_def reads_only_get)
  with l show ?thesis unfolding listed_def by (auto intro!: exI [of _ b1])
qed

text \<open>Every line shown, and every line an action in flight is about, was listed for the statement;
  what was sent reads or is an allowed action.\<close>

definition bank_ok :: "(payload request \<Rightarrow> 'w \<Rightarrow> body reply \<times> 'w) \<Rightarrow> int
    \<Rightarrow> BankDetail \<times> bank_action list \<times> ('w, payload, body) browser \<Rightarrow> bool" where
  "bank_ok net k x \<longleftrightarrow> (case x of (s, pend, b) \<Rightarrow> network b = net
     \<and> (\<forall>ls. bd_lines s = Some ls \<longrightarrow> (\<forall>l \<in> set ls. listed net k (bsl_id l)))
     \<and> (\<forall>a \<in> set pend. \<forall>i. line_of_action a = Some i \<longrightarrow> listed net k i)
     \<and> list_all (bank_allowed net k) (sent b))"

lemma load_bank_ok:
  assumes "network b = net" "list_all (bank_allowed net k) (sent b)" "load_bank k b = (r, b')"
  shows "network b' = net" "list_all (bank_allowed net k) (sent b')"
proof -
  have b': "b' = snd (load_bank k b)" using assms(3) by simp
  show "network b' = net" using reads_only_network [OF load_bank_reads, of k b] assms(1) b' by simp
  have "appends (bank_allowed net k) b b'"
    unfolding b' by (rule appends_mono [OF reads_appends [OF load_bank_reads]]) (simp add: bank_allowed_def)
  then show "list_all (bank_allowed net k) (sent b')" using assms(2) by (rule appends_sent)
qed

lemma bank_ok_settle:
  assumes ok: "bank_ok net (id_of route) (s, xs @ a # ys, b)" and st: "bank_settle route a (s, b) = (s', b')"
  shows "bank_ok net (id_of route) (s', xs @ ys, b')"
proof -
  let ?k = "id_of route"
  have n: "network b = net" and sn: "list_all (bank_allowed net ?k) (sent b)"
    and ls: "\<And>ls. bd_lines s = Some ls \<Longrightarrow> \<forall>l \<in> set ls. listed net ?k (bsl_id l)"
    and al: "bank_allowed net ?k (bank_request ?k a)"
    and p: "\<forall>a \<in> set (xs @ ys). \<forall>i. line_of_action a = Some i \<longrightarrow> listed net ?k i"
    using ok by (auto simp: bank_ok_def bank_allowed_def)
  obtain r b1 where c: "bank_call ?k a b = (r, b1)" by (cases "bank_call ?k a b")
  then have b1: "b1 = snd (bank_call ?k a b)" by simp
  also have "\<dots> = after_exchange (bank_request ?k a) b"
    by (rule bank_call_state)
  finally have n1: "network b1 = net" and s1: "list_all (bank_allowed net ?k) (sent b1)"
    using n sn al by simp_all
  have d: "bd_lines (bank_done a s) = bd_lines s" by (simp add: bank_done_def split: bank_action.split)
  obtain q b2 where l: "load_bank ?k b1 = (q, b2)" by (cases "load_bank ?k b1")
  note l2 = load_bank_ok [OF n1 s1 l]
  show ?thesis
  proof (cases q)
    case (Inl e)
    then show ?thesis
      using st c l n1 s1 l2 ls p d
      by (auto simp: bank_settle_def bank_ok_def bank_failed_def split: sum.splits if_splits)
  next
    case (Inr data)
    then obtain st' ls' cands where "data = (st', ls', cands)" by (cases data)
    with Inr have "\<forall>l \<in> set ls'. listed net ?k (bsl_id l)" using load_bank_lists [of ?k b1] l n1 by simp
    then show ?thesis
      using st c l n1 s1 l2 ls p Inr \<open>data = (st', ls', cands)\<close>
      by (auto simp: bank_settle_def bank_ok_def bank_failed_def applyLoaded_def split: sum.splits if_splits)
  qed
qed

lemma bank_ok_effect:
  assumes ok: "bank_ok net (id_of route) (s, pend, b)" and e: "bank_effect route c (s, b) = (s', b')"
  shows "bank_ok net (id_of route) (s', pend, b')"
proof (cases "invalid_id route")
  case True
  then show ?thesis using assms by (auto simp: bank_effect_def bank_ok_def)
next
  case False
  let ?k = "id_of route"
  obtain r b1 where l: "load_bank ?k b = (r, b1)" by (cases "load_bank ?k b")
  have n: "network b = net" "list_all (bank_allowed net ?k) (sent b)" using ok by (simp_all add: bank_ok_def)
  note l2 = load_bank_ok [OF n l]
  have "\<forall>l \<in> set ls. listed net ?k (bsl_id l)" if "bd_lines (bank_opened c r s) = Some ls" for ls
    using that load_bank_lists [of ?k b] l n ok
    by (auto simp: bank_opened_def applyLoaded_def bank_ok_def split: sum.splits if_splits)
  then show ?thesis using ok e l l2 False by (auto simp: bank_effect_def bank_ok_def)
qed

lemma bank_ok_start:
  assumes ok: "bank_ok net k (s, pend, b)" and o: "bank_offers route is_admin s (Do a)"
  shows "bank_ok net k (bank_start a s, pend @ [a], b)"
proof -
  obtain st ls where "bd_lines s = Some ls" "bank_permits is_admin s st ls a"
    using o by (auto simp: bank_offers_do)
  then have "\<forall>i. line_of_action a = Some i \<longrightarrow> listed net k i"
    using ok by (cases a) (auto simp: bank_ok_def bank_permits_def)
  then show ?thesis using ok by (auto simp: bank_ok_def bank_start_def)
qed

lemma bank_react_lines [simp]: "bd_lines (bank_react e s) = bd_lines s"
  by (cases e) auto

interpretation bank_requests: invariant
    "\<lambda>x. opened (\<lambda>s. \<exists>date. s = bank_detail_init date) x \<and> network (snd (snd x)) = net"
    "bank_move route is_admin" "bank_ok net (id_of route)" for net route is_admin
proof unfold_locales
  fix x x'
  show "opened (\<lambda>s. \<exists>date. s = bank_detail_init date) x \<and> network (snd (snd x)) = net \<Longrightarrow> bank_ok net (id_of route) x"
    by (auto simp: opened_def bank_ok_def bank_detail_init_def split: prod.splits)
  assume ok: "bank_ok net (id_of route) x" and m: "bank_move route is_admin x x'"
  obtain s pend b s' pend' b' where e: "x = (s, pend, b)" "x' = (s', pend', b')" by (cases x, cases x')
  from m [unfolded e bank_move_def] show "bank_ok net (id_of route) x'"
  proof (cases rule: screen_move_cases)
    case (effect c)
    then show ?thesis using bank_ok_effect ok e by simp
  next
    case (start ev a)
    then have "ev = Do a" by (cases ev) auto
    then show ?thesis using start bank_ok_start ok e by simp
  next
    case (settle a xs ys)
    then show ?thesis using bank_ok_settle ok e by simp
  next
    case (react ev)
    then show ?thesis using ok e by (simp add: bank_ok_def)
  qed
qed

section \<open>Requests and what was offered\<close>

lemma bank_effect_reads: "appends (\<lambda>r. rq_method r = ''GET'') b (snd (bank_effect route c (s, b)))"
  using reads_appends [OF load_bank_reads, of b "id_of route"]
  by (auto simp: bank_effect_def split: prod.split)

lemma bank_settle_own:
  "appends (\<lambda>r. r = bank_request (id_of route) a \<or> rq_method r = ''GET'') b (snd (bank_settle route a (s, b)))"
proof -
  let ?P = "\<lambda>r. r = bank_request (id_of route) a \<or> rq_method r = ''GET''"
  obtain r b1 where c: "bank_call (id_of route) a b = (r, b1)" by (cases "bank_call (id_of route) a b")
  have "b1 = after_exchange (bank_request (id_of route) a) b" using bank_call_state [of "id_of route" a b] c by simp
  then have s1: "appends ?P b b1" by (simp add: appends_def)
  obtain q b2 where l: "load_bank (id_of route) b1 = (q, b2)" by (cases "load_bank (id_of route) b1")
  have "appends ?P b1 b2"
    using appends_mono [OF reads_appends [OF load_bank_reads, of b1 "id_of route"], of ?P] l by simp
  with s1 have s2: "appends ?P b b2" by (rule appends_trans)
  show ?thesis using s1 s2 c l by (auto simp: bank_settle_def split: sum.split)
qed

interpretation bank_trace: traced_actions "bank_effect route" "bank_offers route is_admin"
    bank_action_of bank_start "bank_settle route" bank_react "\<lambda>s. \<exists>date. s = bank_detail_init date" bd_acting
    "bank_request (id_of route)" for route is_admin
  by unfold_locales (rule bank_effect_reads, rule bank_settle_own)

definition reconcile_request :: "int \<Rightarrow> payload request" where
  "reconcile_request k = body_request ''POST'' (''/bank-statements/'' @ show_int k @ ''/reconcile'') Empty_Object"

lemma reconcile_request_own: "bank_request k a = reconcile_request k \<Longrightarrow> a = Reconcile" "rq_method (reconcile_request k) \<noteq> ''GET''"
  by (cases a) (simp_all add: reconcile_request_def bank_request_def Let_def body_request_def del_request_def)

lemma bank_requests_traced:
  assumes "reachable (opened (\<lambda>s. \<exists>date. s = bank_detail_init date)) (bank_move route is_admin) (s, pend, b)"
    and "rq \<in> set (sent b)" "rq_method rq \<noteq> ''GET''"
  shows "\<exists>a s0 b0. reachable (opened (\<lambda>s. \<exists>date. s = bank_detail_init date)) (bank_move route is_admin) (s0, [], b0)
    \<and> bank_offers route is_admin s0 (Do a) \<and> (bank_move route is_admin)\<^sup>*\<^sup>* (s0, [], b0) (s, pend, b)
    \<and> rq = bank_request (id_of route) a"
proof -
  have "bank_trace.traced route is_admin (s, pend, b) rq"
    using bank_trace.requests_traced [OF assms(1) [unfolded bank_move_def]] assms(2) by (simp add: list_all_iff)
  then obtain a s0 b0 e where a: "reachable (opened (\<lambda>s. \<exists>date. s = bank_detail_init date)) (bank_move route is_admin) (s0, [], b0)"
    "bank_offers route is_admin s0 e" "bank_action_of e = Some a"
    "(bank_move route is_admin)\<^sup>*\<^sup>* (s0, [], b0) (s, pend, b)" "rq = bank_request (id_of route) a"
    using assms(3) unfolding bank_trace.traced_def bank_trace.started_def bank_move_def by blast
  then have "e = Do a" by (cases e) auto
  with a show ?thesis by blast
qed

lemma bank_reconciled_earlier:
  assumes "reachable (opened (\<lambda>s. \<exists>date. s = bank_detail_init date)) (bank_move route is_admin) (s, pend, b)"
    and "reconcile_request (id_of route) \<in> set (sent b)"
  shows "\<exists>s0 b0 st. (bank_move route is_admin)\<^sup>*\<^sup>* (s0, [], b0) (s, pend, b) \<and> bd_statement s0 = Some st
    \<and> bst_status st = ''open'' \<and> bst_matched_count st = bst_line_count st \<and> isZeroAmount (bst_difference st) = Some True"
proof -
  from bank_requests_traced [OF assms reconcile_request_own(2)] obtain a s0 b0
    where a: "bank_offers route is_admin s0 (Do a)" "(bank_move route is_admin)\<^sup>*\<^sup>* (s0, [], b0) (s, pend, b)"
      "reconcile_request (id_of route) = bank_request (id_of route) a" by blast
  from reconcile_request_own(1) [OF a(3) [symmetric]] a(1) obtain st where "bd_statement s0 = Some st"
    "bst_status st = ''open''" "bst_matched_count st = bst_line_count st" "isZeroAmount (bst_difference st) = Some True"
    by (auto simp: bank_offers_do bank_permits_def is_open_def allMatched_def balanced_def)
  with a(2) show ?thesis by blast
qed

lemma bank_match_offered:
  assumes "bank_offers route is_admin s (Do (Match_Line i j))"
  shows "bd_pickingLineId s = Some i \<and> (\<exists>ls. bd_lines s = Some ls \<and> (\<exists>l \<in> set ls. bsl_id l = i
    \<and> (\<exists>c \<in> set (bd_candidates s). bmc_journal_line_id c = j \<and> (bmc_amount c = bsl_amount l \<or> bd_showAll s))))"
proof -
  obtain ls l c where c: "bd_lines s = Some ls" "bd_pickingLineId s = Some i" "l \<in> set ls" "bsl_id l = i"
    "c \<in> set (line_candidates s l)" "bmc_journal_line_id c = j"
    using assms by (auto simp: bank_offers_do bank_permits_def)
  then have "c \<in> set (bd_candidates s)" "bmc_amount c = bsl_amount l \<or> bd_showAll s"
    by (auto simp: line_candidates_def split: if_splits)
  then show ?thesis using c by blast
qed

section \<open>Properties\<close>

text \<open>C24. The workspace reconciles only what adds up, and only when asked. At most one action is in
  flight, and every request of a run reads, or is the request of an action the screen offered earlier
  in the run while nothing was in flight; so the server was asked to reconcile only after the screen
  showed the statement open, every line of it matched and its difference zero. In every state
  reached, reconciling is offered exactly then; a match is offered only to the line whose picker is
  open, with a journal line the server offers, of the line's own amount unless the user asked for all;
  and reopening is offered to administrators, on statements that are not open.\<close>

theorem bank_reconciles:
  assumes "reachable (opened (\<lambda>s. \<exists>date. s = bank_detail_init date)) (bank_move route is_admin) (s, pend, b)"
  shows "(bank_offers route is_admin s (Do Reconcile) \<longleftrightarrow> (\<exists>st ls. bd_statement s = Some st \<and> bd_lines s = Some ls
        \<and> bd_error s = None \<and> \<not> bd_acting s \<and> pend = [] \<and> bst_status st = ''open''
        \<and> bst_matched_count st = bst_line_count st \<and> isZeroAmount (bst_difference st) = Some True))
    \<and> (bank_offers route is_admin s (Do (Match_Line i j)) \<longrightarrow> pend = [] \<and> bd_pickingLineId s = Some i
        \<and> (\<exists>ls. bd_lines s = Some ls \<and> (\<exists>l \<in> set ls. bsl_id l = i \<and> (\<exists>c \<in> set (bd_candidates s).
            bmc_journal_line_id c = j \<and> (bmc_amount c = bsl_amount l \<or> bd_showAll s)))))
    \<and> (bank_offers route is_admin s (Do Reopen) \<longrightarrow> is_admin \<and> (\<exists>st. bd_statement s = Some st \<and> bst_status st \<noteq> ''open''))
    \<and> length pend \<le> 1
    \<and> (\<forall>rq \<in> set (sent b). rq_method rq = ''GET''
        \<or> (\<exists>a s0 b0. reachable (opened (\<lambda>s. \<exists>date. s = bank_detail_init date)) (bank_move route is_admin) (s0, [], b0)
            \<and> bank_offers route is_admin s0 (Do a) \<and> (bank_move route is_admin)\<^sup>*\<^sup>* (s0, [], b0) (s, pend, b)
            \<and> rq = bank_request (id_of route) a))
    \<and> (reconcile_request (id_of route) \<in> set (sent b) \<longrightarrow>
        (\<exists>s0 b0 st. (bank_move route is_admin)\<^sup>*\<^sup>* (s0, [], b0) (s, pend, b) \<and> bd_statement s0 = Some st
          \<and> bst_status st = ''open'' \<and> bst_matched_count st = bst_line_count st
          \<and> isZeroAmount (bst_difference st) = Some True))"
proof -
  note one = bank_screen.at_most_one [OF assms [unfolded bank_move_def]]
  have "\<forall>e. bank_offers route is_admin s e \<longrightarrow> bank_action_of e = None" if "pend \<noteq> []"
    using one that by simp
  then have p: "pend = []" if "bank_offers route is_admin s (Do a)" for a using that by fastforce
  have r: "bank_offers route is_admin s (Do Reconcile) \<longleftrightarrow> (\<exists>st ls. bd_statement s = Some st \<and> bd_lines s = Some ls
        \<and> bd_error s = None \<and> \<not> bd_acting s \<and> pend = [] \<and> bst_status st = ''open''
        \<and> bst_matched_count st = bst_line_count st \<and> isZeroAmount (bst_difference st) = Some True)"
    using p [of Reconcile]
    by (auto simp: bank_offers_do bank_permits_def is_open_def allMatched_def balanced_def)
  have m: "bank_offers route is_admin s (Do (Match_Line i j)) \<longrightarrow> pend = [] \<and> bd_pickingLineId s = Some i
        \<and> (\<exists>ls. bd_lines s = Some ls \<and> (\<exists>l \<in> set ls. bsl_id l = i \<and> (\<exists>c \<in> set (bd_candidates s).
            bmc_journal_line_id c = j \<and> (bmc_amount c = bsl_amount l \<or> bd_showAll s))))"
    using p [of "Match_Line i j"] bank_match_offered by blast
  have o: "bank_offers route is_admin s (Do Reopen) \<longrightarrow> is_admin \<and> (\<exists>st. bd_statement s = Some st \<and> bst_status st \<noteq> ''open'')"
    by (auto simp: bank_offers_do bank_permits_def is_open_def)
  have t: "\<forall>rq \<in> set (sent b). rq_method rq = ''GET''
        \<or> (\<exists>a s0 b0. reachable (opened (\<lambda>s. \<exists>date. s = bank_detail_init date)) (bank_move route is_admin) (s0, [], b0)
            \<and> bank_offers route is_admin s0 (Do a) \<and> (bank_move route is_admin)\<^sup>*\<^sup>* (s0, [], b0) (s, pend, b)
            \<and> rq = bank_request (id_of route) a)"
    using bank_requests_traced [OF assms] by blast
  show ?thesis
    using r m o one t bank_reconciled_earlier [OF assms] by (intro conjI) blast+
qed

text \<open>The workspace changes its own statement only: whatever the server answers and the user does,
  every request it ever makes reads, acts on the statement of its route, or matches, unmatches or
  deletes a line this server has listed for that statement.\<close>

theorem bank_touches_own:
  assumes "reachable (\<lambda>x. opened (\<lambda>s. \<exists>date. s = bank_detail_init date) x \<and> network (snd (snd x)) = net)
      (bank_move route is_admin) (s, pend, b)"
  shows "list_all (bank_allowed net (id_of route)) (sent b)
    \<and> (\<forall>a i. a \<in> set pend \<and> line_of_action a = Some i \<longrightarrow> listed net (id_of route) i)"
  using bank_requests.reachable_inv [OF assms] by (auto simp: bank_ok_def)

definition sample_statement :: BankStatement where
  "sample_statement = \<lparr>bst_id = 7, bst_account_id = 3, bst_account_code = ''1000'', bst_account_name = ''Bank'',
     bst_statement_date = ''2024-02-29'', bst_opening_balance = ''0.0000'', bst_closing_balance = ''0.0000'',
     bst_reference = None, bst_status = ''open'', bst_line_count = 0, bst_matched_count = 0,
     bst_lines_total = ''0.0000'', bst_difference = ''0.0000''\<rparr>"

definition bank_server :: "string \<Rightarrow> body" where
  "bank_server path =
     (if path = ''/api/bank-statements/7'' then Order (BankStatement_Body sample_statement)
      else if path = ''/api/bank-statements/7/lines'' then Order (BankStatementLine_List [])
      else Order (BankMatchCandidate_List []))"

lemma bank_loads:
  assumes "network b = answering bank_server"
  shows "load_bank 7 b = (Inr (sample_statement, [], []), after_exchange (get_request ''/bank-statements/7/candidates'')
    (after_exchange (get_request ''/bank-statements/7/lines'') (after_exchange (get_request ''/bank-statements/7'') b)))"
  using assms
  by (simp add: load_bank_def both_io_def getBankStatement_def getBankStatementLines_def
      getBankMatchCandidates_def get_answering order_as_def BASE_def bank_server_def show_7)

abbreviation shown_statement :: BankDetail where
  "shown_statement \<equiv> applyLoaded (sample_statement, [], []) (bank_detail_init [])"

lemma statement_shown:
  "\<exists>b. reachable (\<lambda>x. opened (\<lambda>s. \<exists>date. s = bank_detail_init date) x \<and> network (snd (snd x)) = answering bank_server)
     (bank_move ''7'' False) (shown_statement, [], (b :: (unit, payload, body) browser))"
proof -
  let ?b = "\<lparr>network = answering bank_server, world = (), sent = [], events = []\<rparr> :: (unit, payload, body) browser"
  let ?R = "reachable (\<lambda>x. opened (\<lambda>s. \<exists>date. s = bank_detail_init date) x \<and> network (snd (snd x)) = answering bank_server)
     (bank_move ''7'' False)"
  have start: "?R (bank_detail_init [], [], ?b)"
    by (rule reachable.starting) (auto simp: opened_def)
  obtain b where "load_bank 7 ?b = (Inr (sample_statement, [], []), b)" using bank_loads [of ?b] by auto
  then have "bank_effect ''7'' False (bank_detail_init [], ?b) = (shown_statement, b)"
    by (simp add: bank_effect_def bank_opened_def)
  then have "bank_move ''7'' False (bank_detail_init [], [], ?b) (shown_statement, [], b)"
    unfolding bank_move_def by (rule screen_move.effect)
  with start have "?R (shown_statement, [], b)" by (rule reachable.moving)
  then show ?thesis by blast
qed

theorem bank_reconciles_witness:
  "bank_offers ''7'' False shown_statement (Do Reconcile)
    \<and> \<not> bank_offers ''7'' False shown_statement (Do Reopen)"
proof -
  obtain b where r: "reachable (\<lambda>x. opened (\<lambda>s. \<exists>date. s = bank_detail_init date) x \<and> network (snd (snd x)) = answering bank_server)
     (bank_move ''7'' False) (shown_statement, [], (b :: (unit, payload, body) browser))"
    using statement_shown by blast
  have w: "reachable (opened (\<lambda>s. \<exists>date. s = bank_detail_init date)) (bank_move ''7'' False) (shown_statement, [], b)"
    by (rule reachable_weaken [OF r]) simp
  have "isZeroAmount (bst_difference sample_statement) = Some True" by code_simp
  then have "\<exists>st ls. bd_statement shown_statement = Some st \<and> bd_lines shown_statement = Some ls
        \<and> bd_error shown_statement = None \<and> \<not> bd_acting shown_statement \<and> ([] :: bank_action list) = []
        \<and> bst_status st = ''open'' \<and> bst_matched_count st = bst_line_count st
        \<and> isZeroAmount (bst_difference st) = Some True"
    by (intro exI [of _ sample_statement] exI [of _ "[]"])
      (simp add: applyLoaded_def bank_detail_init_def sample_statement_def)
  with conjunct1 [OF bank_reconciles [OF w]] have "bank_offers ''7'' False shown_statement (Do Reconcile)"
    by (rule iffD2)
  moreover have "\<not> bank_offers ''7'' False shown_statement (Do Reopen)"
    using conjunct1 [OF conjunct2 [OF conjunct2 [OF bank_reconciles [OF w]]]] by blast
  ultimately show ?thesis by simp
qed

theorem bank_touches_own_witness:
  "\<exists>b :: (unit, payload, body) browser. list_all (bank_allowed
      (answering bank_server :: payload request \<Rightarrow> unit \<Rightarrow> body reply \<times> unit) (id_of ''7'')) (sent b)
    \<and> bank_effect ''7'' False (bank_detail_init [], \<lparr>network = answering bank_server, world = (), sent = [], events = []\<rparr>)
      = (shown_statement, b)"
proof -
  let ?b = "\<lparr>network = answering bank_server, world = (), sent = [], events = []\<rparr> :: (unit, payload, body) browser"
  let ?R = "reachable (\<lambda>x. opened (\<lambda>s. \<exists>date. s = bank_detail_init date) x \<and> network (snd (snd x)) = answering bank_server)
     (bank_move ''7'' False)"
  obtain b where "load_bank 7 ?b = (Inr (sample_statement, [], []), b)" using bank_loads [of ?b] by auto
  then have e: "bank_effect ''7'' False (bank_detail_init [], ?b) = (shown_statement, b)"
    by (simp add: bank_effect_def bank_opened_def)
  then have m: "bank_move ''7'' False (bank_detail_init [], [], ?b) (shown_statement, [], b)"
    unfolding bank_move_def by (rule screen_move.effect)
  have "?R (bank_detail_init [], [], ?b)" by (rule reachable.starting) (auto simp: opened_def)
  from this m have "?R (shown_statement, [], b)" by (rule reachable.moving)
  from conjunct1 [OF bank_touches_own [OF this]] e show ?thesis by (intro exI conjI)
qed

end
