(* ===== verification/Stock_Movement.thy ===== *)
theory Stock_Movement
  imports Document_List
begin

text \<open>
  Stock movements: the list (\<open>web/src/components/stock-movements.tsx\<close>) with the badge of the ledger
  state, and the form that creates a movement or rewrites one (\<open>stock-movement-form.tsx\<close>), which
  takes a magnitude and signs it from the type of the movement.
\<close>

section \<open>The list\<close>

definition POSTABLE_MOVEMENT_TYPES :: "string list" where
  "POSTABLE_MOVEMENT_TYPES = [''receipt'', ''issue'']"

text \<open>The badge, and \<open>None\<close> for the plain dash.\<close>

definition MovementGLBadge :: "StockMovement \<Rightarrow> (badge \<times> string) option" where
  "MovementGLBadge m =
     (if sm_journal_entry_id m \<noteq> None then Some (Default_Badge, ''posted'')
      else if sm_movement_type m \<in> set POSTABLE_MOVEMENT_TYPES then Some (Outline_Badge, ''draft'')
      else None)"

record StockMovements =
  sml_movements :: "StockMovement list option"
  sml_productNames :: "int \<rightharpoonup> string"
  sml_warehouseNames :: "int \<rightharpoonup> string"
  sml_error :: "string option"

definition stock_movements_init :: StockMovements where
  "stock_movements_init = \<lparr>sml_movements = None, sml_productNames = Map.empty,
     sml_warehouseNames = Map.empty, sml_error = None\<rparr>"

definition product_label :: "Product \<Rightarrow> string" where
  "product_label p = prod_sku p @ '' '' @ em_dash @ '' '' @ prod_name p"

type_synonym movements_data = "StockMovement list \<times> Product list \<times> Warehouse list"

definition load_movements :: "('w, movements_data) call" where
  "load_movements = both_io listStockMovements (both_io listProducts listWarehouses)"

definition movements_loaded :: "bool \<Rightarrow> exn + movements_data \<Rightarrow> StockMovements \<Rightarrow> StockMovements" where
  "movements_loaded cancelled result s = (case result of
       Inr (rws, products, warehouses) \<Rightarrow>
         if cancelled then s
         else s\<lparr>sml_productNames := map_of (rev (map (\<lambda>p. (prod_id p, product_label p)) products)),
           sml_warehouseNames := map_of (rev (map (\<lambda>w. (wh_id w, wh_code w)) warehouses)),
           sml_movements := Some rws\<rparr>
     | Inl err \<Rightarrow> if cancelled then s else s\<lparr>sml_error := Some (error_message err)\<rparr>)"

definition movement_row :: "StockMovements \<Rightarrow> StockMovement \<Rightarrow> string list" where
  "movement_row s m = [show_int (sm_id m), sm_movement_date m, sm_movement_type m,
     name_or_id (sml_productNames s) (sm_product_id m),
     name_or_id (sml_warehouseNames s) (sm_warehouse_id m),
     (case MovementGLBadge m of Some (_, t) \<Rightarrow> t | None \<Rightarrow> em_dash),
     formatAmount (sm_quantity m), formatAmount (sm_unit_cost m), formatAmount (sm_total_cost m)]"

definition stock_movements_view :: "StockMovements \<Rightarrow> unit element list" where
  "stock_movements_view s =
     [Heading ''Stock Movements'',
      Note (''Inventory in and out, newest first. Receipts and issues post to the ledger; ''
        @ ''other types only move stock.''),
      Link ''New movement'' ''/stock-movements/new'']
     @ (case sml_error s of None \<Rightarrow> [] | Some e \<Rightarrow> [Alert (''Failed to load: '' @ e)])
     @ guarded (sml_error s = None \<and> sml_movements s = None) [Note ''Loading...'']
     @ (case sml_movements s of
          None \<Rightarrow> []
        | Some [] \<Rightarrow> [Note ''No stock movements yet.'']
        | Some movements \<Rightarrow>
            [Table [''#'', ''Date'', ''Type'', ''Product'', ''Warehouse'', ''GL'', ''Qty'', ''Unit Cost'', ''Total Cost'']
              (map (movement_row s) movements)]
            @ map (\<lambda>m. Link (show_int (sm_id m)) (''/stock-movements/'' @ show_int (sm_id m))) movements)"

section \<open>The form\<close>

text \<open>\<open>quantity.replace(/^-/, "")\<close>\<close>

definition magnitude :: "string \<Rightarrow> string" where
  "magnitude q = (if startsWith q ''-'' then drop 1 q else q)"

definition signQuantity :: "string \<Rightarrow> string \<Rightarrow> string" where
  "signQuantity ty quantity =
     (let m = magnitude quantity in
      if ty = ''issue'' \<or> ty = ''transfer_out'' then (if m = [] then [] else ''-'' @ m)
      else if ty = ''adjustment'' then quantity
      else m)"

record StockMovementForm =
  sf_products :: "Product list"
  sf_warehouses :: "Warehouse list"
  sf_error :: "string option"
  sf_loaded :: bool
  sf_productId :: string
  sf_warehouseId :: string
  sf_movementType :: string
  sf_date :: string
  sf_quantity :: string
  sf_unitCost :: string
  sf_reference :: string
  sf_notes :: string
  sf_saving :: bool
  sf_saveError :: "string option"
  sf_navigated :: "string option"

definition stock_form_init :: "string \<Rightarrow> StockMovementForm" where
  "stock_form_init utc_date = \<lparr>sf_products = [], sf_warehouses = [], sf_error = None, sf_loaded = False,
     sf_productId = [], sf_warehouseId = [], sf_movementType = ''receipt'', sf_date = utc_date,
     sf_quantity = [], sf_unitCost = [], sf_reference = [], sf_notes = [], sf_saving = False,
     sf_saveError = None, sf_navigated = None\<rparr>"

type_synonym stock_form_data = "Product list \<times> Warehouse list \<times> StockMovement option"

definition load_stock_form :: "int option \<Rightarrow> ('w, stock_form_data) call" where
  "load_stock_form editId = both_io listProducts (both_io listWarehouses (optional_io getStockMovement editId))"

definition stock_form_loaded :: "bool \<Rightarrow> exn + stock_form_data \<Rightarrow> StockMovementForm \<Rightarrow> StockMovementForm" where
  "stock_form_loaded cancelled result f = (case result of
       Inl err \<Rightarrow> if cancelled then f else f\<lparr>sf_error := Some (error_message err)\<rparr>
     | Inr (prods, whs, movement) \<Rightarrow>
         if cancelled then f
         else
           let f = f\<lparr>sf_products := filter (\<lambda>p. prod_is_active p \<and> prod_track_inventory p) prods,
             sf_warehouses := filter wh_is_active whs\<rparr> in
           (case movement of
              None \<Rightarrow> f\<lparr>sf_loaded := True\<rparr>
            | Some m \<Rightarrow>
                if sm_journal_entry_id m \<noteq> None
                then f\<lparr>sf_error := Some ''Posted stock movements cannot be edited.''\<rparr>
                else if sm_source_type m \<noteq> None
                then f\<lparr>sf_error := Some (''This movement was created by order fulfilment and cannot be edited. ''
                  @ ''Delete it and ship or receive the order again instead.'')\<rparr>
                else f\<lparr>sf_productId := show_int (sm_product_id m), sf_warehouseId := show_int (sm_warehouse_id m),
                  sf_movementType := sm_movement_type m, sf_date := sm_movement_date m,
                  sf_quantity := (if sm_movement_type m = ''adjustment'' then trimAmount (sm_quantity m)
                    else magnitude (trimAmount (sm_quantity m))),
                  sf_unitCost := trimAmount (sm_unit_cost m), sf_reference := or_empty (sm_reference m),
                  sf_notes := or_empty (sm_notes m), sf_loaded := True\<rparr>))"

definition stock_input :: "StockMovementForm \<Rightarrow> StockMovementInput" where
  "stock_input f = \<lparr>smi_product_id = id_of (sf_productId f), smi_warehouse_id = id_of (sf_warehouseId f),
     smi_movement_type = sf_movementType f, smi_movement_date = Some (sf_date f),
     smi_quantity = signQuantity (sf_movementType f) (trim (sf_quantity f)),
     smi_unit_cost = trim (sf_unitCost f), smi_reference = emptyToNull (sf_reference f),
     smi_notes = emptyToNull (sf_notes f)\<rparr>"

definition save_movement :: "int option \<Rightarrow> StockMovementInput \<Rightarrow> ('w, int) call" where
  "save_movement editId input = (case editId of
       Some k \<Rightarrow> map_io (\<lambda>_. k) (updateStockMovement k input)
     | None \<Rightarrow> createStockMovement input)"

definition submitMovement :: "int option \<Rightarrow> StockMovementForm \<Rightarrow> ('w, payload, body) browser
    \<Rightarrow> StockMovementForm \<times> ('w, payload, body) browser" where
  "submitMovement editId f b =
     (if sf_productId f = [] \<or> sf_warehouseId f = []
      then (f\<lparr>sf_saveError := Some ''Please choose a product and a warehouse.''\<rparr>, b)
      else
        let input = stock_input f; f = f\<lparr>sf_saving := True, sf_saveError := None\<rparr> in
        case save_movement editId input b of
          (Inr docId, b) \<Rightarrow> (f\<lparr>sf_navigated := Some (''/stock-movements/'' @ show_int docId)\<rparr>, b)
        | (Inl err, b) \<Rightarrow> (f\<lparr>sf_saving := False, sf_saveError := Some (save_message err)\<rparr>, b))"

datatype stock_event = Pick_Product string | Pick_Warehouse string | Pick_Type string
  | Type_Movement_Date string | Type_Quantity string | Type_Cost string | Type_Movement_Reference string
  | Type_Notes string | Save_Movement

definition stock_fields_view :: "StockMovementForm \<Rightarrow> stock_event element list" where
  "stock_fields_view f =
     [if sf_products f \<noteq> [] then
        Select ''product'' ''Product'' (sf_productId f)
          (map (\<lambda>p. (show_int (prod_id p), product_label p)) (sf_products f)) Pick_Product
      else Note (''No inventory-tracked products. Create a product with \"track inventory\" enabled first.''),
      Select ''warehouse'' ''Warehouse'' (sf_warehouseId f)
        (map (\<lambda>w. (show_int (wh_id w), wh_code w @ '' '' @ em_dash @ '' '' @ wh_name w)) (sf_warehouses f)) Pick_Warehouse,
      Select ''movement_type'' ''Type'' (sf_movementType f) (map (\<lambda>t. (t, t)) MOVEMENT_TYPES) Pick_Type,
      Field ''date'' ''Date'' True (sf_date f) Type_Movement_Date,
      Field ''quantity'' ''Quantity'' True (sf_quantity f) Type_Quantity,
      Note (if sf_movementType f = ''adjustment'' then ''Signed: negative for shrinkage, positive for found stock.''
        else ''Magnitude only; the type determines the direction.''),
      Field ''unit_cost'' ''Unit Cost'' False (sf_unitCost f) Type_Cost,
      Field ''reference'' ''Reference'' False (sf_reference f) Type_Movement_Reference,
      Field ''notes'' ''Notes'' False (sf_notes f) Type_Notes]"

definition stock_form_view :: "int option \<Rightarrow> StockMovementForm \<Rightarrow> stock_event element list" where
  "stock_form_view editId f =
     [Heading (if editId \<noteq> None then ''Edit Stock Movement'' else ''New Stock Movement''),
      Note (if editId \<noteq> None then ''Rewrites the movement -- stock on hand adjusts immediately.''
        else ''Moves stock immediately. Receipts and issues can then be posted to the ledger from the movement page.'')]
     @ (case sf_error f of None \<Rightarrow> []
        | Some e \<Rightarrow> [Alert e, Link ''Back to stock movements'' ''/stock-movements''])
     @ guarded (sf_error f = None \<and> \<not> sf_loaded f) [Note ''Loading...'']
     @ guarded (sf_error f = None \<and> sf_loaded f)
         (stock_fields_view f
          @ (case sf_saveError f of None \<Rightarrow> [] | Some e \<Rightarrow> [Alert (''Failed to save: '' @ e)])
          @ [Button (if sf_saving f then ''Saving...'' else if editId \<noteq> None then ''Save changes'' else ''Create'')
               (sf_saving f \<or> sf_products f = []) Save_Movement,
             Link ''Cancel'' (case editId of
               Some k \<Rightarrow> ''/stock-movements/'' @ show_int k | None \<Rightarrow> ''/stock-movements'')])"

fun stock_form_step :: "int option \<Rightarrow> stock_event \<Rightarrow> StockMovementForm \<times> ('w, payload, body) browser
    \<Rightarrow> StockMovementForm \<times> ('w, payload, body) browser" where
  "stock_form_step k (Pick_Product v) (f, b) = (f\<lparr>sf_productId := v\<rparr>, b)"
| "stock_form_step k (Pick_Warehouse v) (f, b) = (f\<lparr>sf_warehouseId := v\<rparr>, b)"
| "stock_form_step k (Pick_Type v) (f, b) = (f\<lparr>sf_movementType := v\<rparr>, b)"
| "stock_form_step k (Type_Movement_Date v) (f, b) = (f\<lparr>sf_date := v\<rparr>, b)"
| "stock_form_step k (Type_Quantity v) (f, b) = (f\<lparr>sf_quantity := v\<rparr>, b)"
| "stock_form_step k (Type_Cost v) (f, b) = (f\<lparr>sf_unitCost := v\<rparr>, b)"
| "stock_form_step k (Type_Movement_Reference v) (f, b) = (f\<lparr>sf_reference := v\<rparr>, b)"
| "stock_form_step k (Type_Notes v) (f, b) = (f\<lparr>sf_notes := v\<rparr>, b)"
| "stock_form_step k Save_Movement (f, b) = submitMovement k f b"

definition stock_form_move :: "int option \<Rightarrow> StockMovementForm \<times> ('w, payload, body) browser
    \<Rightarrow> StockMovementForm \<times> ('w, payload, body) browser \<Rightarrow> bool" where
  "stock_form_move k = form_move (load_stock_form k) stock_form_loaded
     (\<lambda>f. offers (stock_form_view k f)) (stock_form_step k)"

section \<open>The sign of a quantity\<close>

lemma magnitude_body [simp]: "magnitude s = amount_body s"
  by (simp add: magnitude_def amount_body_def)

lemma amount_body_digits:
  assumes "AMOUNT_RE s"
  shows "\<not> startsWith (amount_body s) ''-''" "amount_body s \<noteq> []"
proof -
  note c = AMOUNT_RE_cases [OF assms]
  have w: "\<not> startsWith (whole_digits s @ r) ''-''" if "whole_digits s \<noteq> []" for r
    using digit_Cons [OF c(1) that] by simp
  show "\<not> startsWith (amount_body s) ''-''"
    using c(3,4) w [of "[]"] w [of "''.'' @ frac_digits s"] by (cases "whole_digits s = []") auto
  show "amount_body s \<noteq> []" using c(3,4) by auto
qed

lemma amount_of_body:
  assumes "AMOUNT_RE s"
  shows "AMOUNT_RE (amount_body s)" "amount_value (amount_body s) = \<bar>amount_value s\<bar>"
    "AMOUNT_RE (''-'' @ amount_body s)" "amount_value (''-'' @ amount_body s) = - \<bar>amount_value s\<bar>"
proof -
  note b = amount_body_digits [OF assms]
  have e: "amount_body (amount_body s) = amount_body s" "amount_body (''-'' @ amount_body s) = amount_body s"
    using b(1) by (simp_all add: amount_body_def [of "amount_body s"] amount_body_def [of "CHR ''-'' # amount_body s"])
  show "AMOUNT_RE (amount_body s)" "AMOUNT_RE (''-'' @ amount_body s)"
    using assms unfolding AMOUNT_RE_body [of s] AMOUNT_RE_body [of "amount_body s"]
      AMOUNT_RE_body [of "''-'' @ amount_body s"] e by assumption+
  have n: "0 \<le> (of_nat (digits_val (whole_digits s @ frac_digits s)) / 10 ^ length (frac_digits s) :: rat)"
    by simp
  show "amount_value (amount_body s) = \<bar>amount_value s\<bar>" "amount_value (''-'' @ amount_body s) = - \<bar>amount_value s\<bar>"
    using b(1) n unfolding amount_value_def whole_digits_def frac_digits_def e by auto
qed

text \<open>C25. The direction of a movement is that of its type: whatever decimal the user typed, with or
  without a sign, an issue or an outgoing transfer is sent with a quantity that is not positive, a
  receipt or an incoming transfer with one that is not negative, both of the magnitude typed, and
  an adjustment with the quantity as typed.\<close>

theorem movement_direction:
  assumes "AMOUNT_RE (trim (sf_quantity f))"
  defines "q \<equiv> smi_quantity (stock_input f)" and "typed \<equiv> amount_value (trim (sf_quantity f))"
  shows "AMOUNT_RE q
    \<and> (sf_movementType f \<in> {''issue'', ''transfer_out''} \<longrightarrow> amount_value q = - \<bar>typed\<bar>)
    \<and> (sf_movementType f \<in> {''receipt'', ''transfer_in''} \<longrightarrow> amount_value q = \<bar>typed\<bar>)
    \<and> (sf_movementType f = ''adjustment'' \<longrightarrow> q = trim (sf_quantity f))"
  using assms(1) amount_of_body [OF assms(1)] amount_body_digits(2) [OF assms(1)]
  by (simp add: q_def typed_def stock_input_def signQuantity_def Let_def del: append.simps)

theorem movement_direction_witness:
  "amount_value (smi_quantity (stock_input ((stock_form_init ''2024-02-29'')\<lparr>sf_movementType := ''issue'',
     sf_quantity := '' 5 ''\<rparr>))) = - 5"
proof -
  let ?f = "(stock_form_init ''2024-02-29'')\<lparr>sf_movementType := ''issue'', sf_quantity := '' 5 ''\<rparr>"
  have "AMOUNT_RE (trim (sf_quantity ?f))" by code_simp
  moreover have "amount_value (trim (sf_quantity ?f)) = 5" by code_simp
  moreover have "sf_movementType ?f \<in> {''issue'', ''transfer_out''}" by simp
  ultimately show ?thesis using movement_direction [of ?f] by simp
qed

section \<open>The contracts of the form\<close>

definition stock_problem :: "StockMovementForm \<Rightarrow> string option" where
  "stock_problem f = (if sf_productId f = [] \<or> sf_warehouseId f = []
     then Some ''Please choose a product and a warehouse.'' else None)"

definition stock_kept :: "StockMovementForm \<Rightarrow> StockMovementForm" where
  "stock_kept f = f\<lparr>sf_saving := False, sf_saveError := None, sf_navigated := None\<rparr>"

definition stock_request :: "int option \<Rightarrow> StockMovementInput \<Rightarrow> payload request" where
  "stock_request k input =
     (let p = Document_Payload (StockMovementInput_Payload input) in
      case k of Some n \<Rightarrow> body_request ''PUT'' (''/stock-movements/'' @ show_int n) p
      | None \<Rightarrow> body_request ''POST'' ''/stock-movements'' p)"

lemma save_movement_saves: "saves (accepted k id_content) (save_movement k input) (stock_request k input)"
  by (cases k) (simp_all add: save_movement_def stock_request_def Let_def updateStockMovement_def
      createStockMovement_def saving_calls)

interpretation stock_form: form_submit "submitMovement k" stock_problem "\<lambda>f. stock_request k (stock_input f)"
    "accepted k id_content" stock_kept sf_saving sf_saveError sf_navigated for k
proof unfold_locales
  fix f m e and b :: "('w, payload, body) browser"
  note s = save_movement_saves [of k "stock_input f"] and d = submitMovement_def stock_problem_def Let_def
  let ?r = "submitMovement k f b" and ?q = "stock_request k (stock_input f)"
  show "stock_problem f = Some m \<Longrightarrow> snd ?r = b \<and> sf_saveError (fst ?r) = Some m
      \<and> sf_saving (fst ?r) = sf_saving f \<and> sf_navigated (fst ?r) = sf_navigated f"
    by (auto simp: d split: if_splits)
  show "stock_kept (fst ?r) = stock_kept f"
    by (simp add: d stock_kept_def split: prod.split sum.split)
  show "stock_problem f = None \<Longrightarrow> snd ?r = after_exchange ?q b"
    using saves_state [OF s, of b] by (auto simp: d split: if_splits prod.splits sum.splits)
  show "stock_problem f = None \<Longrightarrow> failed_with (accepted k id_content) (reply_to ?q b) = None \<Longrightarrow> sf_navigated (fst ?r) \<noteq> None \<and> sf_saveError (fst ?r) = None \<and> sf_saving (fst ?r)"
    using saves_ok [OF s, of b] by (auto simp: d split: if_splits)
  show "stock_problem f = None \<Longrightarrow>
      failed_with (accepted k id_content) (reply_to ?q b) = Some e \<Longrightarrow>
      sf_navigated (fst ?r) = sf_navigated f \<and> sf_saveError (fst ?r) = Some (save_message e) \<and> \<not> sf_saving (fst ?r)"
    using saves_fails [OF s, of b e]
    by (auto simp: d split: if_splits)
qed

definition movement_locked :: "stock_form_data \<Rightarrow> bool" where
  "movement_locked data = (case snd (snd data) of
     Some m \<Rightarrow> sm_journal_entry_id m \<noteq> None \<or> sm_source_type m \<noteq> None | None \<Rightarrow> False)"

definition initial_movement :: "StockMovementForm \<Rightarrow> bool" where
  "initial_movement f \<longleftrightarrow> (\<exists>date. f = stock_form_init date)"

interpretation stock_edit: edit_form "load_stock_form k" stock_form_loaded "\<lambda>f. offers (stock_form_view k f)"
    "stock_form_step k" initial_movement sf_loaded movement_locked for k
proof unfold_locales
  fix f :: StockMovementForm and r c e
  show "reads_only (load_stock_form k)"
    by (auto simp: load_stock_form_def listProducts_def listWarehouses_def getStockMovement_def intro!: reading)
  show "\<not> sf_loaded f \<Longrightarrow> (\<And>data. r = Inr data \<Longrightarrow> movement_locked data) \<Longrightarrow> \<not> sf_loaded (stock_form_loaded c r f)"
    by (auto simp: stock_form_loaded_def movement_locked_def Let_def split: sum.splits option.splits)
  show "\<not> sf_loaded f \<Longrightarrow> \<not> offers (stock_form_view k f) e"
    by (auto simp: stock_form_view_def split: option.splits)
  show "initial_movement f \<Longrightarrow> \<not> sf_loaded f" by (auto simp: initial_movement_def stock_form_init_def)
qed

section \<open>Properties of the form\<close>

text \<open>A movement that is in the ledger or came from an order is never rewritten: in every state
  its edit form reaches on a server that keeps it so, all requests were reads and saving is not
  offered.\<close>

theorem locked_movement_untouched:
  assumes "always_loads net (load_stock_form (Some n)) movement_locked"
    and "reachable (fresh_on net initial_movement) (stock_form_move (Some n)) (f, b)"
  shows "list_all (\<lambda>rq. rq_method rq = ''GET'') (sent b) \<and> \<not> offers (stock_form_view (Some n) f) Save_Movement"
  using stock_edit.untouched [OF assms [unfolded stock_form_move_def]] by simp

text \<open>A movement as the server stores it, with the sign its type requires.\<close>

definition signed_movement :: "StockMovement \<Rightarrow> bool" where
  "signed_movement m \<longleftrightarrow> printed (sm_quantity m) \<and> printed (sm_unit_cost m) \<and> clean (sm_reference m) \<and> clean (sm_notes m)
     \<and> (sm_movement_type m \<in> {''issue'', ''transfer_out''} \<longrightarrow> startsWith (sm_quantity m) ''-'')
     \<and> (sm_movement_type m \<in> {''receipt'', ''transfer_in''} \<longrightarrow> \<not> startsWith (sm_quantity m) ''-'')
     \<and> sm_movement_type m \<in> set MOVEMENT_TYPES"

lemma signed_back:
  assumes "printed s"
  shows "ty \<in> {''issue'', ''transfer_out''} \<Longrightarrow> startsWith s ''-'' \<Longrightarrow>
      signQuantity ty (trim (magnitude (trimAmount s))) = trimAmount s"
    and "ty \<in> {''receipt'', ''transfer_in''} \<Longrightarrow> \<not> startsWith s ''-'' \<Longrightarrow>
      signQuantity ty (trim (magnitude (trimAmount s))) = trimAmount s"
proof -
  have t: "AMOUNT_RE (trimAmount s)" "startsWith (trimAmount s) ''-'' = startsWith s ''-''"
    using assms trimAmount_digits(1,4) [of s] by (simp_all add: printed_def)
  note b = amount_trim [OF amount_of_body(1) [OF t(1)]] and nb = amount_body_digits [OF t(1)]
  show "signQuantity ty (trim (magnitude (trimAmount s))) = trimAmount s"
    if "ty \<in> {''issue'', ''transfer_out''}" "startsWith s ''-''"
    using that nb AMOUNT_RE_minus [OF t(1)] t(2)
    by (auto simp: signQuantity_def b amount_body_def [of "amount_body (trimAmount s)"])
  have "amount_body (trimAmount s) = trimAmount s" if "\<not> startsWith s ''-''"
    using that t(2) by (simp add: amount_body_def)
  then show "signQuantity ty (trim (magnitude (trimAmount s))) = trimAmount s"
    if "ty \<in> {''receipt'', ''transfer_in''}" "\<not> startsWith s ''-''"
    using that b by (auto simp: signQuantity_def)
qed

text \<open>C26. Editing a movement changes only what the user edits: opening one that may be edited and
  saving it at once makes one request, the PUT of that movement with the product, warehouse, type,
  date, reference and notes loaded, and a quantity and a unit cost of the same value, sign
  included.\<close>

theorem movement_edit_roundtrip:
  assumes "sm_journal_entry_id m = None" "sm_source_type m = None" "signed_movement m"
    and "f = stock_form_loaded False (Inr (ps, ws, Some m)) (stock_form_init date)"
  shows "sf_loaded f \<and> sf_error f = None
    \<and> (\<exists>q c. amount_value q = amount_value (sm_quantity m) \<and> amount_value c = amount_value (sm_unit_cost m)
      \<and> snd (submitMovement (Some n) f b) = after_exchange (stock_request (Some n)
        \<lparr>smi_product_id = sm_product_id m, smi_warehouse_id = sm_warehouse_id m,
         smi_movement_type = sm_movement_type m, smi_movement_date = Some (sm_movement_date m),
         smi_quantity = q, smi_unit_cost = c, smi_reference = sm_reference m, smi_notes = sm_notes m\<rparr>) b)"
proof (intro conjI exI)
  have f: "f = (stock_form_init date)\<lparr>sf_products := filter (\<lambda>p. prod_is_active p \<and> prod_track_inventory p) ps,
      sf_warehouses := filter wh_is_active ws, sf_productId := show_int (sm_product_id m),
      sf_warehouseId := show_int (sm_warehouse_id m), sf_movementType := sm_movement_type m,
      sf_date := sm_movement_date m, sf_quantity := (if sm_movement_type m = ''adjustment'' then trimAmount (sm_quantity m)
        else magnitude (trimAmount (sm_quantity m))), sf_unitCost := trimAmount (sm_unit_cost m),
      sf_reference := or_empty (sm_reference m), sf_notes := or_empty (sm_notes m), sf_loaded := True\<rparr>"
    using assms(1,2,4) by (simp add: stock_form_loaded_def)
  show "sf_loaded f" "sf_error f = None" by (simp_all add: f stock_form_init_def)
  show "amount_value (trimAmount (sm_quantity m)) = amount_value (sm_quantity m)"
    "amount_value (trimAmount (sm_unit_cost m)) = amount_value (sm_unit_cost m)"
    using assms(3) by (simp_all add: signed_movement_def trimAmount_printed)
  have q: "signQuantity (sm_movement_type m) (trim (sf_quantity f)) = trimAmount (sm_quantity m)"
  proof (cases "sm_movement_type m = ''adjustment''")
    case True
    then show ?thesis
      using assms(3) by (simp add: f signQuantity_def signed_movement_def printed_input Let_def)
  next
    case False
    then consider "sm_movement_type m \<in> {''issue'', ''transfer_out''}" | "sm_movement_type m \<in> {''receipt'', ''transfer_in''}"
      using assms(3) by (auto simp: signed_movement_def MOVEMENT_TYPES_def)
    then have "signQuantity (sm_movement_type m) (trim (magnitude (trimAmount (sm_quantity m)))) = trimAmount (sm_quantity m)"
    proof cases
      case 1
      then show ?thesis using assms(3) by (intro signed_back(1)) (simp_all add: signed_movement_def)
    next
      case 2
      then show ?thesis using assms(3) by (intro signed_back(2)) (simp_all add: signed_movement_def)
    qed
    then show ?thesis using False by (simp add: f)
  qed
  have i: "stock_input f = \<lparr>smi_product_id = sm_product_id m, smi_warehouse_id = sm_warehouse_id m,
      smi_movement_type = sm_movement_type m, smi_movement_date = Some (sm_movement_date m),
      smi_quantity = trimAmount (sm_quantity m), smi_unit_cost = trimAmount (sm_unit_cost m),
      smi_reference = sm_reference m, smi_notes = sm_notes m\<rparr>"
    using assms(3) q by (simp add: stock_input_def signed_movement_def printed_input f)
  have "stock_problem f = None" by (simp add: f stock_problem_def)
  from stock_form.sends [OF this, of "Some n" b]
  show "snd (submitMovement (Some n) f b) = after_exchange (stock_request (Some n)
        \<lparr>smi_product_id = sm_product_id m, smi_warehouse_id = sm_warehouse_id m,
         smi_movement_type = sm_movement_type m, smi_movement_date = Some (sm_movement_date m),
         smi_quantity = trimAmount (sm_quantity m), smi_unit_cost = trimAmount (sm_unit_cost m),
         smi_reference = sm_reference m, smi_notes = sm_notes m\<rparr>) b"
    unfolding i .
qed

definition sample_movement :: StockMovement where
  "sample_movement = \<lparr>sm_id = 7, sm_product_id = 3, sm_warehouse_id = 1, sm_movement_date = ''2024-02-29'',
     sm_movement_type = ''issue'', sm_status = ''done'', sm_quantity = ''-5.0000'', sm_unit_cost = ''2.5000'',
     sm_total_cost = ''-12.5000'', sm_reference = None, sm_notes = None, sm_journal_entry_id = None,
     sm_source_type = None\<rparr>"

theorem movement_edit_roundtrip_witness:
  "\<exists>q c. amount_value q = amount_value ''-5.0000'' \<and> amount_value c = amount_value ''2.5000''
    \<and> sf_loaded (stock_form_loaded False (Inr ([], [], Some sample_movement)) (stock_form_init ''2024-03-01''))"
proof -
  have "sm_journal_entry_id sample_movement = None" "sm_source_type sample_movement = None"
    "signed_movement sample_movement" by code_simp+
  note w = movement_edit_roundtrip [OF this refl]
  have "sm_quantity sample_movement = ''-5.0000''" "sm_unit_cost sample_movement = ''2.5000''"
    by (simp_all add: sample_movement_def)
  with w [where ps = "[]" and ws = "[]" and date = "''2024-03-01''"] show ?thesis by force
qed

definition stock_server :: "StockMovement \<Rightarrow> string \<Rightarrow> body" where
  "stock_server m path =
     (if path = ''/api/products'' then Master (Product_List [])
      else if path = ''/api/warehouses'' then Master (Warehouse_List [])
      else if path = ''/api/accounts'' then Master (Account_List [])
      else Document (StockMovement_Body m))"

lemma stock_answers:
  assumes "network b = answering (stock_server m)"
  shows "listProducts b = (Inr [], after_exchange (get_request ''/products'') b)"
    "listWarehouses b = (Inr [], after_exchange (get_request ''/warehouses'') b)"
    "listAccounts b = (Inr [], after_exchange (get_request ''/accounts'') b)"
    "getStockMovement 7 b = (Inr m, after_exchange (get_request ''/stock-movements/7'') b)"
proof -
  have "show_int 7 = ''7''" by code_simp
  with assms show "listProducts b = (Inr [], after_exchange (get_request ''/products'') b)"
    "listWarehouses b = (Inr [], after_exchange (get_request ''/warehouses'') b)"
    "listAccounts b = (Inr [], after_exchange (get_request ''/accounts'') b)"
    "getStockMovement 7 b = (Inr m, after_exchange (get_request ''/stock-movements/7'') b)"
    by (simp_all add: listProducts_def listWarehouses_def listAccounts_def getStockMovement_def get_answering
        master_as_def document_as_def BASE_def stock_server_def)
qed

lemma load_stock_form_answers:
  assumes "network b = answering (stock_server m)"
  shows "\<exists>b'. load_stock_form (Some 7) b = (Inr ([], [], Some m), b')"
  using assms
  by (simp add: load_stock_form_def both_io_def stock_answers optional_io_def map_io_def then_io_def return_io_def)

theorem locked_movement_untouched_witness:
  "\<exists>f. \<exists>b :: (unit, payload, body) browser. f = stock_form_loaded False (fst (load_stock_form (Some 7) b)) (stock_form_init [])
    \<and> \<not> offers (stock_form_view (Some 7) f) Save_Movement"
proof -
  let ?m = "sample_movement\<lparr>sm_journal_entry_id := Some 5\<rparr>"
  let ?net = "answering (stock_server ?m) :: payload request \<Rightarrow> unit \<Rightarrow> body reply \<times> unit"
  let ?b = "\<lparr>network = ?net, world = (), sent = [], events = []\<rparr> :: (unit, payload, body) browser"
  let ?f = "stock_form_loaded False (fst (load_stock_form (Some 7) ?b)) (stock_form_init [])"
  have l: "always_loads ?net (load_stock_form (Some 7)) movement_locked"
    unfolding always_loads_def
  proof (intro allI impI)
    fix b data b' assume "network b = ?net" "load_stock_form (Some 7) b = (Inr data, b')"
    with load_stock_form_answers [of b ?m] show "movement_locked data" by (auto simp: movement_locked_def)
  qed
  have s: "reachable (fresh_on ?net initial_movement) (stock_form_move (Some 7)) (stock_form_init [], ?b)"
    by (rule reachable.starting) (auto simp: fresh_on_def initial_movement_def)
  have m: "stock_form_move (Some 7) (stock_form_init [], ?b) (?f, snd (load_stock_form (Some 7) ?b))"
    unfolding stock_form_move_def by (rule form_move.load) simp
  from s m have "reachable (fresh_on ?net initial_movement) (stock_form_move (Some 7))
      (?f, snd (load_stock_form (Some 7) ?b))" by (rule reachable.moving)
  from locked_movement_untouched [OF l this] show ?thesis by blast
qed

end
