(* ===== verification/Stock_Detail.thy ===== *)
theory Stock_Detail
  imports Stock_Movement Document_Detail
begin

text \<open>
  The screen of one stock movement (\<open>web/src/components/stock-movement-detail.tsx\<close>): its facts, and
  the actions that post it to the ledger, reverse that, or delete it. Unlike the other detail
  screens the reload after an action is not part of the promise whose failure is handled.
\<close>

section \<open>State and loading\<close>

record StockMovementDetail =
  sd_movement :: "StockMovement option"
  sd_productName :: string
  sd_warehouseName :: string
  sd_accounts :: "Account list"
  sd_error :: "string option"
  sd_creditAccountId :: string
  sd_acting :: bool
  sd_actionError :: "string option"
  sd_navigated :: "string option"

definition stock_detail_init :: StockMovementDetail where
  "stock_detail_init = \<lparr>sd_movement = None, sd_productName = [], sd_warehouseName = [], sd_accounts = [],
     sd_error = None, sd_creditAccountId = NONE, sd_acting = False, sd_actionError = None,
     sd_navigated = None\<rparr>"

type_synonym stock_detail_data = "StockMovement \<times> string \<times> string \<times> Account list"

definition stock_detail_names :: "StockMovement \<Rightarrow> Product list \<Rightarrow> Warehouse list \<Rightarrow> string \<times> string" where
  "stock_detail_names m products warehouses =
     (case find (\<lambda>p. prod_id p = sm_product_id m) products of
        Some p \<Rightarrow> product_label p | None \<Rightarrow> ''#'' @ show_int (sm_product_id m),
      case find (\<lambda>w. wh_id w = sm_warehouse_id m) warehouses of
        Some w \<Rightarrow> wh_code w @ '' '' @ em_dash @ '' '' @ wh_name w | None \<Rightarrow> ''#'' @ show_int (sm_warehouse_id m))"

definition load_stock_detail :: "int \<Rightarrow> ('w, stock_detail_data) call" where
  "load_stock_detail movementId =
     map_io (\<lambda>(m, products, warehouses, accts).
         case stock_detail_names m products warehouses of (p, w) \<Rightarrow> (m, p, w, accts))
       (both_io (getStockMovement movementId) (both_io listProducts (both_io listWarehouses listAccounts)))"

definition stock_opened :: "bool \<Rightarrow> exn + stock_detail_data \<Rightarrow> StockMovementDetail \<Rightarrow> StockMovementDetail" where
  "stock_opened cancelled result s = (case result of
       Inr (m, p, w, accts) \<Rightarrow> if cancelled then s
         else s\<lparr>sd_movement := Some m, sd_productName := p, sd_warehouseName := w, sd_accounts := accts\<rparr>
     | Inl err \<Rightarrow> if cancelled then s else s\<lparr>sd_error := Some (error_message err)\<rparr>)"

definition stock_effect :: "string \<Rightarrow> bool \<Rightarrow> StockMovementDetail \<times> ('w, payload, body) browser
    \<Rightarrow> StockMovementDetail \<times> ('w, payload, body) browser" where
  "stock_effect route cancelled x = (case x of (s, b) \<Rightarrow>
     if invalid_id route then (s\<lparr>sd_error := Some ''Invalid id.''\<rparr>, b)
     else (case load_stock_detail (id_of route) b of (r, b) \<Rightarrow> (stock_opened cancelled r s, b)))"

section \<open>Actions\<close>

text \<open>Posting carries the clearing account chosen when the button was clicked. The confirmation of
  a deletion is taken as given.\<close>

datatype stock_action = Post_Movement "int option" | Unpost_Movement | Delete_Movement

definition stock_call :: "int \<Rightarrow> stock_action \<Rightarrow> ('w, unit) call" where
  "stock_call k a = (case a of
       Post_Movement credit \<Rightarrow> map_io (\<lambda>_. ()) (postStockMovement k credit)
     | Unpost_Movement \<Rightarrow> map_io (\<lambda>_. ()) (unpostStockMovement k)
     | Delete_Movement \<Rightarrow> deleteStockMovement k)"

definition stock_start :: "stock_action \<Rightarrow> StockMovementDetail \<Rightarrow> StockMovementDetail" where
  "stock_start a s = s\<lparr>sd_acting := True, sd_actionError := None\<rparr>"

text \<open>\<open>refresh\<close> starts the load and returns nothing, so nobody handles a load that fails: the screen
  keeps the state it had.\<close>

definition stock_refresh :: "int \<Rightarrow> StockMovementDetail \<times> ('w, payload, body) browser
    \<Rightarrow> StockMovementDetail \<times> ('w, payload, body) browser" where
  "stock_refresh k x = (case x of (s, b) \<Rightarrow>
     (case load_stock_detail k b of
        (Inr (m, _), b) \<Rightarrow> (s\<lparr>sd_movement := Some m, sd_acting := False\<rparr>, b)
      | (Inl err, b) \<Rightarrow> (s, b)))"

definition stock_settle :: "string \<Rightarrow> stock_action \<Rightarrow> StockMovementDetail \<times> ('w, payload, body) browser
    \<Rightarrow> StockMovementDetail \<times> ('w, payload, body) browser" where
  "stock_settle route a x = (case x of (s, b) \<Rightarrow>
     (case stock_call (id_of route) a b of
        (Inr _, b) \<Rightarrow> if a = Delete_Movement then (s\<lparr>sd_navigated := Some ''/stock-movements''\<rparr>, b)
                    else stock_refresh (id_of route) (s, b)
      | (Inl err, b) \<Rightarrow> (s\<lparr>sd_acting := False, sd_actionError := Some (save_message err)\<rparr>, b)))"

section \<open>The screen\<close>

datatype stock_detail_event = Act stock_action | Pick_Credit string

fun stock_action_of :: "stock_detail_event \<Rightarrow> stock_action option" where
  "stock_action_of (Act a) = Some a"
| "stock_action_of _ = None"

fun stock_react :: "stock_detail_event \<Rightarrow> StockMovementDetail \<Rightarrow> StockMovementDetail" where
  "stock_react (Pick_Credit v) s = s\<lparr>sd_creditAccountId := v\<rparr>"
| "stock_react (Act a) s = s"

definition movement_posted :: "StockMovement \<Rightarrow> bool" where
  "movement_posted m \<longleftrightarrow> sm_journal_entry_id m \<noteq> None"

definition postable :: "StockMovement \<Rightarrow> bool" where
  "postable m \<longleftrightarrow> \<not> movement_posted m \<and> sm_movement_type m \<in> set POSTABLE_MOVEMENT_TYPES"

definition stock_header_view :: "int \<Rightarrow> StockMovementDetail \<Rightarrow> StockMovement \<Rightarrow> stock_detail_event element list" where
  "stock_header_view movementId s m =
     (let dot = '' '' @ [CHR 0xB7] @ '' '' in
      [Heading (''Stock Movement #'' @ show_int (sm_id m)), Datum ''type'' (sm_movement_type m),
       Datum ''gl'' (case MovementGLBadge m of Some (_, t) \<Rightarrow> t | None \<Rightarrow> em_dash),
       Note (sd_productName s @ dot @ sd_warehouseName s @ dot @ sm_movement_date m
         @ (case sm_reference m of None \<Rightarrow> [] | Some r \<Rightarrow> dot @ r))]
      @ (case sm_journal_entry_id m of None \<Rightarrow> []
         | Some j \<Rightarrow> [Link (''journal entry #'' @ show_int j) (''/journal-entries/'' @ show_int j)])
      @ guarded (\<not> movement_posted m \<and> sm_source_type m = None)
          [Link ''Edit'' (''/stock-movements/'' @ show_int movementId @ ''/edit'')]
      @ guarded (\<not> movement_posted m) [Button ''Delete'' (sd_acting s) (Act Delete_Movement)]
      @ [Link ''Back'' ''/stock-movements'']
      @ map (\<lambda>(label, v). Datum label (formatAmount v))
          [(''Quantity'', sm_quantity m), (''Unit Cost'', sm_unit_cost m), (''Total Cost'', sm_total_cost m)]
      @ (case sm_notes m of None \<Rightarrow> [] | Some n \<Rightarrow> [Note n]))"

definition posting_view :: "StockMovementDetail \<Rightarrow> StockMovement \<Rightarrow> stock_detail_event element list" where
  "posting_view s m =
     [Heading ''Post to ledger'',
      Note (if sm_movement_type m = ''receipt''
        then ''Debits the product'' @ [CHR 0x27] @ ''s inventory account and credits the clearing account below ''
          @ ''(typically Goods Received Not Invoiced).''
        else ''Debits the product'' @ [CHR 0x27] @ ''s COGS account and credits its inventory account.'')]
     @ guarded (sm_movement_type m = ''receipt'')
         [Select ''credit_account'' ''Credit Account'' (sd_creditAccountId s)
           ((NONE, ''None'') # map (\<lambda>a. (show_int (acc_id a), acc_code a @ '' '' @ em_dash @ '' '' @ acc_name a))
             (sd_accounts s)) Pick_Credit]
     @ [Button (if sd_acting s then ''Posting...'' else ''Post to ledger'') (sd_acting s)
          (Act (Post_Movement (id_or_null (sd_creditAccountId s))))]"

definition stock_detail_view :: "int \<Rightarrow> bool \<Rightarrow> StockMovementDetail \<Rightarrow> stock_detail_event element list" where
  "stock_detail_view movementId is_admin s =
     (case sd_error s of None \<Rightarrow> [] | Some e \<Rightarrow> [Alert e, Link ''Back'' ''/stock-movements''])
     @ guarded (sd_error s = None \<and> sd_movement s = None) [Note ''Loading...'']
     @ (case sd_movement s of
          None \<Rightarrow> []
        | Some m \<Rightarrow>
            stock_header_view movementId s m
            @ (case sd_actionError s of None \<Rightarrow> [] | Some e \<Rightarrow> [Alert e])
            @ guarded (postable m) (posting_view s m)
            @ guarded (movement_posted m \<and> is_admin)
                [Button (if sd_acting s then ''Unposting...'' else ''Unpost'') (sd_acting s) (Act Unpost_Movement)]
            @ guarded (\<not> postable m \<and> \<not> movement_posted m)
                [Note ''This movement type does not post to the ledger.''])"

definition stock_offers :: "string \<Rightarrow> bool \<Rightarrow> StockMovementDetail \<Rightarrow> stock_detail_event \<Rightarrow> bool" where
  "stock_offers route is_admin s = offers (stock_detail_view (id_of route) is_admin s)"

definition stock_move :: "string \<Rightarrow> bool \<Rightarrow> StockMovementDetail \<times> stock_action list \<times> ('w, payload, body) browser
    \<Rightarrow> StockMovementDetail \<times> stock_action list \<times> ('w, payload, body) browser \<Rightarrow> bool" where
  "stock_move route is_admin = screen_move (stock_effect route) (stock_offers route is_admin)
     stock_action_of stock_start (stock_settle route) stock_react"

section \<open>What is offered\<close>

definition stock_permits :: "bool \<Rightarrow> StockMovementDetail \<Rightarrow> StockMovement \<Rightarrow> stock_action \<Rightarrow> bool" where
  "stock_permits is_admin s m a = (case a of
       Post_Movement credit \<Rightarrow> postable m \<and> credit = id_or_null (sd_creditAccountId s)
     | Unpost_Movement \<Rightarrow> movement_posted m \<and> is_admin
     | Delete_Movement \<Rightarrow> \<not> movement_posted m)"

lemma stock_offers_action:
  "stock_offers route is_admin s (Act a) \<longleftrightarrow> (\<exists>m. sd_movement s = Some m \<and> \<not> sd_acting s \<and> stock_permits is_admin s m a)"
  by (cases a; cases "sd_movement s")
    (auto simp: stock_offers_def stock_detail_view_def stock_header_view_def posting_view_def stock_permits_def
      Let_def offers_def split: option.splits if_splits)

lemma stock_action_of_Some: "stock_action_of e = Some a \<longleftrightarrow> e = Act a"
  by (cases e) auto

interpretation stock_screen: exclusive_actions "stock_effect route" "stock_offers route is_admin"
    stock_action_of stock_start "stock_settle route" stock_react "\<lambda>s. s = stock_detail_init" sd_acting
  for route is_admin
proof unfold_locales
  fix a s c e and b :: "('w, payload, body) browser"
  show "sd_acting (stock_start a s)" by (simp add: stock_start_def)
  show "sd_acting s \<Longrightarrow> stock_offers route is_admin s e \<Longrightarrow> stock_action_of e = None"
    by (cases e) (auto simp: stock_offers_action)
  show "sd_acting (fst (stock_effect route c (s, b))) = sd_acting s"
    by (auto simp: stock_effect_def stock_opened_def split: prod.split sum.split)
  show "stock_action_of e = None \<Longrightarrow> sd_acting (stock_react e s) = sd_acting s"
    by (cases e) auto
qed

section \<open>Requests\<close>

definition ledger_request :: "int \<Rightarrow> stock_action \<Rightarrow> payload request" where
  "ledger_request k a =
     (let path = ''/stock-movements/'' @ show_int k in
      case a of
       Post_Movement credit \<Rightarrow> body_request ''POST'' (path @ ''/post'')
         (Document_Payload (Credit_Account (case credit of None \<Rightarrow> 0 | Some i \<Rightarrow> i)))
     | Unpost_Movement \<Rightarrow> body_request ''POST'' (path @ ''/unpost'') Empty_Object
     | Delete_Movement \<Rightarrow> del_request path)"

definition own_movement :: "int \<Rightarrow> payload request \<Rightarrow> bool" where
  "own_movement k rq \<longleftrightarrow> rq_method rq = ''GET'' \<or> (\<exists>a. rq = ledger_request k a)"

lemma stock_call_makes: "makes (stock_call k a) (ledger_request k a)"
  by (cases a) (auto simp: stock_call_def ledger_request_def Let_def makes_def postStockMovement_def
      unpostStockMovement_def deleteStockMovement_def)

lemma load_stock_detail_reads: "reads_only (load_stock_detail k)"
  unfolding load_stock_detail_def getStockMovement_def listProducts_def listWarehouses_def listAccounts_def
  by (intro reading)

lemma load_stock_detail_sends: "appends (own_movement k) b (snd (load_stock_detail k b))"
  by (rule appends_mono [OF reads_appends [OF load_stock_detail_reads]]) (simp add: own_movement_def)

lemma stock_refresh_browser: "snd (stock_refresh k (s, b)) = snd (load_stock_detail k b)"
  by (simp add: stock_refresh_def split: prod.split sum.split)

interpretation stock_writes: writing_actions "stock_effect route" "stock_offers route is_admin" stock_action_of
    stock_start "stock_settle route" stock_react "\<lambda>s. s = stock_detail_init" "own_movement (id_of route)"
  for route is_admin
proof unfold_locales
  fix c s a and b :: "('w, payload, body) browser"
  let ?k = "id_of route"
  show "appends (own_movement ?k) b (snd (stock_effect route c (s, b)))"
    using load_stock_detail_sends [of ?k b] by (auto simp: stock_effect_def split: prod.splits)
  obtain r b1 where c: "stock_call ?k a b = (r, b1)" by (cases "stock_call ?k a b")
  have "appends (own_movement ?k) b (snd (stock_call ?k a b))"
    by (rule makes_appends [OF stock_call_makes]) (auto simp: own_movement_def)
  then have b1: "appends (own_movement ?k) b b1" using c by simp
  then have "appends (own_movement ?k) b (snd (stock_refresh ?k (s, b1)))"
    unfolding stock_refresh_browser by (rule appends_trans) (rule load_stock_detail_sends)
  with b1 c show "appends (own_movement ?k) b (snd (stock_settle route a (s, b)))"
    by (auto simp: stock_settle_def split: sum.splits)
qed

section \<open>Properties\<close>

text \<open>The ledger actions of a movement are those its state allows: in every state its screen
  reaches, at most one action is in flight; posting is offered exactly for an unposted receipt or
  issue, with the clearing account selected, reversing for a posted movement to administrators, and
  deleting for an unposted one, all only when nothing is in flight; and every request made reads,
  or acts on the movement of the route.\<close>

theorem movement_lifecycle:
  assumes "reachable (opened (\<lambda>s. s = stock_detail_init)) (stock_move route is_admin) (s, pend, b)"
  shows "length pend \<le> 1
    \<and> (stock_offers route is_admin s (Act a) \<longleftrightarrow>
        (\<exists>m. sd_movement s = Some m \<and> \<not> sd_acting s \<and> pend = [] \<and> stock_permits is_admin s m a))
    \<and> list_all (own_movement (id_of route)) (sent b)"
proof (intro conjI)
  note r = assms [unfolded stock_move_def]
  show "length pend \<le> 1" using stock_screen.at_most_one [OF r] by simp
  have "stock_offers route is_admin s (Act a) \<Longrightarrow> pend = []"
    using stock_screen.at_most_one [OF r] by fastforce
  then show "stock_offers route is_admin s (Act a) \<longleftrightarrow>
        (\<exists>m. sd_movement s = Some m \<and> \<not> sd_acting s \<and> pend = [] \<and> stock_permits is_admin s m a)"
    using stock_offers_action by blast
  show "list_all (own_movement (id_of route)) (sent b)"
    using stock_writes.all_allowed [OF r] by simp
qed

abbreviation shown_movement :: StockMovementDetail where
  "shown_movement \<equiv> stock_opened False (Inr (sample_movement, ''#3'', ''#1'', [])) stock_detail_init"

lemma movement_shown:
  assumes "network b = answering (stock_server sample_movement)"
  shows "\<exists>b'. stock_effect ''7'' False (stock_detail_init, b) = (shown_movement, b')"
proof -
  have k: "invalid_id ''7'' = False" "id_of ''7'' = 7" by code_simp+
  have n: "stock_detail_names sample_movement [] [] = (''#3'', ''#1'')" by code_simp
  show ?thesis
    using assms by (simp add: stock_effect_def k load_stock_detail_def both_io_def map_io_def then_io_def
        return_io_def stock_answers n)
qed

theorem movement_lifecycle_witness:
  "\<exists>s b. reachable (opened (\<lambda>s. s = stock_detail_init)) (stock_move ''7'' False)
      (s, [], (b :: (unit, payload, body) browser))
    \<and> stock_offers ''7'' False s (Act (Post_Movement None)) \<and> \<not> stock_offers ''7'' False s (Act Unpost_Movement)"
proof -
  let ?b = "\<lparr>network = answering (stock_server sample_movement), world = (), sent = [], events = []\<rparr>
    :: (unit, payload, body) browser"
  have start: "reachable (opened (\<lambda>s. s = stock_detail_init)) (stock_move ''7'' False) (stock_detail_init, [], ?b)"
    by (rule reachable.starting) (simp add: opened_def)
  obtain b where "stock_effect ''7'' False (stock_detail_init, ?b) = (shown_movement, b)"
    using movement_shown [of ?b] by auto
  then have "stock_move ''7'' False (stock_detail_init, [], ?b) (shown_movement, [], b)"
    unfolding stock_move_def by (rule screen_move.effect)
  with start have r: "reachable (opened (\<lambda>s. s = stock_detail_init)) (stock_move ''7'' False) (shown_movement, [], b)"
    by (rule reachable.moving)
  have p: "stock_permits False shown_movement sample_movement (Post_Movement None)"
    "\<not> stock_permits False shown_movement sample_movement Unpost_Movement"
    "sd_movement shown_movement = Some sample_movement" "\<not> sd_acting shown_movement" by code_simp+
  have "stock_offers ''7'' False shown_movement (Act (Post_Movement None))"
    "\<not> stock_offers ''7'' False shown_movement (Act Unpost_Movement)"
    using movement_lifecycle [OF r, of "Post_Movement None"] movement_lifecycle [OF r, of Unpost_Movement] p by simp_all
  with r show ?thesis by blast
qed

text \<open>C27. A reload that fails leaves the screen busy for ever: when posting or reversing succeeded
  but the load started after it fails, settling changes nothing on the screen, and from then on,
  whatever happens, the screen stays acting with nothing in flight, offers no action, shows no
  error of the action and is not left.\<close>

theorem reload_failure_sticks:
  fixes b b1 b2 :: "('w, payload, body) browser"
  assumes "sd_acting s" "a \<noteq> Delete_Movement"
    and "stock_call (id_of route) a b = (Inr (), b1)" "load_stock_detail (id_of route) b1 = (Inl err, b2)"
    and "reachable (\<lambda>x. x = (s, [], b2)) (stock_move route is_admin) (s', pend, b')"
  shows "stock_settle route a (s, b) = (s, b2)
    \<and> sd_acting s' \<and> pend = [] \<and> sd_actionError s' = sd_actionError s \<and> sd_navigated s' = sd_navigated s
    \<and> \<not> stock_offers route is_admin s' (Act a')"
proof -
  let ?I = "\<lambda>(s', pend, b :: ('w, payload, body) browser). sd_acting s' \<and> pend = ([] :: stock_action list)
    \<and> sd_actionError s' = sd_actionError s \<and> sd_navigated s' = sd_navigated s"
  have "?I x" if "reachable (\<lambda>x. x = (s, [], b2)) (stock_move route is_admin) x" for x
    using that
  proof (induction rule: reachable.induct)
    case (starting x)
    then show ?case using assms(1) by simp
  next
    case (moving x y)
    obtain s1 p1 b1 s2 p2 b2 where e: "x = (s1, p1, b1)" "y = (s2, p2, b2)" by (cases x, cases y)
    from moving.hyps(2) have "?I (s2, p2, b2)"
      unfolding stock_move_def e
    proof (cases rule: screen_move_cases)
      case (effect c)
      then show ?thesis
        using moving.IH by (auto simp: e stock_effect_def stock_opened_def split: if_splits prod.splits sum.splits)
    next
      case (start ev a1)
      then show ?thesis using moving.IH by (simp add: e stock_action_of_Some stock_offers_action)
    next
      case (react ev)
      then show ?thesis using moving.IH by (cases ev) (simp_all add: e)
    next
      case (settle a1 xs ys)
      then show ?thesis using moving.IH by (simp add: e)
    qed
    then show ?case by (simp add: e)
  qed
  from this [OF assms(5)] show ?thesis
    using assms(2-4) by (simp add: stock_settle_def stock_refresh_def stock_offers_action)
qed

definition broken_reload :: "payload request \<Rightarrow> unit \<Rightarrow> body reply \<times> unit" where
  "broken_reload rq w = (if rq_method rq = ''GET'' then (Response 500 (Error_Object ''database is down''), w)
     else (Response 200 (JSON (Basic (Posted_Body 5))), w))"

theorem reload_failure_sticks_witness:
  "\<exists>b :: (unit, payload, body) browser. sd_acting (fst (stock_settle ''7'' (Post_Movement None)
      (stock_start (Post_Movement None) shown_movement, b)))
    \<and> sd_actionError (fst (stock_settle ''7'' (Post_Movement None)
      (stock_start (Post_Movement None) shown_movement, b))) = None"
proof -
  let ?b = "\<lparr>network = broken_reload, world = (), sent = [], events = []\<rparr> :: (unit, payload, body) browser"
  let ?s = "stock_start (Post_Movement None) shown_movement"
  have k: "id_of ''7'' = 7" by code_simp
  obtain b1 where c: "stock_call 7 (Post_Movement None) ?b = (Inr (), b1)" "network b1 = broken_reload"
  proof -
    let ?q = "ledger_request 7 (Post_Movement None)"
    have "reply_to ?q ?b = Response 200 (JSON (Basic (Posted_Body 5)))"
      by (simp add: reply_to_def broken_reload_def ledger_request_def body_request_def)
    from exchange_json [OF this, of "basic_as is_Posted_Body the_posted"]
    have "exchange ?q (json_as (basic_as is_Posted_Body the_posted)) ?b = (Inr 5, after_exchange ?q ?b)"
      by (simp add: ok_def basic_as_def)
    then have "stock_call 7 (Post_Movement None) ?b = (Inr (), after_exchange ?q ?b)"
      by (simp add: stock_call_def postStockMovement_def post_exchange ledger_request_def map_io_def then_io_def return_io_def)
    then show thesis using that by simp
  qed
  obtain err b2 where l: "load_stock_detail 7 b1 = (Inl err, b2)"
  proof -
    let ?q = "get_request (''/stock-movements/'' @ show_int 7)"
    have "reply_to ?q b1 = Response 500 (Error_Object ''database is down'')"
      using c(2) by (simp add: reply_to_def broken_reload_def get_request_def)
    from exchange_failed [OF this, where read = "json_as (document_as is_StockMovement_Body the_StockMovement)"]
    have "fst (getStockMovement 7 b1)
        = Inl (Api_Error 500 (reply_message 500 (Error_Object ''database is down'')))"
      by (simp add: getStockMovement_def get_exchange ok_def)
    then have "fst (load_stock_detail 7 b1) = Inl (Api_Error 500 (reply_message 500 (Error_Object ''database is down'')))"
      by (simp add: load_stock_detail_def map_io_fst both_io_fails)
    then show thesis using that by (cases "load_stock_detail 7 b1") simp
  qed
  have "sd_acting ?s" "sd_actionError ?s = None" "Post_Movement None \<noteq> Delete_Movement" by (simp_all add: stock_start_def)
  moreover have "reachable (\<lambda>x. x = (?s, [], b2)) (stock_move ''7'' False) (?s, [], b2)"
    by (rule reachable.starting) simp
  ultimately have "stock_settle ''7'' (Post_Movement None) (?s, ?b) = (?s, b2)"
    using reload_failure_sticks [of ?s "Post_Movement None" "''7''" ?b b1 err b2 False ?s "[]" b2] c(1) l
    by (simp add: k)
  then show ?thesis using \<open>sd_acting ?s\<close> \<open>sd_actionError ?s = None\<close> by (intro exI [of _ ?b]) simp
qed

end
