(* ===== verification/Master_Form.thy ===== *)
theory Master_Form
  imports Document_Detail
begin

text \<open>
  What the forms of master data share, and the simple ones: warehouses
  (\<open>web/src/components/warehouse-form.tsx\<close>), payment terms (\<open>payment-term-form.tsx\<close>), tax codes
  (\<open>tax-code-form.tsx\<close>), organizations (\<open>organization-form.tsx\<close>) and exchange rates
  (\<open>exchange-rate-form.tsx\<close>). A form keeps its fields as one object, \<open>null\<close> until its effect has
  filled it; every handler sets the object it rendered with one field replaced. A form opens in edit
  mode on the record of its route, or in create mode (\<open>None\<close>).
\<close>

section \<open>The state and the submission\<close>

record 'v master_form =
  mf_form :: "'v option"
  mf_error :: "string option"
  mf_saving :: bool
  mf_saveError :: "string option"
  mf_navigated :: "string option"

datatype ('v, 'x) form_event = Set_Form 'v | Save_Form | Other 'x

text \<open>What an awaited call does to the form when it returns: nothing after a cancellation.\<close>

definition when_loaded :: "bool \<Rightarrow> exn + 'd \<Rightarrow> ('d \<Rightarrow> ('v, 'm) master_form_scheme \<Rightarrow> ('v, 'm) master_form_scheme)
    \<Rightarrow> ('v, 'm) master_form_scheme \<Rightarrow> ('v, 'm) master_form_scheme" where
  "when_loaded cancelled result fill f = (case result of
       Inl err \<Rightarrow> if cancelled then f else f\<lparr>mf_error := Some (error_message err)\<rparr>
     | Inr d \<Rightarrow> if cancelled then f else fill d f)"

definition set_form :: "'v \<Rightarrow> ('v, 'm) master_form_scheme \<Rightarrow> ('v, 'm) master_form_scheme" where
  "set_form v f = f\<lparr>mf_form := Some v\<rparr>"

definition save_form :: "('w, 'a) call \<Rightarrow> string \<Rightarrow> ('v, 'm) master_form_scheme \<times> ('w, payload, body) browser
    \<Rightarrow> ('v, 'm) master_form_scheme \<times> ('w, payload, body) browser" where
  "save_form action target x = (case x of (f, b) \<Rightarrow>
     let f = f\<lparr>mf_saving := True, mf_saveError := None\<rparr> in
     case action b of
       (Inr _, b) \<Rightarrow> (f\<lparr>mf_navigated := Some target\<rparr>, b)
     | (Inl err, b) \<Rightarrow> (f\<lparr>mf_saving := False, mf_saveError := Some (save_message err)\<rparr>, b))"

text \<open>The submission of a form whose fields may have a problem, which is shown instead.\<close>

definition submit_form :: "('v \<Rightarrow> string option) \<Rightarrow> ('v \<Rightarrow> ('w, 'a) call) \<Rightarrow> string
    \<Rightarrow> ('v, 'm) master_form_scheme \<times> ('w, payload, body) browser \<Rightarrow> ('v, 'm) master_form_scheme \<times> ('w, payload, body) browser" where
  "submit_form problem action target x = (case x of (f, b) \<Rightarrow>
     (case mf_form f of
        None \<Rightarrow> (f, b)
      | Some v \<Rightarrow> (case problem v of
           Some m \<Rightarrow> (f\<lparr>mf_saveError := Some m\<rparr>, b)
         | None \<Rightarrow> save_form (action v) target (f, b))))"

text \<open>Title and note, the error with the way back, the state of the load, the fields, the failure to
  save and the buttons.\<close>

definition form_frame :: "string \<times> string \<Rightarrow> string \<times> string \<Rightarrow> bool \<Rightarrow> bool \<Rightarrow> ('v \<Rightarrow> ('v, 'x) form_event element list)
    \<Rightarrow> ('v, 'x) form_event element list \<Rightarrow> ('v, 'm) master_form_scheme \<Rightarrow> ('v, 'x) form_event element list" where
  "form_frame title back creating blocked inputs extra f =
     [Heading (fst title), Note (snd title)]
     @ (case mf_error f of None \<Rightarrow> [] | Some e \<Rightarrow> [Alert e, Link (fst back) (snd back)])
     @ guarded (mf_error f = None \<and> mf_form f = None) [Note ''Loading...'']
     @ (case mf_form f of
          None \<Rightarrow> []
        | Some v \<Rightarrow>
            inputs v
            @ (case mf_saveError f of None \<Rightarrow> [] | Some e \<Rightarrow> [Alert (''Failed to save: '' @ e)])
            @ [Button (if mf_saving f then ''Saving...'' else if creating then ''Create'' else ''Save'')
                 (mf_saving f \<or> blocked) Save_Form, Link ''Cancel'' (snd back)] @ extra)"

text \<open>A text that is kept only when something remains of it, in capitals: \<open>currency === "" ? null :
  currency\<close> with \<open>currency = s.trim().toUpperCase()\<close>.\<close>

definition code_or_none :: "string \<Rightarrow> string option" where
  "code_or_none s = (let t = toUpperCase (trim s) in if t = [] then None else Some t)"

definition account_options :: "Account list \<Rightarrow> (string \<times> string) list" where
  "account_options accounts = map (\<lambda>a. (show_int (acc_id a), acc_code a @ '' '' @ em_dash @ '' '' @ acc_name a)) accounts"

section \<open>Warehouses\<close>

record WarehouseFields =
  whf_code :: string
  whf_name :: string
  whf_addressId :: "int option"
  whf_isActive :: bool

definition blank_warehouse :: WarehouseFields where
  "blank_warehouse = \<lparr>whf_code = [], whf_name = [], whf_addressId = None, whf_isActive = True\<rparr>"

definition warehouse_init :: "WarehouseFields master_form" where
  "warehouse_init = \<lparr>mf_form = None, mf_error = None, mf_saving = False, mf_saveError = None, mf_navigated = None\<rparr>"

definition existing_warehouse :: "Warehouse \<Rightarrow> WarehouseFields" where
  "existing_warehouse w = \<lparr>whf_code = wh_code w, whf_name = wh_name w, whf_addressId = wh_address_id w,
     whf_isActive = wh_is_active w\<rparr>"

definition warehouse_effect :: "string option \<Rightarrow> bool \<Rightarrow> WarehouseFields master_form \<times> ('w, payload, body) browser
    \<Rightarrow> WarehouseFields master_form \<times> ('w, payload, body) browser" where
  "warehouse_effect route cancelled x = (case x of (f, b) \<Rightarrow>
     (case route of
        Some ident \<Rightarrow>
          if invalid_id ident then (f\<lparr>mf_error := Some ''Invalid warehouse id.''\<rparr>, b)
          else (case getWarehouse (id_of ident) b of
             (r, b) \<Rightarrow> (when_loaded cancelled r (\<lambda>w. set_form (existing_warehouse w)) f, b))
      | None \<Rightarrow> (set_form blank_warehouse f, b)))"

definition warehouse_problem :: "WarehouseFields \<Rightarrow> string option" where
  "warehouse_problem v = (if trim (whf_code v) = [] \<or> trim (whf_name v) = [] then Some ''Code and name are required.'' else None)"

definition warehouse_input :: "WarehouseFields \<Rightarrow> WarehouseInput" where
  "warehouse_input v = \<lparr>whi_code = toUpperCase (trim (whf_code v)), whi_name = trim (whf_name v),
     whi_address_id = whf_addressId v, whi_is_active = whf_isActive v\<rparr>"

definition save_warehouse :: "string option \<Rightarrow> WarehouseInput \<Rightarrow> ('w, unit) call" where
  "save_warehouse route input = (case route of
       None \<Rightarrow> map_io (\<lambda>_. ()) (createWarehouse input)
     | Some ident \<Rightarrow> updateWarehouse (id_of ident) input)"

definition submit_warehouse :: "string option \<Rightarrow> WarehouseFields master_form \<times> ('w, payload, body) browser
    \<Rightarrow> WarehouseFields master_form \<times> ('w, payload, body) browser" where
  "submit_warehouse route = submit_form warehouse_problem (\<lambda>v. save_warehouse route (warehouse_input v)) ''/warehouses''"

definition warehouse_fields_view :: "WarehouseFields \<Rightarrow> (WarehouseFields, unit) form_event element list" where
  "warehouse_fields_view v =
     [Field ''code'' ''Code'' False (whf_code v) (\<lambda>s. Set_Form (v\<lparr>whf_code := s\<rparr>)),
      Field ''name'' ''Name'' False (whf_name v) (\<lambda>s. Set_Form (v\<lparr>whf_name := s\<rparr>)),
      Checkbox ''is_active'' ''Active'' (whf_isActive v) (\<lambda>c. Set_Form (v\<lparr>whf_isActive := c\<rparr>))]"

definition WarehouseForm :: "string option \<Rightarrow> WarehouseFields master_form \<Rightarrow> (WarehouseFields, unit) form_event element list" where
  "WarehouseForm route = form_frame
     (if route = None then (''New Warehouse'', ''Add a stock location for movements to happen against.'')
      else (''Edit Warehouse'', ''Update the warehouse'' @ [CHR 0x27] @ ''s details.''))
     (''Back to warehouses'', ''/warehouses'') (route = None) False warehouse_fields_view []"

section \<open>Payment terms\<close>

record PaymentTermFields =
  ptf_code :: string
  ptf_name :: string
  ptf_dueDays :: string

definition blank_term :: PaymentTermFields where
  "blank_term = \<lparr>ptf_code = [], ptf_name = [], ptf_dueDays = ''0''\<rparr>"

definition term_init :: "PaymentTermFields master_form" where
  "term_init = \<lparr>mf_form = None, mf_error = None, mf_saving = False, mf_saveError = None, mf_navigated = None\<rparr>"

definition existing_term :: "PaymentTerm \<Rightarrow> PaymentTermFields" where
  "existing_term t = \<lparr>ptf_code = pt_code t, ptf_name = pt_name t, ptf_dueDays = show_int (pt_due_days t)\<rparr>"

definition term_effect :: "string option \<Rightarrow> bool \<Rightarrow> PaymentTermFields master_form \<times> ('w, payload, body) browser
    \<Rightarrow> PaymentTermFields master_form \<times> ('w, payload, body) browser" where
  "term_effect route cancelled x = (case x of (f, b) \<Rightarrow>
     (case route of
        Some code \<Rightarrow>
          if code = [] then (f\<lparr>mf_error := Some ''Invalid payment term code.''\<rparr>, b)
          else (case getPaymentTerm code b of
             (r, b) \<Rightarrow> (when_loaded cancelled r (\<lambda>t. set_form (existing_term t)) f, b))
      | None \<Rightarrow> (set_form blank_term f, b)))"

definition due_days :: "PaymentTermFields \<Rightarrow> number" where
  "due_days v = Number (if trim (ptf_dueDays v) = [] then ''0'' else ptf_dueDays v)"

definition term_problem :: "PaymentTermFields \<Rightarrow> string option" where
  "term_problem v =
     (if trim (ptf_code v) = [] \<or> trim (ptf_name v) = [] then Some ''Code and name are required.''
      else case due_days v of
          Whole i \<Rightarrow> if i < 0 then Some ''Due days must be a whole number of days, 0 or more.'' else None
        | _ \<Rightarrow> Some ''Due days must be a whole number of days, 0 or more.'')"

definition term_input :: "PaymentTermFields \<Rightarrow> PaymentTermInput" where
  "term_input v = \<lparr>pti_code = toUpperCase (trim (ptf_code v)), pti_name = trim (ptf_name v),
     pti_due_days = (case due_days v of Whole i \<Rightarrow> i | _ \<Rightarrow> 0)\<rparr>"

definition save_term :: "string option \<Rightarrow> PaymentTermInput \<Rightarrow> ('w, unit) call" where
  "save_term route input = (case route of
       None \<Rightarrow> map_io (\<lambda>_. ()) (createPaymentTerm input)
     | Some code \<Rightarrow> updatePaymentTerm code input)"

definition submit_term :: "string option \<Rightarrow> PaymentTermFields master_form \<times> ('w, payload, body) browser
    \<Rightarrow> PaymentTermFields master_form \<times> ('w, payload, body) browser" where
  "submit_term route = submit_form term_problem (\<lambda>v. save_term route (term_input v)) ''/payment-terms''"

text \<open>The code is the key of the record, so it is only a field while the record is new.\<close>

definition code_field :: "bool \<Rightarrow> string \<Rightarrow> (string \<Rightarrow> 'e) \<Rightarrow> 'e element" where
  "code_field creating v h = (if creating then Field ''code'' ''Code'' False v h else Datum ''Code'' v)"

definition term_fields_view :: "bool \<Rightarrow> PaymentTermFields \<Rightarrow> (PaymentTermFields, unit) form_event element list" where
  "term_fields_view creating v =
     [code_field creating (ptf_code v) (\<lambda>s. Set_Form (v\<lparr>ptf_code := s\<rparr>)),
      Field ''name'' ''Name'' False (ptf_name v) (\<lambda>s. Set_Form (v\<lparr>ptf_name := s\<rparr>)),
      Field ''due_days'' ''Due Days'' False (ptf_dueDays v) (\<lambda>s. Set_Form (v\<lparr>ptf_dueDays := s\<rparr>)),
      Note ''Days from the document date until payment is due; 0 means due on receipt.'']"

definition PaymentTermForm :: "string option \<Rightarrow> PaymentTermFields master_form \<Rightarrow> (PaymentTermFields, unit) form_event element list" where
  "PaymentTermForm route = form_frame
     (if route = None then (''New Payment Term'', ''Add a payment term customers and suppliers can carry.'')
      else (''Edit Payment Term'', ''Update the payment term'' @ [CHR 0x27] @ ''s name and due days.''))
     (''Back to payment terms'', ''/payment-terms'') (route = None) False (term_fields_view (route = None)) []"

section \<open>Tax codes\<close>

record TaxCodeFields =
  tcf_code :: string
  tcf_name :: string
  tcf_rate :: string
  tcf_taxAccountId :: string
  tcf_isActive :: bool

definition blank_tax_code :: TaxCodeFields where
  "blank_tax_code = \<lparr>tcf_code = [], tcf_name = [], tcf_rate = ''0'', tcf_taxAccountId = NONE, tcf_isActive = True\<rparr>"

record TaxCodeForm_State = "TaxCodeFields master_form" +
  tcf_accounts :: "Account list"

definition tax_code_init :: TaxCodeForm_State where
  "tax_code_init = \<lparr>mf_form = None, mf_error = None, mf_saving = False, mf_saveError = None, mf_navigated = None,
     tcf_accounts = []\<rparr>"

definition existing_tax_code :: "TaxCode \<Rightarrow> TaxCodeFields" where
  "existing_tax_code t = \<lparr>tcf_code = tc_code t, tcf_name = tc_name t, tcf_rate = tc_rate t,
     tcf_taxAccountId = id_select (tc_tax_account_id t), tcf_isActive = tc_is_active t\<rparr>"

text \<open>Two awaits in a row: \<open>c1\<close> and \<open>c2\<close> say whether the effect was cancelled by each of them.\<close>

definition tax_code_effect :: "string option \<Rightarrow> bool \<Rightarrow> bool \<Rightarrow> TaxCodeForm_State \<times> ('w, payload, body) browser
    \<Rightarrow> TaxCodeForm_State \<times> ('w, payload, body) browser" where
  "tax_code_effect route c1 c2 x = (case x of (f, b) \<Rightarrow>
     (case listAccounts b of
        (Inl err, b) \<Rightarrow> (if c1 then f else f\<lparr>mf_error := Some (error_message err)\<rparr>, b)
      | (Inr accts, b) \<Rightarrow>
          if c1 then (f, b)
          else
            let f = f\<lparr>tcf_accounts := accts\<rparr> in
            (case route of
               Some code \<Rightarrow>
                 if code = [] then (f\<lparr>mf_error := Some ''Invalid tax code.''\<rparr>, b)
                 else (case getTaxCode code b of
                    (r, b) \<Rightarrow> (when_loaded c2 r (\<lambda>t. set_form (existing_tax_code t)) f, b))
             | None \<Rightarrow> (set_form blank_tax_code f, b))))"

definition tax_code_problem :: "TaxCodeFields \<Rightarrow> string option" where
  "tax_code_problem v = (if trim (tcf_code v) = [] \<or> trim (tcf_name v) = [] then Some ''Code and name are required.'' else None)"

definition tax_code_input :: "TaxCodeFields \<Rightarrow> TaxCodeInput" where
  "tax_code_input v = \<lparr>tci_code = toUpperCase (trim (tcf_code v)), tci_name = trim (tcf_name v),
     tci_rate = (if trim (tcf_rate v) = [] then ''0'' else trim (tcf_rate v)),
     tci_tax_account_id = id_or_null (tcf_taxAccountId v), tci_is_active = tcf_isActive v\<rparr>"

definition save_tax_code :: "string option \<Rightarrow> TaxCodeInput \<Rightarrow> ('w, unit) call" where
  "save_tax_code route input = (case route of
       None \<Rightarrow> map_io (\<lambda>_. ()) (createTaxCode input)
     | Some code \<Rightarrow> updateTaxCode code input)"

definition submit_tax_code :: "string option \<Rightarrow> TaxCodeForm_State \<times> ('w, payload, body) browser
    \<Rightarrow> TaxCodeForm_State \<times> ('w, payload, body) browser" where
  "submit_tax_code route = submit_form tax_code_problem (\<lambda>v. save_tax_code route (tax_code_input v)) ''/tax-codes''"

definition tax_code_fields_view :: "bool \<Rightarrow> Account list \<Rightarrow> TaxCodeFields \<Rightarrow> (TaxCodeFields, unit) form_event element list" where
  "tax_code_fields_view creating accounts v =
     [code_field creating (tcf_code v) (\<lambda>s. Set_Form (v\<lparr>tcf_code := s\<rparr>)),
      Field ''name'' ''Name'' False (tcf_name v) (\<lambda>s. Set_Form (v\<lparr>tcf_name := s\<rparr>)),
      Field ''rate'' ''Rate %'' False (tcf_rate v) (\<lambda>s. Set_Form (v\<lparr>tcf_rate := s\<rparr>)),
      Note ''Percent, e.g. 8.25 for 8.25%.'',
      Select ''tax_account'' ''Tax Account'' (tcf_taxAccountId v) ((NONE, ''None'') # account_options accounts)
        (\<lambda>s. Set_Form (v\<lparr>tcf_taxAccountId := s\<rparr>)),
      Note ''Where collected tax posts (typically a tax-payable liability account).'',
      Checkbox ''is_active'' ''Active'' (tcf_isActive v) (\<lambda>c. Set_Form (v\<lparr>tcf_isActive := c\<rparr>))]"

definition TaxCodeForm :: "string option \<Rightarrow> TaxCodeForm_State \<Rightarrow> (TaxCodeFields, unit) form_event element list" where
  "TaxCodeForm route f = form_frame
     (if route = None then (''New Tax Code'', ''Add a tax rate that document lines can carry.'')
      else (''Edit Tax Code'', ''Update the tax code'' @ [CHR 0x27] @ ''s rate and account.''))
     (''Back to tax codes'', ''/tax-codes'') (route = None) False (tax_code_fields_view (route = None) (tcf_accounts f)) [] f"

section \<open>Organizations\<close>

record OrganizationFields =
  ogf_name :: string
  ogf_legalName :: string
  ogf_taxId :: string
  ogf_countryCode :: string
  ogf_defaultCurrency :: string
  ogf_email :: string
  ogf_isSelf :: bool

definition blank_organization :: OrganizationFields where
  "blank_organization = \<lparr>ogf_name = [], ogf_legalName = [], ogf_taxId = [], ogf_countryCode = [], ogf_defaultCurrency = [],
     ogf_email = [], ogf_isSelf = False\<rparr>"

definition organization_init :: "OrganizationFields master_form" where
  "organization_init = \<lparr>mf_form = None, mf_error = None, mf_saving = False, mf_saveError = None, mf_navigated = None\<rparr>"

definition existing_organization :: "Organization \<Rightarrow> OrganizationFields" where
  "existing_organization o' = \<lparr>ogf_name = org_name o', ogf_legalName = or_empty (org_legal_name o'),
     ogf_taxId = or_empty (org_tax_id o'), ogf_countryCode = or_empty (org_country_code o'),
     ogf_defaultCurrency = or_empty (org_default_currency o'), ogf_email = or_empty (org_email o'), ogf_isSelf = org_is_self o'\<rparr>"

definition organization_effect :: "string option \<Rightarrow> bool \<Rightarrow> OrganizationFields master_form \<times> ('w, payload, body) browser
    \<Rightarrow> OrganizationFields master_form \<times> ('w, payload, body) browser" where
  "organization_effect route cancelled x = (case x of (f, b) \<Rightarrow>
     (case route of
        Some ident \<Rightarrow>
          if invalid_id ident then (f\<lparr>mf_error := Some ''Invalid organization id.''\<rparr>, b)
          else (case getOrganization (id_of ident) b of
             (r, b) \<Rightarrow> (when_loaded cancelled r (\<lambda>o'. set_form (existing_organization o')) f, b))
      | None \<Rightarrow> (set_form blank_organization f, b)))"

definition organization_problem :: "OrganizationFields \<Rightarrow> string option" where
  "organization_problem v = (if trim (ogf_name v) = [] then Some ''Name is required.'' else None)"

definition organization_input :: "OrganizationFields \<Rightarrow> OrganizationInput" where
  "organization_input v = \<lparr>orgi_name = trim (ogf_name v), orgi_legal_name = emptyToNull (ogf_legalName v),
     orgi_tax_id = emptyToNull (ogf_taxId v), orgi_country_code = code_or_none (ogf_countryCode v),
     orgi_default_currency = code_or_none (ogf_defaultCurrency v), orgi_email = emptyToNull (ogf_email v),
     orgi_is_self = ogf_isSelf v\<rparr>"

definition save_organization :: "string option \<Rightarrow> OrganizationInput \<Rightarrow> ('w, unit) call" where
  "save_organization route input = (case route of
       None \<Rightarrow> map_io (\<lambda>_. ()) (createOrganization input)
     | Some ident \<Rightarrow> updateOrganization (id_of ident) input)"

definition submit_organization :: "string option \<Rightarrow> OrganizationFields master_form \<times> ('w, payload, body) browser
    \<Rightarrow> OrganizationFields master_form \<times> ('w, payload, body) browser" where
  "submit_organization route =
     submit_form organization_problem (\<lambda>v. save_organization route (organization_input v)) ''/organizations''"

definition organization_fields_view :: "OrganizationFields \<Rightarrow> (OrganizationFields, unit) form_event element list" where
  "organization_fields_view v =
     [Field ''name'' ''Name'' False (ogf_name v) (\<lambda>s. Set_Form (v\<lparr>ogf_name := s\<rparr>)),
      Field ''legal_name'' ''Legal Name'' False (ogf_legalName v) (\<lambda>s. Set_Form (v\<lparr>ogf_legalName := s\<rparr>)),
      Field ''tax_id'' ''Tax ID'' False (ogf_taxId v) (\<lambda>s. Set_Form (v\<lparr>ogf_taxId := s\<rparr>)),
      Field ''email'' ''Email'' False (ogf_email v) (\<lambda>s. Set_Form (v\<lparr>ogf_email := s\<rparr>)),
      Field ''country_code'' ''Country'' False (ogf_countryCode v) (\<lambda>s. Set_Form (v\<lparr>ogf_countryCode := s\<rparr>)),
      Field ''default_currency'' ''Default Currency'' False (ogf_defaultCurrency v) (\<lambda>s. Set_Form (v\<lparr>ogf_defaultCurrency := s\<rparr>)),
      Checkbox ''is_self'' (''This is our own company (its name, tax ID, and address appear as the issuer on printed ''
        @ ''documents; only one organization can be it)'') (ogf_isSelf v) (\<lambda>c. Set_Form (v\<lparr>ogf_isSelf := c\<rparr>))]"

definition OrganizationForm :: "string option \<Rightarrow> OrganizationFields master_form
    \<Rightarrow> (OrganizationFields, unit) form_event element list" where
  "OrganizationForm route = form_frame
     (if route = None then (''New Organization'', ''Add an organization that customers or suppliers can attach to.'')
      else (''Edit Organization'', ''Update the organization'' @ [CHR 0x27] @ ''s details.''))
     (''Back to organizations'', ''/organizations'') (route = None) False organization_fields_view []"

section \<open>Exchange rates\<close>

record RateFields =
  rtf_currency :: string
  rtf_date :: string
  rtf_rate :: string

definition blank_rate :: RateFields where
  "blank_rate = \<lparr>rtf_currency = [], rtf_date = [], rtf_rate = []\<rparr>"

record ExchangeRateForm_State = "RateFields master_form" +
  rtf_baseCurrency :: string

definition rate_init :: ExchangeRateForm_State where
  "rate_init = \<lparr>mf_form = None, mf_error = None, mf_saving = False, mf_saveError = None, mf_navigated = None,
     rtf_baseCurrency = []\<rparr>"

definition existing_rate :: "ExchangeRate \<Rightarrow> RateFields" where
  "existing_rate r = \<lparr>rtf_currency = xr_currency_code r, rtf_date = xr_rate_date r, rtf_rate = xr_rate r\<rparr>"

text \<open>There is no request for a single rate: it is looked up in the list.\<close>

definition find_rate :: "string \<times> string \<Rightarrow> ExchangeRate list \<Rightarrow> ExchangeRate option" where
  "find_rate k = find (\<lambda>x. xr_currency_code x = fst k \<and> xr_rate_date x = snd k)"

definition rate_effect :: "(string \<times> string) option \<Rightarrow> bool \<Rightarrow> bool \<Rightarrow> ExchangeRateForm_State \<times> ('w, payload, body) browser
    \<Rightarrow> ExchangeRateForm_State \<times> ('w, payload, body) browser" where
  "rate_effect route c1 c2 x = (case x of (f, b) \<Rightarrow>
     (case getSettings b of
        (Inl err, b) \<Rightarrow> (if c1 then f else f\<lparr>mf_error := Some (error_message err)\<rparr>, b)
      | (Inr settings, b) \<Rightarrow>
          if c1 then (f, b)
          else
            let f = f\<lparr>rtf_baseCurrency := set_base_currency settings\<rparr> in
            (case route of
               Some k \<Rightarrow>
                 if fst k = [] \<or> snd k = [] then (f\<lparr>mf_error := Some ''Invalid exchange rate.''\<rparr>, b)
                 else (case listExchangeRates b of
                    (r, b) \<Rightarrow> (when_loaded c2 r (\<lambda>rates f. case find_rate k rates of
                        None \<Rightarrow> f\<lparr>mf_error := Some ''Exchange rate not found.''\<rparr>
                      | Some rate \<Rightarrow> set_form (existing_rate rate) f) f, b))
             | None \<Rightarrow> (set_form blank_rate f, b))))"

definition rate_problem :: "RateFields \<Rightarrow> string option" where
  "rate_problem v = (if trim (rtf_currency v) = [] \<or> trim (rtf_date v) = [] \<or> trim (rtf_rate v) = []
     then Some ''Currency, date, and rate are required.'' else None)"

definition rate_input :: "RateFields \<Rightarrow> ExchangeRateInput" where
  "rate_input v = \<lparr>xri_currency_code = toUpperCase (trim (rtf_currency v)), xri_rate_date = trim (rtf_date v),
     xri_rate = trim (rtf_rate v)\<rparr>"

definition save_rate :: "(string \<times> string) option \<Rightarrow> ExchangeRateInput \<Rightarrow> ('w, unit) call" where
  "save_rate route input = (case route of
       None \<Rightarrow> map_io (\<lambda>_. ()) (createExchangeRate input)
     | Some (currency, date) \<Rightarrow> updateExchangeRate currency date input)"

definition submit_rate :: "(string \<times> string) option \<Rightarrow> ExchangeRateForm_State \<times> ('w, payload, body) browser
    \<Rightarrow> ExchangeRateForm_State \<times> ('w, payload, body) browser" where
  "submit_rate route = submit_form rate_problem (\<lambda>v. save_rate route (rate_input v)) ''/exchange-rates''"

text \<open>Deleting, once the dialog is confirmed; the button is only there in edit mode.\<close>

definition delete_rate :: "(string \<times> string) option \<Rightarrow> ExchangeRateForm_State \<times> ('w, payload, body) browser
    \<Rightarrow> ExchangeRateForm_State \<times> ('w, payload, body) browser" where
  "delete_rate route x = (case route of
       None \<Rightarrow> x
     | Some (currency, date) \<Rightarrow> save_form (deleteExchangeRate currency date) ''/exchange-rates'' x)"

definition rate_fields_view :: "bool \<Rightarrow> string \<Rightarrow> RateFields \<Rightarrow> (RateFields, unit) form_event element list" where
  "rate_fields_view creating base v =
     (if creating then
        [Field ''currency'' ''Currency'' False (rtf_currency v) (\<lambda>s. Set_Form (v\<lparr>rtf_currency := s\<rparr>)),
         Field ''date'' ''Date'' False (rtf_date v) (\<lambda>s. Set_Form (v\<lparr>rtf_date := s\<rparr>))]
      else [Datum ''Currency'' (rtf_currency v), Datum ''Date'' (rtf_date v)])
     @ [Field ''rate'' (''Rate'' @ guarded (base \<noteq> []) ('' (-> '' @ base @ '')'')) False (rtf_rate v)
          (\<lambda>s. Set_Form (v\<lparr>rtf_rate := s\<rparr>))]"

definition ExchangeRateForm :: "(string \<times> string) option \<Rightarrow> ExchangeRateForm_State
    \<Rightarrow> (RateFields, unit) form_event element list" where
  "ExchangeRateForm route f = form_frame
     (if route = None then ''New Exchange Rate'' else ''Edit Exchange Rate'',
      if rtf_baseCurrency f \<noteq> [] then ''How many '' @ rtf_baseCurrency f @ '' one unit of the currency buys on the date.''
      else ''How many base-currency units one unit of the currency buys on the date.'')
     (''Back to exchange rates'', ''/exchange-rates'') (route = None) False
     (rate_fields_view (route = None) (rtf_baseCurrency f))
     (guarded (route \<noteq> None) [Button ''Delete'' (mf_saving f) (Other ())]) f"

section \<open>Handlers\<close>

text \<open>Setting the fields, submitting, and what else the form offers.\<close>

fun form_step :: "(('v, 'm) master_form_scheme \<times> ('w, payload, body) browser \<Rightarrow> ('v, 'm) master_form_scheme \<times> ('w, payload, body) browser)
    \<Rightarrow> ('x \<Rightarrow> ('v, 'm) master_form_scheme \<times> ('w, payload, body) browser \<Rightarrow> ('v, 'm) master_form_scheme \<times> ('w, payload, body) browser)
    \<Rightarrow> ('v, 'x) form_event \<Rightarrow> ('v, 'm) master_form_scheme \<times> ('w, payload, body) browser
    \<Rightarrow> ('v, 'm) master_form_scheme \<times> ('w, payload, body) browser" where
  "form_step submit other (Set_Form v) (f, b) = (set_form v f, b)"
| "form_step submit other Save_Form x = submit x"
| "form_step submit other (Other e) x = other e x"

definition warehouse_step :: "string option \<Rightarrow> (WarehouseFields, unit) form_event \<Rightarrow> WarehouseFields master_form \<times> ('w, payload, body) browser
    \<Rightarrow> WarehouseFields master_form \<times> ('w, payload, body) browser" where
  "warehouse_step route = form_step (submit_warehouse route) (\<lambda>_ x. x)"

definition term_step :: "string option \<Rightarrow> (PaymentTermFields, unit) form_event \<Rightarrow> PaymentTermFields master_form \<times> ('w, payload, body) browser
    \<Rightarrow> PaymentTermFields master_form \<times> ('w, payload, body) browser" where
  "term_step route = form_step (submit_term route) (\<lambda>_ x. x)"

definition tax_code_step :: "string option \<Rightarrow> (TaxCodeFields, unit) form_event \<Rightarrow> TaxCodeForm_State \<times> ('w, payload, body) browser
    \<Rightarrow> TaxCodeForm_State \<times> ('w, payload, body) browser" where
  "tax_code_step route = form_step (submit_tax_code route) (\<lambda>_ x. x)"

definition organization_step :: "string option \<Rightarrow> (OrganizationFields, unit) form_event
    \<Rightarrow> OrganizationFields master_form \<times> ('w, payload, body) browser \<Rightarrow> OrganizationFields master_form \<times> ('w, payload, body) browser" where
  "organization_step route = form_step (submit_organization route) (\<lambda>_ x. x)"

definition rate_step :: "(string \<times> string) option \<Rightarrow> (RateFields, unit) form_event \<Rightarrow> ExchangeRateForm_State \<times> ('w, payload, body) browser
    \<Rightarrow> ExchangeRateForm_State \<times> ('w, payload, body) browser" where
  "rate_step route = form_step (submit_rate route) (\<lambda>_. delete_rate route)"

end
