(* ===== verification/Party_Form.thy ===== *)
theory Party_Form
  imports Master_Form
begin

text \<open>
  The forms with selects of accounts and codes: accounts (\<open>web/src/components/account-form.tsx\<close>),
  products (\<open>product-form.tsx\<close>), customers (\<open>customer-form.tsx\<close>) and suppliers
  (\<open>supplier-form.tsx\<close>). A customer or supplier is a role of an organization: the organization is
  chosen once, among those without the role, and shown afterwards.
\<close>

section \<open>Accounts\<close>

record AccountFields =
  acf_code :: string
  acf_name :: string
  acf_accountType :: string
  acf_parentId :: string
  acf_currencyCode :: string
  acf_isPostable :: bool
  acf_isActive :: bool
  acf_isCash :: bool
  acf_cashFlowActivity :: string

definition blank_account :: AccountFields where
  "blank_account = \<lparr>acf_code = [], acf_name = [], acf_accountType = [], acf_parentId = NONE, acf_currencyCode = [],
     acf_isPostable = True, acf_isActive = True, acf_isCash = False, acf_cashFlowActivity = ''operating''\<rparr>"

record AccountForm_State = "AccountFields master_form" +
  acf_parents :: "Account list"

definition account_init :: AccountForm_State where
  "account_init = \<lparr>mf_form = None, mf_error = None, mf_saving = False, mf_saveError = None, mf_navigated = None,
     acf_parents = []\<rparr>"

definition existing_account :: "Account \<Rightarrow> AccountFields" where
  "existing_account a = \<lparr>acf_code = acc_code a, acf_name = acc_name a, acf_accountType = acc_account_type a,
     acf_parentId = id_select (acc_parent_id a), acf_currencyCode = or_empty (acc_currency_code a),
     acf_isPostable = acc_is_postable a, acf_isActive = acc_is_active a, acf_isCash = acc_is_cash a,
     acf_cashFlowActivity = acc_cash_flow_activity a\<rparr>"

definition account_effect :: "string option \<Rightarrow> bool \<Rightarrow> AccountForm_State \<times> ('w, payload, body) browser
    \<Rightarrow> AccountForm_State \<times> ('w, payload, body) browser" where
  "account_effect route cancelled x = (case x of (f, b) \<Rightarrow>
     (case route of
        Some ident \<Rightarrow>
          if invalid_id ident then (f\<lparr>mf_error := Some ''Invalid account id.''\<rparr>, b)
          else (case both_io (getAccount (id_of ident)) listAccounts b of
             (r, b) \<Rightarrow> (when_loaded cancelled r (\<lambda>(account, accounts) f.
                set_form (existing_account account)
                  (f\<lparr>acf_parents := filter (\<lambda>a. acc_id a \<noteq> acc_id account) accounts\<rparr>)) f, b))
      | None \<Rightarrow> (case listAccounts b of
             (r, b) \<Rightarrow> (when_loaded cancelled r (\<lambda>accounts f. set_form blank_account (f\<lparr>acf_parents := accounts\<rparr>)) f, b))))"

definition account_problem :: "AccountFields \<Rightarrow> string option" where
  "account_problem v =
     (if trim (acf_code v) = [] \<or> trim (acf_name v) = [] then Some ''Code and name are required.''
      else if acf_accountType v = [] then Some ''Please choose an account type.'' else None)"

definition account_input :: "AccountFields \<Rightarrow> AccountInput" where
  "account_input v = \<lparr>acci_code = trim (acf_code v), acci_name = trim (acf_name v), acci_account_type = acf_accountType v,
     acci_parent_id = id_or_null (acf_parentId v), acci_currency_code = code_or_none (acf_currencyCode v),
     acci_is_postable = acf_isPostable v, acci_is_active = acf_isActive v,
     acci_is_cash = (acf_accountType v = ''asset'' \<and> acf_isCash v), acci_cash_flow_activity = acf_cashFlowActivity v\<rparr>"

definition save_account :: "string option \<Rightarrow> AccountInput \<Rightarrow> ('w, unit) call" where
  "save_account route input = (case route of
       None \<Rightarrow> map_io (\<lambda>_. ()) (createAccount input)
     | Some ident \<Rightarrow> updateAccount (id_of ident) input)"

definition submit_account :: "string option \<Rightarrow> AccountForm_State \<times> ('w, payload, body) browser
    \<Rightarrow> AccountForm_State \<times> ('w, payload, body) browser" where
  "submit_account route = submit_form account_problem (\<lambda>v. save_account route (account_input v)) ''/accounts''"

definition account_fields_view :: "Account list \<Rightarrow> AccountFields \<Rightarrow> (AccountFields, unit) form_event element list" where
  "account_fields_view parents v =
     [Field ''code'' ''Code'' True (acf_code v) (\<lambda>s. Set_Form (v\<lparr>acf_code := s\<rparr>)),
      Field ''name'' ''Name'' True (acf_name v) (\<lambda>s. Set_Form (v\<lparr>acf_name := s\<rparr>)),
      Select ''account_type'' ''Account Type'' (acf_accountType v) ACCOUNT_TYPES (\<lambda>s. Set_Form (v\<lparr>acf_accountType := s\<rparr>)),
      Select ''parent'' ''Parent Account'' (acf_parentId v) ((NONE, ''None (top-level)'') # account_options parents)
        (\<lambda>s. Set_Form (v\<lparr>acf_parentId := s\<rparr>)),
      Field ''currency'' ''Currency'' False (acf_currencyCode v) (\<lambda>s. Set_Form (v\<lparr>acf_currencyCode := s\<rparr>))]
     @ guarded (acf_accountType v = ''asset'')
         [Checkbox ''is_cash'' (''Cash or bank account (the cash-flow statement explains these accounts'' @ [CHR 0x27] @ '' movement)'')
            (acf_isCash v) (\<lambda>c. Set_Form (v\<lparr>acf_isCash := c\<rparr>))]
     @ guarded (acf_accountType v \<in> {''asset'', ''liability'', ''equity''} \<and> \<not> (acf_accountType v = ''asset'' \<and> acf_isCash v))
         [Select ''cash_flow_activity'' ''Cash Flow Activity'' (acf_cashFlowActivity v) CASH_FLOW_ACTIVITIES
            (\<lambda>s. Set_Form (v\<lparr>acf_cashFlowActivity := s\<rparr>)),
          Note (''Which section of the cash-flow statement this account'' @ [CHR 0x27] @ ''s movements belong to.'')]
     @ [Checkbox ''is_postable'' ''Postable (uncheck for a summary/header account)'' (acf_isPostable v)
          (\<lambda>c. Set_Form (v\<lparr>acf_isPostable := c\<rparr>)),
        Checkbox ''is_active'' ''Active'' (acf_isActive v) (\<lambda>c. Set_Form (v\<lparr>acf_isActive := c\<rparr>))]"

definition AccountForm :: "string option \<Rightarrow> AccountForm_State \<Rightarrow> (AccountFields, unit) form_event element list" where
  "AccountForm route f = form_frame
     (if route = None then (''New Account'', ''Add an account to the chart of accounts.'')
      else (''Edit Account'', ''Update the account'' @ [CHR 0x27] @ ''s details.''))
     (''Back to accounts'', ''/accounts'') (route = None) False (account_fields_view (acf_parents f)) [] f"

definition account_step :: "string option \<Rightarrow> (AccountFields, unit) form_event \<Rightarrow> AccountForm_State \<times> ('w, payload, body) browser
    \<Rightarrow> AccountForm_State \<times> ('w, payload, body) browser" where
  "account_step route = form_step (submit_account route) (\<lambda>_ x. x)"

section \<open>Products\<close>

record ProductFields =
  prf_sku :: string
  prf_name :: string
  prf_description :: string
  prf_unitPrice :: string
  prf_currencyCode :: string
  prf_revenueAccountId :: string
  prf_taxCode :: string
  prf_trackInventory :: bool
  prf_inventoryAccountId :: string
  prf_cogsAccountId :: string
  prf_isActive :: bool

definition blank_product :: ProductFields where
  "blank_product = \<lparr>prf_sku = [], prf_name = [], prf_description = [], prf_unitPrice = ''0'', prf_currencyCode = [],
     prf_revenueAccountId = NONE, prf_taxCode = NONE, prf_trackInventory = False, prf_inventoryAccountId = NONE,
     prf_cogsAccountId = NONE, prf_isActive = True\<rparr>"

record ProductForm_State = "ProductFields master_form" +
  prf_accounts :: "Account list"
  prf_taxCodes :: "TaxCode list"

definition product_init :: ProductForm_State where
  "product_init = \<lparr>mf_form = None, mf_error = None, mf_saving = False, mf_saveError = None, mf_navigated = None,
     prf_accounts = [], prf_taxCodes = []\<rparr>"

definition existing_product :: "Product \<Rightarrow> ProductFields" where
  "existing_product p = \<lparr>prf_sku = prod_sku p, prf_name = prod_name p, prf_description = or_empty (prod_description p),
     prf_unitPrice = prod_unit_price p, prf_currencyCode = or_empty (prod_currency_code p),
     prf_revenueAccountId = id_select (prod_revenue_account_id p), prf_taxCode = code_select (prod_tax_code p),
     prf_trackInventory = prod_track_inventory p, prf_inventoryAccountId = id_select (prod_inventory_account_id p),
     prf_cogsAccountId = id_select (prod_cogs_account_id p), prf_isActive = prod_is_active p\<rparr>"

definition product_effect :: "string option \<Rightarrow> bool \<Rightarrow> bool \<Rightarrow> ProductForm_State \<times> ('w, payload, body) browser
    \<Rightarrow> ProductForm_State \<times> ('w, payload, body) browser" where
  "product_effect route c1 c2 x = (case x of (f, b) \<Rightarrow>
     (case both_io listAccounts listTaxCodes b of
        (Inl err, b) \<Rightarrow> (if c1 then f else f\<lparr>mf_error := Some (error_message err)\<rparr>, b)
      | (Inr (accts, taxes), b) \<Rightarrow>
          if c1 then (f, b)
          else
            let f = f\<lparr>prf_accounts := accts, prf_taxCodes := taxes\<rparr> in
            (case route of
               Some ident \<Rightarrow>
                 if invalid_id ident then (f\<lparr>mf_error := Some ''Invalid product id.''\<rparr>, b)
                 else (case getProduct (id_of ident) b of
                    (r, b) \<Rightarrow> (when_loaded c2 r (\<lambda>p. set_form (existing_product p)) f, b))
             | None \<Rightarrow> (set_form blank_product f, b))))"

definition product_problem :: "ProductFields \<Rightarrow> string option" where
  "product_problem v = (if trim (prf_sku v) = [] \<or> trim (prf_name v) = [] then Some ''SKU and name are required.'' else None)"

definition product_input :: "ProductFields \<Rightarrow> ProductInput" where
  "product_input v = \<lparr>prodi_sku = trim (prf_sku v), prodi_name = trim (prf_name v),
     prodi_description = emptyToNull (prf_description v),
     prodi_unit_price = (if trim (prf_unitPrice v) = [] then ''0'' else trim (prf_unitPrice v)),
     prodi_currency_code = code_or_none (prf_currencyCode v), prodi_revenue_account_id = id_or_null (prf_revenueAccountId v),
     prodi_tax_code = code_or_null (prf_taxCode v), prodi_track_inventory = prf_trackInventory v,
     prodi_inventory_account_id = id_or_null (prf_inventoryAccountId v), prodi_cogs_account_id = id_or_null (prf_cogsAccountId v),
     prodi_is_active = prf_isActive v\<rparr>"

definition save_product :: "string option \<Rightarrow> ProductInput \<Rightarrow> ('w, unit) call" where
  "save_product route input = (case route of
       None \<Rightarrow> map_io (\<lambda>_. ()) (createProduct input)
     | Some ident \<Rightarrow> updateProduct (id_of ident) input)"

definition submit_product :: "string option \<Rightarrow> ProductForm_State \<times> ('w, payload, body) browser
    \<Rightarrow> ProductForm_State \<times> ('w, payload, body) browser" where
  "submit_product route = submit_form product_problem (\<lambda>v. save_product route (product_input v)) ''/products''"

definition AccountSelect :: "string \<Rightarrow> string \<Rightarrow> string \<Rightarrow> Account list \<Rightarrow> (string \<Rightarrow> 'e) \<Rightarrow> 'e element" where
  "AccountSelect i label v accounts onChange = Select i label v ((NONE, ''None'') # account_options accounts) onChange"

definition tax_code_options :: "TaxCode list \<Rightarrow> (string \<times> string) list" where
  "tax_code_options codes = (NONE, ''None'') # map (\<lambda>t. (tc_code t, tc_code t @ '' '' @ em_dash @ '' '' @ tc_name t)) codes"

definition product_fields_view :: "Account list \<Rightarrow> TaxCode list \<Rightarrow> ProductFields \<Rightarrow> (ProductFields, unit) form_event element list" where
  "product_fields_view accounts taxCodes v =
     [Field ''sku'' ''SKU'' True (prf_sku v) (\<lambda>s. Set_Form (v\<lparr>prf_sku := s\<rparr>)),
      Field ''name'' ''Name'' True (prf_name v) (\<lambda>s. Set_Form (v\<lparr>prf_name := s\<rparr>)),
      Field ''description'' ''Description'' False (prf_description v) (\<lambda>s. Set_Form (v\<lparr>prf_description := s\<rparr>)),
      Field ''unit_price'' ''Unit Price'' False (prf_unitPrice v) (\<lambda>s. Set_Form (v\<lparr>prf_unitPrice := s\<rparr>)),
      Field ''currency'' ''Currency'' False (prf_currencyCode v) (\<lambda>s. Set_Form (v\<lparr>prf_currencyCode := s\<rparr>)),
      AccountSelect ''revenue_account'' ''Revenue Account'' (prf_revenueAccountId v) accounts
        (\<lambda>s. Set_Form (v\<lparr>prf_revenueAccountId := s\<rparr>)),
      Select ''tax_code'' ''Tax Code'' (prf_taxCode v) (tax_code_options taxCodes) (\<lambda>s. Set_Form (v\<lparr>prf_taxCode := s\<rparr>)),
      Checkbox ''track_inventory'' ''Track inventory'' (prf_trackInventory v) (\<lambda>c. Set_Form (v\<lparr>prf_trackInventory := c\<rparr>))]
     @ guarded (prf_trackInventory v)
         [AccountSelect ''inventory_account'' ''Inventory Account'' (prf_inventoryAccountId v) accounts
            (\<lambda>s. Set_Form (v\<lparr>prf_inventoryAccountId := s\<rparr>)),
          AccountSelect ''cogs_account'' ''COGS Account'' (prf_cogsAccountId v) accounts
            (\<lambda>s. Set_Form (v\<lparr>prf_cogsAccountId := s\<rparr>))]
     @ [Checkbox ''is_active'' ''Active'' (prf_isActive v) (\<lambda>c. Set_Form (v\<lparr>prf_isActive := c\<rparr>))]"

definition ProductForm :: "string option \<Rightarrow> ProductForm_State \<Rightarrow> (ProductFields, unit) form_event element list" where
  "ProductForm route f = form_frame
     (if route = None then (''New Product'', ''Add a product or service to the catalog.'')
      else (''Edit Product'', ''Update the product'' @ [CHR 0x27] @ ''s pricing and accounts.''))
     (''Back to products'', ''/products'') (route = None) False (product_fields_view (prf_accounts f) (prf_taxCodes f)) [] f"

definition product_step :: "string option \<Rightarrow> (ProductFields, unit) form_event \<Rightarrow> ProductForm_State \<times> ('w, payload, body) browser
    \<Rightarrow> ProductForm_State \<times> ('w, payload, body) browser" where
  "product_step route = form_step (submit_product route) (\<lambda>_ x. x)"

text \<open>The options of a nullable select of payment terms.\<close>

definition payment_term_options :: "PaymentTerm list \<Rightarrow> (string \<times> string) list" where
  "payment_term_options terms = (NONE, ''None'') # map (\<lambda>t. (pt_code t, pt_code t @ '' '' @ em_dash @ '' '' @ pt_name t)) terms"

section \<open>Customers\<close>

record CustomerFields =
  cuf_organizationId :: string
  cuf_customerNumber :: string
  cuf_arAccountId :: string
  cuf_paymentTermsCode :: string
  cuf_currencyCode :: string
  cuf_taxCode :: string
  cuf_creditLimit :: string
  cuf_isActive :: bool

definition blank_customer :: CustomerFields where
  "blank_customer = \<lparr>cuf_organizationId = [], cuf_customerNumber = [], cuf_arAccountId = NONE, cuf_paymentTermsCode = NONE,
     cuf_currencyCode = [], cuf_taxCode = NONE, cuf_creditLimit = [], cuf_isActive = True\<rparr>"

record CustomerForm_State = "CustomerFields master_form" +
  cuf_orgOptions :: "Organization list"
  cuf_accounts :: "Account list"
  cuf_taxCodes :: "TaxCode list"
  cuf_paymentTerms :: "PaymentTerm list"

definition customer_init :: CustomerForm_State where
  "customer_init = \<lparr>mf_form = None, mf_error = None, mf_saving = False, mf_saveError = None, mf_navigated = None,
     cuf_orgOptions = [], cuf_accounts = [], cuf_taxCodes = [], cuf_paymentTerms = []\<rparr>"

definition existing_customer :: "Customer \<Rightarrow> CustomerFields" where
  "existing_customer c = \<lparr>cuf_organizationId = show_int (cust_organization_id c), cuf_customerNumber = or_empty (cust_customer_number c),
     cuf_arAccountId = id_select (cust_ar_account_id c), cuf_paymentTermsCode = code_select (cust_payment_terms_code c),
     cuf_currencyCode = or_empty (cust_currency_code c), cuf_taxCode = code_select (cust_tax_code c),
     cuf_creditLimit = or_empty (cust_credit_limit c), cuf_isActive = cust_is_active c\<rparr>"

definition set_customer_lists :: "Account list \<times> TaxCode list \<times> PaymentTerm list \<Rightarrow> CustomerForm_State \<Rightarrow> CustomerForm_State" where
  "set_customer_lists opts f = (case opts of (accts, taxes, terms) \<Rightarrow>
     f\<lparr>cuf_accounts := accts, cuf_taxCodes := taxes, cuf_paymentTerms := terms\<rparr>)"

definition customer_effect :: "string option \<Rightarrow> bool \<Rightarrow> CustomerForm_State \<times> ('w, payload, body) browser
    \<Rightarrow> CustomerForm_State \<times> ('w, payload, body) browser" where
  "customer_effect route cancelled x = (case x of (f, b) \<Rightarrow>
     (case route of
        Some ident \<Rightarrow>
          if invalid_id ident then (f\<lparr>mf_error := Some ''Invalid customer id.''\<rparr>, b)
          else (case both_io (getCustomer (id_of ident)) (both_io listOrganizations
              (both_io listAccounts (both_io listTaxCodes listPaymentTerms))) b of
             (r, b) \<Rightarrow> (when_loaded cancelled r (\<lambda>(c, organizations, opts) f.
                let own = (case find (\<lambda>o'. org_id o' = cust_organization_id c) organizations of
                    Some o' \<Rightarrow> [o'] | None \<Rightarrow> []) in
                set_form (existing_customer c) (set_customer_lists opts (f\<lparr>cuf_orgOptions := own\<rparr>))) f, b))
      | None \<Rightarrow>
          (case both_io listOrganizations (both_io listCustomers
              (both_io listAccounts (both_io listTaxCodes listPaymentTerms))) b of
             (r, b) \<Rightarrow> (when_loaded cancelled r (\<lambda>(organizations, customers, opts) f.
                let taken = set (map cust_organization_id customers) in
                set_form blank_customer (set_customer_lists opts
                  (f\<lparr>cuf_orgOptions := filter (\<lambda>o'. org_id o' \<notin> taken) organizations\<rparr>))) f, b))))"

definition customer_problem :: "bool \<Rightarrow> CustomerFields \<Rightarrow> string option" where
  "customer_problem creating v = (if creating \<and> cuf_organizationId v = [] then Some ''Please choose an organization.'' else None)"

definition customer_input :: "CustomerFields \<Rightarrow> CustomerInput" where
  "customer_input v = \<lparr>custi_organization_id = id_of (cuf_organizationId v), custi_customer_number = emptyToNull (cuf_customerNumber v),
     custi_ar_account_id = id_or_null (cuf_arAccountId v), custi_payment_terms_code = code_or_null (cuf_paymentTermsCode v),
     custi_currency_code = code_or_none (cuf_currencyCode v), custi_tax_code = code_or_null (cuf_taxCode v),
     custi_credit_limit = emptyToNull (cuf_creditLimit v), custi_is_active = cuf_isActive v\<rparr>"

definition save_customer :: "string option \<Rightarrow> CustomerInput \<Rightarrow> ('w, unit) call" where
  "save_customer route input = (case route of
       None \<Rightarrow> map_io (\<lambda>_. ()) (createCustomer input)
     | Some ident \<Rightarrow> updateCustomer (id_of ident) input)"

definition submit_customer :: "string option \<Rightarrow> CustomerForm_State \<times> ('w, payload, body) browser
    \<Rightarrow> CustomerForm_State \<times> ('w, payload, body) browser" where
  "submit_customer route = submit_form (customer_problem (route = None)) (\<lambda>v. save_customer route (customer_input v)) ''/customers''"

definition customer_org_view :: "bool \<Rightarrow> Organization list \<Rightarrow> CustomerFields \<Rightarrow> (CustomerFields, unit) form_event element list" where
  "customer_org_view creating orgOptions v =
     (if creating then
        (if orgOptions \<noteq> [] then
           [Select ''organization'' ''Organization'' (cuf_organizationId v)
              (map (\<lambda>o'. (show_int (org_id o'), org_name o')) orgOptions) (\<lambda>s. Set_Form (v\<lparr>cuf_organizationId := s\<rparr>))]
         else [Note ''Every organization already has a customer. Create an organization first.''])
      else
        [Datum ''Organization'' (case find (\<lambda>o'. show_int (org_id o') = cuf_organizationId v) orgOptions of
           Some o' \<Rightarrow> org_name o' | None \<Rightarrow> ''#'' @ cuf_organizationId v),
         Note (''A customer'' @ [CHR 0x27] @ ''s organization can'' @ [CHR 0x27] @ ''t be reassigned here.'')])"

definition customer_fields_view :: "bool \<Rightarrow> CustomerForm_State \<Rightarrow> CustomerFields \<Rightarrow> (CustomerFields, unit) form_event element list" where
  "customer_fields_view creating f v =
     customer_org_view creating (cuf_orgOptions f) v
     @ [Field ''customer_number'' ''Customer #'' False (cuf_customerNumber v) (\<lambda>s. Set_Form (v\<lparr>cuf_customerNumber := s\<rparr>)),
        AccountSelect ''ar_account'' ''AR Account'' (cuf_arAccountId v) (cuf_accounts f) (\<lambda>s. Set_Form (v\<lparr>cuf_arAccountId := s\<rparr>)),
        Select ''tax_code'' ''Tax Code'' (cuf_taxCode v) (tax_code_options (cuf_taxCodes f)) (\<lambda>s. Set_Form (v\<lparr>cuf_taxCode := s\<rparr>)),
        Select ''payment_terms'' ''Payment Terms'' (cuf_paymentTermsCode v) (payment_term_options (cuf_paymentTerms f))
          (\<lambda>s. Set_Form (v\<lparr>cuf_paymentTermsCode := s\<rparr>)),
        Field ''currency'' ''Currency'' False (cuf_currencyCode v) (\<lambda>s. Set_Form (v\<lparr>cuf_currencyCode := s\<rparr>)),
        Field ''credit_limit'' ''Credit Limit'' False (cuf_creditLimit v) (\<lambda>s. Set_Form (v\<lparr>cuf_creditLimit := s\<rparr>)),
        Checkbox ''is_active'' ''Active'' (cuf_isActive v) (\<lambda>c. Set_Form (v\<lparr>cuf_isActive := c\<rparr>))]"

definition CustomerForm :: "string option \<Rightarrow> CustomerForm_State \<Rightarrow> (CustomerFields, unit) form_event element list" where
  "CustomerForm route f = form_frame
     (if route = None then (''New Customer'', ''Give an organization a customer role.'')
      else (''Edit Customer'', ''Update the customer'' @ [CHR 0x27] @ ''s terms and accounts.''))
     (''Back to customers'', ''/customers'') (route = None) (route = None \<and> cuf_orgOptions f = [])
     (customer_fields_view (route = None) f) [] f"

definition customer_step :: "string option \<Rightarrow> (CustomerFields, unit) form_event \<Rightarrow> CustomerForm_State \<times> ('w, payload, body) browser
    \<Rightarrow> CustomerForm_State \<times> ('w, payload, body) browser" where
  "customer_step route = form_step (submit_customer route) (\<lambda>_ x. x)"

section \<open>Suppliers\<close>

record SupplierFields =
  suf_organizationId :: string
  suf_supplierNumber :: string
  suf_apAccountId :: string
  suf_paymentTermsCode :: string
  suf_currencyCode :: string
  suf_taxCode :: string
  suf_isActive :: bool

definition blank_supplier :: SupplierFields where
  "blank_supplier = \<lparr>suf_organizationId = [], suf_supplierNumber = [], suf_apAccountId = NONE, suf_paymentTermsCode = NONE,
     suf_currencyCode = [], suf_taxCode = NONE, suf_isActive = True\<rparr>"

record SupplierForm_State = "SupplierFields master_form" +
  suf_orgOptions :: "Organization list"
  suf_accounts :: "Account list"
  suf_taxCodes :: "TaxCode list"
  suf_paymentTerms :: "PaymentTerm list"

definition supplier_init :: SupplierForm_State where
  "supplier_init = \<lparr>mf_form = None, mf_error = None, mf_saving = False, mf_saveError = None, mf_navigated = None,
     suf_orgOptions = [], suf_accounts = [], suf_taxCodes = [], suf_paymentTerms = []\<rparr>"

definition existing_supplier :: "Supplier \<Rightarrow> SupplierFields" where
  "existing_supplier c = \<lparr>suf_organizationId = show_int (supp_organization_id c), suf_supplierNumber = or_empty (supp_supplier_number c),
     suf_apAccountId = id_select (supp_ap_account_id c), suf_paymentTermsCode = code_select (supp_payment_terms_code c),
     suf_currencyCode = or_empty (supp_currency_code c), suf_taxCode = code_select (supp_tax_code c),
     suf_isActive = supp_is_active c\<rparr>"

definition set_supplier_lists :: "Account list \<times> TaxCode list \<times> PaymentTerm list \<Rightarrow> SupplierForm_State \<Rightarrow> SupplierForm_State" where
  "set_supplier_lists opts f = (case opts of (accts, taxes, terms) \<Rightarrow>
     f\<lparr>suf_accounts := accts, suf_taxCodes := taxes, suf_paymentTerms := terms\<rparr>)"

definition supplier_effect :: "string option \<Rightarrow> bool \<Rightarrow> SupplierForm_State \<times> ('w, payload, body) browser
    \<Rightarrow> SupplierForm_State \<times> ('w, payload, body) browser" where
  "supplier_effect route cancelled x = (case x of (f, b) \<Rightarrow>
     (case route of
        Some ident \<Rightarrow>
          if invalid_id ident then (f\<lparr>mf_error := Some ''Invalid supplier id.''\<rparr>, b)
          else (case both_io (getSupplier (id_of ident)) (both_io listOrganizations
              (both_io listAccounts (both_io listTaxCodes listPaymentTerms))) b of
             (r, b) \<Rightarrow> (when_loaded cancelled r (\<lambda>(c, organizations, opts) f.
                let own = (case find (\<lambda>o'. org_id o' = supp_organization_id c) organizations of
                    Some o' \<Rightarrow> [o'] | None \<Rightarrow> []) in
                set_form (existing_supplier c) (set_supplier_lists opts (f\<lparr>suf_orgOptions := own\<rparr>))) f, b))
      | None \<Rightarrow>
          (case both_io listOrganizations (both_io listSuppliers
              (both_io listAccounts (both_io listTaxCodes listPaymentTerms))) b of
             (r, b) \<Rightarrow> (when_loaded cancelled r (\<lambda>(organizations, suppliers, opts) f.
                let taken = set (map supp_organization_id suppliers) in
                set_form blank_supplier (set_supplier_lists opts
                  (f\<lparr>suf_orgOptions := filter (\<lambda>o'. org_id o' \<notin> taken) organizations\<rparr>))) f, b))))"

definition supplier_problem :: "bool \<Rightarrow> SupplierFields \<Rightarrow> string option" where
  "supplier_problem creating v = (if creating \<and> suf_organizationId v = [] then Some ''Please choose an organization.'' else None)"

definition supplier_input :: "SupplierFields \<Rightarrow> SupplierInput" where
  "supplier_input v = \<lparr>suppi_organization_id = id_of (suf_organizationId v), suppi_supplier_number = emptyToNull (suf_supplierNumber v),
     suppi_ap_account_id = id_or_null (suf_apAccountId v), suppi_payment_terms_code = code_or_null (suf_paymentTermsCode v),
     suppi_currency_code = code_or_none (suf_currencyCode v), suppi_tax_code = code_or_null (suf_taxCode v),
     suppi_is_active = suf_isActive v\<rparr>"

definition save_supplier :: "string option \<Rightarrow> SupplierInput \<Rightarrow> ('w, unit) call" where
  "save_supplier route input = (case route of
       None \<Rightarrow> map_io (\<lambda>_. ()) (createSupplier input)
     | Some ident \<Rightarrow> updateSupplier (id_of ident) input)"

definition submit_supplier :: "string option \<Rightarrow> SupplierForm_State \<times> ('w, payload, body) browser
    \<Rightarrow> SupplierForm_State \<times> ('w, payload, body) browser" where
  "submit_supplier route = submit_form (supplier_problem (route = None)) (\<lambda>v. save_supplier route (supplier_input v)) ''/suppliers''"

definition supplier_org_view :: "bool \<Rightarrow> Organization list \<Rightarrow> SupplierFields \<Rightarrow> (SupplierFields, unit) form_event element list" where
  "supplier_org_view creating orgOptions v =
     (if creating then
        (if orgOptions \<noteq> [] then
           [Select ''organization'' ''Organization'' (suf_organizationId v)
              (map (\<lambda>o'. (show_int (org_id o'), org_name o')) orgOptions) (\<lambda>s. Set_Form (v\<lparr>suf_organizationId := s\<rparr>))]
         else [Note ''Every organization already has a supplier. Create an organization first.''])
      else
        [Datum ''Organization'' (case find (\<lambda>o'. show_int (org_id o') = suf_organizationId v) orgOptions of
           Some o' \<Rightarrow> org_name o' | None \<Rightarrow> ''#'' @ suf_organizationId v),
         Note (''A supplier'' @ [CHR 0x27] @ ''s organization can'' @ [CHR 0x27] @ ''t be reassigned here.'')])"

definition supplier_fields_view :: "bool \<Rightarrow> SupplierForm_State \<Rightarrow> SupplierFields \<Rightarrow> (SupplierFields, unit) form_event element list" where
  "supplier_fields_view creating f v =
     supplier_org_view creating (suf_orgOptions f) v
     @ [Field ''supplier_number'' ''Supplier #'' False (suf_supplierNumber v) (\<lambda>s. Set_Form (v\<lparr>suf_supplierNumber := s\<rparr>)),
        AccountSelect ''ap_account'' ''AP Account'' (suf_apAccountId v) (suf_accounts f) (\<lambda>s. Set_Form (v\<lparr>suf_apAccountId := s\<rparr>)),
        Select ''tax_code'' ''Tax Code'' (suf_taxCode v) (tax_code_options (suf_taxCodes f)) (\<lambda>s. Set_Form (v\<lparr>suf_taxCode := s\<rparr>)),
        Select ''payment_terms'' ''Payment Terms'' (suf_paymentTermsCode v) (payment_term_options (suf_paymentTerms f))
          (\<lambda>s. Set_Form (v\<lparr>suf_paymentTermsCode := s\<rparr>)),
        Field ''currency'' ''Currency'' False (suf_currencyCode v) (\<lambda>s. Set_Form (v\<lparr>suf_currencyCode := s\<rparr>)),
        Checkbox ''is_active'' ''Active'' (suf_isActive v) (\<lambda>c. Set_Form (v\<lparr>suf_isActive := c\<rparr>))]"

definition SupplierForm :: "string option \<Rightarrow> SupplierForm_State \<Rightarrow> (SupplierFields, unit) form_event element list" where
  "SupplierForm route f = form_frame
     (if route = None then (''New Supplier'', ''Give an organization a supplier role.'')
      else (''Edit Supplier'', ''Update the supplier'' @ [CHR 0x27] @ ''s terms and accounts.''))
     (''Back to suppliers'', ''/suppliers'') (route = None) (route = None \<and> suf_orgOptions f = [])
     (supplier_fields_view (route = None) f) [] f"

definition supplier_step :: "string option \<Rightarrow> (SupplierFields, unit) form_event \<Rightarrow> SupplierForm_State \<times> ('w, payload, body) browser
    \<Rightarrow> SupplierForm_State \<times> ('w, payload, body) browser" where
  "supplier_step route = form_step (submit_supplier route) (\<lambda>_ x. x)"


end
