(* ===== verification/User_Form.thy ===== *)
theory User_Form
  imports Party_Form Session
begin

text \<open>
  The form of a user with its section that resets the password (\<open>web/src/components/user-form.tsx\<close>,
  \<open>password-input.tsx\<close>), and the settings of the ledger (\<open>settings.tsx\<close>), which only an administrator
  can change.
\<close>

section \<open>Users\<close>

record UserFields =
  usf_email :: string
  usf_fullName :: string
  usf_password :: string
  usf_isActive :: bool
  usf_isAdmin :: bool

definition blank_user :: UserFields where
  "blank_user = \<lparr>usf_email = [], usf_fullName = [], usf_password = [], usf_isActive = True, usf_isAdmin = False\<rparr>"

definition MIN_PASSWORD :: nat where
  "MIN_PASSWORD = 8"

record UserForm_State = "UserFields master_form" +
  usf_newPassword :: string
  usf_resetting :: bool
  usf_resetResult :: "string option"
  usf_resetError :: "string option"

definition user_init :: UserForm_State where
  "user_init = \<lparr>mf_form = None, mf_error = None, mf_saving = False, mf_saveError = None, mf_navigated = None,
     usf_newPassword = [], usf_resetting = False, usf_resetResult = None, usf_resetError = None\<rparr>"

definition existing_user :: "UserRecord \<Rightarrow> UserFields" where
  "existing_user u = \<lparr>usf_email = ur_email u, usf_fullName = ur_full_name u, usf_password = [],
     usf_isActive = ur_is_active u, usf_isAdmin = ur_is_admin u\<rparr>"

definition user_effect :: "string option \<Rightarrow> bool \<Rightarrow> UserForm_State \<times> ('w, payload, body) browser
    \<Rightarrow> UserForm_State \<times> ('w, payload, body) browser" where
  "user_effect route cancelled x = (case x of (f, b) \<Rightarrow>
     (case route of
        Some ident \<Rightarrow>
          if invalid_id ident then (f\<lparr>mf_error := Some ''Invalid user id.''\<rparr>, b)
          else (case getUser (id_of ident) b of
             (r, b) \<Rightarrow> (when_loaded cancelled r (\<lambda>u. set_form (existing_user u)) f, b))
      | None \<Rightarrow> (set_form blank_user f, b)))"

definition password_message :: string where
  "password_message = ''Password must be at least '' @ show_nat MIN_PASSWORD @ '' characters.''"

definition user_problem :: "bool \<Rightarrow> UserFields \<Rightarrow> string option" where
  "user_problem creating v =
     (if trim (usf_email v) = [] \<or> trim (usf_fullName v) = [] then Some ''Email and name are required.''
      else if creating \<and> length (usf_password v) < MIN_PASSWORD then Some password_message else None)"

definition user_create :: "UserFields \<Rightarrow> UserCreate" where
  "user_create v = \<lparr>uc_email = trim (usf_email v), uc_full_name = trim (usf_fullName v), uc_password = usf_password v,
     uc_is_admin = usf_isAdmin v\<rparr>"

definition user_update :: "UserFields \<Rightarrow> UserUpdate" where
  "user_update v = \<lparr>uu_email = trim (usf_email v), uu_full_name = trim (usf_fullName v), uu_is_active = usf_isActive v,
     uu_is_admin = usf_isAdmin v\<rparr>"

definition save_user :: "string option \<Rightarrow> UserFields \<Rightarrow> ('w, unit) call" where
  "save_user route v = (case route of
       None \<Rightarrow> map_io (\<lambda>_. ()) (createUser (user_create v))
     | Some ident \<Rightarrow> updateUser (id_of ident) (user_update v))"

definition submit_user :: "string option \<Rightarrow> UserForm_State \<times> ('w, payload, body) browser
    \<Rightarrow> UserForm_State \<times> ('w, payload, body) browser" where
  "submit_user route = submit_form (user_problem (route = None)) (save_user route) ''/users''"

text \<open>The section that resets the password has a state of its own beside the form's.\<close>

definition handleResetPassword :: "string \<Rightarrow> UserForm_State \<times> ('w, payload, body) browser
    \<Rightarrow> UserForm_State \<times> ('w, payload, body) browser" where
  "handleResetPassword ident x = (case x of (f, b) \<Rightarrow>
     if length (usf_newPassword f) < MIN_PASSWORD
     then (f\<lparr>usf_resetError := Some password_message, usf_resetResult := None\<rparr>, b)
     else
       let f = f\<lparr>usf_resetting := True, usf_resetError := None, usf_resetResult := None\<rparr> in
       case setUserPassword (id_of ident) (usf_newPassword f) b of
         (Inr _, b) \<Rightarrow> (f\<lparr>usf_resetting := False, usf_newPassword := [],
            usf_resetResult := Some (''Password changed; the user'' @ [CHR 0x27] @ ''s sessions were signed out.'')\<rparr>, b)
       | (Inl err, b) \<Rightarrow> (f\<lparr>usf_resetting := False, usf_resetError := Some (save_message err)\<rparr>, b))"

datatype reset_event = New_Password string | Reset_Password

fun reset_step :: "string option \<Rightarrow> reset_event \<Rightarrow> UserForm_State \<times> ('w, payload, body) browser
    \<Rightarrow> UserForm_State \<times> ('w, payload, body) browser" where
  "reset_step route (New_Password s) (f, b) = (f\<lparr>usf_newPassword := s\<rparr>, b)"
| "reset_step (Some ident) Reset_Password x = handleResetPassword ident x"
| "reset_step None Reset_Password x = x"

definition user_step :: "string option \<Rightarrow> (UserFields, reset_event) form_event \<Rightarrow> UserForm_State \<times> ('w, payload, body) browser
    \<Rightarrow> UserForm_State \<times> ('w, payload, body) browser" where
  "user_step route = form_step (submit_user route) (reset_step route)"

text \<open>A password input; its button only toggles how the text is shown.\<close>

definition PasswordInput :: "string \<Rightarrow> string \<Rightarrow> string \<Rightarrow> (string \<Rightarrow> 'e) \<Rightarrow> 'e element" where
  "PasswordInput i label v h = Field i label False v h"

definition user_fields_view :: "bool \<Rightarrow> UserFields \<Rightarrow> (UserFields, reset_event) form_event element list" where
  "user_fields_view creating v =
     [Field ''email'' ''Email'' False (usf_email v) (\<lambda>s. Set_Form (v\<lparr>usf_email := s\<rparr>)),
      Field ''full_name'' ''Full Name'' False (usf_fullName v) (\<lambda>s. Set_Form (v\<lparr>usf_fullName := s\<rparr>))]
     @ guarded creating
         [PasswordInput ''password'' ''Password'' (usf_password v) (\<lambda>s. Set_Form (v\<lparr>usf_password := s\<rparr>)),
          Note (''At least '' @ show_nat MIN_PASSWORD @ '' characters.'')]
     @ [Checkbox ''is_admin'' ''Administrator'' (usf_isAdmin v) (\<lambda>c. Set_Form (v\<lparr>usf_isAdmin := c\<rparr>)),
        Note ''Can manage users and unpost documents.'']
     @ guarded (\<not> creating)
         [Checkbox ''is_active'' ''Active'' (usf_isActive v) (\<lambda>c. Set_Form (v\<lparr>usf_isActive := c\<rparr>))]"

definition reset_view :: "UserForm_State \<Rightarrow> (UserFields, reset_event) form_event element list" where
  "reset_view f =
     [Heading ''Reset password'', Note ''Sets a new password and signs the user out everywhere.'',
      PasswordInput ''new_password'' ''New Password'' (usf_newPassword f) (\<lambda>s. Other (New_Password s))]
     @ (case usf_resetError f of None \<Rightarrow> [] | Some e \<Rightarrow> [Alert (''Failed to reset: '' @ e)])
     @ (case usf_resetResult f of None \<Rightarrow> [] | Some m \<Rightarrow> [Note m])
     @ [Button (if usf_resetting f then ''Resetting...'' else ''Reset password'') (usf_resetting f) (Other Reset_Password)]"

definition UserForm :: "string option \<Rightarrow> UserForm_State \<Rightarrow> (UserFields, reset_event) form_event element list" where
  "UserForm route f = form_frame
     (if route = None then (''New User'', ''Add a login for the app.'')
      else (''Edit User'', ''Update the user'' @ [CHR 0x27] @ ''s details, access, or password.''))
     (''Back to users'', ''/users'') (route = None) False (user_fields_view (route = None))
     (guarded (route \<noteq> None) (reset_view f)) f"

section \<open>Settings\<close>

record SettingsScreen =
  ss_baseCurrency :: string
  ss_fxAccountId :: string
  ss_accounts :: "Account list"
  ss_error :: "string option"
  ss_loaded :: bool
  ss_saving :: bool
  ss_saveError :: "string option"
  ss_saved :: bool

definition settings_init :: SettingsScreen where
  "settings_init = \<lparr>ss_baseCurrency = [], ss_fxAccountId = NONE, ss_accounts = [], ss_error = None, ss_loaded = False,
     ss_saving = False, ss_saveError = None, ss_saved = False\<rparr>"

definition settings_loaded :: "bool \<Rightarrow> exn + Settings \<times> Account list \<Rightarrow> SettingsScreen \<Rightarrow> SettingsScreen" where
  "settings_loaded cancelled result f = (case result of
       Inr (s, accts) \<Rightarrow> if cancelled then f
         else f\<lparr>ss_baseCurrency := set_base_currency s, ss_fxAccountId := id_select (set_fx_gain_loss_account_id s),
            ss_accounts := accts, ss_loaded := True\<rparr>
     | Inl err \<Rightarrow> if cancelled then f else f\<lparr>ss_error := Some (error_message err)\<rparr>)"

definition load_settings :: "('w, Settings \<times> Account list) call" where
  "load_settings = both_io getSettings listAccounts"

definition settings_effect :: "bool \<Rightarrow> SettingsScreen \<times> ('w, payload, body) browser \<Rightarrow> SettingsScreen \<times> ('w, payload, body) browser" where
  "settings_effect cancelled x = (case x of (f, b) \<Rightarrow> (case load_settings b of (r, b) \<Rightarrow> (settings_loaded cancelled r f, b)))"

definition settings_input :: "SettingsScreen \<Rightarrow> Settings" where
  "settings_input f = \<lparr>set_base_currency = toUpperCase (trim (ss_baseCurrency f)),
     set_fx_gain_loss_account_id = id_or_null (ss_fxAccountId f)\<rparr>"

definition submit_settings :: "SettingsScreen \<times> ('w, payload, body) browser \<Rightarrow> SettingsScreen \<times> ('w, payload, body) browser" where
  "submit_settings x = (case x of (f, b) \<Rightarrow>
     if length (trim (ss_baseCurrency f)) \<noteq> 3 then (f\<lparr>ss_saveError := Some ''Base currency must be a 3-letter code.''\<rparr>, b)
     else
       let f = f\<lparr>ss_saving := True, ss_saveError := None, ss_saved := False\<rparr> in
       case updateSettings (settings_input f) b of
         (Inr _, b) \<Rightarrow> (f\<lparr>ss_saving := False, ss_saved := True\<rparr>, b)
       | (Inl err, b) \<Rightarrow> (f\<lparr>ss_saving := False, ss_saveError := Some (save_message err)\<rparr>, b))"

datatype settings_event = Base_Currency string | Fx_Account string | Save_Settings

fun settings_step :: "settings_event \<Rightarrow> SettingsScreen \<times> ('w, payload, body) browser \<Rightarrow> SettingsScreen \<times> ('w, payload, body) browser" where
  "settings_step (Base_Currency s) (f, b) = (f\<lparr>ss_baseCurrency := s\<rparr>, b)"
| "settings_step (Fx_Account s) (f, b) = (f\<lparr>ss_fxAccountId := s\<rparr>, b)"
| "settings_step Save_Settings x = submit_settings x"

text \<open>To a user who is no administrator the inputs are disabled, shown here as data, and there is no
  button; a form with a single text field is also submitted with the Enter key, which a disabled
  field does not receive.\<close>

definition settings_view :: "User \<Rightarrow> SettingsScreen \<Rightarrow> settings_event element list" where
  "settings_view currentUser f = (let readOnly = \<not> user_is_admin currentUser in
     [Heading ''Settings'', Note (''The ledger'' @ [CHR 0x27] @ ''s base currency and its exchange gain/loss account.'')]
     @ (case ss_error f of None \<Rightarrow> [] | Some e \<Rightarrow> [Alert (''Failed to load settings: '' @ e)])
     @ guarded (ss_error f = None \<and> \<not> ss_loaded f) [Note ''Loading...'']
     @ guarded (ss_loaded f)
         ([if readOnly then Datum ''Base Currency'' (ss_baseCurrency f)
           else Field ''base_currency'' ''Base Currency'' False (ss_baseCurrency f) Base_Currency,
           Note (''The functional currency every report is stated in. It can only be changed while the ledger has ''
             @ ''no journal entries.''),
           if readOnly then Datum ''Exchange Gain/Loss Account'' (ss_fxAccountId f)
           else Select ''fx_account'' ''Exchange Gain/Loss Account'' (ss_fxAccountId f)
             ((NONE, ''None'') # account_options (ss_accounts f)) Fx_Account,
           Note (''Where realized exchange differences post when a payment or credit note settles a document booked ''
             @ ''at a different rate.'')]
          @ guarded readOnly [Note ''Only administrators can change these settings.'']
          @ (case ss_saveError f of None \<Rightarrow> [] | Some e \<Rightarrow> [Alert (''Failed to save: '' @ e)])
          @ guarded (ss_saved f) [Note ''Settings saved.'']
          @ guarded (\<not> readOnly) [Button (if ss_saving f then ''Saving...'' else ''Save'') (ss_saving f) Save_Settings,
              Link ''Cancel'' ''/'']))"

end
