(* ===== verification/Master_List.thy ===== *)
theory Master_List
  imports Report_State
begin

text \<open>
  The lists of master data: customers, suppliers, products, organizations, warehouses, tax codes,
  payment terms, exchange rates, the chart of accounts and users
  (\<open>web/src/components/customers.tsx\<close>, \<open>suppliers.tsx\<close>, ..., \<open>users.tsx\<close>). Each loads once when it is
  mounted, like a report whose query never changes, and shows one row and one link per record.
\<close>

definition active_badge :: "bool \<Rightarrow> string" where
  "active_badge a = (if a then ''Active'' else ''Inactive'')"

definition or_dash :: "string option \<Rightarrow> string" where
  "or_dash x = (case x of Some s \<Rightarrow> s | None \<Rightarrow> em_dash)"

text \<open>The frame the list files repeat: title, note, the link to a new record, the error, the state
  of the load, and the table with an Edit link per row.\<close>

definition list_frame :: "string \<times> string \<Rightarrow> string \<times> string \<Rightarrow> string \<Rightarrow> string \<Rightarrow> string list
    \<Rightarrow> ('d \<Rightarrow> (string list \<times> string) list) \<Rightarrow> (unit, 'd) report \<Rightarrow> unit element list" where
  "list_frame title new what emptyMessage headers table s =
     [Heading (fst title), Note (snd title), Link (fst new) (snd new)]
     @ (case rp_error s of None \<Rightarrow> [] | Some e \<Rightarrow> [Alert (''Failed to load '' @ what @ '': '' @ e)])
     @ guarded (rp_error s = None \<and> rp_data s = None) [Note ''Loading...'']
     @ (case rp_data s of
          None \<Rightarrow> []
        | Some d \<Rightarrow>
            (if table d = [] then [Note emptyMessage]
             else Table headers (map fst (table d)) # map (\<lambda>r. Link ''Edit'' (snd r)) (table d)))"

type_synonym ('w, 'd) list_moves = "(unit, 'd) report \<times> (unit \<times> bool) list \<times> ('w, payload, body) browser
    \<Rightarrow> (unit, 'd) report \<times> (unit \<times> bool) list \<times> ('w, payload, body) browser \<Rightarrow> bool"

definition list_moves :: "('w, 'd) call \<Rightarrow> ('w, 'd) list_moves" where
  "list_moves load = report_move (\<lambda>_. load) False (\<lambda>_. None)"

section \<open>Parties\<close>

text \<open>\<open>new Map(organizations.map((o) => [o.id, o]))\<close>\<close>

definition orgs_by_id :: "Organization list \<Rightarrow> int \<Rightarrow> Organization option" where
  "orgs_by_id orgs = map_of (rev (map (\<lambda>o'. (org_id o', o')) orgs))"

definition org_or_id :: "(int \<Rightarrow> Organization option) \<Rightarrow> int \<Rightarrow> string" where
  "org_or_id orgsById k = (case orgsById k of Some o' \<Rightarrow> org_name o' | None \<Rightarrow> ''#'' @ show_int k)"

record CustomerData =
  cda_customers :: "Customer list"
  cda_orgsById :: "int \<Rightarrow> Organization option"

definition load_customers :: "('w, CustomerData) call" where
  "load_customers = map_io (\<lambda>(customers, organizations). \<lparr>cda_customers = customers, cda_orgsById = orgs_by_id organizations\<rparr>)
     (both_io listCustomers listOrganizations)"

definition customers_moves :: "('w, CustomerData) list_moves" where
  "customers_moves = list_moves load_customers"

definition customer_cells :: "CustomerData \<Rightarrow> Customer \<Rightarrow> string list \<times> string" where
  "customer_cells data c =
     ([org_or_id (cda_orgsById data) (cust_organization_id c), or_dash (cust_customer_number c),
       or_dash (cust_currency_code c), or_dash (cust_tax_code c), or_dash (cust_payment_terms_code c),
       or_dash (cust_credit_limit c), active_badge (cust_is_active c)], ''/customers/'' @ show_int (cust_id c))"

definition Customers :: "(unit, CustomerData) report \<Rightarrow> unit element list" where
  "Customers = list_frame (''Customers'', ''Organizations with a customer role, ordered by id.'')
     (''New customer'', ''/customers/new'') ''customers'' ''No customers yet.''
     [''Name'', ''Customer #'', ''Currency'', ''Tax Code'', ''Terms'', ''Credit Limit'', ''Status'']
     (\<lambda>data. map (customer_cells data) (cda_customers data))"

record SupplierData =
  sda_suppliers :: "Supplier list"
  sda_orgsById :: "int \<Rightarrow> Organization option"

definition load_suppliers :: "('w, SupplierData) call" where
  "load_suppliers = map_io (\<lambda>(suppliers, organizations). \<lparr>sda_suppliers = suppliers, sda_orgsById = orgs_by_id organizations\<rparr>)
     (both_io listSuppliers listOrganizations)"

definition suppliers_moves :: "('w, SupplierData) list_moves" where
  "suppliers_moves = list_moves load_suppliers"

definition supplier_cells :: "SupplierData \<Rightarrow> Supplier \<Rightarrow> string list \<times> string" where
  "supplier_cells data s =
     ([org_or_id (sda_orgsById data) (supp_organization_id s), or_dash (supp_supplier_number s),
       or_dash (supp_currency_code s), or_dash (supp_tax_code s), or_dash (supp_payment_terms_code s),
       active_badge (supp_is_active s)], ''/suppliers/'' @ show_int (supp_id s))"

definition Suppliers :: "(unit, SupplierData) report \<Rightarrow> unit element list" where
  "Suppliers = list_frame (''Suppliers'', ''Organizations with a supplier role, ordered by id.'')
     (''New supplier'', ''/suppliers/new'') ''suppliers'' ''No suppliers yet.''
     [''Name'', ''Supplier #'', ''Currency'', ''Tax Code'', ''Terms'', ''Status'']
     (\<lambda>data. map (supplier_cells data) (sda_suppliers data))"

definition organizations_moves :: "('w, Organization list) list_moves" where
  "organizations_moves = list_moves listOrganizations"

definition organization_cells :: "Organization \<Rightarrow> string list \<times> string" where
  "organization_cells o' =
     ([org_name o', or_dash (org_legal_name o'), or_dash (org_tax_id o'), or_dash (org_country_code o'),
       or_dash (org_default_currency o')], ''/organizations/'' @ show_int (org_id o'))"

definition Organizations :: "(unit, Organization list) report \<Rightarrow> unit element list" where
  "Organizations = list_frame (''Organizations'', ''The parties customers and suppliers attach to, ordered by name.'')
     (''New organization'', ''/organizations/new'') ''organizations'' ''No organizations yet.''
     [''Name'', ''Legal Name'', ''Tax ID'', ''Country'', ''Currency''] (map organization_cells)"

section \<open>Catalog and codes\<close>

definition products_moves :: "('w, Product list) list_moves" where
  "products_moves = list_moves listProducts"

definition product_cells :: "Product \<Rightarrow> string list \<times> string" where
  "product_cells p =
     ([prod_sku p, prod_name p, prod_unit_price p, or_dash (prod_currency_code p), or_dash (prod_tax_code p),
       (if prod_track_inventory p then ''Tracked'' else em_dash), active_badge (prod_is_active p)],
      ''/products/'' @ show_int (prod_id p))"

definition Products :: "(unit, Product list) report \<Rightarrow> unit element list" where
  "Products = list_frame (''Products'', ''The product / service catalog, ordered by SKU.'')
     (''New product'', ''/products/new'') ''products'' ''No products yet.''
     [''SKU'', ''Name'', ''Unit Price'', ''Currency'', ''Tax Code'', ''Inventory'', ''Status''] (map product_cells)"

definition warehouses_moves :: "('w, Warehouse list) list_moves" where
  "warehouses_moves = list_moves listWarehouses"

definition warehouse_cells :: "Warehouse \<Rightarrow> string list \<times> string" where
  "warehouse_cells w = ([wh_code w, wh_name w, active_badge (wh_is_active w)], ''/warehouses/'' @ show_int (wh_id w))"

definition Warehouses :: "(unit, Warehouse list) report \<Rightarrow> unit element list" where
  "Warehouses = list_frame (''Warehouses'', ''The stock locations movements happen against, ordered by code.'')
     (''New warehouse'', ''/warehouses/new'') ''warehouses'' ''No warehouses yet.''
     [''Code'', ''Name'', ''Status''] (map warehouse_cells)"

definition tax_codes_moves :: "('w, TaxCode list) list_moves" where
  "tax_codes_moves = list_moves listTaxCodes"

definition tax_code_cells :: "TaxCode \<Rightarrow> string list \<times> string" where
  "tax_code_cells t = ([tc_code t, tc_name t, tc_rate t, active_badge (tc_is_active t)],
     ''/tax-codes/'' @ encodeURIComponent (tc_code t))"

definition TaxCodes :: "(unit, TaxCode list) report \<Rightarrow> unit element list" where
  "TaxCodes = list_frame (''Tax Codes'', ''The tax rates document lines can carry, ordered by code.'')
     (''New tax code'', ''/tax-codes/new'') ''tax codes'' ''No tax codes yet.''
     [''Code'', ''Name'', ''Rate %'', ''Status''] (map tax_code_cells)"

definition payment_terms_moves :: "('w, PaymentTerm list) list_moves" where
  "payment_terms_moves = list_moves listPaymentTerms"

definition payment_term_cells :: "PaymentTerm \<Rightarrow> string list \<times> string" where
  "payment_term_cells t = ([pt_code t, pt_name t, show_int (pt_due_days t)],
     ''/payment-terms/'' @ encodeURIComponent (pt_code t))"

definition PaymentTerms :: "(unit, PaymentTerm list) report \<Rightarrow> unit element list" where
  "PaymentTerms = list_frame (''Payment Terms'', ''The payment terms customers and suppliers can carry, ordered by due days.'')
     (''New payment term'', ''/payment-terms/new'') ''payment terms'' ''No payment terms yet.''
     [''Code'', ''Name'', ''Due Days''] (map payment_term_cells)"

section \<open>Ledger and users\<close>

definition load_rates :: "('w, ExchangeRate list \<times> Settings) call" where
  "load_rates = both_io listExchangeRates getSettings"

definition rates_moves :: "('w, ExchangeRate list \<times> Settings) list_moves" where
  "rates_moves = list_moves load_rates"

definition rate_cells :: "ExchangeRate \<Rightarrow> string list \<times> string" where
  "rate_cells r = ([xr_currency_code r, xr_rate_date r, xr_rate r],
     ''/exchange-rates/'' @ encodeURIComponent (xr_currency_code r) @ ''/'' @ encodeURIComponent (xr_rate_date r))"

definition ExchangeRates :: "(unit, ExchangeRate list \<times> Settings) report \<Rightarrow> unit element list" where
  "ExchangeRates s = list_frame (''Exchange Rates'',
       (case rp_data s of
          Some (_, settings) \<Rightarrow> ''Rates into the '' @ set_base_currency settings
            @ '' base currency. A document posts at the latest rate on or before its date.''
        | None \<Rightarrow> ''Rates into the base currency, used when posting foreign-currency documents.''))
     (''New rate'', ''/exchange-rates/new'') ''exchange rates''
     ''No exchange rates yet. Documents in the base currency need none.''
     [''Currency'', ''Date'',
      ''Rate'' @ (case rp_data s of Some (_, settings) \<Rightarrow> '' (-> '' @ set_base_currency settings @ '')'' | None \<Rightarrow> [])]
     (\<lambda>(rates, _). map rate_cells rates) s"

definition accounts_moves :: "('w, Account list) list_moves" where
  "accounts_moves = list_moves listAccounts"

definition account_cells :: "Account \<Rightarrow> string list \<times> string" where
  "account_cells a =
     ([acc_code a, acc_name a, acc_account_type a, or_dash (acc_currency_code a),
       (if acc_is_postable a then ''Yes'' else ''No''), active_badge (acc_is_active a)], ''/accounts/'' @ show_int (acc_id a))"

definition ChartOfAccounts :: "(unit, Account list) report \<Rightarrow> unit element list" where
  "ChartOfAccounts = list_frame (''Chart of Accounts'', ''The general-ledger accounts, ordered by code.'')
     (''New account'', ''/accounts/new'') ''accounts'' ''No accounts yet.''
     [''Code'', ''Name'', ''Type'', ''Currency'', ''Postable'', ''Status''] (map account_cells)"

definition users_moves :: "('w, UserRecord list) list_moves" where
  "users_moves = list_moves listUsers"

definition user_cells :: "UserRecord \<Rightarrow> string list \<times> string" where
  "user_cells u =
     ([ur_email u, ur_full_name u, (if ur_is_admin u then ''Admin'' else ''User''), active_badge (ur_is_active u)],
      ''/users/'' @ show_int (ur_id u))"

definition Users :: "(unit, UserRecord list) report \<Rightarrow> unit element list" where
  "Users = list_frame (''Users'',
       ''Who can sign in, ordered by email. Deactivate a user to revoke access; there is no delete.'')
     (''New user'', ''/users/new'') ''users'' ''No users yet.''
     [''Email'', ''Name'', ''Role'', ''Status''] (map user_cells)"

end
