(* ===== verification/Master_Data.thy ===== *)
theory Master_Data
  imports User_Form Master_List
begin

text \<open>
  What holds of all forms of master data: a submission makes one request, and none while the fields
  have a problem; opening a record and saving it sends back the same record; every id a form sends
  was one of its options; an account is never its own parent; passwords are never sent short; and
  settings only change for an administrator.
\<close>

section \<open>One request per submission\<close>

text \<open>What the creating calls of records with keys of their own read from the reply.\<close>

definition key_content :: "body content \<Rightarrow> bool" where
  "key_content c \<longleftrightarrow> (case c of JSON (Basic (Code_Body k)) \<Rightarrow> True | _ \<Rightarrow> False)"

definition rate_content :: "body content \<Rightarrow> bool" where
  "rate_content c \<longleftrightarrow> (case c of JSON (Basic (Rate_Key_Body k)) \<Rightarrow> True | _ \<Rightarrow> False)"

lemma saves_key [saving_calls]:
  "saves key_content (post (basic_as is_Code_Body the_code) path p) (body_request ''POST'' path p)"
  by (rule saves_post) (auto simp: key_content_def basic_as_def split: content.splits body.splits basic_body.splits)

lemma saves_rate [saving_calls]:
  "saves rate_content (post (basic_as is_Rate_Key_Body the_rate_key) path p) (body_request ''POST'' path p)"
  by (rule saves_post) (auto simp: rate_content_def basic_as_def split: content.splits body.splits basic_body.splits)

text \<open>The contract of a submission: what is wrong is shown and sends nothing; otherwise one request
  is made, what was typed is kept, and the form leaves for its list or shows why it could not; only a
  reply outside the contract of the server is left open.\<close>

definition submits_once :: "(('v, 'm) master_form_scheme \<times> ('w, payload, body) browser
      \<Rightarrow> ('v, 'm) master_form_scheme \<times> ('w, payload, body) browser)
    \<Rightarrow> ('v \<Rightarrow> string option) \<Rightarrow> ('v \<Rightarrow> payload request) \<Rightarrow> (body content \<Rightarrow> bool) \<Rightarrow> string \<Rightarrow> bool" where
  "submits_once submit problem rq accepts target \<longleftrightarrow> (\<forall>f b v. mf_form f = Some v \<longrightarrow>
     (\<forall>m. problem v = Some m \<longrightarrow> submit (f, b) = (f\<lparr>mf_saveError := Some m\<rparr>, b))
     \<and> (problem v = None \<longrightarrow>
          snd (submit (f, b)) = after_exchange (rq v) b \<and> mf_form (fst (submit (f, b))) = Some v
        \<and> (case failed_with accepts (reply_to (rq v) b) of
             None \<Rightarrow> mf_navigated (fst (submit (f, b))) = Some target \<and> mf_saveError (fst (submit (f, b))) = None
           | Some e \<Rightarrow> e = Shape_Error \<or> mf_navigated (fst (submit (f, b))) = mf_navigated f
               \<and> \<not> mf_saving (fst (submit (f, b))) \<and> mf_saveError (fst (submit (f, b))) = Some (save_message e))))"

text \<open>The interface between the frame of the forms and the calls they make.\<close>

locale saved_form =
  fixes action :: "'v \<Rightarrow> ('w, 'a) call"
    and rq :: "'v \<Rightarrow> payload request"
    and accepts :: "body content \<Rightarrow> bool"
  assumes saves: "saves accepts (action v) (rq v)"
begin

lemma submits: "submits_once (submit_form problem action target) problem rq accepts target"
  unfolding submits_once_def
proof (intro allI impI conjI)
  fix f :: "('v, 'm) master_form_scheme" and b v assume v: "mf_form f = Some v"
  show "submit_form problem action target (f, b) = (f\<lparr>mf_saveError := Some m\<rparr>, b)" if "problem v = Some m" for m
    using v that by (simp add: submit_form_def)
  assume p: "problem v = None"
  let ?r = "submit_form problem action target (f, b)"
  have r: "?r = save_form (action v) target (f, b)" using v p by (simp add: submit_form_def)
  obtain res b' where a: "action v b = (res, b')" by (cases "action v b")
  note law = saves [of v, unfolded saves_def, THEN spec, of b, unfolded a fst_conv snd_conv]
  show "snd ?r = after_exchange (rq v) b" "mf_form (fst ?r) = Some v"
    using law v by (auto simp: r save_form_def a Let_def split: sum.split)
  show "case failed_with accepts (reply_to (rq v) b) of
      None \<Rightarrow> mf_navigated (fst ?r) = Some target \<and> mf_saveError (fst ?r) = None
    | Some e \<Rightarrow> e = Shape_Error \<or> mf_navigated (fst ?r) = mf_navigated f \<and> \<not> mf_saving (fst ?r)
        \<and> mf_saveError (fst ?r) = Some (save_message e)"
    using law by (cases "failed_with accepts (reply_to (rq v) b)") (auto simp: r save_form_def a Let_def)
qed

end

text \<open>The request of each form: a new record is posted to its list, an existing one is put at its key.\<close>

definition record_request :: "string \<Rightarrow> string option \<Rightarrow> payload \<Rightarrow> payload request" where
  "record_request path route p = (case route of
       None \<Rightarrow> body_request ''POST'' path p
     | Some ident \<Rightarrow> body_request ''PUT'' (path @ ''/'' @ show_int (id_of ident)) p)"

definition coded_request :: "string \<Rightarrow> string option \<Rightarrow> payload \<Rightarrow> payload request" where
  "coded_request path route p = (case route of
       None \<Rightarrow> body_request ''POST'' path p
     | Some code \<Rightarrow> body_request ''PUT'' (path @ ''/'' @ encodeURIComponent code) p)"

definition rate_request :: "(string \<times> string) option \<Rightarrow> payload \<Rightarrow> payload request" where
  "rate_request route p = (case route of
       None \<Rightarrow> body_request ''POST'' ''/exchange-rates'' p
     | Some (currency, date) \<Rightarrow> body_request ''PUT''
         (''/exchange-rates/'' @ encodeURIComponent currency @ ''/'' @ encodeURIComponent date) p)"

definition user_payload :: "string option \<Rightarrow> UserFields \<Rightarrow> payload" where
  "user_payload route v = Master_Payload (if route = None then UserCreate_Payload (user_create v) else UserUpdate_Payload (user_update v))"

lemma appended_slash: "(''/'' @ s) @ ''/'' @ t = ''/'' @ s @ ''/'' @ t"
  by simp

lemmas master_saves = save_warehouse_def save_organization_def save_account_def save_product_def save_customer_def
  save_supplier_def save_user_def save_term_def save_tax_code_def save_rate_def
  createWarehouse_def updateWarehouse_def createOrganization_def updateOrganization_def createAccount_def updateAccount_def
  createProduct_def updateProduct_def createCustomer_def updateCustomer_def createSupplier_def updateSupplier_def
  createUser_def updateUser_def createPaymentTerm_def updatePaymentTerm_def createTaxCode_def updateTaxCode_def
  createExchangeRate_def updateExchangeRate_def

lemma record_saves:
  "saves (accepted k id_content) (save_warehouse k w) (record_request ''/warehouses'' k (Master_Payload (WarehouseInput_Payload w)))"
  "saves (accepted k id_content) (save_organization k g) (record_request ''/organizations'' k (Master_Payload (OrganizationInput_Payload g)))"
  "saves (accepted k id_content) (save_account k a) (record_request ''/accounts'' k (Master_Payload (AccountInput_Payload a)))"
  "saves (accepted k id_content) (save_product k p) (record_request ''/products'' k (Master_Payload (ProductInput_Payload p)))"
  "saves (accepted k id_content) (save_customer k c) (record_request ''/customers'' k (Master_Payload (CustomerInput_Payload c)))"
  "saves (accepted k id_content) (save_supplier k s) (record_request ''/suppliers'' k (Master_Payload (SupplierInput_Payload s)))"
  "saves (accepted k id_content) (save_user k u) (record_request ''/users'' k (user_payload k u))"
  "saves (accepted k' key_content) (save_term k' t) (coded_request ''/payment-terms'' k' (Master_Payload (PaymentTermInput_Payload t)))"
  "saves (accepted k' key_content) (save_tax_code k' x) (coded_request ''/tax-codes'' k' (Master_Payload (TaxCodeInput_Payload x)))"
  "saves (accepted q rate_content) (save_rate q r) (rate_request q (Ledger_Payload (ExchangeRateInput_Payload r)))"
  unfolding master_saves record_request_def coded_request_def rate_request_def user_payload_def
  by (auto intro!: saving_calls split: option.split)

interpretation warehouse_form: saved_form "\<lambda>v. save_warehouse k (warehouse_input v)"
    "\<lambda>v. record_request ''/warehouses'' k (Master_Payload (WarehouseInput_Payload (warehouse_input v)))" "accepted k id_content" for k
  by unfold_locales (rule record_saves)

interpretation organization_form: saved_form "\<lambda>v. save_organization k (organization_input v)"
    "\<lambda>v. record_request ''/organizations'' k (Master_Payload (OrganizationInput_Payload (organization_input v)))" "accepted k id_content" for k
  by unfold_locales (rule record_saves)

interpretation account_form: saved_form "\<lambda>v. save_account k (account_input v)"
    "\<lambda>v. record_request ''/accounts'' k (Master_Payload (AccountInput_Payload (account_input v)))" "accepted k id_content" for k
  by unfold_locales (rule record_saves)

interpretation product_form: saved_form "\<lambda>v. save_product k (product_input v)"
    "\<lambda>v. record_request ''/products'' k (Master_Payload (ProductInput_Payload (product_input v)))" "accepted k id_content" for k
  by unfold_locales (rule record_saves)

interpretation customer_form: saved_form "\<lambda>v. save_customer k (customer_input v)"
    "\<lambda>v. record_request ''/customers'' k (Master_Payload (CustomerInput_Payload (customer_input v)))" "accepted k id_content" for k
  by unfold_locales (rule record_saves)

interpretation supplier_form: saved_form "\<lambda>v. save_supplier k (supplier_input v)"
    "\<lambda>v. record_request ''/suppliers'' k (Master_Payload (SupplierInput_Payload (supplier_input v)))" "accepted k id_content" for k
  by unfold_locales (rule record_saves)

interpretation user_form: saved_form "save_user k" "\<lambda>v. record_request ''/users'' k (user_payload k v)" "accepted k id_content" for k
  by unfold_locales (rule record_saves)

interpretation term_form: saved_form "\<lambda>v. save_term k (term_input v)"
    "\<lambda>v. coded_request ''/payment-terms'' k (Master_Payload (PaymentTermInput_Payload (term_input v)))" "accepted k key_content" for k
  by unfold_locales (rule record_saves)

interpretation tax_code_form: saved_form "\<lambda>v. save_tax_code k (tax_code_input v)"
    "\<lambda>v. coded_request ''/tax-codes'' k (Master_Payload (TaxCodeInput_Payload (tax_code_input v)))" "accepted k key_content" for k
  by unfold_locales (rule record_saves)

interpretation rate_form: saved_form "\<lambda>v. save_rate k (rate_input v)"
    "\<lambda>v. rate_request k (Ledger_Payload (ExchangeRateInput_Payload (rate_input v)))" "accepted k rate_content" for k
  by unfold_locales (rule record_saves)

text \<open>C36. Every form of master data keeps one contract, in create mode and in edit mode: fields with a
  problem are not sent, the problem is shown; otherwise exactly one request is made, a POST to the
  list or a PUT at the key of the record, with the key escaped; and what was typed stays in the form.
  What follows is settled for every reply. The form leaves for its list when the status is good and,
  for a new record, the body is the key of it; an update is done whatever the body, even none. In
  every other case, no response, a bad status or a body that is no JSON where one is read, it stays,
  shows why and can be submitted again. A new record answered with JSON of another shape than its key
  is outside the contract of the server.\<close>

theorem master_submits:
  "submits_once (submit_warehouse k) warehouse_problem
     (\<lambda>v. record_request ''/warehouses'' k (Master_Payload (WarehouseInput_Payload (warehouse_input v)))) (accepted k id_content) ''/warehouses''
   \<and> submits_once (submit_organization k) organization_problem
     (\<lambda>v. record_request ''/organizations'' k (Master_Payload (OrganizationInput_Payload (organization_input v)))) (accepted k id_content) ''/organizations''
   \<and> submits_once (submit_account k) account_problem
     (\<lambda>v. record_request ''/accounts'' k (Master_Payload (AccountInput_Payload (account_input v)))) (accepted k id_content) ''/accounts''
   \<and> submits_once (submit_product k) product_problem
     (\<lambda>v. record_request ''/products'' k (Master_Payload (ProductInput_Payload (product_input v)))) (accepted k id_content) ''/products''
   \<and> submits_once (submit_customer k) (customer_problem (k = None))
     (\<lambda>v. record_request ''/customers'' k (Master_Payload (CustomerInput_Payload (customer_input v)))) (accepted k id_content) ''/customers''
   \<and> submits_once (submit_supplier k) (supplier_problem (k = None))
     (\<lambda>v. record_request ''/suppliers'' k (Master_Payload (SupplierInput_Payload (supplier_input v)))) (accepted k id_content) ''/suppliers''
   \<and> submits_once (submit_user k) (user_problem (k = None))
     (\<lambda>v. record_request ''/users'' k (user_payload k v)) (accepted k id_content) ''/users''
   \<and> submits_once (submit_term k) term_problem
     (\<lambda>v. coded_request ''/payment-terms'' k (Master_Payload (PaymentTermInput_Payload (term_input v)))) (accepted k key_content) ''/payment-terms''
   \<and> submits_once (submit_tax_code k) tax_code_problem
     (\<lambda>v. coded_request ''/tax-codes'' k (Master_Payload (TaxCodeInput_Payload (tax_code_input v)))) (accepted k key_content) ''/tax-codes''
   \<and> submits_once (submit_rate q) rate_problem
     (\<lambda>v. rate_request q (Ledger_Payload (ExchangeRateInput_Payload (rate_input v)))) (accepted q rate_content) ''/exchange-rates''"
  unfolding submit_warehouse_def submit_organization_def submit_account_def submit_product_def submit_customer_def
    submit_supplier_def submit_user_def submit_term_def submit_tax_code_def submit_rate_def
  by (intro conjI warehouse_form.submits organization_form.submits account_form.submits product_form.submits
      customer_form.submits supplier_form.submits user_form.submits term_form.submits tax_code_form.submits rate_form.submits)

definition filled_warehouse :: "WarehouseFields master_form" where
  "filled_warehouse = set_form \<lparr>whf_code = ''MAIN'', whf_name = ''Main'', whf_addressId = None, whf_isActive = True\<rparr> warehouse_init"

theorem master_submits_witness:
  "mf_navigated (fst (submit_warehouse (Some ''7'') (filled_warehouse, no_content_browser))) = Some ''/warehouses''
   \<and> mf_saveError (fst (submit_warehouse None (filled_warehouse, no_content_browser)))
      = Some (save_message (Syntax_Error ''Unexpected end of JSON input''))
   \<and> mf_saveError (fst (submit_warehouse (Some ''7'') (filled_warehouse, refusing 409 ''taken''))) = Some ''taken''"
proof -
  let ?v = "\<lparr>whf_code = ''MAIN'', whf_name = ''Main'', whf_addressId = None, whf_isActive = True\<rparr>"
  have v: "mf_form filled_warehouse = Some ?v" "warehouse_problem ?v = None"
    by (simp add: filled_warehouse_def set_form_def) code_simp
  have "submits_once (submit_warehouse k :: WarehouseFields master_form \<times> (unit, payload, body) browser \<Rightarrow> _) warehouse_problem
     (\<lambda>v. record_request ''/warehouses'' k (Master_Payload (WarehouseInput_Payload (warehouse_input v)))) (accepted k id_content)
     ''/warehouses''" for k
    by (rule conjunct1 [OF master_submits])
  note m = this [unfolded submits_once_def, rule_format, OF v(1), THEN conjunct2, rule_format, OF v(2), THEN conjunct2, THEN conjunct2]
  have c: "ok 204" "\<not> ok 409" "\<not> id_content (No_JSON m)" for m by (simp_all add: ok_def id_content_def)
  from m [of "Some ''7''" no_content_browser] m [of None no_content_browser] m [of "Some ''7''" "refusing 409 ''taken''"]
  show ?thesis by (simp add: c)
qed

section \<open>Opening and saving changes nothing\<close>

text \<open>Texts as the server keeps them: without blanks around them, codes in capitals.\<close>

definition kept :: "string \<Rightarrow> bool" where
  "kept s \<longleftrightarrow> s \<noteq> [] \<and> trim s = s"

definition capital :: "string \<Rightarrow> bool" where
  "capital s \<longleftrightarrow> kept s \<and> toUpperCase s = s"

definition capital_or_null :: "string option \<Rightarrow> bool" where
  "capital_or_null x \<longleftrightarrow> (case x of None \<Rightarrow> True | Some s \<Rightarrow> capital s)"

lemma kept_simps [simp]: "kept s \<Longrightarrow> trim s = s" "kept s \<Longrightarrow> s \<noteq> []"
  by (simp_all add: kept_def)

lemma capital_simps [simp]: "capital s \<Longrightarrow> toUpperCase s = s" "capital s \<Longrightarrow> trim s = s" "capital s \<Longrightarrow> s \<noteq> []"
  by (simp_all add: capital_def)

lemma code_or_none_back [simp]: "capital_or_null x \<Longrightarrow> code_or_none (or_empty x) = x"
proof -
  have "toUpperCase [] = []" by (simp add: toUpperCase_def)
  then show "capital_or_null x \<Longrightarrow> code_or_none (or_empty x) = x"
    by (cases x) (simp_all add: code_or_none_def or_empty_def capital_or_null_def)
qed

text \<open>The body a record stands for, and the records a form can hold.\<close>

definition warehouse_body :: "Warehouse \<Rightarrow> WarehouseInput" where
  "warehouse_body w = \<lparr>whi_code = wh_code w, whi_name = wh_name w, whi_address_id = wh_address_id w, whi_is_active = wh_is_active w\<rparr>"

definition organization_body :: "Organization \<Rightarrow> OrganizationInput" where
  "organization_body g = \<lparr>orgi_name = org_name g, orgi_legal_name = org_legal_name g, orgi_tax_id = org_tax_id g,
     orgi_country_code = org_country_code g, orgi_default_currency = org_default_currency g, orgi_email = org_email g,
     orgi_is_self = org_is_self g\<rparr>"

definition account_body :: "Account \<Rightarrow> AccountInput" where
  "account_body a = \<lparr>acci_code = acc_code a, acci_name = acc_name a, acci_account_type = acc_account_type a,
     acci_parent_id = acc_parent_id a, acci_currency_code = acc_currency_code a, acci_is_postable = acc_is_postable a,
     acci_is_active = acc_is_active a, acci_is_cash = acc_is_cash a, acci_cash_flow_activity = acc_cash_flow_activity a\<rparr>"

definition product_body :: "Product \<Rightarrow> ProductInput" where
  "product_body p = \<lparr>prodi_sku = prod_sku p, prodi_name = prod_name p, prodi_description = prod_description p,
     prodi_unit_price = prod_unit_price p, prodi_currency_code = prod_currency_code p,
     prodi_revenue_account_id = prod_revenue_account_id p, prodi_tax_code = prod_tax_code p,
     prodi_track_inventory = prod_track_inventory p, prodi_inventory_account_id = prod_inventory_account_id p,
     prodi_cogs_account_id = prod_cogs_account_id p, prodi_is_active = prod_is_active p\<rparr>"

definition customer_body :: "Customer \<Rightarrow> CustomerInput" where
  "customer_body c = \<lparr>custi_organization_id = cust_organization_id c, custi_customer_number = cust_customer_number c,
     custi_ar_account_id = cust_ar_account_id c, custi_payment_terms_code = cust_payment_terms_code c,
     custi_currency_code = cust_currency_code c, custi_tax_code = cust_tax_code c, custi_credit_limit = cust_credit_limit c,
     custi_is_active = cust_is_active c\<rparr>"

definition supplier_body :: "Supplier \<Rightarrow> SupplierInput" where
  "supplier_body s = \<lparr>suppi_organization_id = supp_organization_id s, suppi_supplier_number = supp_supplier_number s,
     suppi_ap_account_id = supp_ap_account_id s, suppi_payment_terms_code = supp_payment_terms_code s,
     suppi_currency_code = supp_currency_code s, suppi_tax_code = supp_tax_code s, suppi_is_active = supp_is_active s\<rparr>"

definition stored_warehouse :: "Warehouse \<Rightarrow> bool" where
  "stored_warehouse w \<longleftrightarrow> capital (wh_code w) \<and> kept (wh_name w)"

definition stored_organization :: "Organization \<Rightarrow> bool" where
  "stored_organization g \<longleftrightarrow> kept (org_name g) \<and> list_all clean [org_legal_name g, org_tax_id g, org_email g]
     \<and> capital_or_null (org_country_code g) \<and> capital_or_null (org_default_currency g)"

definition stored_account :: "Account \<Rightarrow> bool" where
  "stored_account a \<longleftrightarrow> kept (acc_code a) \<and> kept (acc_name a) \<and> acc_account_type a \<in> fst ` set ACCOUNT_TYPES
     \<and> capital_or_null (acc_currency_code a) \<and> (acc_is_cash a \<longrightarrow> acc_account_type a = ''asset'')"

definition stored_product :: "Product \<Rightarrow> bool" where
  "stored_product p \<longleftrightarrow> kept (prod_sku p) \<and> kept (prod_name p) \<and> kept (prod_unit_price p)
     \<and> clean (prod_description p) \<and> capital_or_null (prod_currency_code p) \<and> prod_tax_code p \<noteq> Some NONE"

definition stored_customer :: "Customer \<Rightarrow> bool" where
  "stored_customer c \<longleftrightarrow> clean (cust_customer_number c) \<and> clean (cust_credit_limit c)
     \<and> capital_or_null (cust_currency_code c) \<and> cust_payment_terms_code c \<noteq> Some NONE \<and> cust_tax_code c \<noteq> Some NONE"

definition stored_supplier :: "Supplier \<Rightarrow> bool" where
  "stored_supplier s \<longleftrightarrow> clean (supp_supplier_number s)
     \<and> capital_or_null (supp_currency_code s) \<and> supp_payment_terms_code s \<noteq> Some NONE \<and> supp_tax_code s \<noteq> Some NONE"

text \<open>C37. Opening a record in its form and saving it at once sends back the same record: warehouses
  with the address the form does not show, organizations, accounts with the cash flag only an asset
  may have, products with the accounts of an inventory that is not tracked, customers and suppliers.
  No such record has a problem that would stop it.\<close>

theorem master_edit_roundtrip:
  assumes "stored_warehouse w" "stored_organization g" "stored_account a" "stored_product p" "stored_customer c" "stored_supplier s"
  shows "warehouse_problem (existing_warehouse w) = None \<and> warehouse_input (existing_warehouse w) = warehouse_body w
    \<and> organization_problem (existing_organization g) = None \<and> organization_input (existing_organization g) = organization_body g
    \<and> account_problem (existing_account a) = None \<and> account_input (existing_account a) = account_body a
    \<and> product_problem (existing_product p) = None \<and> product_input (existing_product p) = product_body p
    \<and> customer_problem False (existing_customer c) = None \<and> customer_input (existing_customer c) = customer_body c
    \<and> supplier_problem False (existing_supplier s) = None \<and> supplier_input (existing_supplier s) = supplier_body s"
proof (intro conjI)
  show "warehouse_problem (existing_warehouse w) = None" "warehouse_input (existing_warehouse w) = warehouse_body w"
    using assms(1) by (simp_all add: stored_warehouse_def warehouse_problem_def warehouse_input_def existing_warehouse_def warehouse_body_def)
  show "organization_problem (existing_organization g) = None" "organization_input (existing_organization g) = organization_body g"
    using assms(2) by (simp_all add: stored_organization_def organization_problem_def organization_input_def
        existing_organization_def organization_body_def)
  have "acc_account_type a \<noteq> []" using assms(3) by (auto simp: stored_account_def ACCOUNT_TYPES_def)
  with assms(3) show "account_problem (existing_account a) = None" "account_input (existing_account a) = account_body a"
    by (auto simp: stored_account_def account_problem_def account_input_def existing_account_def account_body_def)
  show "product_problem (existing_product p) = None" "product_input (existing_product p) = product_body p"
    using assms(4) by (simp_all add: stored_product_def product_problem_def product_input_def existing_product_def product_body_def)
  show "customer_problem False (existing_customer c) = None" "customer_input (existing_customer c) = customer_body c"
    using assms(5) by (simp_all add: stored_customer_def customer_problem_def customer_input_def existing_customer_def customer_body_def)
  show "supplier_problem False (existing_supplier s) = None" "supplier_input (existing_supplier s) = supplier_body s"
    using assms(6) by (simp_all add: stored_supplier_def supplier_problem_def supplier_input_def existing_supplier_def supplier_body_def)
qed

definition sample_product :: Product where
  "sample_product = \<lparr>prod_id = 4, prod_sku = ''NUT'', prod_name = ''Nut'', prod_description = None, prod_unit_price = ''2.50'',
     prod_currency_code = Some ''EUR'', prod_revenue_account_id = Some 7, prod_tax_code = None, prod_track_inventory = False,
     prod_inventory_account_id = Some 8, prod_cogs_account_id = None, prod_is_active = True\<rparr>"

theorem master_edit_roundtrip_witness:
  "product_input (existing_product sample_product) = product_body sample_product
   \<and> prodi_inventory_account_id (product_input (existing_product sample_product)) = Some 8"
proof -
  let ?w = "\<lparr>wh_id = 1, wh_code = ''MAIN'', wh_name = ''Main'', wh_address_id = Some 2, wh_is_active = True\<rparr>"
  let ?g = "\<lparr>org_id = 1, org_name = ''Acme'', org_legal_name = None, org_tax_id = Some ''X1'', org_country_code = Some ''US'',
      org_default_currency = None, org_email = None, org_is_self = False\<rparr>"
  let ?a = "\<lparr>acc_id = 7, acc_code = ''1000'', acc_name = ''Cash'', acc_account_type = ''asset'', acc_parent_id = None,
      acc_currency_code = None, acc_is_postable = True, acc_is_active = True, acc_is_cash = True,
      acc_cash_flow_activity = ''operating''\<rparr>"
  let ?c = "\<lparr>cust_id = 1, cust_organization_id = 1, cust_customer_number = None, cust_ar_account_id = Some 7,
      cust_payment_terms_code = None, cust_currency_code = None, cust_tax_code = None, cust_credit_limit = None, cust_is_active = True\<rparr>"
  let ?s = "\<lparr>supp_id = 1, supp_organization_id = 1, supp_supplier_number = None, supp_ap_account_id = None,
      supp_payment_terms_code = None, supp_currency_code = None, supp_tax_code = None, supp_is_active = True\<rparr>"
  have "stored_warehouse ?w" "stored_organization ?g" "stored_account ?a" "stored_product sample_product"
    "stored_customer ?c" "stored_supplier ?s" by code_simp+
  from master_edit_roundtrip [OF this] have "product_input (existing_product sample_product) = product_body sample_product" by blast
  then show ?thesis by (simp add: product_body_def sample_product_def)
qed

section \<open>The moves of a form\<close>

text \<open>A form moves when an effect of it has run, cancelled or not at each of its awaits, and when the
  user does what the screen offers.\<close>

inductive master_move :: "(bool \<Rightarrow> bool \<Rightarrow> 'f \<times> 's \<Rightarrow> 'f \<times> 's) \<Rightarrow> ('f \<Rightarrow> 'e element list) \<Rightarrow> ('e \<Rightarrow> 'f \<times> 's \<Rightarrow> 'f \<times> 's)
    \<Rightarrow> 'f \<times> 's \<Rightarrow> 'f \<times> 's \<Rightarrow> bool"
  for effect view step where
  effect: "master_move effect view step x (effect c1 c2 x)"
| user: "offers (view f) e \<Longrightarrow> master_move effect view step (f, b) (step e (f, b))"

definition opened_form :: "'f \<Rightarrow> 'f \<times> ('w, 'p, 'b) browser \<Rightarrow> bool" where
  "opened_form f0 x \<longleftrightarrow> fst x = f0 \<and> sent (snd x) = []"

lemma form_frame_offers:
  "offers (form_frame t back creating blocked inputs extra f) e
    \<longleftrightarrow> (\<exists>v. mf_form f = Some v \<and> (offers (inputs v) e \<or> (e = Save_Form \<and> \<not> mf_saving f \<and> \<not> blocked) \<or> offers extra e))"
  unfolding form_frame_def by (auto split: option.splits)

lemma set_form_form [simp]: "mf_form (set_form v f) = Some v"
  by (simp add: set_form_def)

lemma save_form_keeps [simp]: "mf_form (fst (save_form action target x)) = mf_form (fst x)"
  by (simp add: save_form_def Let_def split: prod.split sum.split)

lemma submit_form_keeps [simp]: "mf_form (fst (submit_form problem action target x)) = mf_form (fst x)"
  by (cases x) (simp add: submit_form_def split: option.split)

text \<open>A predicate on the fields that the effect establishes and every offered change keeps.\<close>

locale typed_form =
  fixes effect :: "bool \<Rightarrow> bool \<Rightarrow> ('v, 'm) master_form_scheme \<times> 's \<Rightarrow> ('v, 'm) master_form_scheme \<times> 's"
    and view :: "('v, 'm) master_form_scheme \<Rightarrow> ('v, 'x) form_event element list"
    and step :: "('v, 'x) form_event \<Rightarrow> ('v, 'm) master_form_scheme \<times> 's \<Rightarrow> ('v, 'm) master_form_scheme \<times> 's"
    and typed :: "'v \<Rightarrow> bool"
  assumes loads_typed: "mf_form (fst (effect c1 c2 (f, b))) = mf_form f \<or> (\<exists>v. mf_form (fst (effect c1 c2 (f, b))) = Some v \<and> typed v)"
    and offers_typed: "mf_form f = Some v \<Longrightarrow> typed v \<Longrightarrow> offers (view f) (Set_Form v') \<Longrightarrow> typed v'"
    and needs_form: "offers (view f) e \<Longrightarrow> mf_form f \<noteq> None"
    and sets: "mf_form (fst (step (Set_Form v) (f, b))) = Some v"
    and keeps_save: "mf_form (fst (step Save_Form (f, b))) = mf_form f"
    and keeps_other: "mf_form (fst (step (Other x) (f, b))) = mf_form f"
begin

definition well_typed :: "('v, 'm) master_form_scheme \<times> 's \<Rightarrow> bool" where
  "well_typed x \<longleftrightarrow> (\<forall>v. mf_form (fst x) = Some v \<longrightarrow> typed v)"

lemma well_typed_move:
  assumes "well_typed x" "master_move effect view step x y"
  shows "well_typed y"
  using assms(2)
proof cases
  case (effect c1 c2)
  then show ?thesis using assms(1) loads_typed [of c1 c2 "fst x" "snd x"] by (auto simp: well_typed_def)
next
  case (user f e b)
  then obtain v where v: "mf_form f = Some v" using needs_form by blast
  show ?thesis
  proof (cases e)
    case (Set_Form v')
    then show ?thesis using user assms(1) v offers_typed [of f v v'] sets [of v' f b] by (simp add: well_typed_def)
  next
    case Save_Form
    then show ?thesis using user assms(1) keeps_save [of f b] by (simp add: well_typed_def)
  next
    case (Other x)
    then show ?thesis using user assms(1) keeps_other [of x f b] by (simp add: well_typed_def)
  qed
qed

end

sublocale typed_form \<subseteq> typed: invariant "\<lambda>x. mf_form (fst x) = None" "master_move effect view step" well_typed
  by unfold_locales (simp_all add: well_typed_def well_typed_move [unfolded well_typed_def])

lemma opened_no_form:
  assumes "reachable (opened_form f0) move x" "mf_form f0 = None"
  shows "reachable (\<lambda>x. mf_form (fst x) = None) move x"
  using assms(1) by (rule reachable_weaken) (use assms(2) in \<open>simp add: opened_form_def\<close>)

text \<open>The values the selects of ids hold.\<close>

definition id_or_empty :: "string \<Rightarrow> bool" where
  "id_or_empty v \<longleftrightarrow> v = [] \<or> (\<exists>i. v = show_int i)"

lemma account_option_value: "(v, t) \<in> set ((NONE, l) # account_options accounts) \<Longrightarrow> id_value v"
  by (auto simp: account_options_def)

definition typed_tax_code :: "TaxCodeFields \<Rightarrow> bool" where
  "typed_tax_code v \<longleftrightarrow> id_value (tcf_taxAccountId v)"

definition typed_account :: "AccountFields \<Rightarrow> bool" where
  "typed_account v \<longleftrightarrow> id_value (acf_parentId v)"

definition typed_product :: "ProductFields \<Rightarrow> bool" where
  "typed_product v \<longleftrightarrow> id_value (prf_revenueAccountId v) \<and> id_value (prf_inventoryAccountId v) \<and> id_value (prf_cogsAccountId v)"

definition typed_customer :: "CustomerFields \<Rightarrow> bool" where
  "typed_customer v \<longleftrightarrow> id_or_empty (cuf_organizationId v) \<and> id_value (cuf_arAccountId v)"

definition typed_supplier :: "SupplierFields \<Rightarrow> bool" where
  "typed_supplier v \<longleftrightarrow> id_or_empty (suf_organizationId v) \<and> id_value (suf_apAccountId v)"

interpretation typed_tax_code: typed_form "tax_code_effect k" "TaxCodeForm k" "tax_code_step k" typed_tax_code for k
proof unfold_locales
  fix c1 c2 f v v' e and x :: unit and b :: "('w, payload, body) browser"
  show "mf_form (fst (tax_code_effect k c1 c2 (f, b))) = mf_form f
      \<or> (\<exists>v. mf_form (fst (tax_code_effect k c1 c2 (f, b))) = Some v \<and> typed_tax_code v)"
    by (auto simp: tax_code_effect_def when_loaded_def Let_def typed_tax_code_def blank_tax_code_def existing_tax_code_def
        split: prod.splits sum.splits option.splits)
  show "mf_form f = Some v \<Longrightarrow> typed_tax_code v \<Longrightarrow> offers (TaxCodeForm k f) (Set_Form v') \<Longrightarrow> typed_tax_code v'"
    by (auto simp: TaxCodeForm_def form_frame_offers tax_code_fields_view_def code_field_def typed_tax_code_def account_options_def
        split: if_splits)
  show "offers (TaxCodeForm k f) e \<Longrightarrow> mf_form f \<noteq> None" by (auto simp: TaxCodeForm_def form_frame_offers)
  show "mf_form (fst (tax_code_step k (Set_Form v) (f, b))) = Some v" "mf_form (fst (tax_code_step k Save_Form (f, b))) = mf_form f"
    "mf_form (fst (tax_code_step k (Other x) (f, b))) = mf_form f"
    by (simp_all add: tax_code_step_def submit_tax_code_def)
qed

interpretation typed_account: typed_form "\<lambda>c1 c2. account_effect k c1" "AccountForm k" "account_step k" typed_account for k
proof unfold_locales
  fix c1 c2 f v v' e and x :: unit and b :: "('w, payload, body) browser"
  show "mf_form (fst (account_effect k c1 (f, b))) = mf_form f \<or> (\<exists>v. mf_form (fst (account_effect k c1 (f, b))) = Some v \<and> typed_account v)"
    by (auto simp: account_effect_def when_loaded_def Let_def typed_account_def blank_account_def existing_account_def id_or_empty_def
         split: prod.splits sum.splits option.splits)
  show "mf_form f = Some v \<Longrightarrow> typed_account v \<Longrightarrow> offers (AccountForm k f) (Set_Form v') \<Longrightarrow> typed_account v'"
    by (auto simp: AccountForm_def form_frame_offers account_fields_view_def typed_account_def account_options_def 
        split: if_splits)
  show "offers (AccountForm k f) e \<Longrightarrow> mf_form f \<noteq> None" by (auto simp: AccountForm_def form_frame_offers)
  show "mf_form (fst (account_step k (Set_Form v) (f, b))) = Some v" "mf_form (fst (account_step k Save_Form (f, b))) = mf_form f"
    "mf_form (fst (account_step k (Other x) (f, b))) = mf_form f"
    by (simp_all add: account_step_def submit_account_def)
qed

interpretation typed_product: typed_form "product_effect k" "ProductForm k" "product_step k" typed_product for k
proof unfold_locales
  fix c1 c2 f v v' e and x :: unit and b :: "('w, payload, body) browser"
  show "mf_form (fst (product_effect k c1 c2 (f, b))) = mf_form f \<or> (\<exists>v. mf_form (fst (product_effect k c1 c2 (f, b))) = Some v \<and> typed_product v)"
    by (auto simp: product_effect_def when_loaded_def Let_def typed_product_def blank_product_def existing_product_def id_or_empty_def
         split: prod.splits sum.splits option.splits)
  show "mf_form f = Some v \<Longrightarrow> typed_product v \<Longrightarrow> offers (ProductForm k f) (Set_Form v') \<Longrightarrow> typed_product v'"
    by (auto simp: ProductForm_def form_frame_offers product_fields_view_def typed_product_def account_options_def AccountSelect_def
        split: if_splits)
  show "offers (ProductForm k f) e \<Longrightarrow> mf_form f \<noteq> None" by (auto simp: ProductForm_def form_frame_offers)
  show "mf_form (fst (product_step k (Set_Form v) (f, b))) = Some v" "mf_form (fst (product_step k Save_Form (f, b))) = mf_form f"
    "mf_form (fst (product_step k (Other x) (f, b))) = mf_form f"
    by (simp_all add: product_step_def submit_product_def)
qed

interpretation typed_customer: typed_form "\<lambda>c1 c2. customer_effect k c1" "CustomerForm k" "customer_step k" typed_customer for k
proof unfold_locales
  fix c1 c2 f v v' e and x :: unit and b :: "('w, payload, body) browser"
  show "mf_form (fst (customer_effect k c1 (f, b))) = mf_form f \<or> (\<exists>v. mf_form (fst (customer_effect k c1 (f, b))) = Some v \<and> typed_customer v)"
    by (auto simp: customer_effect_def when_loaded_def Let_def typed_customer_def blank_customer_def existing_customer_def id_or_empty_def
         split: prod.splits sum.splits option.splits)
  show "mf_form f = Some v \<Longrightarrow> typed_customer v \<Longrightarrow> offers (CustomerForm k f) (Set_Form v') \<Longrightarrow> typed_customer v'"
    by (auto simp: CustomerForm_def form_frame_offers customer_fields_view_def typed_customer_def account_options_def AccountSelect_def customer_org_view_def id_or_empty_def
        split: if_splits)
  show "offers (CustomerForm k f) e \<Longrightarrow> mf_form f \<noteq> None" by (auto simp: CustomerForm_def form_frame_offers)
  show "mf_form (fst (customer_step k (Set_Form v) (f, b))) = Some v" "mf_form (fst (customer_step k Save_Form (f, b))) = mf_form f"
    "mf_form (fst (customer_step k (Other x) (f, b))) = mf_form f"
    by (simp_all add: customer_step_def submit_customer_def)
qed

interpretation typed_supplier: typed_form "\<lambda>c1 c2. supplier_effect k c1" "SupplierForm k" "supplier_step k" typed_supplier for k
proof unfold_locales
  fix c1 c2 f v v' e and x :: unit and b :: "('w, payload, body) browser"
  show "mf_form (fst (supplier_effect k c1 (f, b))) = mf_form f \<or> (\<exists>v. mf_form (fst (supplier_effect k c1 (f, b))) = Some v \<and> typed_supplier v)"
    by (auto simp: supplier_effect_def when_loaded_def Let_def typed_supplier_def blank_supplier_def existing_supplier_def id_or_empty_def
         split: prod.splits sum.splits option.splits)
  show "mf_form f = Some v \<Longrightarrow> typed_supplier v \<Longrightarrow> offers (SupplierForm k f) (Set_Form v') \<Longrightarrow> typed_supplier v'"
    by (auto simp: SupplierForm_def form_frame_offers supplier_fields_view_def typed_supplier_def account_options_def AccountSelect_def supplier_org_view_def id_or_empty_def
        split: if_splits)
  show "offers (SupplierForm k f) e \<Longrightarrow> mf_form f \<noteq> None" by (auto simp: SupplierForm_def form_frame_offers)
  show "mf_form (fst (supplier_step k (Set_Form v) (f, b))) = Some v" "mf_form (fst (supplier_step k Save_Form (f, b))) = mf_form f"
    "mf_form (fst (supplier_step k (Other x) (f, b))) = mf_form f"
    by (simp_all add: supplier_step_def submit_supplier_def)
qed


lemma code_wire: "code_select (code_or_null v) = v" "code_or_null v \<noteq> Some NONE" "Some NONE \<noteq> code_or_null v"
  by (simp_all add: code_select_def code_or_null_def)

lemma id_or_empty_wire: "id_or_empty v \<Longrightarrow> v = [] \<or> show_int (id_of v) = v"
  by (auto simp: id_or_empty_def)

text \<open>The runs of the forms with selects: opened on the route \<open>k\<close>, before anything was sent.\<close>

definition tax_code_runs :: "string option \<Rightarrow> TaxCodeForm_State \<times> ('w, payload, body) browser \<Rightarrow> bool" where
  "tax_code_runs k = reachable (opened_form tax_code_init) (master_move (tax_code_effect k) (TaxCodeForm k) (tax_code_step k))"

definition account_runs :: "string option \<Rightarrow> AccountForm_State \<times> ('w, payload, body) browser \<Rightarrow> bool" where
  "account_runs k = reachable (opened_form account_init)
     (master_move (\<lambda>c1 c2. account_effect k c1) (AccountForm k) (account_step k))"

definition product_runs :: "string option \<Rightarrow> ProductForm_State \<times> ('w, payload, body) browser \<Rightarrow> bool" where
  "product_runs k = reachable (opened_form product_init) (master_move (product_effect k) (ProductForm k) (product_step k))"

definition customer_runs :: "string option \<Rightarrow> CustomerForm_State \<times> ('w, payload, body) browser \<Rightarrow> bool" where
  "customer_runs k = reachable (opened_form customer_init)
     (master_move (\<lambda>c1 c2. customer_effect k c1) (CustomerForm k) (customer_step k))"

definition supplier_runs :: "string option \<Rightarrow> SupplierForm_State \<times> ('w, payload, body) browser \<Rightarrow> bool" where
  "supplier_runs k = reachable (opened_form supplier_init)
     (master_move (\<lambda>c1 c2. supplier_effect k c1) (SupplierForm k) (supplier_step k))"

lemma runs_typed:
  "tax_code_runs k (f1, b1) \<Longrightarrow> mf_form f1 = Some v1 \<Longrightarrow> typed_tax_code v1"
  "account_runs k (f2, b2) \<Longrightarrow> mf_form f2 = Some v2 \<Longrightarrow> typed_account v2"
  "product_runs k (f3, b3) \<Longrightarrow> mf_form f3 = Some v3 \<Longrightarrow> typed_product v3"
  "customer_runs k (f4, b4) \<Longrightarrow> mf_form f4 = Some v4 \<Longrightarrow> typed_customer v4"
  "supplier_runs k (f5, b5) \<Longrightarrow> mf_form f5 = Some v5 \<Longrightarrow> typed_supplier v5"
  using typed_tax_code.typed.reachable_inv [OF opened_no_form, of tax_code_init k "(f1, b1)"]
    typed_account.typed.reachable_inv [OF opened_no_form, of account_init k "(f2, b2)"]
    typed_product.typed.reachable_inv [OF opened_no_form, of product_init k "(f3, b3)"]
    typed_customer.typed.reachable_inv [OF opened_no_form, of customer_init k "(f4, b4)"]
    typed_supplier.typed.reachable_inv [OF opened_no_form, of supplier_init k "(f5, b5)"]
  by (simp_all add: tax_code_runs_def account_runs_def product_runs_def customer_runs_def supplier_runs_def
      tax_code_init_def account_init_def product_init_def customer_init_def supplier_init_def
      typed_tax_code.well_typed_def typed_account.well_typed_def typed_product.well_typed_def
      typed_customer.well_typed_def typed_supplier.well_typed_def)

text \<open>C38. What the forms of master data send for their selects is what the selects show. In every
  state the user can reach, each select of a nullable id holds the sentinel or the decimal string of
  an id, and the organization of a party nothing or such a string, so that \<open>Number\<close> never makes NaN
  of it and the id in the request is the one on the screen. The tax codes and payment terms in the
  request are those on the screen, the sentinel sent as none and never as a code; and the type and
  the activity of an account are sent as chosen.\<close>

theorem master_ids_typed:
  assumes "tax_code_runs k (f1, b1)" "mf_form f1 = Some v1" and "account_runs k (f2, b2)" "mf_form f2 = Some v2"
    and "product_runs k (f3, b3)" "mf_form f3 = Some v3" and "customer_runs k (f4, b4)" "mf_form f4 = Some v4"
    and "supplier_runs k (f5, b5)" "mf_form f5 = Some v5"
  shows "id_select (tci_tax_account_id (tax_code_input v1)) = tcf_taxAccountId v1
    \<and> id_select (acci_parent_id (account_input v2)) = acf_parentId v2
    \<and> id_select (prodi_revenue_account_id (product_input v3)) = prf_revenueAccountId v3
    \<and> id_select (prodi_inventory_account_id (product_input v3)) = prf_inventoryAccountId v3
    \<and> id_select (prodi_cogs_account_id (product_input v3)) = prf_cogsAccountId v3
    \<and> id_select (custi_ar_account_id (customer_input v4)) = cuf_arAccountId v4
    \<and> (cuf_organizationId v4 = [] \<or> show_int (custi_organization_id (customer_input v4)) = cuf_organizationId v4)
    \<and> id_select (suppi_ap_account_id (supplier_input v5)) = suf_apAccountId v5
    \<and> (suf_organizationId v5 = [] \<or> show_int (suppi_organization_id (supplier_input v5)) = suf_organizationId v5)
    \<and> code_select (prodi_tax_code (product_input v3)) = prf_taxCode v3
    \<and> code_select (custi_tax_code (customer_input v4)) = cuf_taxCode v4
    \<and> code_select (custi_payment_terms_code (customer_input v4)) = cuf_paymentTermsCode v4
    \<and> code_select (suppi_tax_code (supplier_input v5)) = suf_taxCode v5
    \<and> code_select (suppi_payment_terms_code (supplier_input v5)) = suf_paymentTermsCode v5
    \<and> Some NONE \<notin> {prodi_tax_code (product_input v3), custi_tax_code (customer_input v4),
        custi_payment_terms_code (customer_input v4), suppi_tax_code (supplier_input v5),
        suppi_payment_terms_code (supplier_input v5)}
    \<and> acci_account_type (account_input v2) = acf_accountType v2
    \<and> acci_cash_flow_activity (account_input v2) = acf_cashFlowActivity v2"
  using runs_typed(1) [OF assms(1,2)] runs_typed(2) [OF assms(3,4)] runs_typed(3) [OF assms(5,6)]
    runs_typed(4) [OF assms(7,8)] runs_typed(5) [OF assms(9,10)]
  by (auto simp: typed_tax_code_def typed_account_def typed_product_def typed_customer_def typed_supplier_def
      tax_code_input_def account_input_def product_input_def customer_input_def supplier_input_def
      id_value_wire code_wire dest!: id_or_empty_wire)

section \<open>No account is its own parent\<close>

text \<open>What the form relies on: the server answers for the account asked for, which is not its own
  parent.\<close>

definition answers_account :: "(payload request \<Rightarrow> 'w \<Rightarrow> body reply \<times> 'w) \<Rightarrow> int \<Rightarrow> bool" where
  "answers_account net i \<longleftrightarrow> (\<forall>b a. network b = net \<and> fst (getAccount i b) = Inr a \<longrightarrow> acc_id a = i \<and> acc_parent_id a \<noteq> Some i)"

definition no_self_parent :: "(payload request \<Rightarrow> 'w \<Rightarrow> body reply \<times> 'w) \<Rightarrow> int \<Rightarrow> AccountForm_State \<times> ('w, payload, body) browser \<Rightarrow> bool" where
  "no_self_parent net i x \<longleftrightarrow> network (snd x) = net \<and> (\<forall>a \<in> set (acf_parents (fst x)). acc_id a \<noteq> i)
     \<and> (\<forall>v. mf_form (fst x) = Some v \<longrightarrow> acf_parentId v \<noteq> show_int i)"

lemma account_effect_self:
  assumes "\<not> invalid_id route" "answers_account net (id_of route)" "no_self_parent net (id_of route) (f, b)"
  shows "no_self_parent net (id_of route) (account_effect (Some route) c (f, b))"
proof -
  let ?load = "both_io (getAccount (id_of route)) listAccounts :: ('a, Account \<times> Account list) call"
  obtain r b' where l: "?load b = (r, b')" by (cases "?load b")
  have "reads_only ?load" by (simp add: getAccount_def listAccounts_def reading)
  from reads_only_network [OF this, of b] have n: "network b' = net" using l assms(3) by (simp add: no_self_parent_def)
  have a: "acc_id a = id_of route \<and> acc_parent_id a \<noteq> Some (id_of route)" if "r = Inr (a, accounts)" for a accounts
  proof -
    from l that obtain s1 where "getAccount (id_of route) b = (Inr a, s1)" by (auto simp: both_io_result)
    then show ?thesis using assms(2,3) unfolding answers_account_def no_self_parent_def by (metis fst_conv snd_conv)
  qed
  have e: "account_effect (Some route) c (f, b) = (when_loaded c r (\<lambda>(account, accounts) f.
      set_form (existing_account account) (f\<lparr>acf_parents := filter (\<lambda>a. acc_id a \<noteq> acc_id account) accounts\<rparr>)) f, b')"
    using assms(1) by (simp add: account_effect_def l)
  show ?thesis
  proof (cases r)
    case (Inl err)
    then show ?thesis using assms(3) n by (simp add: e when_loaded_def no_self_parent_def)
  next
    case (Inr d)
    obtain acct accounts where d: "d = (acct, accounts)" by (cases d)
    have "id_select (acc_parent_id acct) \<noteq> show_int (id_of route)"
      using a [of acct accounts] Inr d by (auto simp: id_select_def split: option.split)
    then show ?thesis
      using assms(3) n Inr d a [of acct accounts]
      by (auto simp: e when_loaded_def no_self_parent_def set_form_def existing_account_def)
  qed
qed

lemma save_form_frame:
  "network (snd (save_form (save_account k w) target x)) = network (snd x)"
  "acf_parents (fst (save_form (save_account k w) target x)) = acf_parents (fst x)"
proof -
  obtain f b where x: "x = (f, b)" by (cases x)
  obtain r b' where a: "save_account k w b = (r, b')" by (cases "save_account k w b")
  have "snd (save_account k w b) = after_exchange (record_request ''/accounts'' k (Master_Payload (AccountInput_Payload w))) b"
    by (rule saves_state [OF record_saves(3)])
  then have "network b' = network b" using a by simp
  then show "network (snd (save_form (save_account k w) target x)) = network (snd x)"
    "acf_parents (fst (save_form (save_account k w) target x)) = acf_parents (fst x)"
    by (simp_all add: x save_form_def a Let_def split: sum.split)
qed

lemma account_user_self:
  assumes "no_self_parent net i (f, b)" "offers (AccountForm k f) e"
  shows "no_self_parent net i (account_step k e (f, b))"
proof (cases e)
  case (Set_Form v')
  from assms(2) obtain v where v: "mf_form f = Some v" "offers (account_fields_view (acf_parents f) v) (Set_Form v')"
    unfolding AccountForm_def form_frame_offers Set_Form by auto
  have "acf_parentId v' \<noteq> show_int i"
    using v assms(1) by (auto simp: account_fields_view_def account_options_def no_self_parent_def split: if_splits)
  then show ?thesis
    using assms(1) by (simp add: Set_Form account_step_def no_self_parent_def set_form_def)
next
  case Save_Form
  show ?thesis
  proof (cases "mf_form f")
    case None
    then show ?thesis using assms(1) by (simp add: Save_Form account_step_def submit_account_def submit_form_def)
  next
    case (Some v)
    then show ?thesis
      using assms(1) by (cases "account_problem v")
        (simp_all add: Save_Form account_step_def submit_account_def submit_form_def no_self_parent_def save_form_frame)
  qed
next
  case (Other x)
  then show ?thesis using assms(1) by (simp add: account_step_def)
qed

definition account_opened :: "(payload request \<Rightarrow> 'w \<Rightarrow> body reply \<times> 'w) \<Rightarrow> AccountForm_State \<times> ('w, payload, body) browser \<Rightarrow> bool" where
  "account_opened net x \<longleftrightarrow> opened_form account_init x \<and> network (snd x) = net"

lemma account_self_invariant:
  fixes net :: "payload request \<Rightarrow> 'w \<Rightarrow> body reply \<times> 'w"
  assumes "\<not> invalid_id route" "answers_account net (id_of route)"
  shows "invariant (account_opened net)
    (master_move (\<lambda>c1 c2. account_effect (Some route) c1) (AccountForm (Some route)) (account_step (Some route)))
    (no_self_parent net (id_of route))"
proof
  fix x y :: "AccountForm_State \<times> ('w, payload, body) browser"
  show "account_opened net x \<Longrightarrow> no_self_parent net (id_of route) x"
    by (simp add: account_opened_def opened_form_def no_self_parent_def account_init_def)
  assume inv: "no_self_parent net (id_of route) x"
    and "master_move (\<lambda>c1 c2. account_effect (Some route) c1) (AccountForm (Some route)) (account_step (Some route)) x y"
  from this(2) show "no_self_parent net (id_of route) y"
  proof cases
    case (effect c1 c2)
    then show ?thesis using account_effect_self [OF assms, of "fst x" "snd x"] inv by simp
  next
    case (user f e b)
    then show ?thesis using account_user_self [of net "id_of route" f b "Some route" e] inv by simp
  qed
qed

text \<open>C39. An account is never sent as its own parent: in the form of an existing account, on a server
  that answers for the account asked for and keeps no account as its own parent, no option of the
  parent select is the account itself, and whatever the user chooses the request names another parent
  or none.\<close>

theorem account_never_own_parent:
  fixes net :: "payload request \<Rightarrow> 'w \<Rightarrow> body reply \<times> 'w"
  assumes "\<not> invalid_id route" "answers_account net (id_of route)"
    and "reachable (account_opened net) (master_move (\<lambda>c1 c2. account_effect (Some route) c1) (AccountForm (Some route))
      (account_step (Some route))) (f, b)" "mf_form f = Some v"
  shows "acci_parent_id (account_input v) \<noteq> Some (id_of route)
    \<and> show_int (id_of route) \<notin> fst ` set (account_options (acf_parents f))"
proof -
  from invariant.reachable_inv [OF account_self_invariant [OF assms(1,2)] assms(3)]
  have own: "acf_parentId v \<noteq> show_int (id_of route)" "\<forall>a \<in> set (acf_parents f). acc_id a \<noteq> id_of route"
    using assms(4) by (auto simp: no_self_parent_def)
  have "account_runs (Some route) (f, b)"
    using assms(3) unfolding account_runs_def by (rule reachable_weaken) (simp add: account_opened_def)
  from runs_typed(2) [OF this assms(4)] have "id_value (acf_parentId v)" by (simp add: typed_account_def)
  then have "id_select (id_or_null (acf_parentId v)) = acf_parentId v" by (rule id_value_wire)
  with own(1) have "id_or_null (acf_parentId v) \<noteq> Some (id_of route)" by (auto simp: id_select_def)
  with own(2) show ?thesis by (auto simp: account_input_def account_options_def)
qed

section \<open>Examples\<close>

definition cash_account :: Account where
  "cash_account = \<lparr>acc_id = 7, acc_code = ''1000'', acc_name = ''Cash'', acc_account_type = ''asset'', acc_parent_id = None,
     acc_currency_code = None, acc_is_postable = True, acc_is_active = True, acc_is_cash = True,
     acc_cash_flow_activity = ''operating''\<rparr>"

definition master_server :: "string \<Rightarrow> body" where
  "master_server path = Master
     (if path = ''/api/accounts'' then Account_List [cash_account] else if path = ''/api/accounts/7'' then Account_Body cash_account
      else if path = ''/api/tax-codes'' then TaxCode_List [] else if path = ''/api/organizations'' then Organization_List []
      else if path = ''/api/customers'' then Customer_List [] else if path = ''/api/suppliers'' then Supplier_List []
      else PaymentTerm_List [])"

lemma master_answers:
  assumes "network b = answering master_server"
  shows "listAccounts b = (Inr [cash_account], after_exchange (get_request ''/accounts'') b)"
    "listTaxCodes b = (Inr [], after_exchange (get_request ''/tax-codes'') b)"
    "listOrganizations b = (Inr [], after_exchange (get_request ''/organizations'') b)"
    "listCustomers b = (Inr [], after_exchange (get_request ''/customers'') b)"
    "listSuppliers b = (Inr [], after_exchange (get_request ''/suppliers'') b)"
    "listPaymentTerms b = (Inr [], after_exchange (get_request ''/payment-terms'') b)"
    "getAccount 7 b = (Inr cash_account, after_exchange (get_request ''/accounts/7'') b)"
  using assms show_7
  by (simp_all add: listAccounts_def listTaxCodes_def listOrganizations_def listCustomers_def listSuppliers_def
      listPaymentTerms_def getAccount_def get_answering master_as_def BASE_def master_server_def)

definition master_browser :: "(unit, payload, body) browser" where
  "master_browser = \<lparr>network = answering master_server, world = (), sent = [], events = []\<rparr>"

lemma new_forms:
  "\<exists>f b. tax_code_runs None (f, b :: (unit, payload, body) browser) \<and> mf_form f = Some blank_tax_code"
  "\<exists>f b. account_runs None (f, b :: (unit, payload, body) browser) \<and> mf_form f = Some blank_account"
  "\<exists>f b. product_runs None (f, b :: (unit, payload, body) browser) \<and> mf_form f = Some blank_product"
  "\<exists>f b. customer_runs None (f, b :: (unit, payload, body) browser) \<and> mf_form f = Some blank_customer"
  "\<exists>f b. supplier_runs None (f, b :: (unit, payload, body) browser) \<and> mf_form f = Some blank_supplier"
proof -
  have run: "\<exists>f b. reachable (opened_form f0) (master_move eff view step) (f, b) \<and> mf_form f = Some v"
    if "mf_form (fst (eff False False (f0, master_browser))) = Some v"
    for f0 :: "('v, 'm) master_form_scheme" and eff view v
      and step :: "'e \<Rightarrow> ('v, 'm) master_form_scheme \<times> (unit, payload, body) browser \<Rightarrow> _"
  proof -
    have "reachable (opened_form f0) (master_move eff view step) (f0, master_browser)"
      by (rule reachable.starting) (simp add: opened_form_def master_browser_def)
    then have "reachable (opened_form f0) (master_move eff view step) (eff False False (f0, master_browser))"
      by (rule reachable.moving) (rule master_move.effect)
    with that show ?thesis by (metis prod.collapse)
  qed
  have n: "network master_browser = answering master_server" by (simp add: master_browser_def)
  note sums = tax_code_effect_def account_effect_def product_effect_def customer_effect_def supplier_effect_def
    when_loaded_def both_io_def master_answers n Let_def
  show "\<exists>f b. tax_code_runs None (f, b :: (unit, payload, body) browser) \<and> mf_form f = Some blank_tax_code"
    unfolding tax_code_runs_def by (rule run) (simp add: sums)
  show "\<exists>f b. account_runs None (f, b :: (unit, payload, body) browser) \<and> mf_form f = Some blank_account"
    unfolding account_runs_def by (rule run) (simp add: sums)
  show "\<exists>f b. product_runs None (f, b :: (unit, payload, body) browser) \<and> mf_form f = Some blank_product"
    unfolding product_runs_def by (rule run) (simp add: sums)
  show "\<exists>f b. customer_runs None (f, b :: (unit, payload, body) browser) \<and> mf_form f = Some blank_customer"
    unfolding customer_runs_def by (rule run) (simp add: sums)
  show "\<exists>f b. supplier_runs None (f, b :: (unit, payload, body) browser) \<and> mf_form f = Some blank_supplier"
    unfolding supplier_runs_def by (rule run) (simp add: sums)
qed

theorem master_ids_typed_witness:
  "id_select (prodi_revenue_account_id (product_input blank_product)) = prf_revenueAccountId blank_product
   \<and> prodi_revenue_account_id (product_input blank_product) = None"
proof
  obtain f1 f2 f3 f4 f5 and b1 b2 b3 b4 b5 :: "(unit, payload, body) browser" where
    "tax_code_runs None (f1, b1)" "mf_form f1 = Some blank_tax_code"
    "account_runs None (f2, b2)" "mf_form f2 = Some blank_account"
    "product_runs None (f3, b3)" "mf_form f3 = Some blank_product"
    "customer_runs None (f4, b4)" "mf_form f4 = Some blank_customer"
    "supplier_runs None (f5, b5)" "mf_form f5 = Some blank_supplier" using new_forms by blast
  from master_ids_typed [OF this]
  show "id_select (prodi_revenue_account_id (product_input blank_product)) = prf_revenueAccountId blank_product" by simp
  show "prodi_revenue_account_id (product_input blank_product) = None" by code_simp
qed

theorem account_never_own_parent_witness:
  "\<exists>f b v. reachable (account_opened (answering master_server)) (master_move (\<lambda>c1 c2. account_effect (Some ''7'') c1)
      (AccountForm (Some ''7'')) (account_step (Some ''7''))) (f, b :: (unit, payload, body) browser)
    \<and> mf_form f = Some v \<and> acf_code v = ''1000'' \<and> acci_parent_id (account_input v) \<noteq> Some 7"
proof -
  let ?net = "answering master_server :: payload request \<Rightarrow> unit \<Rightarrow> body reply \<times> unit"
  let ?move = "master_move (\<lambda>c1 c2. account_effect (Some ''7'') c1) (AccountForm (Some ''7'')) (account_step (Some ''7''))
    :: AccountForm_State \<times> (unit, payload, body) browser \<Rightarrow> _"
  have n: "network master_browser = ?net" by (simp add: master_browser_def)
  have server: "answers_account ?net (id_of ''7'')"
  proof -
    have "acc_id cash_account = 7" "acc_parent_id cash_account \<noteq> Some 7" by (simp_all add: cash_account_def)
    then show ?thesis unfolding answers_account_def route_7(2) by (auto simp: master_answers)
  qed
  have "reachable (account_opened ?net) ?move (account_init, master_browser)"
    by (rule reachable.starting) (simp add: account_opened_def opened_form_def master_browser_def)
  then have "reachable (account_opened ?net) ?move (account_effect (Some ''7'') False (account_init, master_browser))"
    by (rule reachable.moving) (rule master_move.effect)
  moreover have "mf_form (fst (account_effect (Some ''7'') False (account_init, master_browser))) = Some (existing_account cash_account)"
    by (simp add: account_effect_def when_loaded_def both_io_def master_answers n)
  ultimately obtain f b where r: "reachable (account_opened ?net) ?move (f, b)" "mf_form f = Some (existing_account cash_account)"
    by (metis prod.collapse)
  have "acci_parent_id (account_input (existing_account cash_account)) \<noteq> Some 7"
    using account_never_own_parent [OF route_7(1) server r] by simp
  moreover have "acf_code (existing_account cash_account) = ''1000''" by code_simp
  ultimately show ?thesis using r by blast
qed

section \<open>Passwords and settings\<close>

definition user_runs :: "string option \<Rightarrow> UserForm_State \<times> ('w, payload, body) browser \<Rightarrow> bool" where
  "user_runs k = reachable (opened_form user_init) (master_move (\<lambda>c1 c2. user_effect k c1) (UserForm k) (user_step k))"

definition settings_runs :: "User \<Rightarrow> SettingsScreen \<times> ('w, payload, body) browser \<Rightarrow> bool" where
  "settings_runs u = reachable (opened_form settings_init)
     (master_move (\<lambda>c1 c2. settings_effect c1) (settings_view u) settings_step)"

definition long_password :: "payload request \<Rightarrow> bool" where
  "long_password rq \<longleftrightarrow> (case rq_body rq of
       Some (Master_Payload (UserCreate_Payload u)) \<Rightarrow> MIN_PASSWORD \<le> length (uc_password u)
     | Some (Master_Payload (Password_Payload p)) \<Rightarrow> MIN_PASSWORD \<le> length p
     | _ \<Rightarrow> True)"

definition sends_long :: "UserForm_State \<times> ('w, payload, body) browser \<Rightarrow> bool" where
  "sends_long x \<longleftrightarrow> (\<forall>rq \<in> set (sent (snd x)). long_password rq)"

lemma save_form_sent:
  assumes "saves accepts action rq"
  shows "sent (snd (save_form action target x)) = sent (snd x) @ [rq]"
proof -
  obtain f b where x: "x = (f, b)" by (cases x)
  obtain r b' where a: "action b = (r, b')" by (cases "action b")
  have "snd (action b) = after_exchange rq b" using assms by (rule saves_state)
  then show ?thesis by (simp add: x save_form_def a Let_def split: sum.split)
qed

lemma user_effect_long:
  assumes "sends_long x"
  shows "sends_long (user_effect k c x)"
proof -
  obtain f b where x: "x = (f, b)" by (cases x)
  have got: "sent (snd (getUser i b)) = sent b @ [get_request (''/users/'' @ show_int i)]" for i
    by (simp add: getUser_def get_exchange exchange_state)
  have "long_password (get_request p)" for p by (simp add: long_password_def get_request_def)
  then show ?thesis
    using assms by (cases k) (auto simp: x sends_long_def user_effect_def case_prod_unfold got)
qed

lemma submit_user_long: "sends_long x \<Longrightarrow> sends_long (submit_user k x)"
proof -
  assume s: "sends_long x"
  obtain f b where x: "x = (f, b)" by (cases x)
  show ?thesis
  proof (cases "mf_form f")
    case None
    then show ?thesis using s by (simp add: x submit_user_def submit_form_def)
  next
    case (Some v)
    show ?thesis
    proof (cases "user_problem (k = None) v")
      case None
      have "long_password (record_request ''/users'' k (user_payload k v))"
        using None by (auto simp: long_password_def record_request_def user_payload_def body_request_def user_create_def
            user_problem_def split: option.split if_splits)
      then show ?thesis
        using s Some None save_form_sent [OF record_saves(7) [of k v], of "''/users''" x]
        by (simp add: x submit_user_def submit_form_def sends_long_def)
    next
      case (Some m)
      then show ?thesis using s \<open>mf_form f = _\<close> by (simp add: x submit_user_def submit_form_def sends_long_def)
    qed
  qed
qed

lemma reset_long: "sends_long x \<Longrightarrow> sends_long (reset_step k e x)"
proof -
  have g: "snd (setUserPassword i p b) = after_exchange (body_request ''POST'' (''/users/'' @ show_int i @ ''/password'')
      (Master_Payload (Password_Payload p))) b" for i p and b :: "('a, payload, body) browser"
    by (simp add: setUserPassword_def send_exchange exchange_state)
  assume s: "sends_long x"
  obtain f b where x: "x = (f, b)" by (cases x)
  show ?thesis
  proof (cases e)
    case (New_Password p)
    then show ?thesis using s by (simp add: x sends_long_def)
  next
    case Reset_Password
    show ?thesis
    proof (cases k)
      case None
      then show ?thesis using s by (simp add: Reset_Password)
    next
      case (Some ident)
      obtain r b' where a: "setUserPassword (id_of ident) (usf_newPassword f) b = (r, b')"
        by (cases "setUserPassword (id_of ident) (usf_newPassword f) b")
      with g [of "id_of ident" "usf_newPassword f" b] have "sent b' = sent b @ [body_request ''POST''
          (''/users/'' @ show_int (id_of ident) @ ''/password'') (Master_Payload (Password_Payload (usf_newPassword f)))]"
        by simp
      then show ?thesis
        using s a by (auto simp: x Reset_Password Some handleResetPassword_def sends_long_def long_password_def
            body_request_def Let_def split: sum.split)
    qed
  qed
qed

interpretation long_passwords: invariant "opened_form user_init" "master_move (\<lambda>c1 c2. user_effect k c1) (UserForm k) (user_step k)"
    sends_long for k
proof unfold_locales
  fix x y :: "UserForm_State \<times> ('w, payload, body) browser"
  show "opened_form user_init x \<Longrightarrow> sends_long x" by (simp add: opened_form_def sends_long_def)
  assume s: "sends_long x" and "master_move (\<lambda>c1 c2. user_effect k c1) (UserForm k) (user_step k) x y"
  from this(2) show "sends_long y"
  proof cases
    case (effect c1 c2)
    then show ?thesis using s user_effect_long by simp
  next
    case (user f e b)
    then show ?thesis using s submit_user_long [of "(f, b)" k] reset_long [of "(f, b)" k]
      by (cases e) (auto simp: user_step_def sends_long_def)
  qed
qed


text \<open>What the settings screen sends for a user: reads, and for an administrator the input of a form
  whose base currency has three letters.\<close>

definition settings_request :: "User \<Rightarrow> payload request \<Rightarrow> bool" where
  "settings_request u rq \<longleftrightarrow> rq_method rq = ''GET'' \<or> (user_is_admin u
     \<and> (\<exists>f. length (trim (ss_baseCurrency f)) = 3
          \<and> rq = body_request ''PUT'' ''/settings'' (Master_Payload (Settings_Payload (settings_input f)))))"

lemma settings_effect_sends:
  "\<exists>rqs. sent (snd (settings_effect c (f, b))) = sent b @ rqs \<and> list_all (settings_request u) rqs"
proof -
  have "sent (snd (settings_effect c (f, b))) = sent b @ [get_request ''/settings'', get_request ''/accounts'']"
    by (simp add: settings_effect_def load_settings_def getSettings_def listAccounts_def get_exchange exchange_state
        case_prod_unfold)
  then show ?thesis by (auto simp: settings_request_def get_request_def)
qed

lemma submit_settings_sends:
  assumes "user_is_admin u"
  shows "\<exists>rqs. sent (snd (submit_settings (f, b))) = sent b @ rqs \<and> list_all (settings_request u) rqs"
proof (cases "length (trim (ss_baseCurrency f)) = 3")
  case False
  then show ?thesis by (simp add: submit_settings_def)
next
  case True
  let ?g = "f\<lparr>ss_saving := True, ss_saveError := None, ss_saved := False\<rparr>"
  have "sent (snd (submit_settings (f, b))) =
      sent b @ [body_request ''PUT'' ''/settings'' (Master_Payload (Settings_Payload (settings_input ?g)))]"
    using True by (simp add: submit_settings_def updateSettings_def send_exchange exchange_state Let_def
        case_prod_unfold split: sum.split)
  moreover have "settings_request u (body_request ''PUT'' ''/settings'' (Master_Payload (Settings_Payload (settings_input ?g))))"
    unfolding settings_request_def using assms True by (auto intro!: exI [where x = ?g])
  ultimately show ?thesis by simp
qed

lemma settings_offer_saves: "offers (settings_view u f) Save_Settings \<Longrightarrow> user_is_admin u"
  by (auto simp: settings_view_def Let_def split: option.splits if_splits)

interpretation settings_requests: invariant "opened_form settings_init"
    "master_move (\<lambda>c1 c2. settings_effect c1) (settings_view u) settings_step"
    "\<lambda>x. list_all (settings_request u) (sent (snd x))" for u
proof unfold_locales
  fix x y :: "SettingsScreen \<times> ('w, payload, body) browser"
  show "opened_form settings_init x \<Longrightarrow> list_all (settings_request u) (sent (snd x))" by (simp add: opened_form_def)
  assume s: "list_all (settings_request u) (sent (snd x))"
    and "master_move (\<lambda>c1 c2. settings_effect c1) (settings_view u) settings_step x y"
  from this(2) show "list_all (settings_request u) (sent (snd y))"
  proof cases
    case (effect c1 c2)
    then show ?thesis using s settings_effect_sends [of c1 "fst x" "snd x" u] by auto
  next
    case (user f e b)
    show ?thesis
    proof (cases e)
      case Save_Settings
      with user(3) have "user_is_admin u" by (simp add: settings_offer_saves)
      from submit_settings_sends [OF this, of f b] show ?thesis using s user Save_Settings by auto
    qed (use s user in auto)
  qed
qed

text \<open>C40. No password shorter than eight characters ever leaves the form of a user, neither for a
  new user nor when one is reset, whatever loads, edits and submissions came before; the settings
  screen only reads for a user who is no administrator, and for an administrator every update it
  sends has a base currency of three letters.\<close>

theorem guarded_requests:
  assumes "user_runs route (f, b)" "settings_runs u (g, b')"
  shows "(\<forall>rq \<in> set (sent b). long_password rq) \<and> (\<forall>rq \<in> set (sent b'). settings_request u rq)"
  using long_passwords.reachable_inv [OF assms(1) [unfolded user_runs_def]]
    settings_requests.reachable_inv [OF assms(2) [unfolded settings_runs_def]]
  by (simp_all add: sends_long_def list_all_iff)


definition clerk_record :: UserRecord where
  "clerk_record = \<lparr>ur_id = 7, ur_email = ''clerk'', ur_full_name = ''Clerk'', ur_is_active = True, ur_is_admin = False\<rparr>"

definition users_browser :: "(unit, payload, body) browser" where
  "users_browser = \<lparr>network = answering (\<lambda>path. Master (UserRecord_Body clerk_record)), world = (), sent = [], events = []\<rparr>"

definition new_password_request :: "string \<Rightarrow> payload request" where
  "new_password_request p = body_request ''POST'' ''/users/7/password'' (Master_Payload (Password_Payload p))"

lemma reset_run:
  obtains f b where "user_runs (Some ''7'') (f, b :: (unit, payload, body) browser)"
    "last (sent b) = new_password_request ''longlong''" "sent b \<noteq> []"
proof -
  let ?move = "master_move (\<lambda>c1 c2. user_effect (Some ''7'') c1) (UserForm (Some ''7'')) (user_step (Some ''7''))
    :: UserForm_State \<times> (unit, payload, body) browser \<Rightarrow> _"
  obtain f b where e: "user_effect (Some ''7'') False (user_init, users_browser) = (f, b)"
    by (cases "user_effect (Some ''7'') False (user_init, users_browser)")
  have "fst (user_effect (Some ''7'') False (user_init, users_browser)) = user_init\<lparr>mf_form := Some (existing_user clerk_record)\<rparr>"
    by (simp add: user_effect_def getUser_def get_answering users_browser_def master_as_def when_loaded_def set_form_def)
  with e have f: "f = user_init\<lparr>mf_form := Some (existing_user clerk_record)\<rparr>" by simp
  let ?g = "f\<lparr>usf_newPassword := ''longlong''\<rparr>"
  have "reachable (opened_form user_init) ?move (user_init, users_browser)"
    by (rule reachable.starting) (simp add: opened_form_def users_browser_def)
  then have "reachable (opened_form user_init) ?move (f, b)"
    unfolding e [symmetric] by (rule reachable.moving) (rule master_move.effect)
  then have "reachable (opened_form user_init) ?move (user_step (Some ''7'') (Other (New_Password ''longlong'')) (f, b))"
    by (rule reachable.moving) (rule master_move.user, simp add: UserForm_def form_frame_offers f reset_view_def PasswordInput_def)
  then have "reachable (opened_form user_init) ?move (?g, b)" by (simp add: user_step_def)
  then have "reachable (opened_form user_init) ?move (user_step (Some ''7'') (Other Reset_Password) (?g, b))"
    by (rule reachable.moving) (rule master_move.user, simp add: UserForm_def form_frame_offers f reset_view_def user_init_def)
  moreover have "sent (snd (user_step (Some ''7'') (Other Reset_Password) (?g, b))) = sent b @ [new_password_request ''longlong'']"
    using show_7 by (simp add: user_step_def handleResetPassword_def MIN_PASSWORD_def setUserPassword_def send_exchange exchange_state
        new_password_request_def case_prod_unfold Let_def split: sum.split)
  then have "last (sent (snd (user_step (Some ''7'') (Other Reset_Password) (?g, b)))) = new_password_request ''longlong''"
    "sent (snd (user_step (Some ''7'') (Other Reset_Password) (?g, b))) \<noteq> []" by simp_all
  ultimately show ?thesis using that unfolding user_runs_def by (metis prod.collapse)
qed

theorem guarded_requests_witness:
  "\<exists>f b g b'. user_runs (Some ''7'') (f, b :: (unit, payload, body) browser)
     \<and> settings_runs admin_user (g, b' :: (unit, payload, body) browser)
     \<and> last (sent b) = new_password_request ''longlong'' \<and> sent b \<noteq> [] \<and> long_password (last (sent b))"
proof -
  obtain f b where r: "user_runs (Some ''7'') (f, b :: (unit, payload, body) browser)"
    "last (sent b) = new_password_request ''longlong''" "sent b \<noteq> []" by (rule reset_run)
  have "settings_runs admin_user (settings_init, users_browser)"
    unfolding settings_runs_def by (rule reachable.starting) (simp add: opened_form_def users_browser_def)
  with r guarded_requests [OF r(1) this] show ?thesis by (metis last_in_set)
qed

end
