(* ===== verification/Screen_Links.thy ===== *)
theory Screen_Links
  imports Routes Dashboard Reports Periods Bank_Detail Stock_Detail Master_Data
begin

text \<open>
  The links of the screens beside the documents: the banking, stock, calendar, report, journal and
  landing screens, and the lists and forms of master data, against the table of routes
  (\<open>web/src/App.tsx\<close>).
\<close>

section \<open>The pages they link to\<close>

definition plain_pages :: "string list" where
  "plain_pages = [''/'', ''/invoices/new'', ''/bills/new'', ''/customer-payments/new'', ''/supplier-payments/new'',
     ''/sales-orders/new'', ''/purchase-orders/new'', ''/bank-statements'', ''/bank-statements/new'', ''/stock-movements'',
     ''/stock-movements/new'', ''/periods'', ''/periods/new'', ''/fiscal-years/new'', ''/reports/trial-balance'',
     ''/reports/ar-aging'', ''/reports/ap-aging'', ''/customers'', ''/customers/new'', ''/suppliers'', ''/suppliers/new'',
     ''/organizations'', ''/organizations/new'', ''/products'', ''/products/new'', ''/warehouses'', ''/warehouses/new'',
     ''/tax-codes'', ''/tax-codes/new'', ''/payment-terms'', ''/payment-terms/new'', ''/exchange-rates'',
     ''/exchange-rates/new'', ''/accounts'', ''/accounts/new'', ''/users'', ''/users/new'']"

definition id_pages :: "string list" where
  "id_pages = [''/invoices'', ''/bills'', ''/bank-statements'', ''/stock-movements'', ''/periods'', ''/fiscal-years'', ''/journal-entries'',
     ''/customers'', ''/suppliers'', ''/organizations'', ''/products'', ''/warehouses'', ''/accounts'', ''/users'']"

definition sub_pages :: "(string \<times> string) list" where
  "sub_pages = [(''/bank-statements'', ''edit''), (''/stock-movements'', ''edit''), (''/fiscal-years'', ''close''),
     (''/accounts'', ''ledger'')]"

lemma linked_pages:
  "list_all (\<lambda>p. p \<in> set (map fst routes) \<and> CHR '':'' \<notin> set p) plain_pages"
  "list_all (\<lambda>p. p @ ''/:id'' \<in> set (map fst routes) \<and> CHR '':'' \<notin> set p) id_pages"
  "list_all (\<lambda>(p, s). p @ ''/:id/'' @ s \<in> set (map fst routes) \<and> CHR '':'' \<notin> set p \<and> CHR '':'' \<notin> set s) sub_pages"
  by code_simp+

lemma plain_alive: "ranked router \<Longrightarrow> list_all (alive router) plain_pages"
  using linked_pages(1) alive_literal [of router] unfolding list_all_iff set_map by blast

lemma id_alive: "ranked router \<Longrightarrow> list_all (\<lambda>p. \<forall>k. alive router (p @ ''/'' @ show_int k)) id_pages"
  using linked_pages(2) alive_id [of router] unfolding list_all_iff set_map by blast

lemma sub_alive: "ranked router \<Longrightarrow> list_all (\<lambda>(p, s). \<forall>k. alive router (p @ ''/'' @ show_int k @ ''/'' @ s)) sub_pages"
  using linked_pages(3) alive_under [of router] unfolding list_all_iff set_map by fastforce

text \<open>The same, one rule per page.\<close>

lemmas pages_alive = plain_alive [unfolded plain_pages_def list.pred_inject]
  id_alive [unfolded id_pages_def list.pred_inject append.simps] sub_alive [unfolded sub_pages_def list.pred_inject prod.case append.simps]

text \<open>The entry of a matched line may have no id; the address then names no entry, but has the form
  of the page of one.\<close>

lemma alive_null_entry: "ranked router \<Longrightarrow> alive router ''/journal-entries/null''"
proof -
  assume r: "ranked router"
  have "path_matches ''/journal-entries/:id'' ''/journal-entries/null''" by code_simp
  moreover have "(''/journal-entries/:id'', Page ''JournalEntryDetail'' None) \<in> set routes" by code_simp
  ultimately show ?thesis using alive_match [OF r] by fastforce
qed

section \<open>Screens that may not render\<close>

definition shown_alive :: "(route list \<Rightarrow> string \<Rightarrow> page) \<Rightarrow> 'e element list option \<Rightarrow> bool" where
  "shown_alive router x \<longleftrightarrow> (case x of None \<Rightarrow> True | Some els \<Rightarrow> links_alive router els)"

lemma shown_alive_simps [simp]:
  "shown_alive router None" "shown_alive router (Some els) = links_alive router els"
  "shown_alive router (Option.bind m f) \<longleftrightarrow> (\<forall>x. m = Some x \<longrightarrow> shown_alive router (f x))"
  by (simp_all add: shown_alive_def split: bind_split)

section \<open>Banking and stock\<close>

lemma no_links [simp]:
  "links_alive router (bank_summary_view st)" "links_alive router (entry_view s)" "links_alive router (posting_view d m)"
  "links_alive router (stock_fields_view sf)" "links_alive router (statement_fields_view bf form)"
  by (simp_all add: bank_summary_view_def entry_view_def posting_view_def stock_fields_view_def statement_fields_view_def)

lemma bank_links:
  assumes "ranked router"
  shows "links_alive router (bank_statements_view bs)" "links_alive router (bank_form_view route bf)"
    "links_alive router (bank_detail_view k adm bd)"
proof -
  note p = pages_alive [OF assms] alive_null_entry [OF assms]
  show "links_alive router (bank_statements_view bs)"
    using p by (auto simp: bank_statements_view_def intro!: links_alive_map split: option.split list.split)
  show "links_alive router (bank_form_view route bf)"
    using p by (auto simp: bank_form_view_def split: option.split)
  have c: "links_alive router (picker_view bd l)" for l
    using p by (auto simp: picker_view_def candidate_view_def Let_def links_alive_concat)
  have l: "links_alive router (line_rows_view bd st l)" for st l
    using p c by (auto simp: line_rows_view_def Let_def split: option.split)
  have a: "links_alive router (bank_actions_view k adm bd st)" for st
    using p by (auto simp: bank_actions_view_def)
  show "links_alive router (bank_detail_view k adm bd)"
    using p l a by (auto simp: bank_detail_view_def links_alive_concat split: option.split)
qed

lemma stock_links:
  assumes "ranked router"
  shows "links_alive router (stock_movements_view sms)" "links_alive router (stock_form_view e sf)"
    "links_alive router (stock_detail_view k adm sd)"
proof -
  note p = pages_alive [OF assms]
  show "links_alive router (stock_movements_view sms)"
    using p by (auto simp: stock_movements_view_def intro!: links_alive_map split: option.split list.split)
  show "links_alive router (stock_form_view e sf)" using p by (auto simp: stock_form_view_def split: option.split)
  have h: "links_alive router (stock_header_view k sd m)" for m
    using p by (auto simp: stock_header_view_def Let_def split: option.split)
  show "links_alive router (stock_detail_view k adm sd)"
    using p h by (auto simp: stock_detail_view_def split: option.split)
qed

section \<open>The calendar\<close>

lemma calendar_links:
  assumes "ranked router"
  shows "links_alive router (periods_view adm ps)" "links_alive router (year_form_view route yf)"
    "links_alive router (period_form_view route pf)" "links_alive router (year_close_view yc)"
proof -
  note p = pages_alive [OF assms]
  have y: "links_alive router (fiscal_year_view adm ps periods fy)" for periods fy
    using p by (auto simp: fiscal_year_view_def period_row_view_def Let_def links_alive_concat)
  show "links_alive router (periods_view adm ps)"
    using p y by (auto simp: periods_view_def links_alive_concat split: option.split)
  show "links_alive router (year_form_view route yf)" using p by (auto simp: year_form_view_def split: option.split)
  show "links_alive router (period_form_view route pf)"
    using p by (auto simp: period_form_view_def period_fields_view_def split: option.split)
  show "links_alive router (year_close_view yc)"
    using p by (auto simp: year_close_view_def close_form_view_def split: option.split)
qed

section \<open>Reports and the landing screen\<close>

lemma status_links [simp]: "links_alive router (status_view what s)" "links_alive router (range_fields q)"
  by (auto simp: status_view_def range_fields_def split: option.split)

lemma report_links:
  assumes "ranked router"
  shows "shown_alive router (ProfitAndLoss r1)" "shown_alive router (BalanceSheetReport r2)"
    "shown_alive router (CashFlowStatement r3)" "shown_alive router (AccountLedger r4)" "shown_alive router (TrialBalance r5)"
    "shown_alive router (AgingReport a r6)" "shown_alive router (InventoryValuation r7)" "shown_alive router (JournalEntryDetail r8)"
proof -
  note p = pages_alive [OF assms]
  show "shown_alive router (ProfitAndLoss r1)"
    by (auto simp: ProfitAndLoss_def pl_section_def Let_def split: option.split list.split)
  show "shown_alive router (BalanceSheetReport r2)"
    by (auto simp: BalanceSheetReport_def bs_section_def Let_def split: option.split)
  show "shown_alive router (CashFlowStatement r3)"
    by (auto simp: CashFlowStatement_def cf_section_def Let_def split: option.split)
  have t: "links_alive router els" if "ledger_table rws bs = Some els" for rws bs els
    using that p by (auto simp: ledger_table_def bind_eq_Some_conv intro!: links_alive_map)
  show "shown_alive router (AccountLedger r4)"
  proof (cases "rp_data r4")
    case None
    then show ?thesis using p by (simp add: AccountLedger_def)
  next
    case (Some d)
    then show ?thesis
      using p by (cases d) (auto simp: AccountLedger_def dest!: t split: if_splits)
  qed
  show "shown_alive router (TrialBalance r5)"
    using p by (auto simp: TrialBalance_def bind_eq_Some_conv intro!: links_alive_map split: option.splits list.splits)
  show "shown_alive router (AgingReport a r6)"
    by (auto simp: AgingReport_def bind_eq_Some_conv split: option.splits list.splits)
  show "shown_alive router (InventoryValuation r7)"
    by (auto simp: InventoryValuation_def bind_eq_Some_conv split: option.splits list.splits)
  show "shown_alive router (JournalEntryDetail r8)"
    using p by (auto simp: JournalEntryDetail_def bind_eq_Some_conv intro!: links_alive_map split: option.splits)
qed

lemma dashboard_links:
  assumes "ranked router"
  shows "shown_alive router (Dashboard cmp by_due clock r)"
proof -
  note p = pages_alive [OF assms]
  have cards: "links_alive router (StatCard l xs os)" "links_alive router (CountCard l n d)" for l xs os n d
    by (auto simp: StatCard_def CountCard_def intro!: links_alive_map)
  have "links_alive router (overdue_list names ds)" "links_alive router (coming_due_list names ds)" for names ds
    using p by (auto simp: overdue_list_def coming_due_list_def AttentionList_def Let_def intro!: links_alive_map)
  moreover have "links_alive router quick_actions" using p by (simp add: quick_actions_def)
  ultimately have "links_alive router els" if "DashboardBody cmp by_due clock data = Some els" for data els
    using that cards by (auto simp: DashboardBody_def Let_def bind_eq_Some_conv)
  then show ?thesis by (auto simp: Dashboard_def split: option.splits)
qed

section \<open>Master data\<close>

lemma frame_links:
  assumes "alive router (snd new)" "\<And>d r. rp_data s = Some d \<Longrightarrow> r \<in> set (table d) \<Longrightarrow> alive router (snd r)"
  shows "links_alive router (list_frame title new what message headers table s)"
  using assms by (auto simp: list_frame_def intro!: links_alive_map split: option.split)

lemma list_page_links:
  assumes "ranked router"
  shows "links_alive router (Customers l1)" "links_alive router (Suppliers l2)" "links_alive router (Organizations l3)"
    "links_alive router (Products l4)" "links_alive router (Warehouses l5)" "links_alive router (ChartOfAccounts l6)"
    "links_alive router (Users l7)"
  unfolding Customers_def Suppliers_def Organizations_def Products_def Warehouses_def ChartOfAccounts_def Users_def
  by (rule frame_links;
      use pages_alive [OF assms] in \<open>auto simp: customer_cells_def supplier_cells_def organization_cells_def product_cells_def
        warehouse_cells_def account_cells_def user_cells_def\<close>)+

text \<open>The lists whose rows have codes for keys, none of them empty.\<close>

definition rows_named :: "(unit, 'd) report \<Rightarrow> ('d \<Rightarrow> 'r list) \<Rightarrow> ('r \<Rightarrow> string) \<Rightarrow> bool" where
  "rows_named s rws key \<longleftrightarrow> (case rp_data s of None \<Rightarrow> True | Some d \<Rightarrow> list_all (\<lambda>r. key r \<noteq> []) (rws d))"

lemma code_list_links:
  assumes "ranked router"
  shows "rows_named l8 (\<lambda>ts. ts) tc_code \<Longrightarrow> links_alive router (TaxCodes l8)"
    "rows_named l9 (\<lambda>ts. ts) pt_code \<Longrightarrow> links_alive router (PaymentTerms l9)"
    "rows_named l10 fst xr_currency_code \<Longrightarrow> rows_named l10 fst xr_rate_date \<Longrightarrow> links_alive router (ExchangeRates l10)"
proof -
  note p = pages_alive [OF assms]
  have t: "alive router (snd (tax_code_cells t))" if "tc_code t \<noteq> []" for t
    using code_pages(1) [OF assms that] by (simp add: alive_def tax_code_cells_def)
  have m: "alive router (snd (payment_term_cells t))" if "pt_code t \<noteq> []" for t
    using code_pages(2) [OF assms that] by (simp add: alive_def payment_term_cells_def)
  have r: "alive router (snd (rate_cells x))" if "xr_currency_code x \<noteq> []" "xr_rate_date x \<noteq> []" for x
    using rate_page [OF assms that] by (simp add: alive_def rate_cells_def)
  show "rows_named l8 (\<lambda>ts. ts) tc_code \<Longrightarrow> links_alive router (TaxCodes l8)"
    unfolding TaxCodes_def by (rule frame_links) (use p t in \<open>auto simp: rows_named_def list_all_iff\<close>)
  show "rows_named l9 (\<lambda>ts. ts) pt_code \<Longrightarrow> links_alive router (PaymentTerms l9)"
    unfolding PaymentTerms_def by (rule frame_links) (use p m in \<open>auto simp: rows_named_def list_all_iff\<close>)
  show "rows_named l10 fst xr_currency_code \<Longrightarrow> rows_named l10 fst xr_rate_date \<Longrightarrow> links_alive router (ExchangeRates l10)"
    unfolding ExchangeRates_def by (rule frame_links) (use p r in \<open>auto simp: rows_named_def list_all_iff\<close>)
qed

lemma form_frame_links:
  "alive router (snd back) \<Longrightarrow> (\<And>v. links_alive router (inputs v)) \<Longrightarrow> links_alive router extra \<Longrightarrow>
    links_alive router (form_frame title back creating blocked inputs extra f)"
  by (auto simp: form_frame_def split: option.split)

lemma field_links [simp]:
  "links_alive router (warehouse_fields_view wv)" "links_alive router (term_fields_view c tv)"
  "links_alive router (tax_code_fields_view c accounts xv)" "links_alive router (organization_fields_view ov)"
  "links_alive router (rate_fields_view c base rv)" "links_alive router (account_fields_view accounts av)"
  "links_alive router (product_fields_view accounts codes pv)" "links_alive router (customer_fields_view c cf cv)"
  "links_alive router (supplier_fields_view c sf sv)" "links_alive router (user_fields_view c uv)"
  "links_alive router (reset_view uf)"
  by (auto simp: warehouse_fields_view_def term_fields_view_def tax_code_fields_view_def code_field_def
      organization_fields_view_def rate_fields_view_def account_fields_view_def product_fields_view_def AccountSelect_def
      customer_fields_view_def customer_org_view_def supplier_fields_view_def supplier_org_view_def user_fields_view_def
      reset_view_def PasswordInput_def split: option.split)

lemma form_page_links:
  assumes "ranked router"
  shows "links_alive router (WarehouseForm k wrf)" "links_alive router (OrganizationForm k gf)"
    "links_alive router (AccountForm k af)" "links_alive router (ProductForm k pf)" "links_alive router (CustomerForm k cf)"
    "links_alive router (SupplierForm k sf)" "links_alive router (UserForm k uf)" "links_alive router (PaymentTermForm k tf)"
    "links_alive router (TaxCodeForm k xf)" "links_alive router (ExchangeRateForm q rf)"
    "links_alive router (settings_view user ss)"
proof -
  note p = pages_alive [OF assms]
  show "links_alive router (WarehouseForm k wrf)" "links_alive router (OrganizationForm k gf)"
    "links_alive router (AccountForm k af)" "links_alive router (ProductForm k pf)" "links_alive router (CustomerForm k cf)"
    "links_alive router (SupplierForm k sf)" "links_alive router (UserForm k uf)" "links_alive router (PaymentTermForm k tf)"
    "links_alive router (TaxCodeForm k xf)" "links_alive router (ExchangeRateForm q rf)"
    unfolding WarehouseForm_def OrganizationForm_def AccountForm_def ProductForm_def CustomerForm_def SupplierForm_def
      UserForm_def PaymentTermForm_def TaxCodeForm_def ExchangeRateForm_def
    by (rule form_frame_links; simp add: p)+
  show "links_alive router (settings_view user ss)"
    using p by (auto simp: settings_view_def Let_def split: option.split)
qed

end
