(* ===== verification/Payment_Form.thy ===== *)
theory Payment_Form
  imports Draft_Form
begin

text \<open>
  The forms of customer and supplier payments (\<open>web/src/components/payment-form.tsx\<close>): one
  component with the party options, the calls and the texts of its kind as properties; its load,
  handlers, submission and screen, with the contracts of a submission and of an edit form.
\<close>

section \<open>The two forms\<close>

record PaymentFields =
  pfl_partyId :: int
  pfl_date :: string
  pfl_currency :: string
  pfl_amount :: string
  pfl_method :: "string option"
  pfl_reference :: "string option"
  pfl_accountId :: "int option"

definition customerOptions :: "('w, PartyOption list) call" where
  "customerOptions = map_io (\<lambda>(customers, orgs).
     map (\<lambda>c. \<lparr>opt_id = cust_id c, opt_name = party_name orgs (cust_organization_id c) (cust_id c),
       opt_currency = cust_currency_code c\<rparr>) (filter cust_is_active customers))
     (both_io listCustomers listOrganizations)"

definition supplierOptions :: "('w, PartyOption list) call" where
  "supplierOptions = map_io (\<lambda>(suppliers, orgs).
     map (\<lambda>s. \<lparr>opt_id = supp_id s, opt_name = party_name orgs (supp_organization_id s) (supp_id s),
       opt_currency = supp_currency_code s\<rparr>) (filter supp_is_active suppliers))
     (both_io listSuppliers listOrganizations)"

definition customer_payment_input :: "PaymentFields \<Rightarrow> CustomerPaymentInput" where
  "customer_payment_input f = \<lparr>cpi_customer_id = pfl_partyId f, cpi_payment_date = pfl_date f,
     cpi_currency_code = pfl_currency f, cpi_amount = pfl_amount f, cpi_method = pfl_method f,
     cpi_reference = pfl_reference f, cpi_deposit_account_id = pfl_accountId f\<rparr>"

definition supplier_payment_input :: "PaymentFields \<Rightarrow> SupplierPaymentInput" where
  "supplier_payment_input f = \<lparr>spi_supplier_id = pfl_partyId f, spi_payment_date = pfl_date f,
     spi_currency_code = pfl_currency f, spi_amount = pfl_amount f, spi_method = pfl_method f,
     spi_reference = pfl_reference f, spi_payment_account_id = pfl_accountId f\<rparr>"

definition saveCustomerFields :: "int option \<Rightarrow> PaymentFields \<Rightarrow> ('w, int) call" where
  "saveCustomerFields editId f = (case editId of
       Some k \<Rightarrow> map_io (\<lambda>_. k) (updateCustomerPayment k (customer_payment_input f))
     | None \<Rightarrow> createCustomerPayment (customer_payment_input f))"

definition saveSupplierFields :: "int option \<Rightarrow> PaymentFields \<Rightarrow> ('w, int) call" where
  "saveSupplierFields editId f = (case editId of
       Some k \<Rightarrow> map_io (\<lambda>_. k) (updateSupplierPayment k (supplier_payment_input f))
     | None \<Rightarrow> createSupplierPayment (supplier_payment_input f))"

record 'w payment_props =
  pmp_title :: string
  pmp_description :: string
  pmp_partyLabel :: string
  pmp_accountLabel :: string
  pmp_basePath :: string
  pmp_fetchParties :: "('w, PartyOption list) call"
  pmp_fetchPayment :: "int \<Rightarrow> ('w, Payment) call"
  pmp_save :: "int option \<Rightarrow> PaymentFields \<Rightarrow> ('w, int) call"

definition CustomerPaymentForm :: "bool \<Rightarrow> 'w payment_props" where
  "CustomerPaymentForm editing = \<lparr>
     pmp_title = (if editing then ''Edit Customer Payment'' else ''New Customer Payment''),
     pmp_description = ''Records money received -- post it to the ledger from the payment page, ''
       @ ''then apply it to open invoices.'',
     pmp_partyLabel = ''Customer'', pmp_accountLabel = ''Deposit Account'',
     pmp_basePath = ''/customer-payments'', pmp_fetchParties = customerOptions,
     pmp_fetchPayment = getCustomerPayment, pmp_save = saveCustomerFields\<rparr>"

definition SupplierPaymentForm :: "bool \<Rightarrow> 'w payment_props" where
  "SupplierPaymentForm editing = \<lparr>
     pmp_title = (if editing then ''Edit Supplier Payment'' else ''New Supplier Payment''),
     pmp_description = ''Records money paid out -- post it to the ledger from the payment page, ''
       @ ''then apply it to open bills.'',
     pmp_partyLabel = ''Supplier'', pmp_accountLabel = ''Payment Account'',
     pmp_basePath = ''/supplier-payments'', pmp_fetchParties = supplierOptions,
     pmp_fetchPayment = getSupplierPayment, pmp_save = saveSupplierFields\<rparr>"

section \<open>State and loading\<close>

record PaymentForm =
  pf_parties :: "PartyOption list"
  pf_accounts :: "Account list"
  pf_error :: "string option"
  pf_loaded :: bool
  pf_partyId :: string
  pf_date :: string
  pf_amount :: string
  pf_currency :: string
  pf_method :: string
  pf_reference :: string
  pf_accountId :: string
  pf_saving :: bool
  pf_saveError :: "string option"
  pf_navigated :: "string option"

definition payment_init :: "string \<Rightarrow> PaymentForm" where
  "payment_init utc_date = \<lparr>pf_parties = [], pf_accounts = [], pf_error = None, pf_loaded = False,
     pf_partyId = [], pf_date = utc_date, pf_amount = [], pf_currency = [], pf_method = NONE,
     pf_reference = [], pf_accountId = NONE, pf_saving = False, pf_saveError = None,
     pf_navigated = None\<rparr>"

type_synonym payment_data = "PartyOption list \<times> Account list \<times> Payment option"

definition load_payment_form :: "'w payment_props \<Rightarrow> int option \<Rightarrow> ('w, payment_data) call" where
  "load_payment_form p editId = both_io (pmp_fetchParties p)
     (both_io listAccounts (optional_io (pmp_fetchPayment p) editId))"

definition payment_loaded :: "bool \<Rightarrow> exn + payment_data \<Rightarrow> PaymentForm \<Rightarrow> PaymentForm" where
  "payment_loaded cancelled result f = (case result of
       Inl err \<Rightarrow> if cancelled then f else f\<lparr>pf_error := Some (error_message err)\<rparr>
     | Inr (partyOptions, accts, payment) \<Rightarrow>
         if cancelled then f
         else
           let f = f\<lparr>pf_parties := partyOptions, pf_accounts := accts\<rparr> in
           (case payment of
              None \<Rightarrow> f\<lparr>pf_loaded := True\<rparr>
            | Some payment \<Rightarrow>
                if pay_status payment \<noteq> ''draft''
                then f\<lparr>pf_error := Some ''Only draft payments can be edited.''\<rparr>
                else f\<lparr>pf_partyId := show_int (pay_party_id payment), pf_date := pay_date payment,
                  pf_amount := trimAmount (pay_amount payment),
                  pf_currency := pay_currency_code payment,
                  pf_method := code_select (pay_method payment),
                  pf_reference := or_empty (pay_reference payment),
                  pf_accountId := id_select (pay_account_id payment), pf_loaded := True\<rparr>))"

section \<open>Handlers and submission\<close>

definition choosePaymentParty :: "string \<Rightarrow> PaymentForm \<Rightarrow> PaymentForm" where
  "choosePaymentParty value f =
     (let f = f\<lparr>pf_partyId := value\<rparr> in
      case find (\<lambda>p. show_int (opt_id p) = value) (pf_parties f) of
        None \<Rightarrow> f
      | Some p \<Rightarrow> if truthy (opt_currency p) \<and> trim (pf_currency f) = []
          then f\<lparr>pf_currency := or_empty (opt_currency p)\<rparr> else f)"

definition payment_fields :: "PaymentForm \<Rightarrow> PaymentFields" where
  "payment_fields f = \<lparr>pfl_partyId = id_of (pf_partyId f), pfl_date = pf_date f,
     pfl_currency = toUpperCase (trim (pf_currency f)), pfl_amount = trim (pf_amount f),
     pfl_method = code_or_null (pf_method f), pfl_reference = emptyToNull (pf_reference f),
     pfl_accountId = id_or_null (pf_accountId f)\<rparr>"

definition submitPayment :: "'w payment_props \<Rightarrow> int option \<Rightarrow> PaymentForm \<Rightarrow> ('w, payload, body) browser
    \<Rightarrow> PaymentForm \<times> ('w, payload, body) browser" where
  "submitPayment p editId f b =
     (if pf_partyId f = []
      then (f\<lparr>pf_saveError := Some (''Please choose a '' @ toLowerCase (pmp_partyLabel p) @ ''.'')\<rparr>, b)
      else
        let fields = payment_fields f; f = f\<lparr>pf_saving := True, pf_saveError := None\<rparr> in
        case pmp_save p editId fields b of
          (Inr docId, b) \<Rightarrow> (f\<lparr>pf_navigated := Some (pmp_basePath p @ ''/'' @ show_int docId)\<rparr>, b)
        | (Inl err, b) \<Rightarrow> (f\<lparr>pf_saving := False, pf_saveError := Some (save_message err)\<rparr>, b))"

section \<open>The screen\<close>

datatype payment_event = Pick_Party string | Type_Date string | Type_Amount string
  | Type_Currency string | Pick_Method string | Type_Reference string | Pick_Account string
  | Save_Payment

definition payment_fields_view :: "'w payment_props \<Rightarrow> PaymentForm \<Rightarrow> payment_event element list" where
  "payment_fields_view p f =
     [Select ''party'' (pmp_partyLabel p) (pf_partyId f)
        (map (\<lambda>q. (show_int (opt_id q), opt_name q)) (pf_parties f)) Pick_Party,
      Field ''date'' ''Payment Date'' True (pf_date f) Type_Date,
      Field ''amount'' ''Amount'' True (pf_amount f) Type_Amount,
      Field ''currency'' ''Currency'' True (pf_currency f) Type_Currency,
      Select ''method'' ''Method'' (pf_method f)
        ((NONE, ''None'') # map (\<lambda>m. (m, m)) PAYMENT_METHODS) Pick_Method,
      Field ''reference'' ''Reference'' False (pf_reference f) Type_Reference,
      Select ''account'' (pmp_accountLabel p) (pf_accountId f)
        ((NONE, ''None'') # map (\<lambda>a. (show_int (acc_id a),
          acc_code a @ '' '' @ em_dash @ '' '' @ acc_name a)) (pf_accounts f)) Pick_Account,
      Note ''Required before the payment can be posted.'']"

definition payment_view :: "'w payment_props \<Rightarrow> int option \<Rightarrow> PaymentForm \<Rightarrow> payment_event element list" where
  "payment_view p editId f =
     [Heading (pmp_title p), Note (pmp_description p)]
     @ (case pf_error f of None \<Rightarrow> [] | Some e \<Rightarrow> [Alert e, Link ''Back'' (pmp_basePath p)])
     @ guarded (pf_error f = None \<and> \<not> pf_loaded f) [Note ''Loading...'']
     @ guarded (pf_error f = None \<and> pf_loaded f)
         (payment_fields_view p f
          @ (case pf_saveError f of None \<Rightarrow> [] | Some e \<Rightarrow> [Alert (''Failed to save: '' @ e)])
          @ [Button (if pf_saving f then ''Saving...''
               else if editId \<noteq> None then ''Save changes'' else ''Create draft'') (pf_saving f) Save_Payment,
             Link ''Cancel'' (case editId of
               Some k \<Rightarrow> pmp_basePath p @ ''/'' @ show_int k | None \<Rightarrow> pmp_basePath p)])"

fun payment_step :: "'w payment_props \<Rightarrow> int option \<Rightarrow> payment_event
    \<Rightarrow> PaymentForm \<times> ('w, payload, body) browser \<Rightarrow> PaymentForm \<times> ('w, payload, body) browser" where
  "payment_step p k (Pick_Party v) (f, b) = (choosePaymentParty v f, b)"
| "payment_step p k (Type_Date v) (f, b) = (f\<lparr>pf_date := v\<rparr>, b)"
| "payment_step p k (Type_Amount v) (f, b) = (f\<lparr>pf_amount := v\<rparr>, b)"
| "payment_step p k (Type_Currency v) (f, b) = (f\<lparr>pf_currency := v\<rparr>, b)"
| "payment_step p k (Pick_Method v) (f, b) = (f\<lparr>pf_method := v\<rparr>, b)"
| "payment_step p k (Type_Reference v) (f, b) = (f\<lparr>pf_reference := v\<rparr>, b)"
| "payment_step p k (Pick_Account v) (f, b) = (f\<lparr>pf_accountId := v\<rparr>, b)"
| "payment_step p k Save_Payment (f, b) = submitPayment p k f b"

definition payment_move :: "'w payment_props \<Rightarrow> int option \<Rightarrow> PaymentForm \<times> ('w, payload, body) browser
    \<Rightarrow> PaymentForm \<times> ('w, payload, body) browser \<Rightarrow> bool" where
  "payment_move p k = form_move (load_payment_form p k) payment_loaded
     (\<lambda>f. offers (payment_view p k f)) (payment_step p k)"

section \<open>The contracts\<close>

definition payment_problem :: "string \<Rightarrow> PaymentForm \<Rightarrow> string option" where
  "payment_problem partyLabel f =
     (if pf_partyId f = [] then Some (''Please choose a '' @ toLowerCase partyLabel @ ''.'') else None)"

definition payment_kept :: "PaymentForm \<Rightarrow> PaymentForm" where
  "payment_kept f = f\<lparr>pf_saving := False, pf_saveError := None, pf_navigated := None\<rparr>"

definition customer_payment_request :: "int option \<Rightarrow> PaymentFields \<Rightarrow> payload request" where
  "customer_payment_request k f =
     (let p = Document_Payload (CustomerPaymentInput_Payload (customer_payment_input f)) in
      case k of Some n \<Rightarrow> body_request ''PUT'' (''/customer-payments/'' @ show_int n) p
      | None \<Rightarrow> body_request ''POST'' ''/customer-payments'' p)"

definition supplier_payment_request :: "int option \<Rightarrow> PaymentFields \<Rightarrow> payload request" where
  "supplier_payment_request k f =
     (let p = Document_Payload (SupplierPaymentInput_Payload (supplier_payment_input f)) in
      case k of Some n \<Rightarrow> body_request ''PUT'' (''/supplier-payments/'' @ show_int n) p
      | None \<Rightarrow> body_request ''POST'' ''/supplier-payments'' p)"

lemma save_fields_saves:
  "saves (accepted k id_content) (saveCustomerFields k f) (customer_payment_request k f)"
  "saves (accepted k id_content) (saveSupplierFields k f) (supplier_payment_request k f)"
  by (cases k; simp add: saveCustomerFields_def saveSupplierFields_def customer_payment_request_def
      supplier_payment_request_def Let_def updateCustomerPayment_def createCustomerPayment_def
      updateSupplierPayment_def createSupplierPayment_def saving_calls)+

lemma payment_form_submit:
  fixes p :: "'w payment_props"
  assumes "\<And>f. saves accepts (pmp_save p k f) (rq f)"
  shows "form_submit (submitPayment p k) (payment_problem (pmp_partyLabel p)) (\<lambda>f. rq (payment_fields f))
    accepts payment_kept pf_saving pf_saveError pf_navigated"
proof unfold_locales
  fix f m e and b :: "('w, payload, body) browser"
  note s = assms [of "payment_fields f"] and d = submitPayment_def payment_problem_def Let_def
  let ?r = "submitPayment p k f b" and ?q = "rq (payment_fields f)"
  show "payment_problem (pmp_partyLabel p) f = Some m \<Longrightarrow> snd ?r = b \<and> pf_saveError (fst ?r) = Some m
      \<and> pf_saving (fst ?r) = pf_saving f \<and> pf_navigated (fst ?r) = pf_navigated f"
    by (auto simp: d split: if_splits)
  show "payment_kept (fst ?r) = payment_kept f"
    by (simp add: d payment_kept_def split: prod.split sum.split)
  show "payment_problem (pmp_partyLabel p) f = None \<Longrightarrow> snd ?r = after_exchange ?q b"
    using saves_state [OF s, of b] by (auto simp: d split: if_splits prod.splits sum.splits)
  show "payment_problem (pmp_partyLabel p) f = None \<Longrightarrow> failed_with accepts (reply_to ?q b) = None \<Longrightarrow> pf_navigated (fst ?r) \<noteq> None \<and> pf_saveError (fst ?r) = None
        \<and> pf_saving (fst ?r)"
    using saves_ok [OF s, of b] by (auto simp: d split: if_splits)
  show "payment_problem (pmp_partyLabel p) f = None \<Longrightarrow>
      failed_with accepts (reply_to ?q b) = Some e \<Longrightarrow>
      pf_navigated (fst ?r) = pf_navigated f \<and> pf_saveError (fst ?r) = Some (save_message e) \<and> \<not> pf_saving (fst ?r)"
    using saves_fails [OF s, of b e]
    by (auto simp: d split: if_splits)
qed

lemma payment_forms:
  "pmp_save (CustomerPaymentForm ed) k = saveCustomerFields k" "pmp_partyLabel (CustomerPaymentForm ed) = ''Customer''"
  "pmp_save (SupplierPaymentForm ed) k = saveSupplierFields k" "pmp_partyLabel (SupplierPaymentForm ed) = ''Supplier''"
  by (simp_all add: CustomerPaymentForm_def SupplierPaymentForm_def)

interpretation customer_payment_form: form_submit "submitPayment (CustomerPaymentForm ed) k"
    "payment_problem ''Customer''" "\<lambda>f. customer_payment_request k (payment_fields f)"
    "accepted k id_content" payment_kept pf_saving pf_saveError pf_navigated for ed k
  using payment_form_submit [of "accepted k id_content" "CustomerPaymentForm ed" k "customer_payment_request k"]
  by (simp add: payment_forms save_fields_saves)

interpretation supplier_payment_form: form_submit "submitPayment (SupplierPaymentForm ed) k"
    "payment_problem ''Supplier''" "\<lambda>f. supplier_payment_request k (payment_fields f)"
    "accepted k id_content" payment_kept pf_saving pf_saveError pf_navigated for ed k
  using payment_form_submit [of "accepted k id_content" "SupplierPaymentForm ed" k "supplier_payment_request k"]
  by (simp add: payment_forms save_fields_saves)

definition payment_locked :: "payment_data \<Rightarrow> bool" where
  "payment_locked data = (case snd (snd data) of Some q \<Rightarrow> pay_status q \<noteq> ''draft'' | None \<Rightarrow> False)"

definition initial_payment :: "PaymentForm \<Rightarrow> bool" where
  "initial_payment f \<longleftrightarrow> (\<exists>date. f = payment_init date)"

definition is_payment_form :: "'w payment_props \<Rightarrow> bool" where
  "is_payment_form p \<longleftrightarrow> (\<exists>ed. p = CustomerPaymentForm ed \<or> p = SupplierPaymentForm ed)"

lemma load_payment_form_reads: "is_payment_form p \<Longrightarrow> reads_only (load_payment_form p k)"
  unfolding load_payment_form_def
  by (intro reads_only_both reads_only_optional)
    (auto simp: is_payment_form_def CustomerPaymentForm_def SupplierPaymentForm_def getCustomerPayment_def
      getSupplierPayment_def customerOptions_def supplierOptions_def listCustomers_def listSuppliers_def
      listOrganizations_def listAccounts_def intro!: reading)

lemma payment_edit_form:
  assumes "is_payment_form p"
  shows "edit_form (load_payment_form p k) payment_loaded (\<lambda>f. offers (payment_view p k f))
    initial_payment pf_loaded payment_locked"
proof unfold_locales
  fix f :: PaymentForm and r c e
  show "reads_only (load_payment_form p k)" by (rule load_payment_form_reads [OF assms])
  show "\<not> pf_loaded f \<Longrightarrow> (\<And>data. r = Inr data \<Longrightarrow> payment_locked data) \<Longrightarrow> \<not> pf_loaded (payment_loaded c r f)"
    by (auto simp: payment_loaded_def payment_locked_def Let_def split: sum.splits option.splits)
  show "\<not> pf_loaded f \<Longrightarrow> \<not> offers (payment_view p k f) e"
    by (auto simp: payment_view_def split: option.splits)
  show "initial_payment f \<Longrightarrow> \<not> pf_loaded f" by (auto simp: initial_payment_def payment_init_def)
qed

interpretation customer_payment_edit: edit_form "load_payment_form (CustomerPaymentForm ed :: 'w payment_props) k"
    payment_loaded "\<lambda>f. offers (payment_view (CustomerPaymentForm ed :: 'w payment_props) k f)"
    "payment_step (CustomerPaymentForm ed :: 'w payment_props) k" initial_payment pf_loaded payment_locked for ed k
  by (rule payment_edit_form) (auto simp: is_payment_form_def)

interpretation supplier_payment_edit: edit_form "load_payment_form (SupplierPaymentForm ed :: 'w payment_props) k"
    payment_loaded "\<lambda>f. offers (payment_view (SupplierPaymentForm ed :: 'w payment_props) k f)"
    "payment_step (SupplierPaymentForm ed :: 'w payment_props) k" initial_payment pf_loaded payment_locked for ed k
  by (rule payment_edit_form) (auto simp: is_payment_form_def)

text \<open>A payment that is posted is never written by its edit form.\<close>

lemma locked_payment_untouched:
  fixes p :: "'w payment_props"
  assumes "is_payment_form p" "always_loads net (load_payment_form p (Some n)) payment_locked"
    and "reachable (fresh_on net initial_payment) (payment_move p (Some n)) (f, b)"
  shows "list_all (\<lambda>rq. rq_method rq = ''GET'') (sent b) \<and> \<not> offers (payment_view p (Some n) f) Save_Payment"
proof -
  from assms(1) consider ed where "p = CustomerPaymentForm ed" | ed where "p = SupplierPaymentForm ed"
    by (auto simp: is_payment_form_def)
  then show ?thesis
  proof cases
    case 1
    show ?thesis
      using customer_payment_edit.untouched [OF assms(2,3) [unfolded payment_move_def 1]] by (simp add: 1)
  next
    case 2
    show ?thesis
      using supplier_payment_edit.untouched [OF assms(2,3) [unfolded payment_move_def 2]] by (simp add: 2)
  qed
qed

section \<open>Properties\<close>

text \<open>A payment as the server stores it.\<close>

definition clean_payment :: "Payment \<Rightarrow> bool" where
  "clean_payment q \<longleftrightarrow> clean (pay_reference q) \<and> pay_method q \<noteq> Some NONE \<and> printed (pay_amount q)
     \<and> toUpperCase (trim (pay_currency_code q)) = pay_currency_code q"

text \<open>Editing a payment changes only what the user edits: opening a draft and saving it at once
  makes one request, the PUT of that payment, with the party, date, currency, method, reference
  and account that were loaded and an amount of the same value, even when the party is no longer
  offered in the select; for customer and for supplier payments.\<close>

theorem payment_edit_roundtrip:
  assumes "pay_status q = ''draft''" "clean_payment q"
    and "f = payment_loaded False (Inr (ps, accts, Some q)) (payment_init date)"
  shows "pf_loaded f \<and> pf_error f = None
    \<and> (\<exists>a. amount_value a = amount_value (pay_amount q)
        \<and> payment_fields f = \<lparr>pfl_partyId = pay_party_id q, pfl_date = pay_date q,
            pfl_currency = pay_currency_code q, pfl_amount = a, pfl_method = pay_method q,
            pfl_reference = pay_reference q, pfl_accountId = pay_account_id q\<rparr>)
    \<and> snd (submitPayment (CustomerPaymentForm ed :: 'w payment_props) (Some n) f b)
        = after_exchange (customer_payment_request (Some n) (payment_fields f)) b
    \<and> snd (submitPayment (SupplierPaymentForm ed :: 'w payment_props) (Some n) f b)
        = after_exchange (supplier_payment_request (Some n) (payment_fields f)) b"
proof -
  have l: "pf_loaded f" "pf_error f = None" "pf_partyId f = show_int (pay_party_id q)"
    using assms(1,3) by (simp_all add: payment_loaded_def payment_init_def)
  have v: "payment_fields f = \<lparr>pfl_partyId = pay_party_id q, pfl_date = pay_date q,
      pfl_currency = pay_currency_code q, pfl_amount = trim (trimAmount (pay_amount q)),
      pfl_method = pay_method q, pfl_reference = pay_reference q, pfl_accountId = pay_account_id q\<rparr>"
    using assms by (simp add: payment_loaded_def payment_init_def payment_fields_def clean_payment_def)
  have a: "amount_value (trim (trimAmount (pay_amount q))) = amount_value (pay_amount q)"
    using assms(2) by (simp add: clean_payment_def printed_input trimAmount_printed)
  have p: "payment_problem ''Customer'' f = None" "payment_problem ''Supplier'' f = None"
    using l(3) by (simp_all add: payment_problem_def)
  have e: "\<exists>a. amount_value a = amount_value (pay_amount q)
        \<and> payment_fields f = \<lparr>pfl_partyId = pay_party_id q, pfl_date = pay_date q,
            pfl_currency = pay_currency_code q, pfl_amount = a, pfl_method = pay_method q,
            pfl_reference = pay_reference q, pfl_accountId = pay_account_id q\<rparr>"
    by (rule exI [of _ "trim (trimAmount (pay_amount q))"]) (simp add: a v)
  show ?thesis
    by (intro conjI l(1,2) e customer_payment_form.sends [OF p(1)] supplier_payment_form.sends [OF p(2)])
qed

definition sample_payment :: Payment where
  "sample_payment = \<lparr>pay_id = 7, pay_party_id = 3, pay_date = ''2024-02-10'',
     pay_currency_code = ''USD'', pay_amount = ''10.0000'', pay_method = Some ''check'',
     pay_reference = None, pay_status = ''draft'', pay_amount_applied = ''0.0000'',
     pay_unapplied = ''10.0000'', pay_journal_entry_id = None, pay_account_id = Some 5\<rparr>"

theorem payment_edit_roundtrip_witness:
  "\<exists>a. amount_value a = amount_value ''10.0000''
    \<and> pfl_amount (payment_fields (payment_loaded False (Inr ([], [], Some sample_payment)) (payment_init []))) = a"
proof -
  have "pay_status sample_payment = ''draft''" "clean_payment sample_payment" by code_simp+
  from conjunct1 [OF conjunct2 [OF conjunct2 [OF payment_edit_roundtrip [OF this refl,
      where ps = "[]" and accts = "[]" and date = "[]"]]]]
  obtain a where a: "amount_value a = amount_value (pay_amount sample_payment)"
    "pfl_amount (payment_fields (payment_loaded False (Inr ([], [], Some sample_payment)) (payment_init []))) = a"
    by force
  have "pay_amount sample_payment = ''10.0000''" by (simp add: sample_payment_def)
  with a show ?thesis by (intro exI [of _ a] conjI) simp_all
qed

end
