(* ===== verification/Payment_List.thy ===== *)
theory Payment_List
  imports Document_List
begin

text \<open>
  The list screen of customer and supplier payments (\<open>web/src/components/payment-list.tsx\<close>) with
  the badge that says how much of a payment has been applied.
\<close>

section \<open>The badge\<close>

text \<open>\<open>None\<close> when the zero test throws, \<open>Some None\<close> for no badge.\<close>

definition AppliedBadge :: "Payment \<Rightarrow> (string \<times> badge) option option" where
  "AppliedBadge payment =
     (if pay_status payment \<noteq> ''posted'' then Some None
      else case isZeroAmount (pay_amount_applied payment) of
        None \<Rightarrow> None
      | Some True \<Rightarrow> Some (Some (''unapplied'', Outline_Badge))
      | Some False \<Rightarrow> (case isZeroAmount (pay_unapplied payment) of
          None \<Rightarrow> None
        | Some True \<Rightarrow> Some (Some (''applied'', Default_Badge))
        | Some False \<Rightarrow> Some (Some (''partial'', Secondary_Badge))))"

definition applied_text :: "Payment \<Rightarrow> string" where
  "applied_text payment = (case AppliedBadge payment of Some (Some (t, _)) \<Rightarrow> t | _ \<Rightarrow> [])"

section \<open>The list\<close>

record 'w payment_list_config =
  plc_title :: string
  plc_description :: string
  plc_partyLabel :: string
  plc_newLabel :: string
  plc_basePath :: string
  plc_emptyMessage :: string
  plc_fetchPayments :: "('w, Payment list) call"
  plc_fetchPartyNames :: "('w, int \<Rightarrow> string option) call"

definition CustomerPayments :: "'w payment_list_config" where
  "CustomerPayments = \<lparr>plc_title = ''Customer Payments'',
     plc_description = ''Money received from customers, newest first.'',
     plc_partyLabel = ''Customer'', plc_newLabel = ''New payment'',
     plc_basePath = ''/customer-payments'', plc_emptyMessage = ''No customer payments yet.'',
     plc_fetchPayments = listCustomerPayments, plc_fetchPartyNames = fetchCustomerNames\<rparr>"

definition SupplierPayments :: "'w payment_list_config" where
  "SupplierPayments = \<lparr>plc_title = ''Supplier Payments'',
     plc_description = ''Money paid to suppliers, newest first.'',
     plc_partyLabel = ''Supplier'', plc_newLabel = ''New payment'',
     plc_basePath = ''/supplier-payments'', plc_emptyMessage = ''No supplier payments yet.'',
     plc_fetchPayments = listSupplierPayments, plc_fetchPartyNames = fetchSupplierNames\<rparr>"

record PaymentList =
  pl_payments :: "Payment list option"
  pl_partyNames :: "int \<Rightarrow> string option"
  pl_error :: "string option"

definition payment_list_init :: PaymentList where
  "payment_list_init = \<lparr>pl_payments = None, pl_partyNames = (\<lambda>_. None), pl_error = None\<rparr>"

definition load_payments :: "'w payment_list_config
    \<Rightarrow> ('w, Payment list \<times> (int \<Rightarrow> string option)) call" where
  "load_payments c = both_io (plc_fetchPayments c) (plc_fetchPartyNames c)"

definition payments_loaded :: "bool \<Rightarrow> exn + Payment list \<times> (int \<Rightarrow> string option)
    \<Rightarrow> PaymentList \<Rightarrow> PaymentList" where
  "payments_loaded cancelled result s = (case result of
       Inr (rws, names) \<Rightarrow> if cancelled then s else s\<lparr>pl_partyNames := names, pl_payments := Some rws\<rparr>
     | Inl err \<Rightarrow> if cancelled then s else s\<lparr>pl_error := Some (error_message err)\<rparr>)"

definition payment_row :: "(int \<Rightarrow> string option) \<Rightarrow> Payment \<Rightarrow> string list" where
  "payment_row names p = [show_int (pay_id p), name_or_id names (pay_party_id p), pay_date p,
     (case pay_method p of Some m \<Rightarrow> m | None \<Rightarrow> em_dash), pay_status p, applied_text p,
     formatAmount (pay_amount p), formatAmount (pay_unapplied p)]"

definition payment_list_view :: "'w payment_list_config \<Rightarrow> PaymentList \<Rightarrow> unit element list" where
  "payment_list_view c s =
     [Heading (plc_title c), Note (plc_description c), Link (plc_newLabel c) (plc_basePath c @ ''/new'')]
     @ (case pl_error s of None \<Rightarrow> [] | Some e \<Rightarrow> [Alert (''Failed to load: '' @ e)])
     @ guarded (pl_error s = None \<and> pl_payments s = None) [Note ''Loading...'']
     @ (case pl_payments s of
          None \<Rightarrow> []
        | Some [] \<Rightarrow> [Note (plc_emptyMessage c)]
        | Some payments \<Rightarrow>
            [Table [''#'', plc_partyLabel c, ''Date'', ''Method'', ''Status'', ''Applied'', ''Amount'',
               ''Unapplied''] (map (payment_row (pl_partyNames s)) payments)]
            @ map (\<lambda>p. Link (show_int (pay_id p)) (plc_basePath c @ ''/'' @ show_int (pay_id p))) payments)"

text \<open>What the badge says, on amounts that are numbers of at most four decimals.\<close>

lemma AppliedBadge_posted:
  assumes "pay_status p = ''posted''" "isZeroAmount (pay_amount_applied p) = Some za"
    and "isZeroAmount (pay_unapplied p) = Some zu"
  shows "applied_text p = (if za then ''unapplied'' else if zu then ''applied'' else ''partial'')"
  using assms by (cases za; cases zu) (simp_all add: applied_text_def AppliedBadge_def)

lemma AppliedBadge_draft: "pay_status p \<noteq> ''posted'' \<Longrightarrow> AppliedBadge p = Some None"
  by (simp add: AppliedBadge_def)

end
