(* ===== verification/Payment_Detail.thy ===== *)
theory Payment_Detail
  imports Payment_List Document_Detail Progress
begin

text \<open>
  The screen of one customer or supplier payment (\<open>web/src/components/payment-detail.tsx\<close>): its
  load, the life-cycle actions with the load that follows them, and what it shows. The actions are
  those of a document (\<open>Document_Detail\<close>).
\<close>

section \<open>The two screens\<close>

record 'w payment_detail_props =
  pdp_titlePrefix :: string
  pdp_basePath :: string
  pdp_documentBasePath :: string
  pdp_documentLabel :: string
  pdp_applyHint :: string
  pdp_fetchPayment :: "int \<Rightarrow> ('w, Payment) call"
  pdp_fetchApplications :: "int \<Rightarrow> ('w, PaymentApplication list) call"
  pdp_fetchPartyNames :: "('w, int \<Rightarrow> string option) call"
  pdp_post :: "int \<Rightarrow> ('w, unit) call"
  pdp_unpost :: "int \<Rightarrow> ('w, unit) call"
  pdp_apply :: "int \<Rightarrow> ('w, unit) call"
  pdp_deletePayment :: "int \<Rightarrow> ('w, unit) call"

definition CustomerPaymentDetail :: "'w payment_detail_props" where
  "CustomerPaymentDetail = \<lparr>pdp_titlePrefix = ''Customer Payment'',
     pdp_basePath = ''/customer-payments'', pdp_documentBasePath = ''/invoices'',
     pdp_documentLabel = ''Invoice'',
     pdp_applyHint = ''Apply allocates the unapplied remainder to the customer''
       @ [CHR 0x27] @ ''s open invoices, oldest first.'',
     pdp_fetchPayment = getCustomerPayment, pdp_fetchApplications = getCustomerPaymentApplications,
     pdp_fetchPartyNames = fetchCustomerNames, pdp_post = ignoring postCustomerPayment,
     pdp_unpost = ignoring unpostCustomerPayment, pdp_apply = ignoring applyCustomerPayment,
     pdp_deletePayment = deleteCustomerPayment\<rparr>"

definition SupplierPaymentDetail :: "'w payment_detail_props" where
  "SupplierPaymentDetail = \<lparr>pdp_titlePrefix = ''Supplier Payment'',
     pdp_basePath = ''/supplier-payments'', pdp_documentBasePath = ''/bills'',
     pdp_documentLabel = ''Bill'',
     pdp_applyHint = ''Apply allocates the unapplied remainder to the supplier''
       @ [CHR 0x27] @ ''s open bills, oldest first.'',
     pdp_fetchPayment = getSupplierPayment, pdp_fetchApplications = getSupplierPaymentApplications,
     pdp_fetchPartyNames = fetchSupplierNames, pdp_post = ignoring postSupplierPayment,
     pdp_unpost = ignoring unpostSupplierPayment, pdp_apply = ignoring applySupplierPayment,
     pdp_deletePayment = deleteSupplierPayment\<rparr>"

section \<open>State, loading and actions\<close>

record PaymentDetail =
  pd_payment :: "Payment option"
  pd_applications :: "PaymentApplication list option"
  pd_partyName :: "string option"
  pd_error :: "string option"
  pd_acting :: bool
  pd_actionError :: "string option"
  pd_navigated :: "string option"

definition payment_detail_init :: PaymentDetail where
  "payment_detail_init = \<lparr>pd_payment = None, pd_applications = None, pd_partyName = None,
     pd_error = None, pd_acting = False, pd_actionError = None, pd_navigated = None\<rparr>"

type_synonym payment_detail_data = "Payment \<times> PaymentApplication list \<times> string"

definition load_payment_detail :: "'w payment_detail_props \<Rightarrow> int \<Rightarrow> ('w, payment_detail_data) call" where
  "load_payment_detail p paymentId =
     map_io (\<lambda>(q, apps, names). (q, apps, name_or_id names (pay_party_id q)))
       (both_io (pdp_fetchPayment p paymentId)
         (both_io (pdp_fetchApplications p paymentId) (pdp_fetchPartyNames p)))"

definition show_payment :: "payment_detail_data \<Rightarrow> PaymentDetail \<Rightarrow> PaymentDetail" where
  "show_payment data s = (case data of (q, apps, name) \<Rightarrow>
     s\<lparr>pd_payment := Some q, pd_applications := Some apps, pd_partyName := Some name\<rparr>)"

definition payment_opened :: "bool \<Rightarrow> exn + payment_detail_data \<Rightarrow> PaymentDetail \<Rightarrow> PaymentDetail" where
  "payment_opened cancelled result s = (case result of
       Inr data \<Rightarrow> if cancelled then s else show_payment data s
     | Inl err \<Rightarrow> if cancelled then s else s\<lparr>pd_error := Some (error_message err)\<rparr>)"

definition payment_effect :: "'w payment_detail_props \<Rightarrow> string \<Rightarrow> bool
    \<Rightarrow> PaymentDetail \<times> ('w, payload, body) browser \<Rightarrow> PaymentDetail \<times> ('w, payload, body) browser" where
  "payment_effect p route cancelled x = (case x of (s, b) \<Rightarrow>
     if invalid_id route then (s\<lparr>pd_error := Some ''Invalid id.''\<rparr>, b)
     else (case load_payment_detail p (id_of route) b of (r, b) \<Rightarrow> (payment_opened cancelled r s, b)))"

definition payment_call :: "'w payment_detail_props \<Rightarrow> int \<Rightarrow> detail_action
    \<Rightarrow> ('w, payment_detail_data option) call" where
  "payment_call p k a =
     (let reload = map_io Some (load_payment_detail p k) in
      case a of
       Post_It \<Rightarrow> then_load (pdp_post p k) reload
     | Unpost_It \<Rightarrow> then_load (pdp_unpost p k) reload
     | Apply_It \<Rightarrow> then_load (pdp_apply p k) reload
     | Delete_It \<Rightarrow> map_io (\<lambda>_. None) (pdp_deletePayment p k))"

definition payment_start :: "detail_action \<Rightarrow> PaymentDetail \<Rightarrow> PaymentDetail" where
  "payment_start a s = s\<lparr>pd_acting := True, pd_actionError := None\<rparr>"

definition payment_settled :: "'w payment_detail_props \<Rightarrow> exn + payment_detail_data option
    \<Rightarrow> PaymentDetail \<Rightarrow> PaymentDetail" where
  "payment_settled p result s = (case result of
       Inr (Some data) \<Rightarrow> (show_payment data s)\<lparr>pd_acting := False\<rparr>
     | Inr None \<Rightarrow> s\<lparr>pd_navigated := Some (pdp_basePath p)\<rparr>
     | Inl err \<Rightarrow> s\<lparr>pd_acting := False, pd_actionError := Some (save_message err)\<rparr>)"

definition payment_settle :: "'w payment_detail_props \<Rightarrow> string \<Rightarrow> detail_action
    \<Rightarrow> PaymentDetail \<times> ('w, payload, body) browser \<Rightarrow> PaymentDetail \<times> ('w, payload, body) browser" where
  "payment_settle p route a x = (case x of (s, b) \<Rightarrow>
     (case payment_call p (id_of route) a b of (r, b) \<Rightarrow> (payment_settled p r s, b)))"

section \<open>The screen\<close>

definition payment_actions_view :: "'w payment_detail_props \<Rightarrow> int \<Rightarrow> bool \<Rightarrow> PaymentDetail \<Rightarrow> Payment
    \<Rightarrow> detail_action element list" where
  "payment_actions_view p paymentId is_admin s payment =
     guarded (pay_status payment = ''draft'')
       [Button (if pd_acting s then ''Posting...'' else ''Post to ledger'') (pd_acting s) Post_It]
     @ guarded (pay_status payment = ''draft'')
       [Link ''Edit'' (pdp_basePath p @ ''/'' @ show_int paymentId @ ''/edit'')]
     @ guarded (pay_status payment = ''draft'') [Button ''Delete'' (pd_acting s) Delete_It]
     @ guarded (pay_status payment = ''posted'' \<and> isZeroAmount (pay_unapplied payment) = Some False)
       [Button (if pd_acting s then ''Applying...'' else ''Apply'') (pd_acting s) Apply_It]
     @ guarded (pay_status payment = ''posted'' \<and> is_admin)
       [Button (if pd_acting s then ''Unposting...'' else ''Unpost'') (pd_acting s) Unpost_It]
     @ [Link ''Back'' (pdp_basePath p)]"

definition payment_header_view :: "'w payment_detail_props \<Rightarrow> PaymentDetail \<Rightarrow> Payment
    \<Rightarrow> detail_action element list" where
  "payment_header_view p s payment =
     (let dot = '' '' @ [CHR 0xB7] @ '' '' in
      [Heading (pdp_titlePrefix p @ '' #'' @ show_int (pay_id payment)),
       Datum ''status'' (pay_status payment), Datum ''applied'' (applied_text payment),
       Note (or_empty (pd_partyName s) @ dot @ pay_date payment
         @ (case pay_method payment of None \<Rightarrow> [] | Some m \<Rightarrow> dot @ m)
         @ (case pay_reference payment of None \<Rightarrow> [] | Some r \<Rightarrow> dot @ r)
         @ dot @ pay_currency_code payment)]
      @ (case pay_journal_entry_id payment of None \<Rightarrow> []
         | Some j \<Rightarrow> [Link (''journal entry #'' @ show_int j) (''/journal-entries/'' @ show_int j)]))"

definition payment_applications_view :: "'w payment_detail_props \<Rightarrow> Payment \<Rightarrow> PaymentApplication list
    \<Rightarrow> detail_action element list" where
  "payment_applications_view p payment apps =
     guarded (apps = [])
       [Note (''Not applied to any '' @ toLowerCase (pdp_documentLabel p) @ '' yet.''
          @ guarded (pay_status payment = ''posted'') ('' '' @ pdp_applyHint p))]
     @ guarded (apps \<noteq> [])
       (Table [pdp_documentLabel p, ''Amount Applied'']
          (map (\<lambda>a. [app_document_number a, formatAmount (app_amount_applied a)]) apps)
        # map (\<lambda>a. Link (app_document_number a)
            (pdp_documentBasePath p @ ''/'' @ show_int (app_document_id a))) apps)
     @ [Datum ''Amount'' (formatAmount (pay_amount payment)),
        Datum ''Applied'' (formatAmount (pay_amount_applied payment)),
        Datum ''Unapplied'' (formatAmount (pay_unapplied payment))]"

definition payment_detail_view :: "'w payment_detail_props \<Rightarrow> int \<Rightarrow> bool \<Rightarrow> PaymentDetail
    \<Rightarrow> detail_action element list" where
  "payment_detail_view p paymentId is_admin s =
     (case pd_error s of None \<Rightarrow> [] | Some e \<Rightarrow> [Alert e, Link ''Back'' (pdp_basePath p)])
     @ guarded (pd_error s = None \<and> (pd_payment s = None \<or> pd_applications s = None)) [Note ''Loading...'']
     @ (case (pd_payment s, pd_applications s) of
          (Some payment, Some apps) \<Rightarrow>
            payment_header_view p s payment
            @ payment_actions_view p paymentId is_admin s payment
            @ (case pd_actionError s of None \<Rightarrow> [] | Some e \<Rightarrow> [Alert e])
            @ payment_applications_view p payment apps
        | _ \<Rightarrow> [])"

definition payment_offers :: "'w payment_detail_props \<Rightarrow> string \<Rightarrow> bool \<Rightarrow> PaymentDetail
    \<Rightarrow> detail_action \<Rightarrow> bool" where
  "payment_offers p route is_admin s = offers (payment_detail_view p (id_of route) is_admin s)"

definition payment_detail_move :: "'w payment_detail_props \<Rightarrow> string \<Rightarrow> bool
    \<Rightarrow> PaymentDetail \<times> detail_action list \<times> ('w, payload, body) browser
    \<Rightarrow> PaymentDetail \<times> detail_action list \<times> ('w, payload, body) browser \<Rightarrow> bool" where
  "payment_detail_move p route is_admin = screen_move (payment_effect p route)
     (payment_offers p route is_admin) Some payment_start (payment_settle p route) (\<lambda>_ s. s)"

section \<open>One action at a time\<close>

definition is_payment_detail :: "'w payment_detail_props \<Rightarrow> bool" where
  "is_payment_detail p \<longleftrightarrow> p = CustomerPaymentDetail \<or> p = SupplierPaymentDetail"

definition payment_permits :: "bool \<Rightarrow> Payment \<Rightarrow> detail_action \<Rightarrow> bool" where
  "payment_permits is_admin q a = (case a of
       Post_It \<Rightarrow> pay_status q = ''draft''
     | Delete_It \<Rightarrow> pay_status q = ''draft''
     | Unpost_It \<Rightarrow> pay_status q = ''posted'' \<and> is_admin
     | Apply_It \<Rightarrow> pay_status q = ''posted'' \<and> isZeroAmount (pay_unapplied q) = Some False)"

lemma no_offers_payment [simp]: "\<not> offers (payment_header_view p s q) e"
  "\<not> offers (payment_applications_view p q apps) e"
  by (auto simp: payment_header_view_def payment_applications_view_def offers_def Let_def
      split: option.splits if_splits)

lemma payment_offers_action:
  "payment_offers p route is_admin s a \<longleftrightarrow> (\<exists>q. pd_payment s = Some q \<and> pd_applications s \<noteq> None
     \<and> \<not> pd_acting s \<and> payment_permits is_admin q a)"
  by (cases a; cases "pd_payment s"; cases "pd_applications s")
    (auto simp: payment_offers_def payment_detail_view_def payment_actions_view_def payment_permits_def)

interpretation payment_screen: exclusive_actions "payment_effect p route" "payment_offers p route is_admin"
    Some payment_start "payment_settle p route" "\<lambda>_ s. s" "\<lambda>s. s = payment_detail_init" pd_acting
  for p route is_admin
proof unfold_locales
  fix a s c b
  show "pd_acting (payment_start a s)" by (simp add: payment_start_def)
  show "pd_acting s \<Longrightarrow> payment_offers p route is_admin s a \<Longrightarrow> Some a = None"
    by (simp add: payment_offers_action)
  show "pd_acting (fst (payment_effect p route c (s, b))) = pd_acting s"
    by (auto simp: payment_effect_def payment_opened_def show_payment_def split: prod.split sum.split)
qed simp

interpretation payment_slot: recovering_actions "payment_effect p route" "payment_offers p route is_admin"
    Some payment_start "payment_settle p route" "\<lambda>_ s. s" "\<lambda>s. s = payment_detail_init" pd_acting
    "\<lambda>s. pd_navigated s \<noteq> None" for p route is_admin
proof unfold_locales
  fix s a b c
  show "s = payment_detail_init \<Longrightarrow> \<not> pd_acting s" by (simp add: payment_detail_init_def)
  show "\<not> pd_acting (fst (payment_settle p route a (s, b)))
      \<or> pd_navigated (fst (payment_settle p route a (s, b))) \<noteq> None"
    by (simp add: payment_settle_def payment_settled_def show_payment_def
        split: prod.split sum.split option.split)
  show "pd_navigated s \<noteq> None \<Longrightarrow> pd_navigated (fst (payment_effect p route c (s, b))) \<noteq> None"
    by (simp add: payment_effect_def payment_opened_def show_payment_def split: prod.split sum.split)
qed simp

section \<open>Requests\<close>

definition payment_collection :: "'w payment_detail_props \<Rightarrow> string" where
  "payment_collection p = drop 1 (pdp_basePath p)"

lemmas payment_screens = CustomerPaymentDetail_def SupplierPaymentDetail_def

lemma payment_collections [simp]:
  "payment_collection CustomerPaymentDetail = ''customer-payments''"
  "payment_collection SupplierPaymentDetail = ''supplier-payments''"
  by (simp_all add: payment_collection_def payment_screens)

lemmas payment_calls = postCustomerPayment_def unpostCustomerPayment_def applyCustomerPayment_def
  deleteCustomerPayment_def postSupplierPayment_def unpostSupplierPayment_def applySupplierPayment_def
  deleteSupplierPayment_def

lemma load_payment_detail_reads:
  assumes "is_payment_detail p" shows "reads_only (load_payment_detail p k)"
  using assms unfolding is_payment_detail_def
  by (auto simp: load_payment_detail_def payment_screens getCustomerPayment_def getSupplierPayment_def
      getCustomerPaymentApplications_def getSupplierPaymentApplications_def intro!: reading)

lemma payment_action_requests:
  assumes "is_payment_detail p"
  shows "makes (pdp_post p k) (detail_request (payment_collection p) k Post_It)"
    "makes (pdp_unpost p k) (detail_request (payment_collection p) k Unpost_It)"
    "makes (pdp_apply p k) (detail_request (payment_collection p) k Apply_It)"
    "makes (pdp_deletePayment p k) (detail_request (payment_collection p) k Delete_It)"
  using assms unfolding is_payment_detail_def
  by (auto simp: detail_request_def Let_def)
    (auto simp: payment_screens payment_calls makes_def ignoring_def)

lemma payment_call_sends:
  assumes "is_payment_detail p"
  shows "appends (own_request (payment_collection p) k) b (snd (payment_call p k a b))"
proof -
  note l = reads_only_map [OF load_payment_detail_reads [OF assms], of Some k]
  note m = payment_action_requests [OF assms, of k]
  have own: "appends (own_request (payment_collection p) k) b b'"
    if "appends (\<lambda>r. r = detail_request (payment_collection p) k a \<or> rq_method r = ''GET'') b b'" for a b'
    using that by (rule appends_mono) (auto simp: own_request_def)
  show ?thesis
  proof (cases a)
    case Post_It
    then show ?thesis using own [OF then_load_sends [OF m(1) l]] by (simp add: payment_call_def)
  next
    case Unpost_It
    then show ?thesis using own [OF then_load_sends [OF m(2) l]] by (simp add: payment_call_def)
  next
    case Apply_It
    then show ?thesis using own [OF then_load_sends [OF m(3) l]] by (simp add: payment_call_def)
  next
    case Delete_It
    have "own_request (payment_collection p) k (detail_request (payment_collection p) k Delete_It)"
      by (auto simp: own_request_def)
    then show ?thesis
      using makes_appends [OF m(4)] Delete_It by (simp add: payment_call_def)
  qed
qed

lemma payment_writes:
  assumes "is_payment_detail p"
  shows "writing_actions (payment_effect p route) (payment_settle p route)
    (own_request (payment_collection p) (id_of route))"
proof unfold_locales
  fix b c s a
  let ?P = "own_request (payment_collection p) (id_of route)"
  have "appends ?P b (snd (load_payment_detail p (id_of route) b))"
    by (rule appends_mono [OF reads_appends [OF load_payment_detail_reads [OF assms]]])
      (simp add: own_request_def)
  then show "appends ?P b (snd (payment_effect p route c (s, b)))"
    by (auto simp: payment_effect_def split: prod.splits)
  show "appends ?P b (snd (payment_settle p route a (s, b)))"
    using payment_call_sends [OF assms, of "id_of route" b a]
    by (auto simp: payment_settle_def split: prod.splits)
qed

interpretation customer_payment: writing_actions "payment_effect CustomerPaymentDetail route"
    "payment_offers CustomerPaymentDetail route is_admin" Some payment_start
    "payment_settle CustomerPaymentDetail route" "\<lambda>_ s. s" "\<lambda>s. s = payment_detail_init"
    "own_request ''customer-payments'' (id_of route)" for route is_admin
  using payment_writes [of CustomerPaymentDetail route] by (simp add: is_payment_detail_def)

interpretation supplier_payment: writing_actions "payment_effect SupplierPaymentDetail route"
    "payment_offers SupplierPaymentDetail route is_admin" Some payment_start
    "payment_settle SupplierPaymentDetail route" "\<lambda>_ s. s" "\<lambda>s. s = payment_detail_init"
    "own_request ''supplier-payments'' (id_of route)" for route is_admin
  using payment_writes [of SupplierPaymentDetail route] by (simp add: is_payment_detail_def)

section \<open>Properties\<close>

text \<open>C21. The life cycle of a payment is what its screen allows: in every state the screen of a
  customer or supplier payment reaches, at most one action is in flight, an action is offered
  exactly when the payment shown permits it (posting and deleting a draft, unposting a posted one
  for administrators, applying a posted one with a remainder) and nothing is in flight, and every
  request it has made reads, or acts on the payment of its route.\<close>

theorem payment_lifecycle:
  fixes p :: "'w payment_detail_props"
  assumes "is_payment_detail p"
    and "reachable (opened (\<lambda>s. s = payment_detail_init)) (payment_detail_move p route is_admin) (s, pend, b)"
  shows "length pend \<le> 1
    \<and> (payment_offers p route is_admin s a \<longleftrightarrow> (\<exists>q. pd_payment s = Some q \<and> pd_applications s \<noteq> None
        \<and> \<not> pd_acting s \<and> pend = [] \<and> payment_permits is_admin q a))
    \<and> list_all (own_request (payment_collection p) (id_of route)) (sent b)"
proof (intro conjI)
  note r = assms(2) [unfolded payment_detail_move_def]
  show "length pend \<le> 1" using payment_screen.at_most_one [OF r] by simp
  have "payment_offers p route is_admin s a \<Longrightarrow> pend = []"
    using payment_screen.at_most_one [OF r] by fastforce
  then show "payment_offers p route is_admin s a \<longleftrightarrow> (\<exists>q. pd_payment s = Some q \<and> pd_applications s \<noteq> None
        \<and> \<not> pd_acting s \<and> pend = [] \<and> payment_permits is_admin q a)"
    using payment_offers_action by blast
  from assms(1) consider "p = CustomerPaymentDetail" | "p = SupplierPaymentDetail"
    by (auto simp: is_payment_detail_def)
  then show "list_all (own_request (payment_collection p) (id_of route)) (sent b)"
  proof cases
    case 1
    show ?thesis using customer_payment.all_allowed [OF r [unfolded 1]] by (simp add: 1)
  next
    case 2
    show ?thesis using supplier_payment.all_allowed [OF r [unfolded 2]] by (simp add: 2)
  qed
qed

definition posted_payment :: CustomerPayment where
  "posted_payment = \<lparr>pa_currency_code = ''USD'', pa_amount = ''10.0000'', pa_method = None,
     pa_reference = None, pa_status = ''posted'', pa_amount_applied = ''4.0000'',
     pa_unapplied = ''6.0000'', pa_journal_entry_id = Some 5, cp_id = 7, cp_customer_id = 3,
     cp_payment_date = ''2024-02-10'', cp_deposit_account_id = Some 1\<rparr>"

definition payment_server :: "string \<Rightarrow> body" where
  "payment_server path =
     (if path = ''/api/customers'' then Master (Customer_List [])
      else if path = ''/api/organizations'' then Master (Organization_List [])
      else if path = ''/api/customer-payments/7'' then Document (CustomerPayment_Body posted_payment)
      else Document (PaymentApplication_List []))"

lemma payment_answers:
  assumes "network c = answering payment_server"
  shows "getCustomerPayment 7 c = (Inr (fromCustomerPayment posted_payment),
      after_exchange (get_request ''/customer-payments/7'') c)"
    "getCustomerPaymentApplications 7 c
      = (Inr [], after_exchange (get_request ''/customer-payments/7/applications'') c)"
    "fetchCustomerNames c = (Inr (customer_names [] []),
      after_exchange (get_request ''/organizations'') (after_exchange (get_request ''/customers'') c))"
proof -
  show "getCustomerPayment 7 c = (Inr (fromCustomerPayment posted_payment),
      after_exchange (get_request ''/customer-payments/7'') c)"
    using assms by (simp add: getCustomerPayment_def map_io_def then_io_def return_io_def
        get_answering document_as_def BASE_def payment_server_def show_7)
  show "getCustomerPaymentApplications 7 c
      = (Inr [], after_exchange (get_request ''/customer-payments/7/applications'') c)"
    using assms by (simp add: getCustomerPaymentApplications_def get_answering document_as_def
        BASE_def payment_server_def show_7)
  show "fetchCustomerNames c = (Inr (customer_names [] []),
      after_exchange (get_request ''/organizations'') (after_exchange (get_request ''/customers'') c))"
    using assms by (simp add: fetchCustomerNames_def listCustomers_def listOrganizations_def both_io_def
        map_io_def then_io_def return_io_def get_answering master_as_def BASE_def payment_server_def)
qed

lemma payment_loads:
  assumes "network b = answering payment_server"
  shows "\<exists>b'. load_payment_detail CustomerPaymentDetail 7 b
    = (Inr (fromCustomerPayment posted_payment, [], ''#'' @ show_int 3), b')"
proof -
  have "pay_party_id (fromCustomerPayment posted_payment) = 3" by code_simp
  then show ?thesis
    using assms
    by (simp add: load_payment_detail_def CustomerPaymentDetail_def both_io_def map_io_def then_io_def
        return_io_def payment_answers customer_names_def name_or_id_def)
qed

abbreviation shown_payment :: PaymentDetail where
  "shown_payment \<equiv> show_payment (fromCustomerPayment posted_payment, [], ''#'' @ show_int 3) payment_detail_init"

lemma payment_shown:
  "\<exists>b. reachable (opened (\<lambda>s. s = payment_detail_init)) (payment_detail_move CustomerPaymentDetail ''7'' True)
     (shown_payment, [], (b :: (unit, payload, body) browser))"
proof -
  let ?b = "\<lparr>network = answering payment_server, world = (), sent = [], events = []\<rparr> :: (unit, payload, body) browser"
  have start: "reachable (opened (\<lambda>s. s = payment_detail_init)) (payment_detail_move CustomerPaymentDetail ''7'' True)
      (payment_detail_init, [], ?b)"
    by (rule reachable.starting) (simp add: opened_def)
  obtain b where "load_payment_detail CustomerPaymentDetail 7 ?b
      = (Inr (fromCustomerPayment posted_payment, [], ''#'' @ show_int 3), b)"
    using payment_loads [of ?b] by auto
  then have "payment_effect CustomerPaymentDetail ''7'' False (payment_detail_init, ?b) = (shown_payment, b)"
    by (simp add: payment_effect_def payment_opened_def)
  then have "payment_detail_move CustomerPaymentDetail ''7'' True (payment_detail_init, [], ?b) (shown_payment, [], b)"
    unfolding payment_detail_move_def by (rule screen_move.effect)
  with start have "reachable (opened (\<lambda>s. s = payment_detail_init))
      (payment_detail_move CustomerPaymentDetail ''7'' True) (shown_payment, [], b)"
    by (rule reachable.moving)
  then show ?thesis by blast
qed

theorem payment_lifecycle_witness:
  "payment_offers (CustomerPaymentDetail :: unit payment_detail_props) ''7'' True shown_payment Unpost_It"
proof -
  obtain b where r: "reachable (opened (\<lambda>s. s = payment_detail_init))
      (payment_detail_move CustomerPaymentDetail ''7'' True) (shown_payment, [], (b :: (unit, payload, body) browser))"
    using payment_shown by blast
  have c: "is_payment_detail (CustomerPaymentDetail :: unit payment_detail_props)"
    by (simp add: is_payment_detail_def)
  have "payment_permits True (fromCustomerPayment posted_payment) Unpost_It"
    by (simp add: payment_permits_def fromCustomerPayment_def paymentAmounts_def posted_payment_def Let_def)
  then have "\<exists>q. pd_payment shown_payment = Some q \<and> pd_applications shown_payment \<noteq> None
      \<and> \<not> pd_acting shown_payment \<and> ([] :: detail_action list) = [] \<and> payment_permits True q Unpost_It"
    by (intro exI [of _ "fromCustomerPayment posted_payment"])
      (simp add: show_payment_def payment_detail_init_def)
  with conjunct1 [OF conjunct2 [OF payment_lifecycle [OF c r, of Unpost_It]]] show ?thesis by (rule iffD2)
qed

end
