(* ===== verification/Order_List.thy ===== *)
theory Order_List
  imports Document_List
begin

text \<open>
  The list screen of sales and purchase orders (\<open>web/src/components/order-list.tsx\<close>), which
  flattens the two fulfilment axes of an order to a pair of statuses, and its badges.
\<close>

record OrderRow =
  orw_id :: int
  orw_order_number :: string
  orw_party_id :: int
  orw_order_date :: string
  orw_currency_code :: string
  orw_status :: string
  orw_total :: string
  orw_fulfilA :: string
  orw_fulfilB :: string

definition sales_row :: "SalesOrderSummary \<Rightarrow> OrderRow" where
  "sales_row o' = \<lparr>orw_id = so_id o', orw_order_number = so_order_number o',
     orw_party_id = so_customer_id o', orw_order_date = so_order_date o',
     orw_currency_code = so_currency_code o', orw_status = so_status o', orw_total = so_total o',
     orw_fulfilA = so_invoiced_status o', orw_fulfilB = so_shipped_status o'\<rparr>"

definition purchase_row :: "PurchaseOrderSummary \<Rightarrow> OrderRow" where
  "purchase_row o' = \<lparr>orw_id = po_id o', orw_order_number = po_order_number o',
     orw_party_id = po_supplier_id o', orw_order_date = po_order_date o',
     orw_currency_code = po_currency_code o', orw_status = po_status o', orw_total = po_total o',
     orw_fulfilA = po_billed_status o', orw_fulfilB = po_received_status o'\<rparr>"

definition fetchSalesRows :: "('w, OrderRow list) call" where
  "fetchSalesRows = map_io (map sales_row) listSalesOrders"

definition fetchPurchaseRows :: "('w, OrderRow list) call" where
  "fetchPurchaseRows = map_io (map purchase_row) listPurchaseOrders"

definition OrderStatusBadge :: "string \<Rightarrow> badge" where
  "OrderStatusBadge st = (if st = ''open'' then Default_Badge
     else if st = ''cancelled'' then Destructive_Badge else Outline_Badge)"

definition FulfilmentBadge :: "string \<Rightarrow> badge" where
  "FulfilmentBadge st = (if st = ''none'' then Outline_Badge
     else if st = ''partial'' then Secondary_Badge else Default_Badge)"

record 'w order_list_config =
  olc_title :: string
  olc_description :: string
  olc_partyLabel :: string
  olc_colA :: string
  olc_colB :: string
  olc_newLabel :: string
  olc_basePath :: string
  olc_emptyMessage :: string
  olc_fetchOrders :: "('w, OrderRow list) call"
  olc_fetchPartyNames :: "('w, int \<Rightarrow> string option) call"

definition SalesOrders :: "'w order_list_config" where
  "SalesOrders = \<lparr>olc_title = ''Sales Orders'', olc_description = ''Customer orders, newest first.'',
     olc_partyLabel = ''Customer'', olc_colA = ''Invoiced'', olc_colB = ''Shipped'',
     olc_newLabel = ''New sales order'', olc_basePath = ''/sales-orders'',
     olc_emptyMessage = ''No sales orders yet.'', olc_fetchOrders = fetchSalesRows,
     olc_fetchPartyNames = fetchCustomerNames\<rparr>"

definition PurchaseOrders :: "'w order_list_config" where
  "PurchaseOrders = \<lparr>olc_title = ''Purchase Orders'',
     olc_description = ''Orders placed with suppliers, newest first.'',
     olc_partyLabel = ''Supplier'', olc_colA = ''Billed'', olc_colB = ''Received'',
     olc_newLabel = ''New purchase order'', olc_basePath = ''/purchase-orders'',
     olc_emptyMessage = ''No purchase orders yet.'', olc_fetchOrders = fetchPurchaseRows,
     olc_fetchPartyNames = fetchSupplierNames\<rparr>"

record OrderList =
  ol_orders :: "OrderRow list option"
  ol_partyNames :: "int \<Rightarrow> string option"
  ol_error :: "string option"

definition order_list_init :: OrderList where
  "order_list_init = \<lparr>ol_orders = None, ol_partyNames = (\<lambda>_. None), ol_error = None\<rparr>"

definition load_orders :: "'w order_list_config \<Rightarrow> ('w, OrderRow list \<times> (int \<Rightarrow> string option)) call" where
  "load_orders c = both_io (olc_fetchOrders c) (olc_fetchPartyNames c)"

definition orders_loaded :: "bool \<Rightarrow> exn + OrderRow list \<times> (int \<Rightarrow> string option)
    \<Rightarrow> OrderList \<Rightarrow> OrderList" where
  "orders_loaded cancelled result s = (case result of
       Inr (rws, names) \<Rightarrow> if cancelled then s else s\<lparr>ol_partyNames := names, ol_orders := Some rws\<rparr>
     | Inl err \<Rightarrow> if cancelled then s else s\<lparr>ol_error := Some (error_message err)\<rparr>)"

text \<open>A row; the badges appear as their texts.\<close>

definition order_row :: "(int \<Rightarrow> string option) \<Rightarrow> OrderRow \<Rightarrow> string list" where
  "order_row names o' = [orw_order_number o', name_or_id names (orw_party_id o'), orw_order_date o',
     orw_status o', orw_fulfilA o', orw_fulfilB o', formatAmount (orw_total o')]"

definition order_list_view :: "'w order_list_config \<Rightarrow> OrderList \<Rightarrow> unit element list" where
  "order_list_view c s =
     [Heading (olc_title c), Note (olc_description c), Link (olc_newLabel c) (olc_basePath c @ ''/new'')]
     @ (case ol_error s of None \<Rightarrow> [] | Some e \<Rightarrow> [Alert (''Failed to load: '' @ e)])
     @ guarded (ol_error s = None \<and> ol_orders s = None) [Note ''Loading...'']
     @ (case ol_orders s of
          None \<Rightarrow> []
        | Some [] \<Rightarrow> [Note (olc_emptyMessage c)]
        | Some orders \<Rightarrow>
            [Table [''Number'', olc_partyLabel c, ''Date'', ''Status'', olc_colA c, olc_colB c, ''Total'']
              (map (order_row (ol_partyNames s)) orders)]
            @ map (\<lambda>o'. Link (orw_order_number o') (olc_basePath c @ ''/'' @ show_int (orw_id o'))) orders)"

lemma order_row_columns: "length (order_row names o') = 7"
  by (simp add: order_row_def)

end
