(* ===== verification/Fulfilment.thy ===== *)
theory Fulfilment
  imports Order_List
begin

text \<open>
  The two fulfilment panels of an order (\<open>web/src/components/order-detail.tsx\<close>): the quantities
  offered for the outstanding lines, the panel that creates an invoice or a bill and the panel
  that creates stock movements. The calls of the order's kind are arguments.
\<close>

section \<open>Quantities\<close>

record FulfilLine =
  fl_order_line_id :: int
  fl_line_no :: int
  fl_description :: string
  fl_remaining :: string

definition trimZeros :: "string \<Rightarrow> string" where
  "trimZeros s = (if CHR ''.'' \<in> set s then strip_zeros s else s)"

text \<open>\<open>Number(s) > 0\<close>\<close>

definition positive :: "string \<Rightarrow> bool" where
  "positive s \<longleftrightarrow> (let n = Number s in n \<noteq> NaN \<and> \<not> number_le_0 n)"

text \<open>The quantity typed for a line, by the id of the order line; a missing entry reads as empty.\<close>

type_synonym quantities = "int \<Rightarrow> string option"

definition fulfil_init :: "FulfilLine list \<Rightarrow> quantities" where
  "fulfil_init fulfilLines =
     map_of (rev (map (\<lambda>l. (fl_order_line_id l, trimZeros (fl_remaining l))) fulfilLines))"

definition set_quantity :: "int \<Rightarrow> string \<Rightarrow> quantities \<Rightarrow> quantities" where
  "set_quantity orderLineId v q = q(orderLineId \<mapsto> v)"

definition chosen :: "FulfilLine list \<Rightarrow> quantities \<Rightarrow> OrderLineQty list" where
  "chosen fulfilLines qty = filter (\<lambda>x. olq_quantity x \<noteq> [] \<and> positive (olq_quantity x))
     (map (\<lambda>l. \<lparr>olq_order_line_id = fl_order_line_id l,
        olq_quantity = trim (or_empty (qty (fl_order_line_id l)))\<rparr>) fulfilLines)"

definition fulfil_table_view :: "string \<Rightarrow> (int \<Rightarrow> string \<Rightarrow> 'e) \<Rightarrow> FulfilLine list \<Rightarrow> quantities
    \<Rightarrow> 'e element list" where
  "fulfil_table_view idPrefix onQty fulfilLines qty =
     Table [''#'', ''Description'', ''Outstanding'', ''Qty'']
       (map (\<lambda>l. [show_int (fl_line_no l), fl_description l, trimZeros (fl_remaining l)]) fulfilLines)
     # map (\<lambda>l. Field (idPrefix @ ''_qty_'' @ show_int (fl_order_line_id l)) ''Qty'' False
         (or_empty (qty (fl_order_line_id l))) (onQty (fl_order_line_id l))) fulfilLines"

section \<open>Creating a document\<close>

record DocPanel =
  dpn_number :: string
  dpn_date :: string
  dpn_due :: string
  dpn_busy :: bool
  dpn_err :: "string option"
  dpn_qty :: quantities
  dpn_created :: "int option"

definition doc_panel_init :: "string \<Rightarrow> FulfilLine list \<Rightarrow> DocPanel" where
  "doc_panel_init utc_date fulfilLines = \<lparr>dpn_number = [], dpn_date = utc_date, dpn_due = [],
     dpn_busy = False, dpn_err = None, dpn_qty = fulfil_init fulfilLines, dpn_created = None\<rparr>"

definition no_quantity :: string where
  "no_quantity = ''Enter a quantity on at least one line.''"

text \<open>The callback \<open>onCreated\<close> leaves the screen for the new document.\<close>

definition doc_submit :: "(string \<Rightarrow> string \<Rightarrow> string option \<Rightarrow> OrderLineQty list \<Rightarrow> ('w, int) call)
    \<Rightarrow> FulfilLine list \<Rightarrow> DocPanel \<Rightarrow> ('w, payload, body) browser
    \<Rightarrow> DocPanel \<times> ('w, payload, body) browser" where
  "doc_submit createDoc fulfilLines s b =
     (let lns = chosen fulfilLines (dpn_qty s) in
      if lns = [] then (s\<lparr>dpn_err := Some no_quantity\<rparr>, b)
      else
        let s' = s\<lparr>dpn_busy := True, dpn_err := None\<rparr> in
        case createDoc (trim (dpn_number s)) (dpn_date s)
            (if trim (dpn_due s) = [] then None else Some (dpn_due s)) lns b of
          (Inr docId, b) \<Rightarrow> (s'\<lparr>dpn_created := Some docId\<rparr>, b)
        | (Inl e, b) \<Rightarrow> (s'\<lparr>dpn_busy := False, dpn_err := Some (save_message e)\<rparr>, b))"

datatype doc_panel_event = Doc_Number string | Doc_Date string | Doc_Due string | Doc_Qty int string
  | Doc_Create | Doc_Close

definition doc_panel_view :: "string \<Rightarrow> FulfilLine list \<Rightarrow> DocPanel \<Rightarrow> doc_panel_event element list" where
  "doc_panel_view docLabel fulfilLines s =
     (let lower = toLowerCase docLabel in
      [Note (''Creates a draft '' @ lower @ ''. Quantities default to what is outstanding; ''
         @ ''lower them to '' @ lower @ '' part.'')]
      @ (if fulfilLines = [] then [Note (''Nothing left to '' @ lower @ '' on this order.'')]
         else
           [Field ''doc_number'' (docLabel @ '' #'') True (dpn_number s) Doc_Number,
            Field ''doc_date'' ''Date'' True (dpn_date s) Doc_Date,
            Field ''doc_due'' ''Due Date'' False (dpn_due s) Doc_Due]
           @ fulfil_table_view ''doc'' Doc_Qty fulfilLines (dpn_qty s))
      @ (case dpn_err s of None \<Rightarrow> [] | Some e \<Rightarrow> [Alert e])
      @ guarded (fulfilLines \<noteq> [])
          [Button (if dpn_busy s then ''Creating...'' else ''Create '' @ lower) (dpn_busy s) Doc_Create]
      @ [Button (if fulfilLines \<noteq> [] then ''Cancel'' else ''Close'') False Doc_Close])"

section \<open>Creating movements\<close>

record MovePanel =
  mpn_warehouseId :: string
  mpn_date :: string
  mpn_busy :: bool
  mpn_err :: "string option"
  mpn_qty :: quantities
  mpn_created :: "int list option"

definition move_panel_init :: "string \<Rightarrow> FulfilLine list \<Rightarrow> MovePanel" where
  "move_panel_init utc_date fulfilLines = \<lparr>mpn_warehouseId = [], mpn_date = utc_date, mpn_busy = False,
     mpn_err = None, mpn_qty = fulfil_init fulfilLines, mpn_created = None\<rparr>"

definition move_submit :: "(int \<Rightarrow> string option \<Rightarrow> OrderLineQty list \<Rightarrow> ('w, int list) call)
    \<Rightarrow> FulfilLine list \<Rightarrow> MovePanel \<Rightarrow> ('w, payload, body) browser
    \<Rightarrow> MovePanel \<times> ('w, payload, body) browser" where
  "move_submit createMovements fulfilLines s b =
     (if mpn_warehouseId s = [] then (s\<lparr>mpn_err := Some ''Please choose a warehouse.''\<rparr>, b)
      else
        let lns = chosen fulfilLines (mpn_qty s) in
        if lns = [] then (s\<lparr>mpn_err := Some no_quantity\<rparr>, b)
        else
          let s' = s\<lparr>mpn_busy := True, mpn_err := None\<rparr> in
          case createMovements (id_of (mpn_warehouseId s)) (Some (mpn_date s)) lns b of
            (Inr ids, b) \<Rightarrow> (s'\<lparr>mpn_created := Some ids\<rparr>, b)
          | (Inl e, b) \<Rightarrow> (s'\<lparr>mpn_busy := False, mpn_err := Some (save_message e)\<rparr>, b))"

datatype move_panel_event = Move_Warehouse string | Move_Date string | Move_Qty int string
  | Move_Create | Move_Close

definition move_panel_view :: "string \<Rightarrow> Warehouse list \<Rightarrow> FulfilLine list \<Rightarrow> MovePanel
    \<Rightarrow> move_panel_event element list" where
  "move_panel_view moveLabel warehouses fulfilLines s =
     (let lower = toLowerCase moveLabel in
      [Note (''Creates draft '' @ (if moveLabel = ''Ship'' then ''issue'' else ''receipt'')
         @ '' movements for the stocked lines below. Quantities default to what is outstanding; ''
         @ ''lower them to '' @ lower @ '' part.'')]
      @ (if fulfilLines = [] then [Note (''Nothing left to '' @ lower @ '' on this order.'')]
         else
           [Select ''move_warehouse'' ''Warehouse'' (mpn_warehouseId s)
              (map (\<lambda>w. (show_int (wh_id w), wh_code w @ '' '' @ em_dash @ '' '' @ wh_name w)) warehouses)
              Move_Warehouse,
            Field ''move_date'' ''Date'' True (mpn_date s) Move_Date]
           @ fulfil_table_view ''move'' Move_Qty fulfilLines (mpn_qty s))
      @ (case mpn_err s of None \<Rightarrow> [] | Some e \<Rightarrow> [Alert e])
      @ guarded (fulfilLines \<noteq> [])
          [Button (if mpn_busy s then ''Working...'' else moveLabel) (mpn_busy s) Move_Create]
      @ [Button (if fulfilLines \<noteq> [] then ''Cancel'' else ''Close'') False Move_Close])"

section \<open>Positive quantities\<close>

text \<open>\<open>Number(s) > 0\<close> is what it says on the amounts the database prints and users type.\<close>

lemma norm_dec_sign: "number_le_0 (norm_dec m k) = (m \<le> 0)" "norm_dec m k \<noteq> NaN"
  by (induction m k rule: norm_dec.induct) auto

lemma scale10_sign:
  "number_le_0 (scale10 m (- int k)) = (m \<le> 0)" "scale10 m (- int k) \<noteq> NaN"
  by (auto simp: scale10_def norm_dec_sign)

lemma negate_number_sign:
  "x \<noteq> NaN \<Longrightarrow> negate_number x \<noteq> NaN" "negate_number (Whole m) = Whole (- m)"
  by (cases x; simp)+

lemma norm_dec_negate: "0 \<le> m \<Longrightarrow> number_le_0 (negate_number (norm_dec m k))"
  by (induction m k rule: norm_dec.induct) (auto simp: zdiv_int)

lemma no_prefix:
  assumes "\<And>x. x \<in> set s \<Longrightarrow> is_digit x \<or> x = CHR ''.''" shows "prefixed_literal s = None"
proof -
  have "\<not> startsWith s [c, d]" if "\<not> is_digit d" "d \<noteq> CHR ''.''" for c d
  proof
    assume "startsWith s [c, d]"
    then have "take (Suc (Suc 0)) s = [c, d]" by (simp add: startsWith_def)
    then have "d \<in> set (take (Suc (Suc 0)) s)" by simp
    then show False using assms that in_set_takeD by metis
  qed
  then show ?thesis by (simp add: prefixed_literal_def is_digit_def)
qed

lemma amount_body_chars:
  "AMOUNT_RE s \<Longrightarrow> x \<in> set (amount_body s) \<Longrightarrow> is_digit x \<or> x = CHR ''.''"
  using AMOUNT_RE_cases [of s] by (auto dest: all_digits_set)

lemma unsigned_decimal_body:
  assumes "AMOUNT_RE s"
  shows "unsigned_decimal (amount_body s)
    = Some (scale10 (int (digits_val (whole_digits s @ frac_digits s))) (- int (length (frac_digits s))))"
proof -
  note c = AMOUNT_RE_cases [OF assms]
  have i: "amount_body s \<noteq> ''Infinity''"
    using amount_body_chars [OF assms, of "CHR ''I''"] by (auto simp: is_digit_def)
  have d: "\<not> is_digit CHR ''.''" by (simp add: is_digit_def)
  from c(4) show ?thesis
  proof
    assume b: "amount_body s = whole_digits s \<and> frac_digits s = []"
    with c(1,3) i show ?thesis
      by (simp add: unsigned_decimal_def takeWhile_digits dropWhile_digits exponent_part_def Let_def)
  next
    assume b: "amount_body s = whole_digits s @ ''.'' @ frac_digits s"
    have "takeWhile is_digit (amount_body s) = whole_digits s"
      by (simp add: whole_digits_def)
    moreover have "dropWhile is_digit (amount_body s) = CHR ''.'' # frac_digits s"
      using c(1) d unfolding b
      by (simp add: dropWhile_append2 all_digits_set)
    ultimately show ?thesis
      using c(2,3) i
      by (simp add: unsigned_decimal_def takeWhile_digits dropWhile_digits exponent_part_def Let_def)
  qed
qed

lemma positive_amount:
  assumes "AMOUNT_RE s"
  shows "positive s \<longleftrightarrow> 0 < amount_value s"
proof -
  let ?m = "int (digits_val (whole_digits s @ frac_digits s))" and ?k = "length (frac_digits s)"
  have t: "trim s = s" by (rule amount_trim [OF assms])
  have ne: "s \<noteq> []" using assms by (auto simp: AMOUNT_RE_def Let_def startsWith_def)
  have v: "amount_value s = (if startsWith s ''-'' then - 1 else 1) * (of_int ?m / 10 ^ ?k)"
    by (simp add: amount_value_def)
  have q: "0 < (of_int ?m / 10 ^ ?k :: rat) \<longleftrightarrow> 0 < ?m" by (simp add: zero_less_divide_iff)
  show ?thesis
  proof (cases "startsWith s ''-''")
    case True
    then obtain b where s: "s = CHR ''-'' # b" by (cases s) auto
    then have b: "amount_body s = b" by (simp add: amount_body_def)
    have "number_le_0 (negate_number (scale10 ?m (- int ?k)))"
      by (auto simp: scale10_def norm_dec_negate)
    moreover have "negate_number (scale10 ?m (- int ?k)) \<noteq> NaN"
      by (rule negate_number_sign) (rule scale10_sign)
    moreover have "prefixed_literal s = None" "split_sign s = (True, b)"
      by (simp_all add: s prefixed_literal_minus split_sign_def)
    ultimately have "\<not> positive s"
      using unsigned_decimal_body [OF assms, unfolded b] ne
      by (simp add: positive_def Number_def Let_def t)
    moreover have "0 \<le> (of_int ?m / 10 ^ ?k :: rat)" by simp
    then have "\<not> 0 < amount_value s" using True by (simp add: v not_less)
    ultimately show ?thesis by simp
  next
    case False
    then have b: "amount_body s = s" by (simp add: amount_body_def)
    have "prefixed_literal s = None"
      by (rule no_prefix) (rule amount_body_chars [OF assms, unfolded b])
    moreover have "split_sign s = (False, s)"
      using False ne amount_body_chars [OF assms, unfolded b, of "CHR ''+''"]
      by (cases s) (auto simp: split_sign_def is_digit_def)
    ultimately have "positive s \<longleftrightarrow> \<not> ?m \<le> 0"
      using unsigned_decimal_body [OF assms] scale10_sign [of ?m ?k] ne
      by (simp add: positive_def Number_def Let_def t b)
    then show ?thesis using False q by (simp add: v)
  qed
qed

section \<open>What a panel asks for\<close>

lemma trimZeros_trimAmount: "trimZeros s = trimAmount s"
  by (simp add: trimZeros_def trimAmount_def)

definition outstanding :: "FulfilLine \<Rightarrow> bool" where
  "outstanding l \<longleftrightarrow> printed (fl_remaining l) \<and> 0 < amount_value (fl_remaining l)"

lemma fulfil_init_line:
  assumes "distinct (map fl_order_line_id ls)" "l \<in> set ls"
  shows "fulfil_init ls (fl_order_line_id l) = Some (trimZeros (fl_remaining l))"
  unfolding fulfil_init_def using assms
  by (intro map_of_is_SomeI) (auto simp: rev_map comp_def distinct_map inj_on_def simp flip: rev_map)

lemma outstanding_quantity:
  assumes "outstanding l"
  shows "trim (trimZeros (fl_remaining l)) = trimZeros (fl_remaining l)" "trimZeros (fl_remaining l) \<noteq> []"
    "positive (trimZeros (fl_remaining l))"
    "amount_value (trimZeros (fl_remaining l)) = amount_value (fl_remaining l)"
proof -
  have p: "printed (fl_remaining l)" and v: "0 < amount_value (fl_remaining l)"
    using assms by (simp_all add: outstanding_def)
  note q = trimAmount_printed [OF p]
  have re: "AMOUNT_RE (trimAmount (fl_remaining l))" using q(1) by (simp add: printed_def)
  show "trim (trimZeros (fl_remaining l)) = trimZeros (fl_remaining l)"
    unfolding trimZeros_trimAmount by (rule printed_input [OF p])
  show "trimZeros (fl_remaining l) \<noteq> []"
    using re by (auto simp: trimZeros_trimAmount AMOUNT_RE_def Let_def startsWith_def)
  show "positive (trimZeros (fl_remaining l))"
    unfolding trimZeros_trimAmount using positive_amount [OF re] v q(2) by simp
  show "amount_value (trimZeros (fl_remaining l)) = amount_value (fl_remaining l)"
    unfolding trimZeros_trimAmount by (rule q(2))
qed

definition asks_for :: "FulfilLine \<Rightarrow> OrderLineQty \<Rightarrow> bool" where
  "asks_for l x \<longleftrightarrow> olq_order_line_id x = fl_order_line_id l
     \<and> amount_value (olq_quantity x) = amount_value (fl_remaining l)"

lemma chosen_unchanged:
  assumes "distinct (map fl_order_line_id ls)" "list_all outstanding ls"
  shows "chosen ls (fulfil_init ls) = map (\<lambda>l. \<lparr>olq_order_line_id = fl_order_line_id l,
      olq_quantity = trimZeros (fl_remaining l)\<rparr>) ls"
proof -
  have "map (\<lambda>l. \<lparr>olq_order_line_id = fl_order_line_id l,
      olq_quantity = trim (or_empty (fulfil_init ls (fl_order_line_id l)))\<rparr>) ls
    = map (\<lambda>l. \<lparr>olq_order_line_id = fl_order_line_id l, olq_quantity = trimZeros (fl_remaining l)\<rparr>) ls"
    using assms by (auto simp: fulfil_init_line or_empty_def list_all_iff outstanding_quantity)
  moreover have "filter (\<lambda>x. olq_quantity x \<noteq> [] \<and> positive (olq_quantity x))
      (map (\<lambda>l. \<lparr>olq_order_line_id = fl_order_line_id l, olq_quantity = trimZeros (fl_remaining l)\<rparr>) ls)
    = map (\<lambda>l. \<lparr>olq_order_line_id = fl_order_line_id l, olq_quantity = trimZeros (fl_remaining l)\<rparr>) ls"
    using assms(2) by (intro filter_True) (auto simp: list_all_iff outstanding_quantity)
  ultimately show ?thesis unfolding chosen_def by (simp only:)
qed

lemma chosen_sound:
  assumes "x \<in> set (chosen ls q)"
  shows "olq_order_line_id x \<in> fl_order_line_id ` set ls" "positive (olq_quantity x)"
    "olq_quantity x = trim (or_empty (q (olq_order_line_id x)))"
  using assms by (auto simp: chosen_def)

text \<open>What a panel is to ask for: for each line in order, what is typed for it, where that is a
  positive quantity.\<close>

fun asked :: "FulfilLine list \<Rightarrow> quantities \<Rightarrow> OrderLineQty list" where
  "asked [] q = []"
| "asked (l # ls) q = (let typed = trim (or_empty (q (fl_order_line_id l))) in
     if positive typed then \<lparr>olq_order_line_id = fl_order_line_id l, olq_quantity = typed\<rparr> # asked ls q else asked ls q)"

lemma not_positive_empty [simp]: "\<not> positive []"
  by code_simp

lemma chosen_asked: "chosen ls q = asked ls q"
  by (induction ls) (auto simp: chosen_def Let_def)

lemma doc_submit_asked:
  "asked ls (dpn_qty p) = [] \<Longrightarrow> doc_submit createDoc ls p b = (p\<lparr>dpn_err := Some no_quantity\<rparr>, b)"
  "asked ls (dpn_qty p) \<noteq> [] \<Longrightarrow> snd (doc_submit createDoc ls p b) = snd (createDoc (trim (dpn_number p)) (dpn_date p)
     (if trim (dpn_due p) = [] then None else Some (dpn_due p)) (asked ls (dpn_qty p)) b)"
  by (simp_all add: doc_submit_def chosen_asked Let_def split: prod.split sum.split)

lemma move_submit_asked:
  "asked ls (mpn_qty m) = [] \<Longrightarrow> mpn_warehouseId m \<noteq> [] \<Longrightarrow>
     move_submit createMovements ls m b = (m\<lparr>mpn_err := Some no_quantity\<rparr>, b)"
  "asked ls (mpn_qty m) \<noteq> [] \<Longrightarrow> mpn_warehouseId m = show_int w \<Longrightarrow>
     snd (move_submit createMovements ls m b) = snd (createMovements w (Some (mpn_date m)) (asked ls (mpn_qty m)) b)"
  by (simp_all add: move_submit_def chosen_asked Let_def split: prod.split sum.split)

lemma asked_unchanged:
  assumes "distinct (map fl_order_line_id ls)" "list_all outstanding ls"
  shows "list_all2 asks_for ls (asked ls (fulfil_init ls))"
  using assms(2) unfolding chosen_asked [symmetric]
  by (auto simp: chosen_unchanged [OF assms] list_all2_map2 list_all2_same asks_for_def list_all_iff outstanding_quantity)

text \<open>C16. A fulfilment panel asks for what it shows. The quantities it opens with ask for every
  outstanding line, in order, each with its full remaining value. Typing changes the quantity of one
  line only. Whatever is typed, submitting makes the creating call with exactly the lines that have
  a positive quantity typed, in order, each with what was typed for it, with the number, date and due
  date (or the warehouse and date) of the panel; with no positive quantity, or no warehouse, nothing
  is sent and the panel says so. Of decimals, the positive ones are those greater than zero.\<close>

theorem fulfilment_quantities:
  assumes "distinct (map fl_order_line_id ls)" "list_all outstanding ls" and "mpn_warehouseId m = show_int w"
  shows "list_all2 asks_for ls (asked ls (fulfil_init ls))
    \<and> dpn_qty (doc_panel_init date ls) = fulfil_init ls \<and> mpn_qty (move_panel_init date ls) = fulfil_init ls
    \<and> set_quantity i v q j = (if j = i then Some v else q j)
    \<and> (if asked ks (dpn_qty p) = [] then doc_submit createDoc ks p b = (p\<lparr>dpn_err := Some no_quantity\<rparr>, b)
       else snd (doc_submit createDoc ks p b) = snd (createDoc (trim (dpn_number p)) (dpn_date p)
         (if trim (dpn_due p) = [] then None else Some (dpn_due p)) (asked ks (dpn_qty p)) b))
    \<and> (if asked ks (mpn_qty m) = [] then move_submit createMovements ks m b = (m\<lparr>mpn_err := Some no_quantity\<rparr>, b)
       else snd (move_submit createMovements ks m b)
         = snd (createMovements w (Some (mpn_date m)) (asked ks (mpn_qty m)) b))
    \<and> move_submit createMovements ks (m\<lparr>mpn_warehouseId := []\<rparr>) b
      = (m\<lparr>mpn_warehouseId := [], mpn_err := Some ''Please choose a warehouse.''\<rparr>, b)
    \<and> (AMOUNT_RE u \<longrightarrow> positive u = (0 < amount_value u))"
proof (intro conjI)
  show "list_all2 asks_for ls (asked ls (fulfil_init ls))" by (rule asked_unchanged [OF assms(1,2)])
  show "AMOUNT_RE u \<longrightarrow> positive u = (0 < amount_value u)" using positive_amount by blast
  have "mpn_warehouseId m \<noteq> []" using assms(3) by simp
  then show "if asked ks (mpn_qty m) = [] then move_submit createMovements ks m b = (m\<lparr>mpn_err := Some no_quantity\<rparr>, b)
       else snd (move_submit createMovements ks m b) = snd (createMovements w (Some (mpn_date m)) (asked ks (mpn_qty m)) b)"
    by (simp add: move_submit_asked(1) move_submit_asked(2) [OF _ assms(3)])
qed (simp_all add: doc_submit_asked doc_panel_init_def move_panel_init_def set_quantity_def move_submit_def)

definition sample_fulfil :: "FulfilLine list" where
  "sample_fulfil = [\<lparr>fl_order_line_id = 11, fl_line_no = 1, fl_description = ''Ruler'',
     fl_remaining = ''4.0''\<rparr>, \<lparr>fl_order_line_id = 12, fl_line_no = 2, fl_description = ''Tape'',
     fl_remaining = ''2.5''\<rparr>]"

theorem fulfilment_quantities_witness:
  "(\<exists>qs. list_all2 asks_for sample_fulfil qs
      \<and> snd (move_submit (\<lambda>w date qs. shipSalesOrder 7 \<lparr>fmi_warehouse_id = w, fmi_movement_date = date,
            fmi_reference = None, fmi_lines = Some qs\<rparr>) sample_fulfil
          (move_panel_init ''2024-02-10'' sample_fulfil\<lparr>mpn_warehouseId := show_int 3\<rparr>) (refusing 409 []))
        = snd (shipSalesOrder 7 \<lparr>fmi_warehouse_id = 3, fmi_movement_date = Some ''2024-02-10'',
            fmi_reference = None, fmi_lines = Some qs\<rparr> (refusing 409 [])))"
proof -
  let ?m = "move_panel_init ''2024-02-10'' sample_fulfil\<lparr>mpn_warehouseId := show_int 3\<rparr>"
  let ?cm = "\<lambda>w date qs. shipSalesOrder 7 \<lparr>fmi_warehouse_id = w, fmi_movement_date = date,
            fmi_reference = None, fmi_lines = Some qs\<rparr>"
  have pos: "outstanding l" if "printed (fl_remaining l)" "\<not> startsWith (fl_remaining l) ''-''"
    "0 < digits_val (whole_digits (fl_remaining l) @ frac_digits (fl_remaining l))" for l
    using that by (simp add: outstanding_def amount_value_def)
  have "list_all (\<lambda>l. printed (fl_remaining l) \<and> \<not> startsWith (fl_remaining l) ''-''
      \<and> 0 < digits_val (whole_digits (fl_remaining l) @ frac_digits (fl_remaining l))) sample_fulfil"
    by code_simp
  with pos have "list_all outstanding sample_fulfil" by (simp add: list_all_iff)
  then have s: "distinct (map fl_order_line_id sample_fulfil)" "list_all outstanding sample_fulfil"
    by (simp_all add: sample_fulfil_def)
  have m: "mpn_warehouseId ?m = show_int 3" "mpn_qty ?m = fulfil_init sample_fulfil" "mpn_date ?m = ''2024-02-10''"
    by (simp_all add: move_panel_init_def)
  note f = fulfilment_quantities [OF s m(1), where createMovements = ?cm and ks = sample_fulfil and b = "refusing 409 []"]
  let ?qs = "asked sample_fulfil (fulfil_init sample_fulfil)"
  have q: "list_all2 asks_for sample_fulfil ?qs" by (rule conjunct1 [OF f])
  then have "?qs \<noteq> []" by (auto simp: sample_fulfil_def)
  then have "snd (move_submit ?cm sample_fulfil ?m (refusing 409 [])) = snd (?cm 3 (Some ''2024-02-10'') ?qs (refusing 409 []))"
    using f [THEN conjunct2, THEN conjunct2, THEN conjunct2, THEN conjunct2, THEN conjunct2, THEN conjunct1]
    by (simp only: m if_False)
  with q show ?thesis by (intro exI conjI)
qed

end
