(* ===== verification/Order_Detail.thy ===== *)
theory Order_Detail
  imports Fulfilment Document_Detail
begin

text \<open>
  The detail screen of an order (\<open>web/src/components/order-detail.tsx\<close>): one component for sales
  and purchase orders, whose two fulfilment axes are flattened when they are read. The life-cycle
  actions are actions in flight as in \<open>Document_Detail\<close>; after one has settled the screen starts a
  reload that settles on its own, and the fulfilment panels submit on their own too, so both are
  effects that may come at any time.
\<close>

section \<open>Views of an order\<close>

record OrderHeaderView =
  ohv_id :: int
  ohv_order_number :: string
  ohv_party_id :: int
  ohv_order_date :: string
  ohv_currency_code :: string
  ohv_status :: string
  ohv_total :: string
  ohv_docStatus :: string
  ohv_moveStatus :: string

record OrderLineView =
  olv_line_no :: int
  olv_order_line_id :: int
  olv_description :: string
  olv_quantity :: string
  olv_unit_amount :: string
  olv_tax_code :: "string option"
  olv_tax_amount :: string
  olv_line_total :: string
  olv_qtyDocd :: string
  olv_qtyToDoc :: string
  olv_qtyMoved :: string
  olv_qtyToMove :: string

definition salesHeader :: "SalesOrderSummary \<Rightarrow> OrderHeaderView" where
  "salesHeader o' = \<lparr>ohv_id = so_id o', ohv_order_number = so_order_number o',
     ohv_party_id = so_customer_id o', ohv_order_date = so_order_date o',
     ohv_currency_code = so_currency_code o', ohv_status = so_status o', ohv_total = so_total o',
     ohv_docStatus = so_invoiced_status o', ohv_moveStatus = so_shipped_status o'\<rparr>"

definition purchaseHeader :: "PurchaseOrderSummary \<Rightarrow> OrderHeaderView" where
  "purchaseHeader o' = \<lparr>ohv_id = po_id o', ohv_order_number = po_order_number o',
     ohv_party_id = po_supplier_id o', ohv_order_date = po_order_date o',
     ohv_currency_code = po_currency_code o', ohv_status = po_status o', ohv_total = po_total o',
     ohv_docStatus = po_billed_status o', ohv_moveStatus = po_received_status o'\<rparr>"

definition sales_line_view :: "SalesOrderLine \<Rightarrow> OrderLineView" where
  "sales_line_view l = \<lparr>olv_line_no = sol_line_no l, olv_order_line_id = sol_order_line_id l,
     olv_description = sol_description l, olv_quantity = sol_quantity l,
     olv_unit_amount = sol_unit_price l, olv_tax_code = sol_tax_code l,
     olv_tax_amount = sol_tax_amount l, olv_line_total = sol_line_total l,
     olv_qtyDocd = sol_qty_invoiced l, olv_qtyToDoc = sol_qty_to_invoice l,
     olv_qtyMoved = sol_qty_shipped l, olv_qtyToMove = sol_qty_to_ship l\<rparr>"

definition purchase_line_view :: "PurchaseOrderLine \<Rightarrow> OrderLineView" where
  "purchase_line_view l = \<lparr>olv_line_no = pol_line_no l, olv_order_line_id = pol_order_line_id l,
     olv_description = pol_description l, olv_quantity = pol_quantity l,
     olv_unit_amount = pol_unit_cost l, olv_tax_code = pol_tax_code l,
     olv_tax_amount = pol_tax_amount l, olv_line_total = pol_line_total l,
     olv_qtyDocd = pol_qty_billed l, olv_qtyToDoc = pol_qty_to_bill l,
     olv_qtyMoved = pol_qty_received l, olv_qtyToMove = pol_qty_to_receive l\<rparr>"

section \<open>The two screens\<close>

record 'w order_detail_config =
  ods_titlePrefix :: string
  ods_basePath :: string
  ods_unitLabel :: string
  ods_docDoneLabel :: string
  ods_docTodoLabel :: string
  ods_moveDoneLabel :: string
  ods_moveTodoLabel :: string
  ods_docLabel :: string
  ods_docBasePath :: string
  ods_moveLabel :: string
  ods_fetchHeader :: "int \<Rightarrow> ('w, OrderHeaderView) call"
  ods_fetchLines :: "int \<Rightarrow> ('w, OrderLineView list) call"
  ods_fetchPartyNames :: "('w, int \<Rightarrow> string option) call"
  ods_confirm :: "int \<Rightarrow> ('w, unit) call"
  ods_close :: "int \<Rightarrow> ('w, unit) call"
  ods_cancel :: "int \<Rightarrow> ('w, unit) call"
  ods_deleteOrder :: "int \<Rightarrow> ('w, unit) call"
  ods_createDoc :: "int \<Rightarrow> string \<Rightarrow> string \<Rightarrow> string option \<Rightarrow> OrderLineQty list \<Rightarrow> ('w, int) call"
  ods_createMovements :: "int \<Rightarrow> int \<Rightarrow> string option \<Rightarrow> OrderLineQty list \<Rightarrow> ('w, int list) call"

definition SalesOrderDetail :: "'w order_detail_config" where
  "SalesOrderDetail = \<lparr>ods_titlePrefix = ''Sales Order'', ods_basePath = ''/sales-orders'',
     ods_unitLabel = ''Unit Price'', ods_docDoneLabel = ''Invoiced'', ods_docTodoLabel = ''To invoice'',
     ods_moveDoneLabel = ''Shipped'', ods_moveTodoLabel = ''To ship'', ods_docLabel = ''Invoice'',
     ods_docBasePath = ''/invoices'', ods_moveLabel = ''Ship'',
     ods_fetchHeader = (\<lambda>i. map_io salesHeader (getSalesOrder i)),
     ods_fetchLines = (\<lambda>i. map_io (map sales_line_view) (getSalesOrderLines i)),
     ods_fetchPartyNames = fetchCustomerNames, ods_confirm = confirmSalesOrder,
     ods_close = closeSalesOrder, ods_cancel = cancelSalesOrder, ods_deleteOrder = deleteSalesOrder,
     ods_createDoc = (\<lambda>i number date due lns. invoiceSalesOrder i \<lparr>ifo_invoice_number = number,
       ifo_invoice_date = date, ifo_due_date = due, ifo_lines = Some lns\<rparr>),
     ods_createMovements = (\<lambda>i warehouseId date lns. shipSalesOrder i \<lparr>fmi_warehouse_id = warehouseId,
       fmi_movement_date = date, fmi_reference = None, fmi_lines = Some lns\<rparr>)\<rparr>"

definition PurchaseOrderDetail :: "'w order_detail_config" where
  "PurchaseOrderDetail = \<lparr>ods_titlePrefix = ''Purchase Order'', ods_basePath = ''/purchase-orders'',
     ods_unitLabel = ''Unit Cost'', ods_docDoneLabel = ''Billed'', ods_docTodoLabel = ''To bill'',
     ods_moveDoneLabel = ''Received'', ods_moveTodoLabel = ''To receive'', ods_docLabel = ''Bill'',
     ods_docBasePath = ''/bills'', ods_moveLabel = ''Receive'',
     ods_fetchHeader = (\<lambda>i. map_io purchaseHeader (getPurchaseOrder i)),
     ods_fetchLines = (\<lambda>i. map_io (map purchase_line_view) (getPurchaseOrderLines i)),
     ods_fetchPartyNames = fetchSupplierNames, ods_confirm = confirmPurchaseOrder,
     ods_close = closePurchaseOrder, ods_cancel = cancelPurchaseOrder,
     ods_deleteOrder = deletePurchaseOrder,
     ods_createDoc = (\<lambda>i number date due lns. billPurchaseOrder i \<lparr>bfo_bill_number = number,
       bfo_bill_date = date, bfo_due_date = due, bfo_lines = Some lns\<rparr>),
     ods_createMovements = (\<lambda>i warehouseId date lns. receivePurchaseOrder i
       \<lparr>fmi_warehouse_id = warehouseId, fmi_movement_date = date, fmi_reference = None,
        fmi_lines = Some lns\<rparr>)\<rparr>"

section \<open>State and loading\<close>

datatype order_panel = No_Panel | Doc_Panel | Move_Panel | Email_Panel

record OrderDetail =
  od_order :: "OrderHeaderView option"
  od_lines :: "OrderLineView list option"
  od_partyName :: "string option"
  od_warehouses :: "Warehouse list"
  od_error :: "string option"
  od_acting :: bool
  od_actionError :: "string option"
  od_panel :: order_panel
  od_movementNote :: "int list option"
  od_navigated :: "string option"

definition order_detail_init :: OrderDetail where
  "order_detail_init = \<lparr>od_order = None, od_lines = None, od_partyName = None, od_warehouses = [],
     od_error = None, od_acting = False, od_actionError = None, od_panel = No_Panel,
     od_movementNote = None, od_navigated = None\<rparr>"

type_synonym order_detail_data = "OrderHeaderView \<times> OrderLineView list \<times> string"

definition load_order_detail :: "'w order_detail_config \<Rightarrow> int \<Rightarrow> ('w, order_detail_data) call" where
  "load_order_detail config orderId =
     map_io (\<lambda>(hdr, lns, names). (hdr, lns, name_or_id names (ohv_party_id hdr)))
       (both_io (ods_fetchHeader config orderId)
         (both_io (ods_fetchLines config orderId) (ods_fetchPartyNames config)))"

definition show_order :: "order_detail_data \<Rightarrow> OrderDetail \<Rightarrow> OrderDetail" where
  "show_order data s = (case data of (hdr, lns, name) \<Rightarrow>
     s\<lparr>od_order := Some hdr, od_lines := Some lns, od_partyName := Some name\<rparr>)"

definition order_opened :: "bool \<Rightarrow> exn + order_detail_data \<times> Warehouse list \<Rightarrow> OrderDetail \<Rightarrow> OrderDetail" where
  "order_opened cancelled result s = (case result of
       Inr (data, whs) \<Rightarrow> if cancelled then s
         else (show_order data s)\<lparr>od_warehouses := filter wh_is_active whs\<rparr>
     | Inl err \<Rightarrow> if cancelled then s else s\<lparr>od_error := Some (error_message err)\<rparr>)"

definition order_open :: "'w order_detail_config \<Rightarrow> string \<Rightarrow> bool
    \<Rightarrow> OrderDetail \<times> ('w, payload, body) browser \<Rightarrow> OrderDetail \<times> ('w, payload, body) browser" where
  "order_open config route cancelled x = (case x of (s, b) \<Rightarrow>
     if invalid_id route then (s\<lparr>od_error := Some ''Invalid id.''\<rparr>, b)
     else (case both_io (load_order_detail config (id_of route)) listWarehouses b of
       (r, b) \<Rightarrow> (order_opened cancelled r s, b)))"

definition order_reload :: "'w order_detail_config \<Rightarrow> string
    \<Rightarrow> OrderDetail \<times> ('w, payload, body) browser \<Rightarrow> OrderDetail \<times> ('w, payload, body) browser" where
  "order_reload config route x = (case x of (s, b) \<Rightarrow>
     (case load_order_detail config (id_of route) b of
        (Inr data, b) \<Rightarrow> (show_order data s, b)
      | (Inl err, b) \<Rightarrow> (s\<lparr>od_actionError := Some (error_message err)\<rparr>, b)))"

section \<open>Actions\<close>

datatype order_action = Confirm_Order | Close_Order | Cancel_Order | Delete_Order

definition order_call :: "'w order_detail_config \<Rightarrow> int \<Rightarrow> order_action \<Rightarrow> ('w, unit) call" where
  "order_call config k a = (case a of
       Confirm_Order \<Rightarrow> ods_confirm config k | Close_Order \<Rightarrow> ods_close config k
     | Cancel_Order \<Rightarrow> ods_cancel config k | Delete_Order \<Rightarrow> ods_deleteOrder config k)"

text \<open>The synchronous parts of \<open>runLifecycle\<close> and (once confirmed) \<open>runDelete\<close>, and what their
  promises do.\<close>

definition order_start :: "order_action \<Rightarrow> OrderDetail \<Rightarrow> OrderDetail" where
  "order_start a s = (if a = Delete_Order then s\<lparr>od_acting := True, od_actionError := None\<rparr>
     else s\<lparr>od_acting := True, od_actionError := None, od_movementNote := None\<rparr>)"

definition order_settle :: "'w order_detail_config \<Rightarrow> string \<Rightarrow> order_action
    \<Rightarrow> OrderDetail \<times> ('w, payload, body) browser \<Rightarrow> OrderDetail \<times> ('w, payload, body) browser" where
  "order_settle config route a x = (case x of (s, b) \<Rightarrow>
     (case order_call config (id_of route) a b of
        (Inr _, b) \<Rightarrow> (if a = Delete_Order then s\<lparr>od_navigated := Some (ods_basePath config)\<rparr>
          else s\<lparr>od_acting := False, od_panel := No_Panel\<rparr>, b)
      | (Inl err, b) \<Rightarrow> (s\<lparr>od_acting := False, od_actionError := Some (save_message err)\<rparr>, b)))"

section \<open>Panels\<close>

definition fulfil_line :: "OrderLineView \<Rightarrow> string \<Rightarrow> FulfilLine" where
  "fulfil_line l remaining = \<lparr>fl_order_line_id = olv_order_line_id l, fl_line_no = olv_line_no l,
     fl_description = olv_description l, fl_remaining = remaining\<rparr>"

definition doc_lines :: "OrderLineView list \<Rightarrow> FulfilLine list" where
  "doc_lines lns = map (\<lambda>l. fulfil_line l (olv_qtyToDoc l)) (filter (\<lambda>l. positive (olv_qtyToDoc l)) lns)"

definition move_lines :: "OrderLineView list \<Rightarrow> FulfilLine list" where
  "move_lines lns = map (\<lambda>l. fulfil_line l (olv_qtyToMove l)) (filter (\<lambda>l. positive (olv_qtyToMove l)) lns)"

text \<open>A panel is submitted in whatever state the user has brought it to; its callback then leaves
  for the new document, or closes the panel with a note (a reload follows).\<close>

definition submit_doc_panel :: "'w order_detail_config \<Rightarrow> string \<Rightarrow> DocPanel
    \<Rightarrow> OrderDetail \<times> ('w, payload, body) browser \<Rightarrow> OrderDetail \<times> ('w, payload, body) browser" where
  "submit_doc_panel config route panel x = (case x of (s, b) \<Rightarrow>
     (case od_lines s of
        Some lns \<Rightarrow> if od_panel s = Doc_Panel then
            (case doc_submit (ods_createDoc config (id_of route)) (doc_lines lns) panel b of
               (panel', b) \<Rightarrow> (case dpn_created panel' of
                  Some docId \<Rightarrow> (s\<lparr>od_navigated := Some (ods_docBasePath config @ ''/'' @ show_int docId)\<rparr>, b)
                | None \<Rightarrow> (s, b)))
          else (s, b)
      | None \<Rightarrow> (s, b)))"

definition submit_move_panel :: "'w order_detail_config \<Rightarrow> string \<Rightarrow> MovePanel
    \<Rightarrow> OrderDetail \<times> ('w, payload, body) browser \<Rightarrow> OrderDetail \<times> ('w, payload, body) browser" where
  "submit_move_panel config route panel x = (case x of (s, b) \<Rightarrow>
     (case od_lines s of
        Some lns \<Rightarrow> if od_panel s = Move_Panel then
            (case move_submit (ods_createMovements config (id_of route)) (move_lines lns) panel b of
               (panel', b) \<Rightarrow> (case mpn_created panel' of
                  Some ids \<Rightarrow> (s\<lparr>od_panel := No_Panel, od_movementNote := Some ids\<rparr>, b)
                | None \<Rightarrow> (s, b)))
          else (s, b)
      | None \<Rightarrow> (s, b)))"

datatype order_work = Opened bool | Reloaded | Doc_Submitted DocPanel | Move_Submitted MovePanel

definition order_effect :: "'w order_detail_config \<Rightarrow> string \<Rightarrow> order_work
    \<Rightarrow> OrderDetail \<times> ('w, payload, body) browser \<Rightarrow> OrderDetail \<times> ('w, payload, body) browser" where
  "order_effect config route c = (case c of
       Opened cancelled \<Rightarrow> order_open config route cancelled
     | Reloaded \<Rightarrow> order_reload config route
     | Doc_Submitted panel \<Rightarrow> submit_doc_panel config route panel
     | Move_Submitted panel \<Rightarrow> submit_move_panel config route panel)"

section \<open>The screen\<close>

datatype order_event = Run_Order order_action | Toggle_Panel order_panel | Close_Panels

text \<open>The buttons that open a panel close it again when it is open.\<close>

fun order_react :: "order_event \<Rightarrow> OrderDetail \<Rightarrow> OrderDetail" where
  "order_react (Toggle_Panel p) s = s\<lparr>od_panel := (if od_panel s = p then No_Panel else p),
     od_actionError := None, od_movementNote := None\<rparr>"
| "order_react Close_Panels s = s\<lparr>od_panel := No_Panel\<rparr>"
| "order_react (Run_Order a) s = s"

fun order_action_of :: "order_event \<Rightarrow> order_action option" where
  "order_action_of (Run_Order a) = Some a"
| "order_action_of _ = None"

definition order_actions_view :: "'w order_detail_config \<Rightarrow> int \<Rightarrow> OrderDetail \<Rightarrow> OrderHeaderView
    \<Rightarrow> order_event element list" where
  "order_actions_view config orderId s order =
     (let isOpen = ohv_status order = ''open''; isDraft = ohv_status order = ''draft'' in
      guarded isDraft
        [Button (if od_acting s then ''Working...'' else ''Confirm'') (od_acting s) (Run_Order Confirm_Order)]
      @ guarded isDraft
        [Link ''Edit'' (ods_basePath config @ ''/'' @ show_int orderId @ ''/edit''),
         Button ''Delete'' (od_acting s) (Run_Order Delete_Order)]
      @ guarded isOpen
        [Button (''Create '' @ ods_docLabel config) (od_acting s) (Toggle_Panel Doc_Panel),
         Button (ods_moveLabel config) (od_acting s) (Toggle_Panel Move_Panel),
         Button ''Close'' (od_acting s) (Run_Order Close_Order)]
      @ guarded (isDraft \<or> isOpen)
        [Button ''Cancel order'' (od_acting s) (Run_Order Cancel_Order)]
      @ [Link ''PDF'' (''/api'' @ ods_basePath config @ ''/'' @ show_int orderId @ ''/pdf''),
         Button ''Email'' (od_acting s) (Toggle_Panel Email_Panel),
         Link ''Back'' (ods_basePath config)])"

definition movement_note_view :: "int list \<Rightarrow> order_event element list" where
  "movement_note_view ids =
     Note ''Created ''
     # map (\<lambda>mid. Link (''movement #'' @ show_int mid) (''/stock-movements/'' @ show_int mid)) ids
     @ [Note (''. Post '' @ (if 1 < length ids then ''them'' else ''it'')
         @ '' from the stock screen to hit the ledger.'')]"

definition order_table_view :: "'w order_detail_config \<Rightarrow> OrderHeaderView \<Rightarrow> OrderLineView list
    \<Rightarrow> order_event element list" where
  "order_table_view config order lns =
     [Table [''#'', ''Description'', ''Ordered'', ods_unitLabel config, ''Line Total'',
         ods_docDoneLabel config, ods_docTodoLabel config, ods_moveDoneLabel config,
         ods_moveTodoLabel config]
       (map (\<lambda>l. [show_int (olv_line_no l), olv_description l, formatAmount (olv_quantity l),
          formatAmount (olv_unit_amount l), formatAmount (olv_line_total l),
          formatAmount (olv_qtyDocd l), formatAmount (olv_qtyToDoc l),
          formatAmount (olv_qtyMoved l), formatAmount (olv_qtyToMove l)]) lns),
      Datum ''Total'' (formatAmount (ohv_total order))]"

text \<open>The elements of an open panel that reach the screen are its Cancel, Close or Done button.\<close>

definition order_detail_view :: "'w order_detail_config \<Rightarrow> int \<Rightarrow> order_event element list \<Rightarrow> OrderDetail
    \<Rightarrow> order_event element list" where
  "order_detail_view config orderId panel_view s =
     (case od_error s of
       Some e \<Rightarrow> [Alert e, Link ''Back'' (ods_basePath config)]
     | None \<Rightarrow>
         (case (od_order s, od_lines s) of
            (Some order, Some lns) \<Rightarrow>
              [Heading (ods_titlePrefix config @ '' '' @ ohv_order_number order),
               Datum ''status'' (ohv_status order),
               Note (or_empty (od_partyName s) @ '' '' @ [CHR 0xB7] @ '' '' @ ohv_order_date order
                 @ '' '' @ [CHR 0xB7] @ '' '' @ ohv_currency_code order),
               Datum (ods_docDoneLabel config) (ohv_docStatus order),
               Datum (ods_moveDoneLabel config) (ohv_moveStatus order)]
              @ order_actions_view config orderId s order
              @ (case od_actionError s of None \<Rightarrow> [] | Some e \<Rightarrow> [Alert e])
              @ (case od_movementNote s of None \<Rightarrow> [] | Some ids \<Rightarrow> movement_note_view ids)
              @ guarded (od_panel s \<noteq> No_Panel) panel_view
              @ order_table_view config order lns
          | _ \<Rightarrow> [Note ''Loading...'']))"

definition order_offers :: "'w order_detail_config \<Rightarrow> string \<Rightarrow> OrderDetail \<Rightarrow> order_event \<Rightarrow> bool" where
  "order_offers config route s =
     offers (order_detail_view config (id_of route) [Button ''Cancel'' False Close_Panels] s)"

definition order_detail_move :: "'w order_detail_config \<Rightarrow> string
    \<Rightarrow> OrderDetail \<times> order_action list \<times> ('w, payload, body) browser
    \<Rightarrow> OrderDetail \<times> order_action list \<times> ('w, payload, body) browser \<Rightarrow> bool" where
  "order_detail_move config route = screen_move (order_effect config route) (order_offers config route)
     order_action_of order_start (order_settle config route) order_react"

section \<open>One action at a time\<close>

definition order_permits :: "string \<Rightarrow> order_action \<Rightarrow> bool" where
  "order_permits st a = (case a of
       Confirm_Order \<Rightarrow> st = ''draft'' | Delete_Order \<Rightarrow> st = ''draft''
     | Close_Order \<Rightarrow> st = ''open'' | Cancel_Order \<Rightarrow> st = ''draft'' \<or> st = ''open'')"

lemma no_offers_order_parts [simp]:
  "\<not> offers (order_table_view config order lns) e" "\<not> offers (movement_note_view ids) e"
  by (auto simp: order_table_view_def movement_note_view_def offers_def)

lemma order_offers_run:
  "order_offers config route s (Run_Order a) \<longleftrightarrow>
     (\<exists>order. od_order s = Some order \<and> od_lines s \<noteq> None \<and> od_error s = None \<and> \<not> od_acting s
        \<and> order_permits (ohv_status order) a)"
  by (cases a; cases "od_order s"; cases "od_lines s"; cases "od_error s")
    (auto simp: order_offers_def order_detail_view_def order_actions_view_def order_permits_def Let_def
      split: option.splits)

lemma order_effect_acting:
  "od_acting (fst (order_effect config route c (s, b))) = od_acting s"
  by (cases c) (auto simp: order_effect_def order_open_def order_opened_def order_reload_def
      show_order_def submit_doc_panel_def submit_move_panel_def
      split: prod.split sum.split option.split)

interpretation order_screen: exclusive_actions "order_effect config route" "order_offers config route"
    order_action_of order_start "order_settle config route" order_react "\<lambda>s. s = order_detail_init"
    od_acting for config route
proof unfold_locales
  fix a s c b e
  show "od_acting (order_start a s)" by (simp add: order_start_def)
  show "od_acting s \<Longrightarrow> order_offers config route s e \<Longrightarrow> order_action_of e = None"
    by (cases e) (auto simp: order_offers_run)
  show "od_acting (fst (order_effect config route c (s, b))) = od_acting s"
    by (rule order_effect_acting)
  show "order_action_of e = None \<Longrightarrow> od_acting (order_react e s) = od_acting s"
    by (cases e) auto
qed

interpretation order_slot: recovering_actions "order_effect config route" "order_offers config route"
    order_action_of order_start "order_settle config route" order_react "\<lambda>s. s = order_detail_init"
    od_acting "\<lambda>s. od_navigated s \<noteq> None" for config route
proof unfold_locales
  fix s a b c e
  show "s = order_detail_init \<Longrightarrow> \<not> od_acting s" by (simp add: order_detail_init_def)
  show "\<not> od_acting (fst (order_settle config route a (s, b)))
      \<or> od_navigated (fst (order_settle config route a (s, b))) \<noteq> None"
    by (simp add: order_settle_def split: prod.split sum.split)
  show "od_navigated s \<noteq> None \<Longrightarrow> od_navigated (fst (order_effect config route c (s, b))) \<noteq> None"
    by (cases c) (auto simp: order_effect_def order_open_def order_opened_def order_reload_def
      show_order_def submit_doc_panel_def submit_move_panel_def split: prod.split sum.split option.split)
  show "order_action_of e = None \<Longrightarrow> od_navigated s \<noteq> None \<Longrightarrow> od_navigated (order_react e s) \<noteq> None"
    by (cases e) auto
qed

section \<open>Requests\<close>

text \<open>What the screen of an order may send: reads, the deletion of the order, and posts to an
  operation of the order.\<close>

definition order_request_of :: "string \<Rightarrow> int \<Rightarrow> payload request \<Rightarrow> bool" where
  "order_request_of basePath k rq \<longleftrightarrow>
     (let path = BASE @ basePath @ ''/'' @ show_int k in
      rq_method rq = ''GET'' \<or> rq_method rq = ''DELETE'' \<and> rq_path rq = path
      \<or> rq_method rq = ''POST'' \<and> (\<exists>verb. verb \<noteq> [] \<and> rq_path rq = path @ ''/'' @ verb))"

definition is_order_detail :: "'w order_detail_config \<Rightarrow> bool" where
  "is_order_detail config \<longleftrightarrow> config = SalesOrderDetail \<or> config = PurchaseOrderDetail"

lemma order_call_sends:
  assumes "is_order_detail config"
  shows "appends (order_request_of (ods_basePath config) k) b (snd (order_call config k a b))"
proof -
  have "\<exists>rq. makes (order_call config k a) rq \<and> order_request_of (ods_basePath config) k rq"
    using assms
    by (cases a) (auto simp: is_order_detail_def SalesOrderDetail_def PurchaseOrderDetail_def
        order_call_def order_request_of_def Let_def confirmSalesOrder_def closeSalesOrder_def
        cancelSalesOrder_def deleteSalesOrder_def confirmPurchaseOrder_def closePurchaseOrder_def
        cancelPurchaseOrder_def deletePurchaseOrder_def makes_def intro: exI [of _ "''confirm''"]
        exI [of _ "''close''"] exI [of _ "''cancel''"])
  then show ?thesis using makes_appends by blast
qed

lemma create_calls_send:
  assumes "is_order_detail config"
  shows "appends (order_request_of (ods_basePath config) k) b (snd (ods_createDoc config k n d due qs b))"
    "appends (order_request_of (ods_basePath config) k) b (snd (ods_createMovements config k w date qs b))"
  using assms
  by (auto simp: is_order_detail_def SalesOrderDetail_def PurchaseOrderDetail_def appends_def
      order_request_of_def Let_def invoiceSalesOrder_def billPurchaseOrder_def shipSalesOrder_def
      receivePurchaseOrder_def)

lemma load_order_detail_reads:
  assumes "is_order_detail config"
  shows "reads_only (load_order_detail config k)" "reads_only listWarehouses"
  using assms
  by (auto simp: is_order_detail_def SalesOrderDetail_def PurchaseOrderDetail_def load_order_detail_def
      getSalesOrder_def getSalesOrderLines_def getPurchaseOrder_def getPurchaseOrderLines_def
      listWarehouses_def intro!: reading)

lemma reads_appends_order: "reads_only m \<Longrightarrow> appends (order_request_of bp k) b (snd (m b))"
  by (rule appends_mono [OF reads_appends]) (simp_all add: order_request_of_def)

lemma doc_submit_sends:
  assumes "\<And>n d due qs b. appends P b (snd (createDoc n d due qs b))"
  shows "appends P b (snd (doc_submit createDoc ls panel b))"
proof (cases "trim (dpn_due panel) = []")
  case True
  then show ?thesis
    using assms [of b "trim (dpn_number panel)" "dpn_date panel" None "chosen ls (dpn_qty panel)"]
    by (auto simp: doc_submit_def Let_def split: prod.splits sum.splits)
next
  case False
  then show ?thesis
    using assms [of b "trim (dpn_number panel)" "dpn_date panel" "Some (dpn_due panel)"
        "chosen ls (dpn_qty panel)"]
    by (auto simp: doc_submit_def Let_def split: prod.splits sum.splits)
qed

lemma move_submit_sends:
  assumes "\<And>w date qs b. appends P b (snd (createMovements w date qs b))"
  shows "appends P b (snd (move_submit createMovements ls panel b))"
  using assms [of b "id_of (mpn_warehouseId panel)" "Some (mpn_date panel)" "chosen ls (mpn_qty panel)"]
  by (auto simp: move_submit_def Let_def split: prod.splits sum.splits)

lemma order_detail_writes:
  assumes "is_order_detail config"
  shows "writing_actions (order_effect config route) (order_settle config route)
    (order_request_of (ods_basePath config) (id_of route))"
proof unfold_locales
  fix b c s a
  let ?P = "order_request_of (ods_basePath config) (id_of route)"
  note r = reads_appends_order [OF load_order_detail_reads(1) [OF assms, of "id_of route"]]
  note o = reads_appends_order [OF reads_only_both [OF load_order_detail_reads(1) [OF assms, of "id_of route"]
        load_order_detail_reads(2) [OF assms]]]
  show "appends ?P b (snd (order_effect config route c (s, b)))"
  proof (cases c)
    case (Opened cancelled)
    then show ?thesis
      using o [of "ods_basePath config" "id_of route" b]
      by (auto simp: order_effect_def order_open_def simp del: both_io_state split: prod.splits)
  next
    case Reloaded
    then show ?thesis
      using r [of "ods_basePath config" "id_of route" b]
      by (auto simp: order_effect_def order_reload_def split: prod.splits sum.splits)
  next
    case (Doc_Submitted panel)
    have "appends ?P b (snd (doc_submit (ods_createDoc config (id_of route)) (doc_lines lns) panel b))" for lns
      by (rule doc_submit_sends) (rule create_calls_send [OF assms])
    with Doc_Submitted show ?thesis
      by (auto simp: order_effect_def submit_doc_panel_def split: prod.splits option.splits)
        (metis snd_conv)+
  next
    case (Move_Submitted panel)
    have "appends ?P b (snd (move_submit (ods_createMovements config (id_of route)) (move_lines lns) panel b))"
      for lns by (rule move_submit_sends) (rule create_calls_send [OF assms])
    with Move_Submitted show ?thesis
      by (auto simp: order_effect_def submit_move_panel_def split: prod.splits option.splits)
        (metis snd_conv)+
  qed
  show "appends ?P b (snd (order_settle config route a (s, b)))"
    using order_call_sends [OF assms, of "id_of route" b a]
    by (auto simp: order_settle_def split: prod.splits sum.splits)
qed

interpretation sales_order_detail: writing_actions "order_effect SalesOrderDetail route"
    "order_offers SalesOrderDetail route" order_action_of order_start "order_settle SalesOrderDetail route"
    order_react "\<lambda>s. s = order_detail_init" "order_request_of ''/sales-orders'' (id_of route)" for route
  using order_detail_writes [of SalesOrderDetail route]
  by (simp add: is_order_detail_def) (simp add: SalesOrderDetail_def)

interpretation purchase_order_detail: writing_actions "order_effect PurchaseOrderDetail route"
    "order_offers PurchaseOrderDetail route" order_action_of order_start
    "order_settle PurchaseOrderDetail route" order_react "\<lambda>s. s = order_detail_init"
    "order_request_of ''/purchase-orders'' (id_of route)" for route
  using order_detail_writes [of PurchaseOrderDetail route]
  by (simp add: is_order_detail_def) (simp add: PurchaseOrderDetail_def)

definition sample_sales_order :: SalesOrderSummary where
  "sample_sales_order = \<lparr>so_id = 7, so_order_number = ''SO-7'', so_customer_id = 3,
     so_order_date = ''2024-02-10'', so_expected_ship_date = None, so_currency_code = ''USD'',
     so_status = ''draft'', so_total = ''32.4425'', so_invoiced_status = ''none'',
     so_shipped_status = ''none'', so_reference = None, so_memo = None\<rparr>"

definition order_detail_server :: "string \<Rightarrow> body" where
  "order_detail_server path =
     (if path = ''/api/customers'' then Master (Customer_List [])
      else if path = ''/api/organizations'' then Master (Organization_List [])
      else if path = ''/api/warehouses'' then Master (Warehouse_List [])
      else if path = ''/api/sales-orders/7'' then Order (SalesOrderSummary_Body sample_sales_order)
      else Order (SalesOrderLine_List []))"

definition order_browser :: "(unit, payload, body) browser" where
  "order_browser = \<lparr>network = answering order_detail_server, world = (), sent = [], events = []\<rparr>"

abbreviation shown_order :: OrderDetail where
  "shown_order \<equiv> show_order (salesHeader sample_sales_order, [], ''#'' @ show_int 3) order_detail_init
     \<lparr>od_warehouses := []\<rparr>"

lemma confirm_in_flight:
  "\<exists>b. reachable (opened (\<lambda>s. s = order_detail_init)) (order_detail_move SalesOrderDetail ''7'')
     (order_start Confirm_Order shown_order, [Confirm_Order], (b :: (unit, payload, body) browser))"
proof -
  let ?R = "reachable (opened (\<lambda>s. s = order_detail_init)) (order_detail_move SalesOrderDetail ''7'')
    :: _ \<times> _ \<times> (unit, payload, body) browser \<Rightarrow> bool"
  have start: "?R (order_detail_init, [], order_browser)"
    by (rule reachable.starting) (simp add: opened_def order_browser_def)
  have n: "network order_browser = answering order_detail_server" by (simp add: order_browser_def)
  obtain b where b: "both_io (load_order_detail SalesOrderDetail 7) listWarehouses order_browser
      = (Inr ((salesHeader sample_sales_order, [], ''#'' @ show_int 3), []), b)"
    using n by (simp add: load_order_detail_def SalesOrderDetail_def fetchCustomerNames_def
      both_io_def map_io_def then_io_def return_io_def getSalesOrder_def getSalesOrderLines_def
      listCustomers_def listOrganizations_def listWarehouses_def get_answering master_as_def
      order_as_def BASE_def order_detail_server_def show_7 customer_names_def name_or_id_def
      salesHeader_def sample_sales_order_def)
  have "order_effect SalesOrderDetail ''7'' (Opened False) (order_detail_init, order_browser)
      = (shown_order, b)"
    by (simp add: order_effect_def order_open_def b order_opened_def)
  then have "order_detail_move SalesOrderDetail ''7'' (order_detail_init, [], order_browser) (shown_order, [], b)"
    unfolding order_detail_move_def by (rule screen_move.effect)
  with start have shown: "?R (shown_order, [], b)" by (rule reachable.moving)
  have "order_offers SalesOrderDetail ''7'' shown_order (Run_Order Confirm_Order)"
    by (simp add: order_offers_run show_order_def order_detail_init_def order_permits_def
        salesHeader_def sample_sales_order_def)
  then have "order_detail_move SalesOrderDetail ''7'' (shown_order, [], b)
      (order_start Confirm_Order shown_order, [] @ [Confirm_Order], b)"
    unfolding order_detail_move_def by (rule screen_move.start) simp
  with shown have "?R (order_start Confirm_Order shown_order, [] @ [Confirm_Order], b)"
    by (rule reachable.moving)
  then show ?thesis by (intro exI) (simp only: append_Nil)
qed

section \<open>Properties\<close>

text \<open>C17. The life cycle of an order is what the screen allows: in every state the screen reaches,
  whatever the order in which loads, reloads, panels and clicks come, at most one life-cycle
  action is in flight, none can be started while one is, and an action is offered exactly when no
  load has failed, the order shown is in a status the action leaves from (confirm and delete a
  draft, close an open order, cancel either) and nothing is in flight.\<close>

theorem order_actions:
  assumes "reachable (opened (\<lambda>s. s = order_detail_init)) (order_detail_move config route) (s, pend, b)"
  shows "(\<exists>a. pend = [a]) \<noteq> (pend = [])
    \<and> (order_offers config route s (Run_Order a) \<longleftrightarrow> (\<exists>order. od_order s = Some order
        \<and> od_lines s \<noteq> None \<and> od_error s = None \<and> \<not> od_acting s \<and> pend = []
        \<and> order_permits (ohv_status order) a))"
proof -
  have l: "length pend \<le> 1" and o: "pend = [] \<or> (\<forall>e. order_offers config route s e \<longrightarrow> order_action_of e = None)"
    using order_screen.at_most_one [OF assms [unfolded order_detail_move_def]] by auto
  have "order_offers config route s (Run_Order a) \<Longrightarrow> pend = []" using o by fastforce
  moreover have "(\<exists>a. pend = [a]) \<noteq> (pend = [])" using l by (cases pend) auto
  ultimately show ?thesis using order_offers_run by blast
qed

theorem order_actions_witness:
  "\<not> order_offers (SalesOrderDetail :: unit order_detail_config) ''7''
    (order_start Confirm_Order shown_order) (Run_Order Cancel_Order)"
proof -
  obtain b where "reachable (opened (\<lambda>s. s = order_detail_init)) (order_detail_move SalesOrderDetail ''7'')
     (order_start Confirm_Order shown_order, [Confirm_Order], (b :: (unit, payload, body) browser))"
    using confirm_in_flight by blast
  from order_actions [OF this, of Cancel_Order] show ?thesis by simp
qed

text \<open>The screen of an order changes that order only: every request it ever makes, its
  fulfilment panels included and whatever is typed into them, is a GET, the deletion of the order
  of its route, or a POST to one of the operations of that order.\<close>

theorem order_touches_own:
  assumes "reachable (opened (\<lambda>s. s = order_detail_init)) (order_detail_move SalesOrderDetail route) (s, as, b)"
    and "reachable (opened (\<lambda>s. s = order_detail_init)) (order_detail_move PurchaseOrderDetail route) (s', as', b')"
  shows "list_all (order_request_of ''/sales-orders'' (id_of route)) (sent b)
    \<and> list_all (order_request_of ''/purchase-orders'' (id_of route)) (sent b')"
proof -
  note s = sales_order_detail.all_allowed [OF assms(1) [unfolded order_detail_move_def]]
  note p = purchase_order_detail.all_allowed [OF assms(2) [unfolded order_detail_move_def]]
  show ?thesis using s p by simp
qed

theorem order_touches_own_witness:
  "\<exists>b :: (unit, payload, body) browser.
    reachable (opened (\<lambda>s. s = order_detail_init)) (order_detail_move SalesOrderDetail ''7'')
      (order_start Confirm_Order shown_order, [Confirm_Order], b)
    \<and> list_all (order_request_of ''/sales-orders'' (id_of ''7'')) (sent b)"
proof -
  obtain b where r: "reachable (opened (\<lambda>s. s = order_detail_init)) (order_detail_move SalesOrderDetail ''7'')
     (order_start Confirm_Order shown_order, [Confirm_Order], (b :: (unit, payload, body) browser))"
    using confirm_in_flight by blast
  have "reachable (opened (\<lambda>s. s = order_detail_init)) (order_detail_move PurchaseOrderDetail ''7'')
      (order_detail_init, [], order_browser)"
    by (rule reachable.starting) (simp add: opened_def order_browser_def)
  from conjunct1 [OF order_touches_own [OF r this]] r show ?thesis by (intro exI conjI)
qed

end
