(* ===== verification/App_Links.thy ===== *)
theory App_Links
  imports Routes Screen_Links Invoice_Form Bill_Form Credit_Form Order_Form Payment_Form Payment_Detail Order_Detail Email_Document
begin

text \<open>
  The composition of the shell's routes (\<open>web/src/App.tsx\<close>) with the screens: the links the list,
  detail and form screens show, in whatever state they are, against the table of routes; and the rows
  of the lists of master data.
\<close>

section \<open>The families of document pages\<close>

lemma document_base_routes:
  assumes "document_base base"
  shows "base \<in> fst ` set routes" "base @ ''/new'' \<in> fst ` set routes"
    "base @ ''/:id'' \<in> fst ` set routes" "base @ ''/:id/edit'' \<in> fst ` set routes"
    "CHR '':'' \<notin> set base"
  using assms plain_routes unfolding document_base_def list_all_iff set_map by blast+

lemma alive_family:
  assumes "ranked router" "document_base base"
  shows "alive router base" "alive router (base @ ''/new'')" "alive router (base @ CHR ''/'' # show_int k)"
    "alive router (base @ CHR ''/'' # show_int k @ ''/edit'')"
  using document_base_routes [OF assms(2)]
    alive_literal [OF assms(1), of base] alive_literal [OF assms(1), of "base @ ''/new''"]
    alive_id [OF assms(1), of base k] alive_under [OF assms(1), of base "''edit''" k]
  by simp_all

lemma alive_journal: "ranked router \<Longrightarrow> alive router (''/journal-entries/'' @ show_int k)"
  using single_routes alive_id [of router "''/journal-entries''" k] by simp

lemma document_bases [simp]:
  "document_base ''/invoices''" "document_base ''/bills''" "document_base ''/credit-notes''"
  "document_base ''/supplier-credits''" "document_base ''/sales-orders''"
  "document_base ''/purchase-orders''" "document_base ''/customer-payments''"
  "document_base ''/supplier-payments''" "document_base ''/stock-movements''"
  by (simp_all add: document_base_def document_bases_def)

text \<open>The same, as rewrite rules for literal bases.\<close>

lemmas alive_invoices = alive_family [of _ "''/invoices''", simplified]
lemmas alive_bills = alive_family [of _ "''/bills''", simplified]
lemmas alive_movements = alive_family(3) [of _ "''/stock-movements''", simplified]

lemma alive_rows:
  "ranked router \<Longrightarrow> document_base base \<Longrightarrow>
    links_alive router (map (\<lambda>x. Link (f x) (base @ CHR ''/'' # show_int (g x))) xs)"
  by (rule links_alive_map) (simp add: alive_family)

section \<open>The screens\<close>

lemma list_links:
  assumes "ranked router"
  shows "document_base (lc_basePath c) \<Longrightarrow> links_alive router (document_list_view c l)"
    "document_base (olc_basePath oc) \<Longrightarrow> links_alive router (order_list_view oc ol)"
    "document_base (plc_basePath pc) \<Longrightarrow> links_alive router (payment_list_view pc pl)"
  using alive_family [OF assms] alive_rows [OF assms]
  by (auto simp: document_list_view_def order_list_view_def payment_list_view_def split: option.split list.split)

lemma alive_pdf: "alive router (CHR ''/'' # CHR ''a'' # CHR ''p'' # CHR ''i'' # CHR ''/'' # rest)"
  using alive_api [of router rest] by simp

lemma alive_pdf_of:
  assumes "document_base base"
  shows "alive router (CHR ''/'' # CHR ''a'' # CHR ''p'' # CHR ''i'' # base @ t)"
proof -
  obtain r where "base = CHR ''/'' # r" using assms by (auto simp: document_base_def document_bases_def)
  then show ?thesis using alive_pdf by simp
qed

lemma detail_links:
  assumes "ranked router" "document_base (dp_backPath p)" "document_base (dp_appliedDocBasePath p) \<or> dp_fetchApplications p = None"
    and "\<And>t. alive router (dp_pdfBasePath p @ CHR ''/'' # t)" "links_alive router panel"
  shows "links_alive router (detail_view p k adm panel d)"
  using assms(2-5) alive_family [OF assms(1)] alive_rows [OF assms(1)] alive_journal [OF assms(1)]
  by (auto simp: detail_view_def detail_actions_view_def detail_lines_view_def
      detail_applications_view_def split: option.split)

lemma payment_detail_links:
  assumes "ranked router" "document_base (pdp_basePath p)" "document_base (pdp_documentBasePath p)"
  shows "links_alive router (payment_detail_view p k adm d)"
  using assms(2,3) alive_family [OF assms(1)] alive_rows [OF assms(1)] alive_journal [OF assms(1)]
  by (auto simp: payment_detail_view_def payment_header_view_def payment_actions_view_def
      payment_applications_view_def Let_def split: option.split)

lemma order_detail_links:
  assumes "ranked router" "document_base (ods_basePath c)" "links_alive router panel"
  shows "links_alive router (order_detail_view c k panel d)"
  using assms(2,3) alive_family [OF assms(1)] alive_rows [OF assms(1), of "''/stock-movements''"] alive_pdf_of
  by (auto simp: order_detail_view_def order_actions_view_def movement_note_view_def order_table_view_def
      Let_def split: option.split)

lemma invoice_form_links: "ranked router \<Longrightarrow> links_alive router (invoice_view k f)"
  using alive_family [of router "''/invoices''"]
  by (auto simp: invoice_view_def header_view_def line_view_def totals_view_def actions_view_def Let_def
      links_alive_concat split: option.split)

lemma bill_form_links: "ranked router \<Longrightarrow> links_alive router (bill_view k f)"
  using alive_family [of router "''/bills''"]
  by (auto simp: bill_view_def bill_header_view_def bill_line_view_def bill_totals_view_def
      bill_actions_view_def Let_def links_alive_concat
      split: option.split)

lemma draft_links:
  assumes "ranked router" "document_base base"
  shows "links_alive router (draft_line_view u ul al f i l)" "links_alive router (draft_totals_view f)"
    "links_alive router [draft_party_view pl f]" "links_alive router (draft_actions_view k base bl f)"
  using alive_family [OF assms]
  by (auto simp: draft_line_view_def draft_totals_view_def draft_party_view_def draft_actions_view_def
      Let_def split: option.split)

lemma credit_form_links:
  assumes "ranked router" "document_base (cp_basePath p)"
  shows "links_alive router (credit_view p k f)"
  using alive_family [OF assms] draft_links [OF assms]
  by (auto simp: credit_view_def credit_header_view_def links_alive_concat draft_party_view_def split: option.split)

lemma order_form_links:
  assumes "ranked router" "document_base (oc_basePath p)"
  shows "links_alive router (order_view p k f)"
  using alive_family [OF assms] draft_links [OF assms]
  by (auto simp: order_view_def order_header_view_def order_lines_view_def order_footer_view_def
      links_alive_concat draft_party_view_def split: option.split)

lemma payment_form_links:
  assumes "ranked router" "document_base (pmp_basePath p)"
  shows "links_alive router (payment_view p k f)"
  using alive_family [OF assms]
  by (auto simp: payment_view_def payment_fields_view_def split: option.split)

lemma app_links:
  assumes "ranked router"
  shows "links_alive router (app_view s)"
proof -
  have n: "links_alive router (map (\<lambda>(path, l). Link l path) (nav_items adm g))"
    if "g \<in> set navGroups" for adm g
  proof (rule links_alive_map)
    fix x assume "x \<in> set (nav_items adm g)"
    then have "x \<in> set (snd g) \<or> x \<in> set adminNavItems" by (auto simp: nav_items_def split: if_splits)
    then have "fst x \<in> fst ` set routes" "CHR '':'' \<notin> set (fst x)"
      using nav_routes that unfolding list_all_iff set_map by blast+
    then have "alive router (fst x)" using alive_literal [OF assms] by blast
    then show "links_alive router [case x of (path, l) \<Rightarrow> Link l path]" by (cases x) simp
  qed
  have "alive router ''/''" using alive_literal [OF assms, of "''/''"] single_routes by simp
  with n show ?thesis
    by (auto simp: app_view_def login_view_def shell_view_def SidebarNav_def links_alive_concat
        split: session.split option.split)
qed

section \<open>Properties\<close>

text \<open>The screens of the documents, whatever their kind.\<close>

definition document_screen :: "'w detail_props \<Rightarrow> 'w list_config \<Rightarrow> string \<Rightarrow> bool" where
  "document_screen p c base \<longleftrightarrow>
     (p, c, base) \<in> set [(InvoiceDetail, Invoices, ''/invoices''), (BillDetail, Bills, ''/bills''),
       (CreditNoteDetail, CreditNotes, ''/credit-notes''),
       (SupplierCreditDetail, SupplierCredits, ''/supplier-credits'')]"

lemma document_screen_bases:
  assumes "document_screen p c base"
  shows "lc_basePath c = base" "dp_backPath p = base" "document_base base"
    "document_base (dp_appliedDocBasePath p) \<or> dp_fetchApplications p = None"
    "\<exists>r. dp_pdfBasePath p = CHR ''/'' # CHR ''a'' # CHR ''p'' # CHR ''i'' # CHR ''/'' # r"
  using assms by (auto simp: document_screen_def detail_screens Invoices_def Bills_def CreditNotes_def SupplierCredits_def)

text \<open>The families of pages: the address, the detail screen and the form.\<close>

definition document_pages :: "(string \<times> string \<times> string) list" where
  "document_pages = [(''/invoices'', ''InvoiceDetail'', ''InvoiceForm''), (''/bills'', ''BillDetail'', ''BillForm''),
     (''/credit-notes'', ''CreditNoteDetail'', ''CreditNoteForm''),
     (''/supplier-credits'', ''SupplierCreditDetail'', ''SupplierCreditForm''),
     (''/sales-orders'', ''SalesOrderDetail'', ''SalesOrderForm''),
     (''/purchase-orders'', ''PurchaseOrderDetail'', ''PurchaseOrderForm''),
     (''/customer-payments'', ''CustomerPaymentDetail'', ''CustomerPaymentForm''),
     (''/supplier-payments'', ''SupplierPaymentDetail'', ''SupplierPaymentForm'')]"

lemma document_pages_unique: "list_all (\<lambda>(base, page, form).
    (let ts = map Some (split_on CHR ''/'' base) in
     route_of (ts @ [None]) = [Page page None] \<and> route_of (ts @ [None, Some ''edit'']) = [Page form (Some Edit)]))
    document_pages"
  by code_simp

lemma map_fill_Some: "map (fill k \<circ> Some) xs = xs"
  by (simp add: fill_def comp_def)

lemma document_page_of:
  assumes "ranked router" "(base, page, form) \<in> set document_pages"
  shows "router routes (base @ CHR ''/'' # show_int n) = Page page None"
    "router routes (base @ CHR ''/'' # show_int n @ ''/edit'') = Page form (Some Edit)"
proof -
  let ?ts = "map Some (split_on CHR ''/'' base)"
  have u: "route_of (?ts @ [None]) = [Page page None]"
    "route_of (?ts @ [None, Some ''edit'']) = [Page form (Some Edit)]"
    using document_pages_unique assms(2) by (auto simp: list_all_iff Let_def)
  have "split_on CHR ''/'' (base @ CHR ''/'' # show_int n) = map (fill n) (?ts @ [None])"
    by (simp add: split_on_join map_fill_Some split_on_show_int) (simp add: fill_def)
  then show "router routes (base @ CHR ''/'' # show_int n) = Page page None"
    using u(1) by (rule page_filled [OF assms(1)])
  have "split_on CHR ''/'' (base @ CHR ''/'' # (show_int n @ CHR ''/'' # ''edit'')) = map (fill n) (?ts @ [None, Some ''edit''])"
    unfolding split_on_join by (simp add: map_fill_Some split_on_show_int) (simp add: fill_def)
  from page_filled [OF assms(1) this u(2)]
  show "router routes (base @ CHR ''/'' # show_int n @ ''/edit'') = Page form (Some Edit)" by simp
qed

lemma panel_links:
  "links_alive router (email_view name ep)" "links_alive router (doc_panel_view label ls dp)"
  "links_alive router (move_panel_view label ws ls mp)"
  by (auto simp: email_view_def doc_panel_view_def move_panel_view_def fulfil_table_view_def Let_def
      intro!: links_alive_map split: option.split)

text \<open>C20. No screen shows a dead link: with a router that ranks as documented, every link of the
  modelled screens, in whatever state the screen is, leads to a page of the route table or to the
  server's own addresses; and the addresses of a document lead to the detail screen and the edit form
  of its own kind. The screens are the shell; the lists, details and forms of all documents, orders
  and payments with their panels; bank statements and stock movements; the calendar; the reports,
  journal entries and the landing screen, when they render; and the lists, forms and settings of
  master data, where the rows of the lists keyed by codes have codes that are not empty.\<close>

theorem no_dead_links:
  assumes "ranked router" "document_screen p c base"
    and "links_alive router email_panel" "links_alive router order_panel"
    and "(base', page, form) \<in> set document_pages"
    and "rows_named l8 (\<lambda>ts. ts) tc_code" "rows_named l9 (\<lambda>ts. ts) pt_code"
    and "rows_named l10 fst xr_currency_code" "rows_named l10 fst xr_rate_date"
  shows "router routes (base' @ CHR ''/'' # show_int n) = Page page None
    \<and> router routes (base' @ CHR ''/'' # show_int n @ ''/edit'') = Page form (Some Edit)
    \<and> links_alive router (app_view app)
    \<and> links_alive router (document_list_view c dl) \<and> links_alive router (detail_view p k adm email_panel d)
    \<and> links_alive router (order_list_view SalesOrders ol) \<and> links_alive router (order_list_view PurchaseOrders ol)
    \<and> links_alive router (order_detail_view SalesOrderDetail k order_panel od)
    \<and> links_alive router (order_detail_view PurchaseOrderDetail k order_panel od)
    \<and> links_alive router (payment_list_view CustomerPayments pl) \<and> links_alive router (payment_list_view SupplierPayments pl)
    \<and> links_alive router (payment_detail_view CustomerPaymentDetail k adm pd)
    \<and> links_alive router (payment_detail_view SupplierPaymentDetail k adm pd)
    \<and> links_alive router (invoice_view e iv) \<and> links_alive router (bill_view e bv)
    \<and> links_alive router (credit_view (CreditNoteForm ed) e df) \<and> links_alive router (credit_view (SupplierCreditForm ed) e df)
    \<and> links_alive router (order_view (SalesOrderForm ed) e odf) \<and> links_alive router (order_view (PurchaseOrderForm ed) e odf)
    \<and> links_alive router (payment_view (CustomerPaymentForm ed) e pf)
    \<and> links_alive router (payment_view (SupplierPaymentForm ed) e pf)
    \<and> links_alive router (email_view name ep) \<and> links_alive router (doc_panel_view label ls dp)
    \<and> links_alive router (move_panel_view label ws ls mp)
    \<and> links_alive router (bank_statements_view bs) \<and> links_alive router (bank_form_view route bf)
    \<and> links_alive router (bank_detail_view k adm bd)
    \<and> links_alive router (stock_movements_view sms) \<and> links_alive router (stock_form_view e sf)
    \<and> links_alive router (stock_detail_view k adm sd)
    \<and> links_alive router (periods_view adm ps) \<and> links_alive router (year_form_view route yf)
    \<and> links_alive router (period_form_view route pdf) \<and> links_alive router (year_close_view yc)
    \<and> shown_alive router (ProfitAndLoss r1) \<and> shown_alive router (BalanceSheetReport r2)
    \<and> shown_alive router (CashFlowStatement r3) \<and> shown_alive router (AccountLedger r4) \<and> shown_alive router (TrialBalance r5)
    \<and> shown_alive router (AgingReport ARAging r6) \<and> shown_alive router (AgingReport APAging r6)
    \<and> shown_alive router (InventoryValuation r7) \<and> shown_alive router (JournalEntryDetail r8)
    \<and> shown_alive router (Dashboard cmp by_due clock r9)
    \<and> links_alive router (Customers l1) \<and> links_alive router (Suppliers l2) \<and> links_alive router (Organizations l3)
    \<and> links_alive router (Products l4) \<and> links_alive router (Warehouses l5) \<and> links_alive router (ChartOfAccounts l6)
    \<and> links_alive router (Users l7) \<and> links_alive router (TaxCodes l8) \<and> links_alive router (PaymentTerms l9)
    \<and> links_alive router (ExchangeRates l10)
    \<and> links_alive router (WarehouseForm key wrf) \<and> links_alive router (OrganizationForm key gf)
    \<and> links_alive router (AccountForm key af) \<and> links_alive router (ProductForm key prf) \<and> links_alive router (CustomerForm key cf)
    \<and> links_alive router (SupplierForm key spf) \<and> links_alive router (UserForm key uf) \<and> links_alive router (PaymentTermForm key tf)
    \<and> links_alive router (TaxCodeForm key xf) \<and> links_alive router (ExchangeRateForm q rf)
    \<and> links_alive router (settings_view user ss)"
proof -
  note b = document_screen_bases [OF assms(2)]
  have pdf: "alive router (dp_pdfBasePath p @ CHR ''/'' # t)" for t
    using b(5) alive_pdf by fastforce
  note r = assms(1)
  show ?thesis
    by (intro conjI app_links [OF r] list_links [OF r] detail_links [OF r] order_detail_links [OF r]
        payment_detail_links [OF r] invoice_form_links [OF r] bill_form_links [OF r] credit_form_links [OF r]
        order_form_links [OF r] payment_form_links [OF r] document_page_of [OF r assms(5)] assms(3,4) b pdf
        panel_links bank_links [OF r] stock_links [OF r] calendar_links [OF r] report_links [OF r] dashboard_links [OF r]
        list_page_links [OF r] code_list_links [OF r] form_page_links [OF r] assms(6-9))
      (simp_all add: b SalesOrders_def PurchaseOrders_def CustomerPayments_def SupplierPayments_def
        SalesOrderDetail_def PurchaseOrderDetail_def payment_screens CreditNoteForm_def SupplierCreditForm_def
        SalesOrderForm_def PurchaseOrderForm_def CustomerPaymentForm_def SupplierPaymentForm_def)
qed

definition slash_code :: TaxCode where
  "slash_code = \<lparr>tc_code = ''A/B'', tc_name = ''Both'', tc_rate = ''5'', tc_tax_account_id = None, tc_is_active = True\<rparr>"

theorem no_dead_links_witness:
  "ranking_router routes (''/bills/'' @ show_int 12) = Page ''BillDetail'' None
   \<and> links_alive ranking_router (TaxCodes \<lparr>rp_query = (), rp_data = Some [slash_code], rp_error = None\<rparr>)"
proof -
  have c: "document_screen (InvoiceDetail :: unit detail_props) Invoices ''/invoices''"
    by (simp add: document_screen_def)
  have g: "(''/bills'', ''BillDetail'', ''BillForm'') \<in> set document_pages"
    by (simp add: document_pages_def)
  have p: "links_alive ranking_router []" by simp
  have n: "rows_named \<lparr>rp_query = (), rp_data = Some [slash_code], rp_error = None\<rparr> (\<lambda>ts. ts) tc_code"
    by (simp add: rows_named_def slash_code_def)
  have e: "rows_named (report_init () :: (unit, 'd) report) rws key" for rws key
    by (simp add: rows_named_def report_init_def)
  note all = no_dead_links [OF ranking_router_ranked c p p g n e e e, where n = 12]
  have "ranking_router routes (''/bills'' @ CHR ''/'' # show_int 12) = Page ''BillDetail'' None" by (rule conjunct1 [OF all])
  moreover have "links_alive ranking_router (TaxCodes \<lparr>rp_query = (), rp_data = Some [slash_code], rp_error = None\<rparr>)"
    by (simp only: all)
  ultimately show ?thesis by simp
qed

section \<open>The rows of master data\<close>







end
