(* ===== verification/Spec2Isabelle.thy ===== *)
theory Spec2Isabelle
  imports Amount Dates Api Invoice_Form Bill_Form Document_Detail Email_Document Order_Form App_Links Bank_Detail Stock_Detail Periods Reports Dashboard Master_Data
begin

text \<open>
  Verification of the web front end of tadmor, the TypeScript program under \<open>web/src\<close>: a React
  application for double-entry bookkeeping (a ledger, sales and purchase documents, orders, payments,
  bank reconciliation, stock, reports) that talks to the server of the repository through a typed
  fetch client.

  \<^bold>\<open>The program and its model.\<close> A screen is a React component: its hooks are a state, an effect loads
  data when it is mounted or its route changes, handlers answer what the user does, and the body
  renders the state. Here the hooks of a component are a record; the effect and every handler are
  functions on the state and a browser; the body is a list of elements (headings, alerts, links,
  buttons, fields, selects, tables; theory Screens) with the events they offer. A browser holds the
  network, an arbitrary function from a request and the state of the server to a reply and the next
  state, and records the requests sent and the events dispatched. A promise chain is a function from
  the browser to an outcome, an exception or a value, and the next browser; \<open>Promise.all\<close> runs its
  calls in order and fails with the first exception. A throw in a pure function is \<open>None\<close>. Nothing
  is assumed of the server except where a theorem names it. Runs are the states reachable from the
  initial one by effects and offered events; where the code has a promise in flight while the screen
  stays live, starting and settling it are separate moves, in any order with the others (theories
  Actions, Report_State, Session).

  \<^bold>\<open>The theories, by the files they model.\<close>
  \<^item> Prelude, Numbers, Urls: the parts of the JavaScript library in use: strings, \<open>Number\<close>, \<open>String\<close>,
    \<open>BigInt\<close>, \<open>encodeURIComponent\<close>, \<open>URLSearchParams\<close>.
  \<^item> Amount: \<open>lib/amount.ts\<close>, exact decimals with four places. Sums are exact for every list; a
    line's net and tax are the rationals rounded half away from zero; \<open>roundDiv\<close> equals that
    specification; display keeps two places and only drops zeros.
  \<^item> Dates: \<open>lib/dates.ts\<close>; adding days agrees with a day count of the Gregorian calendar.
  \<^item> Client, Wire_Master, Wire_Ledger, Wire_Documents, Wire_Orders, Wire, Resource, Api_Master,
    Api_Ledger, Api_Documents, Api_Orders, Api: \<open>lib/api.ts\<close>: the fetch client, one record per wire
    type, one definition per call; the contract of a REST resource as locales interpreted on every
    resource; how failures surface and when the session is dropped.
  \<^item> Screens, Forms, Actions, Progress, Report_State: elements, events and runs; the contracts of
    forms (one request per submission, an edit form that never writes a locked record), of screens
    with actions (one in flight, only on the record of the route, every write traced back to an
    offer), of actions that always end, and of
    screens that show the answer to their current query.
  \<^item> Session: \<open>App.tsx\<close>, \<open>login-form.tsx\<close>, \<open>lib/current-user.ts\<close>: the session probe, sign-in and
    sign-out, the unauthorized event. Routes: the route table of \<open>App.tsx\<close>.
    Screen_Links, App_Links: the links of the screens against the table.
  \<^item> Document_List, Document_Detail, Email_Document, Invoice_Form, Bill_Form, Draft_Form, Credit_Form:
    \<open>document-list.tsx\<close>, \<open>document-detail.tsx\<close>, \<open>email-document.tsx\<close>, \<open>invoice-form.tsx\<close>,
    \<open>bill-form.tsx\<close>, \<open>credit-note-form.tsx\<close> and what the last shares with the order form.
  \<^item> Order_List, Order_Form, Fulfilment, Order_Detail: \<open>order-list.tsx\<close>, \<open>order-form.tsx\<close>,
    \<open>order-detail.tsx\<close> with its two fulfilment panels.
  \<^item> Payment_List, Payment_Form, Payment_Detail: \<open>payment-list.tsx\<close>, \<open>payment-form.tsx\<close>,
    \<open>payment-detail.tsx\<close>.
  \<^item> Bank_Statement, Bank_Detail: \<open>bank-statements.tsx\<close>, \<open>bank-statement-form.tsx\<close>,
    \<open>bank-statement-detail.tsx\<close>.
  \<^item> Stock_Movement, Stock_Detail: \<open>stock-movements.tsx\<close>, \<open>stock-movement-form.tsx\<close>,
    \<open>stock-movement-detail.tsx\<close>.
  \<^item> Calendar_Forms, Periods: \<open>fiscal-year-form.tsx\<close>, \<open>period-form.tsx\<close>, \<open>fiscal-year-close.tsx\<close>,
    \<open>periods.tsx\<close>.
  \<^item> Reports: \<open>profit-and-loss.tsx\<close>, \<open>balance-sheet.tsx\<close>, \<open>cash-flow.tsx\<close>, \<open>account-ledger.tsx\<close>,
    \<open>trial-balance.tsx\<close>, \<open>aging-report.tsx\<close>, \<open>inventory-valuation.tsx\<close>, \<open>journal-entry.tsx\<close>.
    Dashboard: \<open>dashboard.tsx\<close>.
  \<^item> Master_List: the ten lists of master data (\<open>customers.tsx\<close> to \<open>users.tsx\<close>). Master_Form,
    Party_Form, User_Form: the forms of warehouses, payment terms, tax codes, organizations, exchange
    rates, accounts, products, customers, suppliers and users, and \<open>settings.tsx\<close>. Master_Data: what
    holds of all of them.

  This theory adds what spans the detail screens: they refine one abstract machine with a single
  slot for the action in flight, and never wait for ever.

  \<^bold>\<open>What the groups of lemmas show.\<close> Arithmetic: exactness, rounding and the rendering of amounts.
  Client: what each call gives for every reply, and that a refusal carries its message. Forms: which
  input each form sends and what every outcome does to it (an update is answered 204 without a body,
  which is not read), that opening a record and saving it sends the record back, that a record that is
  posted or locked is never written. Details: which actions each state offers, one at a time, on the
  record of the route only; on a bank statement every write goes back to an action that was offered. Reports: every total is the exact sum of its rows, and a stale answer is never shown.
  Shell: what a user who is signed out sees, and that no link is dead.

  \<^bold>\<open>Bounds.\<close> All recursion is structural; there is no fuel. Ids are unbounded integers: the server's
  are 64-bit numbers read as JavaScript numbers, exact below 2 to the power of 53. Amounts are
  BigInts in the code and \<^typ>\<open>int\<close> here. A string has one \<^typ>\<open>char\<close> per code unit, so code units above
  255 are outside the model; the typographic characters of the markup (the ellipsis, dashes, arrows,
  the middle dot) are written in ASCII. \<open>Number\<close> is exact on the decimal literals the forms read.

  A JSON body of another shape than the type a call names, which the code would take unchecked, is the
  exception \<open>Shape_Error\<close> here: it is outside the contract of the server.

  \<^bold>\<open>Parameters.\<close> The network; the clock (the UTC date, the local date, the year); the router library, assumed to rank routes as documented (the fewest
  parameters win, letters match in either case); the collation of the dashboard's currency codes.
  Confirmation dialogs are taken as accepted, since a declined one changes nothing.

  \<^bold>\<open>Not modelled.\<close> The vendored components of \<open>components/ui\<close> (markup and class names, one element
  each here), \<open>lib/utils.ts\<close> (merges class names), \<open>main.tsx\<close> (mounts the application), layout,
  icons, placeholders and styles of the markup, the toggle that shows a password as text beyond its
  state in the sign-in form, and React's own scheduling. The Go server, its SQL schema and the
  browser tests are other programs; the server appears as the network.
\<close>

section \<open>Properties that span the detail screens\<close>

text \<open>C22. The detail screens of documents, orders and payments refine one abstract machine with a
  single slot for the action in flight: every move of a screen leaves the slot as it is, or begins
  an action in the idle slot, or ends the one in it, or leaves for another page; a screen that has
  left never begins an action again.\<close>

theorem details_refine_slot:
  assumes "reachable (opened (\<lambda>s. s = detail_init)) (detail_move p route adm) x" "detail_move p route adm x y"
    and "reachable (opened (\<lambda>s. s = order_detail_init)) (order_detail_move c route) v" "order_detail_move c route v w"
    and "reachable (opened (\<lambda>s. s = payment_detail_init)) (payment_detail_move q route adm) t"
      "payment_detail_move q route adm t u"
  shows "(slot_of dd_acting y = slot_of dd_acting x \<or> slot_step (slot_of dd_acting x) (slot_of dd_acting y))
    \<and> (slot_of dd_acting y = Left \<longrightarrow> dd_navigated (fst y) \<noteq> None)
    \<and> (slot_of od_acting w = slot_of od_acting v \<or> slot_step (slot_of od_acting v) (slot_of od_acting w))
    \<and> (slot_of od_acting w = Left \<longrightarrow> od_navigated (fst w) \<noteq> None)
    \<and> (slot_of pd_acting u = slot_of pd_acting t \<or> slot_step (slot_of pd_acting t) (slot_of pd_acting u))
    \<and> (slot_of pd_acting u = Left \<longrightarrow> pd_navigated (fst u) \<noteq> None)"
  using detail_slot.refines_slot [OF assms(1,2) [unfolded detail_move_def]]
    order_slot.refines_slot [OF assms(3,4) [unfolded order_detail_move_def]]
    payment_slot.refines_slot [OF assms(5,6) [unfolded payment_detail_move_def]]
  by simp

theorem details_refine_slot_witness:
  "\<exists>y. detail_move (InvoiceDetail :: unit detail_props) ''7'' True (detail_init, [], detail_browser) y
    \<and> (slot_of dd_acting y = Idle \<or> slot_step Idle (slot_of dd_acting y))"
proof -
  let ?b = "detail_browser :: (unit, payload, body) browser"
  have r: "reachable (opened (\<lambda>s. s = detail_init)) (detail_move InvoiceDetail ''7'' True) (detail_init, [], ?b)"
    "reachable (opened (\<lambda>s. s = order_detail_init)) (order_detail_move SalesOrderDetail ''7'') (order_detail_init, [], ?b)"
    "reachable (opened (\<lambda>s. s = payment_detail_init)) (payment_detail_move CustomerPaymentDetail ''7'' True)
      (payment_detail_init, [], ?b)"
    by (rule reachable.starting; simp add: opened_def detail_browser_def)+
  obtain d b1 where "detail_effect InvoiceDetail ''7'' False (detail_init, ?b) = (d, b1)"
    by (cases "detail_effect InvoiceDetail ''7'' False (detail_init, ?b)")
  then have m1: "detail_move InvoiceDetail ''7'' True (detail_init, [], ?b) (d, [], b1)"
    unfolding detail_move_def by (rule screen_move.effect)
  obtain o' b2 where "order_effect SalesOrderDetail ''7'' Reloaded (order_detail_init, ?b) = (o', b2)"
    by (cases "order_effect SalesOrderDetail ''7'' Reloaded (order_detail_init, ?b)")
  then have m2: "order_detail_move SalesOrderDetail ''7'' (order_detail_init, [], ?b) (o', [], b2)"
    unfolding order_detail_move_def by (rule screen_move.effect)
  obtain q b3 where "payment_effect CustomerPaymentDetail ''7'' False (payment_detail_init, ?b) = (q, b3)"
    by (cases "payment_effect CustomerPaymentDetail ''7'' False (payment_detail_init, ?b)")
  then have m3: "payment_detail_move CustomerPaymentDetail ''7'' True (payment_detail_init, [], ?b) (q, [], b3)"
    unfolding payment_detail_move_def by (rule screen_move.effect)
  have "slot_of dd_acting (detail_init, [] :: detail_action list, ?b) = Idle"
    by (simp add: slot_of_def detail_init_def)
  with conjunct1 [OF details_refine_slot [OF r(1) m1 r(2) m2 r(3) m3]] m1 show ?thesis
    by (intro exI [of _ "(d, [], b1)"]) simp
qed

text \<open>C23. No detail screen waits for ever: whenever a screen of a document, an order or a payment is
  acting and has not set out for another page, exactly one action is in flight, it can settle at
  once whatever the server answers, and the buttons of the screen then work again or it is left.\<close>

theorem details_settle:
  assumes "reachable (opened (\<lambda>s. s = detail_init)) (detail_move p route adm) (d, as, b)"
      "dd_acting d" "dd_navigated d = None"
    and "reachable (opened (\<lambda>s. s = order_detail_init)) (order_detail_move c route) (o', os, b')"
      "od_acting o'" "od_navigated o' = None"
    and "reachable (opened (\<lambda>s. s = payment_detail_init)) (payment_detail_move q route adm) (pd, ps, b'')"
      "pd_acting pd" "pd_navigated pd = None"
  shows "(\<exists>a s c. as = [a] \<and> detail_move p route adm (d, as, b) (s, [], c) \<and> (\<not> dd_acting s \<or> dd_navigated s \<noteq> None))
    \<and> (\<exists>a s c'. os = [a] \<and> order_detail_move c route (o', os, b') (s, [], c') \<and> (\<not> od_acting s \<or> od_navigated s \<noteq> None))
    \<and> (\<exists>a s c. ps = [a] \<and> payment_detail_move q route adm (pd, ps, b'') (s, [], c)
        \<and> (\<not> pd_acting s \<or> pd_navigated s \<noteq> None))"
proof (intro conjI)
  show "\<exists>a s c. as = [a] \<and> detail_move p route adm (d, as, b) (s, [], c) \<and> (\<not> dd_acting s \<or> dd_navigated s \<noteq> None)"
    using detail_slot.settles [OF assms(1) [unfolded detail_move_def] assms(2)] assms(3)
    unfolding detail_move_def Let_def by blast
  show "\<exists>a s c'. os = [a] \<and> order_detail_move c route (o', os, b') (s, [], c') \<and> (\<not> od_acting s \<or> od_navigated s \<noteq> None)"
    using order_slot.settles [OF assms(4) [unfolded order_detail_move_def] assms(5)] assms(6)
    unfolding order_detail_move_def Let_def by blast
  show "\<exists>a s c. ps = [a] \<and> payment_detail_move q route adm (pd, ps, b'') (s, [], c)
      \<and> (\<not> pd_acting s \<or> pd_navigated s \<noteq> None)"
    using payment_slot.settles [OF assms(7) [unfolded payment_detail_move_def] assms(8)] assms(9)
    unfolding payment_detail_move_def Let_def by blast
qed

lemma posting_in_flight:
  "\<exists>b. reachable (opened (\<lambda>s. s = detail_init)) (detail_move InvoiceDetail ''7'' True)
     (run_start Post_It (show_detail (fromSalesInvoice sample_invoice, [], [], ''#'' @ show_int 3) detail_init),
       [Post_It], (b :: (unit, payload, body) browser))"
proof -
  let ?s = "show_detail (fromSalesInvoice sample_invoice, [], [], ''#'' @ show_int 3) detail_init"
  obtain b where r: "reachable (opened (\<lambda>s. s = detail_init)) (detail_move InvoiceDetail ''7'' True) (?s, [],
      (b :: (unit, payload, body) browser))" using detail_shown by blast
  have "detail_offers InvoiceDetail ''7'' True ?s (Run Post_It)"
    by (simp add: detail_offers_run show_detail_def detail_init_def permitted_def
        fromSalesInvoice_def sample_invoice_def amounts_def Let_def)
  then have "detail_move InvoiceDetail ''7'' True (?s, [], b) (run_start Post_It ?s, [] @ [Post_It], b)"
    unfolding detail_move_def by (rule screen_move.start) simp
  with r have "reachable (opened (\<lambda>s. s = detail_init)) (detail_move InvoiceDetail ''7'' True)
      (run_start Post_It ?s, [] @ [Post_It], b)"
    by (rule reachable.moving)
  then show ?thesis by (intro exI) (simp only: append_Nil)
qed

lemma unposting_in_flight:
  "\<exists>b. reachable (opened (\<lambda>s. s = payment_detail_init)) (payment_detail_move CustomerPaymentDetail ''7'' True)
     (payment_start Unpost_It shown_payment, [Unpost_It], (b :: (unit, payload, body) browser))"
proof -
  obtain b where r: "reachable (opened (\<lambda>s. s = payment_detail_init))
      (payment_detail_move CustomerPaymentDetail ''7'' True) (shown_payment, [], (b :: (unit, payload, body) browser))"
    using payment_shown by blast
  have "payment_offers CustomerPaymentDetail ''7'' True shown_payment Unpost_It"
    by (simp add: payment_offers_action show_payment_def payment_detail_init_def payment_permits_def
        fromCustomerPayment_def paymentAmounts_def posted_payment_def Let_def)
  then have "payment_detail_move CustomerPaymentDetail ''7'' True (shown_payment, [], b)
      (payment_start Unpost_It shown_payment, [] @ [Unpost_It], b)"
    unfolding payment_detail_move_def by (rule screen_move.start) simp
  with r have "reachable (opened (\<lambda>s. s = payment_detail_init)) (payment_detail_move CustomerPaymentDetail ''7'' True)
      (payment_start Unpost_It shown_payment, [] @ [Unpost_It], b)"
    by (rule reachable.moving)
  then show ?thesis by (intro exI) (simp only: append_Nil)
qed

theorem details_settle_witness:
  "\<exists>d s. \<exists>b c :: (unit, payload, body) browser. detail_move InvoiceDetail ''7'' True (d, [Post_It], b) (s, [], c)
    \<and> dd_acting d"
proof -
  let ?d = "run_start Post_It (show_detail (fromSalesInvoice sample_invoice, [], [], ''#'' @ show_int 3) detail_init)"
  obtain b where d: "reachable (opened (\<lambda>s. s = detail_init)) (detail_move InvoiceDetail ''7'' True)
     (?d, [Post_It], (b :: (unit, payload, body) browser))" using posting_in_flight by blast
  obtain b' where o: "reachable (opened (\<lambda>s. s = order_detail_init)) (order_detail_move SalesOrderDetail ''7'')
     (order_start Confirm_Order shown_order, [Confirm_Order], (b' :: (unit, payload, body) browser))"
    using confirm_in_flight by blast
  obtain b'' where p: "reachable (opened (\<lambda>s. s = payment_detail_init)) (payment_detail_move CustomerPaymentDetail ''7'' True)
     (payment_start Unpost_It shown_payment, [Unpost_It], (b'' :: (unit, payload, body) browser))"
    using unposting_in_flight by blast
  have a: "dd_acting ?d" "dd_navigated ?d = None"
    by (simp_all add: run_start_def show_detail_def detail_init_def)
  have oa: "od_acting (order_start Confirm_Order shown_order)" "od_navigated (order_start Confirm_Order shown_order) = None"
    by (simp_all add: order_start_def show_order_def order_detail_init_def)
  have pa: "pd_acting (payment_start Unpost_It shown_payment)" "pd_navigated (payment_start Unpost_It shown_payment) = None"
    by (simp_all add: payment_start_def show_payment_def payment_detail_init_def)
  obtain a s c where "[Post_It] = [a]" "detail_move InvoiceDetail ''7'' True (?d, [Post_It], b) (s, [], c)"
    using conjunct1 [OF details_settle [OF d a o oa p pa]] by blast
  with a(1) show ?thesis by blast
qed

end
